(* ===== verification/Prelude.thy ===== *)
theory Prelude
  imports Main "HOL-Library.Word" "HOL-Library.Multiset" "HOL-Library.Char_ord"
    "HOL-Library.List_Lexorder"
begin

text \<open>
  What every component shares: error results (a Go function returning a value and an
  \<open>error\<close> is a function into \<open>'e + 'a\<close>, with \<open>Inl\<close> for the early return), the fixed-width
  conversions of Go, \<open>for\<close> loops over an index range, list facts, and the collections of
  simplification rules the component theories extend.

  Go's \<open>int\<close> is 64 bits wide.  Where a value of the source can leave that range the model
  writes the wrap-around out (\<open>int64\<close>, \<open>int32\<close>, \<open>int16\<close> below, by \<open>signed_take_bit\<close>); counters,
  indices and lengths are \<open>nat\<close>.
\<close>

named_theorems result_simps
named_theorems go_simps

section \<open>Error results\<close>

text \<open>
  \<open>x, err := f(); if err != nil { return nil, err }\<close> is \<open>res_bind\<close>, and a guard
  \<open>if !b { return nil, e }\<close> is \<open>res_bind (ensure b e)\<close>.
\<close>

fun res_bind :: "'e + 'a \<Rightarrow> ('a \<Rightarrow> 'e + 'b) \<Rightarrow> 'e + 'b" where
  "res_bind (Inl e) f = Inl e"
| "res_bind (Inr x) f = f x"

definition ensure :: "bool \<Rightarrow> 'e \<Rightarrow> 'e + unit" where
  "ensure b e = (if b then Inr () else Inl e)"

definition opt_res :: "'e \<Rightarrow> 'a option \<Rightarrow> 'e + 'a" where
  "opt_res e m = (case m of None \<Rightarrow> Inl e | Some x \<Rightarrow> Inr x)"

fun res_map_err :: "('e \<Rightarrow> 'f) \<Rightarrow> 'e + 'a \<Rightarrow> 'f + 'a" where
  "res_map_err g (Inl e) = Inl (g e)"
| "res_map_err g (Inr x) = Inr x"

definition is_ok :: "'e + 'a \<Rightarrow> bool" where
  "is_ok r = (case r of Inl _ \<Rightarrow> False | Inr _ \<Rightarrow> True)"

lemma res_bind_eq_Inr [result_simps]:
  "res_bind r f = Inr y \<longleftrightarrow> (\<exists>x. r = Inr x \<and> f x = Inr y)"
  by (cases r) auto

lemma res_bind_eq_Inl [result_simps]:
  "res_bind r f = Inl e \<longleftrightarrow> r = Inl e \<or> (\<exists>x. r = Inr x \<and> f x = Inl e)"
  by (cases r) auto

lemma ensure_eq_Inr [result_simps, simp]: "ensure b e = Inr u \<longleftrightarrow> b"
  by (simp add: ensure_def)

lemma ensure_eq_Inl [result_simps, simp]: "ensure b e = Inl e' \<longleftrightarrow> \<not> b \<and> e' = e"
  by (auto simp: ensure_def)

lemma ensure_True [simp]: "ensure True e = Inr ()"
  by (simp add: ensure_def)

lemma ensure_False [simp]: "ensure False e = Inl e"
  by (simp add: ensure_def)

lemma opt_res_eq_Inr [result_simps, simp]: "opt_res e m = Inr x \<longleftrightarrow> m = Some x"
  by (auto simp: opt_res_def split: option.splits)

lemma opt_res_eq_Inl [result_simps, simp]: "opt_res e m = Inl e' \<longleftrightarrow> m = None \<and> e' = e"
  by (auto simp: opt_res_def split: option.splits)

lemma opt_res_Some [simp]: "opt_res e (Some x) = Inr x"
  by (simp add: opt_res_def)

lemma opt_res_None [simp]: "opt_res e None = Inl e"
  by (simp add: opt_res_def)

lemma res_map_err_eq_Inr [result_simps, simp]: "res_map_err g r = Inr x \<longleftrightarrow> r = Inr x"
  by (cases r) auto

lemma is_ok_simps [simp]: "is_ok (Inr x)" "\<not> is_ok (Inl e)"
  by (simp_all add: is_ok_def)

section \<open>Fixed-width integers\<close>

definition int64 :: "int \<Rightarrow> int" where
  "int64 x = signed_take_bit 63 x"

definition int32 :: "int \<Rightarrow> int" where
  "int32 x = signed_take_bit 31 x"

definition int16 :: "int \<Rightarrow> int" where
  "int16 x = signed_take_bit 15 x"

lemma int64_id: "- (2 ^ 63) \<le> x \<Longrightarrow> x < 2 ^ 63 \<Longrightarrow> int64 x = x"
  by (simp add: int64_def signed_take_bit_int_eq_self)

lemma int32_id: "- (2 ^ 31) \<le> x \<Longrightarrow> x < 2 ^ 31 \<Longrightarrow> int32 x = x"
  by (simp add: int32_def signed_take_bit_int_eq_self)

lemma int16_id: "- (2 ^ 15) \<le> x \<Longrightarrow> x < 2 ^ 15 \<Longrightarrow> int16 x = x"
  by (simp add: int16_def signed_take_bit_int_eq_self)

lemma int64_range: "- (2 ^ 63) \<le> int64 x" "int64 x < 2 ^ 63"
  unfolding int64_def
  by (rule signed_take_bit_int_greater_eq_minus_exp, rule signed_take_bit_int_less_exp)

lemma int32_range: "- (2 ^ 31) \<le> int32 x" "int32 x < 2 ^ 31"
  unfolding int32_def
  by (rule signed_take_bit_int_greater_eq_minus_exp, rule signed_take_bit_int_less_exp)

lemma int64_add [simp]: "int64 (int64 a + b) = int64 (a + b)"
  unfolding int64_def by (metis signed_take_bit_add signed_take_bit_signed_take_bit min.idem)

lemma int64_0 [simp]: "int64 0 = 0"
  by (simp add: int64_def)

lemma int64_add_right [simp]: "int64 (a + int64 b) = int64 (a + b)"
  using int64_add[of b a] by (simp add: add.commute)

lemma int64_diff_left [simp]: "int64 (int64 a - b) = int64 (a - b)"
  using int64_add[of a "- b"] by simp

lemma int64_idem [simp]: "int64 (int64 a) = int64 a"
  using int64_add[of a 0] by simp

lemma int64_diff [simp]: "int64 (int64 a - int64 b) = int64 (a - b)"
  unfolding int64_def by (metis signed_take_bit_diff signed_take_bit_signed_take_bit min.idem)

section \<open>Decimal numerals\<close>

text \<open>\<open>fmt.Sprintf("%d", n)\<close> for \<open>n \<ge> 0\<close>: the decimal digits of \<open>n\<close>.\<close>

fun nat_str :: "nat \<Rightarrow> string" where
  "nat_str n = (if n < 10 then [char_of (48 + n)]
     else nat_str (n div 10) @ [char_of (48 + n mod 10)])"

declare nat_str.simps [simp del]

definition str_nat :: "string \<Rightarrow> nat" where
  "str_nat cs = foldl (\<lambda>acc c. acc * 10 + (of_char c - 48)) 0 cs"

lemma of_char_digit: "d < 10 \<Longrightarrow> of_char (char_of (48 + d)) - 48 = (d :: nat)"
  by simp

lemma str_nat_nat_str [simp]: "str_nat (nat_str n) = n"
proof (induction n rule: nat_str.induct)
  case (1 n)
  then show ?case
    by (cases "n < 10") (simp_all add: nat_str.simps[of n] str_nat_def of_char_digit)
qed

lemma nat_str_inject [simp]: "nat_str m = nat_str n \<longleftrightarrow> m = n"
  by (metis str_nat_nat_str)

lemma nat_str_nonempty [simp]: "nat_str n \<noteq> []"
  by (simp add: nat_str.simps[of n])

section \<open>Loops over an index range\<close>

text \<open>\<open>for i := a; i < b; i++ { s = body(i, s) }\<close>\<close>

definition for_range :: "nat \<Rightarrow> nat \<Rightarrow> (nat \<Rightarrow> 's \<Rightarrow> 's) \<Rightarrow> 's \<Rightarrow> 's" where
  "for_range a b body s = fold body [a..<b] s"

lemma for_range_invariant:
  assumes "P a s" and "a \<le> b"
    and "\<And>i s. a \<le> i \<Longrightarrow> i < b \<Longrightarrow> P i s \<Longrightarrow> P (Suc i) (body i s)"
  shows "P b (for_range a b body s)"
proof -
  have "P (a + k) (fold body [a..<a + k] s)" if "a + k \<le> b" for k
    using that
  proof (induction k)
    case 0
    then show ?case using assms(1) by simp
  next
    case (Suc k)
    then show ?case using assms(3)[of "a + k"] by simp
  qed
  from this[of "b - a"] assms(2) show ?thesis
    by (simp add: for_range_def)
qed

lemma for_range_Suc: "a \<le> b \<Longrightarrow> for_range a (Suc b) body s = body b (for_range a b body s)"
  by (simp add: for_range_def)

lemma for_range_empty [simp]: "b \<le> a \<Longrightarrow> for_range a b body s = s"
  by (simp add: for_range_def)

section \<open>Lists\<close>

text \<open>\<open>for _, x := range xs { ms = append(ms, f(len(ms), x)) }\<close>\<close>

definition append_each :: "(nat \<Rightarrow> 'a \<Rightarrow> 'b) \<Rightarrow> 'a list \<Rightarrow> 'b list \<Rightarrow> 'b list" where
  "append_each f xs ms = fold (\<lambda>x ms. ms @ [f (length ms) x]) xs ms"

lemma append_each_enumerate:
  "append_each f xs ms = ms @ map (\<lambda>(i, x). f i x) (enumerate (length ms) xs)"
  by (induction xs arbitrary: ms) (simp_all add: append_each_def)

lemma length_append_each [simp]: "length (append_each f xs ms) = length ms + length xs"
  by (simp add: append_each_enumerate)

lemma append_each_append: "append_each f (xs @ ys) ms = append_each f ys (append_each f xs ms)"
  by (simp add: append_each_def)

lemma find_SomeD: "find P rows = Some r \<Longrightarrow> r \<in> set rows \<and> P r"
  by (auto simp: find_Some_iff)

lemma length_filter_concat:
  "length (filter P (concat xss)) = sum_list (map (\<lambda>xs. length (filter P xs)) xss)"
  by (induction xss) simp_all

lemma sum_list_const: "(\<And>x. x \<in> set xs \<Longrightarrow> f x = (c :: nat)) \<Longrightarrow> sum_list (map f xs) = length xs * c"
  by (induction xs) auto

lemma sum_list_at_most_one:
  assumes "distinct xs" "\<And>x. x \<in> set xs \<Longrightarrow> f x \<le> (if x = k then 1 else 0 :: nat)"
  shows "sum_list (map f xs) \<le> 1"
proof -
  have "sum_list (map f xs) \<le> sum_list (map (\<lambda>x. if x = k then 1 else 0) xs)"
    using assms(2) by (intro sum_list_mono) auto
  also have "\<dots> = count_list xs k"
    by (induction xs) auto
  also have "\<dots> \<le> 1"
    using assms(1) by (induction xs) (auto simp: count_list_0_iff)
  finally show ?thesis .
qed

lemma length_le_1:
  assumes "distinct xs" "\<And>x y. x \<in> set xs \<Longrightarrow> y \<in> set xs \<Longrightarrow> x = y"
  shows "length xs \<le> 1"
proof -
  have "card (set xs) \<le> Suc 0"
    using assms(2) by (subst card_le_Suc0_iff_eq) blast+
  then show ?thesis using distinct_card[OF assms(1)] by simp
qed

lemma length_filter_eq_1:
  assumes "distinct (map f xs)" "y \<in> set (map f xs)"
  shows "length (filter (\<lambda>x. f x = y) xs) = 1"
  using assms
proof (induction xs)
  case (Cons x xs)
  have "f z \<noteq> f x" if "z \<in> set xs" for z
    using Cons.prems(1) imageI[OF that, of f] by auto
  then have "filter (\<lambda>z. f z = f x) xs = []" by (simp add: filter_empty_conv)
  with Cons show ?case by auto
qed simp

lemma mset_filter_partition:
  "mset (filter P xs) + mset (filter (\<lambda>x. \<not> P x) xs) = mset xs"
  by (induction xs) auto

lemma sum_list_map_cong: "(\<And>x. x \<in> set xs \<Longrightarrow> f x = g x) \<Longrightarrow> sum_list (map f xs) = sum_list (map g xs)"
  by (metis map_cong)

lemma card_2_subsets:
  fixes A :: "'a set"
  assumes "finite A"
  shows "card {B. B \<subseteq> A \<and> card B = 2} = card A * (card A - 1) div 2"
  using n_subsets[OF assms, of 2] by (simp add: choose_two)

end
