(* ===== verification/Go_Sort.thy ===== *)
theory Go_Sort
  imports Prelude
begin

text \<open>
  Go's \<open>sort.SliceStable(xs, less)\<close>.  The library promises, for a \<open>lt\<close> that is a strict weak
  order, the permutation of \<open>xs\<close> that is ordered by \<open>lt\<close> and keeps equal elements in their
  input order; there is exactly one such list, and \<open>slice_stable\<close> computes it by insertion.
  The locale \<open>strict_weak_order\<close> states what a comparator owes the sort and proves once what the
  sort owes its caller; every comparator of the source interprets it.
\<close>

section \<open>The sort\<close>

fun ins_stable :: "('a \<Rightarrow> 'a \<Rightarrow> bool) \<Rightarrow> 'a \<Rightarrow> 'a list \<Rightarrow> 'a list" where
  "ins_stable lt x [] = [x]"
| "ins_stable lt x (y # ys) = (if lt y x then y # ins_stable lt x ys else x # y # ys)"

definition slice_stable :: "('a \<Rightarrow> 'a \<Rightarrow> bool) \<Rightarrow> 'a list \<Rightarrow> 'a list" where
  "slice_stable lt xs = foldr (ins_stable lt) xs []"

lemma slice_stable_simps [simp]:
  "slice_stable lt [] = []"
  "slice_stable lt (x # xs) = ins_stable lt x (slice_stable lt xs)"
  by (simp_all add: slice_stable_def)

lemma mset_ins_stable [simp]: "mset (ins_stable lt x ys) = add_mset x (mset ys)"
  by (induction ys) auto

lemma mset_slice_stable [simp]: "mset (slice_stable lt xs) = mset xs"
  by (induction xs) auto

lemma set_ins_stable [simp]: "set (ins_stable lt x ys) = insert x (set ys)"
  by (induction ys) auto

lemma set_slice_stable [simp]: "set (slice_stable lt xs) = set xs"
  by (induction xs) auto

lemma length_slice_stable [simp]: "length (slice_stable lt xs) = length xs"
  by (metis mset_slice_stable size_mset)

lemma distinct_slice_stable [simp]: "distinct (slice_stable lt xs) = distinct xs"
  by (metis mset_eq_imp_distinct_iff mset_slice_stable)

section \<open>Strict weak orders\<close>

definition incomparable :: "('a \<Rightarrow> 'a \<Rightarrow> bool) \<Rightarrow> 'a \<Rightarrow> 'a \<Rightarrow> bool" where
  "incomparable lt x y \<longleftrightarrow> \<not> lt x y \<and> \<not> lt y x"

definition ordered_by :: "('a \<Rightarrow> 'a \<Rightarrow> bool) \<Rightarrow> 'a list \<Rightarrow> bool" where
  "ordered_by lt xs = sorted_wrt (\<lambda>x y. \<not> lt y x) xs"

locale strict_weak_order =
  fixes lt :: "'a \<Rightarrow> 'a \<Rightarrow> bool"
  assumes asym: "lt x y \<Longrightarrow> \<not> lt y x"
    and neg_trans: "lt x z \<Longrightarrow> lt x y \<or> lt y z"
begin

lemma irrefl: "\<not> lt x x"
  using asym by blast

lemma trans: "lt x y \<Longrightarrow> lt y z \<Longrightarrow> lt x z"
  using asym neg_trans by blast

lemma not_less_trans: "\<not> lt y x \<Longrightarrow> \<not> lt z y \<Longrightarrow> \<not> lt z x"
  using neg_trans by blast

lemma incomparable_trans:
  "incomparable lt x y \<Longrightarrow> incomparable lt y z \<Longrightarrow> incomparable lt x z"
  unfolding incomparable_def using neg_trans by blast

lemma ordered_ins: "ordered_by lt ys \<Longrightarrow> ordered_by lt (ins_stable lt x ys)"
proof (induction ys)
  case Nil
  then show ?case by (simp add: ordered_by_def)
next
  case (Cons y ys)
  then have ys: "\<And>z. z \<in> set ys \<Longrightarrow> \<not> lt z y"
    and IH: "ordered_by lt (ins_stable lt x ys)" and "ordered_by lt ys"
    by (simp_all add: ordered_by_def)
  show ?case
  proof (cases "lt y x")
    case True
    then show ?thesis using IH ys asym[OF True] by (simp add: ordered_by_def)
  next
    case False
    then have "\<not> lt z x" if "z \<in> set ys" for z
      using not_less_trans ys[OF that] by blast
    then show ?thesis using False ys \<open>ordered_by lt ys\<close> by (simp add: ordered_by_def)
  qed
qed

lemma ordered_slice_stable: "ordered_by lt (slice_stable lt xs)"
  by (induction xs) (auto simp: ordered_ins, simp add: ordered_by_def)

lemma filter_ins:
  assumes "\<And>y z. P y \<Longrightarrow> P z \<Longrightarrow> incomparable lt y z"
  shows "filter P (ins_stable lt x ys) = filter P (x # ys)"
proof (induction ys)
  case (Cons y ys)
  have "\<not> (P x \<and> P y)" if "lt y x"
    using assms[of x y] that by (auto simp: incomparable_def)
  with Cons show ?case by auto
qed simp

lemma stable:
  "filter (incomparable lt a) (slice_stable lt xs) = filter (incomparable lt a) xs"
proof (induction xs)
  case Nil
  then show ?case by simp
next
  case (Cons x xs)
  have "filter (incomparable lt a) (ins_stable lt x (slice_stable lt xs)) =
    filter (incomparable lt a) (x # slice_stable lt xs)"
  proof (rule filter_ins)
    show "incomparable lt a y \<Longrightarrow> incomparable lt a z \<Longrightarrow> incomparable lt y z" for y z
      using incomparable_trans[of y a z] by (simp add: incomparable_def)
  qed
  then show ?case using Cons by simp
qed

lemma ordered_unique:
  assumes "ordered_by lt xs" "ordered_by lt ys" "mset xs = mset ys"
    and "\<And>x y. x \<in> set xs \<Longrightarrow> y \<in> set xs \<Longrightarrow> incomparable lt x y \<Longrightarrow> x = y"
  shows "xs = ys"
  using assms
proof (induction xs arbitrary: ys)
  case Nil
  then show ?case by simp
next
  case (Cons x xs)
  from Cons.prems(3) obtain y ys' where ys: "ys = y # ys'" by (cases ys) auto
  have "y \<in> set (x # xs)" "x \<in> set ys" using Cons.prems(3) ys
    by (metis list.set_intros(1) mset_eq_setD)+
  then have "incomparable lt x y"
    using Cons.prems(1,2) ys irrefl by (auto simp: ordered_by_def incomparable_def)
  with \<open>y \<in> set (x # xs)\<close> have "x = y" using Cons.prems(4) by simp
  moreover have "xs = ys'"
    using Cons.prems ys \<open>x = y\<close> by (intro Cons.IH) (auto simp: ordered_by_def)
  ultimately show ?case using ys by simp
qed

text \<open>The result does not depend on the input order when no two elements tie.\<close>

lemma order_independent:
  assumes "mset xs = mset ys"
    and "\<And>x y. x \<in> set xs \<Longrightarrow> y \<in> set xs \<Longrightarrow> incomparable lt x y \<Longrightarrow> x = y"
  shows "slice_stable lt xs = slice_stable lt ys"
  by (rule ordered_unique) (use assms in \<open>auto simp: ordered_slice_stable\<close>)

end

section \<open>Comparators built from keys\<close>

definition lex_less :: "('a \<Rightarrow> 'a \<Rightarrow> bool) \<Rightarrow> ('a \<Rightarrow> 'a \<Rightarrow> bool) \<Rightarrow> 'a \<Rightarrow> 'a \<Rightarrow> bool" where
  "lex_less l1 l2 x y \<longleftrightarrow> l1 x y \<or> (\<not> l1 y x \<and> l2 x y)"

lemma swo_key: "strict_weak_order (\<lambda>x y. k x < (k y :: 'b :: linorder))"
  by unfold_locales auto

lemma swo_key_desc: "strict_weak_order (\<lambda>x y. k x > (k y :: 'b :: linorder))"
  by unfold_locales auto

lemma swo_lex:
  assumes "strict_weak_order l1" "strict_weak_order l2"
  shows "strict_weak_order (lex_less l1 l2)"
proof -
  have a1: "l1 x y \<Longrightarrow> \<not> l1 y x" and n1: "l1 x z \<Longrightarrow> l1 x y \<or> l1 y z" for x y z
    using assms(1) unfolding strict_weak_order_def by blast+
  have a2: "l2 x y \<Longrightarrow> \<not> l2 y x" and n2: "l2 x z \<Longrightarrow> l2 x y \<or> l2 y z" for x y z
    using assms(2) unfolding strict_weak_order_def by blast+
  show ?thesis
    by unfold_locales (use a1 n1 a2 n2 in \<open>unfold lex_less_def, blast+\<close>)
qed

lemma incomparable_lex:
  "incomparable (lex_less l1 l2) x y \<longleftrightarrow> incomparable l1 x y \<and> incomparable l2 x y"
  if "strict_weak_order l1" "strict_weak_order l2"
  using that by (auto simp: incomparable_def lex_less_def strict_weak_order_def)

lemma incomparable_key: "incomparable (\<lambda>x y. k x < (k y :: 'b :: linorder)) x y \<longleftrightarrow> k x = k y"
  by (auto simp: incomparable_def)

lemma incomparable_key_desc: "incomparable (\<lambda>x y. k x > (k y :: 'b :: linorder)) x y \<longleftrightarrow> k x = k y"
  by (auto simp: incomparable_def)

end
