(* ===== verification/Fixture_Types.thy ===== *)
theory Fixture_Types
  imports Go_Sort
begin

text \<open>
  The data of the fixture engine, \<open>internal/fixtures/models.go\<close>: the participants and settings
  it is given, the slots and planned matches it emits, its plan and its sentinel errors.

  \<open>Format\<close> and \<open>SeedStrategy\<close> are strings in the source, so a value outside the declared
  constants is possible and reaches the default branches.  \<open>SlotRef\<close>, a struct with a kind tag,
  is the tagged union it encodes.  The nilable ints are options.
\<close>

type_synonym Format = string
type_synonym SeedStrategy = string

definition FormatRoundRobin :: Format where "FormatRoundRobin = ''round_robin''"
definition FormatLeague :: Format where "FormatLeague = ''league''"
definition FormatKnockout :: Format where "FormatKnockout = ''knockout''"
definition FormatGroupKnockout :: Format where "FormatGroupKnockout = ''group_knockout''"

definition SeedManual :: SeedStrategy where "SeedManual = ''manual''"
definition SeedRandom :: SeedStrategy where "SeedRandom = ''random''"
definition SeedRegistration :: SeedStrategy where "SeedRegistration = ''registration''"

lemmas format_defs = FormatRoundRobin_def FormatLeague_def FormatKnockout_def
  FormatGroupKnockout_def
lemmas strategy_defs = SeedManual_def SeedRandom_def SeedRegistration_def

record Participant =
  p_id :: string
  p_seedNumber :: "int option"
  p_registeredAt :: int

record Settings =
  s_format :: Format
  s_seedStrategy :: SeedStrategy
  s_randomSeed :: int
  s_legs :: int
  s_groups :: int
  s_qualifiersPerGroup :: int

datatype SlotRef =
    SlotConcrete string
  | SlotTBD
  | SlotQualifier string nat

record PlannedMatch =
  pm_index :: nat
  pm_roundNumber :: nat
  pm_roundName :: string
  pm_matchNumber :: nat
  pm_groupLabel :: string
  pm_home :: SlotRef
  pm_away :: SlotRef
  pm_nextMatchIndex :: "nat option"
  pm_nextSlot :: "nat option"

record Bye =
  bye_participantID :: string
  bye_intoRound :: nat

record Plan =
  pl_matches :: "PlannedMatch list"
  pl_byes :: "Bye list"
  pl_seedOrder :: "string list"
  pl_settings :: Settings
  pl_warnings :: "string list"

datatype FixtureError =
    ErrTooFewParticipants
  | ErrUnknownFormat
  | ErrUnknownSeedStrategy
  | ErrInvalidGroups
  | ErrInvalidQualifiers
  | ErrDuplicateParticipant

text \<open>A composite literal \<open>PlannedMatch{...}\<close> leaves the fields it does not name at zero.\<close>

definition planned_match ::
  "nat \<Rightarrow> nat \<Rightarrow> string \<Rightarrow> string \<Rightarrow> SlotRef \<Rightarrow> SlotRef \<Rightarrow> PlannedMatch" where
  "planned_match idx round name grp h a =
     \<lparr> pm_index = idx, pm_roundNumber = round, pm_roundName = name, pm_matchNumber = 0,
       pm_groupLabel = grp, pm_home = h, pm_away = a,
       pm_nextMatchIndex = None, pm_nextSlot = None \<rparr>"

lemma planned_match_simps [simp]:
  "pm_index (planned_match i r nm g h a) = i"
  "pm_roundNumber (planned_match i r nm g h a) = r"
  "pm_roundName (planned_match i r nm g h a) = nm"
  "pm_groupLabel (planned_match i r nm g h a) = g"
  "pm_home (planned_match i r nm g h a) = h"
  "pm_away (planned_match i r nm g h a) = a"
  "pm_nextMatchIndex (planned_match i r nm g h a) = None"
  "pm_nextSlot (planned_match i r nm g h a) = None"
  by (simp_all add: planned_match_def)

end
