(* ===== verification/Seeding.thy ===== *)
theory Seeding
  imports Fixture_Types
begin

text \<open>
  \<open>internal/fixtures/seeding.go\<close>: the seed order of the participants.  The comparators are
  strict weak orders (two interpretations of \<open>strict_weak_order\<close>), so the sorted strategies are
  ordered permutations that do not depend on the input order when the ids are unique, and the
  random strategy shuffles such a base order.

  \<open>math/rand\<close> is a parameter: \<open>src\<close> makes the generator from the seed and \<open>intn k r\<close> is
  \<open>rng.Intn(k)\<close> with the generator's next state.  What is used of it is \<open>Intn\<close>'s documented
  range, \<open>intn_in_range\<close>.
\<close>

section \<open>Definitions\<close>

definition lessByRegistration :: "Participant \<Rightarrow> Participant \<Rightarrow> bool" where
  "lessByRegistration a b =
     (if p_registeredAt a \<noteq> p_registeredAt b then p_registeredAt a < p_registeredAt b
      else p_id a < p_id b)"

definition sortByRegistration :: "Participant list \<Rightarrow> Participant list" where
  "sortByRegistration p = slice_stable lessByRegistration p"

definition lessManual :: "Participant \<Rightarrow> Participant \<Rightarrow> bool" where
  "lessManual a b =
     (case (p_seedNumber a, p_seedNumber b) of
        (Some si, Some sj) \<Rightarrow> if si \<noteq> sj then si < sj else lessByRegistration a b
      | (Some _, None) \<Rightarrow> True
      | (None, Some _) \<Rightarrow> False
      | (None, None) \<Rightarrow> lessByRegistration a b)"

definition swap_at :: "nat \<Rightarrow> nat \<Rightarrow> 'a list \<Rightarrow> 'a list" where
  "swap_at i j xs = xs[i := xs ! j, j := xs ! i]"

text \<open>\<open>for i := len(out) - 1; i > 0; i--\<close>\<close>

fun shuffle_from :: "(nat \<Rightarrow> 'r \<Rightarrow> nat \<times> 'r) \<Rightarrow> nat \<Rightarrow> 'r \<Rightarrow> 'a list \<Rightarrow> 'a list" where
  "shuffle_from intn 0 r xs = xs"
| "shuffle_from intn (Suc i) r xs =
     (let (j, r') = intn (Suc i + 1) r in shuffle_from intn i r' (swap_at (Suc i) j xs))"

definition resolveSeedOrder ::
  "(int \<Rightarrow> 'r) \<Rightarrow> (nat \<Rightarrow> 'r \<Rightarrow> nat \<times> 'r) \<Rightarrow> Participant list \<Rightarrow> Settings \<Rightarrow>
   FixtureError + Participant list" where
  "resolveSeedOrder newSource intn participants s =
     (if s_seedStrategy s = SeedRegistration then Inr (sortByRegistration participants)
      else if s_seedStrategy s = SeedManual then Inr (slice_stable lessManual participants)
      else if s_seedStrategy s = SeedRandom then
        (let out = sortByRegistration participants
         in Inr (shuffle_from intn (length out - 1) (newSource (s_randomSeed s)) out))
      else Inl ErrUnknownSeedStrategy)"

definition seedOrderIDs :: "Participant list \<Rightarrow> string list" where
  "seedOrderIDs p = map p_id p"

definition intn_in_range :: "(nat \<Rightarrow> 'r \<Rightarrow> nat \<times> 'r) \<Rightarrow> bool" where
  "intn_in_range intn \<longleftrightarrow> (\<forall>k r. 0 < k \<longrightarrow> fst (intn k r) < k)"

section \<open>The comparators\<close>

interpretation registration: strict_weak_order lessByRegistration
  by unfold_locales (auto simp: lessByRegistration_def split: if_splits)

interpretation manual: strict_weak_order lessManual
  by unfold_locales
    (auto simp: lessManual_def lessByRegistration_def split: if_splits option.splits)

lemma incomparable_registration:
  "incomparable lessByRegistration a b \<longleftrightarrow>
   p_registeredAt a = p_registeredAt b \<and> p_id a = p_id b"
  by (auto simp: incomparable_def lessByRegistration_def)

lemma incomparable_manual_id: "incomparable lessManual a b \<Longrightarrow> p_id a = p_id b"
  by (auto simp: incomparable_def lessManual_def lessByRegistration_def
      split: if_splits option.splits)

lemma inj_on_p_id: "distinct (map p_id ps) \<Longrightarrow> x \<in> set ps \<Longrightarrow> y \<in> set ps \<Longrightarrow> p_id x = p_id y \<Longrightarrow> x = y"
  by (simp add: distinct_map inj_on_def)

lemma sortByRegistration_unique:
  assumes "mset ps = mset qs" "distinct (map p_id ps)"
  shows "sortByRegistration ps = sortByRegistration qs"
  unfolding sortByRegistration_def
  by (rule registration.order_independent)
    (use assms inj_on_p_id in \<open>auto simp: incomparable_registration\<close>)

lemma manual_unique:
  assumes "mset ps = mset qs" "distinct (map p_id ps)"
  shows "slice_stable lessManual ps = slice_stable lessManual qs"
  by (rule manual.order_independent)
    (use assms(1) inj_on_p_id[OF assms(2)] incomparable_manual_id in blast)+

section \<open>The shuffle\<close>

lemma mset_swap_at [simp]: "i < length xs \<Longrightarrow> j < length xs \<Longrightarrow> mset (swap_at i j xs) = mset xs"
  by (simp add: swap_at_def mset_swap)

lemma length_swap_at [simp]: "length (swap_at i j xs) = length xs"
  by (simp add: swap_at_def)

lemma mset_shuffle_from:
  "intn_in_range intn \<Longrightarrow> i = 0 \<or> i < length xs \<Longrightarrow> mset (shuffle_from intn i r xs) = mset xs"
proof (induction i arbitrary: r xs)
  case (Suc i)
  have "fst (intn (Suc i + 1) r) < Suc i + 1"
    using Suc.prems(1) by (simp add: intn_in_range_def)
  with Suc show ?case by (auto split: prod.split)
qed simp

lemma mset_resolveSeedOrder:
  assumes "intn_in_range intn" "resolveSeedOrder src intn ps s = Inr out"
  shows "mset out = mset ps"
proof -
  have "mset (shuffle_from intn (length ps - 1) (src (s_randomSeed s)) (sortByRegistration ps)) = mset ps"
    using assms(1) by (subst mset_shuffle_from) (auto simp: sortByRegistration_def)
  with assms(2) show ?thesis
    by (auto simp: resolveSeedOrder_def sortByRegistration_def Let_def split: if_splits)
qed

lemma resolveSeedOrder_total:
  "is_ok (resolveSeedOrder src intn ps s) \<longleftrightarrow>
   s_seedStrategy s \<in> {SeedRegistration, SeedManual, SeedRandom}"
  by (simp add: resolveSeedOrder_def Let_def)

lemma resolveSeedOrder_input_order:
  assumes "mset ps = mset qs" "distinct (map p_id ps)"
  shows "resolveSeedOrder src intn ps s = resolveSeedOrder src intn qs s"
  using sortByRegistration_unique[OF assms] manual_unique[OF assms]
  by (simp add: resolveSeedOrder_def)

end
