(* ===== verification/Circle.thy ===== *)
theory Circle
  imports Fixture_Types
begin

text \<open>
  The circle method of \<open>internal/fixtures/roundrobin.go\<close> (\<open>circlePairs\<close>, \<open>rotateCircle\<close>,
  \<open>evenCount\<close>).  The main lemma, \<open>circle_exactly_once\<close>, says that over the rounds of one leg every
  unordered pair of participants is emitted exactly once; \<open>circle_round_disjoint\<close> says that a
  participant plays at most once in a round.

  The proof follows the positions: after \<open>t\<close> rotations the entry at position \<open>k > 0\<close> is the one
  that started at \<open>1 + (k - 1 - t) mod (m - 1)\<close>.  The two residues of a pair of round \<open>t\<close> sum to
  \<open>- 2 (t + 1)\<close> modulo the odd number \<open>m - 1\<close>, so a pair determines its round, and with the round
  its place; counting does the rest.
\<close>

section \<open>Definitions\<close>

record pair =
  pr_a :: nat
  pr_b :: nat
  pr_round :: nat

definition byeVal :: int where "byeVal = -1"

definition evenCount :: "nat \<Rightarrow> nat" where
  "evenCount n = (if n mod 2 = 1 then n + 1 else n)"

definition rotateCircle :: "'a list \<Rightarrow> 'a list" where
  "rotateCircle cur =
     (let m = length cur in
      if m < 3 then cur
      else cur ! 0 # cur ! (m - 1) # take (m - 2) (drop 1 cur))"

definition circle_arr :: "nat \<Rightarrow> int list" where
  "circle_arr n = map int [0..<n] @ (if n mod 2 = 1 then [byeVal] else [])"

text \<open>One round: the pairs of positions \<open>i\<close> and \<open>m - 1 - i\<close>, the bye's pair dropped.\<close>

definition circle_round :: "int list \<Rightarrow> nat \<Rightarrow> pair list" where
  "circle_round cur r =
     (let m = length cur in
      concat (map (\<lambda>i. let a = cur ! i; b = cur ! (m - 1 - i) in
        if a = byeVal \<or> b = byeVal then []
        else [\<lparr> pr_a = nat a, pr_b = nat b, pr_round = r \<rparr>]) [0..<m div 2]))"

fun circle_rounds :: "nat \<Rightarrow> nat \<Rightarrow> int list \<Rightarrow> pair list" where
  "circle_rounds 0 r cur = []"
| "circle_rounds (Suc k) r cur =
     circle_round cur r @ circle_rounds k (r + 1) (rotateCircle cur)"

definition circlePairs :: "nat \<Rightarrow> pair list" where
  "circlePairs n = (let arr = circle_arr n in circle_rounds (length arr - 1) 1 arr)"

section \<open>Rotations\<close>

lemma rotateCircle_Cons:
  "rotateCircle (x # xs) = x # rotate (length xs - 1) xs"
proof (cases "length xs < 2")
  case True
  then show ?thesis by (cases xs) (auto simp: rotateCircle_def)
next
  case False
  then obtain ys y where xs: "xs = ys @ [y]" and "ys \<noteq> []"
    by (cases xs rule: rev_cases) auto
  then show ?thesis
    by (simp add: rotateCircle_def rotate_append nth_append)
qed

lemma funpow_rotateCircle:
  "(rotateCircle ^^ t) (x # xs) = x # rotate (t * (length xs - 1)) xs"
  by (induction t) (simp_all add: rotateCircle_Cons rotate_rotate)

lemma circle_rounds_funpow:
  "circle_rounds k r cur =
   concat (map (\<lambda>t. circle_round ((rotateCircle ^^ t) cur) (r + t)) [0..<k])"
proof (induction k arbitrary: r cur)
  case (Suc k)
  have "[0..<Suc k] = 0 # map Suc [0..<k]" by (simp add: map_Suc_upt upt_conv_Cons)
  with Suc show ?case by (simp add: funpow_swap1 o_def del: upt_Suc)
qed simp

section \<open>Positions after some rotations\<close>

text \<open>\<open>posc M t k\<close>: where the entry at position \<open>k\<close> after \<open>t\<close> rotations of \<open>M + 1\<close> entries began.\<close>

definition posc :: "nat \<Rightarrow> nat \<Rightarrow> nat \<Rightarrow> nat" where
  "posc M t k = (if k = 0 then 0 else 1 + (t * (M - 1) + (k - 1)) mod M)"

lemma posc_0 [simp]: "posc M t 0 = 0"
  by (simp add: posc_def)

lemma posc_le: "0 < M \<Longrightarrow> posc M t k \<le> M"
  by (simp add: posc_def Suc_le_eq)

lemma posc_eq_0 [simp]: "posc M t k = 0 \<longleftrightarrow> k = 0"
  by (simp add: posc_def)

lemma nth_funpow_rotateCircle:
  assumes "k \<le> length xs"
  shows "(rotateCircle ^^ t) (x # xs) ! k = (x # xs) ! posc (length xs) t k"
proof (cases k)
  case (Suc j)
  then have "j < length xs" using assms by simp
  then show ?thesis using Suc by (simp add: funpow_rotateCircle posc_def nth_rotate)
qed (simp add: funpow_rotateCircle)

lemma posc_residue:
  assumes "0 < k" "0 < M"
  obtains c where "int (posc M t k) = int k - int t + int M * c"
proof -
  obtain l N where k: "k = Suc l" and M: "M = Suc N"
    using assms by (metis gr0_implies_Suc)
  let ?X = "t * N + l"
  have "int (?X mod M) = int ?X - int M * int (?X div M)"
    by (simp add: zmod_int zdiv_int minus_mult_div_eq_mod)
  then have "int (posc M t k) = int k - int t + int M * (int t - int (?X div M))"
    using k M by (simp add: posc_def algebra_simps)
  then show thesis by (rule that)
qed

lemma dvd_small_diff:
  assumes "int M dvd int a - int b" "a < M" "b < M"
  shows "a = b"
proof -
  have "int a mod int M = int b mod int M" using assms(1) by (simp add: mod_eq_dvd_iff)
  with assms(2,3) show ?thesis by simp
qed

lemma odd_dvd_double:
  assumes "odd M" "int M dvd 2 * x"
  shows "int M dvd x"
proof -
  obtain k where "M = 2 * k + 1" using assms(1) by (rule oddE)
  then have "x = int M * x - int k * (2 * x)" by (simp add: algebra_simps)
  with assms(2) show ?thesis by (metis dvd_diff dvd_mult dvd_triv_left)
qed

lemma inj_on_posc: "0 < M \<Longrightarrow> inj_on (posc M t) {..M}"
proof (rule inj_onI)
  fix k l assume M: "0 < M" and "k \<in> {..M}" "l \<in> {..M}" and eq: "posc M t k = posc M t l"
  show "k = l"
  proof (cases "k = 0 \<or> l = 0")
    case True
    then show ?thesis using eq by (metis posc_eq_0)
  next
    case False
    then have "0 < k" "0 < l" by auto
    obtain c where "int (posc M t k) = int k - int t + int M * c"
      using posc_residue[OF \<open>0 < k\<close> M] .
    moreover obtain d where "int (posc M t l) = int l - int t + int M * d"
      using posc_residue[OF \<open>0 < l\<close> M] .
    ultimately have "int (k - 1) - int (l - 1) = int M * (d - c)"
      using eq False by (simp add: of_nat_diff algebra_simps)
    then have "int M dvd int (k - 1) - int (l - 1)" by simp
    then have "k - 1 = l - 1"
      by (rule dvd_small_diff) (use \<open>k \<in> {..M}\<close> \<open>l \<in> {..M}\<close> False in auto)
    with \<open>0 < k\<close> \<open>0 < l\<close> show ?thesis by arith
  qed
qed

text \<open>The unordered pair of positions \<open>i\<close> and \<open>M - i\<close> in round \<open>t\<close>.\<close>

definition cpair :: "nat \<Rightarrow> nat \<Rightarrow> nat \<Rightarrow> nat set" where
  "cpair M t i = {posc M t i, posc M t (M - i)}"

lemma cpair_sum:
  assumes "0 < i" "i < M"
  obtains c where "int (posc M t i) + int (posc M t (M - i)) = int M * c - 2 * int t"
proof -
  have M: "0 < M" "0 < M - i" using assms by auto
  obtain c where "int (posc M t i) = int i - int t + int M * c"
    using posc_residue[OF assms(1) M(1)] .
  moreover obtain d where "int (posc M t (M - i)) = int (M - i) - int t + int M * d"
    using posc_residue[OF M(2) M(1)] .
  ultimately have "int (posc M t i) + int (posc M t (M - i)) = int M * (1 + c + d) - 2 * int t"
    using assms by (simp add: of_nat_diff algebra_simps)
  then show thesis by (rule that)
qed

lemma cpair_round:
  assumes M: "odd M" and i: "2 * i \<le> M" and j: "2 * j \<le> M" and t: "t < M" and u: "u < M"
    and eq: "cpair M t i = cpair M u j"
  shows "t = u"
proof -
  have M0: "0 < M" using M by (cases M) auto
  have iM: "i < M" "j < M" using i j M0 by auto
  have z: "0 \<in> cpair M t i \<longleftrightarrow> i = 0" "0 \<in> cpair M u j \<longleftrightarrow> j = 0"
    using iM by (auto simp: cpair_def)
  have "int M dvd 2 * (int t - int u)"
  proof (cases "i = 0")
    case True
    with z eq have "j = 0" by simp
    then have eqM: "posc M t M = posc M u M" using eq True M0
      by (auto simp: cpair_def doubleton_eq_iff)
    obtain c where "int (posc M t M) = int M - int t + int M * c"
      using posc_residue[OF M0 M0] .
    moreover obtain d where "int (posc M u M) = int M - int u + int M * d"
      using posc_residue[OF M0 M0] .
    ultimately have "2 * (int t - int u) = int M * (2 * (c - d))"
      using eqM by (simp add: algebra_simps)
    then show ?thesis by simp
  next
    case False
    with z eq have "j \<noteq> 0" by simp
    have sum: "posc M t i + posc M t (M - i) = posc M u j + posc M u (M - j)"
      using eq by (auto simp: cpair_def doubleton_eq_iff)
    obtain c where "int (posc M t i) + int (posc M t (M - i)) = int M * c - 2 * int t"
      using cpair_sum[of i M t] False iM by auto
    moreover obtain d where "int (posc M u j) + int (posc M u (M - j)) = int M * d - 2 * int u"
      using cpair_sum[of j M u] \<open>j \<noteq> 0\<close> iM by auto
    moreover have "int (posc M t i) + int (posc M t (M - i)) = int (posc M u j) + int (posc M u (M - j))"
      using sum by (metis of_nat_add)
    ultimately have "2 * (int t - int u) = int M * (c - d)"
      by (simp add: algebra_simps)
    then show ?thesis by simp
  qed
  then have "int M dvd int t - int u" by (rule odd_dvd_double[OF M])
  then show ?thesis using t u by (rule dvd_small_diff)
qed

lemma cpair_place:
  assumes M: "odd M" and i: "2 * i \<le> M" and j: "2 * j \<le> M"
    and meet: "cpair M t i \<inter> cpair M t j \<noteq> {}"
  shows "i = j"
proof -
  have M0: "0 < M" using M by (cases M) auto
  have inj: "posc M t k = posc M t l \<Longrightarrow> k \<le> M \<Longrightarrow> l \<le> M \<Longrightarrow> k = l" for k l
    using inj_on_posc[OF M0] by (simp add: inj_on_def)
  have "posc M t ` {i, M - i} \<inter> posc M t ` {j, M - j} \<noteq> {}"
    using meet by (simp add: cpair_def)
  then obtain k l where kl: "k \<in> {i, M - i}" "l \<in> {j, M - j}" "posc M t k = posc M t l"
    by blast
  then have "k \<le> M" "l \<le> M" using i j by auto
  with kl(3) have "k = l" by (rule inj)
  then have "i = j \<or> i + j = M" using kl(1,2) i j by auto
  moreover have "2 * i \<noteq> M" "2 * j \<noteq> M" using M by auto
  ultimately show ?thesis using i j by linarith
qed

lemma cpair_2_subset:
  assumes "odd M" "2 * i \<le> M"
  shows "cpair M t i \<subseteq> {..M}" "card (cpair M t i) = 2"
proof -
  have M0: "0 < M" using assms by (cases M) auto
  show "cpair M t i \<subseteq> {..M}" using posc_le[OF M0] by (auto simp: cpair_def)
  have "i \<noteq> M - i" using assms by presburger
  then have "posc M t i \<noteq> posc M t (M - i)"
    using inj_on_posc[OF M0] assms(2) by (auto simp: inj_on_def)
  then show "card (cpair M t i) = 2" by (simp add: cpair_def)
qed

section \<open>Every pair exactly once\<close>

lemma cpair_bij:
  assumes M: "odd M"
  shows "bij_betw (\<lambda>(t, i). cpair M t i) ({..<M} \<times> {..<(M + 1) div 2})
    {B. B \<subseteq> {..M} \<and> card B = 2}"
proof -
  let ?f = "\<lambda>(t, i). cpair M t i" and ?D = "{..<M} \<times> {..<(M + 1) div 2}"
    and ?S = "{B. B \<subseteq> {..M} \<and> card B = 2}"
  have half: "2 * i \<le> M" if "i < (M + 1) div 2" for i using that by linarith
  have inj: "inj_on ?f ?D"
  proof (rule inj_onI)
    fix x y assume xD: "x \<in> ?D" and yD: "y \<in> ?D" and eq: "?f x = ?f y"
    obtain t i u j where x: "x = (t, i)" and y: "y = (u, j)" by (cases x, cases y) auto
    have ij: "2 * i \<le> M" "2 * j \<le> M" using xD yD x y half by auto
    have tu: "t = u" using cpair_round[OF M ij] xD yD x y eq by auto
    have "cpair M t i \<inter> cpair M t j \<noteq> {}" using eq tu x y by (auto simp: cpair_def)
    then have "i = j" by (rule cpair_place[OF M ij])
    with tu x y show "x = y" by simp
  qed
  have sub: "?f ` ?D \<subseteq> ?S"
    using cpair_2_subset[OF M half] by fastforce
  have "card ?S = card {..M} * (card {..M} - 1) div 2"
    by (rule card_2_subsets) simp
  also have "\<dots> = card ?D"
  proof -
    obtain k where "M = 2 * k + 1" using M by (rule oddE)
    then show ?thesis by simp
  qed
  also have "\<dots> = card (?f ` ?D)" using inj by (simp add: card_image)
  finally have "?f ` ?D = ?S"
    using sub by (intro card_subset_eq) auto
  with inj show ?thesis by (simp add: bij_betw_def)
qed

text \<open>What round \<open>t + 1\<close> emits for place \<open>i\<close>: nothing when one position is the bye.\<close>

definition emit :: "nat \<Rightarrow> nat \<Rightarrow> nat \<Rightarrow> nat \<Rightarrow> pair list" where
  "emit n M t i =
     (if posc M t i < n \<and> posc M t (M - i) < n
      then [\<lparr> pr_a = posc M t i, pr_b = posc M t (M - i), pr_round = Suc t \<rparr>] else [])"

lemma emit_unique: "p \<in> set (emit n M t i) \<Longrightarrow> q \<in> set (emit n M t i) \<Longrightarrow> p = q"
  by (simp add: emit_def split: if_splits)

lemma length_circle_arr: "length (circle_arr n) = evenCount n"
  by (simp add: circle_arr_def evenCount_def)

lemma nth_circle_arr: "p < evenCount n \<Longrightarrow> circle_arr n ! p = (if p < n then int p else -1)"
  by (auto simp: circle_arr_def evenCount_def nth_append byeVal_def split: if_splits)

lemma evenCount_parity: "evenCount n = (if even n then n else n + 1)"
  by (simp add: evenCount_def odd_iff_mod_2_eq_one)

lemma odd_evenCount: "0 < n \<Longrightarrow> odd (evenCount n - 1)"
  by (simp add: evenCount_parity)

lemma circle_round_emit:
  assumes "0 < n" and M: "M = evenCount n - 1"
  shows "circle_round ((rotateCircle ^^ t) (circle_arr n)) (Suc t) =
    concat (map (emit n M t) [0..<(M + 1) div 2])"
proof -
  have ev: "evenCount n = Suc M" using assms by (simp add: evenCount_def)
  then obtain x xs where arr: "circle_arr n = x # xs" and len: "length xs = M"
    using length_circle_arr[of n] by (cases "circle_arr n") auto
  have M0: "0 < M" using odd_evenCount[OF assms(1)] M by (cases M) auto
  let ?cur = "(rotateCircle ^^ t) (circle_arr n)"
  have cur: "?cur ! k = (if posc M t k < n then int (posc M t k) else -1)" if "k \<le> M" for k
    using nth_funpow_rotateCircle[of k xs t x] nth_circle_arr[of "posc M t k" n]
      posc_le[OF M0, of t k] that arr len ev by simp
  have "length ?cur = Suc M" using arr len by (simp add: funpow_rotateCircle)
  then show ?thesis
    unfolding circle_round_def Let_def
    by (intro arg_cong[where f = concat] map_cong) (auto simp: cur emit_def byeVal_def)
qed

lemma concat_concat_map: "concat (concat (map f xs)) = concat (map (\<lambda>x. concat (f x)) xs)"
  by (induction xs) simp_all

lemma circlePairs_emit:
  assumes "0 < n" and M: "M = evenCount n - 1"
  shows "circlePairs n =
    concat (map (\<lambda>(t, i). emit n M t i) (List.product [0..<M] [0..<(M + 1) div 2]))"
proof -
  have "circlePairs n = concat (map (\<lambda>t. concat (map (emit n M t) [0..<(M + 1) div 2])) [0..<M])"
    using assms by (simp add: circlePairs_def Let_def circle_rounds_funpow circle_round_emit
        length_circle_arr del: upt_Suc)
  also have "\<dots> = concat (map (\<lambda>(t, i). emit n M t i) (List.product [0..<M] [0..<(M + 1) div 2]))"
    by (simp add: product_concat_map map_concat concat_concat_map o_def)
  finally show ?thesis .
qed

abbreviation upair :: "pair \<Rightarrow> nat set" where
  "upair p \<equiv> {pr_a p, pr_b p}"

lemma upairs_circlePairs:
  assumes "0 < n" and M: "M = evenCount n - 1"
  shows "map upair (circlePairs n) =
    filter (\<lambda>B. B \<subseteq> {..<n}) (map (\<lambda>(t, i). cpair M t i) (List.product [0..<M] [0..<(M + 1) div 2]))"
proof -
  have *: "map upair (emit n M t i) = (if cpair M t i \<subseteq> {..<n} then [cpair M t i] else [])" for t i
    by (simp add: emit_def cpair_def)
  have "map upair (concat (map (\<lambda>(t, i). emit n M t i) xs)) =
    filter (\<lambda>B. B \<subseteq> {..<n}) (map (\<lambda>(t, i). cpair M t i) xs)" for xs
    by (induction xs) (simp_all add: case_prod_unfold *)
  then show ?thesis by (simp only: circlePairs_emit[OF assms])
qed

lemma circlePairs_0 [simp]: "circlePairs 0 = []"
  by (simp add: circlePairs_def circle_arr_def)

lemma circle_exactly_once:
  "distinct (map upair (circlePairs n))"
  "set (map upair (circlePairs n)) = {B. B \<subseteq> {..<n} \<and> card B = 2}"
proof -
  define M where "M = evenCount n - 1"
  let ?P = "List.product [0..<M] [0..<(M + 1) div 2]" and ?f = "\<lambda>(t, i). cpair M t i"
  have "distinct (map upair (circlePairs n)) \<and>
    set (map upair (circlePairs n)) = {B. B \<subseteq> {..<n} \<and> card B = 2}"
  proof (cases "n = 0")
    case True
    have "\<not> (B \<subseteq> {} \<and> card B = 2)" for B :: "nat set" by auto
    with True show ?thesis by (simp del: subset_empty)
  next
    case False
    then have n: "0 < n" by simp
    have bij: "bij_betw ?f (set ?P) {B. B \<subseteq> {..M} \<and> card B = 2}"
      using cpair_bij[OF odd_evenCount[OF n]] by (simp add: M_def atLeast0LessThan)
    have "{..<n} \<subseteq> {..M}" by (auto simp: M_def evenCount_def)
    then have "{B. B \<subseteq> {..<n} \<and> card B = 2} = {B \<in> ?f ` set ?P. B \<subseteq> {..<n}}"
      using bij by (auto simp: bij_betw_def)
    moreover have "distinct (map ?f ?P)"
      using bij by (simp add: distinct_map bij_betw_def distinct_product)
    ultimately show ?thesis
      unfolding upairs_circlePairs[OF n M_def] by (simp add: distinct_filter image_def)
  qed
  then show "distinct (map upair (circlePairs n))"
    "set (map upair (circlePairs n)) = {B. B \<subseteq> {..<n} \<and> card B = 2}" by simp_all
qed

lemma length_circlePairs: "length (circlePairs n) = n * (n - 1) div 2"
proof -
  have "length (circlePairs n) = card (set (map upair (circlePairs n)))"
    using circle_exactly_once(1)[of n] by (metis distinct_card length_map)
  also have "\<dots> = n * (n - 1) div 2"
    unfolding circle_exactly_once(2) using card_2_subsets[of "{..<n}"] by simp
  finally show ?thesis .
qed

lemma circlePairs_mem:
  assumes "p \<in> set (circlePairs n)"
  obtains t i where "t < evenCount n - 1" "2 * i \<le> evenCount n - 1"
    "upair p = cpair (evenCount n - 1) t i" "pr_round p = Suc t" "p \<in> set (emit n (evenCount n - 1) t i)"
proof -
  define M where "M = evenCount n - 1"
  have n: "0 < n" using assms by (cases n) auto
  have "p \<in> (\<Union>(t, i) \<in> {..<M} \<times> {..<(M + 1) div 2}. set (emit n M t i))"
    using assms unfolding circlePairs_emit[OF n M_def]
    by (simp add: atLeast0LessThan case_prod_unfold)
  then obtain t i where "t < M" "i < (M + 1) div 2" and p: "p \<in> set (emit n M t i)"
    by auto
  moreover have "2 * i \<le> M" using \<open>i < (M + 1) div 2\<close> by linarith
  moreover have "upair p = cpair M t i" "pr_round p = Suc t"
    using p by (auto simp: emit_def cpair_def split: if_splits)
  ultimately show thesis using that unfolding M_def by blast
qed

text \<open>Indices are in range, sides differ, and the rounds are \<open>1..evenCount n - 1\<close>.\<close>

lemma circlePairs_range:
  assumes "p \<in> set (circlePairs n)"
  shows "pr_a p < n" "pr_b p < n" "pr_a p \<noteq> pr_b p" "1 \<le> pr_round p" "pr_round p \<le> evenCount n - 1"
proof -
  have "upair p \<in> set (map upair (circlePairs n))"
    unfolding set_map using assms by (rule imageI)
  then have "upair p \<in> {B. B \<subseteq> {..<n} \<and> card B = 2}"
    by (simp only: circle_exactly_once(2))
  then show "pr_a p < n" "pr_b p < n" "pr_a p \<noteq> pr_b p"
    by (auto simp: card_insert_if)
  show "1 \<le> pr_round p" "pr_round p \<le> evenCount n - 1"
    using assms by (auto elim!: circlePairs_mem)
qed

text \<open>Two pairs of one round that share a participant are the same pair.\<close>

lemma circle_round_disjoint:
  assumes "p \<in> set (circlePairs n)" "q \<in> set (circlePairs n)"
    and "pr_round p = pr_round q" and "upair p \<inter> upair q \<noteq> {}"
  shows "p = q"
proof -
  define M where "M = evenCount n - 1"
  have "0 < n" using assms(1) by (cases n) auto
  then have M: "odd M" using odd_evenCount by (simp add: M_def)
  obtain t i where p: "2 * i \<le> M" "upair p = cpair M t i" "pr_round p = Suc t"
      "p \<in> set (emit n M t i)"
    using circlePairs_mem[OF assms(1), folded M_def] by blast
  obtain u j where q: "2 * j \<le> M" "upair q = cpair M u j" "pr_round q = Suc u"
      "q \<in> set (emit n M u j)"
    using circlePairs_mem[OF assms(2), folded M_def] by blast
  have "t = u" using p q assms(3) by simp
  moreover have "i = j"
    using cpair_place[OF M p(1) q(1)] assms(4) p(2) q(2) \<open>t = u\<close> by simp
  ultimately have "p \<in> set (emit n M u j)" using p(4) by (simp only:)
  then show ?thesis using q(4) by (rule emit_unique)
qed

end
