(* ===== verification/Euler.thy ===== *)
theory Euler
  imports Prelude
begin

text \<open>
  The abstract walk behind \<open>orientBalanced\<close> (\<open>internal/fixtures/balance.go\<close>): Hierholzer's
  algorithm on the complete graph over \<open>{..<V}\<close>, as a step relation on the set of used edges, the
  stack (top first) and the emitted path.  For odd \<open>V\<close> every reachable final state holds an Euler
  circuit: the path starts and ends at vertex 0 and runs through every edge exactly once
  (\<open>euler_circuit\<close>).

  The invariant carries an anchor vertex: the edge from the last emitted vertex to the anchor is
  used, the stack above the anchor is an open trail, and a vertex has an odd number of unused
  edges exactly when it is one of two different end points, the top and the anchor.  So the walk
  can only get stuck at its anchor.
\<close>

section \<open>The edges of a walk\<close>

fun wedges :: "'a list \<Rightarrow> 'a set list" where
  "wedges (x # y # zs) = {x, y} # wedges (y # zs)"
| "wedges _ = []"

lemma wedges_snoc: "wedges (p @ [x]) = wedges p @ (if p = [] then [] else [{last p, x}])"
  by (induction p rule: wedges.induct) auto

lemma wedges_zip: "wedges p = map (\<lambda>(x, y). {x, y}) (zip p (tl p))"
  by (induction p rule: wedges.induct) auto

lemma wedges_vertices: "B \<in> set (wedges p) \<Longrightarrow> B \<subseteq> set p"
  by (induction p rule: wedges.induct) auto

section \<open>Steps\<close>

type_synonym walk = "nat set set \<times> nat list \<times> nat list"

definition saturated :: "nat \<Rightarrow> nat set set \<Rightarrow> nat \<Rightarrow> bool" where
  "saturated V U x \<longleftrightarrow> (\<forall>w<V. w \<noteq> x \<longrightarrow> {x, w} \<in> U)"

inductive walk_step :: "nat \<Rightarrow> walk \<Rightarrow> walk \<Rightarrow> bool" for V where
  push: "y < V \<Longrightarrow> y \<noteq> x \<Longrightarrow> {x, y} \<notin> U \<Longrightarrow>
    walk_step V (U, x # st, p) (insert {x, y} U, y # x # st, p)"
| pop: "saturated V U x \<Longrightarrow> walk_step V (U, x # st, p) (U, st, p @ [x])"

inductive walk_reach :: "nat \<Rightarrow> walk \<Rightarrow> bool" for V where
  start: "walk_reach V ({}, [0], [])"
| step: "walk_reach V w \<Longrightarrow> walk_step V w w' \<Longrightarrow> walk_reach V w'"

section \<open>Unused degrees\<close>

definition unused :: "nat \<Rightarrow> nat set set \<Rightarrow> nat \<Rightarrow> nat set" where
  "unused V U x = {w. w < V \<and> w \<noteq> x \<and> {x, w} \<notin> U}"

lemma finite_unused [simp]: "finite (unused V U x)"
  by (simp add: unused_def)

lemma saturated_unused: "saturated V U x \<longleftrightarrow> unused V U x = {}"
  by (auto simp: saturated_def unused_def)

lemma card_unused_start: "x < V \<Longrightarrow> card (unused V {} x) = V - 1"
proof -
  assume "x < V"
  moreover have "unused V {} x = {..<V} - {x}" by (auto simp: unused_def)
  ultimately show ?thesis by simp
qed

lemma even_unused_insert:
  assumes "x < V" "y < V" "x \<noteq> y" "{x, y} \<notin> U"
  shows "even (card (unused V (insert {x, y} U) u)) \<longleftrightarrow>
    (even (card (unused V U u)) \<longleftrightarrow> u \<noteq> x \<and> u \<noteq> y)"
proof -
  have flip: "even (card (A - {z})) \<longleftrightarrow> odd (card A)" if "finite A" "z \<in> A" for A and z :: nat
    using that by (metis card_Suc_Diff1 even_Suc)
  consider "u = x" | "u = y" | "u \<noteq> x" "u \<noteq> y" by blast
  then show ?thesis
  proof cases
    case 1
    have "unused V (insert {x, y} U) x = unused V U x - {y}"
      by (auto simp: unused_def doubleton_eq_iff)
    moreover have "y \<in> unused V U x" using assms by (auto simp: unused_def)
    ultimately show ?thesis using 1 flip by simp
  next
    case 2
    have "unused V (insert {x, y} U) y = unused V U y - {x}"
      by (auto simp: unused_def doubleton_eq_iff)
    moreover have "x \<in> unused V U y" using assms by (auto simp: unused_def insert_commute)
    ultimately show ?thesis using 2 flip by simp
  next
    case 3
    then have "unused V (insert {x, y} U) u = unused V U u"
      by (auto simp: unused_def doubleton_eq_iff)
    with 3 show ?thesis by simp
  qed
qed

section \<open>The invariant\<close>

definition junction :: "nat list \<Rightarrow> nat list \<Rightarrow> nat \<Rightarrow> nat set list" where
  "junction p st a = (if p = [] \<or> st = [] then [] else [{last p, a}])"

definition trail :: "nat list \<Rightarrow> nat list \<Rightarrow> nat \<Rightarrow> nat set list" where
  "trail p st a = wedges p @ junction p st a @ wedges st"

definition walk_inv :: "nat \<Rightarrow> nat \<Rightarrow> walk \<Rightarrow> bool" where
  "walk_inv V a w = (case w of (U, st, p) \<Rightarrow>
     set st \<union> set p \<subseteq> {..<V} \<and> U \<subseteq> {B. B \<subseteq> {..<V} \<and> card B = 2} \<and>
     distinct (trail p st a) \<and> set (trail p st a) = U \<and>
     (st \<noteq> [] \<longrightarrow> last st = 0 \<and>
        (\<forall>u<V. even (card (unused V U u)) \<longleftrightarrow> (u = hd st \<longleftrightarrow> u = a))) \<and>
     (st = [] \<longrightarrow> p \<noteq> [] \<and> last p = 0) \<and>
     (p = [] \<longrightarrow> a = 0) \<and> (p \<noteq> [] \<longrightarrow> hd p = 0) \<and>
     (\<forall>x\<in>set p. saturated V U x))"

lemma walk_inv_start: "odd V \<Longrightarrow> walk_inv V 0 ({}, [0], [])"
  by (auto simp: walk_inv_def trail_def junction_def card_unused_start odd_pos)

lemma walk_inv_push:
  assumes "walk_inv V a (U, x # st, p)" "y < V" "y \<noteq> x" "{x, y} \<notin> U"
  shows "walk_inv V a (insert {x, y} U, y # x # st, p)"
proof -
  have x: "x < V" using assms(1) by (simp add: walk_inv_def)
  have tr: "trail p (y # x # st) a = wedges p @ junction p (x # st) a @ {x, y} # wedges (x # st)"
    by (simp add: trail_def junction_def insert_commute)
  have "distinct (trail p (y # x # st) a)" "set (trail p (y # x # st) a) = insert {x, y} U"
    using assms(1,4) unfolding tr by (auto simp: walk_inv_def trail_def)
  moreover have "even (card (unused V (insert {x, y} U) u)) \<longleftrightarrow> (u = y \<longleftrightarrow> u = a)" if "u < V" for u
    using even_unused_insert[of x V y U u] assms x that by (auto simp: walk_inv_def)
  ultimately show ?thesis
    using assms x by (auto simp: walk_inv_def saturated_def)
qed

lemma walk_inv_pop:
  assumes "walk_inv V a (U, x # st, p)" "saturated V U x"
  shows "walk_inv V (if st = [] then a else hd st) (U, st, p @ [x])"
proof -
  have x: "x < V" using assms(1) by (simp add: walk_inv_def)
  have xa: "x = a"
    using assms x by (auto simp: walk_inv_def saturated_unused)
  have tr: "trail (p @ [x]) st (if st = [] then a else hd st) = trail p (x # st) a"
    using xa by (cases st) (auto simp: trail_def junction_def wedges_snoc)
  show ?thesis
    using assms xa unfolding walk_inv_def prod.case tr
    by (cases st) (auto simp: hd_append)
qed

lemma walk_inv_reach: "walk_reach V w \<Longrightarrow> odd V \<Longrightarrow> \<exists>a. walk_inv V a w"
proof (induction rule: walk_reach.induct)
  case start
  then show ?case using walk_inv_start by blast
next
  case (step w w')
  then obtain a where "walk_inv V a w" by blast
  with step(2) show ?case
    by cases (use walk_inv_push walk_inv_pop in blast)+
qed

section \<open>Euler circuits\<close>

lemma euler_circuit:
  assumes "odd V" "walk_reach V (U, [], p)"
  shows "p \<noteq> []" "hd p = 0" "last p = 0" "set p \<subseteq> {..<V}" "distinct (wedges p)"
    "set (wedges p) = {B. B \<subseteq> {..<V} \<and> card B = 2}"
proof -
  obtain a where inv: "walk_inv V a (U, [], p)" using walk_inv_reach assms by blast
  then show p: "p \<noteq> []" "hd p = 0" "last p = 0" "set p \<subseteq> {..<V}" "distinct (wedges p)"
    by (auto simp: walk_inv_def trail_def junction_def)
  have U: "set (wedges p) = U" and sat: "\<And>x. x \<in> set p \<Longrightarrow> saturated V U x"
    using inv by (auto simp: walk_inv_def trail_def junction_def)
  have sat_all: "saturated V U x" if "x < V" for x
  proof (cases "x = 0")
    case True
    have "0 \<in> set p" using p(1,2) hd_in_set by metis
    with True show ?thesis using sat by simp
  next
    case False
    have "saturated V U 0" using p(1,2) sat hd_in_set by metis
    then have "{0, x} \<in> U" using False that by (simp add: saturated_def)
    then have "x \<in> set p" using wedges_vertices U by blast
    then show ?thesis by (rule sat)
  qed
  have "B \<in> U" if B: "B \<subseteq> {..<V}" "card B = 2" for B
  proof -
    obtain x y where "B = {x, y}" "x \<noteq> y" using B(2) by (meson card_2_iff)
    with B(1) sat_all[of x] show ?thesis by (auto simp: saturated_def)
  qed
  moreover have "U \<subseteq> {B. B \<subseteq> {..<V} \<and> card B = 2}" using inv by (simp add: walk_inv_def)
  ultimately show "set (wedges p) = {B. B \<subseteq> {..<V} \<and> card B = 2}" using U by blast
qed

text \<open>A closed walk leaves every vertex as often as it enters it.\<close>

lemma closed_walk_balanced:
  assumes "p \<noteq> []" "hd p = last p"
  shows "length (filter (\<lambda>e. fst e = u) (zip p (tl p))) = length (filter (\<lambda>e. snd e = u) (zip p (tl p)))"
proof -
  have fsts: "map fst (zip p (tl p)) = butlast p" and snds: "map snd (zip p (tl p)) = tl p"
    by (induction p rule: wedges.induct) auto
  have "length (filter (\<lambda>e. fst e = u) (zip p (tl p))) = length (filter (\<lambda>x. x = u) (butlast p))"
    by (subst fsts[symmetric]) (simp add: filter_map o_def)
  moreover have "length (filter (\<lambda>e. snd e = u) (zip p (tl p))) = length (filter (\<lambda>x. x = u) (tl p))"
    by (subst snds[symmetric]) (simp add: filter_map o_def)
  moreover have "length (filter (\<lambda>x. x = u) (butlast p)) + length (filter (\<lambda>x. x = u) [last p]) =
    length (filter (\<lambda>x. x = u) [hd p]) + length (filter (\<lambda>x. x = u) (tl p))"
    using assms(1) by (metis append_butlast_last_id append_Cons append_Nil filter_append
        length_append list.collapse)
  ultimately show ?thesis using assms(2) by simp
qed

end
