(* ===== verification/Balance.thy ===== *)
theory Balance
  imports Euler
begin

text \<open>
  \<open>internal/fixtures/balance.go\<close>: the home/away orientation of all pairs.  The graph is built by
  \<open>addEdge\<close> as adjacency lists with edge ids, the loop of Hierholzer's algorithm runs on the
  iterators, the used flags, the stack and the path (\<open>hstep\<close>, \<open>hloop\<close>), and the orientation is
  read off the path.  An index out of range would be a panic, the value \<open>None\<close>; the loop's
  termination is shown by the number of unused edges and the stack's height.

  The lemmas refine the loop to the abstract walk of theory Euler, so that
  \<open>orientBalanced_balanced\<close> holds: the routine returns, orients every pair, and no participant's
  home and away counts differ by more than one.

  The stack is kept with its top first (the source's last element).
\<close>

section \<open>Definitions\<close>

type_synonym adjacency = "(nat \<times> nat) list list"  \<comment> \<open>per vertex: \<open>edge{to, id}\<close>\<close>
type_synonym orientation = "nat \<times> nat \<Rightarrow> bool option"

definition addEdge :: "nat \<times> nat \<Rightarrow> adjacency \<times> bool list \<Rightarrow> adjacency \<times> bool list" where
  "addEdge e g = (case (e, g) of ((a, b), (adj, used)) \<Rightarrow>
     (let eid = length used;
          adj1 = adj[a := adj ! a @ [(b, eid)]]
      in (adj1[b := adj1 ! b @ [(a, eid)]], used @ [False])))"

definition kn_edges :: "nat \<Rightarrow> (nat \<times> nat) list" where
  "kn_edges n =
     concat (map (\<lambda>i. map (\<lambda>j. (i, j)) [i + 1..<n]) [0..<n]) @
     (if n mod 2 = 0 then map (\<lambda>i. (i, n)) [0..<n] else [])"

definition kn_vertices :: "nat \<Rightarrow> nat" where
  "kn_vertices n = (if n mod 2 = 0 then n + 1 else n)"

definition build_graph :: "nat \<Rightarrow> adjacency \<times> bool list" where
  "build_graph n = fold addEdge (kn_edges n) (replicate (kn_vertices n) [], [])"

record hstate =
  h_iter :: "nat list"
  h_used :: "bool list"
  h_stack :: "nat list"
  h_path :: "nat list"

text \<open>\<open>for iter[x] < len(adj[x]) && used[adj[x][iter[x]].id] { iter[x]++ }\<close>\<close>

function skip_used :: "bool list \<Rightarrow> (nat \<times> nat) list \<Rightarrow> nat \<Rightarrow> nat option" where
  "skip_used used es i =
     (if i < length es then
        (if snd (es ! i) < length used
         then (if used ! snd (es ! i) then skip_used used es (i + 1) else Some i)
         else None)
      else Some i)"
  by pat_completeness auto
termination by (relation "measure (\<lambda>(used, es, i). length es - i)") auto

declare skip_used.simps [simp del]

definition hstep :: "adjacency \<Rightarrow> hstate \<Rightarrow> hstate option" where
  "hstep adj s = (case h_stack s of
     [] \<Rightarrow> None
   | x # rest \<Rightarrow>
       if x < length adj \<and> x < length (h_iter s) then
         (case skip_used (h_used s) (adj ! x) (h_iter s ! x) of
            None \<Rightarrow> None
          | Some i \<Rightarrow>
              if i = length (adj ! x) then
                Some (s\<lparr> h_iter := (h_iter s)[x := i], h_path := h_path s @ [x], h_stack := rest \<rparr>)
              else if i < length (adj ! x) \<and> snd (adj ! x ! i) < length (h_used s) then
                (let (to, eid) = adj ! x ! i in
                 Some (s\<lparr> h_used := (h_used s)[eid := True], h_iter := (h_iter s)[x := i + 1],
                          h_stack := to # x # rest \<rparr>))
              else None)
       else None)"

lemma skip_used_Some:
  "skip_used used es i = Some k \<Longrightarrow> i \<le> length es \<Longrightarrow>
   i \<le> k \<and> k \<le> length es \<and> (\<forall>j. i \<le> j \<longrightarrow> j < k \<longrightarrow> used ! snd (es ! j)) \<and>
   (k < length es \<longrightarrow> snd (es ! k) < length used \<and> \<not> used ! snd (es ! k))"
proof (induction used es i rule: skip_used.induct)
  case (1 used es i)
  note unf = skip_used.simps[of used es i]
  show ?case
  proof (cases "i < length es \<and> snd (es ! i) < length used \<and> used ! snd (es ! i)")
    case True
    then have "skip_used used es (i + 1) = Some k" using "1.prems"(1) unf by simp
    then have IH: "i + 1 \<le> k \<and> k \<le> length es \<and> (\<forall>j. i + 1 \<le> j \<longrightarrow> j < k \<longrightarrow> used ! snd (es ! j)) \<and>
      (k < length es \<longrightarrow> snd (es ! k) < length used \<and> \<not> used ! snd (es ! k))"
      using "1.IH" True by simp
    moreover have "used ! snd (es ! j)" if "i \<le> j" "j < k" for j
      using that IH True by (cases "j = i") auto
    ultimately show ?thesis by simp
  next
    case False
    then show ?thesis using "1.prems" unf by (auto split: if_splits)
  qed
qed

lemma skip_used_ge: "skip_used used es i = Some k \<Longrightarrow> i \<le> k"
proof (cases "i \<le> length es")
  case False
  then show "skip_used used es i = Some k \<Longrightarrow> i \<le> k" by (simp add: skip_used.simps)
qed (simp add: skip_used_Some)

lemma skip_used_total:
  "\<forall>e\<in>set es. snd e < length used \<Longrightarrow> \<exists>k. skip_used used es i = Some k"
proof (induction used es i rule: skip_used.induct)
  case (1 used es i)
  then show ?case
    by (subst skip_used.simps) (auto dest: nth_mem)
qed

lemma unused_flags_update:
  "i < length used \<Longrightarrow> \<not> used ! i \<Longrightarrow>
   length (filter Not used) = Suc (length (filter Not (used[i := True])))"
proof (induction used arbitrary: i)
  case (Cons u used)
  then show ?case by (cases i) auto
qed simp

definition hmeasure :: "hstate \<Rightarrow> nat" where
  "hmeasure s = 2 * length (filter Not (h_used s)) + length (h_stack s)"

lemma hstep_measure:
  assumes "hstep adj s = Some s'"
  shows "hmeasure s' < hmeasure s"
proof -
  obtain x rest where st: "h_stack s = x # rest" and x: "x < length adj" "x < length (h_iter s)"
    using assms(1) by (auto simp: hstep_def split: list.splits if_splits)
  obtain i where i: "skip_used (h_used s) (adj ! x) (h_iter s ! x) = Some i"
    using assms st x by (auto simp: hstep_def split: option.splits)
  show ?thesis
  proof (cases "i = length (adj ! x)")
    case True
    then show ?thesis using assms st x i by (auto simp: hstep_def hmeasure_def)
  next
    case False
    obtain to eid where e: "adj ! x ! i = (to, eid)" by (cases "adj ! x ! i")
    have "i < length (adj ! x)"
      using assms st x i False by (auto simp: hstep_def split: if_splits)
    then have "eid < length (h_used s)" "\<not> h_used s ! eid"
      using skip_used_Some[OF i] skip_used_ge[OF i] e by auto
    then show ?thesis
      using assms st x i e False unused_flags_update[of eid "h_used s"]
      by (auto simp: hstep_def hmeasure_def split: if_splits)
  qed
qed

text \<open>\<open>for len(stack) > 0\<close>\<close>

function hloop :: "adjacency \<Rightarrow> hstate \<Rightarrow> nat list option" where
  "hloop adj s =
     (if h_stack s = [] then Some (h_path s)
      else case hstep adj s of None \<Rightarrow> None | Some s' \<Rightarrow> hloop adj s')"
  by pat_completeness auto
termination
  by (relation "measure (\<lambda>(adj, s). hmeasure s)") (auto simp: hstep_measure)

declare hloop.simps [simp del]

definition orient_edge :: "nat \<Rightarrow> nat \<times> nat \<Rightarrow> orientation \<Rightarrow> orientation" where
  "orient_edge n e orient = (case e of (u, w) \<Rightarrow>
     if n \<le> u \<or> n \<le> w then orient
     else let lo = min u w; hi = max u w in
       if orient (lo, hi) = None then orient((lo, hi) \<mapsto> (u = lo)) else orient)"

definition orientBalanced :: "nat \<Rightarrow> orientation option" where
  "orientBalanced n =
     (let (adj, used) = build_graph n in
      case hloop adj \<lparr> h_iter = replicate (kn_vertices n) 0, h_used = used,
                       h_stack = [0], h_path = [] \<rparr> of
        None \<Rightarrow> None
      | Some path \<Rightarrow> Some (fold (orient_edge n) (zip path (tl path)) Map.empty))"

definition homeAway :: "orientation \<Rightarrow> nat \<Rightarrow> nat \<Rightarrow> nat \<times> nat" where
  "homeAway orient a b =
     (let lo = min a b; hi = max a b in
      if orient (lo, hi) = Some True then (lo, hi) else (hi, lo))"

section \<open>The graph\<close>

lemma set_kn_edges: "set (kn_edges n) = {(a, b). a < b \<and> b < kn_vertices n}"
proof -
  have "set (concat (map (\<lambda>i. map (\<lambda>j. (i, j)) [i + 1..<n]) [0..<n])) = {(a, b). a < b \<and> b < n}"
    by (auto simp: image_iff)
  moreover have "set (map (\<lambda>i. (i, n)) [0..<n]) = {(a, b). a < b \<and> b = n}"
    by (auto simp: image_iff)
  ultimately show ?thesis
    unfolding kn_edges_def kn_vertices_def set_append by (auto simp: less_Suc_eq)
qed

lemma distinct_kn_edges: "distinct (kn_edges n)"
proof -
  have "distinct (concat (map (\<lambda>i. map (\<lambda>j. (i, j)) [i + 1..<n]) xs))" if "distinct xs" for xs
    using that by (induction xs) (auto simp: distinct_map inj_on_def)
  then show ?thesis
    by (auto simp: kn_edges_def distinct_map inj_on_def)
qed

lemma odd_kn_vertices: "odd (kn_vertices n)"
  by (cases "even n") (simp_all add: kn_vertices_def odd_iff_mod_2_eq_one)

definition ends :: "(nat \<times> nat) list \<Rightarrow> nat \<Rightarrow> nat set" where
  "ends E e = {fst (E ! e), snd (E ! e)}"

lemma inj_on_ends: "inj_on (ends (kn_edges n)) {..<length (kn_edges n)}"
proof (rule inj_onI)
  fix e f assume "e \<in> {..<length (kn_edges n)}" "f \<in> {..<length (kn_edges n)}"
    and eq: "ends (kn_edges n) e = ends (kn_edges n) f"
  then have e: "e < length (kn_edges n)" and f: "f < length (kn_edges n)" by auto
  have "kn_edges n ! e \<in> set (kn_edges n)" "kn_edges n ! f \<in> set (kn_edges n)"
    using e f by auto
  then have "kn_edges n ! e = kn_edges n ! f"
    using eq by (auto simp: set_kn_edges ends_def doubleton_eq_iff prod_eq_iff)
  then show "e = f" using e f distinct_kn_edges by (simp add: nth_eq_iff_index_eq)
qed

text \<open>Adjacency lists name, for each vertex, exactly the edges at it.\<close>

definition graph_ok :: "nat \<Rightarrow> (nat \<times> nat) list \<Rightarrow> adjacency \<Rightarrow> bool" where
  "graph_ok V E adj \<longleftrightarrow> length adj = V \<and>
     (\<forall>x<V. set (adj ! x) = {(y, e). e < length E \<and> (E ! e = (x, y) \<or> E ! e = (y, x))})"

lemma addEdge_ok:
  assumes "graph_ok V E adj" "length used = length E" "a < V" "b < V" "a \<noteq> b"
  shows "case addEdge (a, b) (adj, used) of (adj', used') \<Rightarrow>
    graph_ok V (E @ [(a, b)]) adj' \<and> used' = used @ [False]"
  using assms
  by (auto simp: addEdge_def graph_ok_def Let_def nth_list_update nth_append less_Suc_eq)

lemma build_graph_ok:
  "graph_ok (kn_vertices n) (kn_edges n) (fst (build_graph n))"
  "snd (build_graph n) = replicate (length (kn_edges n)) False"
proof -
  let ?V = "kn_vertices n"
  have "graph_ok ?V es (fst (fold addEdge es (replicate ?V [], []))) \<and>
    snd (fold addEdge es (replicate ?V [], [])) = replicate (length es) False"
    if "set es \<subseteq> set (kn_edges n)" for es
    using that
  proof (induction es rule: rev_induct)
    case Nil
    then show ?case by (simp add: graph_ok_def)
  next
    case (snoc e es)
    obtain a b where e: "e = (a, b)" by (cases e)
    obtain adj used where g: "fold addEdge es (replicate ?V [], []) = (adj, used)"
      by (cases "fold addEdge es (replicate ?V [], [])")
    have "a < ?V" "b < ?V" "a \<noteq> b" using snoc.prems e by (auto simp: set_kn_edges)
    with addEdge_ok[of ?V es adj used a b] snoc g e show ?case
      by (auto simp: replicate_append_same split: prod.splits)
  qed
  from this[of "kn_edges n"] show "graph_ok ?V (kn_edges n) (fst (build_graph n))"
    "snd (build_graph n) = replicate (length (kn_edges n)) False"
    by (simp_all add: build_graph_def)
qed

section \<open>The loop refines the abstract walk\<close>

definition used_edges :: "(nat \<times> nat) list \<Rightarrow> bool list \<Rightarrow> nat set set" where
  "used_edges E used = ends E ` {e. e < length E \<and> used ! e}"

definition walk_of :: "(nat \<times> nat) list \<Rightarrow> hstate \<Rightarrow> walk" where
  "walk_of E s = (used_edges E (h_used s), h_stack s, h_path s)"

definition hinv :: "(nat \<times> nat) list \<Rightarrow> adjacency \<Rightarrow> hstate \<Rightarrow> bool" where
  "hinv E adj s \<longleftrightarrow> length (h_used s) = length E \<and> length (h_iter s) = length adj \<and>
     (\<forall>x<length adj. h_iter s ! x \<le> length (adj ! x) \<and>
        (\<forall>k<h_iter s ! x. h_used s ! snd (adj ! x ! k)))"

lemma used_edges_iff:
  assumes "inj_on (ends E) {..<length E}" "e < length E"
  shows "ends E e \<in> used_edges E used \<longleftrightarrow> used ! e"
  using assms by (auto simp: used_edges_def inj_on_def)

lemma used_edges_update:
  "e < length E \<Longrightarrow> length used = length E \<Longrightarrow>
   used_edges E (used[e := True]) = insert (ends E e) (used_edges E used)"
  by (auto simp: used_edges_def nth_list_update)

text \<open>The graph as the loop sees it: adjacency lists, injective ends, all pairs present.\<close>

definition complete_graph :: "nat \<Rightarrow> (nat \<times> nat) list \<Rightarrow> adjacency \<Rightarrow> bool" where
  "complete_graph V E adj \<longleftrightarrow> graph_ok V E adj \<and> inj_on (ends E) {..<length E} \<and>
     set E = {(a, b). a < b \<and> b < V}"

lemma complete_graph_adj:
  assumes "complete_graph V E adj" "x < V"
  shows "(y, e) \<in> set (adj ! x) \<Longrightarrow> e < length E \<and> ends E e = {x, y} \<and> y < V \<and> y \<noteq> x"
    and "y < V \<Longrightarrow> y \<noteq> x \<Longrightarrow> \<exists>e. (y, e) \<in> set (adj ! x)"
proof -
  have E: "set E = {(a, b). a < b \<and> b < V}"
    and adj: "set (adj ! x) = {(y, e). e < length E \<and> (E ! e = (x, y) \<or> E ! e = (y, x))}"
    using assms by (auto simp: complete_graph_def graph_ok_def)
  show "(y, e) \<in> set (adj ! x) \<Longrightarrow> e < length E \<and> ends E e = {x, y} \<and> y < V \<and> y \<noteq> x"
  proof -
    assume "(y, e) \<in> set (adj ! x)"
    then have e: "e < length E" "E ! e = (x, y) \<or> E ! e = (y, x)" by (auto simp: adj)
    have "E ! e \<in> {(a, b). a < b \<and> b < V}"
      unfolding E[symmetric] using e(1) by (rule nth_mem)
    with e show ?thesis by (auto simp: ends_def)
  qed
  assume y: "y < V" "y \<noteq> x"
  then have "(x, y) \<in> set E \<or> (y, x) \<in> set E" using assms(2) unfolding E by auto
  then obtain e where "e < length E" "E ! e = (x, y) \<or> E ! e = (y, x)"
    by (metis in_set_conv_nth)
  then have "(y, e) \<in> set (adj ! x)" by (simp add: adj)
  then show "\<exists>e. (y, e) \<in> set (adj ! x)" ..
qed

lemma hstep_refines:
  assumes G: "complete_graph V E adj" and inv: "hinv E adj s"
    and st: "h_stack s = x # rest" and x: "x < V"
  obtains s' where "hstep adj s = Some s'" "hinv E adj s'"
    "walk_step V (walk_of E s) (walk_of E s')"
proof -
  have len: "length adj = V" "length (h_iter s) = V" "length (h_used s) = length E"
    and inj: "inj_on (ends E) {..<length E}"
    using G inv by (auto simp: complete_graph_def graph_ok_def hinv_def)
  have "\<forall>e\<in>set (adj ! x). snd e < length (h_used s)"
    using complete_graph_adj(1)[OF G x] len by auto
  then obtain i where i: "skip_used (h_used s) (adj ! x) (h_iter s ! x) = Some i"
    using skip_used_total by blast
  have iter: "h_iter s ! x \<le> length (adj ! x)" "\<forall>k<h_iter s ! x. h_used s ! snd (adj ! x ! k)"
    using inv x len by (auto simp: hinv_def)
  have sk: "i \<le> length (adj ! x)" "\<forall>k<i. h_used s ! snd (adj ! x ! k)"
    "i < length (adj ! x) \<Longrightarrow> \<not> h_used s ! snd (adj ! x ! i)"
    using skip_used_Some[OF i iter(1)] iter(2) not_less by blast+
  show thesis
  proof (cases "i = length (adj ! x)")
    case True
    let ?s' = "s\<lparr> h_iter := (h_iter s)[x := i], h_path := h_path s @ [x], h_stack := rest \<rparr>"
    have "hstep adj s = Some ?s'" using st x len i True by (simp add: hstep_def)
    moreover have "hinv E adj ?s'" using inv sk len x by (auto simp: hinv_def nth_list_update)
    moreover have "saturated V (used_edges E (h_used s)) x"
      unfolding saturated_def
    proof (intro allI impI)
      fix w assume "w < V" "w \<noteq> x"
      then obtain e where e: "(w, e) \<in> set (adj ! x)" using complete_graph_adj(2)[OF G x] by blast
      then obtain k where "k < i" "adj ! x ! k = (w, e)" using True by (auto simp: in_set_conv_nth)
      then have "h_used s ! e" using sk(2) by force
      then show "{x, w} \<in> used_edges E (h_used s)"
        using complete_graph_adj(1)[OF G x e] used_edges_iff[OF inj, of e] by simp
    qed
    then have "walk_step V (walk_of E s) (walk_of E ?s')"
      by (simp add: walk_of_def st walk_step.pop)
    ultimately show thesis by (rule that)
  next
    case False
    then have il: "i < length (adj ! x)" using sk(1) by simp
    obtain y e where e: "adj ! x ! i = (y, e)" by (cases "adj ! x ! i")
    then have adj: "e < length E" "ends E e = {x, y}" "y < V" "y \<noteq> x"
      using complete_graph_adj(1)[OF G x, of y e] il nth_mem by metis+
    let ?s' = "s\<lparr> h_used := (h_used s)[e := True], h_iter := (h_iter s)[x := i + 1],
                  h_stack := y # x # rest \<rparr>"
    have "hstep adj s = Some ?s'" using st x len i False il e adj by (simp add: hstep_def)
    moreover have "hinv E adj ?s'"
      using inv sk il len x e adj by (auto simp: hinv_def nth_list_update less_Suc_eq)
    moreover have "{x, y} \<notin> used_edges E (h_used s)"
      using sk(3)[OF il] e adj used_edges_iff[OF inj, of e] by simp
    then have "walk_step V (walk_of E s) (walk_of E ?s')"
      using adj len by (simp add: walk_of_def st used_edges_update walk_step.push)
    ultimately show thesis by (rule that)
  qed
qed

lemma hloop_circuit:
  assumes G: "complete_graph V E adj" and V: "odd V"
    and "hinv E adj s" "walk_reach V (walk_of E s)"
  shows "\<exists>p U. hloop adj s = Some p \<and> walk_reach V (U, [], p)"
  using assms(3,4)
proof (induction s rule: measure_induct_rule[where f = hmeasure])
  case (less s)
  show ?case
  proof (cases "h_stack s")
    case Nil
    then show ?thesis using less.prems(2) by (auto simp: hloop.simps walk_of_def)
  next
    case (Cons x rest)
    have "x < V"
      using walk_inv_reach[OF less.prems(2) V] Cons by (auto simp: walk_inv_def walk_of_def)
    then obtain s' where s': "hstep adj s = Some s'" "hinv E adj s'"
      "walk_step V (walk_of E s) (walk_of E s')"
      using hstep_refines[OF G less.prems(1) Cons] by blast
    have "walk_reach V (walk_of E s')" using less.prems(2) s'(3) by (rule walk_reach.step)
    then have "\<exists>p U. hloop adj s' = Some p \<and> walk_reach V (U, [], p)"
      using less.IH hstep_measure[OF s'(1)] s'(2) by blast
    then show ?thesis using s'(1) Cons by (simp add: hloop.simps[of adj s])
  qed
qed

section \<open>The orientation\<close>

text \<open>Every pair is travelled in exactly one direction.\<close>

lemma travel_once:
  assumes "distinct (wedges p)" and "(u, w) \<in> set (zip p (tl p))" "u \<noteq> w"
  shows "(w, u) \<notin> set (zip p (tl p))"
proof
  assume "(w, u) \<in> set (zip p (tl p))"
  moreover have "inj_on (\<lambda>(x, y). {x, y}) (set (zip p (tl p)))"
    using assms(1) by (simp add: wedges_zip distinct_map)
  moreover have "(\<lambda>(x, y). {x, y}) (u, w) = (\<lambda>(x, y). {x, y}) (w, u)"
    by (simp add: insert_commute)
  ultimately have "(u, w) = (w, u)" using assms(2) by (meson inj_onD)
  with assms(3) show False by simp
qed

lemma orient_edge_fold:
  assumes "\<And>u w. (u, w) \<in> set es \<Longrightarrow> u \<noteq> w \<and> (w, u) \<notin> set es"
    and "lo < hi"
  shows "fold (orient_edge n) es Map.empty (lo, hi) =
    (if hi < n \<and> (lo, hi) \<in> set es then Some True
     else if hi < n \<and> (hi, lo) \<in> set es then Some False else None)"
  using assms
proof (induction es rule: rev_induct)
  case (snoc e es)
  obtain u w where e: "e = (u, w)" by (cases e)
  have IH: "fold (orient_edge n) es Map.empty (lo, hi) =
    (if hi < n \<and> (lo, hi) \<in> set es then Some True
     else if hi < n \<and> (hi, lo) \<in> set es then Some False else None)"
  proof (rule snoc.IH[OF _ snoc.prems(2)])
    show "u \<noteq> w \<and> (w, u) \<notin> set es" if "(u, w) \<in> set es" for u w
      using snoc.prems(1)[of u w] that by simp
  qed
  have uw: "u \<noteq> w" "(w, u) \<notin> set es" using snoc.prems(1)[of u w] e by auto
  show ?case
  proof (cases "n \<le> u \<or> n \<le> w \<or> min u w \<noteq> lo \<or> max u w \<noteq> hi")
    case True
    then have "orient_edge n e (fold (orient_edge n) es Map.empty) (lo, hi) =
      fold (orient_edge n) es Map.empty (lo, hi)"
      by (auto simp: orient_edge_def e Let_def)
    moreover have "hi < n \<Longrightarrow> e \<noteq> (lo, hi) \<and> e \<noteq> (hi, lo)" using True snoc.prems(2) e by auto
    ultimately show ?thesis using IH by auto
  next
    case False
    then have "orient_edge n e (fold (orient_edge n) es Map.empty) (lo, hi) =
      (if fold (orient_edge n) es Map.empty (lo, hi) = None then Some (u = lo)
       else fold (orient_edge n) es Map.empty (lo, hi))"
      by (auto simp: orient_edge_def e Let_def)
    moreover have "e = (lo, hi) \<or> e = (hi, lo)" using False e by (auto simp: min_def max_def split: if_splits)
    ultimately show ?thesis using IH uw False snoc.prems(2) e by auto
  qed
qed simp

text \<open>The properties of the result that the round-robin builder uses.\<close>

definition home_set :: "nat \<Rightarrow> orientation \<Rightarrow> nat \<Rightarrow> nat set" where
  "home_set n orient a = {b. b < n \<and> b \<noteq> a \<and> homeAway orient a b = (a, b)}"

definition away_set :: "nat \<Rightarrow> orientation \<Rightarrow> nat \<Rightarrow> nat set" where
  "away_set n orient a = {b. b < n \<and> b \<noteq> a \<and> homeAway orient a b = (b, a)}"

lemma homeAway_cases: "homeAway orient a b = (a, b) \<or> homeAway orient a b = (b, a)"
  by (auto simp: homeAway_def Let_def min_def max_def)

lemma homeAway_commute: "homeAway orient a b = homeAway orient b a"
  by (simp add: homeAway_def min.commute max.commute)

lemma homeAway_travel:
  assumes "\<And>u w. (u, w) \<in> set es \<Longrightarrow> u \<noteq> w \<and> (w, u) \<notin> set es"
    and "a \<noteq> b" "a < n" "b < n" and "(a, b) \<in> set es \<or> (b, a) \<in> set es"
  shows "homeAway (fold (orient_edge n) es Map.empty) a b = (a, b) \<longleftrightarrow> (a, b) \<in> set es"
proof (cases "a < b")
  case True
  then show ?thesis
    using orient_edge_fold[OF assms(1) True] assms by (auto simp: homeAway_def)
next
  case False
  then have "b < a" using assms(2) by simp
  then show ?thesis
    using orient_edge_fold[OF assms(1) \<open>b < a\<close>] assms by (auto simp: homeAway_def)
qed

lemma card_neighbours:
  assumes "distinct es"
  shows "card {w. (u, w) \<in> set es} = length (filter (\<lambda>e. fst e = u) es)"
    and "card {w. (w, u) \<in> set es} = length (filter (\<lambda>e. snd e = u) es)"
proof -
  have "snd ` set (filter (\<lambda>e. fst e = u) es) = {w. (u, w) \<in> set es}"
    by (force simp: image_iff)
  moreover have "inj_on snd (set (filter (\<lambda>e. fst e = u) es))"
    by (auto simp: inj_on_def)
  ultimately show "card {w. (u, w) \<in> set es} = length (filter (\<lambda>e. fst e = u) es)"
    using assms by (metis card_image distinct_card distinct_filter)
  have "fst ` set (filter (\<lambda>e. snd e = u) es) = {w. (w, u) \<in> set es}"
    by (force simp: image_iff)
  moreover have "inj_on fst (set (filter (\<lambda>e. snd e = u) es))"
    by (auto simp: inj_on_def)
  ultimately show "card {w. (w, u) \<in> set es} = length (filter (\<lambda>e. snd e = u) es)"
    using assms by (metis card_image distinct_card distinct_filter)
qed

lemma complete_graph_build: "complete_graph (kn_vertices n) (kn_edges n) (fst (build_graph n))"
  by (simp add: complete_graph_def build_graph_ok inj_on_ends set_kn_edges)

lemma orientBalanced_circuit:
  obtains p where "orientBalanced n = Some (fold (orient_edge n) (zip p (tl p)) Map.empty)"
    "p \<noteq> []" "hd p = last p" "distinct (wedges p)"
    "set (wedges p) = {B. B \<subseteq> {..<kn_vertices n} \<and> card B = 2}"
proof -
  let ?V = "kn_vertices n" and ?E = "kn_edges n"
  obtain adj used where g: "build_graph n = (adj, used)" by (cases "build_graph n")
  have G: "complete_graph ?V ?E adj" using complete_graph_build[of n] g by simp
  have used: "used = replicate (length ?E) False" using build_graph_ok(2)[of n] g by simp
  let ?s = "\<lparr> h_iter = replicate ?V 0, h_used = used, h_stack = [0], h_path = [] \<rparr>"
  have "hinv ?E adj ?s"
    using G by (simp add: hinv_def used complete_graph_def graph_ok_def)
  moreover have "walk_of ?E ?s = ({}, [0], [])"
    by (simp add: walk_of_def used_edges_def used)
  then have "walk_reach ?V (walk_of ?E ?s)" by (simp add: walk_reach.start)
  ultimately obtain p U where p: "hloop adj ?s = Some p" "walk_reach ?V (U, [], p)"
    using hloop_circuit[OF G odd_kn_vertices] by blast
  note c = euler_circuit[OF odd_kn_vertices p(2)]
  show thesis
    by (rule that[of p]) (use p(1) g c in \<open>simp_all add: orientBalanced_def\<close>)
qed

lemma orientBalanced_balanced:
  obtains orient where "orientBalanced n = Some orient"
    "\<And>a. a < n \<Longrightarrow> home_set n orient a \<inter> away_set n orient a = {}"
    "\<And>a. a < n \<Longrightarrow> home_set n orient a \<union> away_set n orient a = {..<n} - {a}"
    "\<And>a. a < n \<Longrightarrow> \<bar>int (card (home_set n orient a)) - int (card (away_set n orient a))\<bar> \<le> 1"
    "\<And>a. a < n \<Longrightarrow> odd n \<Longrightarrow> card (home_set n orient a) = card (away_set n orient a)"
proof -
  obtain p where o: "orientBalanced n = Some (fold (orient_edge n) (zip p (tl p)) Map.empty)"
    and p: "p \<noteq> []" "hd p = last p" "distinct (wedges p)"
    and all: "set (wedges p) = {B. B \<subseteq> {..<kn_vertices n} \<and> card B = 2}"
    by (rule orientBalanced_circuit)
  let ?es = "zip p (tl p)" and ?V = "kn_vertices n"
  let ?orient = "fold (orient_edge n) ?es Map.empty"
  have ends: "u \<noteq> w \<and> u < ?V \<and> w < ?V" if "(u, w) \<in> set ?es" for u w
  proof -
    have "{u, w} \<in> set (wedges p)" using that by (force simp: wedges_zip)
    then show ?thesis unfolding all by (auto simp: card_insert_if)
  qed
  have once: "u \<noteq> w \<and> (w, u) \<notin> set ?es" if "(u, w) \<in> set ?es" for u w
    using travel_once[OF p(3) that] ends[OF that] by simp
  have pair: "(u, w) \<in> set ?es \<or> (w, u) \<in> set ?es" if "u < ?V" "w < ?V" "u \<noteq> w" for u w
  proof -
    have "{u, w} \<in> set (wedges p)" unfolding all using that by simp
    then show ?thesis by (auto simp: wedges_zip doubleton_eq_iff)
  qed
  have nV: "n \<le> ?V" "?V \<le> n + 1" by (simp_all add: kn_vertices_def)
  have dir: "homeAway ?orient a b = (a, b) \<longleftrightarrow> (a, b) \<in> set ?es"
    if "a < n" "b < n" "a \<noteq> b" for a b
    using that nV pair[of a b] by (intro homeAway_travel[OF once]) auto
  have home: "home_set n ?orient a = {w. (a, w) \<in> set ?es} \<inter> {..<n}" if "a < n" for a
    using dir[OF that] ends by (auto simp: home_set_def)
  have away: "away_set n ?orient a = {w. (w, a) \<in> set ?es} \<inter> {..<n}" if "a < n" for a
    using dir[OF _ that] ends homeAway_commute[of ?orient a] by (auto simp: away_set_def)
  have dist: "distinct ?es" using p(3) by (simp add: wedges_zip distinct_map)
  have bal: "card {w. (a, w) \<in> set ?es} = card {w. (w, a) \<in> set ?es}" for a
    using closed_walk_balanced[OF p(1,2), of a] card_neighbours[OF dist, of a] by simp
  show thesis
  proof (rule that[OF o])
    fix a assume a: "a < n"
    let ?H = "{w. (a, w) \<in> set ?es}" and ?A = "{w. (w, a) \<in> set ?es}"
    show "home_set n ?orient a \<inter> away_set n ?orient a = {}"
      using once by (auto simp: home[OF a] away[OF a])
    have "(a, b) \<in> set ?es \<or> (b, a) \<in> set ?es" if "b < n" "b \<noteq> a" for b
      using pair[of a b] nV a that by simp
    then show "home_set n ?orient a \<union> away_set n ?orient a = {..<n} - {a}"
      using ends by (auto simp: home[OF a] away[OF a])
    have fin: "finite ?H" "finite ?A" by (auto intro!: finite_subset[of _ "{..<?V}"] dest: ends)
    have HA: "?H \<inter> ?A = {}" using once by auto
    have V: "?H \<union> ?A \<subseteq> {..<?V}" using ends by auto
    show "odd n \<Longrightarrow> card (home_set n ?orient a) = card (away_set n ?orient a)"
    proof -
      assume "odd n"
      then have "?V = n" by (simp add: kn_vertices_def odd_iff_mod_2_eq_one)
      then have "?H \<inter> {..<n} = ?H" "?A \<inter> {..<n} = ?A" using V by auto
      then show ?thesis using bal[of a] by (simp add: home[OF a] away[OF a])
    qed
    have drop: "card S \<le> card (S \<inter> {..<n}) + card (S \<inter> {n})" if "S \<subseteq> {..<?V}" for S
    proof -
      have "S = (S \<inter> {..<n}) \<union> (S \<inter> {n})" using that nV by (auto simp: not_less)
      then show ?thesis by (metis card_Un_le)
    qed
    have "card (?H \<inter> {n}) + card (?A \<inter> {n}) \<le> 1"
      using once by (auto simp: card_insert_if Int_insert_right)
    moreover have "card (?H \<inter> {..<n}) \<le> card ?H" "card (?A \<inter> {..<n}) \<le> card ?A"
      using fin by (auto intro: card_mono)
    ultimately show "\<bar>int (card (home_set n ?orient a)) - int (card (away_set n ?orient a))\<bar> \<le> 1"
      using drop[of ?H] drop[of ?A] V bal[of a] by (simp add: home[OF a] away[OF a])
  qed
qed

end
