(* ===== verification/Round_Robin.thy ===== *)
theory Round_Robin
  imports Circle Balance
begin

text \<open>
  \<open>internal/fixtures/roundrobin.go\<close>, \<open>buildRoundRobin\<close>: the circle-method pairs of leg 0, each
  oriented by \<open>orientBalanced\<close>, repeated over the legs with the sides mirrored in odd legs.  The
  counting lemmas give what the builder promises: every pair meets once per leg, nobody plays
  twice in a round, and home and away counts are balanced.

  The number of legs comes from the request and no caller bounds it, so the allocation
  \<open>make([]PlannedMatch, 0, len(pairs)*legs)\<close> can panic.  The model keeps that panic:
  \<open>buildRoundRobin\<close> is \<open>None\<close> when the runtime refuses the capacity or the slice, and the
  properties say exactly when that is (\<open>rr_fits\<close>).
\<close>

section \<open>Allocation\<close>

text \<open>
  The Go runtime on 64-bit Linux refuses an allocation above \<open>maxAlloc\<close>, 2 to the 48 bytes.
  \<open>make\<close> panics (\<open>makeslice: cap out of range\<close>) on a negative capacity and on one whose bytes
  exceed that limit; the product \<open>len(pairs)*legs\<close> is a 64-bit one and wraps.  When it wraps to
  a capacity that is too small, \<open>append\<close> grows the slice and panics (\<open>growslice\<close>) once its
  bytes exceed the limit.  A \<open>PlannedMatch\<close> takes 168 bytes: nine words of eight bytes
  (\<open>Index\<close>, \<open>RoundNumber\<close>, \<open>MatchNumber\<close>, the two progression pointers, and \<open>Kind\<close> and \<open>Rank\<close>
  of each of the two slots) and six string headers of sixteen.

  For two participants or more and at least one leg the other slices of the builder take fewer
  bytes than the match list, so they fit whenever it does.  Below the limit the program may still be killed for
  want of memory, which is not a result of the function and is not modelled.
\<close>

definition maxAlloc :: int where "maxAlloc = 2 ^ 48"

definition plannedMatch_size :: int where "plannedMatch_size = 168"

definition makeslice :: "int \<Rightarrow> int \<Rightarrow> bool" where
  "makeslice elem capacity \<longleftrightarrow> 0 \<le> capacity \<and> elem * capacity \<le> maxAlloc"

definition growslice :: "int \<Rightarrow> 'a list \<Rightarrow> 'a list option" where
  "growslice elem xs = (if elem * int (length xs) \<le> maxAlloc then Some xs else None)"

section \<open>Definitions\<close>

record oriented =
  o_home :: nat
  o_away :: nat
  o_round :: nat

definition oriented_leg :: "orientation \<Rightarrow> pair list \<Rightarrow> oriented list" where
  "oriented_leg orient pairs =
     map (\<lambda>p. let (h, a) = homeAway orient (pr_a p) (pr_b p)
              in \<lparr> o_home = h, o_away = a, o_round = pr_round p \<rparr>) pairs"

definition rr_match :: "string list \<Rightarrow> nat \<Rightarrow> nat \<Rightarrow> nat \<Rightarrow> oriented \<Rightarrow> PlannedMatch" where
  "rr_match ids roundsPerLeg leg idx g =
     (let (h, a) = (if leg mod 2 = 1 then (o_away g, o_home g) else (o_home g, o_away g));
          round = o_round g + leg * roundsPerLeg
      in planned_match idx round (''Round '' @ nat_str round) []
           (SlotConcrete (ids ! h)) (SlotConcrete (ids ! a)))"

definition buildRoundRobin :: "Participant list \<Rightarrow> nat \<Rightarrow> PlannedMatch list option" where
  "buildRoundRobin seeded legs =
     (let ids = map p_id seeded;
          pairs = circlePairs (length seeded);
          roundsPerLeg = evenCount (length seeded) - 1
      in case orientBalanced (length seeded) of
           None \<Rightarrow> None
         | Some orient \<Rightarrow>
             (let leg0 = oriented_leg orient pairs
              in if \<not> makeslice plannedMatch_size (int64 (int (length pairs) * int legs)) then None
                 else growslice plannedMatch_size
                   (fold (\<lambda>leg ms. append_each (rr_match ids roundsPerLeg leg) leg0 ms)
                     [0..<legs] [])))"

text \<open>The match list of \<open>n\<close> participants over \<open>legs\<close> legs is within the limit.\<close>

definition rr_fits :: "nat \<Rightarrow> nat \<Rightarrow> bool" where
  "rr_fits n legs \<longleftrightarrow> plannedMatch_size * int (n * (n - 1) div 2 * legs) \<le> maxAlloc"

section \<open>Games without indices\<close>

text \<open>The games of the fixture list as (home, away, round) over participant indices.\<close>

definition leg_game :: "nat \<Rightarrow> orientation \<Rightarrow> nat \<Rightarrow> pair \<Rightarrow> nat \<times> nat \<times> nat" where
  "leg_game n orient leg p =
     (let (h, a) = homeAway orient (pr_a p) (pr_b p); r = pr_round p + leg * (evenCount n - 1)
      in if leg mod 2 = 1 then (a, h, r) else (h, a, r))"

definition leg_games :: "nat \<Rightarrow> orientation \<Rightarrow> nat \<Rightarrow> (nat \<times> nat \<times> nat) list" where
  "leg_games n orient leg = map (leg_game n orient leg) (circlePairs n)"

definition all_games :: "nat \<Rightarrow> orientation \<Rightarrow> nat \<Rightarrow> (nat \<times> nat \<times> nat) list" where
  "all_games n orient legs = concat (map (leg_games n orient) [0..<legs])"

definition game_of :: "string list \<Rightarrow> nat \<times> nat \<times> nat \<Rightarrow> SlotRef \<times> SlotRef \<times> nat" where
  "game_of ids g = (case g of (h, a, r) \<Rightarrow> (SlotConcrete (ids ! h), SlotConcrete (ids ! a), r))"

abbreviation game :: "PlannedMatch \<Rightarrow> SlotRef \<times> SlotRef \<times> nat" where
  "game m \<equiv> (pm_home m, pm_away m, pm_roundNumber m)"

lemma games_append_each:
  "map game (append_each (rr_match ids (evenCount n - 1) leg) (oriented_leg orient (circlePairs n)) ms) =
   map game ms @ map (game_of ids) (leg_games n orient leg)"
proof -
  have "map game (map (\<lambda>(i, x). rr_match ids R leg i x) (enumerate k (oriented_leg orient ps))) =
    map (game_of ids) (map (\<lambda>p. let (h, a) = homeAway orient (pr_a p) (pr_b p); r = pr_round p + leg * R
              in if leg mod 2 = 1 then (a, h, r) else (h, a, r)) ps)" for k R ps
    by (induction ps arbitrary: k)
      (auto simp: rr_match_def oriented_leg_def game_of_def Let_def split: prod.splits)
  then show ?thesis by (simp add: append_each_enumerate leg_games_def leg_game_def cong: map_cong)
qed

lemma fold_games:
  "map game (fold (\<lambda>leg ms. append_each (rr_match ids (evenCount n - 1) leg)
      (oriented_leg orient (circlePairs n)) ms) [0..<k] []) =
    map (game_of ids) (all_games n orient k)"
  by (induction k) (simp_all add: all_games_def games_append_each del: One_nat_def)

lemma buildRoundRobin_games:
  assumes "buildRoundRobin seeded legs = Some ms"
  obtains orient where "orientBalanced (length seeded) = Some orient"
    "map game ms = map (game_of (map p_id seeded)) (all_games (length seeded) orient legs)"
proof -
  let ?n = "length seeded" and ?ids = "map p_id seeded"
  obtain orient where o: "orientBalanced ?n = Some orient"
    and ms: "ms = fold (\<lambda>leg ms. append_each (rr_match ?ids (evenCount ?n - 1) leg)
      (oriented_leg orient (circlePairs ?n)) ms) [0..<legs] []"
    using assms by (auto simp: buildRoundRobin_def growslice_def Let_def split: option.splits if_splits)
  show thesis by (rule that[OF o]) (simp only: ms fold_games)
qed

lemma buildRoundRobin_index:
  assumes "buildRoundRobin seeded legs = Some ms" "i < length ms"
  shows "pm_index (ms ! i) = i" "pm_nextMatchIndex (ms ! i) = None"
proof -
  have step: "\<forall>i < length (append_each (rr_match ids R leg) gs ms).
      pm_index (append_each (rr_match ids R leg) gs ms ! i) = i \<and>
      pm_nextMatchIndex (append_each (rr_match ids R leg) gs ms ! i) = None"
    if "\<forall>i < length ms. pm_index (ms ! i) = i \<and> pm_nextMatchIndex (ms ! i) = None" for ids R leg gs ms
    using that by (auto simp: append_each_enumerate nth_append nth_enumerate_eq rr_match_def Let_def)
  obtain orient where
    ms: "ms = fold (\<lambda>leg ms. append_each (rr_match (map p_id seeded) (evenCount (length seeded) - 1) leg)
      (oriented_leg orient (circlePairs (length seeded))) ms) [0..<legs] []"
    using assms(1) by (auto simp: buildRoundRobin_def growslice_def Let_def split: option.splits if_splits)
  have "\<forall>i < length ms. pm_index (ms ! i) = i \<and> pm_nextMatchIndex (ms ! i) = None"
    unfolding ms by (rule fold_invariant[where Q = "\<lambda>_. True"]) (simp_all add: step)
  with assms(2) show "pm_index (ms ! i) = i" "pm_nextMatchIndex (ms ! i) = None" by auto
qed

section \<open>Counting games\<close>

definition meetings :: "PlannedMatch list \<Rightarrow> string \<Rightarrow> string \<Rightarrow> nat" where
  "meetings ms a b =
     length (filter (\<lambda>m. {pm_home m, pm_away m} = {SlotConcrete a, SlotConcrete b}) ms)"

definition home_games :: "PlannedMatch list \<Rightarrow> string \<Rightarrow> nat" where
  "home_games ms a = length (filter (\<lambda>m. pm_home m = SlotConcrete a) ms)"

definition away_games :: "PlannedMatch list \<Rightarrow> string \<Rightarrow> nat" where
  "away_games ms a = length (filter (\<lambda>m. pm_away m = SlotConcrete a) ms)"

definition games_in_round :: "PlannedMatch list \<Rightarrow> nat \<Rightarrow> string \<Rightarrow> nat" where
  "games_in_round ms r a =
     length (filter (\<lambda>m. pm_roundNumber m = r \<and> (pm_home m = SlotConcrete a \<or> pm_away m = SlotConcrete a)) ms)"

abbreviation count_games :: "(nat \<times> nat \<times> nat \<Rightarrow> bool) \<Rightarrow> (nat \<times> nat \<times> nat) list \<Rightarrow> nat" where
  "count_games P gs \<equiv> length (filter P gs)"

lemma count_via_games:
  assumes "map game ms = map (game_of ids) gs"
    and "\<And>g. g \<in> set gs \<Longrightarrow> Q (game_of ids g) \<longleftrightarrow> P g"
  shows "length (filter (\<lambda>m. Q (game m)) ms) = count_games P gs"
proof -
  have "length (filter (\<lambda>m. Q (game m)) ms) = length (filter Q (map game ms))"
    by (simp add: filter_map o_def)
  also have "\<dots> = length (filter (\<lambda>g. Q (game_of ids g)) gs)"
    by (simp add: assms(1) filter_map o_def)
  also have "\<dots> = count_games P gs" using assms(2) by (intro arg_cong[where f = length] filter_cong) auto
  finally show ?thesis .
qed

lemma leg_game_cases:
  "leg_game n orient leg p = (pr_a p, pr_b p, pr_round p + leg * (evenCount n - 1)) \<or>
   leg_game n orient leg p = (pr_b p, pr_a p, pr_round p + leg * (evenCount n - 1))"
  using homeAway_cases[of orient "pr_a p" "pr_b p"] by (auto simp: leg_game_def Let_def)

lemma leg_games_range:
  assumes "g \<in> set (leg_games n orient leg)"
  shows "fst g < n \<and> fst (snd g) < n \<and> fst g \<noteq> fst (snd g)"
    "leg * (evenCount n - 1) < snd (snd g) \<and> snd (snd g) \<le> (leg + 1) * (evenCount n - 1)"
proof -
  obtain p where p: "p \<in> set (circlePairs n)" and g: "g = leg_game n orient leg p"
    using assms by (auto simp: leg_games_def)
  note r = circlePairs_range[OF p]
  show "fst g < n \<and> fst (snd g) < n \<and> fst g \<noteq> fst (snd g)"
    using r leg_game_cases[of n orient leg p] g by auto
  have "snd (snd g) = pr_round p + leg * (evenCount n - 1)"
    using leg_game_cases[of n orient leg p] g by auto
  then show "leg * (evenCount n - 1) < snd (snd g) \<and> snd (snd g) \<le> (leg + 1) * (evenCount n - 1)"
    using r(4,5) by simp
qed

lemma all_games_range:
  "g \<in> set (all_games n orient legs) \<Longrightarrow> fst g < n \<and> fst (snd g) < n \<and> fst g \<noteq> fst (snd g)"
  unfolding all_games_def set_concat set_map using leg_games_range(1)[of g n orient] by blast

lemma count_leg_games:
  "count_games P (leg_games n orient leg) =
   length (filter (\<lambda>p. P (leg_game n orient leg p)) (circlePairs n))"
  by (simp add: leg_games_def filter_map o_def)

lemma count_all_games:
  "count_games P (all_games n orient legs) =
   sum_list (map (\<lambda>leg. count_games P (leg_games n orient leg)) [0..<legs])"
  by (simp add: all_games_def length_filter_concat o_def)

subsection \<open>Meetings\<close>

lemma leg_meetings:
  assumes "a < n" "b < n" "a \<noteq> b"
  shows "count_games (\<lambda>(h, w, _). {h, w} = {a, b}) (leg_games n orient leg) = 1"
proof -
  have "{a, b} \<in> {B. B \<subseteq> {..<n} \<and> card B = 2}" using assms by simp
  then have "{a, b} \<in> set (map upair (circlePairs n))"
    by (simp only: circle_exactly_once(2))
  then have "length (filter (\<lambda>p. upair p = {a, b}) (circlePairs n)) = 1"
    by (rule length_filter_eq_1[OF circle_exactly_once(1)])
  moreover have "(case leg_game n orient leg p of (h, w, _) \<Rightarrow> {h, w} = {a, b}) \<longleftrightarrow> upair p = {a, b}" for p
    using leg_game_cases[of n orient leg p]
    by (elim disjE) (simp_all only: prod.case insert_commute)
  ultimately show ?thesis by (simp only: count_leg_games)
qed

lemma all_meetings:
  assumes "a < n" "b < n" "a \<noteq> b"
  shows "count_games (\<lambda>(h, w, _). {h, w} = {a, b}) (all_games n orient legs) = legs"
  unfolding count_all_games using sum_list_const[of "[0..<legs]"] leg_meetings[OF assms] by simp

subsection \<open>Rounds\<close>

lemma leg_round:
  "count_games (\<lambda>(h, w, r). r = rn \<and> (h = a \<or> w = a)) (leg_games n orient leg) \<le>
   (if leg = (rn - 1) div (evenCount n - 1) then 1 else 0)"
proof (cases "\<exists>g\<in>set (leg_games n orient leg). snd (snd g) = rn")
  case False
  then have "filter (\<lambda>(h, w, r). r = rn \<and> (h = a \<or> w = a)) (leg_games n orient leg) = []"
    by (auto simp: filter_empty_conv)
  then show ?thesis by simp
next
  case True
  then have rn: "leg * (evenCount n - 1) < rn" "rn \<le> (leg + 1) * (evenCount n - 1)"
    using leg_games_range by auto
  then have "leg * (evenCount n - 1) \<le> rn - 1" "rn - 1 < Suc leg * (evenCount n - 1)" by auto
  then have "leg = (rn - 1) div (evenCount n - 1)" by (metis div_nat_eqI mult.commute)
  moreover have "count_games (\<lambda>(h, w, r). r = rn \<and> (h = a \<or> w = a)) (leg_games n orient leg) \<le> 1"
    unfolding count_leg_games
  proof (rule length_le_1)
    let ?Q = "\<lambda>p. case leg_game n orient leg p of (h, w, r) \<Rightarrow> r = rn \<and> (h = a \<or> w = a)"
    show "distinct (filter ?Q (circlePairs n))"
      using circle_exactly_once(1)[of n] by (simp add: distinct_map)
    have side: "a \<in> upair p \<and> pr_round p + leg * (evenCount n - 1) = rn" if "?Q p" for p
      using that leg_game_cases[of n orient leg p] by auto
    fix p q assume "p \<in> set (filter ?Q (circlePairs n))" "q \<in> set (filter ?Q (circlePairs n))"
    then have pq: "p \<in> set (circlePairs n)" "?Q p" "q \<in> set (circlePairs n)" "?Q q" by auto
    have "upair p \<inter> upair q \<noteq> {}" using side[OF pq(2)] side[OF pq(4)] by blast
    moreover have "pr_round p = pr_round q" using side[OF pq(2)] side[OF pq(4)] by linarith
    ultimately show "p = q" using circle_round_disjoint[OF pq(1,3)] by blast
  qed
  ultimately show ?thesis by simp
qed

lemma all_rounds:
  "count_games (\<lambda>(h, w, r). r = rn \<and> (h = a \<or> w = a)) (all_games n orient legs) \<le> 1"
  unfolding count_all_games
  by (rule sum_list_at_most_one[where k = "(rn - 1) div (evenCount n - 1)"]) (simp, rule leg_round)

subsection \<open>Home and away\<close>

lemma leg_sides:
  assumes a: "a < n"
  shows "count_games (\<lambda>g. fst g = a) (leg_games n orient leg) =
      card (if leg mod 2 = 1 then away_set n orient a else home_set n orient a)"
    and "count_games (\<lambda>g. fst (snd g) = a) (leg_games n orient leg) =
      card (if leg mod 2 = 1 then home_set n orient a else away_set n orient a)"
proof -
  have count: "length (filter Q (circlePairs n)) = card S"
    if S: "S \<subseteq> {..<n} - {a}"
      and Q: "\<And>p. p \<in> set (circlePairs n) \<Longrightarrow> Q p \<longleftrightarrow> (\<exists>b\<in>S. upair p = {a, b})" for Q S
  proof -
    have "distinct (map upair (filter Q (circlePairs n)))"
      using circle_exactly_once(1)[of n] by (simp add: distinct_map_filter)
    then have "length (filter Q (circlePairs n)) = card (set (map upair (filter Q (circlePairs n))))"
      by (metis distinct_card length_map)
    also have "set (map upair (filter Q (circlePairs n))) = (\<lambda>b. {a, b}) ` S"
    proof
      show "set (map upair (filter Q (circlePairs n))) \<subseteq> (\<lambda>b. {a, b}) ` S"
        using Q by auto
      show "(\<lambda>b. {a, b}) ` S \<subseteq> set (map upair (filter Q (circlePairs n)))"
      proof
        fix B assume "B \<in> (\<lambda>b. {a, b}) ` S"
        then obtain b where b: "b \<in> S" "B = {a, b}" by blast
        then have "B \<in> {B. B \<subseteq> {..<n} \<and> card B = 2}" using S a by (auto simp: card_insert_if)
        then have "B \<in> set (map upair (circlePairs n))" by (simp only: circle_exactly_once(2))
        then obtain p where p: "p \<in> set (circlePairs n)" "B = upair p" by auto
        then have "Q p" using Q[OF p(1)] b by blast
        with p show "B \<in> set (map upair (filter Q (circlePairs n)))" by simp
      qed
    qed
    also have "card \<dots> = card S"
      by (rule card_image) (use S in \<open>auto simp: inj_on_def doubleton_eq_iff\<close>)
    finally show ?thesis .
  qed
  have home: "fst (homeAway orient (pr_a p) (pr_b p)) = a \<longleftrightarrow> (\<exists>b\<in>home_set n orient a. upair p = {a, b})"
    if "p \<in> set (circlePairs n)" for p
    using circlePairs_range[OF that] homeAway_cases[of orient "pr_a p" "pr_b p"]
      homeAway_commute[of orient "pr_a p" "pr_b p"]
    by (auto simp: home_set_def doubleton_eq_iff)
  have away: "snd (homeAway orient (pr_a p) (pr_b p)) = a \<longleftrightarrow> (\<exists>b\<in>away_set n orient a. upair p = {a, b})"
    if "p \<in> set (circlePairs n)" for p
    using circlePairs_range[OF that] homeAway_cases[of orient "pr_a p" "pr_b p"]
      homeAway_commute[of orient "pr_a p" "pr_b p"]
    by (auto simp: away_set_def doubleton_eq_iff)
  have H: "length (filter (\<lambda>p. fst (homeAway orient (pr_a p) (pr_b p)) = a) (circlePairs n)) =
      card (home_set n orient a)"
    by (rule count[OF _ home]) (auto simp: home_set_def)
  have A: "length (filter (\<lambda>p. snd (homeAway orient (pr_a p) (pr_b p)) = a) (circlePairs n)) =
      card (away_set n orient a)"
    by (rule count[OF _ away]) (auto simp: away_set_def)
  show "count_games (\<lambda>g. fst g = a) (leg_games n orient leg) =
      card (if leg mod 2 = 1 then away_set n orient a else home_set n orient a)"
    unfolding count_leg_games using H A
    by (cases "leg mod 2 = 1") (simp_all add: leg_game_def Let_def case_prod_unfold)
  show "count_games (\<lambda>g. fst (snd g) = a) (leg_games n orient leg) =
      card (if leg mod 2 = 1 then home_set n orient a else away_set n orient a)"
    unfolding count_leg_games using H A
    by (cases "leg mod 2 = 1") (simp_all add: leg_game_def Let_def case_prod_unfold)
qed

lemma all_sides:
  assumes "a < n"
  shows "int (count_games (\<lambda>g. fst g = a) (all_games n orient legs)) -
      int (count_games (\<lambda>g. fst (snd g) = a) (all_games n orient legs)) =
    (if even legs then 0 else int (card (home_set n orient a)) - int (card (away_set n orient a)))"
proof (induction legs)
  case (Suc legs)
  have "all_games n orient (Suc legs) = all_games n orient legs @ leg_games n orient legs"
    by (simp add: all_games_def)
  then show ?case
    using Suc leg_sides[OF assms, of orient legs, folded odd_iff_mod_2_eq_one] by auto
qed (simp add: all_games_def)

section \<open>The builder returns\<close>

text \<open>
  Within the limit the product does not wrap and is the length of the list, so \<open>make\<close> succeeds
  and \<open>append\<close> never grows the slice; above it one of the two refuses.
\<close>

lemma rr_fits_makeslice:
  assumes "rr_fits n legs"
  shows "makeslice plannedMatch_size (int64 (int (length (circlePairs n)) * int legs))"
proof -
  have k: "int (length (circlePairs n)) * int legs = int (n * (n - 1) div 2 * legs)"
    by (simp add: length_circlePairs)
  have "168 * x \<le> 2 ^ 48 \<Longrightarrow> 0 \<le> x \<Longrightarrow> int64 x = x" for x by (rule int64_id) simp_all
  then have "int64 (int (n * (n - 1) div 2 * legs)) = int (n * (n - 1) div 2 * legs)"
    using assms by (simp only: rr_fits_def plannedMatch_size_def maxAlloc_def of_nat_0_le_iff)
  then show ?thesis using assms unfolding k by (simp add: makeslice_def rr_fits_def)
qed

lemma length_all_games: "length (all_games n orient legs) = n * (n - 1) div 2 * legs"
  by (induction legs) (simp_all add: all_games_def leg_games_def length_circlePairs)

lemma growslice_games:
  assumes "map game ms = map (game_of ids) (all_games n orient legs)"
  shows "growslice plannedMatch_size ms = (if rr_fits n legs then Some ms else None)"
  using arg_cong[OF assms, of length] by (simp add: growslice_def rr_fits_def length_all_games)

lemma buildRoundRobin_returns: "(\<exists>ms. buildRoundRobin seeded legs = Some ms) \<longleftrightarrow> rr_fits (length seeded) legs"
proof -
  obtain orient where "orientBalanced (length seeded) = Some orient"
    by (rule orientBalanced_balanced)
  then show ?thesis
    using rr_fits_makeslice[of "length seeded" legs]
    by (auto simp: buildRoundRobin_def Let_def growslice_games[OF fold_games] simp del: One_nat_def)
qed

lemma buildRoundRobin_cases:
  assumes "\<And>ms. buildRoundRobin seeded legs = Some ms \<Longrightarrow> Q ms"
  shows "if rr_fits (length seeded) legs then \<exists>ms. buildRoundRobin seeded legs = Some ms \<and> Q ms
    else buildRoundRobin seeded legs = None"
  using buildRoundRobin_returns[of seeded legs] assms by (auto simp del: not_None_eq)

section \<open>Correctness\<close>

lemma if_P_elim: "(if b then P else Q) \<Longrightarrow> b \<Longrightarrow> P"
  by simp

lemmas rr_fits_demo = rr_fits_def plannedMatch_size_def maxAlloc_def

lemma ids_index:
  assumes "a \<in> p_id ` set seeded"
  obtains i where "i < length seeded" "map p_id seeded ! i = a"
  using assms by (auto simp: in_set_conv_nth)

lemma slot_index:
  assumes "distinct (map p_id seeded)" "i < length seeded" "h < length seeded"
  shows "SlotConcrete (map p_id seeded ! h) = SlotConcrete (map p_id seeded ! i) \<longleftrightarrow> h = i"
  using assms by (metis SlotRef.inject(1) length_map nth_eq_iff_index_eq)

lemma count_games_at:
  assumes "distinct (map p_id seeded)" "i < length seeded" "j < length seeded"
    and "map game ms = map (game_of (map p_id seeded)) (all_games (length seeded) orient legs)"
    and "a = map p_id seeded ! i" "b = map p_id seeded ! j"
  shows "meetings ms a b = count_games (\<lambda>(h, w, _). {h, w} = {i, j}) (all_games (length seeded) orient legs)"
    and "home_games ms a = count_games (\<lambda>g. fst g = i) (all_games (length seeded) orient legs)"
    and "away_games ms a = count_games (\<lambda>g. fst (snd g) = i) (all_games (length seeded) orient legs)"
    and "games_in_round ms rn a =
      count_games (\<lambda>(h, w, r). r = rn \<and> (h = i \<or> w = i)) (all_games (length seeded) orient legs)"
proof -
  note slot = slot_index[OF assms(1)]
  have rng: "fst g < length seeded \<and> fst (snd g) < length seeded"
    if "g \<in> set (all_games (length seeded) orient legs)" for g
    using all_games_range[OF that] by simp
  note cnt = count_via_games[OF assms(4)]
  show "meetings ms a b = count_games (\<lambda>(h, w, _). {h, w} = {i, j}) (all_games (length seeded) orient legs)"
    unfolding meetings_def assms(5,6)
    using cnt[of "\<lambda>(h, w, _). {h, w} = {SlotConcrete (map p_id seeded ! i), SlotConcrete (map p_id seeded ! j)}"
        "\<lambda>(h, w, _). {h, w} = {i, j}"] rng slot[OF assms(2)] slot[OF assms(3)]
    by (simp add: game_of_def case_prod_unfold doubleton_eq_iff)
  show "home_games ms a = count_games (\<lambda>g. fst g = i) (all_games (length seeded) orient legs)"
    unfolding home_games_def assms(5)
    using cnt[of "\<lambda>(h, w, _). h = SlotConcrete (map p_id seeded ! i)" "\<lambda>g. fst g = i"]
      rng slot[OF assms(2)]
    by (simp add: game_of_def case_prod_unfold)
  show "away_games ms a = count_games (\<lambda>g. fst (snd g) = i) (all_games (length seeded) orient legs)"
    unfolding away_games_def assms(5)
    using cnt[of "\<lambda>(h, w, _). w = SlotConcrete (map p_id seeded ! i)" "\<lambda>g. fst (snd g) = i"]
      rng slot[OF assms(2)]
    by (simp add: game_of_def case_prod_unfold)
  show "games_in_round ms rn a =
      count_games (\<lambda>(h, w, r). r = rn \<and> (h = i \<or> w = i)) (all_games (length seeded) orient legs)"
    unfolding games_in_round_def assms(5)
    using cnt[of "\<lambda>(h, w, r). r = rn \<and> (h = SlotConcrete (map p_id seeded ! i) \<or> w = SlotConcrete (map p_id seeded ! i))"
        "\<lambda>(h, w, r). r = rn \<and> (h = i \<or> w = i)"] rng slot[OF assms(2)]
    by (simp add: game_of_def case_prod_unfold)
qed

text \<open>
  C4: a round-robin of any number of legs whose match list the runtime can allocate is
  complete: the builder returns, every two participants meet exactly once per leg, and no match
  has the same participant on both sides.  Above the allocation limit the builder panics.
\<close>

theorem round_robin_meetings:
  assumes "distinct (map p_id seeded)"
    and "a \<in> p_id ` set seeded" "b \<in> p_id ` set seeded" "a \<noteq> b"
  shows "if rr_fits (length seeded) legs
    then \<exists>ms. buildRoundRobin seeded legs = Some ms \<and> meetings ms a b = legs \<and>
      list_all (\<lambda>m. pm_home m \<noteq> pm_away m) ms
    else buildRoundRobin seeded legs = None"
proof (rule buildRoundRobin_cases)
  fix ms assume ms: "buildRoundRobin seeded legs = Some ms"
  obtain orient where g: "map game ms =
      map (game_of (map p_id seeded)) (all_games (length seeded) orient legs)"
    using buildRoundRobin_games[OF ms] by blast
  obtain i j where i: "i < length seeded" "a = map p_id seeded ! i"
    and j: "j < length seeded" "b = map p_id seeded ! j"
    using ids_index[OF assms(2)] ids_index[OF assms(3)] by metis
  have "meetings ms a b = legs"
    using count_games_at(1)[OF assms(1) i(1) j(1) g i(2) j(2)] all_meetings[OF i(1) j(1)] i j assms(4)
    by auto
  moreover have "pm_home m \<noteq> pm_away m" if "m \<in> set ms" for m
  proof -
    have "game m \<in> set (map (game_of (map p_id seeded)) (all_games (length seeded) orient legs))"
      unfolding g[symmetric] set_map using that by (rule imageI)
    then obtain x where x: "x \<in> set (all_games (length seeded) orient legs)"
      and gm: "game m = game_of (map p_id seeded) x" by auto
    show ?thesis
      using all_games_range[OF x] gm slot_index[OF assms(1), of "fst (snd x)" "fst x"]
      by (simp add: game_of_def case_prod_unfold)
  qed
  ultimately show "meetings ms a b = legs \<and> list_all (\<lambda>m. pm_home m \<noteq> pm_away m) ms"
    by (simp add: list_all_iff)
qed

theorem round_robin_meetings_witness:
  "\<exists>ms. buildRoundRobin [\<lparr>p_id = ''a'', p_seedNumber = None, p_registeredAt = 1\<rparr>,
      \<lparr>p_id = ''b'', p_seedNumber = None, p_registeredAt = 2\<rparr>,
      \<lparr>p_id = ''c'', p_seedNumber = None, p_registeredAt = 3\<rparr>] 2 = Some ms \<and>
    meetings ms ''a'' ''c'' = 2 \<and> list_all (\<lambda>m. pm_home m \<noteq> pm_away m) ms"
  by (rule round_robin_meetings[where legs = 2, THEN if_P_elim]) (simp_all add: rr_fits_demo)

text \<open>
  C5: no participant is scheduled twice in one round, whatever the number of participants
  (an odd field rests one participant per round) and legs the runtime can allocate; above the
  limit the builder panics.
\<close>

theorem round_robin_rounds:
  assumes "distinct (map p_id seeded)" "a \<in> p_id ` set seeded"
  shows "if rr_fits (length seeded) legs
    then \<exists>ms. buildRoundRobin seeded legs = Some ms \<and> games_in_round ms rn a \<le> 1
    else buildRoundRobin seeded legs = None"
proof (rule buildRoundRobin_cases)
  fix ms assume ms: "buildRoundRobin seeded legs = Some ms"
  obtain orient where g: "map game ms =
      map (game_of (map p_id seeded)) (all_games (length seeded) orient legs)"
    using buildRoundRobin_games[OF ms] by blast
  obtain i where i: "i < length seeded" "a = map p_id seeded ! i"
    using ids_index[OF assms(2)] by metis
  show "games_in_round ms rn a \<le> 1"
    using count_games_at(4)[OF assms(1) i(1) i(1) g i(2) i(2)] all_rounds by auto
qed

theorem round_robin_rounds_witness:
  "\<exists>ms. buildRoundRobin [\<lparr>p_id = ''a'', p_seedNumber = None, p_registeredAt = 1\<rparr>,
      \<lparr>p_id = ''b'', p_seedNumber = None, p_registeredAt = 2\<rparr>,
      \<lparr>p_id = ''c'', p_seedNumber = None, p_registeredAt = 3\<rparr>] 2 = Some ms \<and>
    games_in_round ms 4 ''b'' \<le> 1"
  by (rule round_robin_rounds[where legs = 2, THEN if_P_elim]) (simp_all add: rr_fits_demo)

text \<open>
  C6: home and away are balanced: the two counts of a participant differ by at most one, and
  they are equal for an even number of legs and for an odd number of participants.  The builder
  returns exactly when the runtime can allocate its match list.
\<close>

theorem round_robin_balanced:
  assumes "distinct (map p_id seeded)" "a \<in> p_id ` set seeded"
  shows "if rr_fits (length seeded) legs
    then \<exists>ms. buildRoundRobin seeded legs = Some ms \<and>
      \<bar>int (home_games ms a) - int (away_games ms a)\<bar> \<le> (if even legs \<or> odd (length seeded) then 0 else 1)
    else buildRoundRobin seeded legs = None"
proof (rule buildRoundRobin_cases)
  fix ms assume ms: "buildRoundRobin seeded legs = Some ms"
  obtain orient where o: "orientBalanced (length seeded) = Some orient"
    and bal: "\<And>i. i < length seeded \<Longrightarrow>
      \<bar>int (card (home_set (length seeded) orient i)) - int (card (away_set (length seeded) orient i))\<bar> \<le> 1"
    "\<And>i. i < length seeded \<Longrightarrow> odd (length seeded) \<Longrightarrow>
      card (home_set (length seeded) orient i) = card (away_set (length seeded) orient i)"
    by (rule orientBalanced_balanced) blast
  have g: "map game ms = map (game_of (map p_id seeded)) (all_games (length seeded) orient legs)"
    using buildRoundRobin_games[OF ms] o by (metis option.inject)
  obtain i where i: "i < length seeded" "a = map p_id seeded ! i"
    using ids_index[OF assms(2)] by metis
  note c = count_games_at[OF assms(1) i(1) i(1) g i(2) i(2)]
  show "\<bar>int (home_games ms a) - int (away_games ms a)\<bar> \<le> (if even legs \<or> odd (length seeded) then 0 else 1)"
    using all_sides[OF i(1), of orient legs] bal[OF i(1)] by (auto simp: c)
qed

theorem round_robin_balanced_witness:
  "\<exists>ms. buildRoundRobin [\<lparr>p_id = ''a'', p_seedNumber = None, p_registeredAt = 1\<rparr>,
      \<lparr>p_id = ''b'', p_seedNumber = None, p_registeredAt = 2\<rparr>,
      \<lparr>p_id = ''c'', p_seedNumber = None, p_registeredAt = 3\<rparr>,
      \<lparr>p_id = ''d'', p_seedNumber = None, p_registeredAt = 4\<rparr>] 1 = Some ms \<and>
    \<bar>int (home_games ms ''b'') - int (away_games ms ''b'')\<bar> \<le>
      (if even (1::nat) \<or> odd (length [\<lparr>p_id = ''a'', p_seedNumber = None, p_registeredAt = 1\<rparr>,
      \<lparr>p_id = ''b'', p_seedNumber = None, p_registeredAt = 2\<rparr>,
      \<lparr>p_id = ''c'', p_seedNumber = None, p_registeredAt = 3\<rparr>,
      \<lparr>p_id = ''d'', p_seedNumber = None, p_registeredAt = 4\<rparr>]) then 0 else 1)"
  by (rule round_robin_balanced[where legs = 1, THEN if_P_elim]) (simp_all add: rr_fits_demo)

end
