(* ===== verification/Seed_Slots.thy ===== *)
theory Seed_Slots
  imports Prelude
begin

text \<open>
  The arithmetic of \<open>internal/fixtures/knockout.go\<close>: \<open>nextPow2\<close>, \<open>pow2\<close>, \<open>log2\<close> and the seed
  labels of the bracket's leaves, \<open>seedSlotOrder\<close>.  The labels of a bracket of size \<open>2 ^ k\<close> are a
  permutation of \<open>1..2 ^ k\<close>, the labels of a round-1 pair sum to \<open>2 ^ k + 1\<close>, and the labels up to
  \<open>2 ^ l\<close> lie in different sub-brackets of size \<open>2 ^ (k - l)\<close>: top seeds meet as late as possible.
\<close>

section \<open>Definitions\<close>

text \<open>\<open>for p < n { p <<= 1 }\<close>, from \<open>p = 1\<close>.\<close>

function nextPow2_from :: "nat \<Rightarrow> nat \<Rightarrow> nat" where
  "nextPow2_from n p = (if 0 < p \<and> p < n then nextPow2_from n (2 * p) else p)"
  by pat_completeness auto
termination by (relation "measure (\<lambda>(n, p). n - p)") auto

declare nextPow2_from.simps [simp del]

definition nextPow2 :: "nat \<Rightarrow> nat" where
  "nextPow2 n = nextPow2_from n 1"

definition pow2 :: "nat \<Rightarrow> nat" where
  "pow2 k = 2 ^ k"

text \<open>\<open>for (1 << k) < n { k++ }\<close>, from \<open>k = 0\<close>.\<close>

function log2_from :: "nat \<Rightarrow> nat \<Rightarrow> nat" where
  "log2_from n k = (if 2 ^ k < n then log2_from n (k + 1) else k)"
  by pat_completeness auto
termination
proof (relation "measure (\<lambda>(n, k). n - 2 ^ k)")
  fix n k :: nat
  assume "2 ^ k < n"
  moreover have "(2::nat) ^ k < 2 ^ (k + 1)" by simp
  ultimately show "((n, k + 1), n, k) \<in> measure (\<lambda>(n, k). n - 2 ^ k)"
    by (simp add: diff_less_mono2)
qed simp

declare log2_from.simps [simp del]

definition log2 :: "nat \<Rightarrow> nat" where
  "log2 n = log2_from n 0"

definition seed_double :: "nat list \<Rightarrow> nat list" where
  "seed_double slots =
     (let sum = length slots * 2 + 1 in concat (map (\<lambda>s. [s, sum - s]) slots))"

lemma length_seed_double [simp]: "length (seed_double slots) = 2 * length slots"
  by (induction slots) (simp_all add: seed_double_def Let_def length_concat o_def)

text \<open>\<open>for len(slots) < size\<close>, from \<open>slots = []int{1}\<close>.\<close>

function seedSlots_from :: "nat \<Rightarrow> nat list \<Rightarrow> nat list" where
  "seedSlots_from sz slots =
     (if slots \<noteq> [] \<and> length slots < sz then seedSlots_from sz (seed_double slots) else slots)"
  by pat_completeness auto
termination
proof (relation "measure (\<lambda>(sz, slots). sz - length slots)")
  fix sz :: nat and slots :: "nat list"
  assume "slots \<noteq> [] \<and> length slots < sz"
  then have "0 < length slots" "length slots < sz" by auto
  then have "sz - 2 * length slots < sz - length slots" by linarith
  then show "((sz, seed_double slots), sz, slots) \<in> measure (\<lambda>(sz, slots). sz - length slots)"
    by simp
qed simp

declare seedSlots_from.simps [simp del]

definition seedSlotOrder :: "nat \<Rightarrow> nat list" where
  "seedSlotOrder sz = seedSlots_from sz [1]"

section \<open>Powers of two\<close>

lemma nextPow2_from_power:
  "2 ^ k < n \<or> k = 0 \<or> 2 ^ (k - 1) < n \<Longrightarrow>
   \<exists>l \<ge> k. nextPow2_from n (2 ^ k) = 2 ^ l \<and> n \<le> 2 ^ l \<and> (l = 0 \<or> 2 ^ (l - 1) < n)"
proof (induction "n - 2 ^ k" arbitrary: k rule: less_induct)
  case less
  show ?case
  proof (cases "2 ^ k < n")
    case True
    have "(2::nat) ^ k < 2 ^ (k + 1)" by simp
    then have "n - 2 ^ (k + 1) < n - 2 ^ k" using True by linarith
    then obtain l where "l \<ge> k + 1" "nextPow2_from n (2 ^ (k + 1)) = 2 ^ l" "n \<le> 2 ^ l"
      "l = 0 \<or> 2 ^ (l - 1) < n"
      using less.hyps[of "k + 1"] True by auto
    then show ?thesis using True by (intro exI[of _ l]) (simp add: nextPow2_from.simps[of n "2 ^ k"])
  next
    case False
    then show ?thesis using less.prems
      by (intro exI[of _ k]) (auto simp: nextPow2_from.simps[of n "2 ^ k"])
  qed
qed

lemma nextPow2_power:
  obtains k where "nextPow2 n = 2 ^ k" "n \<le> 2 ^ k" "k = 0 \<or> 2 ^ (k - 1) < n"
  using nextPow2_from_power[of 0 n] that by (auto simp: nextPow2_def)

lemma log2_from_power: "k \<le> l \<Longrightarrow> log2_from (2 ^ l) k = l"
proof (induction "l - k" arbitrary: k)
  case (Suc d)
  then have "log2_from (2 ^ l) (k + 1) = l" by simp
  moreover have "(2::nat) ^ k < 2 ^ l" using Suc.hyps(2) by (intro power_strict_increasing) auto
  ultimately show ?case by (simp add: log2_from.simps[of "2 ^ l" k])
qed (simp add: log2_from.simps)

lemma log2_power [simp]: "log2 (2 ^ k) = k"
  by (simp add: log2_def log2_from_power)

section \<open>Seed labels\<close>

fun seeds :: "nat \<Rightarrow> nat list" where
  "seeds 0 = [1]"
| "seeds (Suc k) = seed_double (seeds k)"

lemma length_seeds [simp]: "length (seeds k) = 2 ^ k"
  by (induction k) simp_all

lemma seedSlots_from_seeds: "k \<le> l \<Longrightarrow> seedSlots_from (2 ^ l) (seeds k) = seeds l"
proof (induction "l - k" arbitrary: k)
  case (Suc d)
  have "seedSlots_from (2 ^ l) (seeds (Suc k)) = seeds l"
    using Suc.hyps(1)[of "Suc k"] Suc.hyps(2) by linarith
  moreover have "(2::nat) ^ k < 2 ^ l" using Suc.hyps(2) by (intro power_strict_increasing) auto
  moreover have "seeds k \<noteq> []" by (metis length_seeds list.size(3) power_not_zero zero_neq_numeral)
  ultimately show ?case by (simp add: seedSlots_from.simps[of "2 ^ l" "seeds k"])
qed (simp add: seedSlots_from.simps)

lemma seedSlotOrder_seeds: "seedSlotOrder (2 ^ k) = seeds k"
  using seedSlots_from_seeds[of 0 k] by (simp add: seedSlotOrder_def)

lemma nth_seed_double:
  "j < length slots \<Longrightarrow> seed_double slots ! (2 * j) = slots ! j"
  "j < length slots \<Longrightarrow> seed_double slots ! Suc (2 * j) = 2 * length slots + 1 - slots ! j"
proof -
  have "j < length xs \<Longrightarrow> concat (map (\<lambda>s. [s, c - s]) xs) ! (2 * j) = xs ! j \<and>
    concat (map (\<lambda>s. [s, c - s]) xs) ! Suc (2 * j) = c - xs ! j" for c and xs :: "nat list"
  proof (induction xs arbitrary: j)
    case (Cons x xs)
    then show ?case by (cases j) auto
  qed simp
  then show "j < length slots \<Longrightarrow> seed_double slots ! (2 * j) = slots ! j"
    "j < length slots \<Longrightarrow> seed_double slots ! Suc (2 * j) = 2 * length slots + 1 - slots ! j"
    by (auto simp: seed_double_def Let_def mult.commute)
qed

lemma set_seed_double:
  "set (seed_double slots) = set slots \<union> (\<lambda>s. 2 * length slots + 1 - s) ` set slots"
  by (auto simp: seed_double_def Let_def mult.commute)

lemma seeds_range: "set (seeds k) = {1..2 ^ k}"
proof (induction k)
  case (Suc k)
  have "(\<lambda>s. 2 * m + 1 - s) ` {1..m} = {m + 1..2 * m}" for m :: nat
  proof
    show "{m + 1..2 * m} \<subseteq> (\<lambda>s. 2 * m + 1 - s) ` {1..m}"
    proof
      fix x assume "x \<in> {m + 1..2 * m}"
      then have "x = 2 * m + 1 - (2 * m + 1 - x)" "2 * m + 1 - x \<in> {1..m}" by auto
      then show "x \<in> (\<lambda>s. 2 * m + 1 - s) ` {1..m}" by blast
    qed
  qed auto
  from this[of "2 ^ k"] show ?case using Suc by (auto simp: set_seed_double)
qed simp

lemma distinct_seeds: "distinct (seeds k)"
  using seeds_range[of k] by (intro card_distinct) simp

text \<open>The two labels of a round-1 pair.\<close>

lemma seeds_pair_sum:
  assumes "j < 2 ^ k"
  shows "seeds (Suc k) ! (2 * j) + seeds (Suc k) ! Suc (2 * j) = 2 ^ Suc k + 1"
proof -
  have "seeds k ! j \<in> set (seeds k)" using assms by simp
  then have "seeds k ! j \<le> 2 ^ k" by (simp add: seeds_range)
  then show ?thesis using assms by (simp add: nth_seed_double)
qed

text \<open>The labels up to \<open>2 ^ l\<close> are the first leaves of the sub-brackets of size \<open>2 ^ d\<close>.\<close>

lemma seeds_protected:
  "p < 2 ^ (l + d) \<Longrightarrow> seeds (l + d) ! p \<le> 2 ^ l \<longleftrightarrow> 2 ^ d dvd p"
proof (induction d arbitrary: p)
  case 0
  then have "seeds l ! p \<in> set (seeds l)" by simp
  then show ?case by (simp add: seeds_range)
next
  case (Suc d)
  define j where "j = p div 2"
  have j: "j < 2 ^ (l + d)" using Suc.prems by (simp add: j_def)
  then have "seeds (l + d) ! j \<in> set (seeds (l + d))" by simp
  then have lbl: "seeds (l + d) ! j \<le> 2 ^ (l + d)" by (simp add: seeds_range)
  have pl: "(2::nat) ^ l \<le> 2 ^ (l + d)" by simp
  show ?case
  proof (cases "even p")
    case True
    then have p: "p = 2 * j" by (simp add: j_def)
    show ?thesis using Suc.IH[OF j] j by (simp add: p nth_seed_double)
  next
    case False
    then have p: "p = Suc (2 * j)" by (simp add: j_def)
    have "\<not> 2 ^ Suc d dvd p" using False by (metis dvd_mult_left dvd_trans even_Suc power_Suc)
    moreover have "2 ^ l < seeds (l + Suc d) ! p"
    proof -
      have "seeds (l + Suc d) ! p = 2 * 2 ^ (l + d) + 1 - seeds (l + d) ! j"
        using j by (simp add: p nth_seed_double)
      then show ?thesis using lbl pl by linarith
    qed
    ultimately show ?thesis by simp
  qed
qed

end
