(* ===== verification/Bracket.thy ===== *)
theory Bracket
  imports Fixture_Types Seed_Slots
begin

text \<open>
  \<open>internal/fixtures/knockout.go\<close>: \<open>buildBracket\<close> wires a single-elimination bracket over leaves
  that hold an entrant or a bye, and \<open>buildKnockout\<close> places the seeded participants on the leaves.

  The loops thread the match list and the contributions of the nodes of the previous round.  A
  write to a match index that does not exist would be a panic, the value \<open>None\<close>.  The invariant
  \<open>bracket_wf\<close> says that the open matches are those no successor is wired for yet, that an edge
  points one round up into a slot that is TBD, and that every TBD slot has its one feeder.
\<close>

section \<open>Definitions\<close>

record leaf =
  lf_ref :: SlotRef
  lf_bye :: bool

record contrib =
  ct_ref :: SlotRef
  ct_concrete :: bool
  ct_matchIdx :: nat

definition contrib_match :: "nat \<Rightarrow> contrib" where
  "contrib_match i = \<lparr> ct_ref = SlotConcrete [], ct_concrete = False, ct_matchIdx = i \<rparr>"

definition contrib_ref :: "SlotRef \<Rightarrow> contrib" where
  "contrib_ref r = \<lparr> ct_ref = r, ct_concrete = True, ct_matchIdx = 0 \<rparr>"

lemma contrib_simps [simp]:
  "ct_concrete (contrib_match i) = False" "ct_matchIdx (contrib_match i) = i"
  "ct_concrete (contrib_ref r) = True" "ct_ref (contrib_ref r) = r"
  by (simp_all add: contrib_match_def contrib_ref_def)

definition knockoutRoundName :: "nat \<Rightarrow> string" where
  "knockoutRoundName playersInRound =
     (if playersInRound = 2 then ''Final''
      else if playersInRound = 4 then ''Semi-final''
      else if playersInRound = 8 then ''Quarter-final''
      else ''Round of '' @ nat_str playersInRound)"

definition wireChild ::
  "PlannedMatch list \<Rightarrow> contrib \<Rightarrow> nat \<Rightarrow> nat \<Rightarrow> (PlannedMatch list \<times> SlotRef) option" where
  "wireChild ms c parentIdx parentSlot =
     (if ct_concrete c then Some (ms, ct_ref c)
      else if ct_matchIdx c < length ms then
        Some (ms[ct_matchIdx c := (ms ! ct_matchIdx c)
                   \<lparr> pm_nextMatchIndex := Some parentIdx, pm_nextSlot := Some parentSlot \<rparr>], SlotTBD)
      else None)"

definition bye_entry :: "SlotRef \<Rightarrow> nat \<Rightarrow> Bye list" where
  "bye_entry ref round =
     (case ref of SlotConcrete pid \<Rightarrow> [\<lparr> bye_participantID = pid, bye_intoRound = round \<rparr>] | _ \<Rightarrow> [])"

type_synonym r1_state = "PlannedMatch list \<times> Bye list \<times> contrib list"

definition r1_node :: "leaf list \<Rightarrow> nat \<Rightarrow> nat \<Rightarrow> r1_state \<Rightarrow> r1_state" where
  "r1_node leaves roundOffset j st = (case st of (ms, byes, prev) \<Rightarrow>
     (let la = leaves ! (2 * j); lb = leaves ! (2 * j + 1) in
      if \<not> lf_bye la \<and> \<not> lf_bye lb then
        (ms @ [planned_match (length ms) (roundOffset + 1) (knockoutRoundName (length leaves)) []
                 (lf_ref la) (lf_ref lb)],
         byes, prev @ [contrib_match (length ms)])
      else if lf_bye la \<and> \<not> lf_bye lb then
        (ms, byes @ bye_entry (lf_ref lb) (roundOffset + 2), prev @ [contrib_ref (lf_ref lb)])
      else if \<not> lf_bye la \<and> lf_bye lb then
        (ms, byes @ bye_entry (lf_ref la) (roundOffset + 2), prev @ [contrib_ref (lf_ref la)])
      else
        (ms, byes, prev @ [\<lparr> ct_ref = SlotTBD, ct_concrete = False, ct_matchIdx = 0 \<rparr>])))"

type_synonym round_state = "(PlannedMatch list \<times> contrib list) option"

definition later_node :: "nat \<Rightarrow> nat \<Rightarrow> nat \<Rightarrow> contrib list \<Rightarrow> nat \<Rightarrow> round_state \<Rightarrow> round_state" where
  "later_node sz roundOffset r prev j st = (case st of None \<Rightarrow> None | Some (ms, cur) \<Rightarrow>
     (let idx = length ms in
      case wireChild ms (prev ! (2 * j)) idx 1 of
        None \<Rightarrow> None
      | Some (ms1, home) \<Rightarrow>
          (case wireChild ms1 (prev ! (2 * j + 1)) idx 2 of
             None \<Rightarrow> None
           | Some (ms2, away) \<Rightarrow>
               Some (ms2 @ [planned_match idx (roundOffset + r)
                              (knockoutRoundName (sz div pow2 (r - 1))) [] home away],
                     cur @ [contrib_match idx]))))"

definition bracket_round :: "nat \<Rightarrow> nat \<Rightarrow> nat \<Rightarrow> round_state \<Rightarrow> round_state" where
  "bracket_round sz roundOffset r st = (case st of None \<Rightarrow> None | Some (ms, prev) \<Rightarrow>
     for_range 0 (sz div pow2 r) (later_node sz roundOffset r prev) (Some (ms, [])))"

definition buildBracket :: "leaf list \<Rightarrow> nat \<Rightarrow> (PlannedMatch list \<times> Bye list) option" where
  "buildBracket leaves roundOffset =
     (let sz = length leaves; rounds = log2 sz;
          (ms, byes, prev) = for_range 0 (sz div 2) (r1_node leaves roundOffset) ([], [], [])
      in case for_range 2 (rounds + 1) (bracket_round sz roundOffset) (Some (ms, prev)) of
           None \<Rightarrow> None
         | Some (ms', _) \<Rightarrow> Some (ms', byes))"

definition seeded_leaves :: "SlotRef list \<Rightarrow> nat \<Rightarrow> leaf list" where
  "seeded_leaves refs sz =
     map (\<lambda>label. if label \<le> length refs then \<lparr> lf_ref = refs ! (label - 1), lf_bye = False \<rparr>
                  else \<lparr> lf_ref = SlotConcrete [], lf_bye = True \<rparr>) (seedSlotOrder sz)"

definition buildKnockout :: "Participant list \<Rightarrow> (PlannedMatch list \<times> Bye list) option" where
  "buildKnockout seeded =
     (let sz = nextPow2 (length seeded)
      in buildBracket (seeded_leaves (map (\<lambda>p. SlotConcrete (p_id p)) seeded) sz) 0)"

section \<open>The bracket invariant\<close>

definition edge :: "PlannedMatch list \<Rightarrow> nat \<Rightarrow> nat \<Rightarrow> nat \<Rightarrow> bool" where
  "edge ms i k s \<longleftrightarrow>
     i < length ms \<and> pm_nextMatchIndex (ms ! i) = Some k \<and> pm_nextSlot (ms ! i) = Some s"

definition slot_at :: "PlannedMatch \<Rightarrow> nat \<Rightarrow> SlotRef" where
  "slot_at m s = (if s = 1 then pm_home m else pm_away m)"

definition bracket_wf :: "PlannedMatch list \<Rightarrow> nat set \<Rightarrow> bool" where
  "bracket_wf ms opn \<longleftrightarrow>
     opn \<subseteq> {..<length ms} \<and>
     (\<forall>i<length ms. pm_index (ms ! i) = i) \<and>
     (\<forall>i\<in>opn. pm_nextMatchIndex (ms ! i) = None \<and> pm_nextSlot (ms ! i) = None) \<and>
     (\<forall>i<length ms. i \<notin> opn \<longrightarrow> (\<exists>k s. edge ms i k s)) \<and>
     (\<forall>i k s. edge ms i k s \<longrightarrow> i < k \<and> k < length ms \<and> (s = 1 \<or> s = 2) \<and>
        slot_at (ms ! k) s = SlotTBD \<and> pm_roundNumber (ms ! k) = Suc (pm_roundNumber (ms ! i))) \<and>
     (\<forall>i j k s. edge ms i k s \<longrightarrow> edge ms j k s \<longrightarrow> i = j) \<and>
     (\<forall>k<length ms. \<forall>s. (s = 1 \<or> s = 2) \<longrightarrow> slot_at (ms ! k) s = SlotTBD \<longrightarrow> (\<exists>i. edge ms i k s))"

lemma bracket_wfD:
  assumes "bracket_wf ms opn"
  shows "i \<in> opn \<Longrightarrow> i < length ms"
    and "i < length ms \<Longrightarrow> pm_index (ms ! i) = i"
    and "i \<in> opn \<Longrightarrow> pm_nextMatchIndex (ms ! i) = None \<and> pm_nextSlot (ms ! i) = None"
    and "i < length ms \<Longrightarrow> i \<notin> opn \<Longrightarrow> \<exists>k s. edge ms i k s"
    and "edge ms i k s \<Longrightarrow> i < k \<and> k < length ms \<and> (s = 1 \<or> s = 2) \<and>
      slot_at (ms ! k) s = SlotTBD \<and> pm_roundNumber (ms ! k) = Suc (pm_roundNumber (ms ! i))"
    and "edge ms i k s \<Longrightarrow> edge ms j k s \<Longrightarrow> i = j"
    and "k < length ms \<Longrightarrow> s = 1 \<or> s = 2 \<Longrightarrow> slot_at (ms ! k) s = SlotTBD \<Longrightarrow> \<exists>i. edge ms i k s"
proof -
  note a = assms[unfolded bracket_wf_def]
  have 1: "opn \<subseteq> {..<length ms}" and 2: "\<forall>i<length ms. pm_index (ms ! i) = i"
    and 3: "\<forall>i\<in>opn. pm_nextMatchIndex (ms ! i) = None \<and> pm_nextSlot (ms ! i) = None"
    and 4: "\<forall>i<length ms. i \<notin> opn \<longrightarrow> (\<exists>k s. edge ms i k s)"
    and 5: "\<forall>i k s. edge ms i k s \<longrightarrow> i < k \<and> k < length ms \<and> (s = 1 \<or> s = 2) \<and>
        slot_at (ms ! k) s = SlotTBD \<and> pm_roundNumber (ms ! k) = Suc (pm_roundNumber (ms ! i))"
    and 6: "\<forall>i j k s. edge ms i k s \<longrightarrow> edge ms j k s \<longrightarrow> i = j"
    and 7: "\<forall>k<length ms. \<forall>s. (s = 1 \<or> s = 2) \<longrightarrow> slot_at (ms ! k) s = SlotTBD \<longrightarrow> (\<exists>i. edge ms i k s)"
    using a by - (elim conjE, assumption)+
  show "i \<in> opn \<Longrightarrow> i < length ms" using 1 by auto
  show "i < length ms \<Longrightarrow> pm_index (ms ! i) = i" using 2 by simp
  show "i \<in> opn \<Longrightarrow> pm_nextMatchIndex (ms ! i) = None \<and> pm_nextSlot (ms ! i) = None" using 3 by simp
  show "i < length ms \<Longrightarrow> i \<notin> opn \<Longrightarrow> \<exists>k s. edge ms i k s" using 4 by simp
  show "edge ms i k s \<Longrightarrow> i < k \<and> k < length ms \<and> (s = 1 \<or> s = 2) \<and>
      slot_at (ms ! k) s = SlotTBD \<and> pm_roundNumber (ms ! k) = Suc (pm_roundNumber (ms ! i))"
    using 5[rule_format, of i k s] .
  show "edge ms i k s \<Longrightarrow> edge ms j k s \<Longrightarrow> i = j" using 6[rule_format, of i k s j] .
  show "k < length ms \<Longrightarrow> s = 1 \<or> s = 2 \<Longrightarrow> slot_at (ms ! k) s = SlotTBD \<Longrightarrow> \<exists>i. edge ms i k s"
    using 7[rule_format, of k s] .
qed

lemma bracket_wfI:
  assumes "\<And>i. i \<in> opn \<Longrightarrow> i < length ms"
    and "\<And>i. i < length ms \<Longrightarrow> pm_index (ms ! i) = i"
    and "\<And>i. i \<in> opn \<Longrightarrow> pm_nextMatchIndex (ms ! i) = None \<and> pm_nextSlot (ms ! i) = None"
    and "\<And>i. i < length ms \<Longrightarrow> i \<notin> opn \<Longrightarrow> \<exists>k s. edge ms i k s"
    and "\<And>i k s. edge ms i k s \<Longrightarrow> i < k \<and> k < length ms \<and> (s = 1 \<or> s = 2) \<and>
      slot_at (ms ! k) s = SlotTBD \<and> pm_roundNumber (ms ! k) = Suc (pm_roundNumber (ms ! i))"
    and "\<And>i j k s. edge ms i k s \<Longrightarrow> edge ms j k s \<Longrightarrow> i = j"
    and "\<And>k s. k < length ms \<Longrightarrow> s = 1 \<or> s = 2 \<Longrightarrow> slot_at (ms ! k) s = SlotTBD \<Longrightarrow>
      \<exists>i. edge ms i k s"
  shows "bracket_wf ms opn"
proof -
  have "\<forall>i\<in>opn. pm_nextMatchIndex (ms ! i) = None \<and> pm_nextSlot (ms ! i) = None"
    using assms(3) by blast
  moreover have "\<forall>i<length ms. i \<notin> opn \<longrightarrow> (\<exists>k s. edge ms i k s)"
    using assms(4) by blast
  moreover have "opn \<subseteq> {..<length ms}" using assms(1) by blast
  moreover have "\<forall>i<length ms. pm_index (ms ! i) = i" using assms(2) by blast
  moreover have "\<forall>i k s. edge ms i k s \<longrightarrow> i < k \<and> k < length ms \<and> (s = 1 \<or> s = 2) \<and>
      slot_at (ms ! k) s = SlotTBD \<and> pm_roundNumber (ms ! k) = Suc (pm_roundNumber (ms ! i))"
    by (intro allI impI) (rule assms(5))
  moreover have "\<forall>i j k s. edge ms i k s \<longrightarrow> edge ms j k s \<longrightarrow> i = j"
    by (intro allI impI) (rule assms(6))
  moreover have "\<forall>k<length ms. \<forall>s. (s = 1 \<or> s = 2) \<longrightarrow> slot_at (ms ! k) s = SlotTBD \<longrightarrow> (\<exists>i. edge ms i k s)"
    by (intro allI impI) (rule assms(7))
  ultimately show ?thesis unfolding bracket_wf_def by (intro conjI)
qed

lemma bracket_wf_Nil [simp]: "bracket_wf [] {}"
  by (simp add: bracket_wf_def edge_def)

lemma edge_open: "bracket_wf ms opn \<Longrightarrow> edge ms i k s \<Longrightarrow> i \<notin> opn"
  using bracket_wfD(3) by (fastforce simp: edge_def)

text \<open>A round-1 match starts open and takes no feeder.\<close>

lemma bracket_wf_append:
  assumes wf: "bracket_wf ms opn" and ha: "h \<noteq> SlotTBD" "a \<noteq> SlotTBD"
  shows "bracket_wf (ms @ [planned_match (length ms) r nm g h a]) (insert (length ms) opn)"
proof -
  let ?m = "planned_match (length ms) r nm g h a" and ?L = "length ms"
  let ?ms = "ms @ [?m]"
  have nth: "i < ?L \<Longrightarrow> ?ms ! i = ms ! i" "?ms ! ?L = ?m" for i by (simp_all add: nth_append)
  have e: "edge ?ms i k s \<longleftrightarrow> edge ms i k s" for i k s
    by (cases "i < ?L") (auto simp: edge_def nth_append)
  note D = bracket_wfD[OF wf]
  show ?thesis
  proof (rule bracket_wfI, unfold e)
    show "i \<in> insert ?L opn \<Longrightarrow> i < length ?ms" for i using D(1)[of i] by auto
    show "i < length ?ms \<Longrightarrow> pm_index (?ms ! i) = i" for i
      using D(2)[of i] nth by (cases "i = ?L") auto
    show "i \<in> insert ?L opn \<Longrightarrow> pm_nextMatchIndex (?ms ! i) = None \<and> pm_nextSlot (?ms ! i) = None" for i
      using D(1,3)[of i] nth by (cases "i = ?L") auto
    show "i < length ?ms \<Longrightarrow> i \<notin> insert ?L opn \<Longrightarrow> \<exists>k s. edge ms i k s" for i
      using D(4)[of i] by auto
    show "edge ms i k s \<Longrightarrow> i < k \<and> k < length ?ms \<and> (s = 1 \<or> s = 2) \<and> slot_at (?ms ! k) s = SlotTBD \<and>
        pm_roundNumber (?ms ! k) = Suc (pm_roundNumber (?ms ! i))" for i k s
      using D(5)[of i k s] nth(1)[of i] nth(1)[of k] by auto
    show "edge ms i k s \<Longrightarrow> edge ms j k s \<Longrightarrow> i = j" for i j k s by (rule D(6))
    show "k < length ?ms \<Longrightarrow> s = 1 \<or> s = 2 \<Longrightarrow> slot_at (?ms ! k) s = SlotTBD \<Longrightarrow> \<exists>i. edge ms i k s" for k s
      using D(7)[of k s] nth ha by (cases "k = ?L") (auto simp: slot_at_def)
  qed
qed

text \<open>Wiring two children into a new match.\<close>

definition child :: "contrib \<Rightarrow> contrib \<Rightarrow> nat \<Rightarrow> nat \<Rightarrow> bool" where
  "child c1 c2 i s \<longleftrightarrow> (s = 1 \<and> \<not> ct_concrete c1 \<and> i = ct_matchIdx c1) \<or>
     (s = 2 \<and> \<not> ct_concrete c2 \<and> i = ct_matchIdx c2)"

definition placed :: "contrib \<Rightarrow> SlotRef" where
  "placed c = (if ct_concrete c then ct_ref c else SlotTBD)"

definition wired :: "PlannedMatch list \<Rightarrow> contrib \<Rightarrow> contrib \<Rightarrow> PlannedMatch list" where
  "wired ms c1 c2 = map (\<lambda>i. if child c1 c2 i 1 then (ms ! i)\<lparr> pm_nextMatchIndex := Some (length ms), pm_nextSlot := Some 1 \<rparr>
     else if child c1 c2 i 2 then (ms ! i)\<lparr> pm_nextMatchIndex := Some (length ms), pm_nextSlot := Some 2 \<rparr>
     else ms ! i) [0..<length ms]"

definition valid_child :: "PlannedMatch list \<Rightarrow> nat set \<Rightarrow> nat \<Rightarrow> contrib \<Rightarrow> bool" where
  "valid_child ms opn r c \<longleftrightarrow>
     (if ct_concrete c then ct_ref c \<noteq> SlotTBD
      else ct_matchIdx c \<in> opn \<and> pm_roundNumber (ms ! ct_matchIdx c) = r)"

lemma later_node_wired:
  assumes "bracket_wf ms opn" "valid_child ms opn r' c1" "valid_child ms opn r' c2"
    and "prev ! (2 * j) = c1" "prev ! (2 * j + 1) = c2"
    and "\<not> ct_concrete c1 \<Longrightarrow> \<not> ct_concrete c2 \<Longrightarrow> ct_matchIdx c1 \<noteq> ct_matchIdx c2"
  shows "later_node sz off r prev j (Some (ms, cur)) =
    Some (wired ms c1 c2 @ [planned_match (length ms) (off + r)
            (knockoutRoundName (sz div pow2 (r - 1))) [] (placed c1) (placed c2)],
          cur @ [contrib_match (length ms)])"
proof -
  have i: "\<not> ct_concrete c1 \<Longrightarrow> ct_matchIdx c1 < length ms" "\<not> ct_concrete c2 \<Longrightarrow> ct_matchIdx c2 < length ms"
    using assms(1-3) by (auto simp: bracket_wf_def valid_child_def split: if_splits)
  show ?thesis
    using i assms(4-6)
    by (auto simp: later_node_def wireChild_def Let_def wired_def child_def placed_def
        nth_list_update intro!: nth_equalityI)
qed

lemma length_wired [simp]: "length (wired ms c1 c2) = length ms"
  by (simp add: wired_def)

lemma wired_kept [simp]:
  assumes "i < length ms"
  shows "pm_index (wired ms c1 c2 ! i) = pm_index (ms ! i)"
    "pm_roundNumber (wired ms c1 c2 ! i) = pm_roundNumber (ms ! i)"
    "pm_home (wired ms c1 c2 ! i) = pm_home (ms ! i)"
    "pm_away (wired ms c1 c2 ! i) = pm_away (ms ! i)"
    "pm_groupLabel (wired ms c1 c2 ! i) = pm_groupLabel (ms ! i)"
  using assms by (simp_all add: wired_def)

lemma wired_next:
  assumes "i < length ms"
  shows "pm_nextMatchIndex (wired ms c1 c2 ! i) =
      (if child c1 c2 i 1 \<or> child c1 c2 i 2 then Some (length ms) else pm_nextMatchIndex (ms ! i))"
    "pm_nextSlot (wired ms c1 c2 ! i) =
      (if child c1 c2 i 1 then Some 1 else if child c1 c2 i 2 then Some 2 else pm_nextSlot (ms ! i))"
  using assms by (simp_all add: wired_def)

definition child_set :: "contrib \<Rightarrow> contrib \<Rightarrow> nat set" where
  "child_set c1 c2 = {i. child c1 c2 i 1 \<or> child c1 c2 i 2}"

lemma bracket_wf_node:
  assumes wf: "bracket_wf ms opn" and v1: "valid_child ms opn r c1" and v2: "valid_child ms opn r c2"
    and ne: "\<not> ct_concrete c1 \<Longrightarrow> \<not> ct_concrete c2 \<Longrightarrow> ct_matchIdx c1 \<noteq> ct_matchIdx c2"
  shows "bracket_wf (wired ms c1 c2 @ [planned_match (length ms) (Suc r) nm g (placed c1) (placed c2)])
    (insert (length ms) (opn - child_set c1 c2))"
proof -
  let ?m = "planned_match (length ms) (Suc r) nm g (placed c1) (placed c2)"
  let ?ms = "wired ms c1 c2 @ [?m]" and ?L = "length ms"
  note D = bracket_wfD[OF wf]
  have old: "edge ms i k s \<Longrightarrow> i \<notin> opn \<and> i < k \<and> k < ?L" for i k s
    using edge_open[OF wf, of i k s] D(5)[of i k s] by blast
  have ch: "child c1 c2 i s \<Longrightarrow> i \<in> opn \<and> i < ?L \<and> pm_roundNumber (ms ! i) = r \<and> (s = 1 \<or> s = 2)" for i s
    using v1 v2 D(1) by (auto simp: child_def valid_child_def split: if_splits)
  have one: "child c1 c2 i 1 \<Longrightarrow> \<not> child c1 c2 i 2" for i using ne by (auto simp: child_def)
  have inj: "child c1 c2 i s \<Longrightarrow> child c1 c2 j s \<Longrightarrow> i = j" for i j s by (auto simp: child_def)
  have nth: "i < ?L \<Longrightarrow> ?ms ! i = wired ms c1 c2 ! i" "?ms ! ?L = ?m" for i
    by (simp_all add: nth_append)
  have edge: "edge ?ms i k s \<longleftrightarrow> edge ms i k s \<or> k = ?L \<and> child c1 c2 i s" for i k s
  proof (cases "i < ?L")
    case True
    show ?thesis
    proof (cases "child c1 c2 i 1 \<or> child c1 c2 i 2")
      case c: True
      then have "\<not> edge ms i k s" using ch old by blast
      then show ?thesis using c True one[of i] ch[of i s]
        by (auto simp: edge_def nth wired_next)
    next
      case False
      then have "\<not> child c1 c2 i s" using ch by blast
      with False True show ?thesis by (simp add: edge_def nth wired_next)
    qed
  next
    case False
    then show ?thesis using ch[of i s] by (auto simp: edge_def nth_append less_Suc_eq)
  qed
  have fed: "slot_at ?m s = SlotTBD \<Longrightarrow> s = 1 \<or> s = 2 \<Longrightarrow> \<exists>i. child c1 c2 i s" for s
    using v1 v2 by (auto simp: slot_at_def placed_def child_def valid_child_def split: if_splits)
  have slot: "child c1 c2 i s \<Longrightarrow> slot_at ?m s = SlotTBD" for i s
    by (auto simp: slot_at_def placed_def child_def)
  have kept: "i < ?L \<Longrightarrow> slot_at (?ms ! i) s = slot_at (ms ! i) s" for i s
    by (simp add: nth slot_at_def)
  show ?thesis
  proof (rule bracket_wfI)
    show "i \<in> insert ?L (opn - child_set c1 c2) \<Longrightarrow> i < length ?ms" for i using D(1)[of i] by auto
    show "i < length ?ms \<Longrightarrow> pm_index (?ms ! i) = i" for i
      using D(2)[of i] nth by (cases "i = ?L") auto
    show "pm_nextMatchIndex (?ms ! i) = None \<and> pm_nextSlot (?ms ! i) = None"
      if "i \<in> insert ?L (opn - child_set c1 c2)" for i
      using that D(1,3)[of i] by (cases "i = ?L") (auto simp: nth wired_next child_set_def)
    show "\<exists>k s. edge ?ms i k s" if "i < length ?ms" "i \<notin> insert ?L (opn - child_set c1 c2)" for i
    proof (cases "i \<in> child_set c1 c2")
      case True
      then show ?thesis unfolding edge by (auto simp: child_set_def)
    next
      case False
      then have "i < ?L" "i \<notin> opn" using that by auto
      then show ?thesis unfolding edge using D(4) by blast
    qed
    show "i < k \<and> k < length ?ms \<and> (s = 1 \<or> s = 2) \<and> slot_at (?ms ! k) s = SlotTBD \<and>
        pm_roundNumber (?ms ! k) = Suc (pm_roundNumber (?ms ! i))" if "edge ?ms i k s" for i k s
    proof (cases "edge ms i k s")
      case True
      then show ?thesis using D(5)[OF True] kept[of k s] by (auto simp: nth)
    next
      case False
      then have "k = ?L" "child c1 c2 i s" using that edge by auto
      then show ?thesis using ch[of i s] slot[of i s] by (simp add: nth)
    qed
    show "i = j" if "edge ?ms i k s" "edge ?ms j k s" for i j k s
    proof (cases "k = ?L")
      case True
      then show ?thesis using that old inj unfolding edge by blast
    next
      case False
      then show ?thesis using that D(6) unfolding edge by blast
    qed
    show "\<exists>i. edge ?ms i k s" if "k < length ?ms" "s = 1 \<or> s = 2" "slot_at (?ms ! k) s = SlotTBD" for k s
    proof (cases "k = ?L")
      case True
      then show ?thesis unfolding edge using that fed[of s] by (auto simp: nth)
    next
      case False
      then show ?thesis unfolding edge using that kept[of k s] D(7)[of k s] by auto
    qed
  qed
qed

section \<open>Rounds\<close>

definition feed_ids :: "contrib list \<Rightarrow> nat list" where
  "feed_ids F = map ct_matchIdx (filter (\<lambda>c. \<not> ct_concrete c) F)"

lemma feed_ids_simps [simp]:
  "feed_ids [] = []"
  "feed_ids (c # F) = (if ct_concrete c then feed_ids F else ct_matchIdx c # feed_ids F)"
  "feed_ids (F @ G) = feed_ids F @ feed_ids G"
  by (simp_all add: feed_ids_def)

definition placed_refs :: "PlannedMatch list \<Rightarrow> SlotRef list" where
  "placed_refs ms = filter (\<lambda>r. r \<noteq> SlotTBD) (concat (map (\<lambda>m. [pm_home m, pm_away m]) ms))"

lemma placed_refs_simps [simp]:
  "placed_refs [] = []"
  "placed_refs (ms @ ns) = placed_refs ms @ placed_refs ns"
  by (simp_all add: placed_refs_def)

lemma placed_refs_wired [simp]: "placed_refs (wired ms c1 c2) = placed_refs ms"
proof -
  have "map (\<lambda>m. [pm_home m, pm_away m]) (wired ms c1 c2) = map (\<lambda>m. [pm_home m, pm_away m]) ms"
    by (rule nth_equalityI) simp_all
  then show ?thesis by (simp add: placed_refs_def)
qed

definition direct_refs :: "contrib list \<Rightarrow> SlotRef list" where
  "direct_refs F = map ct_ref (filter ct_concrete F)"

lemma direct_refs_simps [simp]:
  "direct_refs [] = []"
  "direct_refs (c # F) = (if ct_concrete c then ct_ref c # direct_refs F else direct_refs F)"
  "direct_refs (F @ G) = direct_refs F @ direct_refs G"
  by (simp_all add: direct_refs_def)

text \<open>
  The frontier \<open>F\<close>: the contributions still to be wired.  Every entrant is either placed in a
  match or a direct contribution, and each match has reduced the field by one.
\<close>

definition frontier_inv :: "PlannedMatch list \<Rightarrow> contrib list \<Rightarrow> SlotRef list \<Rightarrow> bool" where
  "frontier_inv ms F refs \<longleftrightarrow>
     bracket_wf ms (set (feed_ids F)) \<and> distinct (feed_ids F) \<and>
     mset (placed_refs ms) + mset (direct_refs F) = mset refs \<and>
     length ms + length F = length refs"

definition ready :: "PlannedMatch list \<Rightarrow> nat \<Rightarrow> contrib list \<Rightarrow> bool" where
  "ready ms r F \<longleftrightarrow> (\<forall>c\<in>set F. if ct_concrete c then ct_ref c \<noteq> SlotTBD
     else pm_roundNumber (ms ! ct_matchIdx c) = r)"

lemma ready_simps [simp]:
  "ready ms r []"
  "ready ms r (c # F) \<longleftrightarrow> (if ct_concrete c then ct_ref c \<noteq> SlotTBD
     else pm_roundNumber (ms ! ct_matchIdx c) = r) \<and> ready ms r F"
  "ready ms r (F @ G) \<longleftrightarrow> ready ms r F \<and> ready ms r G"
  by (auto simp: ready_def)

lemma ready_wired:
  assumes "ready ms r F" "\<And>i. i \<in> set (feed_ids F) \<Longrightarrow> i < length ms"
  shows "ready (wired ms c1 c2 @ [m]) r F"
  using assms by (auto simp: ready_def feed_ids_def nth_append)

text \<open>Wiring leaves a match's round, sides and group as they are.\<close>

definition same_fixture :: "PlannedMatch \<Rightarrow> PlannedMatch \<Rightarrow> bool" where
  "same_fixture m m' \<longleftrightarrow> pm_roundNumber m' = pm_roundNumber m \<and> pm_home m' = pm_home m \<and>
     pm_away m' = pm_away m \<and> pm_groupLabel m' = pm_groupLabel m"

lemma later_node_step:
  assumes inv: "frontier_inv ms (cur @ c1 # c2 # rest) refs"
    and cur: "ready ms (Suc r') cur" and prv: "ready ms r' (c1 # c2 # rest)"
    and r: "off + r = Suc r'"
    and nth: "prev ! (2 * j) = c1" "prev ! (2 * j + 1) = c2"
  obtains ms' where "later_node sz off r prev j (Some (ms, cur)) = Some (ms', cur @ [contrib_match (length ms)])"
    "frontier_inv ms' (cur @ contrib_match (length ms) # rest) refs"
    "ready ms' (Suc r') (cur @ [contrib_match (length ms)])" "ready ms' r' rest"
    "\<forall>i<length ms. same_fixture (ms ! i) (ms' ! i)"
    "pm_roundNumber (ms' ! length ms) = Suc r'" "pm_groupLabel (ms' ! length ms) = []"
    "length ms' = Suc (length ms)"
proof -
  let ?F = "cur @ c1 # c2 # rest" and ?L = "length ms"
  let ?m = "planned_match ?L (off + r) (knockoutRoundName (sz div pow2 (r - 1))) [] (placed c1) (placed c2)"
  let ?ms = "wired ms c1 c2 @ [?m]"
  have wf: "bracket_wf ms (set (feed_ids ?F))" and dist: "distinct (feed_ids ?F)"
    using inv by (simp_all only: frontier_inv_def)
  have v1: "valid_child ms (set (feed_ids ?F)) r' c1" and v2: "valid_child ms (set (feed_ids ?F)) r' c2"
    using prv by (auto simp: valid_child_def split: if_splits)
  have ne: "\<not> ct_concrete c1 \<Longrightarrow> \<not> ct_concrete c2 \<Longrightarrow> ct_matchIdx c1 \<noteq> ct_matchIdx c2"
    using dist by simp
  have lt: "i < ?L" if "i \<in> set (feed_ids ?F)" for i
    using bracket_wfD(1)[OF wf that] .
  have opn: "insert ?L (set (feed_ids ?F) - child_set c1 c2) = set (feed_ids (cur @ contrib_match ?L # rest))"
    using dist by (auto simp: child_set_def child_def split: if_splits)
  have "bracket_wf ?ms (set (feed_ids (cur @ contrib_match ?L # rest)))"
    using bracket_wf_node[OF wf v1 v2 ne] unfolding opn r .
  moreover have "distinct (feed_ids (cur @ contrib_match ?L # rest))"
    using dist lt by (auto split: if_splits)
  moreover have "mset (placed_refs ?ms) + mset (direct_refs (cur @ contrib_match ?L # rest)) = mset refs"
  proof -
    have "mset (placed_refs [?m]) = mset (direct_refs [c1, c2])"
      using prv by (auto simp: placed_refs_def placed_def split: if_splits)
    then show ?thesis using inv by (auto simp: frontier_inv_def ac_simps split: if_splits)
  qed
  ultimately have "frontier_inv ?ms (cur @ contrib_match ?L # rest) refs"
    using inv by (simp add: frontier_inv_def)
  moreover have "ready ?ms (Suc r') (cur @ [contrib_match ?L])"
    using ready_wired[OF cur] lt r by (simp add: nth_append)
  moreover have "ready ?ms r' rest"
    using ready_wired[of ms r' rest] prv lt by (simp split: if_splits)
  moreover have "\<forall>i<?L. same_fixture (ms ! i) (?ms ! i)"
    by (simp add: same_fixture_def nth_append)
  moreover have "pm_roundNumber (?ms ! ?L) = Suc r'" "pm_groupLabel (?ms ! ?L) = []"
    using r by (simp_all add: nth_append)
  ultimately show thesis
    using later_node_wired[OF wf v1 v2 nth ne] by (intro that[of ?ms]) simp_all
qed

lemma bracket_round_step:
  assumes inv: "frontier_inv ms prev refs" and prv: "ready ms r' prev" and r: "off + r = Suc r'"
    and len: "length prev = 2 * (sz div pow2 r)"
    and bnd: "\<forall>i<length ms. lo \<le> pm_roundNumber (ms ! i) \<and> pm_roundNumber (ms ! i) \<le> r' \<and> G (ms ! i)"
    and lo: "lo \<le> Suc r'"
    and G: "\<And>m m'. G m \<Longrightarrow> same_fixture m m' \<Longrightarrow> G m'"
      "\<And>m. pm_roundNumber m = Suc r' \<Longrightarrow> pm_groupLabel m = [] \<Longrightarrow> G m"
  shows "\<exists>ms' cur. bracket_round sz off r (Some (ms, prev)) = Some (ms', cur) \<and>
    frontier_inv ms' cur refs \<and> ready ms' (Suc r') cur \<and> length cur = sz div pow2 r \<and>
    (\<forall>i<length ms'. lo \<le> pm_roundNumber (ms' ! i) \<and> pm_roundNumber (ms' ! i) \<le> Suc r' \<and> G (ms' ! i))"
proof -
  let ?n = "sz div pow2 r"
  let ?B = "\<lambda>ms. \<forall>i<length ms. lo \<le> pm_roundNumber (ms ! i) \<and> pm_roundNumber (ms ! i) \<le> Suc r' \<and> G (ms ! i)"
  define P where "P j st \<longleftrightarrow> (\<exists>ms' cur. st = Some (ms', cur) \<and>
    frontier_inv ms' (cur @ drop (2 * j) prev) refs \<and> ready ms' (Suc r') cur \<and>
    ready ms' r' (drop (2 * j) prev) \<and> length cur = j \<and> ?B ms')" for j st
  have "P ?n (for_range 0 ?n (later_node sz off r prev) (Some (ms, [])))"
  proof (rule for_range_invariant)
    have "?B ms" using bnd by (auto intro: le_SucI)
    then show "P 0 (Some (ms, []))" using inv prv by (auto simp: P_def)
    fix j st assume j: "j < ?n" and "P j st"
    then obtain ms' cur where st: "st = Some (ms', cur)"
      and I: "frontier_inv ms' (cur @ drop (2 * j) prev) refs" "ready ms' (Suc r') cur"
        "ready ms' r' (drop (2 * j) prev)" "length cur = j" and b: "?B ms'"
      by (auto simp: P_def)
    have d: "drop (2 * j) prev = prev ! (2 * j) # prev ! (2 * j + 1) # drop (2 * Suc j) prev"
      using j len by (simp add: Cons_nth_drop_Suc)
    obtain ms'' where s: "later_node sz off r prev j (Some (ms', cur)) = Some (ms'', cur @ [contrib_match (length ms')])"
      "frontier_inv ms'' (cur @ contrib_match (length ms') # drop (2 * Suc j) prev) refs"
      "ready ms'' (Suc r') (cur @ [contrib_match (length ms')])" "ready ms'' r' (drop (2 * Suc j) prev)"
      and k: "\<forall>i<length ms'. same_fixture (ms' ! i) (ms'' ! i)"
      and new: "pm_roundNumber (ms'' ! length ms') = Suc r'" "pm_groupLabel (ms'' ! length ms') = []"
      and l: "length ms'' = Suc (length ms')"
      using later_node_step[where sz = sz, OF I(1)[unfolded d] I(2) I(3)[unfolded d] r refl refl] by blast
    have "lo \<le> pm_roundNumber (ms'' ! i) \<and> pm_roundNumber (ms'' ! i) \<le> Suc r' \<and> G (ms'' ! i)"
      if "i < length ms''" for i
    proof (cases "i = length ms'")
      case True
      then show ?thesis using new lo G(2)[of "ms'' ! i"] by simp
    next
      case False
      then have i: "i < length ms'" using that l by simp
      then show ?thesis using k b G(1)[of "ms' ! i" "ms'' ! i"] by (auto simp: same_fixture_def)
    qed
    then show "P (Suc j) (later_node sz off r prev j st)"
      using s st I(4) by (simp add: P_def)
  qed simp
  then show ?thesis using len by (auto simp: P_def bracket_round_def)
qed

subsection \<open>Round 1\<close>

definition entrants :: "leaf list \<Rightarrow> SlotRef list" where
  "entrants leaves = map lf_ref (filter (\<lambda>l. \<not> lf_bye l) leaves)"

lemma entrants_simps [simp]:
  "entrants [] = []"
  "entrants (l # ls) = (if lf_bye l then entrants ls else lf_ref l # entrants ls)"
  "entrants (ls @ ks) = entrants ls @ entrants ks"
  by (simp_all add: entrants_def)

definition bye_of_pair :: "nat \<Rightarrow> leaf \<Rightarrow> leaf \<Rightarrow> Bye list" where
  "bye_of_pair round la lb =
     (if lf_bye la \<and> \<not> lf_bye lb then bye_entry (lf_ref lb) round
      else if \<not> lf_bye la \<and> lf_bye lb then bye_entry (lf_ref la) round else [])"

text \<open>The leaves of a proper bracket: no pair of byes, no entrant that is TBD.\<close>

definition good_leaves :: "leaf list \<Rightarrow> bool" where
  "good_leaves leaves \<longleftrightarrow> (\<forall>l\<in>set leaves. \<not> lf_bye l \<longrightarrow> lf_ref l \<noteq> SlotTBD) \<and>
     (\<forall>j < length leaves div 2. \<not> (lf_bye (leaves ! (2 * j)) \<and> lf_bye (leaves ! (2 * j + 1))))"

text \<open>A round-1 match is a pair of real leaves; no bracket match carries a group label.\<close>

definition first_pairs :: "leaf list \<Rightarrow> nat \<Rightarrow> PlannedMatch \<Rightarrow> bool" where
  "first_pairs leaves off m \<longleftrightarrow> pm_groupLabel m = [] \<and> (pm_roundNumber m = off + 1 \<longrightarrow>
     (\<exists>j < length leaves div 2. pm_home m = lf_ref (leaves ! (2 * j)) \<and> \<not> lf_bye (leaves ! (2 * j)) \<and>
        pm_away m = lf_ref (leaves ! (2 * j + 1)) \<and> \<not> lf_bye (leaves ! (2 * j + 1))))"

lemma first_pairs_same: "first_pairs leaves off m \<Longrightarrow> same_fixture m m' \<Longrightarrow> first_pairs leaves off m'"
  by (simp add: first_pairs_def same_fixture_def)

lemma first_pairs_later: "off + 1 < pm_roundNumber m \<Longrightarrow> pm_groupLabel m = [] \<Longrightarrow> first_pairs leaves off m"
  by (simp add: first_pairs_def)

lemma frontier_inv_match:
  assumes "frontier_inv ms F refs" "h \<noteq> SlotTBD" "a \<noteq> SlotTBD"
  shows "frontier_inv (ms @ [planned_match (length ms) r nm g h a]) (F @ [contrib_match (length ms)]) (refs @ [h, a])"
proof -
  have wf: "bracket_wf ms (set (feed_ids F))" using assms(1) by (simp add: frontier_inv_def)
  have "length ms \<notin> set (feed_ids F)" using bracket_wfD(1)[OF wf, of "length ms"] by auto
  then show ?thesis
    using assms bracket_wf_append[OF wf assms(2,3)] by (simp add: frontier_inv_def placed_refs_def)
qed

lemma frontier_inv_direct:
  "frontier_inv ms F refs \<Longrightarrow> frontier_inv ms (F @ [contrib_ref h]) (refs @ [h])"
  by (simp add: frontier_inv_def)

lemma ready_append_match: "ready ms r F \<Longrightarrow> frontier_inv ms F refs \<Longrightarrow> ready (ms @ [m]) r F"
  using bracket_wfD(1)[of ms "set (feed_ids F)"]
  by (auto simp: ready_def frontier_inv_def feed_ids_def nth_append)

lemma round_one:
  assumes good: "good_leaves leaves"
  shows "case for_range 0 (length leaves div 2) (r1_node leaves off) ([], [], []) of (ms, byes, prev) \<Rightarrow>
    frontier_inv ms prev (entrants (take (2 * (length leaves div 2)) leaves)) \<and>
    ready ms (off + 1) prev \<and> length prev = length leaves div 2 \<and>
    (\<forall>i<length ms. pm_roundNumber (ms ! i) = off + 1 \<and> first_pairs leaves off (ms ! i)) \<and>
    byes = concat (map (\<lambda>j. bye_of_pair (off + 2) (leaves ! (2 * j)) (leaves ! (2 * j + 1)))
      [0..<length leaves div 2])"
proof -
  let ?n = "length leaves div 2"
  define P where "P j st \<longleftrightarrow> (case st of (ms, byes, prev) \<Rightarrow>
    frontier_inv ms prev (entrants (take (2 * j) leaves)) \<and>
    ready ms (off + 1) prev \<and> length prev = j \<and>
    (\<forall>i<length ms. pm_roundNumber (ms ! i) = off + 1 \<and> first_pairs leaves off (ms ! i)) \<and>
    byes = concat (map (\<lambda>j. bye_of_pair (off + 2) (leaves ! (2 * j)) (leaves ! (2 * j + 1))) [0..<j]))"
    for j and st :: r1_state
  have "P ?n (for_range 0 ?n (r1_node leaves off) ([], [], []))"
  proof (rule for_range_invariant)
    show "P 0 ([], [], [])" by (simp add: P_def frontier_inv_def)
    fix j st assume j: "j < ?n" and "P j st"
    then obtain ms byes prev where st: "st = (ms, byes, prev)"
      and I: "frontier_inv ms prev (entrants (take (2 * j) leaves))" "ready ms (off + 1) prev"
        "length prev = j" "\<forall>i<length ms. pm_roundNumber (ms ! i) = off + 1 \<and> first_pairs leaves off (ms ! i)"
      and byes: "byes = concat (map (\<lambda>j. bye_of_pair (off + 2) (leaves ! (2 * j)) (leaves ! (2 * j + 1))) [0..<j])"
      by (cases st) (auto simp: P_def)
    have jl: "2 * j + 1 < length leaves" using j by linarith
    define la lb where "la = leaves ! (2 * j)" and "lb = leaves ! (2 * j + 1)"
    have t: "take (2 * Suc j) leaves = take (2 * j) leaves @ [la, lb]"
      using jl by (simp add: la_def lb_def take_Suc_conv_app_nth)
    have tbd: "\<not> lf_bye la \<Longrightarrow> lf_ref la \<noteq> SlotTBD" "\<not> lf_bye lb \<Longrightarrow> lf_ref lb \<noteq> SlotTBD"
      and nb: "\<not> (lf_bye la \<and> lf_bye lb)"
      using good jl j by (auto simp: good_leaves_def la_def lb_def)
    note unf = r1_node_def st prod.case Let_def la_def[symmetric] lb_def[symmetric]
    consider "\<not> lf_bye la" "\<not> lf_bye lb" | "lf_bye la" "\<not> lf_bye lb" | "\<not> lf_bye la" "lf_bye lb"
      using nb by blast
    then show "P (Suc j) (r1_node leaves off j st)"
    proof cases
      case 1
      let ?m = "planned_match (length ms) (off + 1) (knockoutRoundName (length leaves)) [] (lf_ref la) (lf_ref lb)"
      have "first_pairs leaves off ?m"
        using 1 j by (auto simp: first_pairs_def la_def lb_def)
      then have "\<forall>i<length (ms @ [?m]). pm_roundNumber ((ms @ [?m]) ! i) = off + 1 \<and> first_pairs leaves off ((ms @ [?m]) ! i)"
        using I(4) by (auto simp: nth_append less_Suc_eq)
      then show ?thesis
        using 1 frontier_inv_match[OF I(1) tbd] ready_append_match[OF I(2,1)] I byes
        unfolding unf P_def t
        by (simp add: bye_of_pair_def la_def lb_def)
    next
      case 2
      then show ?thesis
        using frontier_inv_direct[OF I(1), of "lf_ref lb"] I byes tbd
        unfolding unf P_def t by (simp add: bye_of_pair_def la_def lb_def)
    next
      case 3
      then show ?thesis
        using frontier_inv_direct[OF I(1), of "lf_ref la"] I byes tbd
        unfolding unf P_def t by (simp add: bye_of_pair_def la_def lb_def)
    qed
  qed simp
  then show ?thesis by (auto simp: P_def split: prod.splits)
qed

section \<open>The whole bracket\<close>

text \<open>The byes reported for a list of leaves, in leaf order.\<close>

definition bracket_byes :: "leaf list \<Rightarrow> nat \<Rightarrow> Bye list" where
  "bracket_byes leaves round =
     concat (map (\<lambda>j. bye_of_pair round (leaves ! (2 * j)) (leaves ! (2 * j + 1))) [0..<length leaves div 2])"

lemma buildBracket_wf:
  assumes good: "good_leaves leaves" and len: "length leaves = 2 ^ Suc R"
    and two: "2 \<le> length (entrants leaves)"
  obtains ms where "buildBracket leaves off = Some (ms, bracket_byes leaves (off + 2))"
    "length ms = length (entrants leaves) - 1" "bracket_wf ms {length ms - 1}"
    "mset (placed_refs ms) = mset (entrants leaves)"
    "\<forall>i<length ms. off + 1 \<le> pm_roundNumber (ms ! i) \<and> pm_roundNumber (ms ! i) \<le> off + Suc R \<and>
       first_pairs leaves off (ms ! i)"
    "pm_roundNumber (ms ! (length ms - 1)) = off + Suc R"
proof -
  let ?sz = "length leaves" and ?refs = "entrants leaves"
  obtain ms1 byes prev where r1: "for_range 0 (?sz div 2) (r1_node leaves off) ([], [], []) = (ms1, byes, prev)"
    by (cases "for_range 0 (?sz div 2) (r1_node leaves off) ([], [], [])")
  have b: "byes = bracket_byes leaves (off + 2)"
    and I1: "frontier_inv ms1 prev ?refs" "ready ms1 (off + 1) prev" "length prev = 2 ^ R"
      "\<forall>i<length ms1. pm_roundNumber (ms1 ! i) = off + 1 \<and> first_pairs leaves off (ms1 ! i)"
    using round_one[OF good, of off, unfolded r1 prod.case] len by (auto simp: bracket_byes_def)
  define P where "P r st \<longleftrightarrow> (\<exists>ms cur. st = Some (ms, cur) \<and> frontier_inv ms cur ?refs \<and>
    ready ms (off + (r - 1)) cur \<and> length cur = 2 ^ (Suc R - (r - 1)) \<and>
    (\<forall>i<length ms. off + 1 \<le> pm_roundNumber (ms ! i) \<and> pm_roundNumber (ms ! i) \<le> off + (r - 1) \<and>
       first_pairs leaves off (ms ! i)))" for r st
  have "P (Suc R + 1) (for_range 2 (Suc R + 1) (bracket_round ?sz off) (Some (ms1, prev)))"
  proof (rule for_range_invariant)
    show "P 2 (Some (ms1, prev))" using I1 by (simp add: P_def)
    fix r st assume r: "2 \<le> r" "r < Suc R + 1" and "P r st"
    then obtain ms cur where st: "st = Some (ms, cur)" and I: "frontier_inv ms cur ?refs"
      "ready ms (off + (r - 1)) cur" "length cur = 2 ^ (Suc R - (r - 1))"
      "\<forall>i<length ms. off + 1 \<le> pm_roundNumber (ms ! i) \<and> pm_roundNumber (ms ! i) \<le> off + (r - 1) \<and> first_pairs leaves off (ms ! i)"
      by (auto simp: P_def)
    have sz: "?sz div pow2 r = 2 ^ (Suc R - r)"
      using r by (simp only: len pow2_def) (simp add: power_diff)
    have "Suc R - (r - 1) = Suc (Suc R - r)" using r by linarith
    then have c: "length cur = 2 * (?sz div pow2 r)" using I(3) sz by simp
    have off: "off + r = Suc (off + (r - 1))" using r by linarith
    show "P (Suc r) (bracket_round ?sz off r st)"
    proof -
      have lo: "off + 1 \<le> Suc (off + (r - 1))" by simp
      have r1: "Suc (off + (r - 1)) = off + (Suc r - 1)" "Suc R - r = Suc R - (Suc r - 1)"
        using r by linarith+
      show ?thesis
        using bracket_round_step[OF I(1,2) off c I(4) lo first_pairs_same first_pairs_later] r(1) unfolding P_def st sz r1 by simp
    qed
  qed simp
  then obtain ms F where fin: "for_range 2 (Suc R + 1) (bracket_round ?sz off) (Some (ms1, prev)) = Some (ms, F)"
    and I: "frontier_inv ms F ?refs" "ready ms (off + Suc R) F" "length F = 1"
    and rounds: "\<forall>i<length ms. off + 1 \<le> pm_roundNumber (ms ! i) \<and> pm_roundNumber (ms ! i) \<le> off + Suc R \<and>
      first_pairs leaves off (ms ! i)"
    by (auto simp: P_def)
  have built: "buildBracket leaves off = Some (ms, bracket_byes leaves (off + 2))"
  proof -
    have "log2 ?sz = Suc R" by (simp only: len log2_power)
    then show ?thesis using r1 fin b by (simp add: buildBracket_def)
  qed
  have l: "length ms = length ?refs - 1" "ms \<noteq> []" using I two by (auto simp: frontier_inv_def)
  have wf: "bracket_wf ms (set (feed_ids F))" using I(1) by (simp add: frontier_inv_def)
  let ?last = "length ms - 1"
  have "?last \<in> set (feed_ids F)"
    using bracket_wfD(4,5)[OF wf, of ?last] l(2) by fastforce
  then obtain c where F: "F = [c]" "\<not> ct_concrete c" "ct_matchIdx c = ?last"
    using I(3) by (cases F) (auto split: if_splits)
  show thesis
    by (rule that[OF built l(1)]) (use wf F I rounds in \<open>auto simp: frontier_inv_def\<close>)
qed

section \<open>Knockout\<close>

lemma seeded_leaves_simps:
  "length (seeded_leaves refs (2 ^ k)) = 2 ^ k"
  "p < 2 ^ k \<Longrightarrow> seeded_leaves refs (2 ^ k) ! p =
     (if seeds k ! p \<le> length refs then \<lparr> lf_ref = refs ! (seeds k ! p - 1), lf_bye = False \<rparr>
      else \<lparr> lf_ref = SlotConcrete [], lf_bye = True \<rparr>)"
  by (simp_all add: seeded_leaves_def seedSlotOrder_seeds)

lemma half_seeded: "length (seeded_leaves refs (2 ^ Suc R)) div 2 = 2 ^ R"
  by (simp only: seeded_leaves_simps(1)) simp

lemma mset_seeds_upto:
  assumes "m \<le> 2 ^ k"
  shows "mset (filter (\<lambda>l. l \<le> m) (seeds k)) = mset (map Suc [0..<m])"
proof -
  have "set (filter (\<lambda>l. l \<le> m) (seeds k)) = {1..m}" using assms by (auto simp: seeds_range)
  also have "\<dots> = set (map Suc [0..<m])" by (simp add: image_Suc_atLeastLessThan atLeastLessThanSuc_atLeastAtMost)
  finally show ?thesis
    by (subst set_eq_iff_mset_eq_distinct[symmetric]) (simp_all add: distinct_seeds distinct_map)
qed

lemma mset_seeds_select:
  assumes "m \<le> 2 ^ k" "m \<le> length xs"
  shows "mset (map (\<lambda>l. xs ! (l - 1)) (filter (\<lambda>l. l \<le> m) (seeds k))) = mset (take m xs)"
proof -
  have "mset (map (\<lambda>l. xs ! (l - 1)) (filter (\<lambda>l. l \<le> m) (seeds k))) =
      image_mset (\<lambda>l. xs ! (l - 1)) (mset (map Suc [0..<m]))"
    by (simp only: mset_map mset_seeds_upto[OF assms(1)])
  also have "\<dots> = mset (map (\<lambda>l. xs ! (l - 1)) (map Suc [0..<m]))" by (simp only: mset_map)
  also have "map (\<lambda>l. xs ! (l - 1)) (map Suc [0..<m]) = take m xs"
    using assms(2) by (auto intro: nth_equalityI)
  finally show ?thesis .
qed

lemma mset_entrants_seeded:
  assumes "length refs \<le> 2 ^ k"
  shows "mset (entrants (seeded_leaves refs (2 ^ k))) = mset refs"
proof -
  have "entrants (seeded_leaves refs (2 ^ k)) = map (\<lambda>l. refs ! (l - 1)) (filter (\<lambda>l. l \<le> length refs) (seeds k))"
    unfolding seeded_leaves_def seedSlotOrder_seeds
    by (simp add: entrants_def filter_map o_def if_distrib cong: filter_cong if_cong)
  then show ?thesis using mset_seeds_select[OF assms, of refs] by simp
qed

lemma good_seeded_leaves:
  assumes "2 ^ R < length refs" "SlotTBD \<notin> set refs"
  shows "good_leaves (seeded_leaves refs (2 ^ Suc R))"
  unfolding good_leaves_def
proof (intro conjI ballI allI impI)
  let ?ls = "seeded_leaves refs (2 ^ Suc R)"
  fix l assume "l \<in> set ?ls" "\<not> lf_bye l"
  then obtain p where p: "p < 2 ^ Suc R" "l = ?ls ! p" "\<not> lf_bye (?ls ! p)"
    by (auto simp: in_set_conv_nth seeded_leaves_simps simp del: power_Suc seeds.simps)
  then have "seeds (Suc R) ! p \<le> length refs" by (auto simp: seeded_leaves_simps(2)[OF p(1)] simp del: power_Suc seeds.simps split: if_splits)
  note p = p(1,2) this
  have "seeds (Suc R) ! p \<in> set (seeds (Suc R))" using p(1) by simp
  then have "refs ! (seeds (Suc R) ! p - 1) \<in> set refs"
    using p(3) by (intro nth_mem) (auto simp add: seeds_range simp del: seeds.simps power_Suc)
  then show "lf_ref l \<noteq> SlotTBD" using p assms(2) by (auto simp: seeded_leaves_simps simp del: seeds.simps power_Suc)
next
  let ?ls = "seeded_leaves refs (2 ^ Suc R)"
  fix j assume "j < length ?ls div 2"
  then have j: "j < 2 ^ R" by (simp only: half_seeded)
  then have lt: "2 * j < 2 ^ Suc R" "2 * j + 1 < 2 ^ Suc R" by auto
  show "\<not> (lf_bye (?ls ! (2 * j)) \<and> lf_bye (?ls ! (2 * j + 1)))"
  proof
    assume "lf_bye (?ls ! (2 * j)) \<and> lf_bye (?ls ! (2 * j + 1))"
    then have "length refs < seeds (Suc R) ! (2 * j)" "length refs < seeds (Suc R) ! Suc (2 * j)"
      using seeded_leaves_simps(2)[OF lt(1), of refs] seeded_leaves_simps(2)[OF lt(2), of refs]
      by (auto simp del: seeds.simps power_Suc split: if_splits)
    moreover have "2 ^ Suc R = 2 * (2::nat) ^ R" by simp
    ultimately show False using seeds_pair_sum[OF j] assms(1) by linarith
  qed
qed

text \<open>The byes go to the labels whose opponent, by the pair sum, is beyond the field.\<close>

lemma byes_seeded_leaves:
  assumes "2 ^ R < length refs" "length refs \<le> 2 ^ Suc R"
  shows "mset (bracket_byes (seeded_leaves refs (2 ^ Suc R)) round) =
    mset (concat (map (\<lambda>r. bye_entry r round) (take (2 ^ Suc R - length refs) refs)))"
proof -
  let ?ls = "seeded_leaves refs (2 ^ Suc R)" and ?m = "2 ^ Suc R - length refs"
  have pair: "bye_of_pair round (?ls ! (2 * j)) (?ls ! (2 * j + 1)) =
      (if seeds R ! j \<le> ?m then bye_entry (refs ! (seeds R ! j - 1)) round else [])" if j: "j < 2 ^ R" for j
  proof -
    have lt: "2 * j < 2 ^ Suc R" "2 * j + 1 < 2 ^ Suc R" using j by auto
    have s1: "seeds (Suc R) ! (2 * j) = seeds R ! j" using j by (simp add: nth_seed_double)
    have sum: "seeds R ! j + seeds (Suc R) ! (2 * j + 1) = 2 ^ Suc R + 1"
      using seeds_pair_sum[OF j] s1 by simp
    have "seeds R ! j \<in> set (seeds R)" using j by simp
    then have "1 \<le> seeds R ! j" "seeds R ! j \<le> length refs" using assms(1) by (auto simp: seeds_range)
    then show ?thesis
      using sum assms(2) unfolding seeded_leaves_simps(2)[OF lt(1), of refs] seeded_leaves_simps(2)[OF lt(2), of refs] s1
      by (auto simp: bye_of_pair_def simp del: seeds.simps power_Suc)
  qed
  have "bracket_byes ?ls round = concat (map (\<lambda>j. if seeds R ! j \<le> ?m
      then bye_entry (refs ! (seeds R ! j - 1)) round else []) [0..<2 ^ R])"
  proof -
    show ?thesis unfolding bracket_byes_def half_seeded
      by (intro arg_cong[where f = concat] map_cong) (simp_all only: pair set_upt atLeastLessThan_iff)
  qed
  also have "\<dots> = concat (map (\<lambda>l. if l \<le> ?m then bye_entry (refs ! (l - 1)) round else []) (map (\<lambda>j. seeds R ! j) [0..<2 ^ R]))"
    by (simp add: o_def)
  also have "map (\<lambda>j. seeds R ! j) [0..<2 ^ R] = seeds R" by (metis length_seeds map_nth)
  also have "concat (map (\<lambda>l. if l \<le> ?m then bye_entry (refs ! (l - 1)) round else []) ls) =
      concat (map (\<lambda>r. bye_entry r round) (map (\<lambda>l. refs ! (l - 1)) (filter (\<lambda>l. l \<le> ?m) ls)))" for ls
    by (induction ls) simp_all
  finally have eq: "bracket_byes ?ls round = concat (map (\<lambda>r. bye_entry r round)
      (map (\<lambda>l. refs ! (l - 1)) (filter (\<lambda>l. l \<le> ?m) (seeds R))))" .
  have cong: "mset (concat (map f xs)) = mset (concat (map f ys))" if "mset xs = mset ys"
    for xs ys :: "SlotRef list" and f :: "SlotRef \<Rightarrow> Bye list"
  proof -
    have "mset (concat (map f zs)) = (\<Sum>z\<in>#mset zs. mset (f z))" for zs
      by (induction zs) simp_all
    then show ?thesis using that by simp
  qed
  have "2 ^ Suc R = 2 * (2::nat) ^ R" by simp
  then have "?m \<le> 2 ^ R" "?m \<le> length refs" using assms by linarith+
  then show ?thesis unfolding eq by (intro cong mset_seeds_select)
qed

lemma buildKnockout_bracket:
  assumes "2 \<le> length seeded"
  obtains ms byes R where "buildKnockout seeded = Some (ms, byes)"
    "nextPow2 (length seeded) = 2 ^ Suc R"
    "length ms = length seeded - 1" "bracket_wf ms {length ms - 1}"
    "mset (placed_refs ms) = mset (map (\<lambda>p. SlotConcrete (p_id p)) seeded)"
    "mset byes = mset (map (\<lambda>p. \<lparr> bye_participantID = p_id p, bye_intoRound = 2 \<rparr>)
       (take (nextPow2 (length seeded) - length seeded) seeded))"
    "\<forall>i<length ms. 1 \<le> pm_roundNumber (ms ! i) \<and> pm_roundNumber (ms ! i) \<le> Suc R"
    "pm_roundNumber (ms ! (length ms - 1)) = Suc R"
proof -
  let ?refs = "map (\<lambda>p. SlotConcrete (p_id p)) seeded" and ?n = "length seeded"
  obtain k where k: "nextPow2 ?n = 2 ^ k" "?n \<le> 2 ^ k" "k = 0 \<or> 2 ^ (k - 1) < ?n"
    by (rule nextPow2_power)
  have "k \<noteq> 0" using k(2) assms by (cases k) auto
  then obtain R where R: "k = Suc R" by (cases k) auto
  let ?ls = "seeded_leaves ?refs (2 ^ Suc R)"
  have n: "2 ^ R < length ?refs" "length ?refs \<le> 2 ^ Suc R" using k R by auto
  have good: "good_leaves ?ls" using n(1) by (rule good_seeded_leaves) auto
  have ent: "mset (entrants ?ls) = mset ?refs" using n(2) by (rule mset_entrants_seeded)
  then have len: "length (entrants ?ls) = ?n" by (metis length_map size_mset)
  obtain ms where ms: "buildBracket ?ls 0 = Some (ms, bracket_byes ?ls (0 + 2))"
    "length ms = length (entrants ?ls) - 1" "bracket_wf ms {length ms - 1}"
    "mset (placed_refs ms) = mset (entrants ?ls)"
    "\<forall>i<length ms. 0 + 1 \<le> pm_roundNumber (ms ! i) \<and> pm_roundNumber (ms ! i) \<le> 0 + Suc R \<and>
       first_pairs ?ls 0 (ms ! i)"
    "pm_roundNumber (ms ! (length ms - 1)) = 0 + Suc R"
    by (rule buildBracket_wf[OF good seeded_leaves_simps(1), where off = 0]) (use len assms in auto)
  have "mset (bracket_byes ?ls 2) = mset (concat (map (\<lambda>r. bye_entry r 2) (take (2 ^ Suc R - ?n) ?refs)))"
    using byes_seeded_leaves[OF n] by simp
  also have "concat (map (\<lambda>r. bye_entry r 2) (take (2 ^ Suc R - ?n) ?refs)) =
      map (\<lambda>p. \<lparr> bye_participantID = p_id p, bye_intoRound = 2 \<rparr>) (take (2 ^ Suc R - ?n) seeded)"
  proof -
    have "concat (map (\<lambda>r. bye_entry r 2) (map (\<lambda>p. SlotConcrete (p_id p)) ps)) =
      map (\<lambda>p. \<lparr> bye_participantID = p_id p, bye_intoRound = 2 \<rparr>) ps" for ps :: "Participant list"
      by (induction ps) (simp_all add: bye_entry_def)
    then show ?thesis by (simp only: take_map)
  qed
  finally have byes: "mset (bracket_byes ?ls 2) =
      mset (map (\<lambda>p. \<lparr> bye_participantID = p_id p, bye_intoRound = 2 \<rparr>) (take (2 ^ Suc R - ?n) seeded))" .
  have "buildKnockout seeded = Some (ms, bracket_byes ?ls 2)"
    using ms(1) k(1) R by (simp only: buildKnockout_def Let_def add_0)
  then show thesis
    by (rule that) (use ms k(1) R len ent byes in \<open>simp_all del: power_Suc\<close>)
qed

section \<open>Correctness\<close>

text \<open>
  C7: a knockout over \<open>n \<ge> 2\<close> seeded participants is a proper elimination tree: the builder
  returns, with \<open>n - 1\<close> matches; every match but the final has exactly one outgoing edge, one
  round up, into a slot that is TBD, no two matches feed the same slot and every TBD slot is fed
  (\<open>bracket_wf\<close> with the final as the only open match); and every participant is placed in
  exactly one slot.
\<close>

theorem knockout_bracket:
  assumes "2 \<le> length seeded"
  shows "\<exists>ms byes. buildKnockout seeded = Some (ms, byes) \<and> length ms = length seeded - 1 \<and>
    bracket_wf ms {length ms - 1} \<and>
    mset (placed_refs ms) = mset (map (\<lambda>p. SlotConcrete (p_id p)) seeded)"
  by (rule buildKnockout_bracket[OF assms]) blast

theorem knockout_bracket_witness:
  "\<exists>ms byes. buildKnockout (map (\<lambda>i. \<lparr>p_id = nat_str i, p_seedNumber = None, p_registeredAt = 0\<rparr>) [0..<6]) =
      Some (ms, byes) \<and>
    length ms = length (map (\<lambda>i. \<lparr>p_id = nat_str i, p_seedNumber = None, p_registeredAt = 0\<rparr>) [0..<6]) - 1 \<and>
    bracket_wf ms {length ms - 1} \<and>
    mset (placed_refs ms) = mset (map (\<lambda>p. SlotConcrete (p_id p))
      (map (\<lambda>i. \<lparr>p_id = nat_str i, p_seedNumber = None, p_registeredAt = 0\<rparr>) [0..<6]))"
  by (rule knockout_bracket) simp

text \<open>
  C8: seed protection: exactly the top \<open>nextPow2 n - n\<close> seeds get a bye, each into round 2.
\<close>

theorem knockout_byes:
  assumes "2 \<le> length seeded"
  shows "\<exists>ms byes. buildKnockout seeded = Some (ms, byes) \<and>
    mset byes = mset (map (\<lambda>p. \<lparr> bye_participantID = p_id p, bye_intoRound = 2 \<rparr>)
      (take (nextPow2 (length seeded) - length seeded) seeded))"
  by (rule buildKnockout_bracket[OF assms]) blast

theorem knockout_byes_witness:
  "\<exists>ms byes. buildKnockout (map (\<lambda>i. \<lparr>p_id = nat_str i, p_seedNumber = None, p_registeredAt = 0\<rparr>) [0..<5]) =
      Some (ms, byes) \<and>
    mset byes = mset (map (\<lambda>p. \<lparr> bye_participantID = p_id p, bye_intoRound = 2 \<rparr>)
      (take (nextPow2 (length (map (\<lambda>i. \<lparr>p_id = nat_str i, p_seedNumber = None, p_registeredAt = 0\<rparr>) [0..<5])) -
          length (map (\<lambda>i. \<lparr>p_id = nat_str i, p_seedNumber = None, p_registeredAt = 0\<rparr>) [0..<5]))
        (map (\<lambda>i. \<lparr>p_id = nat_str i, p_seedNumber = None, p_registeredAt = 0\<rparr>) [0..<5])))"
  by (rule knockout_byes) simp

text \<open>
  C9: top seeds meet as late as possible: in a bracket of \<open>2 ^ k\<close> leaves, two different leaves
  whose labels are both at most \<open>2 ^ l\<close> lie in different sub-brackets of \<open>2 ^ (k - l)\<close> leaves, so
  the two seeds cannot meet before at most \<open>2 ^ l\<close> participants are left.
\<close>

theorem seed_protection:
  assumes "l \<le> k" "p < 2 ^ k" "q < 2 ^ k" "p \<noteq> q"
    and "seedSlotOrder (2 ^ k) ! p \<le> 2 ^ l" "seedSlotOrder (2 ^ k) ! q \<le> 2 ^ l"
  shows "p div 2 ^ (k - l) \<noteq> q div 2 ^ (k - l)"
proof
  have k: "k = l + (k - l)" using assms(1) by simp
  have "2 ^ (k - l) dvd p" "2 ^ (k - l) dvd q"
    using seeds_protected[of p l "k - l"] seeds_protected[of q l "k - l"] assms
    by (simp_all add: seedSlotOrder_seeds flip: k)
  moreover assume "p div 2 ^ (k - l) = q div 2 ^ (k - l)"
  ultimately show False using assms(4) by (metis dvd_div_mult_self)
qed

theorem seed_protection_witness: "(0::nat) div 2 ^ (3 - 1) \<noteq> 4 div 2 ^ (3 - 1)"
proof (rule seed_protection)
  show "seedSlotOrder (2 ^ 3) ! 0 \<le> 2 ^ 1" "seedSlotOrder (2 ^ 3) ! 4 \<le> 2 ^ 1"
    unfolding seedSlotOrder_seeds by (simp_all add: numeral_3_eq_3 seed_double_def)
qed simp_all

end
