(* ===== verification/Group_Knockout.thy ===== *)
theory Group_Knockout
  imports Round_Robin Bracket
begin

text \<open>
  \<open>internal/fixtures/groupknockout.go\<close>: groups dealt in serpentine order, a round-robin in every
  group, and a bracket over the qualifier slots in rank-major order.  An even number of groups
  rules out a round-1 pairing of two qualifiers of the same group.
\<close>

section \<open>Definitions\<close>

definition groupLabel :: "nat \<Rightarrow> string" where
  "groupLabel i = (if i < 26 then [char_of (65 + i)] else ''G'' @ nat_str (i + 1))"

definition snake_group :: "nat \<Rightarrow> nat \<Rightarrow> nat" where
  "snake_group g i =
     (let cycle = i div g; pos = i mod g in if cycle mod 2 = 1 then g - 1 - pos else pos)"

definition deal :: "nat \<Rightarrow> nat \<times> 'a \<Rightarrow> 'a list list \<Rightarrow> 'a list list" where
  "deal g ip groups = (case ip of (i, p) \<Rightarrow>
     groups[snake_group g i := groups ! snake_group g i @ [p]])"

definition distributeSnake :: "'a list \<Rightarrow> nat \<Rightarrow> 'a list list" where
  "distributeSnake seeded g = fold (deal g) (enumerate 0 seeded) (replicate g [])"

text \<open>\<open>fmt.Sprintf("Group %s \<cdot> Round %d", label, round)\<close>, the middle dot as its two UTF-8 bytes.\<close>

definition group_round_name :: "string \<Rightarrow> nat \<Rightarrow> string" where
  "group_round_name label round =
     ''Group '' @ label @ [CHR '' '', CHR 0xC2, CHR 0xB7, CHR '' ''] @ ''Round '' @ nat_str round"

definition buildGroupStage :: "Participant list \<Rightarrow> string \<Rightarrow> PlannedMatch list option" where
  "buildGroupStage members label =
     (let ids = map p_id members; pairs = circlePairs (length members)
      in case orientBalanced (length members) of
           None \<Rightarrow> None
         | Some orient \<Rightarrow> Some (map (\<lambda>p.
             let (h, a) = homeAway orient (pr_a p) (pr_b p)
             in planned_match 0 (pr_round p) (group_round_name label (pr_round p)) label
                  (SlotConcrete (ids ! h)) (SlotConcrete (ids ! a))) pairs))"

type_synonym stage_state = "(PlannedMatch list \<times> nat) option"

text \<open>One group: re-index its matches behind those there are and keep the largest round.\<close>

definition add_group :: "nat \<times> Participant list \<Rightarrow> stage_state \<Rightarrow> stage_state" where
  "add_group gm st = (case st of None \<Rightarrow> None | Some (ms, maxRounds) \<Rightarrow>
     (case buildGroupStage (snd gm) (groupLabel (fst gm)) of
        None \<Rightarrow> None
      | Some new \<Rightarrow> Some (append_each (\<lambda>k m. m\<lparr> pm_index := k \<rparr>) new ms,
                     fold (\<lambda>m mx. max mx (pm_roundNumber m)) new maxRounds)))"

definition qualifier_order :: "nat \<Rightarrow> nat \<Rightarrow> SlotRef list" where
  "qualifier_order g q =
     concat (map (\<lambda>rank. map (\<lambda>i. SlotQualifier (groupLabel i) rank) [0..<g]) [1..<q + 1])"

definition shift_match :: "nat \<Rightarrow> PlannedMatch \<Rightarrow> PlannedMatch" where
  "shift_match base m =
     m\<lparr> pm_index := pm_index m + base, pm_nextMatchIndex := map_option (\<lambda>k. k + base) (pm_nextMatchIndex m) \<rparr>"

definition group_warnings :: "nat \<Rightarrow> nat \<Rightarrow> nat \<Rightarrow> string list" where
  "group_warnings g nq sz =
     (if sz \<noteq> nq
      then [''knockout field of '' @ nat_str nq @ '' qualifiers is not a power of two; '' @
            nat_str (sz - nq) @ '' bye(s) applied to top qualifier seeds'']
      else []) @
     (if g mod 2 = 1
      then [''odd group count: one round-1 knockout pairing may be a same-group rematch'']
      else [])"

definition buildGroupKnockout ::
  "Participant list \<Rightarrow> nat \<Rightarrow> nat \<Rightarrow> (PlannedMatch list \<times> string list) option" where
  "buildGroupKnockout seeded g q =
     (case fold add_group (enumerate 0 (distributeSnake seeded g)) (Some ([], 0)) of
        None \<Rightarrow> None
      | Some (groupMs, maxGroupRounds) \<Rightarrow>
          (let qualifiers = qualifier_order g q; sz = nextPow2 (length qualifiers)
           in case buildBracket (seeded_leaves qualifiers sz) maxGroupRounds of
                None \<Rightarrow> None
              | Some (ko, _) \<Rightarrow>
                  Some (groupMs @ map (shift_match (length groupMs)) ko,
                        group_warnings g (length qualifiers) sz)))"

section \<open>Groups\<close>

lemma groupLabel_inject: "groupLabel i = groupLabel j \<longleftrightarrow> i = j"
proof -
  have "length (nat_str k) \<ge> 2" if "k \<ge> 27" for k
    using that by (subst nat_str.simps) (simp add: Suc_le_eq)
  then have long: "length (groupLabel k) \<ge> 3" if "k \<ge> 26" for k
    using that by (simp add: groupLabel_def)
  have short: "length (groupLabel k) = 1" if "k < 26" for k using that by (simp add: groupLabel_def)
  have small: "char_of (65 + i) = char_of (65 + j) \<longleftrightarrow> i = j" if "i < 26" "j < 26"
  proof
    assume "char_of (65 + i) = char_of (65 + j)"
    then have "of_char (char_of (65 + i)) = (of_char (char_of (65 + j)) :: nat)" by simp
    then show "i = j" using that by simp
  qed simp
  show ?thesis
  proof (cases "i < 26"; cases "j < 26")
    assume "i < 26" "\<not> j < 26"
    then show ?thesis using short[of i] long[of j] by auto
  next
    assume "\<not> i < 26" "j < 26"
    then show ?thesis using short[of j] long[of i] by auto
  qed (use small in \<open>auto simp: groupLabel_def\<close>)
qed

lemma snake_group_lt: "0 < g \<Longrightarrow> snake_group g i < g"
  by (auto simp: snake_group_def Let_def intro: le_less_trans[OF diff_le_self])

text \<open>Dealing is a partition: group \<open>k\<close> holds, in seed order, the participants dealt to it.\<close>

lemma distributeSnake_groups:
  assumes "0 < g"
  shows "distributeSnake seeded g =
    map (\<lambda>k. map snd (filter (\<lambda>(i, p). snake_group g i = k) (enumerate 0 seeded))) [0..<g]"
proof -
  have "fold (deal g) xs (replicate g []) = map (\<lambda>k. map snd (filter (\<lambda>(i, p). snake_group g i = k) xs)) [0..<g]"
    for xs :: "(nat \<times> 'a) list"
  proof (induction xs rule: rev_induct)
    case Nil
    then show ?case by (simp add: map_replicate_const)
  next
    case (snoc x xs)
    obtain i p where x: "x = (i, p)" by (cases x)
    have "snake_group g i < g" by (rule snake_group_lt[OF assms])
    then have "deal g x (map (\<lambda>k. map snd (filter (\<lambda>(i, p). snake_group g i = k) xs)) [0..<g]) =
        map (\<lambda>k. map snd (filter (\<lambda>(i, p). snake_group g i = k) (xs @ [x]))) [0..<g]"
      by (intro nth_equalityI) (auto simp: x deal_def nth_list_update)
    then show ?case by (simp add: snoc.IH)
  qed
  then show ?thesis by (simp add: distributeSnake_def)
qed

lemma mset_distributeSnake:
  assumes "0 < g"
  shows "mset (concat (distributeSnake seeded g)) = mset seeded"
proof -
  have *: "(\<Sum>k<g. mset (map snd (filter (\<lambda>(i, p). snake_group g i = k) xs))) = mset (map snd xs)"
    for xs :: "(nat \<times> 'a) list"
  proof (induction xs)
    case (Cons x xs)
    obtain i p where x: "x = (i, p)" by (cases x)
    have "(\<Sum>k<g. mset (map snd (filter (\<lambda>(i, p). snake_group g i = k) (x # xs)))) =
        (\<Sum>k<g. (if snake_group g i = k then {#p#} else {#}) +
          mset (map snd (filter (\<lambda>(i, p). snake_group g i = k) xs)))"
      by (intro sum.cong) (simp_all add: x)
    then show ?case using Cons snake_group_lt[OF assms, of i] by (simp add: sum.distrib x)
  qed simp
  have "mset (concat (map f [0..<k])) = (\<Sum>j<k. mset (f j))" for f :: "nat \<Rightarrow> 'a list" and k
    by (induction k) simp_all
  then show ?thesis
    using *[of "enumerate 0 seeded"] by (simp add: distributeSnake_groups[OF assms])
qed

text \<open>Every pass over the groups deals each group one participant, so sizes differ by at most one.\<close>

lemma snake_once:
  assumes "k < g" "i \<in> {c * g..<c * g + g}"
  shows "snake_group g i = k \<longleftrightarrow> i = c * g + (if c mod 2 = 1 then g - 1 - k else k)"
proof -
  obtain r where r: "i = c * g + r" "r < g"
    using assms(2) by (metis add_less_cancel_left atLeastLessThan_iff le_Suc_ex)
  then have "i div g = c" "i mod g = r" by simp_all
  with assms(1) r show ?thesis by (auto simp: snake_group_def)
qed

lemma snake_group_size:
  assumes "k < g"
  shows "length (filter (\<lambda>i. snake_group g i = k) [0..<n]) \<in> {n div g, n div g + 1}"
proof -
  let ?P = "\<lambda>i. snake_group g i = k"
  have one: "length (filter (\<lambda>i. i = x) [a..<b]) = (if a \<le> x \<and> x < b then 1 else 0)" for a b x :: nat
    by (induction b) auto
  have seg: "length (filter ?P [c * g..<m]) =
      (let x = c * g + (if c mod 2 = 1 then g - 1 - k else k) in if x < m then 1 else 0)"
    if "m \<le> c * g + g" for c m
  proof -
    have "filter ?P [c * g..<m] = filter (\<lambda>i. i = c * g + (if c mod 2 = 1 then g - 1 - k else k)) [c * g..<m]"
      using that by (intro filter_cong refl snake_once[OF assms]) auto
    then show ?thesis by (simp add: one Let_def)
  qed
  have full: "length (filter ?P [0..<c * g]) = c" for c
  proof (induction c)
    case (Suc c)
    have "[0..<Suc c * g] = [0..<c * g] @ [c * g..<c * g + g]"
      using upt_add_eq_append[of 0 "c * g" g] by (simp add: add.commute)
    then show ?case using Suc seg[of "c * g + g" c] assms by (simp add: Let_def)
  qed simp
  have "[0..<n] = [0..<n div g * g] @ [n div g * g..<n]"
    using upt_add_eq_append[of 0 "n div g * g" "n mod g"] by simp
  moreover have "n \<le> n div g * g + g"
    using assms by (metis div_mult_mod_eq add_left_mono mod_less_divisor less_imp_le gr_implies_not0 neq0_conv)
  ultimately show ?thesis
    using full[of "n div g"] seg[of n "n div g"] by (simp add: Let_def)
qed

lemma length_distributeSnake [simp]: "0 < g \<Longrightarrow> length (distributeSnake seeded g) = g"
  by (simp add: distributeSnake_groups)

lemma distributeSnake_size:
  assumes "k < g"
  shows "length (distributeSnake seeded g ! k) \<in> {length seeded div g, length seeded div g + 1}"
proof -
  have "length (filter (\<lambda>(i, p). snake_group g i = k) (enumerate 0 seeded)) =
      length (filter (\<lambda>i. snake_group g i = k) (map fst (enumerate 0 seeded)))"
    by (subst filter_map) (simp add: o_def case_prod_unfold del: map_fst_enumerate)
  then show ?thesis
    using snake_group_size[OF assms, of "length seeded"] assms by (simp add: distributeSnake_groups)
qed

section \<open>The group stage\<close>

lemma buildGroupStage_games:
  obtains ms orient where "buildGroupStage members label = Some ms"
    "map game ms = map (game_of (map p_id members)) (all_games (length members) orient 1)"
    "\<forall>m\<in>set ms. pm_groupLabel m = label \<and> pm_nextMatchIndex m = None"
proof -
  obtain orient where o: "orientBalanced (length members) = Some orient"
    by (rule orientBalanced_balanced)
  have leg: "all_games (length members) orient 1 =
      map (\<lambda>p. let (h, a) = homeAway orient (pr_a p) (pr_b p) in (h, a, pr_round p)) (circlePairs (length members))"
    by (simp add: all_games_def leg_games_def leg_game_def Let_def)
  show thesis
    by (rule that[OF _ , of _ orient])
      (auto simp: buildGroupStage_def o leg[unfolded One_nat_def] game_of_def Let_def split: prod.splits)
qed

text \<open>What the plan keeps of a group match when it is re-indexed.\<close>

abbreviation labelled :: "PlannedMatch \<Rightarrow> string \<times> SlotRef \<times> SlotRef \<times> nat" where
  "labelled m \<equiv> (pm_groupLabel m, game m)"

definition stage :: "Participant list list \<Rightarrow> nat \<Rightarrow> PlannedMatch list" where
  "stage groups k = (case buildGroupStage (groups ! k) (groupLabel k) of None \<Rightarrow> [] | Some ms \<Rightarrow> ms)"

lemma stage_append: "k < length gs \<Longrightarrow> stage (gs @ hs) k = stage gs k"
  by (simp add: stage_def nth_append)

lemma fold_max_ge: "m \<in> set ms \<Longrightarrow> f m \<le> fold (\<lambda>m mx. max mx (f m)) ms (a::nat)"
  and fold_max_base: "a \<le> fold (\<lambda>m mx. max mx (f m)) ms (a::nat)"
proof -
  have base: "a \<le> fold (\<lambda>m mx. max mx (f m)) ms a" for a and ms
    by (induction ms arbitrary: a) (auto intro: order_trans[OF max.cobounded1])
  show "a \<le> fold (\<lambda>m mx. max mx (f m)) ms (a::nat)" by (rule base)
  show "m \<in> set ms \<Longrightarrow> f m \<le> fold (\<lambda>m mx. max mx (f m)) ms (a::nat)"
  proof (induction ms arbitrary: a)
    case (Cons x ms)
    then show ?case using order_trans[OF max.cobounded2 base] by auto
  qed simp
qed

lemma group_stage:
  "\<exists>ms mx. fold add_group (enumerate 0 groups) (Some ([], 0)) = Some (ms, mx) \<and>
     map labelled ms = concat (map (\<lambda>k. map labelled (stage groups k)) [0..<length groups]) \<and>
     (\<forall>i<length ms. pm_index (ms ! i) = i) \<and>
     (\<forall>m\<in>set ms. pm_nextMatchIndex m = None) \<and>
     mx = fold (\<lambda>m mx. max mx (pm_roundNumber m)) ms 0"
proof (induction groups rule: rev_induct)
  case (snoc g gs)
  then obtain ms mx where IH: "fold add_group (enumerate 0 gs) (Some ([], 0)) = Some (ms, mx)"
    "map labelled ms = concat (map (\<lambda>k. map labelled (stage gs k)) [0..<length gs])"
    "\<forall>i<length ms. pm_index (ms ! i) = i" "\<forall>m\<in>set ms. pm_nextMatchIndex m = None"
    "mx = fold (\<lambda>m mx. max mx (pm_roundNumber m)) ms 0"
    by blast
  obtain new orient where new: "buildGroupStage g (groupLabel (length gs)) = Some new"
    "\<forall>m\<in>set new. pm_groupLabel m = groupLabel (length gs) \<and> pm_nextMatchIndex m = None"
    by (rule buildGroupStage_games)
  let ?ms = "append_each (\<lambda>k m. m\<lparr> pm_index := k \<rparr>) new ms"
  let ?mx = "fold (\<lambda>m mx. max mx (pm_roundNumber m)) new mx"
  have "enumerate 0 (gs @ [g]) = enumerate 0 gs @ [(length gs, g)]"
    by (simp add: enumerate_append_eq)
  then have "fold add_group (enumerate 0 (gs @ [g])) (Some ([], 0)) = Some (?ms, ?mx)"
    using IH(1) new(1) by (simp add: add_group_def)
  moreover have "map labelled ?ms = concat (map (\<lambda>k. map labelled (stage (gs @ [g]) k)) [0..<length (gs @ [g])])"
  proof -
    have "map labelled (map (\<lambda>(i, m). m\<lparr> pm_index := i \<rparr>) (enumerate n xs)) = map labelled xs" for n xs
      by (induction xs arbitrary: n) simp_all
    moreover have "stage (gs @ [g]) (length gs) = new" using new(1) by (simp add: stage_def)
    moreover have "map (\<lambda>k. map labelled (stage (gs @ [g]) k)) [0..<length gs] =
        map (\<lambda>k. map labelled (stage gs k)) [0..<length gs]"
      by (intro map_cong refl arg_cong[where f = "map labelled"] stage_append) simp
    ultimately show ?thesis using IH(2) by (simp only: append_each_enumerate map_append
        length_append_singleton upt_Suc_append[OF le0] list.map concat_append concat.simps append_Nil2)
  qed
  moreover have "\<forall>i<length ?ms. pm_index (?ms ! i) = i"
    using IH(3) by (auto simp: append_each_enumerate nth_append nth_enumerate_eq)
  moreover have "\<forall>m\<in>set ?ms. pm_nextMatchIndex m = None"
    using IH(4) new(2) by (auto simp: append_each_enumerate in_set_enumerate_eq)
  moreover have "?mx = fold (\<lambda>m mx. max mx (pm_roundNumber m)) ?ms 0"
  proof -
    have "fold (\<lambda>m mx. max mx (pm_roundNumber m)) (map (\<lambda>(i, m). m\<lparr> pm_index := i \<rparr>) (enumerate n xs)) a =
        fold (\<lambda>m mx. max mx (pm_roundNumber m)) xs a" for n a and xs :: "PlannedMatch list"
      by (induction xs arbitrary: n a) simp_all
    then show ?thesis using IH(5) by (simp add: append_each_enumerate)
  qed
  ultimately show ?case by blast
qed simp

section \<open>The qualifier bracket\<close>

lemma length_qualifier_order [simp]: "length (qualifier_order g q) = q * g"
  by (simp add: qualifier_order_def length_concat o_def sum_list_const)

lemma nth_qualifier_order:
  assumes "i < q * g"
  shows "qualifier_order g q ! i = SlotQualifier (groupLabel (i mod g)) (i div g + 1)"
proof -
  have "i < n * g \<Longrightarrow> concat (map (\<lambda>rank. map (\<lambda>i. SlotQualifier (groupLabel i) rank) [0..<g]) [a..<a + n]) ! i =
      SlotQualifier (groupLabel (i mod g)) (i div g + a)" for a n
  proof (induction n arbitrary: a i)
    case (Suc n)
    have "[a..<a + Suc n] = a # [Suc a..<Suc a + n]" by (simp add: upt_conv_Cons)
    then show ?case
      using Suc.IH[of "i - g" "Suc a"] Suc.prems
      by (cases "i < g \<or> g = 0") (auto simp: nth_append not_less le_mod_geq le_div_geq simp del: upt_Suc)
  qed simp
  from this[of q 1] assms show ?thesis by (simp add: qualifier_order_def)
qed

lemma no_tbd_qualifier: "SlotTBD \<notin> set (qualifier_order g q)"
  by (auto simp: qualifier_order_def)

lemma qualifier_bracket:
  assumes "2 \<le> q * g"
  obtains ms byes R where
    "buildBracket (seeded_leaves (qualifier_order g q) (nextPow2 (q * g))) off = Some (ms, byes)"
    "length ms = q * g - 1" "bracket_wf ms {length ms - 1}"
    "mset (placed_refs ms) = mset (qualifier_order g q)" "nextPow2 (q * g) = 2 ^ Suc R"
    "\<forall>i<length ms. off < pm_roundNumber (ms ! i) \<and>
       first_pairs (seeded_leaves (qualifier_order g q) (2 ^ Suc R)) off (ms ! i)"
proof -
  let ?refs = "qualifier_order g q"
  obtain k where k: "nextPow2 (q * g) = 2 ^ k" "q * g \<le> 2 ^ k" "k = 0 \<or> 2 ^ (k - 1) < q * g"
    by (rule nextPow2_power)
  have "k \<noteq> 0"
  proof
    assume "k = 0"
    then show False using k(2) assms by simp
  qed
  then obtain R where R: "k = Suc R" by (cases k) auto
  let ?ls = "seeded_leaves ?refs (2 ^ Suc R)"
  have n: "2 ^ R < length ?refs" "length ?refs \<le> 2 ^ Suc R" using k R by (simp_all del: power_Suc)
  have good: "good_leaves ?ls" using n(1) no_tbd_qualifier by (rule good_seeded_leaves)
  have ent: "mset (entrants ?ls) = mset ?refs" using n(2) by (rule mset_entrants_seeded)
  then have len: "length (entrants ?ls) = q * g" by (metis length_qualifier_order size_mset)
  obtain ms where ms: "buildBracket ?ls off = Some (ms, bracket_byes ?ls (off + 2))"
    "length ms = length (entrants ?ls) - 1" "bracket_wf ms {length ms - 1}"
    "mset (placed_refs ms) = mset (entrants ?ls)"
    "\<forall>i<length ms. off + 1 \<le> pm_roundNumber (ms ! i) \<and> pm_roundNumber (ms ! i) \<le> off + Suc R \<and>
       first_pairs ?ls off (ms ! i)"
    by (rule buildBracket_wf[OF good seeded_leaves_simps(1), where off = off]) (use len assms in auto)
  have "off < pm_roundNumber (ms ! i) \<and> first_pairs ?ls off (ms ! i)" if "i < length ms" for i
    using ms(5) that by (metis Suc_eq_plus1 Suc_le_lessD)
  then show thesis
    by (intro that[of ms "bracket_byes ?ls (off + 2)" R])
      (use ms(1-4) k(1) R len ent in \<open>simp_all del: power_Suc\<close>)
qed

text \<open>The two qualifiers of a round-1 pair come from different groups when their number is even.\<close>

lemma even_groups_differ:
  assumes g: "even g" "0 < g" and j: "j < 2 ^ R"
    and a: "seeds (Suc R) ! (2 * j) \<le> q * g" and b: "seeds (Suc R) ! (2 * j + 1) \<le> q * g"
  shows "(seeds (Suc R) ! (2 * j) - 1) mod g \<noteq> (seeds (Suc R) ! (2 * j + 1) - 1) mod g"
proof
  let ?a = "seeds (Suc R) ! (2 * j)" and ?b = "seeds (Suc R) ! (2 * j + 1)"
  have lt: "2 * j < 2 ^ Suc R" "2 * j + 1 < 2 ^ Suc R" using j by auto
  have "?a \<in> set (seeds (Suc R))" "?b \<in> set (seeds (Suc R))"
    by (intro nth_mem, simp only: length_seeds lt)+
  then have pos: "1 \<le> ?a" "1 \<le> ?b" by (simp_all only: seeds_range atLeastAtMost_iff)
  have sum: "?a + ?b = 2 ^ Suc R + 1" using seeds_pair_sum[OF j] by (simp only: Suc_eq_plus1)
  assume "(?a - 1) mod g = (?b - 1) mod g"
  then have "((?a - 1) mod g) mod 2 = ((?b - 1) mod g) mod 2" by (rule arg_cong)
  then have "(?a - 1) mod 2 = (?b - 1) mod 2" by (simp only: mod_mod_cancel[OF g(1)])
  moreover have "x mod 2 = y mod 2 \<Longrightarrow> even (x + y)" for x y :: nat by presburger
  ultimately have "even ((?a - 1) + (?b - 1))" by blast
  moreover have "(?a - 1) + (?b - 1) + 1 = 2 ^ Suc R" using sum pos by linarith
  moreover have "even ((2::nat) ^ Suc R)" by simp
  ultimately show False by (metis even_plus_one_iff)
qed

section \<open>The whole plan\<close>

text \<open>The plan is the group stage followed by the shifted bracket.\<close>

definition plan_parts ::
  "Participant list \<Rightarrow> nat \<Rightarrow> nat \<Rightarrow> PlannedMatch list \<Rightarrow> PlannedMatch list \<Rightarrow> nat \<Rightarrow> nat \<Rightarrow> bool" where
  "plan_parts seeded g q groupMs ko R mx \<longleftrightarrow>
     buildGroupKnockout seeded g q = Some (groupMs @ map (shift_match (length groupMs)) ko,
       group_warnings g (q * g) (nextPow2 (q * g))) \<and>
     map labelled groupMs =
       concat (map (\<lambda>k. map labelled (stage (distributeSnake seeded g) k)) [0..<g]) \<and>
     (\<forall>i<length groupMs. pm_index (groupMs ! i) = i) \<and>
     (\<forall>m\<in>set groupMs. pm_nextMatchIndex m = None) \<and>
     mx = fold (\<lambda>m mx. max mx (pm_roundNumber m)) groupMs 0 \<and>
     length ko = q * g - 1 \<and> bracket_wf ko {length ko - 1} \<and>
     mset (placed_refs ko) = mset (qualifier_order g q) \<and> nextPow2 (q * g) = 2 ^ Suc R \<and>
     (\<forall>i<length ko. mx < pm_roundNumber (ko ! i) \<and>
       first_pairs (seeded_leaves (qualifier_order g q) (2 ^ Suc R)) mx (ko ! i))"

lemma plan_partsD:
  assumes "plan_parts seeded g q groupMs ko R mx"
  shows "buildGroupKnockout seeded g q = Some (groupMs @ map (shift_match (length groupMs)) ko,
       group_warnings g (q * g) (nextPow2 (q * g)))"
    "map labelled groupMs =
       concat (map (\<lambda>k. map labelled (stage (distributeSnake seeded g) k)) [0..<g])"
    "\<forall>i<length groupMs. pm_index (groupMs ! i) = i"
    "\<forall>m\<in>set groupMs. pm_nextMatchIndex m = None"
    "mx = fold (\<lambda>m mx. max mx (pm_roundNumber m)) groupMs 0"
    "length ko = q * g - 1" "bracket_wf ko {length ko - 1}"
    "mset (placed_refs ko) = mset (qualifier_order g q)"
    "\<forall>i<length ko. mx < pm_roundNumber (ko ! i) \<and>
       first_pairs (seeded_leaves (qualifier_order g q) (2 ^ Suc R)) mx (ko ! i)"
  using assms unfolding plan_parts_def by - (elim conjE, assumption)+

lemma buildGroupKnockout_parts:
  assumes "2 \<le> g" "1 \<le> q"
  obtains groupMs ko R mx where "plan_parts seeded g q groupMs ko R mx"
proof -
  have g: "0 < g" using assms by simp
  obtain groupMs mx where G: "fold add_group (enumerate 0 (distributeSnake seeded g)) (Some ([], 0)) = Some (groupMs, mx)"
    "map labelled groupMs = concat (map (\<lambda>k. map labelled (stage (distributeSnake seeded g) k)) [0..<g])"
    "\<forall>i<length groupMs. pm_index (groupMs ! i) = i"
    "\<forall>m\<in>set groupMs. pm_nextMatchIndex m = None"
    "mx = fold (\<lambda>m mx. max mx (pm_roundNumber m)) groupMs 0"
    using group_stage[of "distributeSnake seeded g"] g by auto
  have "2 * 1 \<le> g * q" using assms by (intro mult_le_mono) auto
  then have "2 \<le> q * g" by (simp add: mult.commute)
  then obtain ko byes R where K:
    "buildBracket (seeded_leaves (qualifier_order g q) (nextPow2 (q * g))) mx = Some (ko, byes)"
    "length ko = q * g - 1" "bracket_wf ko {length ko - 1}"
    "mset (placed_refs ko) = mset (qualifier_order g q)" "nextPow2 (q * g) = 2 ^ Suc R"
    "\<forall>i<length ko. mx < pm_roundNumber (ko ! i) \<and>
       first_pairs (seeded_leaves (qualifier_order g q) (2 ^ Suc R)) mx (ko ! i)"
    by (rule qualifier_bracket[where off = mx])
  have "buildGroupKnockout seeded g q = Some (groupMs @ map (shift_match (length groupMs)) ko,
       group_warnings g (q * g) (nextPow2 (q * g)))"
    using G(1) K(1) by (simp add: buildGroupKnockout_def)
  then have "plan_parts seeded g q groupMs ko R mx"
    unfolding plan_parts_def by (intro conjI) (rule G K | assumption)+
  then show thesis by (rule that)
qed

lemma groupLabel_nonempty [simp]: "groupLabel k \<noteq> []"
  by (simp add: groupLabel_def)

lemma stage_labels: "m \<in> set (stage groups k) \<Longrightarrow> pm_groupLabel m = groupLabel k"
  by (rule buildGroupStage_games[of "groups ! k" "groupLabel k"]) (simp add: stage_def)

lemma filter_stage:
  assumes "map labelled ms = concat (map (\<lambda>k. map labelled (stage groups k)) [0..<g])" "k < g"
  shows "map game (filter (\<lambda>m. pm_groupLabel m = groupLabel k) ms) = map game (stage groups k)"
proof -
  have "map labelled (filter (\<lambda>m. pm_groupLabel m = groupLabel k) ms) =
      filter (\<lambda>x. fst x = groupLabel k) (map labelled ms)"
    by (simp add: filter_map o_def)
  also have "\<dots> = concat (map (\<lambda>j. filter (\<lambda>x. fst x = groupLabel k) (map labelled (stage groups j))) [0..<g])"
    unfolding assms(1) by (simp add: filter_concat o_def)
  also have "\<dots> = concat (map (\<lambda>j. if j = k then map labelled (stage groups k) else []) [0..<g])"
  proof (intro arg_cong[where f = concat] map_cong refl)
    fix j
    show "filter (\<lambda>x. fst x = groupLabel k) (map labelled (stage groups j)) =
        (if j = k then map labelled (stage groups k) else [])"
      using stage_labels[of _ groups j] by (auto simp: filter_map o_def filter_empty_conv groupLabel_inject intro: filter_True)
  qed
  also have "\<dots> = map labelled (stage groups k)"
  proof -
    have "concat (map (\<lambda>j. if j = k then xs else []) [0..<n]) = (if k < n then xs else [])"
      for n and xs :: "(string \<times> SlotRef \<times> SlotRef \<times> nat) list"
      by (induction n) auto
    then show ?thesis using assms(2) by simp
  qed
  finally have "map snd (map labelled (filter (\<lambda>m. pm_groupLabel m = groupLabel k) ms)) =
      map snd (map labelled (stage groups k))" by simp
  then show ?thesis by (simp add: o_def)
qed

lemma group_match_label:
  assumes "map labelled ms = concat (map (\<lambda>k. map labelled (stage groups k)) [0..<g])" "m \<in> set ms"
  shows "pm_groupLabel m \<noteq> []"
proof -
  have "labelled m \<in> set (map labelled ms)" unfolding set_map using assms(2) by (rule imageI)
  then obtain k x where "x \<in> set (stage groups k)" "labelled m = labelled x"
    unfolding assms(1) by auto
  then show ?thesis using stage_labels[of x groups k] by simp
qed

lemma shift_match_simps [simp]:
  "pm_index (shift_match b m) = pm_index m + b"
  "pm_roundNumber (shift_match b m) = pm_roundNumber m" "pm_home (shift_match b m) = pm_home m"
  "pm_away (shift_match b m) = pm_away m" "pm_groupLabel (shift_match b m) = pm_groupLabel m"
  "pm_nextMatchIndex (shift_match b m) = map_option (\<lambda>k. k + b) (pm_nextMatchIndex m)"
  "pm_nextSlot (shift_match b m) = pm_nextSlot m"
  by (simp_all add: shift_match_def)

lemma placed_refs_shift [simp]: "placed_refs (map (shift_match b) ms) = placed_refs ms"
  by (simp add: placed_refs_def o_def)

definition in_group :: "nat \<Rightarrow> PlannedMatch \<Rightarrow> bool" where
  "in_group k m \<longleftrightarrow> pm_groupLabel m = groupLabel k"

definition group_phase :: "PlannedMatch list \<Rightarrow> PlannedMatch list" where
  "group_phase ms = filter (\<lambda>m. pm_groupLabel m \<noteq> []) ms"

definition knockout_phase :: "PlannedMatch list \<Rightarrow> PlannedMatch list" where
  "knockout_phase ms = filter (\<lambda>m. pm_groupLabel m = []) ms"

definition last_group_round :: "PlannedMatch list \<Rightarrow> nat" where
  "last_group_round ms = fold (\<lambda>m mx. max mx (pm_roundNumber m)) (group_phase ms) 0"

lemma phases:
  assumes "\<forall>m\<in>set groupMs. pm_groupLabel m \<noteq> []" "\<forall>m\<in>set ko. pm_groupLabel m = []"
  shows "group_phase (groupMs @ map (shift_match b) ko) = groupMs"
    "knockout_phase (groupMs @ map (shift_match b) ko) = map (shift_match b) ko"
    "filter (in_group k) (groupMs @ map (shift_match b) ko) = filter (\<lambda>m. pm_groupLabel m = groupLabel k) groupMs"
  using assms groupLabel_nonempty[of k, symmetric]
  by (auto simp: group_phase_def knockout_phase_def in_group_def[abs_def] filter_empty_conv intro: filter_True)

lemma first_pairs_label: "\<forall>i<length ko. off < pm_roundNumber (ko ! i) \<and> first_pairs ls off (ko ! i) \<Longrightarrow>
  \<forall>m\<in>set ko. pm_groupLabel m = []"
  by (auto simp: in_set_conv_nth first_pairs_def)

lemma plan_phases:
  assumes "plan_parts seeded g q groupMs ko R mx"
  shows "group_phase (groupMs @ map (shift_match b) ko) = groupMs"
    "knockout_phase (groupMs @ map (shift_match b) ko) = map (shift_match b) ko"
    "filter (in_group k) (groupMs @ map (shift_match b) ko) = filter (\<lambda>m. pm_groupLabel m = groupLabel k) groupMs"
proof -
  have "\<forall>m\<in>set groupMs. pm_groupLabel m \<noteq> []"
    using group_match_label[OF plan_partsD(2)[OF assms]] by blast
  note ph = phases[OF this first_pairs_label[OF plan_partsD(9)[OF assms]]]
  show "group_phase (groupMs @ map (shift_match b) ko) = groupMs"
    "knockout_phase (groupMs @ map (shift_match b) ko) = map (shift_match b) ko"
    "filter (in_group k) (groupMs @ map (shift_match b) ko) = filter (\<lambda>m. pm_groupLabel m = groupLabel k) groupMs"
    by (rule ph)+
qed

definition same_group_pairing :: "PlannedMatch \<Rightarrow> bool" where
  "same_group_pairing m \<longleftrightarrow> (case (pm_home m, pm_away m) of
     (SlotQualifier a _, SlotQualifier b _) \<Rightarrow> a = b | _ \<Rightarrow> False)"

lemma same_group_pairing_shift [simp]: "same_group_pairing (shift_match b m) = same_group_pairing m"
  by (simp add: same_group_pairing_def)

section \<open>Correctness\<close>

text \<open>
  C10: the group stage is fair and complete: for at least two groups and at least one qualifier
  per group the builder returns; the serpentine deal partitions the participants into groups
  whose sizes are \<open>n div g\<close> or one more (so each can supply \<open>n div g\<close> qualifiers), and in every
  group any two members meet exactly once.
\<close>

theorem group_stage_complete:
  assumes "distinct (map p_id seeded)" "2 \<le> g" "1 \<le> q" "k < g"
    and "a \<in> p_id ` set (distributeSnake seeded g ! k)" "b \<in> p_id ` set (distributeSnake seeded g ! k)" "a \<noteq> b"
  shows "\<exists>ms ws. buildGroupKnockout seeded g q = Some (ms, ws) \<and>
    meetings (filter (in_group k) ms) a b = 1 \<and>
    mset (concat (distributeSnake seeded g)) = mset seeded \<and>
    length (distributeSnake seeded g ! k) \<in> {length seeded div g, length seeded div g + 1}"
proof -
  have g: "0 < g" using assms(2) by simp
  let ?members = "distributeSnake seeded g ! k"
  obtain groupMs ko R mx where parts: "plan_parts seeded g q groupMs ko R mx"
    by (rule buildGroupKnockout_parts[OF assms(2,3)])
  note P = plan_partsD[OF parts]
  let ?ms = "groupMs @ map (shift_match (length groupMs)) ko"
  have "map game (filter (in_group k) ?ms) = map game (stage (distributeSnake seeded g) k)"
    unfolding plan_phases(3)[OF parts]
    by (rule filter_stage[OF P(2) assms(4)])
  moreover obtain orient where "map game (stage (distributeSnake seeded g) k) =
      map (game_of (map p_id ?members)) (all_games (length ?members) orient 1)"
    by (rule buildGroupStage_games[of ?members "groupLabel k"]) (simp add: stage_def)
  ultimately have G: "map game (filter (in_group k) ?ms) =
      map (game_of (map p_id ?members)) (all_games (length ?members) orient 1)" by simp
  have part: "mset (concat (distributeSnake seeded g)) = mset seeded" by (rule mset_distributeSnake[OF g])
  have dist: "distinct (map p_id ?members)"
  proof -
    have "mset (map p_id (concat (distributeSnake seeded g))) = mset (map p_id seeded)"
      using part by simp
    then have "distinct (map p_id (concat (distributeSnake seeded g)))"
      using assms(1) by (metis mset_eq_imp_distinct_iff)
    moreover have "?members \<in> set (distributeSnake seeded g)" using assms(4) g by simp
    ultimately show ?thesis by (auto simp: map_concat distinct_concat_iff)
  qed
  obtain i j where i: "i < length ?members" "a = map p_id ?members ! i"
    and j: "j < length ?members" "b = map p_id ?members ! j"
    using ids_index[OF assms(5)] ids_index[OF assms(6)] by metis
  have "meetings (filter (in_group k) ?ms) a b = 1"
    using count_games_at(1)[OF dist i(1) j(1) G i(2) j(2)] all_meetings[OF i(1) j(1)] i j assms(7)
    by auto
  then show ?thesis using P(1) part distributeSnake_size[OF assms(4)] by blast
qed

theorem group_stage_complete_witness:
  "\<exists>ms ws. buildGroupKnockout (map (\<lambda>i. \<lparr>p_id = [i], p_seedNumber = None, p_registeredAt = 0\<rparr>) ''abcde'') 2 1 =
      Some (ms, ws) \<and>
    meetings (filter (in_group 0) ms) ''a'' ''e'' = 1 \<and>
    mset (concat (distributeSnake (map (\<lambda>i. \<lparr>p_id = [i], p_seedNumber = None, p_registeredAt = 0\<rparr>) ''abcde'') 2)) =
      mset (map (\<lambda>i. \<lparr>p_id = [i], p_seedNumber = None, p_registeredAt = 0 :: int\<rparr>) ''abcde'') \<and>
    length (distributeSnake (map (\<lambda>i. \<lparr>p_id = [i], p_seedNumber = None, p_registeredAt = 0\<rparr>) ''abcde'') 2 ! 0) \<in>
      {length (map (\<lambda>i. \<lparr>p_id = [i], p_seedNumber = None, p_registeredAt = 0 :: int\<rparr>) ''abcde'') div 2,
       length (map (\<lambda>i. \<lparr>p_id = [i], p_seedNumber = None, p_registeredAt = 0 :: int\<rparr>) ''abcde'') div 2 + 1}"
  by (rule group_stage_complete)
    (simp_all add: distributeSnake_def deal_def snake_group_def Let_def)

text \<open>
  C11: the knockout phase of a group plan is a proper bracket over the qualifier slots: its
  matches follow the group stage in index order, its edges (relative to the first knockout
  match) form a proper elimination tree with the final as the only open match, every qualifier
  (group, rank) fills exactly one slot, and all its rounds come after the last group round.
\<close>

theorem group_knockout_bracket:
  assumes "2 \<le> g" "1 \<le> q"
  shows "\<exists>ms ws ko. buildGroupKnockout seeded g q = Some (ms, ws) \<and>
    ms = group_phase ms @ map (shift_match (length (group_phase ms))) ko \<and>
    length ko = q * g - 1 \<and> bracket_wf ko {length ko - 1} \<and>
    mset (placed_refs (knockout_phase ms)) = mset (qualifier_order g q) \<and>
    list_all (\<lambda>m. last_group_round ms < pm_roundNumber m) (knockout_phase ms)"
proof -
  obtain groupMs ko R mx where parts: "plan_parts seeded g q groupMs ko R mx"
    by (rule buildGroupKnockout_parts[OF assms])
  note P = plan_partsD[OF parts]
  note ph = plan_phases[OF parts]
  let ?ms = "groupMs @ map (shift_match (length groupMs)) ko"
  have "list_all (\<lambda>m. last_group_round ?ms < pm_roundNumber m) (knockout_phase ?ms)"
    using P(5,9) by (auto simp: ph last_group_round_def list_all_iff in_set_conv_nth)
  moreover have "mset (placed_refs (knockout_phase ?ms)) = mset (qualifier_order g q)"
    using P(8) by (simp add: ph)
  moreover have "?ms = group_phase ?ms @ map (shift_match (length (group_phase ?ms))) ko" by (simp add: ph)
  ultimately show ?thesis using P(1,6,7) by blast
qed

theorem group_knockout_bracket_witness:
  "\<exists>ms ws ko. buildGroupKnockout (map (\<lambda>i. \<lparr>p_id = [i], p_seedNumber = None, p_registeredAt = 0\<rparr>) ''abcdef'') 3 2 =
      Some (ms, ws) \<and>
    ms = group_phase ms @ map (shift_match (length (group_phase ms))) ko \<and>
    length ko = 2 * 3 - 1 \<and> bracket_wf ko {length ko - 1} \<and>
    mset (placed_refs (knockout_phase ms)) = mset (qualifier_order 3 2) \<and>
    list_all (\<lambda>m. last_group_round ms < pm_roundNumber m) (knockout_phase ms)"
  by (rule group_knockout_bracket) simp_all

text \<open>
  C12: with an even number of groups no match of the first knockout round pairs two qualifiers
  of the same group.
\<close>

theorem even_groups_no_rematch:
  assumes "2 \<le> g" "1 \<le> q" "even g"
  shows "\<exists>ms ws. buildGroupKnockout seeded g q = Some (ms, ws) \<and>
    filter (\<lambda>m. pm_roundNumber m = last_group_round ms + 1 \<and> same_group_pairing m) (knockout_phase ms) = []"
proof -
  obtain groupMs ko R mx where parts: "plan_parts seeded g q groupMs ko R mx"
    by (rule buildGroupKnockout_parts[OF assms(1,2)])
  note P = plan_partsD[OF parts]
  note ph = plan_phases[OF parts]
  let ?ms = "groupMs @ map (shift_match (length groupMs)) ko" and ?ls = "seeded_leaves (qualifier_order g q) (2 ^ Suc R)"
  have no: "\<not> same_group_pairing m" if m: "m \<in> set ko" "pm_roundNumber m = mx + 1" for m
  proof -
    have "first_pairs ?ls mx m" using m(1) P(9) by (auto simp: in_set_conv_nth)
    then obtain j where j: "j < 2 ^ R" and h: "pm_home m = lf_ref (?ls ! (2 * j))" "\<not> lf_bye (?ls ! (2 * j))"
      and a: "pm_away m = lf_ref (?ls ! (2 * j + 1))" "\<not> lf_bye (?ls ! (2 * j + 1))"
      using m(2) unfolding first_pairs_def half_seeded by blast
    have lt: "2 * j < 2 ^ Suc R" "2 * j + 1 < 2 ^ Suc R" using j by auto
    let ?a = "seeds (Suc R) ! (2 * j)" and ?b = "seeds (Suc R) ! (2 * j + 1)"
    have le: "?a \<le> q * g" "?b \<le> q * g"
      using h(2) a(2) unfolding seeded_leaves_simps(2)[OF lt(1)] seeded_leaves_simps(2)[OF lt(2)]
      by (simp_all only: length_qualifier_order split: if_splits) simp_all
    have "?a \<in> set (seeds (Suc R))" "?b \<in> set (seeds (Suc R))"
      by (intro nth_mem, simp only: length_seeds lt)+
    then have "1 \<le> ?a" "1 \<le> ?b" by (simp_all only: seeds_range atLeastAtMost_iff)
    then have "?a - 1 < q * g" "?b - 1 < q * g" using le by linarith+
    then have "pm_home m = SlotQualifier (groupLabel ((?a - 1) mod g)) ((?a - 1) div g + 1)"
      "pm_away m = SlotQualifier (groupLabel ((?b - 1) mod g)) ((?b - 1) div g + 1)"
      using h(1) a(1) le unfolding seeded_leaves_simps(2)[OF lt(1)] seeded_leaves_simps(2)[OF lt(2)]
      by (simp_all only: length_qualifier_order nth_qualifier_order if_True leaf.simps)
    moreover have "(?a - 1) mod g \<noteq> (?b - 1) mod g"
      using even_groups_differ[OF assms(3) _ j le] assms(1) by linarith
    ultimately show ?thesis by (simp only: same_group_pairing_def prod.case SlotRef.case groupLabel_inject) simp
  qed
  have "filter (\<lambda>m. pm_roundNumber m = last_group_round ?ms + 1 \<and> same_group_pairing m) (knockout_phase ?ms) = []"
    using no P(5) by (auto simp: ph last_group_round_def filter_empty_conv)
  with P(1) show ?thesis by blast
qed

theorem even_groups_no_rematch_witness:
  "\<exists>ms ws. buildGroupKnockout (map (\<lambda>i. \<lparr>p_id = [i], p_seedNumber = None, p_registeredAt = 0\<rparr>) ''abcdefgh'') 4 2 =
      Some (ms, ws) \<and>
    filter (\<lambda>m. pm_roundNumber m = last_group_round ms + 1 \<and> same_group_pairing m) (knockout_phase ms) = []"
  by (rule even_groups_no_rematch) simp_all

end
