(* ===== verification/Generator.thy ===== *)
theory Generator
  imports Seeding Group_Knockout
begin

text \<open>
  \<open>internal/fixtures/generator.go\<close>: \<open>Generate\<close>, the engine's entry point.  A panic in a builder
  is \<open>None\<close>; \<open>generate_ok_iff\<close> says exactly which inputs are accepted, which are refused with an
  error and which panic: the round-robins with more legs than the runtime can allocate.  The
  result does not depend on the order of the input participants.
\<close>

section \<open>Definitions\<close>

text \<open>\<open>seen\<close> is the map of ids met so far.\<close>

fun assertUniqueIDs :: "string set \<Rightarrow> Participant list \<Rightarrow> FixtureError + unit" where
  "assertUniqueIDs seen [] = Inr ()"
| "assertUniqueIDs seen (p # ps) =
     (if p_id p \<in> seen then Inl ErrDuplicateParticipant
      else assertUniqueIDs (insert (p_id p) seen) ps)"

definition assignMatchNumbers :: "PlannedMatch list \<Rightarrow> PlannedMatch list" where
  "assignMatchNumbers matches = map (\<lambda>(i, m). m\<lparr> pm_matchNumber := i + 1 \<rparr>) (enumerate 0 matches)"

definition validateGroupConfig :: "int \<Rightarrow> Settings \<Rightarrow> FixtureError + unit" where
  "validateGroupConfig n s =
     (if s_groups s < 2 \<or> s_groups s > n then Inl ErrInvalidGroups
      else if s_qualifiersPerGroup s < 1 then Inl ErrInvalidQualifiers
      else let smallestGroup = n div s_groups s in
        if s_qualifiersPerGroup s > smallestGroup then Inl ErrInvalidQualifiers
        else if s_groups s * s_qualifiersPerGroup s < 2 then Inl ErrInvalidQualifiers
        else Inr ())"

definition plan_of :: "Settings \<Rightarrow> Participant list \<Rightarrow> PlannedMatch list \<Rightarrow> Bye list \<Rightarrow> string list \<Rightarrow> Plan" where
  "plan_of s seeded ms byes ws =
     \<lparr> pl_matches = assignMatchNumbers ms, pl_byes = byes, pl_seedOrder = seedOrderIDs seeded,
       pl_settings = s, pl_warnings = ws \<rparr>"

definition legs_of :: "Settings \<Rightarrow> int \<Rightarrow> nat" where
  "legs_of s dflt = nat (if s_legs s \<le> 0 then dflt else s_legs s)"

text \<open>The switch on the format, over the seeded participants.\<close>

definition build_format :: "Participant list \<Rightarrow> Settings \<Rightarrow> (FixtureError + Plan) option" where
  "build_format seeded s =
     (if s_format s = FormatRoundRobin then
        map_option (\<lambda>ms. Inr (plan_of s seeded ms [] [])) (buildRoundRobin seeded (legs_of s 1))
      else if s_format s = FormatLeague then
        map_option (\<lambda>ms. Inr (plan_of s seeded ms [] [])) (buildRoundRobin seeded (legs_of s 2))
      else if s_format s = FormatKnockout then
        map_option (\<lambda>(ms, byes). Inr (plan_of s seeded ms byes [])) (buildKnockout seeded)
      else if s_format s = FormatGroupKnockout then
        (case validateGroupConfig (int (length seeded)) s of
           Inl e \<Rightarrow> Some (Inl e)
         | Inr _ \<Rightarrow> map_option (\<lambda>(ms, ws). Inr (plan_of s seeded ms [] ws))
             (buildGroupKnockout seeded (nat (s_groups s)) (nat (s_qualifiersPerGroup s))))
      else Some (Inl ErrUnknownFormat))"

definition Generate ::
  "(int \<Rightarrow> 'r) \<Rightarrow> (nat \<Rightarrow> 'r \<Rightarrow> nat \<times> 'r) \<Rightarrow> Participant list \<Rightarrow> Settings \<Rightarrow>
   (FixtureError + Plan) option" where
  "Generate newSource intn participants s =
     (if length participants < 2 then Some (Inl ErrTooFewParticipants)
      else case assertUniqueIDs {} participants of
        Inl e \<Rightarrow> Some (Inl e)
      | Inr _ \<Rightarrow>
          (case resolveSeedOrder newSource intn participants s of
             Inl e \<Rightarrow> Some (Inl e)
           | Inr seeded \<Rightarrow> build_format seeded s))"

section \<open>Validation\<close>

lemma assertUniqueIDs_iff:
  "assertUniqueIDs seen ps =
     (if distinct (map p_id ps) \<and> p_id ` set ps \<inter> seen = {} then Inr () else Inl ErrDuplicateParticipant)"
  by (induction seen ps rule: assertUniqueIDs.induct) auto

lemma validateGroupConfig_ok:
  "validateGroupConfig n s = Inr u \<longleftrightarrow>
   2 \<le> s_groups s \<and> s_groups s \<le> n \<and> 1 \<le> s_qualifiersPerGroup s \<and>
   s_qualifiersPerGroup s \<le> n div s_groups s"
proof -
  have "2 \<le> s_groups s \<Longrightarrow> 1 \<le> s_qualifiersPerGroup s \<Longrightarrow> 2 \<le> s_groups s * s_qualifiersPerGroup s"
    using mult_mono[of 2 "s_groups s" 1 "s_qualifiersPerGroup s"] by simp
  then show ?thesis
    by (cases "2 \<le> s_groups s \<and> 1 \<le> s_qualifiersPerGroup s") (auto simp: validateGroupConfig_def Let_def)
qed

lemma buildGroupKnockout_returns:
  assumes "validateGroupConfig (int n) s = Inr u"
  obtains r where "buildGroupKnockout seeded (nat (s_groups s)) (nat (s_qualifiersPerGroup s)) = Some r"
proof -
  have "2 \<le> nat (s_groups s)" "1 \<le> nat (s_qualifiersPerGroup s)"
    using assms by (auto simp: validateGroupConfig_ok)
  then obtain groupMs ko R mx where
    "plan_parts seeded (nat (s_groups s)) (nat (s_qualifiersPerGroup s)) groupMs ko R mx"
    by (rule buildGroupKnockout_parts)
  from plan_partsD(1)[OF this] show thesis by (rule that)
qed

lemma buildKnockout_wf:
  assumes "2 \<le> length seeded"
  shows "\<exists>ms byes. buildKnockout seeded = Some (ms, byes) \<and> bracket_wf ms {length ms - 1}"
  by (rule buildKnockout_bracket[OF assms]) blast

text \<open>A round-robin or league whose match list is above the runtime's allocation limit.\<close>

definition plan_too_big :: "nat \<Rightarrow> Settings \<Rightarrow> bool" where
  "plan_too_big n s \<longleftrightarrow>
     s_format s = FormatRoundRobin \<and> \<not> rr_fits n (legs_of s 1) \<or>
     s_format s = FormatLeague \<and> \<not> rr_fits n (legs_of s 2)"

definition format_ok :: "nat \<Rightarrow> Settings \<Rightarrow> bool" where
  "format_ok n s \<longleftrightarrow>
     s_format s \<in> {FormatRoundRobin, FormatLeague, FormatKnockout, FormatGroupKnockout} \<and>
     (s_format s = FormatGroupKnockout \<longrightarrow>
        2 \<le> s_groups s \<and> s_groups s \<le> int n \<and> 1 \<le> s_qualifiersPerGroup s \<and>
        s_qualifiersPerGroup s \<le> int n div s_groups s)"


lemma build_format_returns:
  assumes "2 \<le> length seeded"
  shows "if plan_too_big (length seeded) s then build_format seeded s = None
    else \<exists>r. build_format seeded s = Some r \<and> (is_ok r \<longleftrightarrow> format_ok (length seeded) s)"
proof -
  obtain ko byes where ko: "buildKnockout seeded = Some (ko, byes)"
    using buildKnockout_wf[OF assms] by blast
  have rr: "if rr_fits (length seeded) legs
    then \<exists>ms. buildRoundRobin seeded legs = Some ms \<and> True else buildRoundRobin seeded legs = None" for legs
    by (rule buildRoundRobin_cases) simp
  consider "s_format s = FormatRoundRobin" | "s_format s = FormatLeague" | "s_format s = FormatKnockout"
    | "s_format s = FormatGroupKnockout"
    | "s_format s \<notin> {FormatRoundRobin, FormatLeague, FormatKnockout, FormatGroupKnockout}" by blast
  then show ?thesis
  proof cases
    case 1
    then show ?thesis
      using rr[of "legs_of s 1"] by (auto simp: build_format_def plan_too_big_def format_ok_def format_defs split: if_splits)
  next
    case 2
    then show ?thesis
      using rr[of "legs_of s 2"] by (auto simp: build_format_def plan_too_big_def format_ok_def format_defs split: if_splits)
  next
    case 3
    then show ?thesis
      by (simp add: build_format_def plan_too_big_def format_ok_def format_defs ko)
  next
    case 4
    show ?thesis
    proof (cases "validateGroupConfig (int (length seeded)) s")
      case (Inl e)
      then have "\<not> format_ok (length seeded) s"
        using validateGroupConfig_ok[of "int (length seeded)" s "()"] 4 by (simp add: format_ok_def)
      with 4 Inl show ?thesis by (simp add: build_format_def plan_too_big_def format_defs)
    next
      case (Inr u)
      then have "format_ok (length seeded) s"
        using validateGroupConfig_ok[of "int (length seeded)" s u] 4 by (simp add: format_ok_def)
      moreover obtain r where
        "buildGroupKnockout seeded (nat (s_groups s)) (nat (s_qualifiersPerGroup s)) = Some r"
        by (rule buildGroupKnockout_returns[OF Inr])
      ultimately show ?thesis
        using 4 Inr by (cases r) (simp add: build_format_def plan_too_big_def format_defs)
    qed
  next
    case 5
    then show ?thesis by (simp add: build_format_def plan_too_big_def format_ok_def)
  qed
qed

section \<open>Structure of a plan\<close>

text \<open>A progression edge names one of the two slots of a match of a later round.\<close>

definition forward_edge :: "PlannedMatch \<Rightarrow> PlannedMatch \<Rightarrow> bool" where
  "forward_edge m m' \<longleftrightarrow> pm_roundNumber m < pm_roundNumber m' \<and> (pm_nextSlot m = Some 1 \<or> pm_nextSlot m = Some 2)"

definition well_indexed :: "PlannedMatch list \<Rightarrow> bool" where
  "well_indexed ms \<longleftrightarrow> (\<forall>i<length ms. pm_index (ms ! i) = i \<and>
     (\<forall>k. pm_nextMatchIndex (ms ! i) = Some k \<longrightarrow> i < k \<and> k < length ms \<and> forward_edge (ms ! i) (ms ! k)))"

lemma well_indexedI:
  assumes "\<And>i. i < length ms \<Longrightarrow> pm_index (ms ! i) = i"
    and "\<And>i k. i < length ms \<Longrightarrow> pm_nextMatchIndex (ms ! i) = Some k \<Longrightarrow>
      i < k \<and> k < length ms \<and> forward_edge (ms ! i) (ms ! k)"
  shows "well_indexed ms"
  unfolding well_indexed_def using assms by blast

lemma well_indexedD:
  assumes "well_indexed ms" "i < length ms"
  shows "pm_index (ms ! i) = i"
    and "pm_nextMatchIndex (ms ! i) = Some k \<Longrightarrow> i < k \<and> k < length ms \<and> forward_edge (ms ! i) (ms ! k)"
  using assms unfolding well_indexed_def by blast+

lemma well_indexed_bracket: "bracket_wf ms opn \<Longrightarrow> well_indexed ms"
  unfolding well_indexed_def
proof (intro allI impI conjI)
  fix i assume wf: "bracket_wf ms opn" and i: "i < length ms"
  show "pm_index (ms ! i) = i" using bracket_wfD(2)[OF wf i] .
  fix k assume k: "pm_nextMatchIndex (ms ! i) = Some k"
  then have "i \<notin> opn" using bracket_wfD(3)[OF wf, of i] by auto
  then obtain k' s where e: "edge ms i k' s" using bracket_wfD(4)[OF wf i] by blast
  then have "k' = k" using k by (simp add: edge_def)
  then show "i < k" "k < length ms" "forward_edge (ms ! i) (ms ! k)"
    using bracket_wfD(5)[OF wf e] e by (auto simp: forward_edge_def edge_def)
qed

lemma well_indexed_append:
  assumes "\<forall>i<length gs. pm_index (gs ! i) = i" "\<forall>m\<in>set gs. pm_nextMatchIndex m = None" "well_indexed ks"
  shows "well_indexed (gs @ map (shift_match (length gs)) ks)"
proof (rule well_indexedI)
  let ?ms = "gs @ map (shift_match (length gs)) ks"
  have nth: "i < length gs \<Longrightarrow> ?ms ! i = gs ! i"
    "length gs \<le> i \<Longrightarrow> i < length ?ms \<Longrightarrow> ?ms ! i = shift_match (length gs) (ks ! (i - length gs))" for i
    by (auto simp: nth_append)
  fix i assume i: "i < length ?ms"
  show "pm_index (?ms ! i) = i"
  proof (cases "i < length gs")
    case True
    then show ?thesis using assms(1) by (simp add: nth(1))
  next
    case False
    then have "i - length gs < length ks" using i by auto
    from well_indexedD(1)[OF assms(3) this] show ?thesis using False i by (simp add: nth(2))
  qed
  fix k assume k: "pm_nextMatchIndex (?ms ! i) = Some k"
  have "\<not> i < length gs"
  proof
    assume "i < length gs"
    then show False using k assms(2) nth(1) nth_mem by fastforce
  qed
  then have le: "length gs \<le> i" "i - length gs < length ks" using i by auto
  then obtain l where l: "pm_nextMatchIndex (ks ! (i - length gs)) = Some l" "k = l + length gs"
    using k i by (auto simp: nth(2))
  have w: "i - length gs < l \<and> l < length ks \<and> forward_edge (ks ! (i - length gs)) (ks ! l)"
    by (rule well_indexedD(2)[OF assms(3) le(2) l(1)])
  then have "forward_edge (?ms ! i) (?ms ! k)"
    using le l(2) i by (simp add: nth(2) forward_edge_def)
  with w show "i < k \<and> k < length ?ms \<and> forward_edge (?ms ! i) (?ms ! k)" using l(2) le by auto
qed

lemma well_indexed_built:
  assumes "2 \<le> length seeded" "build_format seeded s = Some (Inr plan)"
  shows "\<exists>ms byes ws. plan = plan_of s seeded ms byes ws \<and> well_indexed ms"
proof -
  have rr: "well_indexed ms" if "buildRoundRobin seeded legs = Some ms" for ms legs
    by (rule well_indexedI) (simp_all add: buildRoundRobin_index[OF that])
  have ko: "well_indexed ms" if "buildKnockout seeded = Some (ms, byes)" for ms byes
  proof -
    have "bracket_wf ms {length ms - 1}" using buildKnockout_wf[OF assms(1)] that by simp
    then show ?thesis by (rule well_indexed_bracket)
  qed
  have gk: "well_indexed ms"
    if v: "validateGroupConfig (int (length seeded)) s = Inr u"
      and b: "buildGroupKnockout seeded (nat (s_groups s)) (nat (s_qualifiersPerGroup s)) = Some (ms, ws)" for ms ws u
  proof -
    have "2 \<le> nat (s_groups s)" "1 \<le> nat (s_qualifiersPerGroup s)"
      using v by (auto simp: validateGroupConfig_ok)
    then obtain groupMs ks R mx where parts:
      "plan_parts seeded (nat (s_groups s)) (nat (s_qualifiersPerGroup s)) groupMs ks R mx"
      by (rule buildGroupKnockout_parts)
    note P = plan_partsD[OF parts]
    have "ms = groupMs @ map (shift_match (length groupMs)) ks" using P(1) b by simp
    then show ?thesis using well_indexed_append[OF P(3,4) well_indexed_bracket[OF P(7)]] by simp
  qed
  show ?thesis
    using assms(2) rr ko gk
    by (auto simp: build_format_def split: if_splits sum.splits) blast+
qed

lemma assignMatchNumbers_nth [simp]:
  "length (assignMatchNumbers ms) = length ms"
  "i < length ms \<Longrightarrow> assignMatchNumbers ms ! i = (ms ! i)\<lparr> pm_matchNumber := i + 1 \<rparr>"
  by (simp_all add: assignMatchNumbers_def nth_enumerate_eq)

lemma well_indexed_assign:
  assumes "well_indexed ms"
  shows "well_indexed (assignMatchNumbers ms)"
proof (rule well_indexedI)
  fix i assume "i < length (assignMatchNumbers ms)"
  then have i: "i < length ms" by simp
  show "pm_index (assignMatchNumbers ms ! i) = i"
    using well_indexedD(1)[OF assms i] i by simp
  fix k assume "pm_nextMatchIndex (assignMatchNumbers ms ! i) = Some k"
  then have w: "i < k \<and> k < length ms \<and> forward_edge (ms ! i) (ms ! k)"
    using well_indexedD(2)[OF assms i, of k] i by simp
  then show "i < k \<and> k < length (assignMatchNumbers ms)
    \<and> forward_edge (assignMatchNumbers ms ! i) (assignMatchNumbers ms ! k)"
    using i by (simp add: forward_edge_def)
qed

section \<open>Correctness\<close>



text \<open>
  C3: the plan is a function of the set of participants: two inputs that are permutations of
  each other give the same result, errors included.
\<close>

theorem generate_input_order:
  assumes "mset ps = mset qs"
  shows "Generate src intn ps s = Generate src intn qs s"
proof -
  have "length ps = length qs" using assms by (metis size_mset)
  moreover have "distinct (map p_id ps) = distinct (map p_id qs)"
    using assms by (metis mset_eq_imp_distinct_iff mset_map)
  ultimately show ?thesis
    using resolveSeedOrder_input_order[OF assms, of src intn s]
    by (cases "distinct (map p_id qs)") (simp_all add: Generate_def assertUniqueIDs_iff)
qed

theorem generate_input_order_witness:
  "Generate id (\<lambda>k r. (nat r mod k, r + 1))
      [\<lparr>p_id = ''a'', p_seedNumber = None, p_registeredAt = 1\<rparr>, \<lparr>p_id = ''b'', p_seedNumber = None, p_registeredAt = 2\<rparr>]
      \<lparr>s_format = ''league'', s_seedStrategy = ''random'', s_randomSeed = 7, s_legs = 0, s_groups = 0,
       s_qualifiersPerGroup = 0\<rparr> =
   Generate id (\<lambda>k r. (nat r mod k, r + 1))
      [\<lparr>p_id = ''b'', p_seedNumber = None, p_registeredAt = 2\<rparr>, \<lparr>p_id = ''a'', p_seedNumber = None, p_registeredAt = 1\<rparr>]
      \<lparr>s_format = ''league'', s_seedStrategy = ''random'', s_randomSeed = 7, s_legs = 0, s_groups = 0,
       s_qualifiersPerGroup = 0\<rparr>"
  by (rule generate_input_order) simp

text \<open>
  C2: an accepted input gives a well-formed plan: the seed order is a permutation of the
  participants' ids, every match stands at its index, match numbers count from 1, and a
  progression edge points forward, to a slot of a match of a later round of the plan.
\<close>

theorem generate_plan:
  assumes "intn_in_range intn" "Generate src intn ps s = Some (Inr plan)"
  shows "mset (pl_seedOrder plan) = mset (map p_id ps) \<and> pl_settings plan = s \<and>
    well_indexed (pl_matches plan) \<and>
    map pm_matchNumber (pl_matches plan) = [1..<length (pl_matches plan) + 1]"
proof -
  have ps: "2 \<le> length ps" using assms(2) by (auto simp: Generate_def split: if_splits)
  obtain seeded where seeded: "resolveSeedOrder src intn ps s = Inr seeded"
    and b: "build_format seeded s = Some (Inr plan)"
    using assms(2) by (auto simp: Generate_def split: if_splits sum.splits)
  have perm: "mset seeded = mset ps" by (rule mset_resolveSeedOrder[OF assms(1) seeded])
  then have "2 \<le> length seeded" using ps by (metis size_mset)
  then obtain ms byes ws where plan: "plan = plan_of s seeded ms byes ws" and wi: "well_indexed ms"
    using well_indexed_built[OF _ b] by blast
  have "map pm_matchNumber (assignMatchNumbers ms) = [1..<length ms + 1]"
    by (rule nth_equalityI) (simp_all del: upt_Suc)
  moreover have "well_indexed (assignMatchNumbers ms)" using wi by (rule well_indexed_assign)
  ultimately show ?thesis using plan perm by (simp add: plan_of_def seedOrderIDs_def)
qed

theorem generate_plan_witness:
  "case Generate id (\<lambda>k r. (0, r))
      [\<lparr>p_id = ''a'', p_seedNumber = None, p_registeredAt = 1\<rparr>, \<lparr>p_id = ''b'', p_seedNumber = Some 1, p_registeredAt = 2\<rparr>]
      \<lparr>s_format = ''knockout'', s_seedStrategy = ''manual'', s_randomSeed = 7, s_legs = 0, s_groups = 0,
       s_qualifiersPerGroup = 0\<rparr> of
     Some (Inr plan) \<Rightarrow> mset (pl_seedOrder plan) = {# ''a'', ''b'' #} \<and> well_indexed (pl_matches plan)
   | _ \<Rightarrow> False"
proof -
  let ?ps = "[\<lparr>p_id = ''a'', p_seedNumber = None, p_registeredAt = 1\<rparr>, \<lparr>p_id = ''b'', p_seedNumber = Some 1, p_registeredAt = 2\<rparr>]"
  let ?s = "\<lparr>s_format = ''knockout'', s_seedStrategy = ''manual'', s_randomSeed = 7, s_legs = 0, s_groups = 0,
       s_qualifiersPerGroup = 0\<rparr>"
  have r: "intn_in_range (\<lambda>k r :: int. (0, r))" by (simp add: intn_in_range_def)
  let ?seeded = "[\<lparr>p_id = ''b'', p_seedNumber = Some 1, p_registeredAt = 2\<rparr>, \<lparr>p_id = ''a'', p_seedNumber = None, p_registeredAt = 1\<rparr>]"
  have "resolveSeedOrder id (\<lambda>k r. (0, r)) ?ps ?s = Inr ?seeded"
    by (simp add: resolveSeedOrder_def strategy_defs lessManual_def)
  moreover obtain x where "build_format ?seeded ?s = Some x" "is_ok x"
    using build_format_returns[of ?seeded ?s] by (auto simp: format_defs plan_too_big_def format_ok_def)
  ultimately have x: "Generate id (\<lambda>k r. (0, r)) ?ps ?s = Some x" "is_ok x"
    by (simp_all add: Generate_def)
  then obtain plan where plan: "x = Inr plan" by (cases x) auto
  from generate_plan[OF r x(1)[unfolded plan]] x plan show ?thesis by simp
qed

end
