(* ===== verification/Standings.thy ===== *)
theory Standings
  imports Go_Sort "HOL-Library.Product_Lexorder"
begin

text \<open>
  Package \<open>standings\<close>: the table of a tournament computed from its finished matches and its
  registrations.  The accumulator map of the code is a HOL map updated in the same order (a match
  of a participant against itself updates the same row twice); \<open>range\<close> over a Go map visits the
  keys in an unspecified order, which is the parameter \<open>iter\<close> (and \<open>iterG\<close> for the map of tied
  groups): a permutation of the list of keys.
\<close>

section \<open>Data (models.go)\<close>

record CompletedMatch =
  cm_HomeParticipantID :: string
  cm_AwayParticipantID :: string
  cm_HomeScore :: int
  cm_AwayScore :: int
  cm_WinnerID :: string
  cm_IsWalkover :: bool

record RegistrationInfo =
  ri_ParticipantID :: string
  ri_SeedNumber :: "int option"
  ri_RegisteredAt :: int
  ri_Disqualified :: bool

record StandingsSettings =
  ss_WinPoints :: int
  ss_DrawPoints :: int
  ss_LossPoints :: int
  ss_CloseMargin :: int
  ss_CloseLossPoints :: int

definition DefaultSettings :: StandingsSettings where
  "DefaultSettings = \<lparr>ss_WinPoints = 3, ss_DrawPoints = 1, ss_LossPoints = 0,
     ss_CloseMargin = 0, ss_CloseLossPoints = 0\<rparr>"

record StandingsRow =
  st_ParticipantID :: string
  st_Position :: nat
  st_Played :: nat
  st_Wins :: nat
  st_Losses :: nat
  st_Draws :: nat
  st_Points :: int
  st_ScoreFor :: int
  st_ScoreAgainst :: int
  st_ScoreDifference :: int
  st_SeedNumber :: "int option"
  st_RegisteredAt :: int
  st_Disqualified :: bool

section \<open>Accumulation (engine.go)\<close>

type_synonym accum = "string \<Rightarrow> StandingsRow option"

definition new_row :: "RegistrationInfo \<Rightarrow> StandingsRow" where
  "new_row reg = \<lparr>st_ParticipantID = ri_ParticipantID reg, st_Position = 0, st_Played = 0,
     st_Wins = 0, st_Losses = 0, st_Draws = 0, st_Points = 0, st_ScoreFor = 0, st_ScoreAgainst = 0,
     st_ScoreDifference = 0, st_SeedNumber = ri_SeedNumber reg,
     st_RegisteredAt = ri_RegisteredAt reg, st_Disqualified = ri_Disqualified reg\<rparr>"

definition init_accum :: "RegistrationInfo list \<Rightarrow> accum" where
  "init_accum regs = fold (\<lambda>reg acc. acc(ri_ParticipantID reg \<mapsto> new_row reg)) regs Map.empty"

definition closeLossPoints :: "StandingsSettings \<Rightarrow> int \<Rightarrow> bool \<Rightarrow> int" where
  "closeLossPoints s margin isWalkover =
     (if \<not> isWalkover \<and> ss_CloseMargin s > 0 \<and> margin \<le> ss_CloseMargin s
      then ss_CloseLossPoints s else ss_LossPoints s)"

definition margin_of :: "CompletedMatch \<Rightarrow> int" where
  "margin_of m = (let d = int64 (cm_HomeScore m - cm_AwayScore m) in if d < 0 then int64 (- d) else d)"

text \<open>\<open>accum[k]\<close> is a pointer: an assignment through it changes the row the map holds.\<close>

definition modify :: "string \<Rightarrow> ('r \<Rightarrow> 'r) \<Rightarrow> (string \<Rightarrow> 'r option) \<Rightarrow> (string \<Rightarrow> 'r option)" where
  "modify k f acc = (case acc k of None \<Rightarrow> acc | Some r \<Rightarrow> acc(k \<mapsto> f r))"

definition add_played :: "StandingsRow \<Rightarrow> StandingsRow" where
  "add_played r = r\<lparr>st_Played := st_Played r + 1\<rparr>"

definition add_scores :: "int \<Rightarrow> int \<Rightarrow> StandingsRow \<Rightarrow> StandingsRow" where
  "add_scores sf sa r = r\<lparr>st_ScoreFor := int64 (st_ScoreFor r + sf),
     st_ScoreAgainst := int64 (st_ScoreAgainst r + sa)\<rparr>"

definition add_win :: "int \<Rightarrow> StandingsRow \<Rightarrow> StandingsRow" where
  "add_win p r = r\<lparr>st_Wins := st_Wins r + 1, st_Points := int64 (st_Points r + p)\<rparr>"

definition add_loss :: "int \<Rightarrow> StandingsRow \<Rightarrow> StandingsRow" where
  "add_loss p r = r\<lparr>st_Losses := st_Losses r + 1, st_Points := int64 (st_Points r + p)\<rparr>"

definition add_draw :: "int \<Rightarrow> StandingsRow \<Rightarrow> StandingsRow" where
  "add_draw p r = r\<lparr>st_Draws := st_Draws r + 1, st_Points := int64 (st_Points r + p)\<rparr>"

definition apply_match :: "StandingsSettings \<Rightarrow> CompletedMatch \<Rightarrow> accum \<Rightarrow> accum" where
  "apply_match s m acc =
     (let h = cm_HomeParticipantID m; a = cm_AwayParticipantID m in
      if acc h = None \<or> acc a = None then acc
      else
        let acc = modify a add_played (modify h add_played acc);
            acc = modify h (add_scores (cm_HomeScore m) (cm_AwayScore m)) acc;
            acc = modify a (add_scores (cm_AwayScore m) (cm_HomeScore m)) acc;
            margin = margin_of m;
            loss = closeLossPoints s margin (cm_IsWalkover m)
        in if cm_WinnerID m = [] then
             modify a (add_draw (ss_DrawPoints s)) (modify h (add_draw (ss_DrawPoints s)) acc)
           else if cm_WinnerID m = h then
             modify a (add_loss loss) (modify h (add_win (ss_WinPoints s)) acc)
           else
             modify h (add_loss loss) (modify a (add_win (ss_WinPoints s)) acc))"

definition accumulate :: "CompletedMatch list \<Rightarrow> RegistrationInfo list \<Rightarrow> StandingsSettings \<Rightarrow> accum" where
  "accumulate ms regs s = fold (apply_match s) ms (init_accum regs)"

definition accum_keys :: "RegistrationInfo list \<Rightarrow> string list" where
  "accum_keys regs = remdups (map ri_ParticipantID regs)"

definition set_difference :: "StandingsRow \<Rightarrow> StandingsRow" where
  "set_difference r = r\<lparr>st_ScoreDifference := int64 (st_ScoreFor r - st_ScoreAgainst r)\<rparr>"

definition collect_rows :: "string list \<Rightarrow> accum \<Rightarrow> StandingsRow list" where
  "collect_rows keys acc =
     map set_difference
       (filter (\<lambda>r. \<not> (st_Disqualified r \<and> st_Played r = 0)) (map (\<lambda>k. the (acc k)) keys))"

section \<open>Tie-breakers (tiebreakers.go)\<close>

record h2hStats =
  hs_id :: string
  hs_points :: int
  hs_scoreDiff :: int
  hs_scoreFor :: int

definition h2h_points :: "int \<Rightarrow> h2hStats \<Rightarrow> h2hStats" where
  "h2h_points p r = r\<lparr>hs_points := int64 (hs_points r + p)\<rparr>"

definition h2h_match :: "StandingsSettings \<Rightarrow> string list \<Rightarrow> CompletedMatch
    \<Rightarrow> (string \<Rightarrow> h2hStats option) \<Rightarrow> (string \<Rightarrow> h2hStats option)" where
  "h2h_match s grp m stats =
     (let h = cm_HomeParticipantID m; a = cm_AwayParticipantID m;
          hsc = cm_HomeScore m; asc = cm_AwayScore m in
      if h \<notin> set grp \<or> a \<notin> set grp then stats
      else
        let stats = modify h (\<lambda>r. r\<lparr>hs_scoreFor := int64 (hs_scoreFor r + hsc)\<rparr>) stats;
            stats = modify a (\<lambda>r. r\<lparr>hs_scoreFor := int64 (hs_scoreFor r + asc)\<rparr>) stats;
            stats = modify h (\<lambda>r. r\<lparr>hs_scoreDiff := int64 (hs_scoreDiff r + (hsc - asc))\<rparr>) stats;
            stats = modify a (\<lambda>r. r\<lparr>hs_scoreDiff := int64 (hs_scoreDiff r + (asc - hsc))\<rparr>) stats;
            loss = closeLossPoints s (margin_of m) (cm_IsWalkover m)
        in if cm_WinnerID m = h then modify a (h2h_points loss) (modify h (h2h_points (ss_WinPoints s)) stats)
           else if cm_WinnerID m = a then modify h (h2h_points loss) (modify a (h2h_points (ss_WinPoints s)) stats)
           else modify a (h2h_points (ss_DrawPoints s)) (modify h (h2h_points (ss_DrawPoints s)) stats))"

definition h2h_stats :: "StandingsSettings \<Rightarrow> CompletedMatch list \<Rightarrow> string list \<Rightarrow> (string \<Rightarrow> h2hStats option)" where
  "h2h_stats s ms grp = fold (h2h_match s grp) ms
     (fold (\<lambda>pid st. st(pid \<mapsto> \<lparr>hs_id = pid, hs_points = 0, hs_scoreDiff = 0, hs_scoreFor = 0\<rparr>))
        grp Map.empty)"

definition h2h_less :: "h2hStats \<Rightarrow> h2hStats \<Rightarrow> bool" where
  "h2h_less a b =
     (if hs_points a \<noteq> hs_points b then hs_points a > hs_points b
      else if hs_scoreDiff a \<noteq> hs_scoreDiff b then hs_scoreDiff a > hs_scoreDiff b
      else hs_scoreFor a > hs_scoreFor b)"

definition h2h_same :: "h2hStats \<Rightarrow> h2hStats \<Rightarrow> bool" where
  "h2h_same a b \<longleftrightarrow> hs_points a = hs_points b \<and> hs_scoreDiff a = hs_scoreDiff b
     \<and> hs_scoreFor a = hs_scoreFor b"

text \<open>The loop over the sorted sub-table; \<open>i\<close> is the index, \<open>prev\<close> is \<open>sorted[i-1]\<close>.\<close>

fun assign_ranks :: "('a \<Rightarrow> 'a \<Rightarrow> bool) \<Rightarrow> nat \<Rightarrow> 'a \<Rightarrow> nat \<Rightarrow> 'a list \<Rightarrow> ('a \<times> nat) list" where
  "assign_ranks same i prev rank [] = []"
| "assign_ranks same i prev rank (x # xs) =
     (let rank' = (if i > 0 \<and> \<not> same x prev then i + 1 else rank)
      in (x, rank') # assign_ranks same (i + 1) x rank' xs)"

definition rank_group :: "StandingsSettings \<Rightarrow> CompletedMatch list \<Rightarrow> string list
    \<Rightarrow> (string \<Rightarrow> nat option) \<Rightarrow> (string \<Rightarrow> nat option)" where
  "rank_group s ms grp out =
     (if length grp = 1 then out(hd grp \<mapsto> 1)
      else
        let stats = h2h_stats s ms grp;
            sorted = slice_stable h2h_less (map (\<lambda>pid. the (stats pid)) grp)
        in fold (\<lambda>(st, rank) out. out(hs_id st \<mapsto> rank)) (assign_ranks h2h_same 0 (hd sorted) 1 sorted) out)"

definition points_group :: "StandingsRow list \<Rightarrow> int \<Rightarrow> string list" where
  "points_group rows pts = map st_ParticipantID (filter (\<lambda>r. st_Points r = pts) rows)"

definition buildH2HRanks :: "(int list \<Rightarrow> int list) \<Rightarrow> StandingsRow list \<Rightarrow> CompletedMatch list
    \<Rightarrow> StandingsSettings \<Rightarrow> (string \<Rightarrow> nat option)" where
  "buildH2HRanks iterG rows ms s =
     fold (\<lambda>pts out. rank_group s ms (points_group rows pts) out)
       (iterG (remdups (map st_Points rows))) Map.empty"

definition sign :: "int \<Rightarrow> int" where
  "sign n = (if n < 0 then - 1 else if n > 0 then 1 else 0)"

definition seedCompare :: "int option \<Rightarrow> int option \<Rightarrow> int" where
  "seedCompare a b = (case (a, b) of
       (None, None) \<Rightarrow> 0
     | (None, Some _) \<Rightarrow> 1
     | (Some _, None) \<Rightarrow> - 1
     | (Some x, Some y) \<Rightarrow> sign (x - y))"

text \<open>A missing key of a Go map reads as zero.\<close>

definition rank_of :: "(string \<Rightarrow> nat option) \<Rightarrow> StandingsRow \<Rightarrow> nat" where
  "rank_of ranks r = (case ranks (st_ParticipantID r) of None \<Rightarrow> 0 | Some k \<Rightarrow> k)"

definition row_less :: "(string \<Rightarrow> nat option) \<Rightarrow> StandingsRow \<Rightarrow> StandingsRow \<Rightarrow> bool" where
  "row_less ranks ri rj =
     (if st_Disqualified ri \<noteq> st_Disqualified rj then \<not> st_Disqualified ri
      else if st_Points ri \<noteq> st_Points rj then st_Points ri > st_Points rj
      else if rank_of ranks ri \<noteq> rank_of ranks rj then rank_of ranks ri < rank_of ranks rj
      else if st_ScoreDifference ri \<noteq> st_ScoreDifference rj
        then st_ScoreDifference ri > st_ScoreDifference rj
      else if st_ScoreFor ri \<noteq> st_ScoreFor rj then st_ScoreFor ri > st_ScoreFor rj
      else if st_Wins ri \<noteq> st_Wins rj then st_Wins ri > st_Wins rj
      else if seedCompare (st_SeedNumber ri) (st_SeedNumber rj) \<noteq> 0
        then seedCompare (st_SeedNumber ri) (st_SeedNumber rj) < 0
      else st_RegisteredAt ri < st_RegisteredAt rj)"

definition set_positions :: "StandingsRow list \<Rightarrow> StandingsRow list" where
  "set_positions rows = map (\<lambda>(i, r). r\<lparr>st_Position := i + 1\<rparr>) (enumerate 0 rows)"

definition Standings_Compute :: "(string list \<Rightarrow> string list) \<Rightarrow> (int list \<Rightarrow> int list)
    \<Rightarrow> CompletedMatch list \<Rightarrow> RegistrationInfo list \<Rightarrow> StandingsSettings \<Rightarrow> StandingsRow list" where
  "Standings_Compute iter iterG ms regs s =
     (let rows = collect_rows (iter (accum_keys regs)) (accumulate ms regs s)
      in set_positions (slice_stable (row_less (buildH2HRanks iterG rows ms s)) rows))"

section \<open>Totals\<close>

text \<open>What one match adds to the row of participant \<open>k\<close>.\<close>

definition counted :: "(string \<Rightarrow> 'r option) \<Rightarrow> CompletedMatch \<Rightarrow> bool" where
  "counted acc m \<longleftrightarrow> acc (cm_HomeParticipantID m) \<noteq> None \<and> acc (cm_AwayParticipantID m) \<noteq> None"

definition as_home :: "string \<Rightarrow> CompletedMatch \<Rightarrow> nat" where
  "as_home k m = (if k = cm_HomeParticipantID m then 1 else 0)"

definition as_away :: "string \<Rightarrow> CompletedMatch \<Rightarrow> nat" where
  "as_away k m = (if k = cm_AwayParticipantID m then 1 else 0)"

definition is_draw :: "CompletedMatch \<Rightarrow> bool" where
  "is_draw m \<longleftrightarrow> cm_WinnerID m = []"

definition home_won :: "CompletedMatch \<Rightarrow> bool" where
  "home_won m \<longleftrightarrow> cm_WinnerID m \<noteq> [] \<and> cm_WinnerID m = cm_HomeParticipantID m"

definition wins_in :: "string \<Rightarrow> CompletedMatch \<Rightarrow> nat" where
  "wins_in k m = (if is_draw m then 0 else if home_won m then as_home k m else as_away k m)"

definition losses_in :: "string \<Rightarrow> CompletedMatch \<Rightarrow> nat" where
  "losses_in k m = (if is_draw m then 0 else if home_won m then as_away k m else as_home k m)"

definition draws_in :: "string \<Rightarrow> CompletedMatch \<Rightarrow> nat" where
  "draws_in k m = (if is_draw m then as_home k m + as_away k m else 0)"

definition points_in :: "StandingsSettings \<Rightarrow> string \<Rightarrow> CompletedMatch \<Rightarrow> int" where
  "points_in s k m = int (wins_in k m) * ss_WinPoints s + int (draws_in k m) * ss_DrawPoints s
     + int (losses_in k m) * closeLossPoints s (margin_of m) (cm_IsWalkover m)"

definition for_in :: "string \<Rightarrow> CompletedMatch \<Rightarrow> int" where
  "for_in k m = int (as_home k m) * cm_HomeScore m + int (as_away k m) * cm_AwayScore m"

definition against_in :: "string \<Rightarrow> CompletedMatch \<Rightarrow> int" where
  "against_in k m = int (as_home k m) * cm_AwayScore m + int (as_away k m) * cm_HomeScore m"

lemmas in_defs = as_home_def as_away_def wins_in_def losses_in_def draws_in_def points_in_def
  for_in_def against_in_def is_draw_def home_won_def

definition row_totals :: "StandingsSettings \<Rightarrow> CompletedMatch list \<Rightarrow> StandingsRow \<Rightarrow> StandingsRow" where
  "row_totals s ms r = (let k = st_ParticipantID r in r\<lparr>
     st_Played := sum_list (map (\<lambda>m. as_home k m + as_away k m) ms),
     st_Wins := sum_list (map (wins_in k) ms),
     st_Losses := sum_list (map (losses_in k) ms),
     st_Draws := sum_list (map (draws_in k) ms),
     st_Points := int64 (sum_list (map (points_in s k) ms)),
     st_ScoreFor := int64 (sum_list (map (for_in k) ms)),
     st_ScoreAgainst := int64 (sum_list (map (against_in k) ms))\<rparr>)"

lemma modify_apply: "modify k f acc j = (if j = k then map_option f (acc k) else acc j)"
  by (simp add: modify_def split: option.split)

lemmas row_ops = add_played_def add_scores_def add_win_def add_loss_def add_draw_def

lemma row_totals_snoc:
  assumes "st_ParticipantID r = k"
  shows "row_totals s (ms @ [m]) r = (let t = row_totals s ms r in t\<lparr>
     st_Played := st_Played t + (as_home k m + as_away k m),
     st_Wins := st_Wins t + wins_in k m,
     st_Losses := st_Losses t + losses_in k m,
     st_Draws := st_Draws t + draws_in k m,
     st_Points := int64 (st_Points t + points_in s k m),
     st_ScoreFor := int64 (st_ScoreFor t + for_in k m),
     st_ScoreAgainst := int64 (st_ScoreAgainst t + against_in k m)\<rparr>)"
  using assms by (simp add: row_totals_def Let_def)

lemma row_totals_range [simp]:
  "int64 (st_Points (row_totals s ms r)) = st_Points (row_totals s ms r)"
  "int64 (st_ScoreFor (row_totals s ms r)) = st_ScoreFor (row_totals s ms r)"
  "int64 (st_ScoreAgainst (row_totals s ms r)) = st_ScoreAgainst (row_totals s ms r)"
  by (simp_all add: row_totals_def Let_def)

text \<open>The effect of a counted match on one row, in the order of the code.\<close>

definition only_if :: "bool \<Rightarrow> ('a \<Rightarrow> 'a) \<Rightarrow> 'a \<Rightarrow> 'a" where
  "only_if b f x = (if b then f x else x)"

lemma modify_key: "modify j f acc k = map_option (only_if (k = j) f) (acc k)"
  by (cases "acc k"; cases "k = j") (auto simp: modify_def only_if_def split: option.split)

definition row_step :: "StandingsSettings \<Rightarrow> CompletedMatch \<Rightarrow> bool \<Rightarrow> bool \<Rightarrow> StandingsRow \<Rightarrow> StandingsRow" where
  "row_step s m ish isa r =
     (let loss = closeLossPoints s (margin_of m) (cm_IsWalkover m);
          r = only_if isa add_played (only_if ish add_played r);
          r = only_if ish (add_scores (cm_HomeScore m) (cm_AwayScore m)) r;
          r = only_if isa (add_scores (cm_AwayScore m) (cm_HomeScore m)) r
      in if cm_WinnerID m = [] then
           only_if isa (add_draw (ss_DrawPoints s)) (only_if ish (add_draw (ss_DrawPoints s)) r)
         else if cm_WinnerID m = cm_HomeParticipantID m then
           only_if isa (add_loss loss) (only_if ish (add_win (ss_WinPoints s)) r)
         else only_if ish (add_loss loss) (only_if isa (add_win (ss_WinPoints s)) r))"

lemma apply_match_key:
  assumes "counted acc m"
  shows "apply_match s m acc k =
    map_option (row_step s m (k = cm_HomeParticipantID m) (k = cm_AwayParticipantID m)) (acc k)"
proof -
  obtain x y where "acc (cm_HomeParticipantID m) = Some x" "acc (cm_AwayParticipantID m) = Some y"
    using assms by (auto simp: counted_def)
  then show ?thesis
    by (cases "acc k") (simp_all add: apply_match_def Let_def modify_key row_step_def)
qed

lemma row_step_totals:
  assumes "int64 (st_Points t) = st_Points t" "int64 (st_ScoreFor t) = st_ScoreFor t"
    "int64 (st_ScoreAgainst t) = st_ScoreAgainst t"
  shows "row_step s m (k = cm_HomeParticipantID m) (k = cm_AwayParticipantID m) t = t\<lparr>
     st_Played := st_Played t + (as_home k m + as_away k m),
     st_Wins := st_Wins t + wins_in k m,
     st_Losses := st_Losses t + losses_in k m,
     st_Draws := st_Draws t + draws_in k m,
     st_Points := int64 (st_Points t + points_in s k m),
     st_ScoreFor := int64 (st_ScoreFor t + for_in k m),
     st_ScoreAgainst := int64 (st_ScoreAgainst t + against_in k m)\<rparr>"
proof -
  define ish isa where "ish \<longleftrightarrow> k = cm_HomeParticipantID m" and "isa \<longleftrightarrow> k = cm_AwayParticipantID m"
  have ia: "as_home k m = (if ish then 1 else 0)" "as_away k m = (if isa then 1 else 0)"
    by (simp_all add: ish_def isa_def as_home_def as_away_def)
  show ?thesis
    unfolding ish_def[symmetric] isa_def[symmetric] wins_in_def losses_in_def draws_in_def
      points_in_def for_in_def against_in_def ia is_draw_def home_won_def row_step_def Let_def
    using assms
    by (cases t; cases ish; cases isa; cases "cm_WinnerID m = []";
        cases "cm_WinnerID m = cm_HomeParticipantID m")
      (simp_all add: row_ops only_if_def algebra_simps)
qed

lemma apply_match_row:
  assumes "counted acc m" "acc k = Some (row_totals s ms r)" "st_ParticipantID r = k"
  shows "apply_match s m acc k = Some (row_totals s (ms @ [m]) r)"
  unfolding row_totals_snoc[OF assms(3)] Let_def
  using apply_match_key[OF assms(1), of s k] assms(2) by (simp add: row_step_totals)

lemma apply_match_None [simp]: "apply_match s m acc k = None \<longleftrightarrow> acc k = None"
  by (auto simp: apply_match_def Let_def modify_apply)

lemma counted_apply [simp]: "counted (apply_match s m' acc) m = counted acc m"
  by (simp add: counted_def)

lemma apply_match_not_counted: "\<not> counted acc m \<Longrightarrow> apply_match s m acc = acc"
  by (auto simp: apply_match_def counted_def)

lemma fold_apply_match:
  assumes "acc k = Some (row_totals s pre r)" "st_ParticipantID r = k"
  shows "fold (apply_match s) ms acc k = Some (row_totals s (pre @ filter (counted acc) ms) r)"
  using assms(1)
proof (induction ms arbitrary: acc pre)
  case (Cons m ms)
  show ?case
  proof (cases "counted acc m")
    case True
    from apply_match_row[OF True Cons.prems assms(2)]
    have "apply_match s m acc k = Some (row_totals s (pre @ [m]) r)" .
    from Cons.IH[where acc = "apply_match s m acc" and pre = "pre @ [m]", OF this] True
    show ?thesis by simp
  next
    case False
    with Cons show ?thesis by (simp add: apply_match_not_counted)
  qed
qed simp

lemma fold_apply_None [simp]: "fold (apply_match s) ms acc k = None \<longleftrightarrow> acc k = None"
  by (induction ms arbitrary: acc) simp_all

lemma row_totals_Nil [simp]: "row_totals s [] (new_row reg) = new_row reg"
  by (simp add: row_totals_def new_row_def)

lemma init_accum_Some:
  "init_accum regs k = Some r \<Longrightarrow> \<exists>reg \<in> set regs. ri_ParticipantID reg = k \<and> r = new_row reg"
proof (induction regs rule: rev_induct)
  case (snoc reg regs)
  then show ?case by (auto simp: init_accum_def split: if_splits)
qed (simp add: init_accum_def)

lemma init_accum_None: "init_accum regs k = None \<longleftrightarrow> k \<notin> ri_ParticipantID ` set regs"
  by (induction regs rule: rev_induct) (auto simp: init_accum_def)

lemma init_accum_unique:
  assumes "distinct (map ri_ParticipantID regs)" "reg \<in> set regs"
  shows "init_accum regs (ri_ParticipantID reg) = Some (new_row reg)"
proof -
  obtain r where r: "init_accum regs (ri_ParticipantID reg) = Some r"
    using assms(2) init_accum_None[of regs "ri_ParticipantID reg"] by force
  then obtain reg' where "reg' \<in> set regs" "ri_ParticipantID reg' = ri_ParticipantID reg" "r = new_row reg'"
    using init_accum_Some by blast
  with assms r show ?thesis by (auto simp: distinct_map inj_on_def)
qed

lemma new_row_id [simp]: "st_ParticipantID (new_row reg) = ri_ParticipantID reg"
  by (simp add: new_row_def)

definition registered :: "RegistrationInfo list \<Rightarrow> CompletedMatch \<Rightarrow> bool" where
  "registered regs m \<longleftrightarrow> cm_HomeParticipantID m \<in> ri_ParticipantID ` set regs
     \<and> cm_AwayParticipantID m \<in> ri_ParticipantID ` set regs"

lemma counted_init: "counted (init_accum regs) = registered regs"
  by (rule ext) (simp add: counted_def registered_def init_accum_None)

lemma accumulate_row:
  assumes "distinct (map ri_ParticipantID regs)" "reg \<in> set regs"
  shows "accumulate ms regs s (ri_ParticipantID reg)
    = Some (row_totals s (filter (registered regs) ms) (new_row reg))"
proof -
  have "init_accum regs (ri_ParticipantID reg) = Some (row_totals s [] (new_row reg))"
    using init_accum_unique[OF assms] by simp
  then show ?thesis
    using fold_apply_match[of "init_accum regs" "ri_ParticipantID reg" s "[]" "new_row reg" ms]
    by (simp add: accumulate_def counted_init)
qed

section \<open>The rows\<close>

definition final_row :: "RegistrationInfo list \<Rightarrow> CompletedMatch list \<Rightarrow> StandingsSettings
    \<Rightarrow> RegistrationInfo \<Rightarrow> StandingsRow" where
  "final_row regs ms s reg = set_difference (row_totals s (filter (registered regs) ms) (new_row reg))"

definition plays :: "RegistrationInfo list \<Rightarrow> CompletedMatch list \<Rightarrow> RegistrationInfo \<Rightarrow> bool" where
  "plays regs ms reg \<longleftrightarrow> (\<exists>m \<in> set ms. registered regs m
     \<and> ri_ParticipantID reg \<in> {cm_HomeParticipantID m, cm_AwayParticipantID m})"

definition in_table :: "RegistrationInfo list \<Rightarrow> CompletedMatch list \<Rightarrow> RegistrationInfo \<Rightarrow> bool" where
  "in_table regs ms reg \<longleftrightarrow> \<not> (ri_Disqualified reg \<and> \<not> plays regs ms reg)"

lemma final_row_simps [simp]:
  "st_ParticipantID (final_row regs ms s reg) = ri_ParticipantID reg"
  "st_Disqualified (final_row regs ms s reg) = ri_Disqualified reg"
  "st_SeedNumber (final_row regs ms s reg) = ri_SeedNumber reg"
  "st_RegisteredAt (final_row regs ms s reg) = ri_RegisteredAt reg"
  by (simp_all add: final_row_def set_difference_def row_totals_def Let_def new_row_def)

lemma played_zero:
  "st_Played (row_totals s (filter (registered regs) ms) (new_row reg)) = 0 \<longleftrightarrow> \<not> plays regs ms reg"
  by (auto simp: row_totals_def Let_def plays_def as_home_def as_away_def)

lemma accum_keys_distinct:
  "distinct (map ri_ParticipantID regs) \<Longrightarrow> accum_keys regs = map ri_ParticipantID regs"
  by (simp add: accum_keys_def distinct_remdups_id)

lemma collect_rows_mset_keys:
  "mset ks = mset ks' \<Longrightarrow> mset (collect_rows ks acc) = mset (collect_rows ks' acc)"
  by (simp add: collect_rows_def)

lemma collect_rows_final:
  assumes "distinct (map ri_ParticipantID regs)"
  shows "collect_rows (map ri_ParticipantID regs) (accumulate ms regs s)
    = map (final_row regs ms s) (filter (in_table regs ms) regs)"
proof -
  let ?t = "\<lambda>reg. row_totals s (filter (registered regs) ms) (new_row reg)"
  have "map (\<lambda>k. the (accumulate ms regs s k)) (map ri_ParticipantID regs) = map ?t regs"
    using accumulate_row[OF assms, of _ ms s] by simp
  moreover have "(\<not> (st_Disqualified (?t reg) \<and> st_Played (?t reg) = 0)) = in_table regs ms reg" for reg
    unfolding in_table_def played_zero by (simp add: row_totals_def Let_def new_row_def)
  ultimately show ?thesis
    unfolding collect_rows_def by (simp only: filter_map comp_def map_map) (simp add: final_row_def)
qed

lemma collect_rows_mset:
  assumes "distinct (map ri_ParticipantID regs)" "mset (iter (accum_keys regs)) = mset (accum_keys regs)"
  shows "mset (collect_rows (iter (accum_keys regs)) (accumulate ms regs s))
    = mset (map (final_row regs ms s) (filter (in_table regs ms) regs))"
  using collect_rows_mset_keys[OF assms(2)]
  by (simp add: accum_keys_distinct[OF assms(1)] collect_rows_final[OF assms(1)])

section \<open>Head-to-head ranks\<close>

text \<open>A competition ranking: one more than the number of strictly better elements.\<close>

context strict_weak_order begin

lemma assign_ranks_count:
  assumes "ordered_by lt (pre @ xs)" "pre \<noteq> []"
    and "\<And>x y. x \<in> set (pre @ xs) \<Longrightarrow> y \<in> set (pre @ xs) \<Longrightarrow> same x y = incomparable lt x y"
    and "rank = Suc (length (filter (\<lambda>y. lt y (last pre)) (pre @ xs)))"
  shows "assign_ranks same (length pre) (last pre) rank xs
    = map (\<lambda>x. (x, Suc (length (filter (\<lambda>y. lt y x) (pre @ xs))))) xs"
  using assms
proof (induction xs arbitrary: pre rank)
  case (Cons x xs)
  let ?all = "pre @ x # xs"
  have later: "\<not> lt y x" if "y \<in> set (x # xs)" for y
    using Cons.prems(1) that irrefl by (auto simp: ordered_by_def sorted_wrt_append)
  have lp: "last pre \<in> set pre" using Cons.prems(2) by simp
  have "Suc (length (filter (\<lambda>y. lt y x) ?all))
    = (if same x (last pre) then rank else length pre + 1)"
  proof (cases "same x (last pre)")
    case True
    then have inc: "incomparable lt x (last pre)" using Cons.prems(3) lp by simp
    have "lt y x = lt y (last pre)" for y
      using inc neg_trans unfolding incomparable_def by blast
    with True Cons.prems(4) show ?thesis by simp
  next
    case False
    then have "lt (last pre) x"
      using Cons.prems(1,3) lp by (auto simp: incomparable_def ordered_by_def sorted_wrt_append)
    moreover have "\<not> lt (last pre) y" if "y \<in> set pre" for y
    proof (cases "y = last pre")
      case False
      have "ordered_by lt (butlast pre @ [last pre])"
        using Cons.prems(1,2) by (simp add: ordered_by_def sorted_wrt_append)
      moreover have "y \<in> set (butlast pre)"
        using that False by (metis append_butlast_last_id in_set_butlastD length_greater_0_conv
            length_pos_if_in_set list.set_cases rotate1.simps(2) set_ConsD set_rotate1)
      ultimately show ?thesis by (auto simp: ordered_by_def sorted_wrt_append)
    qed (simp add: irrefl)
    ultimately have "lt y x" if "y \<in> set pre" for y using neg_trans that by blast
    then have "filter (\<lambda>y. lt y x) ?all = pre"
      using later by (auto simp: filter_id_conv filter_empty_conv)
    with False show ?thesis by simp
  qed
  then have R: "(if length pre > 0 \<and> \<not> same x (last pre) then length pre + 1 else rank)
      = Suc (length (filter (\<lambda>y. lt y x) ?all))"
    using Cons.prems(2) by simp
  have IH: "assign_ranks same (length pre + 1) x (Suc (length (filter (\<lambda>y. lt y x) ?all))) xs
    = map (\<lambda>x. (x, Suc (length (filter (\<lambda>y. lt y x) ?all)))) xs"
    using Cons.IH[of "pre @ [x]" "Suc (length (filter (\<lambda>y. lt y x) ?all))"] Cons.prems
    by (simp only: append_assoc append_Cons append_Nil length_append last_snoc list.size simp_thms) simp
  show ?case
    unfolding assign_ranks.simps Let_def R IH by simp
qed simp

lemma assign_ranks_start:
  assumes "ordered_by lt xs"
    and "\<And>x y. x \<in> set xs \<Longrightarrow> y \<in> set xs \<Longrightarrow> same x y = incomparable lt x y"
  shows "assign_ranks same 0 p 1 xs = map (\<lambda>x. (x, Suc (length (filter (\<lambda>y. lt y x) xs)))) xs"
proof (cases xs)
  case (Cons x ys)
  have "filter (\<lambda>y. lt y x) xs = []"
    using assms(1) irrefl by (auto simp: Cons ordered_by_def filter_empty_conv)
  then show ?thesis
    using assign_ranks_count[of "[x]" ys same 1] assms by (simp add: Cons)
qed simp

end

lemma h2h_less_lex: "h2h_less = lex_less (\<lambda>a b. hs_points a > hs_points b)
    (lex_less (\<lambda>a b. hs_scoreDiff a > hs_scoreDiff b) (\<lambda>a b. hs_scoreFor a > hs_scoreFor b))"
  by (intro ext) (auto simp: h2h_less_def lex_less_def)

interpretation h2h: strict_weak_order h2h_less
  unfolding h2h_less_lex by (intro swo_lex swo_key_desc)

lemma h2h_same_iff: "h2h_same a b \<longleftrightarrow> incomparable h2h_less a b"
  by (auto simp: h2h_same_def incomparable_def h2h_less_def)

text \<open>The sub-table statistics of a participant over the matches inside the group.\<close>

definition inside :: "string set \<Rightarrow> CompletedMatch \<Rightarrow> bool" where
  "inside G m \<longleftrightarrow> cm_HomeParticipantID m \<in> G \<and> cm_AwayParticipantID m \<in> G"

definition h2h_points_in :: "StandingsSettings \<Rightarrow> string \<Rightarrow> CompletedMatch \<Rightarrow> int" where
  "h2h_points_in s k m =
     (let loss = closeLossPoints s (margin_of m) (cm_IsWalkover m) in
      if cm_WinnerID m = cm_HomeParticipantID m
        then int (as_home k m) * ss_WinPoints s + int (as_away k m) * loss
      else if cm_WinnerID m = cm_AwayParticipantID m
        then int (as_away k m) * ss_WinPoints s + int (as_home k m) * loss
      else int (as_home k m + as_away k m) * ss_DrawPoints s)"

definition h2h_total :: "StandingsSettings \<Rightarrow> CompletedMatch list \<Rightarrow> string set \<Rightarrow> string \<Rightarrow> h2hStats" where
  "h2h_total s ms G k = (let ins = filter (inside G) ms in
     \<lparr>hs_id = k, hs_points = int64 (sum_list (map (h2h_points_in s k) ins)),
      hs_scoreDiff = int64 (sum_list (map (\<lambda>m. for_in k m - against_in k m) ins)),
      hs_scoreFor = int64 (sum_list (map (for_in k) ins))\<rparr>)"

lemma h2h_total_range [simp]:
  "int64 (hs_points (h2h_total s ms G k)) = hs_points (h2h_total s ms G k)"
  "int64 (hs_scoreDiff (h2h_total s ms G k)) = hs_scoreDiff (h2h_total s ms G k)"
  "int64 (hs_scoreFor (h2h_total s ms G k)) = hs_scoreFor (h2h_total s ms G k)"
  by (simp_all add: h2h_total_def Let_def)

definition h2h_step :: "StandingsSettings \<Rightarrow> CompletedMatch \<Rightarrow> bool \<Rightarrow> bool \<Rightarrow> h2hStats \<Rightarrow> h2hStats" where
  "h2h_step s m ish isa r =
     (let hsc = cm_HomeScore m; asc = cm_AwayScore m;
          loss = closeLossPoints s (margin_of m) (cm_IsWalkover m);
          r = only_if ish (\<lambda>r. r\<lparr>hs_scoreFor := int64 (hs_scoreFor r + hsc)\<rparr>) r;
          r = only_if isa (\<lambda>r. r\<lparr>hs_scoreFor := int64 (hs_scoreFor r + asc)\<rparr>) r;
          r = only_if ish (\<lambda>r. r\<lparr>hs_scoreDiff := int64 (hs_scoreDiff r + (hsc - asc))\<rparr>) r;
          r = only_if isa (\<lambda>r. r\<lparr>hs_scoreDiff := int64 (hs_scoreDiff r + (asc - hsc))\<rparr>) r
      in if cm_WinnerID m = cm_HomeParticipantID m
           then only_if isa (h2h_points loss) (only_if ish (h2h_points (ss_WinPoints s)) r)
         else if cm_WinnerID m = cm_AwayParticipantID m
           then only_if ish (h2h_points loss) (only_if isa (h2h_points (ss_WinPoints s)) r)
         else only_if isa (h2h_points (ss_DrawPoints s)) (only_if ish (h2h_points (ss_DrawPoints s)) r))"

lemma h2h_match_key:
  "h2h_match s grp m stats k = (if inside (set grp) m
     then map_option (h2h_step s m (k = cm_HomeParticipantID m) (k = cm_AwayParticipantID m)) (stats k)
     else stats k)"
  by (cases "stats k") (auto simp: h2h_match_def inside_def Let_def modify_key h2h_step_def)

lemma int64_add_diff [simp]: "int64 (a + int64 b - c) = int64 (a + b - c)"
  using int64_add[of b "a - c"] by (simp add: algebra_simps)

lemma h2h_step_total:
  assumes "int64 (hs_points t) = hs_points t" "int64 (hs_scoreDiff t) = hs_scoreDiff t"
    "int64 (hs_scoreFor t) = hs_scoreFor t"
  shows "h2h_step s m (k = cm_HomeParticipantID m) (k = cm_AwayParticipantID m) t = t\<lparr>
     hs_points := int64 (hs_points t + h2h_points_in s k m),
     hs_scoreDiff := int64 (hs_scoreDiff t + (for_in k m - against_in k m)),
     hs_scoreFor := int64 (hs_scoreFor t + for_in k m)\<rparr>"
proof -
  define ish isa where "ish \<longleftrightarrow> k = cm_HomeParticipantID m" and "isa \<longleftrightarrow> k = cm_AwayParticipantID m"
  have ia: "as_home k m = (if ish then 1 else 0)" "as_away k m = (if isa then 1 else 0)"
    by (simp_all add: ish_def isa_def as_home_def as_away_def)
  show ?thesis
    unfolding ish_def[symmetric] isa_def[symmetric] h2h_points_in_def for_in_def against_in_def ia
      h2h_step_def Let_def
    using assms
    by (cases t; cases ish; cases isa; cases "cm_WinnerID m = cm_HomeParticipantID m";
        cases "cm_WinnerID m = cm_AwayParticipantID m")
      (simp_all add: h2h_points_def only_if_def algebra_simps)
qed

lemma fold_h2h_match:
  assumes "stats k = Some (h2h_total s pre (set grp) k)"
  shows "fold (h2h_match s grp) ms stats k = Some (h2h_total s (pre @ ms) (set grp) k)"
  using assms
proof (induction ms arbitrary: stats pre)
  case (Cons m ms)
  have "h2h_match s grp m stats k = Some (h2h_total s (pre @ [m]) (set grp) k)"
    unfolding h2h_match_key Cons.prems
    by (simp add: h2h_step_total) (simp add: h2h_total_def Let_def)
  from Cons.IH[where stats = "h2h_match s grp m stats" and pre = "pre @ [m]", OF this]
  show ?case by simp
qed simp

lemma h2h_stats_total:
  assumes "k \<in> set grp"
  shows "h2h_stats s ms grp k = Some (h2h_total s ms (set grp) k)"
proof -
  let ?zero = "\<lambda>pid. \<lparr>hs_id = pid, hs_points = 0, hs_scoreDiff = 0, hs_scoreFor = 0\<rparr>"
  have "fold (\<lambda>pid st. st(pid \<mapsto> ?zero pid)) xs st0 k = (if k \<in> set xs then Some (?zero k) else st0 k)"
    for xs and st0 :: "string \<Rightarrow> h2hStats option"
    by (induction xs arbitrary: st0) auto
  then have "fold (\<lambda>pid st. st(pid \<mapsto> ?zero pid)) grp Map.empty k = Some (h2h_total s [] (set grp) k)"
    using assms by (simp add: h2h_total_def)
  then show ?thesis
    using fold_h2h_match[of _ k s "[]" grp ms] by (simp add: h2h_stats_def)
qed

text \<open>The rank of a participant inside its group of tied points.\<close>

definition h2h_rank :: "StandingsSettings \<Rightarrow> CompletedMatch list \<Rightarrow> string set \<Rightarrow> string \<Rightarrow> nat" where
  "h2h_rank s ms G k = Suc (card {j \<in> G. h2h_less (h2h_total s ms G j) (h2h_total s ms G k)})"

lemma length_filter_map_set:
  "distinct xs \<Longrightarrow> length (filter P (map f xs)) = card {x \<in> set xs. P (f x)}"
  by (simp add: filter_map distinct_card[symmetric] comp_def)

lemma fold_rank_pairs:
  "distinct (map (hs_id \<circ> fst) ps) \<Longrightarrow>
   fold (\<lambda>(st, rank) out. out(hs_id st \<mapsto> rank)) ps out k =
     (case find (\<lambda>p. hs_id (fst p) = k) ps of Some p \<Rightarrow> Some (snd p) | None \<Rightarrow> out k)"
proof (induction ps arbitrary: out)
  case (Cons p ps)
  obtain st r where p: "p = (st, r)" by (cases p)
  have "find (\<lambda>p. hs_id (fst p) = hs_id st) ps = None"
    using Cons.prems p by (auto simp: find_None_iff image_iff)
  with Cons p show ?case by (auto split: option.split)
qed simp

lemma rank_group_rank:
  assumes "distinct grp"
  shows "rank_group s ms grp out k = (if k \<in> set grp then Some (h2h_rank s ms (set grp) k) else out k)"
proof (cases "length grp = 1")
  case True
  then obtain p where "grp = [p]" by (cases grp) auto
  then show ?thesis by (simp add: rank_group_def h2h_rank_def h2h.irrefl)
next
  case False
  let ?T = "h2h_total s ms (set grp)"
  let ?sorted = "slice_stable h2h_less (map ?T grp)"
  have sorted: "slice_stable h2h_less (map (\<lambda>pid. the (h2h_stats s ms grp pid)) grp) = ?sorted"
    by (rule arg_cong[where f = "slice_stable h2h_less"]) (simp add: h2h_stats_total)
  have id: "hs_id (?T j) = j" for j by (simp add: h2h_total_def Let_def)
  have m: "mset ?sorted = mset (map ?T grp)" by simp
  let ?rank = "\<lambda>x. Suc (length (filter (\<lambda>y. h2h_less y x) ?sorted))"
  have cnt: "?rank (?T j) = h2h_rank s ms (set grp) j" for j
  proof -
    have "length (filter (\<lambda>y. h2h_less y (?T j)) ?sorted) = length (filter (\<lambda>y. h2h_less y (?T j)) (map ?T grp))"
      using m by (metis mset_filter size_mset)
    then show ?thesis by (simp only: h2h_rank_def length_filter_map_set[OF assms])
  qed
  have pairs: "assign_ranks h2h_same 0 (hd ?sorted) 1 ?sorted = map (\<lambda>x. (x, ?rank x)) ?sorted"
    by (rule h2h.assign_ranks_start[OF h2h.ordered_slice_stable]) (simp add: h2h_same_iff)
  have "distinct (map hs_id ?sorted)"
  proof -
    have "mset (map hs_id ?sorted) = mset (map hs_id (map ?T grp))" using m by (metis mset_map)
    also have "map hs_id (map ?T grp) = grp" by (simp add: id comp_def)
    finally show ?thesis using assms by (metis mset_eq_imp_distinct_iff)
  qed
  then have d: "distinct (map (hs_id \<circ> fst) (map (\<lambda>x. (x, ?rank x)) ?sorted))"
    by (simp add: comp_def)
  have "find (\<lambda>p. hs_id (fst p) = k) (map (\<lambda>x. (x, ?rank x)) ?sorted)
    = (if k \<in> set grp then Some (?T k, ?rank (?T k)) else None)"
  proof (cases "k \<in> set grp")
    case True
    have "find (\<lambda>p. hs_id (fst p) = k) (map (\<lambda>x. (x, ?rank x)) ?sorted) \<noteq> None"
      using True by (auto simp: find_None_iff id)
    then obtain q where q: "find (\<lambda>p. hs_id (fst p) = k) (map (\<lambda>x. (x, ?rank x)) ?sorted) = Some q" by auto
    from find_SomeD[OF this] have "q = (?T k, ?rank (?T k))" by (auto simp: id)
    with q True show ?thesis by simp
  qed (auto simp: find_None_iff id)
  then show ?thesis
    unfolding rank_group_def Let_def sorted pairs fold_rank_pairs[OF d] using False
    by (simp add: cnt del: One_nat_def)
qed

definition tied :: "StandingsRow list \<Rightarrow> int \<Rightarrow> string set" where
  "tied rows pts = {st_ParticipantID r | r. r \<in> set rows \<and> st_Points r = pts}"

lemma set_points_group: "set (points_group rows pts) = tied rows pts"
  by (auto simp: points_group_def tied_def)

lemma fold_rank_groups:
  assumes "distinct (map st_ParticipantID rows)" "distinct ps" "r \<in> set rows"
  shows "fold (\<lambda>pts out. rank_group s ms (points_group rows pts) out) ps out (st_ParticipantID r)
    = (if st_Points r \<in> set ps
       then Some (h2h_rank s ms (tied rows (st_Points r)) (st_ParticipantID r))
       else out (st_ParticipantID r))"
  using assms(2)
proof (induction ps arbitrary: out)
  case (Cons p ps)
  have d: "distinct (points_group rows p)"
    using assms(1) by (simp add: points_group_def distinct_map_filter)
  have "st_ParticipantID r \<in> tied rows p \<longleftrightarrow> st_Points r = p"
    using assms(1,3) by (auto simp: tied_def distinct_map inj_on_def)
  with Cons show ?case
    by (auto simp: rank_group_rank[OF d] set_points_group)
qed simp

lemma buildH2HRanks_rank:
  assumes "distinct (map st_ParticipantID rows)" "r \<in> set rows"
    and "mset (iterG (remdups (map st_Points rows))) = mset (remdups (map st_Points rows))"
  shows "rank_of (buildH2HRanks iterG rows ms s) r
    = h2h_rank s ms (tied rows (st_Points r)) (st_ParticipantID r)"
proof -
  have "distinct (iterG (remdups (map st_Points rows)))"
    "set (iterG (remdups (map st_Points rows))) = st_Points ` set rows"
    using assms(3) mset_eq_imp_distinct_iff mset_eq_setD
    by (metis distinct_remdups, metis set_map set_remdups)
  with fold_rank_groups[OF assms(1) _ assms(2)] assms(2) show ?thesis
    by (simp add: rank_of_def buildH2HRanks_def)
qed

section \<open>The comparator\<close>

definition seed_key :: "int option \<Rightarrow> bool \<times> int" where
  "seed_key sd = (case sd of None \<Rightarrow> (True, 0) | Some n \<Rightarrow> (False, n))"

lemma seedCompare_key:
  "seedCompare a b < 0 \<longleftrightarrow> seed_key a < seed_key b"
  "seedCompare a b = 0 \<longleftrightarrow> seed_key a = seed_key b"
  by (auto simp: seedCompare_def seed_key_def sign_def split: option.splits)

lemma row_less_lex: "row_less ranks =
  lex_less (\<lambda>a b. st_Disqualified a < st_Disqualified b)
  (lex_less (\<lambda>a b. st_Points a > st_Points b)
  (lex_less (\<lambda>a b. rank_of ranks a < rank_of ranks b)
  (lex_less (\<lambda>a b. st_ScoreDifference a > st_ScoreDifference b)
  (lex_less (\<lambda>a b. st_ScoreFor a > st_ScoreFor b)
  (lex_less (\<lambda>a b. st_Wins a > st_Wins b)
  (lex_less (\<lambda>a b. seed_key (st_SeedNumber a) < seed_key (st_SeedNumber b))
    (\<lambda>a b. st_RegisteredAt a < st_RegisteredAt b)))))))"
  by (intro ext) (auto simp: row_less_def lex_less_def seedCompare_key)

interpretation standing: strict_weak_order "row_less ranks" for ranks
  unfolding row_less_lex by (intro swo_lex swo_key swo_key_desc)

lemma row_less_tie: "incomparable (row_less ranks) a b \<Longrightarrow> st_RegisteredAt a = st_RegisteredAt b"
  by (auto simp: incomparable_def row_less_def seedCompare_key split: if_splits)

text \<open>Only the ranks of the rows at hand matter to the sort.\<close>

lemma row_less_cong:
  "rank_of f a = rank_of g a \<Longrightarrow> rank_of f b = rank_of g b \<Longrightarrow> row_less f a b = row_less g a b"
  by (simp add: row_less_def)

lemma ins_stable_cong: "(\<And>y. y \<in> set ys \<Longrightarrow> lt y x = lt' y x) \<Longrightarrow> ins_stable lt x ys = ins_stable lt' x ys"
  by (induction ys) auto

lemma slice_stable_cong:
  "(\<And>x y. x \<in> set xs \<Longrightarrow> y \<in> set xs \<Longrightarrow> lt x y = lt' x y) \<Longrightarrow> slice_stable lt xs = slice_stable lt' xs"
proof (induction xs)
  case (Cons x xs)
  then have "slice_stable lt xs = slice_stable lt' xs" by simp
  moreover have "ins_stable lt x (slice_stable lt' xs) = ins_stable lt' x (slice_stable lt' xs)"
    using Cons.prems by (intro ins_stable_cong) auto
  ultimately show ?case by simp
qed simp

section \<open>Independence of every order\<close>

lemma sum_list_filter_mset:
  fixes f :: "'a \<Rightarrow> 'c :: comm_monoid_add"
  assumes "mset ms = mset ms'"
  shows "sum_list (map f (filter P ms)) = sum_list (map f (filter P ms'))"
proof -
  have "mset (map f (filter P ms)) = mset (map f (filter P ms'))" using assms by simp
  then show ?thesis by (metis sum_mset_sum_list)
qed

lemma row_totals_mset:
  assumes "mset ms = mset ms'"
  shows "row_totals s (filter P ms) r = row_totals s (filter P ms') r"
  unfolding row_totals_def Let_def sum_list_filter_mset[OF assms] ..

lemma h2h_total_mset:
  assumes "mset ms = mset ms'"
  shows "h2h_total s ms G k = h2h_total s ms' G k"
  unfolding h2h_total_def Let_def sum_list_filter_mset[OF assms] ..

lemma h2h_rank_mset:
  assumes "mset ms = mset ms'"
  shows "h2h_rank s ms G k = h2h_rank s ms' G k"
  unfolding h2h_rank_def h2h_total_mset[OF assms] ..

lemma final_row_mset:
  assumes "mset ms = mset ms'" "set regs = set regs'"
  shows "final_row regs ms s reg = final_row regs' ms' s reg" "in_table regs ms reg = in_table regs' ms' reg"
proof -
  have r: "registered regs = registered regs'" by (rule ext) (simp add: registered_def assms(2))
  show "final_row regs ms s reg = final_row regs' ms' s reg"
    by (simp add: final_row_def r row_totals_mset[OF assms(1)])
  show "in_table regs ms reg = in_table regs' ms' reg"
    by (simp add: in_table_def plays_def r mset_eq_setD[OF assms(1)])
qed

definition valid_iter :: "('k list \<Rightarrow> 'k list) \<Rightarrow> bool" where
  "valid_iter iter \<longleftrightarrow> (\<forall>ks. mset (iter ks) = mset ks)"

definition table_rows :: "RegistrationInfo list \<Rightarrow> CompletedMatch list \<Rightarrow> StandingsSettings \<Rightarrow> StandingsRow list" where
  "table_rows regs ms s = map (final_row regs ms s) (filter (in_table regs ms) regs)"

lemma map_table_rows: "map st_ParticipantID (table_rows regs ms s)
    = map ri_ParticipantID (filter (in_table regs ms) regs)"
  by (simp add: table_rows_def comp_def)

lemma distinct_mset_map: "mset xs = mset ys \<Longrightarrow> distinct (map f ys) \<Longrightarrow> distinct (map f xs)"
  by (metis mset_eq_imp_distinct_iff mset_map)

lemma valid_iterD: "valid_iter iter \<Longrightarrow> mset (iter ks) = mset ks"
  by (simp add: valid_iter_def)

lemma mset_rows:
  assumes "valid_iter iter" "distinct (map ri_ParticipantID regs)"
  shows "mset (collect_rows (iter (accum_keys regs)) (accumulate ms regs s)) = mset (table_rows regs ms s)"
  using collect_rows_mset[of regs iter, OF assms(2) valid_iterD[OF assms(1)]]
  by (simp add: table_rows_def)

lemma distinct_table_rows:
  "distinct (map ri_ParticipantID regs) \<Longrightarrow> distinct (map st_ParticipantID (table_rows regs ms s))"
  by (simp add: map_table_rows distinct_map_filter)

lemma ranks_rows:
  assumes "mset rows = mset (table_rows regs ms s)" "distinct (map ri_ParticipantID regs)"
    and "valid_iter iterG" "r \<in> set (table_rows regs ms s)"
  shows "rank_of (buildH2HRanks iterG rows ms s) r
    = h2h_rank s ms (tied (table_rows regs ms s) (st_Points r)) (st_ParticipantID r)"
proof -
  have "distinct (map st_ParticipantID rows)"
    using distinct_mset_map[OF assms(1) distinct_table_rows[OF assms(2)]] .
  moreover have "r \<in> set rows" "tied rows p = tied (table_rows regs ms s) p" for p
    using assms(4) by (simp_all add: tied_def mset_eq_setD[OF assms(1)])
  ultimately show ?thesis
    using buildH2HRanks_rank[of rows r iterG ms s] valid_iterD[OF assms(3)] by simp
qed

text \<open>The order of the table, with the head-to-head ranks as counted above.\<close>

definition better :: "RegistrationInfo list \<Rightarrow> CompletedMatch list \<Rightarrow> StandingsSettings
    \<Rightarrow> StandingsRow \<Rightarrow> StandingsRow \<Rightarrow> bool" where
  "better regs ms s a b = row_less (\<lambda>k. case map_of (map (\<lambda>r. (st_ParticipantID r, st_Points r))
       (table_rows regs ms s)) k of None \<Rightarrow> None
     | Some p \<Rightarrow> Some (h2h_rank s ms (tied (table_rows regs ms s) p) k)) a b"

lemma better_rank:
  assumes "distinct (map ri_ParticipantID regs)" "r \<in> set (table_rows regs ms s)"
  shows "rank_of (\<lambda>k. case map_of (map (\<lambda>r. (st_ParticipantID r, st_Points r))
       (table_rows regs ms s)) k of None \<Rightarrow> None
     | Some p \<Rightarrow> Some (h2h_rank s ms (tied (table_rows regs ms s) p) k)) r
    = h2h_rank s ms (tied (table_rows regs ms s) (st_Points r)) (st_ParticipantID r)"
proof -
  have "distinct (map st_ParticipantID (table_rows regs ms s))"
    using assms(1) by (simp add: map_table_rows distinct_map_filter)
  then have "map_of (map (\<lambda>r. (st_ParticipantID r, st_Points r)) (table_rows regs ms s)) (st_ParticipantID r)
    = Some (st_Points r)"
    using assms(2) by (intro map_of_is_SomeI) (auto simp: comp_def)
  then show ?thesis by (simp add: rank_of_def)
qed

interpretation table_order: strict_weak_order "better regs ms s" for regs ms s
  unfolding better_def by unfold_locales (use standing.asym standing.neg_trans in blast)+

lemma better_tie: "incomparable (better regs ms s) a b \<Longrightarrow> st_RegisteredAt a = st_RegisteredAt b"
  by (simp add: better_def incomparable_def row_less_tie[unfolded incomparable_def])

lemma sort_rows:
  assumes "mset rows = mset (table_rows regs ms s)" "distinct (map ri_ParticipantID regs)" "valid_iter iterG"
  shows "slice_stable (row_less (buildH2HRanks iterG rows ms s)) rows = slice_stable (better regs ms s) rows"
proof (rule slice_stable_cong)
  fix x y assume "x \<in> set rows" "y \<in> set rows"
  then have "x \<in> set (table_rows regs ms s)" "y \<in> set (table_rows regs ms s)"
    by (simp_all add: mset_eq_setD[OF assms(1)])
  then show "row_less (buildH2HRanks iterG rows ms s) x y = better regs ms s x y"
    unfolding better_def
    by (intro row_less_cong) (simp_all add: ranks_rows[OF assms] better_rank[OF assms(2)])
qed

lemma Compute_sorted:
  assumes "valid_iter iter" "valid_iter iterG" "distinct (map ri_ParticipantID regs)"
  obtains rows where "mset rows = mset (table_rows regs ms s)"
    "Standings_Compute iter iterG ms regs s = set_positions (slice_stable (better regs ms s) rows)"
  using mset_rows[OF assms(1,3)] sort_rows[OF mset_rows[OF assms(1,3)] assms(3,2)]
  by (auto simp: Standings_Compute_def Let_def)

lemma length_set_positions [simp]: "length (set_positions rows) = length rows"
  by (simp add: set_positions_def)

lemma set_positions_nth: "i < length rows \<Longrightarrow> set_positions rows ! i = (rows ! i)\<lparr>st_Position := i + 1\<rparr>"
  by (simp add: set_positions_def nth_enumerate_eq)

lemma map_set_positions:
  "(\<And>r p. f (r\<lparr>st_Position := p\<rparr>) = f r) \<Longrightarrow> map f (set_positions rows) = map f rows"
  by (rule nth_equalityI) (simp_all add: set_positions_nth)

lemma row_less_position:
  "row_less ranks (a\<lparr>st_Position := p\<rparr>) (b\<lparr>st_Position := q\<rparr>) = row_less ranks a b"
  by (simp add: row_less_def rank_of_def)

lemma table_tie:
  assumes "distinct (map ri_RegisteredAt regs)" "a \<in> set (table_rows regs ms s)"
    "b \<in> set (table_rows regs ms s)" "st_RegisteredAt a = st_RegisteredAt b"
  shows "a = b"
proof -
  obtain ra rb where r: "ra \<in> set regs" "rb \<in> set regs" "a = final_row regs ms s ra" "b = final_row regs ms s rb"
    using assms(2,3) by (auto simp: table_rows_def)
  with assms(4) have "ri_RegisteredAt ra = ri_RegisteredAt rb" by simp
  with assms(1) r(1,2) have "ra = rb" by (simp add: distinct_map inj_on_def)
  with r show ?thesis by simp
qed

lemma table_rows_mset:
  assumes "mset ms = mset ms'" "mset regs = mset regs'"
  shows "mset (table_rows regs ms s) = mset (table_rows regs' ms' s)"
proof -
  have "final_row regs ms s = final_row regs' ms' s" "in_table regs ms = in_table regs' ms'"
    by (auto intro!: ext final_row_mset[OF assms(1) mset_eq_setD[OF assms(2)]])
  then show ?thesis by (simp add: table_rows_def assms(2))
qed

lemma better_mset:
  assumes "mset ms = mset ms'" "mset regs = mset regs'" "distinct (map ri_ParticipantID regs)"
    and "a \<in> set (table_rows regs ms s)" "b \<in> set (table_rows regs ms s)"
  shows "better regs ms s a b = better regs' ms' s a b"
proof -
  note t = mset_eq_setD[OF table_rows_mset[OF assms(1,2)]]
  have d: "distinct (map ri_ParticipantID regs')"
    using assms(2,3) by (metis mset_eq_imp_distinct_iff mset_map)
  have "tied (table_rows regs ms s) p = tied (table_rows regs' ms' s) p" for p
    by (simp add: tied_def t[of s])
  with assms(4,5) show ?thesis
    unfolding better_def
    by (intro row_less_cong)
      (simp_all add: better_rank[OF assms(3)] better_rank[OF d] t[of s] h2h_rank_mset[OF assms(1)])
qed

section \<open>Sums over the table\<close>

lemma sum_list_swap:
  fixes f :: "'a \<Rightarrow> 'b \<Rightarrow> 'c :: comm_monoid_add"
  shows "sum_list (map (\<lambda>x. sum_list (map (f x) ys)) xs) = sum_list (map (\<lambda>y. sum_list (map (\<lambda>x. f x y) xs)) ys)"
  by (induction xs) (simp_all add: sum_list_addf)

lemma int64_sum_list: "int64 (sum_list (map (\<lambda>x. int64 (f x)) xs)) = int64 (sum_list (map f xs))"
proof (induction xs)
  case (Cons x xs)
  have "int64 (f x + sum_list (map (\<lambda>x. int64 (f x)) xs)) = int64 (f x + int64 (sum_list (map (\<lambda>x. int64 (f x)) xs)))"
    by simp
  also have "\<dots> = int64 (f x + sum_list (map f xs))" by (simp add: Cons.IH)
  finally show ?case by simp
qed simp

lemma sum_list_zero: "(\<And>x. x \<in> set xs \<Longrightarrow> f x = 0) \<Longrightarrow> sum_list (map f xs) = (0 :: 'c :: comm_monoid_add)"
  by (induction xs) auto

lemma sum_one:
  fixes c :: "'c :: comm_monoid_add"
  assumes "distinct (map g xs)" "k \<in> g ` set xs"
  shows "sum_list (map (\<lambda>x. if g x = k then c else 0) xs) = c"
  using assms
proof (induction xs)
  case (Cons x xs)
  show ?case
  proof (cases "g x = k")
    case True
    with Cons.prems(1) have "sum_list (map (\<lambda>x. if g x = k then c else 0) xs) = 0"
      by (intro sum_list_zero) (auto simp: image_iff)
    with True show ?thesis by simp
  next
    case False
    with Cons show ?thesis by auto
  qed
qed simp

text \<open>A column whose entry is a sum over the matches, summed over all the participants.\<close>

lemma column_sum:
  fixes f :: "StandingsRow \<Rightarrow> 'c :: comm_monoid_add"
  assumes d: "distinct (map ri_ParticipantID regs)"
    and f: "\<And>reg. f (final_row regs ms s reg)
      = sum_list (map (\<lambda>m. (if ri_ParticipantID reg = cm_HomeParticipantID m then h m else 0)
          + (if ri_ParticipantID reg = cm_AwayParticipantID m then a m else 0)) (filter (registered regs) ms))"
  shows "sum_list (map f (table_rows regs ms s)) = sum_list (map (\<lambda>m. h m + a m) (filter (registered regs) ms))"
proof -
  let ?g = "\<lambda>reg m. (if ri_ParticipantID reg = cm_HomeParticipantID m then h m else 0)
          + (if ri_ParticipantID reg = cm_AwayParticipantID m then a m else 0)"
  have "f (final_row regs ms s reg) = 0" if "\<not> in_table regs ms reg" for reg
    unfolding f using that by (intro sum_list_zero) (auto simp: in_table_def plays_def)
  then have "sum_list (map f (table_rows regs ms s)) = sum_list (map (\<lambda>reg. f (final_row regs ms s reg)) regs)"
    unfolding table_rows_def map_map comp_def by (intro sum_list_map_filter) blast
  also have "\<dots> = sum_list (map (\<lambda>m. sum_list (map (\<lambda>reg. ?g reg m) regs)) (filter (registered regs) ms))"
    unfolding f by (rule sum_list_swap)
  also have "\<dots> = sum_list (map (\<lambda>m. h m + a m) (filter (registered regs) ms))"
  proof (intro arg_cong[where f = sum_list] map_cong refl)
    fix m assume "m \<in> set (filter (registered regs) ms)"
    then have ks: "cm_HomeParticipantID m \<in> ri_ParticipantID ` set regs"
      "cm_AwayParticipantID m \<in> ri_ParticipantID ` set regs"
      by (simp_all add: registered_def)
    show "sum_list (map (\<lambda>reg. ?g reg m) regs) = h m + a m"
      unfolding sum_list_addf sum_one[OF d ks(1)] sum_one[OF d ks(2)] ..
  qed
  finally show ?thesis .
qed

lemma final_row_columns:
  "st_Played (final_row regs ms s reg) = st_Played (row_totals s (filter (registered regs) ms) (new_row reg))"
  "st_Wins (final_row regs ms s reg) = st_Wins (row_totals s (filter (registered regs) ms) (new_row reg))"
  "st_Losses (final_row regs ms s reg) = st_Losses (row_totals s (filter (registered regs) ms) (new_row reg))"
  "st_Draws (final_row regs ms s reg) = st_Draws (row_totals s (filter (registered regs) ms) (new_row reg))"
  by (simp_all add: final_row_def set_difference_def)

lemma Compute_column_sum:
  fixes f :: "StandingsRow \<Rightarrow> 'c :: comm_monoid_add"
  assumes "valid_iter iter" "valid_iter iterG" "distinct (map ri_ParticipantID regs)"
    and "\<And>r p. f (r\<lparr>st_Position := p\<rparr>) = f r"
  shows "sum_list (map f (Standings_Compute iter iterG ms regs s)) = sum_list (map f (table_rows regs ms s))"
proof -
  obtain rows where rows: "mset rows = mset (table_rows regs ms s)"
    "Standings_Compute iter iterG ms regs s = set_positions (slice_stable (better regs ms s) rows)"
    using Compute_sorted[OF assms(1-3)] by metis
  then have "mset (map f (Standings_Compute iter iterG ms regs s)) = mset (map f (table_rows regs ms s))"
    by (simp add: map_set_positions[of f, OF assms(4)])
  then show ?thesis by (metis sum_mset_sum_list)
qed

lemma score_column_sum:
  assumes "distinct (map ri_ParticipantID regs)"
    and "\<And>reg. f (final_row regs ms s reg) = int64 (sum_list (map (g (ri_ParticipantID reg)) (filter (registered regs) ms)))"
    and "\<And>k m. g k m = (if k = cm_HomeParticipantID m then h m else 0) + (if k = cm_AwayParticipantID m then a m else 0)"
  shows "int64 (sum_list (map f (table_rows regs ms s)))
    = int64 (sum_list (map (\<lambda>m. h m + a m) (filter (registered regs) ms)))"
proof -
  let ?F = "\<lambda>r. sum_list (map (g (st_ParticipantID r)) (filter (registered regs) ms))"
  have "map f (table_rows regs ms s) = map (\<lambda>r. int64 (?F r)) (table_rows regs ms s)"
    by (simp add: table_rows_def assms(2))
  then have "int64 (sum_list (map f (table_rows regs ms s))) = int64 (sum_list (map ?F (table_rows regs ms s)))"
    by (simp only: int64_sum_list)
  also have "sum_list (map ?F (table_rows regs ms s))
    = sum_list (map (\<lambda>m. h m + a m) (filter (registered regs) ms))"
  proof (rule column_sum[OF assms(1)])
    have "g k = (\<lambda>m. (if k = cm_HomeParticipantID m then h m else 0)
        + (if k = cm_AwayParticipantID m then a m else 0))" for k
      by (rule ext) (rule assms(3))
    then show "?F (final_row regs ms s reg) = sum_list (map (\<lambda>m.
        (if ri_ParticipantID reg = cm_HomeParticipantID m then h m else 0)
        + (if ri_ParticipantID reg = cm_AwayParticipantID m then a m else 0)) (filter (registered regs) ms))" for reg
      by simp
  qed
  finally show ?thesis .
qed

lemma decided_count:
  "sum_list (map (\<lambda>m. (if home_won m then 1 else 0) + (if \<not> is_draw m \<and> \<not> home_won m then 1 else 0))
     (filter P ms)) = length (filter (\<lambda>m. P m \<and> cm_WinnerID m \<noteq> []) ms)"
  "sum_list (map (\<lambda>m. (if \<not> is_draw m \<and> \<not> home_won m then 1 else 0) + (if home_won m then 1 else 0))
     (filter P ms)) = length (filter (\<lambda>m. P m \<and> cm_WinnerID m \<noteq> []) ms)"
  "sum_list (map (\<lambda>m. (if is_draw m then 1 else 0) + (if is_draw m then 1 else 0))
     (filter P ms)) = 2 * length (filter (\<lambda>m. P m \<and> cm_WinnerID m = []) ms)"
  "sum_list (map (\<lambda>m. 1 + 1) (filter P ms)) = 2 * length (filter P ms)"
  by (induction ms) (auto simp: home_won_def is_draw_def)

definition demo_regs :: "RegistrationInfo list" where
  "demo_regs = [\<lparr>ri_ParticipantID = ''a'', ri_SeedNumber = None, ri_RegisteredAt = 1, ri_Disqualified = False\<rparr>,
     \<lparr>ri_ParticipantID = ''b'', ri_SeedNumber = Some 1, ri_RegisteredAt = 2, ri_Disqualified = False\<rparr>]"

definition demo_result :: CompletedMatch where
  "demo_result = \<lparr>cm_HomeParticipantID = ''a'', cm_AwayParticipantID = ''b'', cm_HomeScore = 30,
     cm_AwayScore = 28, cm_WinnerID = ''a'', cm_IsWalkover = False\<rparr>"

lemma valid_iter_id [simp]: "valid_iter id" and valid_iter_rev [simp]: "valid_iter rev"
  by (simp_all add: valid_iter_def)

section \<open>Properties\<close>

text \<open>
  C15: the table is complete and ranked: every registered participant has one row, whose columns
  are the totals of its matches against other registered participants (the win, draw, loss and
  close-loss points included), except a disqualified one that never played; the positions are
  1 to n; no row is better than one above it in the tie-breaker chain, and the disqualified rows
  are the last ones.
\<close>

theorem standings_table:
  assumes "valid_iter iter" "valid_iter iterG" "distinct (map ri_ParticipantID regs)"
    and out: "out = Standings_Compute iter iterG ms regs s"
  shows "mset (map (\<lambda>r. r\<lparr>st_Position := 0\<rparr>) out) = mset (table_rows regs ms s)
    \<and> map st_Position out = [1 ..< length out + 1]
    \<and> (\<forall>i j. i < j \<and> j < length out \<longrightarrow> \<not> better regs ms s (out ! j) (out ! i)
         \<and> (st_Disqualified (out ! i) \<longrightarrow> st_Disqualified (out ! j)))"
proof (intro conjI allI impI)
  obtain rows where rows: "mset rows = mset (table_rows regs ms s)"
    and o: "out = set_positions (slice_stable (better regs ms s) rows)"
    using Compute_sorted[OF assms(1-3)] out by metis
  let ?sorted = "slice_stable (better regs ms s) rows"
  have "map (\<lambda>r. r\<lparr>st_Position := 0\<rparr>) out = map (\<lambda>r. r\<lparr>st_Position := 0\<rparr>) ?sorted"
    unfolding o by (rule map_set_positions) simp
  also have "\<dots> = ?sorted"
  proof (rule map_idI)
    fix r assume "r \<in> set ?sorted"
    then have "r \<in> set (table_rows regs ms s)" by (simp add: mset_eq_setD[OF rows])
    then show "r\<lparr>st_Position := 0\<rparr> = r"
      by (auto simp: table_rows_def final_row_def set_difference_def row_totals_def Let_def new_row_def)
  qed
  finally show "mset (map (\<lambda>r. r\<lparr>st_Position := 0\<rparr>) out) = mset (table_rows regs ms s)"
    using rows by simp
  show "map st_Position out = [1 ..< length out + 1]"
    unfolding o by (rule nth_equalityI) (simp_all add: set_positions_nth del: upt_Suc)
  fix i j assume ij: "i < j \<and> j < length out"
  have nb: "\<not> better regs ms s (?sorted ! j) (?sorted ! i)"
    using table_order.ordered_slice_stable[of regs ms s rows] ij
      sorted_wrt_nth_less[of "\<lambda>x y. \<not> better regs ms s y x" ?sorted i j]
    unfolding ordered_by_def o by simp
  have pos: "out ! i = (?sorted ! i)\<lparr>st_Position := i + 1\<rparr>" "out ! j = (?sorted ! j)\<lparr>st_Position := j + 1\<rparr>"
    using ij by (simp_all add: o set_positions_nth)
  with nb show "\<not> better regs ms s (out ! j) (out ! i)"
    by (simp add: pos better_def row_less_position)
  show "st_Disqualified (out ! i) \<Longrightarrow> st_Disqualified (out ! j)"
    using nb by (auto simp: pos better_def row_less_def split: if_splits)
qed

text \<open>
  C16: the table is deterministic: when no two registrations share a timestamp it does not depend
  on the iteration order of the maps, nor on the order in which the matches and the registrations
  are read.
\<close>

theorem standings_deterministic:
  assumes "valid_iter iter" "valid_iter iterG" "valid_iter iter'" "valid_iter iterG'"
    and "mset ms = mset ms'" "mset regs = mset regs'"
    and "distinct (map ri_ParticipantID regs)" "distinct (map ri_RegisteredAt regs)"
  shows "Standings_Compute iter iterG ms regs s = Standings_Compute iter' iterG' ms' regs' s"
proof -
  have d: "distinct (map ri_ParticipantID regs')"
    using assms(6,7) by (metis mset_eq_imp_distinct_iff mset_map)
  obtain rows rows' where rows: "mset rows = mset (table_rows regs ms s)"
    "Standings_Compute iter iterG ms regs s = set_positions (slice_stable (better regs ms s) rows)"
    and rows': "mset rows' = mset (table_rows regs' ms' s)"
    "Standings_Compute iter' iterG' ms' regs' s = set_positions (slice_stable (better regs' ms' s) rows')"
    using Compute_sorted[OF assms(1,2,7)] Compute_sorted[OF assms(3,4) d] by metis
  have eq: "mset rows = mset rows'"
    using rows(1) rows'(1) table_rows_mset[OF assms(5,6)] by simp
  have mem: "x \<in> set (table_rows regs ms s)" if "x \<in> set rows" for x
    using that by (simp add: mset_eq_setD[OF rows(1)])
  have "slice_stable (better regs' ms' s) rows' = slice_stable (better regs ms s) rows'"
    using mem mset_eq_setD[OF eq]
    by (intro slice_stable_cong better_mset[OF assms(5-7), symmetric]) auto
  also have "\<dots> = slice_stable (better regs ms s) rows"
    using eq mem table_tie[OF assms(8)] better_tie
    by (intro table_order.order_independent) (metis, metis mset_eq_setD)
  finally show ?thesis using rows(2) rows'(2) by simp
qed

text \<open>
  C17: conservation: over the table, played counts every match between registered participants
  twice, every decided match is one win and one loss, every draw two draws, and the points scored
  equal the points conceded (in 64-bit arithmetic).
\<close>

theorem standings_conservation:
  assumes "valid_iter iter" "valid_iter iterG" "distinct (map ri_ParticipantID regs)"
    and out: "out = Standings_Compute iter iterG ms regs s"
  shows "sum_list (map st_Played out) = 2 * length (filter (registered regs) ms)
    \<and> sum_list (map st_Wins out) = length (filter (\<lambda>m. registered regs m \<and> cm_WinnerID m \<noteq> []) ms)
    \<and> sum_list (map st_Losses out) = sum_list (map st_Wins out)
    \<and> sum_list (map st_Draws out) = 2 * length (filter (\<lambda>m. registered regs m \<and> cm_WinnerID m = []) ms)
    \<and> int64 (sum_list (map st_ScoreFor out)) = int64 (sum_list (map st_ScoreAgainst out))"
proof -
  note sums = Compute_column_sum[OF assms(1-3), of _ ms s, folded out]
  have ind: "as_home k m = (if k = cm_HomeParticipantID m then 1 else 0)"
    "as_away k m = (if k = cm_AwayParticipantID m then 1 else 0)" for k m
    by (simp_all add: as_home_def as_away_def)
  have pl: "sum_list (map st_Played (table_rows regs ms s)) = sum_list (map (\<lambda>m. 1 + 1) (filter (registered regs) ms))"
    by (rule column_sum[OF assms(3)]) (simp add: final_row_columns row_totals_def Let_def ind)
  have wi: "sum_list (map st_Wins (table_rows regs ms s)) = sum_list (map (\<lambda>m.
      (if home_won m then 1 else 0) + (if \<not> is_draw m \<and> \<not> home_won m then 1 else 0)) (filter (registered regs) ms))"
    by (rule column_sum[OF assms(3)])
      (auto simp: final_row_columns row_totals_def Let_def ind wins_in_def home_won_def is_draw_def
        intro!: arg_cong[where f = sum_list] map_cong)
  have lo: "sum_list (map st_Losses (table_rows regs ms s)) = sum_list (map (\<lambda>m.
      (if \<not> is_draw m \<and> \<not> home_won m then 1 else 0) + (if home_won m then 1 else 0)) (filter (registered regs) ms))"
    by (rule column_sum[OF assms(3)])
      (auto simp: final_row_columns row_totals_def Let_def ind losses_in_def home_won_def is_draw_def
        intro!: arg_cong[where f = sum_list] map_cong)
  have dr: "sum_list (map st_Draws (table_rows regs ms s)) = sum_list (map (\<lambda>m.
      (if is_draw m then 1 else 0) + (if is_draw m then 1 else 0)) (filter (registered regs) ms))"
    by (rule column_sum[OF assms(3)])
      (auto simp: final_row_columns row_totals_def Let_def ind draws_in_def
        intro!: arg_cong[where f = sum_list] map_cong)
  have sf: "int64 (sum_list (map st_ScoreFor (table_rows regs ms s)))
    = int64 (sum_list (map (\<lambda>m. cm_HomeScore m + cm_AwayScore m) (filter (registered regs) ms)))"
    by (rule score_column_sum[OF assms(3), where g = for_in])
      (simp_all add: final_row_def set_difference_def row_totals_def Let_def for_in_def ind)
  have sa: "int64 (sum_list (map st_ScoreAgainst (table_rows regs ms s)))
    = int64 (sum_list (map (\<lambda>m. cm_AwayScore m + cm_HomeScore m) (filter (registered regs) ms)))"
    by (rule score_column_sum[OF assms(3), where g = against_in])
      (simp_all add: final_row_def set_difference_def row_totals_def Let_def against_in_def ind)
  have "int64 (sum_list (map st_ScoreFor out)) = int64 (sum_list (map st_ScoreAgainst out))"
    by (simp add: sums sf sa add.commute)
  then show ?thesis
    using pl wi lo dr unfolding decided_count by (simp add: sums)
qed

lemma standings_table_witness:
  "map st_Position (Standings_Compute rev id [demo_result] demo_regs DefaultSettings)
    = [1 ..< length (Standings_Compute rev id [demo_result] demo_regs DefaultSettings) + 1]"
  using standings_table[of rev id demo_regs _ "[demo_result]" DefaultSettings, OF _ _ _ refl]
  by (simp add: demo_regs_def del: upt_Suc)

lemma standings_deterministic_witness:
  "Standings_Compute rev rev [demo_result] demo_regs DefaultSettings
    = Standings_Compute id id [demo_result] (rev demo_regs) DefaultSettings"
  using standings_deterministic[of rev rev id id "[demo_result]" "[demo_result]" demo_regs "rev demo_regs"]
  by (simp add: demo_regs_def)

lemma standings_conservation_witness:
  "sum_list (map st_Played (Standings_Compute rev id [demo_result] demo_regs DefaultSettings)) = 2"
  using standings_conservation[of rev id demo_regs _ "[demo_result]" DefaultSettings, OF _ _ _ refl]
  by (simp add: demo_regs_def demo_result_def registered_def)

end
