(* ===== verification/Go_Strings.thy ===== *)
theory Go_Strings
  imports Prelude
begin

text \<open>
  The string functions of Go's standard library the services use.  A Go string is a byte
  string, a \<open>string\<close> here.  \<open>TrimSpace\<close> strips the UTF-8 encodings of every Unicode white space.
  \<open>ToLower\<close> maps the ASCII letters and the two code points outside ASCII whose lower case is an
  ASCII letter (U+0130 and the Kelvin sign U+212A): the services only compare its result with
  ASCII literals, so the case of every other code point does not matter.
\<close>

definition bytes :: "nat list \<Rightarrow> string" where
  "bytes ns = map char_of ns"

definition ascii_lower :: "char \<Rightarrow> char" where
  "ascii_lower c = (let n = (of_char c :: nat) in
     if 65 \<le> n \<and> n \<le> 90 then char_of (n + 32) else c)"

definition ascii_upper :: "char \<Rightarrow> char" where
  "ascii_upper c = (let n = (of_char c :: nat) in
     if 97 \<le> n \<and> n \<le> 122 then char_of (n - 32) else c)"

fun strings_ToLower :: "string \<Rightarrow> string" where
  "strings_ToLower [] = []"
| "strings_ToLower (a # b # c # s) =
     (if [a, b, c] = bytes [226, 132, 170] then CHR ''k'' # strings_ToLower s
      else if [a, b] = bytes [196, 176] then CHR ''i'' # strings_ToLower (c # s)
      else ascii_lower a # strings_ToLower (b # c # s))"
| "strings_ToLower (a # b # s) =
     (if [a, b] = bytes [196, 176] then CHR ''i'' # strings_ToLower s
      else ascii_lower a # strings_ToLower (b # s))"
| "strings_ToLower (a # s) = ascii_lower a # strings_ToLower s"

definition space_codes :: "string list" where
  "space_codes = map (\<lambda>n. bytes [n]) [9, 10, 11, 12, 13, 32]
     @ map bytes [[194, 133], [194, 160], [225, 154, 128]]
     @ map (\<lambda>n. bytes [226, 128, n]) ([128 ..< 139] @ [168, 169, 175])
     @ map bytes [[226, 129, 159], [227, 128, 128]]"

definition drop_code :: "string list \<Rightarrow> string \<Rightarrow> string option" where
  "drop_code codes s = map_option (\<lambda>c. drop (length c) s)
     (find (\<lambda>c. take (length c) s = c \<and> c \<noteq> []) codes)"

function trim_left :: "string list \<Rightarrow> string \<Rightarrow> string" where
  "trim_left codes s = (case drop_code codes s of None \<Rightarrow> s | Some t \<Rightarrow> trim_left codes t)"
  by pat_completeness auto

lemma drop_code_shorter: "drop_code codes s = Some t \<Longrightarrow> length t < length s"
  by (cases s) (auto simp: drop_code_def find_Some_iff)

termination trim_left
  by (relation "measure (\<lambda>(codes, s). length s)") (auto dest: drop_code_shorter)

declare trim_left.simps [simp del]

definition strings_TrimSpace :: "string \<Rightarrow> string" where
  "strings_TrimSpace s =
     rev (trim_left (map rev space_codes) (rev (trim_left space_codes s)))"

text \<open>
  \<open>ToUpper\<close>: the ASCII letters, and the two code points outside ASCII whose upper case is an ASCII
  letter (U+0131 and U+017F).
\<close>

fun strings_ToUpper :: "string \<Rightarrow> string" where
  "strings_ToUpper [] = []"
| "strings_ToUpper (a # b # s) =
     (if [a, b] = bytes [196, 177] then CHR ''I'' # strings_ToUpper s
      else if [a, b] = bytes [197, 191] then CHR ''S'' # strings_ToUpper s
      else ascii_upper a # strings_ToUpper (b # s))"
| "strings_ToUpper (a # s) = ascii_upper a # strings_ToUpper s"

text \<open>\<open>strings.TrimRight\<close> and \<open>strings.Trim\<close> with a cut set of one ASCII character.\<close>

definition strings_TrimRight :: "char \<Rightarrow> string \<Rightarrow> string" where
  "strings_TrimRight c s = rev (dropWhile (\<lambda>x. x = c) (rev s))"

definition strings_Trim :: "char \<Rightarrow> string \<Rightarrow> string" where
  "strings_Trim c s = strings_TrimRight c (dropWhile (\<lambda>x. x = c) s)"

text \<open>The number of code points of a UTF-8 text: the bytes that do not continue one.\<close>

definition char_length :: "string \<Rightarrow> nat" where
  "char_length s = length (filter (\<lambda>c. (of_char c :: nat) div 64 \<noteq> 2) s)"

text \<open>\<open>derefStr\<close>: the string a pointer refers to, or the empty string for \<open>nil\<close>.\<close>

definition derefStr :: "string option \<Rightarrow> string" where
  "derefStr s = (case s of None \<Rightarrow> [] | Some t \<Rightarrow> t)"

lemma derefStr_simps [simp]: "derefStr None = []" "derefStr (Some s) = s"
  by (simp_all add: derefStr_def)

lemma strings_TrimRight_snoc [simp]:
  "strings_TrimRight c [] = []"
  "strings_TrimRight c (s @ [x]) = (if x = c then strings_TrimRight c s else s @ [x])"
  by (simp_all add: strings_TrimRight_def)

lemma strings_TrimRight_prefix: "\<exists>t. s = strings_TrimRight c s @ t"
proof (induction s rule: rev_induct)
  case (snoc x s)
  then obtain t where "s = strings_TrimRight c s @ t" by blast
  then have "s @ [x] = strings_TrimRight c s @ t @ [x]" by (metis append.assoc)
  then have "\<exists>t. s @ [x] = strings_TrimRight c s @ t" by blast
  then show ?case by (cases "x = c") simp_all
qed simp

lemma strings_TrimRight_last: "strings_TrimRight c s \<noteq> [] \<Longrightarrow> last (strings_TrimRight c s) \<noteq> c"
  by (induction s rule: rev_induct) (auto split: if_splits)

lemma set_strings_TrimRight: "x \<in> set (strings_TrimRight c s) \<Longrightarrow> x \<in> set s"
  using strings_TrimRight_prefix[of s c] by (metis Un_iff set_append)

lemma length_strings_TrimRight: "length (strings_TrimRight c s) \<le> length s"
  using strings_TrimRight_prefix[of s c] by (metis le_add1 length_append)

lemma strings_TrimRight_empty: "strings_TrimRight c s = [] \<longleftrightarrow> set s \<subseteq> {c}"
  by (induction s rule: rev_induct) auto

lemma strings_TrimRight_hd: "strings_TrimRight c s \<noteq> [] \<Longrightarrow> hd (strings_TrimRight c s) = hd s"
  using strings_TrimRight_prefix[of s c] by (metis hd_append2)

lemma trim_left_fixed: "drop_code codes (trim_left codes s) = None"
proof (induction codes s rule: trim_left.induct)
  case (1 codes s)
  then show ?case
    by (cases "drop_code codes s") (simp_all add: trim_left.simps[of codes s])
qed

lemma trim_left_idem [simp]: "trim_left codes (trim_left codes s) = trim_left codes s"
  by (simp add: trim_left.simps[of codes "trim_left codes s"] trim_left_fixed)

lemma drop_code_None: "drop_code codes s = None \<longleftrightarrow>
    (\<forall>c \<in> set codes. c \<noteq> [] \<longrightarrow> take (length c) s \<noteq> c)"
  by (auto simp: drop_code_def find_None_iff)

section \<open>Plain words\<close>

text \<open>A visible ASCII character; both functions leave a word of such lower-case characters alone.\<close>

definition plain_char :: "char \<Rightarrow> bool" where
  "plain_char c \<longleftrightarrow> 33 \<le> (of_char c :: nat) \<and> (of_char c :: nat) < 127"

definition lower_char :: "char \<Rightarrow> bool" where
  "lower_char c \<longleftrightarrow> plain_char c \<and> \<not> (65 \<le> (of_char c :: nat) \<and> (of_char c :: nat) \<le> 90)"

lemma space_code_heads:
  "c \<in> set space_codes \<Longrightarrow> \<not> plain_char (hd c) \<and> \<not> plain_char (hd (rev c))"
  unfolding space_codes_def bytes_def by (auto simp: plain_char_def upt_rec)

lemma drop_code_plain:
  "\<forall>c \<in> set codes. \<not> plain_char (hd c) \<Longrightarrow> s \<noteq> [] \<Longrightarrow> plain_char (hd s) \<Longrightarrow> drop_code codes s = None"
  unfolding drop_code_None by (metis hd_take length_greater_0_conv)

lemma TrimSpace_plain:
  assumes "s \<noteq> []" "plain_char (hd s)" "plain_char (last s)"
  shows "strings_TrimSpace s = s"
proof -
  have "trim_left space_codes s = s"
    using assms(1,2) drop_code_plain[of space_codes s] space_code_heads
    by (subst trim_left.simps) auto
  moreover have "trim_left (map rev space_codes) (rev s) = rev s"
    using assms(1,3) drop_code_plain[of "map rev space_codes" "rev s"] space_code_heads
    by (subst trim_left.simps) (auto simp: hd_rev)
  ultimately show ?thesis by (simp add: strings_TrimSpace_def)
qed

lemma ascii_lower_lower [simp]: "lower_char c \<Longrightarrow> ascii_lower c = c"
  by (auto simp: ascii_lower_def lower_char_def Let_def)

lemma ToLower_lower: "\<forall>c \<in> set s. lower_char c \<Longrightarrow> strings_ToLower s = s"
  by (induction s rule: strings_ToLower.induct)
    (auto simp: bytes_def lower_char_def plain_char_def)

lemma lower_word: "s \<noteq> [] \<Longrightarrow> \<forall>c \<in> set s. lower_char c \<Longrightarrow> strings_ToLower (strings_TrimSpace s) = s"
  by (simp add: TrimSpace_plain ToLower_lower lower_char_def)

end
