(* ===== verification/Uuid.thy ===== *)
theory Uuid
  imports Go_Strings
begin

unbundle bit_operations_syntax

text \<open>
  UUID columns and the helpers of package \<open>pgutil\<close>.  A \<open>pgtype.UUID\<close> is 16 bytes and a \<open>Valid\<close>
  flag: \<open>Some\<close> of a 128-bit word, or \<open>None\<close> for SQL \<open>NULL\<close> (whose \<open>Bytes\<close> are zero).
  \<open>UUID.Scan\<close> belongs to the driver: it is the parameter \<open>scan\<close> of the parsing functions.
\<close>

type_synonym uuid = "128 word option"

definition uuid_Bytes :: "uuid \<Rightarrow> 128 word" where
  "uuid_Bytes u = (case u of None \<Rightarrow> 0 | Some w \<Rightarrow> w)"

abbreviation Valid :: "'a option \<Rightarrow> bool" where
  "Valid u \<equiv> u \<noteq> None"

definition uuidEquals :: "uuid \<Rightarrow> uuid \<Rightarrow> bool" where
  "uuidEquals a b \<longleftrightarrow> Valid a \<and> Valid b \<and> uuid_Bytes a = uuid_Bytes b"

section \<open>Canonical text\<close>

definition hex_char :: "nat \<Rightarrow> char" where
  "hex_char d = (if d < 10 then char_of (48 + d) else char_of (87 + d))"

definition nibble :: "128 word \<Rightarrow> nat \<Rightarrow> nat" where
  "nibble w i = take_bit 4 (drop_bit (4 * (31 - i)) (unat w))"

text \<open>\<open>fmt.Sprintf("%x", bytes[a:b])\<close>: two lower-case digits per byte.\<close>

definition hex_bytes :: "128 word \<Rightarrow> nat \<Rightarrow> nat \<Rightarrow> string" where
  "hex_bytes w a b = map (\<lambda>i. hex_char (nibble w i)) [2 * a ..< 2 * b]"

definition UUIDToString :: "uuid \<Rightarrow> string" where
  "UUIDToString uid = (case uid of None \<Rightarrow> []
     | Some w \<Rightarrow> hex_bytes w 0 4 @ ''-'' @ hex_bytes w 4 6 @ ''-'' @ hex_bytes w 6 8
         @ ''-'' @ hex_bytes w 8 10 @ ''-'' @ hex_bytes w 10 16)"

definition uuidStringPtr :: "uuid \<Rightarrow> string option" where
  "uuidStringPtr uid = (if Valid uid then Some (UUIDToString uid) else None)"

section \<open>Parsing\<close>

datatype pgutil_error = EmptyUUIDString | InvalidUUID string

definition ParseUUID :: "(string \<Rightarrow> 128 word option) \<Rightarrow> string \<Rightarrow> pgutil_error + uuid" where
  "ParseUUID scan s =
     (if s = [] then Inl EmptyUUIDString
      else case scan s of None \<Rightarrow> Inl (InvalidUUID s) | Some w \<Rightarrow> Inr (Some w))"

definition ParseOptionalUUID :: "(string \<Rightarrow> 128 word option) \<Rightarrow> string \<Rightarrow> uuid" where
  "ParseOptionalUUID scan s = (if s = [] then None else scan s)"

section \<open>Lemmas\<close>

lemma uuidEquals_simps [simp]:
  "uuidEquals None b = False" "uuidEquals a None = False"
  "uuidEquals (Some v) (Some w) \<longleftrightarrow> v = w"
  by (simp_all add: uuidEquals_def uuid_Bytes_def)

lemma uuidEquals_iff: "uuidEquals a b \<longleftrightarrow> a = b \<and> a \<noteq> None"
  by (cases a; cases b) auto

lemma uuid_Bytes_simps [simp]: "uuid_Bytes None = 0" "uuid_Bytes (Some w) = w"
  by (simp_all add: uuid_Bytes_def)

lemma ParseUUID_Inr [simp, result_simps]:
  "ParseUUID scan s = Inr u \<longleftrightarrow> s \<noteq> [] \<and> (\<exists>w. scan s = Some w \<and> u = Some w)"
  by (auto simp: ParseUUID_def split: option.splits)

lemma nibble_less: "nibble w i < 16"
  using take_bit_nat_less_exp[of 4 "drop_bit (4 * (31 - i)) (unat w)"] by (simp add: nibble_def)

lemma of_char_hex_char: "d < 16 \<Longrightarrow> of_char (hex_char d) = (if d < 10 then 48 + d else 87 + d :: nat)"
  by (simp add: hex_char_def)

lemma hex_char_inject:
  assumes "a < 16" "b < 16"
  shows "hex_char a = hex_char b \<longleftrightarrow> a = b"
proof
  assume "hex_char a = hex_char b"
  then have "(of_char (hex_char a) :: nat) = of_char (hex_char b)" by (rule arg_cong)
  then show "a = b"
    unfolding of_char_hex_char[OF assms(1)] of_char_hex_char[OF assms(2)]
    using assms by (cases "a < 10"; cases "b < 10") auto
qed simp

lemma nibbles_determine:
  assumes "\<And>i. i < 32 \<Longrightarrow> nibble v i = nibble w i"
  shows "v = w"
proof (rule bit_word_eqI)
  fix n assume "n < LENGTH(128)"
  then have n: "31 - (31 - n div 4) = n div 4" "31 - n div 4 < 32" by auto
  have "bit (nibble u (31 - n div 4)) (n mod 4) = bit u n" for u :: "128 word"
    using n by (simp add: nibble_def bit_take_bit_iff bit_drop_bit_eq bit_unsigned_iff mult.commute)
  with assms[OF n(2)] show "bit v n = bit w n" by metis
qed

lemma hex_bytes_eqD: "hex_bytes v a b = hex_bytes w a b \<Longrightarrow> 2 * a \<le> i \<Longrightarrow> i < 2 * b \<Longrightarrow> nibble v i = nibble w i"
  by (simp add: hex_bytes_def hex_char_inject nibble_less)

lemma length_hex_bytes [simp]: "length (hex_bytes w a b) = 2 * b - 2 * a"
  by (simp add: hex_bytes_def)

lemma UUIDToString_None [simp]: "UUIDToString None = []"
  by (simp add: UUIDToString_def)

lemma UUIDToString_empty [simp]: "UUIDToString u = [] \<longleftrightarrow> u = None"
  by (simp add: UUIDToString_def split: option.split)

lemma length_UUIDToString: "length (UUIDToString (Some w)) = 36"
  by (simp add: UUIDToString_def)

text \<open>The text determines the identifier, \<open>NULL\<close> included.\<close>

lemma UUIDToString_inject [simp]: "UUIDToString a = UUIDToString b \<longleftrightarrow> a = b"
proof
  assume eq: "UUIDToString a = UUIDToString b"
  show "a = b"
  proof (cases "a = None \<or> b = None")
    case True
    with eq show ?thesis by (metis UUIDToString_empty)
  next
    case False
    then obtain v w where vw: "a = Some v" "b = Some w" by auto
    from eq have h: "hex_bytes v 0 4 = hex_bytes w 0 4" "hex_bytes v 4 6 = hex_bytes w 4 6"
      "hex_bytes v 6 8 = hex_bytes w 6 8" "hex_bytes v 8 10 = hex_bytes w 8 10"
      "hex_bytes v 10 16 = hex_bytes w 10 16"
      by (simp_all add: vw UUIDToString_def)
    have "nibble v i = nibble w i" if "i < 32" for i
    proof -
      consider "i < 8" | "8 \<le> i" "i < 12" | "12 \<le> i" "i < 16" | "16 \<le> i" "i < 20" | "20 \<le> i"
        by linarith
      then show ?thesis
        using that by cases (auto intro: hex_bytes_eqD[OF h(1)] hex_bytes_eqD[OF h(2)]
          hex_bytes_eqD[OF h(3)] hex_bytes_eqD[OF h(4)] hex_bytes_eqD[OF h(5)])
    qed
    then show ?thesis by (simp add: vw nibbles_determine)
  qed
qed simp

end
