(* ===== verification/Json_Payload.thy ===== *)
theory Json_Payload
  imports Go_Strings
begin

text \<open>
  The JSON documents the services store and decode.  A \<open>[]byte\<close> that holds JSON is empty, bytes
  that are no JSON text, or a document; \<open>json.Unmarshal\<close> into a struct of pointers is a search
  of the members whose name matches the field tag (exactly or up to case folding, the last one
  wins, \<open>null\<close> resets the pointer, a member of another type is an error).
\<close>

datatype json =
    JNull
  | JBool bool
  | JInt int             \<comment> \<open>a number literal without fraction or exponent\<close>
  | JFloat string        \<comment> \<open>any other number literal\<close>
  | JStr string
  | JArr "json list"
  | JObj "(string \<times> json) list"

datatype payload = PEmpty | PMalformed | PDoc json

section \<open>Decoding\<close>

text \<open>Case folding of a field name: ASCII letters, U+017F (long s) and U+212A (Kelvin sign).\<close>

fun json_fold :: "string \<Rightarrow> string" where
  "json_fold [] = []"
| "json_fold (a # b # c # s) =
     (if [a, b, c] = bytes [226, 132, 170] then CHR ''K'' # json_fold s
      else if [a, b] = bytes [197, 191] then CHR ''S'' # json_fold (c # s)
      else ascii_upper a # json_fold (b # c # s))"
| "json_fold (a # b # s) =
     (if [a, b] = bytes [197, 191] then CHR ''S'' # json_fold s
      else ascii_upper a # json_fold (b # s))"
| "json_fold (a # s) = ascii_upper a # json_fold s"

text \<open>The value of one pointer field; \<open>None\<close> is an \<open>UnmarshalTypeError\<close>.\<close>

fun decode_field :: "string \<Rightarrow> (json \<Rightarrow> 'a option) \<Rightarrow> 'a option \<Rightarrow> (string \<times> json) list
    \<Rightarrow> 'a option option" where
  "decode_field name conv acc [] = Some acc"
| "decode_field name conv acc ((k, v) # ms) =
     (if json_fold k = json_fold name then
        (if v = JNull then decode_field name conv None ms
         else case conv v of None \<Rightarrow> None | Some x \<Rightarrow> decode_field name conv (Some x) ms)
      else decode_field name conv acc ms)"

text \<open>A Go \<open>int\<close> takes an integer literal of 64 bits, a \<open>string\<close> a string.\<close>

fun json_int :: "json \<Rightarrow> int option" where
  "json_int (JInt i) = (if - (2 ^ 63) \<le> i \<and> i < 2 ^ 63 then Some i else None)"
| "json_int _ = None"

fun json_string :: "json \<Rightarrow> string option" where
  "json_string (JStr s) = Some s"
| "json_string _ = None"

text \<open>
  \<open>json.Unmarshal(p, &obj)\<close> for a struct: \<open>dec\<close> reads the members.  A top-level \<open>null\<close> leaves the
  struct zero, any other non-object is an error, and so is an empty text.
\<close>

fun unmarshal_struct :: "((string \<times> json) list \<Rightarrow> 'a option) \<Rightarrow> payload \<Rightarrow> 'a option" where
  "unmarshal_struct dec (PDoc (JObj ms)) = dec ms"
| "unmarshal_struct dec (PDoc JNull) = dec []"
| "unmarshal_struct dec _ = None"

text \<open>\<open>json.Unmarshal\<close> into a \<open>map[string]json.RawMessage\<close> succeeds on objects and on \<open>null\<close>.\<close>

fun unmarshal_map_ok :: "payload \<Rightarrow> bool" where
  "unmarshal_map_ok (PDoc (JObj ms)) \<longleftrightarrow> True"
| "unmarshal_map_ok (PDoc JNull) \<longleftrightarrow> True"
| "unmarshal_map_ok _ \<longleftrightarrow> False"

definition empty_object :: payload where
  "empty_object = PDoc (JObj [])"

lemma json_int_range: "json_int v = Some i \<Longrightarrow> - (2 ^ 63) \<le> i \<and> i < 2 ^ 63"
  by (cases v) (auto split: if_splits)

lemma decode_field_range:
  assumes "decode_field name conv acc ms = Some (Some x)"
    and "\<And>v y. conv v = Some y \<Longrightarrow> Q y" and "pred_option Q acc"
  shows "Q x"
  using assms(1,3)
proof (induction ms arbitrary: acc)
  case (Cons m ms)
  obtain k v where m: "m = (k, v)" by (cases m)
  have "pred_option Q (Some y)" if "conv v = Some y" for y
    using assms(2)[OF that] by simp
  with Cons m show ?case
    by (fastforce split: if_splits option.splits)
qed simp

section \<open>Encoding\<close>

text \<open>\<open>omitempty\<close> of a pointer leaves the member out; without it a \<open>nil\<close> pointer is \<open>null\<close>.\<close>

definition json_opt :: "('a \<Rightarrow> json) \<Rightarrow> 'a option \<Rightarrow> json" where
  "json_opt f x = (case x of None \<Rightarrow> JNull | Some y \<Rightarrow> f y)"

definition omitempty :: "string \<Rightarrow> ('a \<Rightarrow> json) \<Rightarrow> 'a option \<Rightarrow> (string \<times> json) list" where
  "omitempty name f x = (case x of None \<Rightarrow> [] | Some y \<Rightarrow> [(name, f y)])"

text \<open>\<open>json.RawMessage\<close>: the stored document itself, \<open>{}\<close> for an empty column; invalid bytes make
  \<open>json.Marshal\<close> fail.\<close>

fun raw_message :: "payload \<Rightarrow> json option" where
  "raw_message PEmpty = Some (JObj [])"
| "raw_message PMalformed = None"
| "raw_message (PDoc j) = Some j"

text \<open>
  A \<open>map[string]any\<close>: decoding keeps the last of two members of the same name, \<open>json.Marshal\<close>
  writes the members in the order of their names.  A number becomes a \<open>float64\<close>; an integer of at
  most 53 bits survives that unchanged, any other literal is the parameter \<open>fl\<close>, the text
  \<open>strconv\<close> reads and writes (\<open>None\<close> when it is out of range).
\<close>

definition put_member :: "string \<Rightarrow> 'a \<Rightarrow> (string \<times> 'a) list \<Rightarrow> (string \<times> 'a) list" where
  "put_member k v ms = filter (\<lambda>(k', _). k' \<noteq> k) ms @ [(k, v)]"

definition last_members :: "(string \<times> 'a) list \<Rightarrow> (string \<times> 'a) list" where
  "last_members ms = fold (\<lambda>(k, v). put_member k v) ms []"

fun any_json :: "(json \<Rightarrow> json option) \<Rightarrow> json \<Rightarrow> json option" where
  "any_json fl (JInt i) = (if \<bar>i\<bar> \<le> 2 ^ 53 then Some (JInt i) else fl (JInt i))"
| "any_json fl (JFloat s) = fl (JFloat s)"
| "any_json fl (JArr vs) = map_option JArr (those (map (any_json fl) vs))"
| "any_json fl (JObj ms) = map_option (\<lambda>ms. JObj (sort_key fst (last_members ms)))
     (those (map (\<lambda>(k, v). map_option (Pair k) (any_json fl v)) ms))"
| "any_json fl v = Some v"

text \<open>The value of a member, the last one of its name.\<close>

definition member_of :: "string \<Rightarrow> (string \<times> 'a) list \<Rightarrow> 'a option" where
  "member_of k ms = map_option snd (find (\<lambda>(k', _). k' = k) (rev ms))"

lemma member_of_simps [simp]:
  "member_of k [] = None"
  "member_of k (ms @ [(k', v)]) = (if k' = k then Some v else member_of k ms)"
  by (simp_all add: member_of_def)

lemma map_of_put_member: "map_of (put_member k v ms) = (map_of ms)(k \<mapsto> v)"
proof
  fix j
  have "map_of (filter (\<lambda>(k', _). k' \<noteq> k) ms) j = (if j = k then None else map_of ms j)"
    by (induction ms) auto
  then show "map_of (put_member k v ms) j = ((map_of ms)(k \<mapsto> v)) j"
    by (auto simp: put_member_def map_add_def split: option.split)
qed

lemma distinct_put_member: "distinct (map fst ms) \<Longrightarrow> distinct (map fst (put_member k v ms))"
  by (auto simp: put_member_def distinct_map_filter)

lemma find_key_map_of: "map_option snd (find (\<lambda>(k', _). k' = k) ms) = map_of ms k"
  by (induction ms) auto

lemma member_of_distinct:
  assumes "distinct (map fst ms)"
  shows "member_of k ms = map_of ms k"
proof -
  have "distinct (map fst (rev ms))" using assms by (simp flip: rev_map)
  moreover have "set (rev ms) = set ms" by simp
  ultimately have "map_of (rev ms) = map_of ms" using assms by (metis map_of_inject_set)
  then show ?thesis by (simp add: member_of_def find_key_map_of)
qed

lemma member_of_put_member:
  assumes "distinct (map fst ms)"
  shows "member_of j (sort_key fst (put_member k v ms)) = (if j = k then Some v else member_of j ms)"
proof -
  have "mset (map fst (sort_key fst (put_member k v ms))) = mset (map fst (put_member k v ms))"
    by (metis mset_map mset_sort)
  then have "distinct (map fst (sort_key fst (put_member k v ms)))"
    using distinct_put_member[OF assms, of k v] by (metis mset_eq_imp_distinct_iff)
  moreover from this have "map_of (sort_key fst (put_member k v ms)) = map_of (put_member k v ms)"
    using distinct_put_member[OF assms, of k v] by (metis map_of_inject_set set_sort)
  ultimately show ?thesis
    by (simp add: member_of_distinct assms map_of_put_member)
qed

lemma distinct_last_members: "distinct (map fst (last_members ms))"
proof -
  have "distinct (map fst acc) \<Longrightarrow> distinct (map fst (fold (\<lambda>(k, v). put_member k v) ms acc))" for acc
    by (induction ms arbitrary: acc) (auto intro: distinct_put_member)
  then show ?thesis by (simp add: last_members_def)
qed

end
