(* ===== verification/Db_Rows.thy ===== *)
theory Db_Rows
  imports Uuid Json_Payload
begin

text \<open>
  The rows of the tables the modelled services read and write, with the columns of
  \<open>db/sqlc/models.go\<close>: an enum type is a datatype with its SQL text, a nullable column an option,
  a \<open>Timestamptz\<close> an optional instant in microseconds since the epoch, a \<open>JSONB\<close> column a
  \<open>payload\<close>, a \<open>NUMERIC\<close> an optional decimal number.
\<close>

type_synonym timestamp = "int option"

datatype numeric_value =
    NumericDigits int int     \<comment> \<open>coefficient and decimal exponent\<close>
  | NumericNaN
  | NumericInfinity
  | NumericNegInfinity

type_synonym numeric = "numeric_value option"

section \<open>Enum types\<close>

datatype AuditAction =
    AuditActionCreate
  | AuditActionUpdate
  | AuditActionDelete
  | AuditActionLogin
  | AuditActionLogout
  | AuditActionPermissionChange

fun AuditAction_str :: "AuditAction \<Rightarrow> string" where
  "AuditAction_str AuditActionCreate = ''create''"
| "AuditAction_str AuditActionUpdate = ''update''"
| "AuditAction_str AuditActionDelete = ''delete''"
| "AuditAction_str AuditActionLogin = ''login''"
| "AuditAction_str AuditActionLogout = ''logout''"
| "AuditAction_str AuditActionPermissionChange = ''permission_change''"

lemma AuditAction_str_inject [simp]: "AuditAction_str a = AuditAction_str b \<longleftrightarrow> a = b"
  by (cases a; cases b) simp_all

datatype MatchEventType =
    MatchEventTypeMatchStarted
  | MatchEventTypeMatchEnded
  | MatchEventTypeHalfStarted
  | MatchEventTypeHalfEnded
  | MatchEventTypeTimeoutCalled
  | MatchEventTypeTimeoutEnded
  | MatchEventTypeRaidAttempt
  | MatchEventTypeRaidSuccessful
  | MatchEventTypeRaidEmpty
  | MatchEventTypeBonusPointAwarded
  | MatchEventTypeTackleSuccessful
  | MatchEventTypeSuperTackle
  | MatchEventTypeSuperRaid
  | MatchEventTypeDoOrDieRaid
  | MatchEventTypeAllOut
  | MatchEventTypePlayerOut
  | MatchEventTypePlayerRevived
  | MatchEventTypePlayerSubstituted
  | MatchEventTypePlayerInjured
  | MatchEventTypePenaltyAwarded
  | MatchEventTypeScoreCorrection

fun MatchEventType_str :: "MatchEventType \<Rightarrow> string" where
  "MatchEventType_str MatchEventTypeMatchStarted = ''match_started''"
| "MatchEventType_str MatchEventTypeMatchEnded = ''match_ended''"
| "MatchEventType_str MatchEventTypeHalfStarted = ''half_started''"
| "MatchEventType_str MatchEventTypeHalfEnded = ''half_ended''"
| "MatchEventType_str MatchEventTypeTimeoutCalled = ''timeout_called''"
| "MatchEventType_str MatchEventTypeTimeoutEnded = ''timeout_ended''"
| "MatchEventType_str MatchEventTypeRaidAttempt = ''raid_attempt''"
| "MatchEventType_str MatchEventTypeRaidSuccessful = ''raid_successful''"
| "MatchEventType_str MatchEventTypeRaidEmpty = ''raid_empty''"
| "MatchEventType_str MatchEventTypeBonusPointAwarded = ''bonus_point_awarded''"
| "MatchEventType_str MatchEventTypeTackleSuccessful = ''tackle_successful''"
| "MatchEventType_str MatchEventTypeSuperTackle = ''super_tackle''"
| "MatchEventType_str MatchEventTypeSuperRaid = ''super_raid''"
| "MatchEventType_str MatchEventTypeDoOrDieRaid = ''do_or_die_raid''"
| "MatchEventType_str MatchEventTypeAllOut = ''all_out''"
| "MatchEventType_str MatchEventTypePlayerOut = ''player_out''"
| "MatchEventType_str MatchEventTypePlayerRevived = ''player_revived''"
| "MatchEventType_str MatchEventTypePlayerSubstituted = ''player_substituted''"
| "MatchEventType_str MatchEventTypePlayerInjured = ''player_injured''"
| "MatchEventType_str MatchEventTypePenaltyAwarded = ''penalty_awarded''"
| "MatchEventType_str MatchEventTypeScoreCorrection = ''score_correction''"

lemma MatchEventType_str_inject [simp]: "MatchEventType_str a = MatchEventType_str b \<longleftrightarrow> a = b"
  by (cases a; cases b) simp_all

datatype MatchStatus =
    MatchStatusScheduled
  | MatchStatusLive
  | MatchStatusCompleted
  | MatchStatusCancelled
  | MatchStatusPostponed
  | MatchStatusAbandoned
  | MatchStatusWalkover

fun MatchStatus_str :: "MatchStatus \<Rightarrow> string" where
  "MatchStatus_str MatchStatusScheduled = ''scheduled''"
| "MatchStatus_str MatchStatusLive = ''live''"
| "MatchStatus_str MatchStatusCompleted = ''completed''"
| "MatchStatus_str MatchStatusCancelled = ''cancelled''"
| "MatchStatus_str MatchStatusPostponed = ''postponed''"
| "MatchStatus_str MatchStatusAbandoned = ''abandoned''"
| "MatchStatus_str MatchStatusWalkover = ''walkover''"

lemma MatchStatus_str_inject [simp]: "MatchStatus_str a = MatchStatus_str b \<longleftrightarrow> a = b"
  by (cases a; cases b) simp_all

datatype MembershipRole =
    MembershipRolePlayer
  | MembershipRoleCaptain
  | MembershipRoleViceCaptain
  | MembershipRoleCoach
  | MembershipRoleManager
  | MembershipRoleSupportStaff

fun MembershipRole_str :: "MembershipRole \<Rightarrow> string" where
  "MembershipRole_str MembershipRolePlayer = ''player''"
| "MembershipRole_str MembershipRoleCaptain = ''captain''"
| "MembershipRole_str MembershipRoleViceCaptain = ''vice_captain''"
| "MembershipRole_str MembershipRoleCoach = ''coach''"
| "MembershipRole_str MembershipRoleManager = ''manager''"
| "MembershipRole_str MembershipRoleSupportStaff = ''support_staff''"

lemma MembershipRole_str_inject [simp]: "MembershipRole_str a = MembershipRole_str b \<longleftrightarrow> a = b"
  by (cases a; cases b) simp_all

datatype MembershipStatus =
    MembershipStatusActive
  | MembershipStatusInactive
  | MembershipStatusTransferred
  | MembershipStatusReleased

fun MembershipStatus_str :: "MembershipStatus \<Rightarrow> string" where
  "MembershipStatus_str MembershipStatusActive = ''active''"
| "MembershipStatus_str MembershipStatusInactive = ''inactive''"
| "MembershipStatus_str MembershipStatusTransferred = ''transferred''"
| "MembershipStatus_str MembershipStatusReleased = ''released''"

lemma MembershipStatus_str_inject [simp]: "MembershipStatus_str a = MembershipStatus_str b \<longleftrightarrow> a = b"
  by (cases a; cases b) simp_all

datatype NotificationEventType =
    NotificationEventTypeMatchCreated
  | NotificationEventTypeMatchStarted
  | NotificationEventTypeMatchCompleted
  | NotificationEventTypeMatchCancelled
  | NotificationEventTypeMatchAbandoned
  | NotificationEventTypeTournamentStatusChanged
  | NotificationEventTypeRegistrationApproved
  | NotificationEventTypeRegistrationRejected
  | NotificationEventTypeRegistrationWithdrawn

fun NotificationEventType_str :: "NotificationEventType \<Rightarrow> string" where
  "NotificationEventType_str NotificationEventTypeMatchCreated = ''match_created''"
| "NotificationEventType_str NotificationEventTypeMatchStarted = ''match_started''"
| "NotificationEventType_str NotificationEventTypeMatchCompleted = ''match_completed''"
| "NotificationEventType_str NotificationEventTypeMatchCancelled = ''match_cancelled''"
| "NotificationEventType_str NotificationEventTypeMatchAbandoned = ''match_abandoned''"
| "NotificationEventType_str NotificationEventTypeTournamentStatusChanged = ''tournament_status_changed''"
| "NotificationEventType_str NotificationEventTypeRegistrationApproved = ''registration_approved''"
| "NotificationEventType_str NotificationEventTypeRegistrationRejected = ''registration_rejected''"
| "NotificationEventType_str NotificationEventTypeRegistrationWithdrawn = ''registration_withdrawn''"

lemma NotificationEventType_str_inject [simp]: "NotificationEventType_str a = NotificationEventType_str b \<longleftrightarrow> a = b"
  by (cases a; cases b) simp_all

datatype OrgStatus =
    OrgStatusActive
  | OrgStatusInactive
  | OrgStatusSuspended

fun OrgStatus_str :: "OrgStatus \<Rightarrow> string" where
  "OrgStatus_str OrgStatusActive = ''active''"
| "OrgStatus_str OrgStatusInactive = ''inactive''"
| "OrgStatus_str OrgStatusSuspended = ''suspended''"

lemma OrgStatus_str_inject [simp]: "OrgStatus_str a = OrgStatus_str b \<longleftrightarrow> a = b"
  by (cases a; cases b) simp_all

datatype OrgType =
    OrgTypeClub
  | OrgTypeFederation
  | OrgTypeSchool
  | OrgTypeCorporate
  | OrgTypeIndependent

fun OrgType_str :: "OrgType \<Rightarrow> string" where
  "OrgType_str OrgTypeClub = ''club''"
| "OrgType_str OrgTypeFederation = ''federation''"
| "OrgType_str OrgTypeSchool = ''school''"
| "OrgType_str OrgTypeCorporate = ''corporate''"
| "OrgType_str OrgTypeIndependent = ''independent''"

lemma OrgType_str_inject [simp]: "OrgType_str a = OrgType_str b \<longleftrightarrow> a = b"
  by (cases a; cases b) simp_all

datatype ParticipantType =
    ParticipantTypeTeam
  | ParticipantTypeIndividual

fun ParticipantType_str :: "ParticipantType \<Rightarrow> string" where
  "ParticipantType_str ParticipantTypeTeam = ''team''"
| "ParticipantType_str ParticipantTypeIndividual = ''individual''"

lemma ParticipantType_str_inject [simp]: "ParticipantType_str a = ParticipantType_str b \<longleftrightarrow> a = b"
  by (cases a; cases b) simp_all

datatype PlayerStatus =
    PlayerStatusActive
  | PlayerStatusInactive
  | PlayerStatusInjured
  | PlayerStatusSuspended
  | PlayerStatusRetired

fun PlayerStatus_str :: "PlayerStatus \<Rightarrow> string" where
  "PlayerStatus_str PlayerStatusActive = ''active''"
| "PlayerStatus_str PlayerStatusInactive = ''inactive''"
| "PlayerStatus_str PlayerStatusInjured = ''injured''"
| "PlayerStatus_str PlayerStatusSuspended = ''suspended''"
| "PlayerStatus_str PlayerStatusRetired = ''retired''"

lemma PlayerStatus_str_inject [simp]: "PlayerStatus_str a = PlayerStatus_str b \<longleftrightarrow> a = b"
  by (cases a; cases b) simp_all

datatype RegistrationStatus =
    RegistrationStatusPending
  | RegistrationStatusApproved
  | RegistrationStatusRejected
  | RegistrationStatusWithdrawn
  | RegistrationStatusDisqualified

fun RegistrationStatus_str :: "RegistrationStatus \<Rightarrow> string" where
  "RegistrationStatus_str RegistrationStatusPending = ''pending''"
| "RegistrationStatus_str RegistrationStatusApproved = ''approved''"
| "RegistrationStatus_str RegistrationStatusRejected = ''rejected''"
| "RegistrationStatus_str RegistrationStatusWithdrawn = ''withdrawn''"
| "RegistrationStatus_str RegistrationStatusDisqualified = ''disqualified''"

lemma RegistrationStatus_str_inject [simp]: "RegistrationStatus_str a = RegistrationStatus_str b \<longleftrightarrow> a = b"
  by (cases a; cases b) simp_all

datatype TeamStatus =
    TeamStatusActive
  | TeamStatusInactive
  | TeamStatusDisbanded

fun TeamStatus_str :: "TeamStatus \<Rightarrow> string" where
  "TeamStatus_str TeamStatusActive = ''active''"
| "TeamStatus_str TeamStatusInactive = ''inactive''"
| "TeamStatus_str TeamStatusDisbanded = ''disbanded''"

lemma TeamStatus_str_inject [simp]: "TeamStatus_str a = TeamStatus_str b \<longleftrightarrow> a = b"
  by (cases a; cases b) simp_all

datatype TournamentFormat =
    TournamentFormatLeague
  | TournamentFormatKnockout
  | TournamentFormatGroupKnockout
  | TournamentFormatRoundRobin
  | TournamentFormatDoubleElimination

fun TournamentFormat_str :: "TournamentFormat \<Rightarrow> string" where
  "TournamentFormat_str TournamentFormatLeague = ''league''"
| "TournamentFormat_str TournamentFormatKnockout = ''knockout''"
| "TournamentFormat_str TournamentFormatGroupKnockout = ''group_knockout''"
| "TournamentFormat_str TournamentFormatRoundRobin = ''round_robin''"
| "TournamentFormat_str TournamentFormatDoubleElimination = ''double_elimination''"

lemma TournamentFormat_str_inject [simp]: "TournamentFormat_str a = TournamentFormat_str b \<longleftrightarrow> a = b"
  by (cases a; cases b) simp_all

datatype TournamentStatus =
    TournamentStatusDraft
  | TournamentStatusRegistrationOpen
  | TournamentStatusRegistrationClosed
  | TournamentStatusOngoing
  | TournamentStatusCompleted
  | TournamentStatusCancelled

fun TournamentStatus_str :: "TournamentStatus \<Rightarrow> string" where
  "TournamentStatus_str TournamentStatusDraft = ''draft''"
| "TournamentStatus_str TournamentStatusRegistrationOpen = ''registration_open''"
| "TournamentStatus_str TournamentStatusRegistrationClosed = ''registration_closed''"
| "TournamentStatus_str TournamentStatusOngoing = ''ongoing''"
| "TournamentStatus_str TournamentStatusCompleted = ''completed''"
| "TournamentStatus_str TournamentStatusCancelled = ''cancelled''"

lemma TournamentStatus_str_inject [simp]: "TournamentStatus_str a = TournamentStatus_str b \<longleftrightarrow> a = b"
  by (cases a; cases b) simp_all

datatype TournamentVisibility =
    TournamentVisibilityPrivate
  | TournamentVisibilityUnlisted
  | TournamentVisibilityPublic

fun TournamentVisibility_str :: "TournamentVisibility \<Rightarrow> string" where
  "TournamentVisibility_str TournamentVisibilityPrivate = ''private''"
| "TournamentVisibility_str TournamentVisibilityUnlisted = ''unlisted''"
| "TournamentVisibility_str TournamentVisibilityPublic = ''public''"

lemma TournamentVisibility_str_inject [simp]: "TournamentVisibility_str a = TournamentVisibility_str b \<longleftrightarrow> a = b"
  by (cases a; cases b) simp_all

section \<open>Rows\<close>

record org_row =
  o_ID :: uuid
  o_Name :: string
  o_Slug :: string
  o_Description :: "string option"
  o_Type :: OrgType
  o_Status :: OrgStatus
  o_LogoUrl :: "string option"
  o_Website :: "string option"
  o_Email :: "string option"
  o_Phone :: "string option"
  o_Country :: "string option"
  o_City :: "string option"
  o_Settings :: payload
  o_CreatedAt :: timestamp
  o_UpdatedAt :: timestamp

record team_row =
  tm_ID :: uuid
  tm_OrganizationID :: uuid
  tm_Name :: string
  tm_ShortName :: "string option"
  tm_Slug :: string
  tm_Description :: "string option"
  tm_LogoUrl :: "string option"
  tm_HomeCity :: "string option"
  tm_HomeVenue :: "string option"
  tm_FoundedYear :: "int option"
  tm_PrimaryColor :: "string option"
  tm_SecondaryColor :: "string option"
  tm_Status :: TeamStatus
  tm_Metadata :: payload
  tm_CreatedAt :: timestamp
  tm_UpdatedAt :: timestamp

record player_row =
  pl_ID :: uuid
  pl_OrganizationID :: uuid
  pl_UserID :: uuid
  pl_DisplayName :: string
  pl_JerseyNumber :: "string option"
  pl_Position :: "string option"
  pl_HeightCm :: "int option"
  pl_WeightKg :: "int option"
  pl_DominantHand :: "string option"
  pl_Nationality :: "string option"
  pl_DateOfBirth :: "int option"
  pl_Status :: PlayerStatus
  pl_Bio :: "string option"
  pl_Metadata :: payload
  pl_CreatedAt :: timestamp
  pl_UpdatedAt :: timestamp
  pl_Visibility :: string
  pl_ArchivedAt :: timestamp

record membership_row =
  ms_ID :: uuid
  ms_TeamID :: uuid
  ms_PlayerID :: uuid
  ms_Role :: MembershipRole
  ms_JerseyNumber :: "string option"
  ms_Status :: MembershipStatus
  ms_JoinedAt :: timestamp
  ms_LeftAt :: timestamp
  ms_Notes :: "string option"
  ms_CreatedAt :: timestamp
  ms_UpdatedAt :: timestamp
  ms_OrganizationID :: uuid

record tournament_row =
  t_ID :: uuid
  t_OrganizationID :: uuid
  t_Name :: string
  t_Slug :: string
  t_Description :: "string option"
  t_Sport :: string
  t_Format :: TournamentFormat
  t_ParticipantType :: ParticipantType
  t_Status :: TournamentStatus
  t_BannerUrl :: "string option"
  t_PrizePool :: numeric
  t_Currency :: string
  t_MaxParticipants :: "int option"
  t_MinParticipants :: "int option"
  t_RegistrationOpensAt :: timestamp
  t_RegistrationClosesAt :: timestamp
  t_StartsAt :: timestamp
  t_EndsAt :: timestamp
  t_Venue :: "string option"
  t_City :: "string option"
  t_Country :: "string option"
  t_Rules :: "string option"
  t_Settings :: payload
  t_CreatedBy :: uuid
  t_CreatedAt :: timestamp
  t_UpdatedAt :: timestamp
  t_Visibility :: TournamentVisibility

record registration_row =
  r_ID :: uuid
  r_TournamentID :: uuid
  r_OrganizationID :: uuid
  r_TeamID :: uuid
  r_PlayerID :: uuid
  r_SeedNumber :: "int option"
  r_Status :: RegistrationStatus
  r_RegisteredBy :: uuid
  r_RegisteredAt :: timestamp
  r_ApprovedBy :: uuid
  r_ApprovedAt :: timestamp
  r_Notes :: "string option"
  r_Metadata :: payload
  r_CreatedAt :: timestamp
  r_UpdatedAt :: timestamp

record match_row =
  m_ID :: uuid
  m_TournamentID :: uuid
  m_OrganizationID :: uuid
  m_RoundNumber :: "int option"
  m_RoundName :: "string option"
  m_MatchNumber :: "int option"
  m_HomeTeamID :: uuid
  m_AwayTeamID :: uuid
  m_HomePlayerID :: uuid
  m_AwayPlayerID :: uuid
  m_Venue :: "string option"
  m_ScheduledAt :: timestamp
  m_StartedAt :: timestamp
  m_EndedAt :: timestamp
  m_Status :: MatchStatus
  m_WinnerTeamID :: uuid
  m_WinnerPlayerID :: uuid
  m_IsWalkover :: bool
  m_Notes :: "string option"
  m_Metadata :: payload
  m_CreatedAt :: timestamp
  m_UpdatedAt :: timestamp
  m_HomeScore :: int
  m_AwayScore :: int
  m_NextMatchID :: uuid
  m_NextMatchSlot :: "int option"
  m_GroupLabel :: "string option"

record event_row =
  e_ID :: uuid
  e_MatchID :: uuid
  e_OrganizationID :: uuid
  e_SequenceNumber :: int
  e_EventType :: MatchEventType
  e_TeamID :: uuid
  e_PlayerID :: uuid
  e_Period :: "int option"
  e_ClockSeconds :: "int option"
  e_Payload :: payload
  e_RecordedBy :: uuid
  e_RecordedAt :: timestamp
  e_CancelsEventID :: uuid
  e_CreatedAt :: timestamp

record audit_row =
  al_ID :: uuid
  al_OrganizationID :: uuid
  al_UserID :: uuid
  al_Action :: AuditAction
  al_EntityType :: string
  al_EntityID :: uuid
  al_OldData :: payload
  al_NewData :: payload
  al_IpAddress :: "string option"
  al_UserAgent :: "string option"
  al_CreatedAt :: timestamp

record outbox_row =
  ob_ID :: uuid
  ob_OrganizationID :: uuid
  ob_EventType :: NotificationEventType
  ob_ActorID :: uuid
  ob_EntityType :: string
  ob_EntityID :: uuid
  ob_Payload :: payload
  ob_ProcessedAt :: timestamp
  ob_CreatedAt :: timestamp

text \<open>
  The zero value of a row, for the struct literals of the code that name some fields only.  (Its
  enum fields, the empty string in Go, are never read by the code that builds such a row.)
\<close>

definition zero_match :: match_row where
  "zero_match = \<lparr>m_ID = None, m_TournamentID = None, m_OrganizationID = None,
     m_RoundNumber = None, m_RoundName = None, m_MatchNumber = None, m_HomeTeamID = None,
     m_AwayTeamID = None, m_HomePlayerID = None, m_AwayPlayerID = None, m_Venue = None,
     m_ScheduledAt = None, m_StartedAt = None, m_EndedAt = None, m_Status = MatchStatusScheduled,
     m_WinnerTeamID = None, m_WinnerPlayerID = None, m_IsWalkover = False, m_Notes = None,
     m_Metadata = PEmpty, m_CreatedAt = None, m_UpdatedAt = None, m_HomeScore = 0,
     m_AwayScore = 0, m_NextMatchID = None, m_NextMatchSlot = None, m_GroupLabel = None\<rparr>"

definition zero_event :: event_row where
  "zero_event = \<lparr>e_ID = None, e_MatchID = None, e_OrganizationID = None,
     e_SequenceNumber = 0, e_EventType = MatchEventTypeMatchStarted, e_TeamID = None,
     e_PlayerID = None, e_Period = None, e_ClockSeconds = None, e_Payload = PEmpty,
     e_RecordedBy = None, e_RecordedAt = None, e_CancelsEventID = None,
     e_CreatedAt = None\<rparr>"

lemmas zero_rows = zero_match_def zero_event_def

end
