(* ===== verification/Sql_Store.thy ===== *)
theory Sql_Store
  imports Db_Rows
begin

text \<open>
  The database as the services see it: one list of rows per table, in insertion order.  A query
  of the generated layer (\<open>db/sqlc\<close>) is a function of the database; a transaction is a function
  into \<open>'e + ('a \<times> database)\<close>, where \<open>Inl\<close> is the early return that rolls it back, so that the
  database of the caller is the one before the transaction.  The row locks of the code make a
  transaction atomic with respect to the rows it decides on; that is how it is modelled here.
  Failures of the connection are not modelled: \<open>ErrNoRows\<close> and a violated constraint are.
\<close>

record database =
  organizations :: "org_row list"
  teams :: "team_row list"
  players :: "player_row list"
  team_memberships :: "membership_row list"
  tournaments :: "tournament_row list"
  tournament_registrations :: "registration_row list"
  matches :: "match_row list"
  match_events :: "event_row list"
  audit_logs :: "audit_row list"
  notification_outbox :: "outbox_row list"

datatype sql_error = ErrNoRows | ConstraintViolation string

text \<open>
  What a handler takes from outside the repository: the driver's \<open>UUID.Scan\<close>, \<open>time.Parse\<close> and
  \<open>Time.Format\<close> for RFC 3339, the driver's text form of a \<open>NUMERIC\<close>, the clock of the process and of the transaction, and the
  identifiers \<open>gen_random_uuid()\<close> gives to the rows the transaction inserts.
\<close>

record env =
  env_scan :: "string \<Rightarrow> 128 word option"
  env_parse_time :: "string \<Rightarrow> int option"
  env_format_time :: "int \<Rightarrow> string"
  env_numeric_scan :: "string \<Rightarrow> numeric_value option"
  env_numeric_text :: "numeric_value \<Rightarrow> string option"
  env_now :: int
  env_db_now :: int
  env_row_id :: "128 word"
  env_audit_id :: "128 word"
  env_outbox_id :: "128 word"

text \<open>
  Times are microseconds since 1970, the resolution of \<open>TIMESTAMPTZ\<close>.  The zero \<open>time.Time\<close>,
  the first instant of year 1, is the \<open>Time\<close> of a \<open>NULL\<close>.
\<close>

definition zero_time :: int where
  "zero_time = - 62135596800000000"

definition ts_Time :: "timestamp \<Rightarrow> int" where
  "ts_Time ts = (case ts of None \<Rightarrow> zero_time | Some t \<Rightarrow> t)"

text \<open>\<open>assertOrgOwnership\<close>, with the \<open>ErrForbidden\<close> of its package: an actor without an
  organization is a platform administrator.\<close>

definition assert_owner :: "'e \<Rightarrow> string \<Rightarrow> string \<Rightarrow> 'e + unit" where
  "assert_owner e actorOrgID targetOrgID =
     (if actorOrgID = [] then Inr () else ensure (actorOrgID = targetOrgID) e)"

lemma assert_owner_Inr [result_simps, simp]: "assert_owner e a b = Inr u \<longleftrightarrow> a = [] \<or> a = b"
  by (auto simp: assert_owner_def)

section \<open>Statements\<close>

definition sql_eq :: "'a option \<Rightarrow> 'a option \<Rightarrow> bool" where
  "sql_eq a b \<longleftrightarrow> a \<noteq> None \<and> a = b"

definition select_one :: "('r \<Rightarrow> bool) \<Rightarrow> 'r list \<Rightarrow> sql_error + 'r" where
  "select_one P rows = opt_res ErrNoRows (find P rows)"

definition update_rows :: "('r \<Rightarrow> bool) \<Rightarrow> ('r \<Rightarrow> 'r) \<Rightarrow> 'r list \<Rightarrow> 'r list" where
  "update_rows P upd rows = map (\<lambda>r. if P r then upd r else r) rows"

definition page :: "int \<Rightarrow> int \<Rightarrow> 'r list \<Rightarrow> 'r list" where
  "page limit offset rows = take (nat limit) (drop (nat offset) rows)"

text \<open>\<open>GREATEST(NOW(), t + INTERVAL '1 millisecond')\<close>, which ignores a \<open>NULL\<close>.\<close>

definition after_start :: "int \<Rightarrow> timestamp \<Rightarrow> timestamp" where
  "after_start now started = Some (case started of None \<Rightarrow> now | Some s \<Rightarrow> max now (s + 1000))"

lemma sql_eq_simps [simp]:
  "\<not> sql_eq None b" "\<not> sql_eq a None" "sql_eq (Some x) (Some y) \<longleftrightarrow> x = y"
  by (auto simp: sql_eq_def)

lemma sql_eq_iff: "sql_eq a b \<longleftrightarrow> a = b \<and> a \<noteq> None"
  by (auto simp: sql_eq_def)

lemma select_one_Inr [result_simps]:
  "select_one P rows = Inr r \<longleftrightarrow> find P rows = Some r"
  by (simp add: select_one_def)

lemma select_one_Inl [result_simps]:
  "select_one P rows = Inl e \<longleftrightarrow> e = ErrNoRows \<and> (\<forall>r \<in> set rows. \<not> P r)"
  by (auto simp: select_one_def find_None_iff)

lemma find_key_unique:
  assumes "distinct (map key rows)" "r \<in> set rows" "P r"
    and "\<And>r'. P r' \<Longrightarrow> key r' = key r"
  shows "find P rows = Some r"
  using assms(1,2)
proof (induction rows)
  case (Cons x xs)
  show ?case
  proof (cases "P x")
    case True
    with assms(4) have "key x = key r" by simp
    with Cons.prems have "x = r" by (metis image_eqI list.set_map list.simps(9) distinct.simps(2) set_ConsD)
    with True show ?thesis by simp
  next
    case False
    with assms(3) Cons show ?thesis by auto
  qed
qed simp

lemma length_update_rows [simp]: "length (update_rows P upd rows) = length rows"
  by (simp add: update_rows_def)

lemma update_rows_id: "(\<And>r. r \<in> set rows \<Longrightarrow> \<not> P r) \<Longrightarrow> update_rows P upd rows = rows"
  by (simp add: update_rows_def map_idI)

lemma in_update_rows:
  "r \<in> set (update_rows P upd rows) \<longleftrightarrow>
     (\<exists>r0 \<in> set rows. r = (if P r0 then upd r0 else r0))"
  by (auto simp: update_rows_def)

text \<open>\<open>if err == pgx.ErrNoRows { return e }; return err\<close>\<close>

fun no_rows_as :: "'e \<Rightarrow> (sql_error \<Rightarrow> 'e) \<Rightarrow> sql_error + 'a \<Rightarrow> 'e + 'a" where
  "no_rows_as e wrap (Inl ErrNoRows) = Inl e"
| "no_rows_as e wrap (Inl (ConstraintViolation c)) = Inl (wrap (ConstraintViolation c))"
| "no_rows_as e wrap (Inr x) = Inr x"

lemma no_rows_as_Inr [result_simps, simp]: "no_rows_as e wrap r = Inr x \<longleftrightarrow> r = Inr x"
proof (cases r)
  case (Inl err)
  then show ?thesis by (cases err) simp_all
qed simp

text \<open>
  An \<open>UPDATE\<close> that does not assign the primary key keeps the keys of the table, and with
  distinct keys it changes the one row it selects.
\<close>

locale keyed_update =
  fixes key :: "'r \<Rightarrow> uuid" and upd :: "'r \<Rightarrow> 'r"
  assumes key_upd: "key (upd r) = key r"
begin

lemma keys_update_rows [simp]: "map key (update_rows P upd rows) = map key rows"
  by (simp add: update_rows_def key_upd)

lemma find_updated:
  assumes "distinct (map key rows)" "find P rows = Some r" "\<And>r'. P r' \<Longrightarrow> key r' = key r"
  shows "find (\<lambda>r'. key r' = key r) (update_rows P upd rows) = Some (upd r)"
proof (rule find_key_unique)
  show "distinct (map key (update_rows P upd rows))" using assms(1) by simp
  have "r \<in> set rows" "P r" using assms(2) by (auto dest: find_SomeD)
  then show "upd r \<in> set (update_rows P upd rows)" by (auto simp: in_update_rows)
qed (simp_all add: key_upd)

lemma other_rows_kept:
  assumes "r \<in> set (update_rows P upd rows)" "\<And>r'. P r' \<Longrightarrow> key r' = k" "key r \<noteq> k"
  shows "r \<in> set rows"
  using assms by (auto simp: in_update_rows key_upd split: if_splits)

lemma updated_row:
  assumes "r \<in> set (update_rows P upd rows)"
  obtains r0 where "r0 \<in> set rows" "key r0 = key r" "r = r0 \<and> \<not> P r0 \<or> r = upd r0 \<and> P r0"
  using assms by (auto simp: in_update_rows key_upd split: if_splits)

end

section \<open>Shared queries\<close>

definition GetOrganizationBySlug :: "database \<Rightarrow> string \<Rightarrow> sql_error + org_row" where
  "GetOrganizationBySlug d slug = select_one (\<lambda>org. o_Slug org = slug) (organizations d)"

definition GetTeamByID :: "database \<Rightarrow> uuid \<Rightarrow> uuid \<Rightarrow> sql_error + team_row" where
  "GetTeamByID d uid orgID =
     select_one (\<lambda>t. sql_eq (tm_ID t) uid \<and> sql_eq (tm_OrganizationID t) orgID) (teams d)"

definition GetPlayerByID :: "database \<Rightarrow> uuid \<Rightarrow> uuid \<Rightarrow> sql_error + player_row" where
  "GetPlayerByID d uid orgID =
     select_one (\<lambda>p. sql_eq (pl_ID p) uid \<and> sql_eq (pl_OrganizationID p) orgID) (players d)"

definition GetTournamentByID :: "database \<Rightarrow> uuid \<Rightarrow> uuid \<Rightarrow> sql_error + tournament_row" where
  "GetTournamentByID d uid orgID =
     select_one (\<lambda>t. sql_eq (t_ID t) uid \<and> sql_eq (t_OrganizationID t) orgID) (tournaments d)"

definition GetApprovedRegistrationByTeam :: "database \<Rightarrow> uuid \<Rightarrow> uuid \<Rightarrow> sql_error + uuid" where
  "GetApprovedRegistrationByTeam d tournamentID teamID = res_bind
     (select_one (\<lambda>r. sql_eq (r_TournamentID r) tournamentID \<and> sql_eq (r_TeamID r) teamID
        \<and> r_Status r = RegistrationStatusApproved) (tournament_registrations d))
     (\<lambda>r. Inr (r_ID r))"

definition GetApprovedRegistrationByPlayer :: "database \<Rightarrow> uuid \<Rightarrow> uuid \<Rightarrow> sql_error + uuid" where
  "GetApprovedRegistrationByPlayer d tournamentID playerID = res_bind
     (select_one (\<lambda>r. sql_eq (r_TournamentID r) tournamentID \<and> sql_eq (r_PlayerID r) playerID
        \<and> r_Status r = RegistrationStatusApproved) (tournament_registrations d))
     (\<lambda>r. Inr (r_ID r))"

definition LockTournamentForShare :: "database \<Rightarrow> uuid \<Rightarrow> uuid \<Rightarrow> sql_error + TournamentStatus" where
  "LockTournamentForShare d uid orgID = res_bind
     (select_one (\<lambda>t. sql_eq (t_ID t) uid \<and> sql_eq (t_OrganizationID t) orgID) (tournaments d))
     (\<lambda>t. Inr (t_Status t))"

section \<open>Audit log and outbox\<close>

record CreateAuditLogParams =
  alp_OrganizationID :: uuid
  alp_UserID :: uuid
  alp_Action :: AuditAction
  alp_EntityType :: string
  alp_EntityID :: uuid
  alp_OldData :: payload
  alp_NewData :: payload
  alp_IpAddress :: "string option"
  alp_UserAgent :: "string option"

text \<open>A Go struct literal leaves the fields it does not name at their zero value.\<close>

abbreviation auditParams :: "uuid \<Rightarrow> uuid \<Rightarrow> AuditAction \<Rightarrow> string \<Rightarrow> uuid \<Rightarrow> payload \<Rightarrow> payload
    \<Rightarrow> CreateAuditLogParams" where
  "auditParams org user action entity entityID oldData newData \<equiv>
     \<lparr>alp_OrganizationID = org, alp_UserID = user, alp_Action = action, alp_EntityType = entity,
      alp_EntityID = entityID, alp_OldData = oldData, alp_NewData = newData,
      alp_IpAddress = None, alp_UserAgent = None\<rparr>"

definition CreateAuditLog :: "env \<Rightarrow> CreateAuditLogParams \<Rightarrow> database \<Rightarrow> database" where
  "CreateAuditLog ev p d = d\<lparr>audit_logs := audit_logs d @ [
     \<lparr>al_ID = Some (env_audit_id ev), al_OrganizationID = alp_OrganizationID p,
      al_UserID = alp_UserID p, al_Action = alp_Action p, al_EntityType = alp_EntityType p,
      al_EntityID = alp_EntityID p, al_OldData = alp_OldData p, al_NewData = alp_NewData p,
      al_IpAddress = alp_IpAddress p, al_UserAgent = alp_UserAgent p,
      al_CreatedAt = Some (env_db_now ev)\<rparr>]\<rparr>"

record OutboxParams =
  obp_OrganizationID :: uuid
  obp_EventType :: NotificationEventType
  obp_ActorID :: uuid
  obp_EntityType :: string
  obp_EntityID :: uuid
  obp_Payload :: "(string \<times> json) list"

text \<open>\<open>json.Marshal\<close> of a map writes the members in the order of their names.\<close>

definition marshalPayload :: "(string \<times> json) list \<Rightarrow> payload" where
  "marshalPayload m = (if m = [] then empty_object else PDoc (JObj (sort_key fst m)))"

definition CreateNotificationOutboxEntry ::
  "env \<Rightarrow> OutboxParams \<Rightarrow> payload \<Rightarrow> database \<Rightarrow> database" where
  "CreateNotificationOutboxEntry ev p payload d = d\<lparr>notification_outbox := notification_outbox d @ [
     \<lparr>ob_ID = Some (env_outbox_id ev), ob_OrganizationID = obp_OrganizationID p,
      ob_EventType = obp_EventType p, ob_ActorID = obp_ActorID p, ob_EntityType = obp_EntityType p,
      ob_EntityID = obp_EntityID p, ob_Payload = payload, ob_ProcessedAt = None,
      ob_CreatedAt = Some (env_db_now ev)\<rparr>]\<rparr>"

definition WriteOutboxEntry :: "env \<Rightarrow> OutboxParams \<Rightarrow> database \<Rightarrow> database" where
  "WriteOutboxEntry ev p d =
     CreateNotificationOutboxEntry ev p (marshalPayload (obp_Payload p)) d"

named_theorems frame_simps

lemma CreateAuditLog_frame [simp, frame_simps]:
  "organizations (CreateAuditLog ev p d) = organizations d"
  "teams (CreateAuditLog ev p d) = teams d"
  "players (CreateAuditLog ev p d) = players d"
  "team_memberships (CreateAuditLog ev p d) = team_memberships d"
  "tournaments (CreateAuditLog ev p d) = tournaments d"
  "tournament_registrations (CreateAuditLog ev p d) = tournament_registrations d"
  "matches (CreateAuditLog ev p d) = matches d"
  "match_events (CreateAuditLog ev p d) = match_events d"
  "notification_outbox (CreateAuditLog ev p d) = notification_outbox d"
  by (simp_all add: CreateAuditLog_def)

lemma WriteOutboxEntry_frame [simp, frame_simps]:
  "organizations (WriteOutboxEntry ev p d) = organizations d"
  "teams (WriteOutboxEntry ev p d) = teams d"
  "players (WriteOutboxEntry ev p d) = players d"
  "team_memberships (WriteOutboxEntry ev p d) = team_memberships d"
  "tournaments (WriteOutboxEntry ev p d) = tournaments d"
  "tournament_registrations (WriteOutboxEntry ev p d) = tournament_registrations d"
  "matches (WriteOutboxEntry ev p d) = matches d"
  "match_events (WriteOutboxEntry ev p d) = match_events d"
  "audit_logs (WriteOutboxEntry ev p d) = audit_logs d"
  by (simp_all add: WriteOutboxEntry_def CreateNotificationOutboxEntry_def)

end
