(* ===== verification/Match_Store.thy ===== *)
theory Match_Store
  imports Sql_Store "HOL-Library.Product_Lexorder"
begin

text \<open>
  The queries of \<open>db/sqlc/matches.sql.go\<close> on the table \<open>matches\<close>, with the constraints the
  migrations put on the table (\<open>000010\<close>, \<open>000014\<close>, \<open>000029\<close>): a statement that would store a row
  violating one of them fails with \<open>ConstraintViolation\<close>.
\<close>

section \<open>Constraints\<close>

text \<open>
  A \<open>CHECK\<close> is satisfied unless it evaluates to false; a comparison with \<open>NULL\<close> is unknown.
\<close>

definition one_of_known :: "uuid \<Rightarrow> uuid \<Rightarrow> uuid \<Rightarrow> bool" where
  "one_of_known w a b \<longleftrightarrow> w = None \<or> a = None \<or> b = None \<or> w = a \<or> w = b"

definition match_checks :: "match_row \<Rightarrow> bool" where
  "match_checks m \<longleftrightarrow>
     ((m_HomePlayerID m = None \<and> m_AwayPlayerID m = None)
        \<or> (m_HomeTeamID m = None \<and> m_AwayTeamID m = None))
   \<and> (case (m_StartedAt m, m_EndedAt m) of (Some s, Some e) \<Rightarrow> s < e | _ \<Rightarrow> True)
   \<and> (m_IsWalkover m \<longrightarrow> m_WinnerTeamID m \<noteq> None \<or> m_WinnerPlayerID m \<noteq> None)
   \<and> one_of_known (m_WinnerTeamID m) (m_HomeTeamID m) (m_AwayTeamID m)
   \<and> one_of_known (m_WinnerPlayerID m) (m_HomePlayerID m) (m_AwayPlayerID m)
   \<and> (m_NextMatchSlot m = None \<or> m_NextMatchSlot m = Some 1 \<or> m_NextMatchSlot m = Some 2)
   \<and> (m_NextMatchID m = None \<or> m_NextMatchID m \<noteq> m_ID m)"

definition refers :: "('r \<Rightarrow> uuid) \<Rightarrow> 'r list \<Rightarrow> uuid \<Rightarrow> bool" where
  "refers key rows u \<longleftrightarrow> u = None \<or> u \<in> key ` set rows"

definition match_references :: "database \<Rightarrow> match_row \<Rightarrow> bool" where
  "match_references d m \<longleftrightarrow>
     refers t_ID (tournaments d) (m_TournamentID m) \<and> refers o_ID (organizations d) (m_OrganizationID m)
   \<and> refers tm_ID (teams d) (m_HomeTeamID m) \<and> refers tm_ID (teams d) (m_AwayTeamID m)
   \<and> refers tm_ID (teams d) (m_WinnerTeamID m) \<and> refers pl_ID (players d) (m_HomePlayerID m)
   \<and> refers pl_ID (players d) (m_AwayPlayerID m) \<and> refers pl_ID (players d) (m_WinnerPlayerID m)
   \<and> refers m_ID (matches d) (m_NextMatchID m)"

text \<open>The trigger \<open>fn_check_matches_org\<close> on \<open>INSERT\<close>.\<close>

definition match_org_consistent :: "database \<Rightarrow> match_row \<Rightarrow> bool" where
  "match_org_consistent d m \<longleftrightarrow>
     (case find (\<lambda>t. sql_eq (t_ID t) (m_TournamentID m)) (tournaments d) of
        None \<Rightarrow> m_OrganizationID m = None
      | Some t \<Rightarrow> m_OrganizationID m = t_OrganizationID t)"

definition match_key :: "uuid \<Rightarrow> uuid \<Rightarrow> match_row \<Rightarrow> bool" where
  "match_key uid orgID m \<longleftrightarrow> sql_eq (m_ID m) uid \<and> sql_eq (m_OrganizationID m) orgID"

section \<open>Reads\<close>

definition GetMatchByID :: "database \<Rightarrow> uuid \<Rightarrow> uuid \<Rightarrow> sql_error + match_row" where
  "GetMatchByID d uid orgID = select_one (match_key uid orgID) (matches d)"

definition CountMatchesFeedingSlot :: "database \<Rightarrow> uuid \<Rightarrow> int option \<Rightarrow> uuid \<Rightarrow> uuid \<Rightarrow> int" where
  "CountMatchesFeedingSlot d nextID slot orgID excludeID = int (length (filter
     (\<lambda>m. sql_eq (m_NextMatchID m) nextID \<and> sql_eq (m_NextMatchSlot m) slot
        \<and> sql_eq (m_OrganizationID m) orgID \<and> (excludeID = None \<or> m_ID m \<noteq> excludeID)
        \<and> m_Status m \<noteq> MatchStatusCancelled) (matches d)))"

text \<open>
  \<open>ILIKE\<close>, with the case folding of ASCII letters; \<open>%\<close> matches any text, \<open>_\<close> one character,
  a backslash takes the next character literally.
\<close>

fun sql_like :: "string \<Rightarrow> string \<Rightarrow> bool" where
  "sql_like [] [] \<longleftrightarrow> True"
| "sql_like [] (c # cs) \<longleftrightarrow> False"
| "sql_like (p # ps) [] \<longleftrightarrow> p = CHR ''%'' \<and> sql_like ps []"
| "sql_like (p # ps) (c # cs) \<longleftrightarrow>
     (if p = CHR ''%'' then sql_like ps (c # cs) \<or> sql_like (p # ps) cs
      else if p = CHR ''_'' then sql_like ps cs
      else if p = CHR 0x5C \<and> ps \<noteq> [] then ascii_lower (hd ps) = ascii_lower c \<and> sql_like (tl ps) cs
      else ascii_lower p = ascii_lower c \<and> sql_like ps cs)"

definition ilike_contains :: "string option \<Rightarrow> string \<Rightarrow> bool" where
  "ilike_contains col q = (case col of None \<Rightarrow> False | Some s \<Rightarrow> sql_like (''%'' @ q @ ''%'') s)"

definition match_filter :: "uuid \<Rightarrow> uuid \<Rightarrow> string option \<Rightarrow> string option \<Rightarrow> match_row \<Rightarrow> bool" where
  "match_filter orgID tournament status query m \<longleftrightarrow>
     sql_eq (m_OrganizationID m) orgID
   \<and> (tournament = None \<or> m_TournamentID m = tournament)
   \<and> (case status of None \<Rightarrow> True | Some s \<Rightarrow> MatchStatus_str (m_Status m) = s)
   \<and> (case query of None \<Rightarrow> True
      | Some q \<Rightarrow> ilike_contains (m_Venue m) q \<or> ilike_contains (m_RoundName m) q)"

definition CountMatches :: "database \<Rightarrow> uuid \<Rightarrow> uuid \<Rightarrow> string option \<Rightarrow> string option \<Rightarrow> int" where
  "CountMatches d orgID tournament status query =
     int (length (filter (match_filter orgID tournament status query) (matches d)))"

text \<open>\<open>ORDER BY a ASC NULLS LAST, b DESC\<close>; rows that tie keep the order of the table.\<close>

definition nulls_last :: "int option \<Rightarrow> bool \<times> int" where
  "nulls_last x = (case x of None \<Rightarrow> (True, 0) | Some n \<Rightarrow> (False, n))"

definition created_desc :: "timestamp \<Rightarrow> int" where
  "created_desc t = (case t of None \<Rightarrow> 0 | Some n \<Rightarrow> - n)"

definition ListMatchesPaginated :: "database \<Rightarrow> uuid \<Rightarrow> uuid \<Rightarrow> string option \<Rightarrow> string option
    \<Rightarrow> int \<Rightarrow> int \<Rightarrow> match_row list" where
  "ListMatchesPaginated d orgID tournament status query offset limit = page limit offset
     (sort_key (\<lambda>m. (nulls_last (m_ScheduledAt m), created_desc (m_CreatedAt m)))
        (filter (match_filter orgID tournament status query) (matches d)))"

definition ListMatchesByTournament :: "database \<Rightarrow> uuid \<Rightarrow> uuid \<Rightarrow> match_row list" where
  "ListMatchesByTournament d tournamentID orgID =
     sort_key (\<lambda>m. (nulls_last (m_RoundNumber m), nulls_last (m_MatchNumber m)))
       (filter (\<lambda>m. sql_eq (m_TournamentID m) tournamentID \<and> sql_eq (m_OrganizationID m) orgID) (matches d))"

record CompletedMatchRow =
  lc_ID :: uuid
  lc_HomeTeamID :: uuid
  lc_AwayTeamID :: uuid
  lc_HomePlayerID :: uuid
  lc_AwayPlayerID :: uuid
  lc_WinnerTeamID :: uuid
  lc_WinnerPlayerID :: uuid
  lc_IsWalkover :: bool
  lc_HomeScore :: int
  lc_AwayScore :: int

definition ListCompletedMatchesByTournament :: "database \<Rightarrow> uuid \<Rightarrow> uuid \<Rightarrow> CompletedMatchRow list" where
  "ListCompletedMatchesByTournament d tournamentID orgID =
     map (\<lambda>m. \<lparr>lc_ID = m_ID m, lc_HomeTeamID = m_HomeTeamID m, lc_AwayTeamID = m_AwayTeamID m,
            lc_HomePlayerID = m_HomePlayerID m, lc_AwayPlayerID = m_AwayPlayerID m,
            lc_WinnerTeamID = m_WinnerTeamID m, lc_WinnerPlayerID = m_WinnerPlayerID m,
            lc_IsWalkover = m_IsWalkover m, lc_HomeScore = m_HomeScore m, lc_AwayScore = m_AwayScore m\<rparr>)
       (sort_key (\<lambda>m. created_desc (m_CreatedAt m) * - 1)
         (filter (\<lambda>m. sql_eq (m_TournamentID m) tournamentID \<and> sql_eq (m_OrganizationID m) orgID
            \<and> m_Status m \<in> {MatchStatusCompleted, MatchStatusWalkover}) (matches d)))"

record LockMatchForProgressionRow =
  lp_ID :: uuid
  lp_OrganizationID :: uuid
  lp_TournamentID :: uuid
  lp_Status :: MatchStatus
  lp_HomeTeamID :: uuid
  lp_AwayTeamID :: uuid
  lp_HomePlayerID :: uuid
  lp_AwayPlayerID :: uuid

definition LockMatchForProgression :: "database \<Rightarrow> uuid \<Rightarrow> uuid \<Rightarrow> sql_error + LockMatchForProgressionRow" where
  "LockMatchForProgression d uid orgID = res_bind (select_one (match_key uid orgID) (matches d))
     (\<lambda>m. Inr \<lparr>lp_ID = m_ID m, lp_OrganizationID = m_OrganizationID m, lp_TournamentID = m_TournamentID m,
        lp_Status = m_Status m, lp_HomeTeamID = m_HomeTeamID m, lp_AwayTeamID = m_AwayTeamID m,
        lp_HomePlayerID = m_HomePlayerID m, lp_AwayPlayerID = m_AwayPlayerID m\<rparr>)"

record LockMatchForUpdateRow =
  lk_ID :: uuid
  lk_OrganizationID :: uuid
  lk_Status :: MatchStatus
  lk_HomeTeamID :: uuid
  lk_AwayTeamID :: uuid
  lk_HomePlayerID :: uuid
  lk_AwayPlayerID :: uuid

definition LockMatchForUpdate :: "database \<Rightarrow> uuid \<Rightarrow> uuid \<Rightarrow> sql_error + LockMatchForUpdateRow" where
  "LockMatchForUpdate d uid orgID = res_bind (select_one (match_key uid orgID) (matches d))
     (\<lambda>m. Inr \<lparr>lk_ID = m_ID m, lk_OrganizationID = m_OrganizationID m, lk_Status = m_Status m,
        lk_HomeTeamID = m_HomeTeamID m, lk_AwayTeamID = m_AwayTeamID m,
        lk_HomePlayerID = m_HomePlayerID m, lk_AwayPlayerID = m_AwayPlayerID m\<rparr>)"

section \<open>Writes\<close>

text \<open>An \<open>UPDATE ... RETURNING\<close> of the row that satisfies \<open>P\<close>.\<close>

definition update_match :: "(match_row \<Rightarrow> bool) \<Rightarrow> (match_row \<Rightarrow> match_row) \<Rightarrow> database
    \<Rightarrow> sql_error + (match_row \<times> database)" where
  "update_match P upd d = (case find P (matches d) of
       None \<Rightarrow> Inl ErrNoRows
     | Some m \<Rightarrow>
         if match_checks (upd m) \<and> match_references d (upd m)
         then Inr (upd m, d\<lparr>matches := update_rows P upd (matches d)\<rparr>)
         else Inl (ConstraintViolation ''matches''))"

record CreateMatchParams =
  cp_TournamentID :: uuid
  cp_OrganizationID :: uuid
  cp_RoundNumber :: "int option"
  cp_RoundName :: "string option"
  cp_MatchNumber :: "int option"
  cp_HomeTeamID :: uuid
  cp_AwayTeamID :: uuid
  cp_HomePlayerID :: uuid
  cp_AwayPlayerID :: uuid
  cp_Venue :: "string option"
  cp_ScheduledAt :: timestamp
  cp_Status :: MatchStatus
  cp_Notes :: "string option"
  cp_NextMatchID :: uuid
  cp_NextMatchSlot :: "int option"
  cp_GroupLabel :: "string option"

definition created_match :: "env \<Rightarrow> CreateMatchParams \<Rightarrow> match_row" where
  "created_match ev p = \<lparr>m_ID = Some (env_row_id ev), m_TournamentID = cp_TournamentID p,
     m_OrganizationID = cp_OrganizationID p, m_RoundNumber = cp_RoundNumber p,
     m_RoundName = cp_RoundName p, m_MatchNumber = cp_MatchNumber p,
     m_HomeTeamID = cp_HomeTeamID p, m_AwayTeamID = cp_AwayTeamID p,
     m_HomePlayerID = cp_HomePlayerID p, m_AwayPlayerID = cp_AwayPlayerID p,
     m_Venue = cp_Venue p, m_ScheduledAt = cp_ScheduledAt p, m_StartedAt = None, m_EndedAt = None,
     m_Status = cp_Status p, m_WinnerTeamID = None, m_WinnerPlayerID = None,
     m_IsWalkover = False, m_Notes = cp_Notes p, m_Metadata = empty_object,
     m_CreatedAt = Some (env_db_now ev), m_UpdatedAt = Some (env_db_now ev),
     m_HomeScore = 0, m_AwayScore = 0, m_NextMatchID = cp_NextMatchID p,
     m_NextMatchSlot = cp_NextMatchSlot p, m_GroupLabel = cp_GroupLabel p\<rparr>"

text \<open>An \<open>INSERT ... RETURNING\<close> of a row of \<open>matches\<close>.\<close>

definition insert_match :: "match_row \<Rightarrow> database \<Rightarrow> sql_error + (match_row \<times> database)" where
  "insert_match m d =
     (if m_ID m \<notin> m_ID ` set (matches d) \<and> match_checks m \<and> match_references d m \<and> match_org_consistent d m
      then Inr (m, d\<lparr>matches := matches d @ [m]\<rparr>)
      else Inl (ConstraintViolation ''matches''))"

definition CreateMatch :: "env \<Rightarrow> CreateMatchParams \<Rightarrow> database \<Rightarrow> sql_error + (match_row \<times> database)" where
  "CreateMatch ev p d = insert_match (created_match ev p) d"

record UpdateMatchParams =
  up_ID :: uuid
  up_OrganizationID :: uuid
  up_RoundNumber :: "int option"
  up_RoundName :: "string option"
  up_MatchNumber :: "int option"
  up_HomeTeamID :: uuid
  up_AwayTeamID :: uuid
  up_HomePlayerID :: uuid
  up_AwayPlayerID :: uuid
  up_Venue :: "string option"
  up_ScheduledAt :: timestamp
  up_StartedAt :: timestamp
  up_Column13 :: timestamp
  up_Status :: MatchStatus
  up_WinnerTeamID :: uuid
  up_WinnerPlayerID :: uuid
  up_Notes :: "string option"
  up_HomeScore :: int
  up_AwayScore :: int
  up_NextMatchID :: uuid
  up_NextMatchSlot :: "int option"
  up_GroupLabel :: "string option"
  up_Status_2 :: MatchStatus

definition updated_match :: "env \<Rightarrow> UpdateMatchParams \<Rightarrow> match_row \<Rightarrow> match_row" where
  "updated_match ev p m = m\<lparr>m_RoundNumber := up_RoundNumber p, m_RoundName := up_RoundName p,
     m_MatchNumber := up_MatchNumber p, m_HomeTeamID := up_HomeTeamID p,
     m_AwayTeamID := up_AwayTeamID p, m_HomePlayerID := up_HomePlayerID p,
     m_AwayPlayerID := up_AwayPlayerID p, m_Venue := up_Venue p,
     m_ScheduledAt := up_ScheduledAt p, m_StartedAt := up_StartedAt p,
     m_EndedAt := (case up_Column13 p of None \<Rightarrow> None | Some e \<Rightarrow> after_start e (m_StartedAt m)),
     m_Status := up_Status p, m_WinnerTeamID := up_WinnerTeamID p,
     m_WinnerPlayerID := up_WinnerPlayerID p, m_Notes := up_Notes p,
     m_HomeScore := up_HomeScore p, m_AwayScore := up_AwayScore p,
     m_NextMatchID := up_NextMatchID p, m_NextMatchSlot := up_NextMatchSlot p,
     m_GroupLabel := up_GroupLabel p, m_UpdatedAt := Some (env_db_now ev)\<rparr>"

definition UpdateMatch :: "env \<Rightarrow> UpdateMatchParams \<Rightarrow> database \<Rightarrow> sql_error + (match_row \<times> database)" where
  "UpdateMatch ev p d = update_match
     (\<lambda>m. match_key (up_ID p) (up_OrganizationID p) m \<and> m_Status m = up_Status_2 p)
     (updated_match ev p) d"

definition cancelled_match :: "env \<Rightarrow> match_row \<Rightarrow> match_row" where
  "cancelled_match ev m = m\<lparr>m_Status := MatchStatusCancelled, m_UpdatedAt := Some (env_db_now ev)\<rparr>"

definition CancelMatch :: "env \<Rightarrow> uuid \<Rightarrow> uuid \<Rightarrow> MatchStatus \<Rightarrow> database
    \<Rightarrow> sql_error + (match_row \<times> database)" where
  "CancelMatch ev uid orgID status d = update_match
     (\<lambda>m. match_key uid orgID m \<and> m_Status m = status) (cancelled_match ev) d"

record SetMatchWalkoverParams =
  wp_ID :: uuid
  wp_OrganizationID :: uuid
  wp_WinnerTeamID :: uuid
  wp_WinnerPlayerID :: uuid
  wp_Notes :: "string option"
  wp_Status :: MatchStatus

definition walkover_match :: "env \<Rightarrow> SetMatchWalkoverParams \<Rightarrow> match_row \<Rightarrow> match_row" where
  "walkover_match ev p m = m\<lparr>m_Status := MatchStatusWalkover, m_IsWalkover := True,
     m_WinnerTeamID := wp_WinnerTeamID p, m_WinnerPlayerID := wp_WinnerPlayerID p,
     m_HomeScore := 0, m_AwayScore := 0,
     m_EndedAt := after_start (env_db_now ev) (m_StartedAt m),
     m_Notes := wp_Notes p, m_UpdatedAt := Some (env_db_now ev)\<rparr>"

definition SetMatchWalkover :: "env \<Rightarrow> SetMatchWalkoverParams \<Rightarrow> database
    \<Rightarrow> sql_error + (match_row \<times> database)" where
  "SetMatchWalkover ev p d = update_match
     (\<lambda>m. match_key (wp_ID p) (wp_OrganizationID p) m \<and> m_Status m = wp_Status p)
     (walkover_match ev p) d"

record SetMatchParticipantsParams =
  sp_ID :: uuid
  sp_OrganizationID :: uuid
  sp_HomeTeamID :: uuid
  sp_AwayTeamID :: uuid
  sp_HomePlayerID :: uuid
  sp_AwayPlayerID :: uuid

definition seated_match :: "env \<Rightarrow> SetMatchParticipantsParams \<Rightarrow> match_row \<Rightarrow> match_row" where
  "seated_match ev p m = m\<lparr>m_HomeTeamID := sp_HomeTeamID p, m_AwayTeamID := sp_AwayTeamID p,
     m_HomePlayerID := sp_HomePlayerID p, m_AwayPlayerID := sp_AwayPlayerID p,
     m_UpdatedAt := Some (env_db_now ev)\<rparr>"

text \<open>\<open>:execrows\<close>: the number of rows, zero when the match has left \<open>scheduled\<close>.\<close>

definition SetMatchParticipants :: "env \<Rightarrow> SetMatchParticipantsParams \<Rightarrow> database
    \<Rightarrow> sql_error + (nat \<times> database)" where
  "SetMatchParticipants ev p d =
     (let P = (\<lambda>m. match_key (sp_ID p) (sp_OrganizationID p) m \<and> m_Status m = MatchStatusScheduled) in
      case update_match P (seated_match ev p) d of
        Inr (_, d') \<Rightarrow> Inr (length (filter P (matches d)), d')
      | Inl ErrNoRows \<Rightarrow> Inr (0, d)
      | Inl e \<Rightarrow> Inl e)"

section \<open>Lemmas\<close>

interpretation update_row: keyed_update m_ID "updated_match ev p" for ev p
  by unfold_locales (simp add: updated_match_def)

interpretation cancel_row: keyed_update m_ID "cancelled_match ev" for ev
  by unfold_locales (simp add: cancelled_match_def)

interpretation walkover_row: keyed_update m_ID "walkover_match ev p" for ev p
  by unfold_locales (simp add: walkover_match_def)

interpretation seat_row: keyed_update m_ID "seated_match ev p" for ev p
  by unfold_locales (simp add: seated_match_def)

lemma update_match_Inr [result_simps]:
  "update_match P upd d = Inr (m', d') \<longleftrightarrow>
     (\<exists>m. find P (matches d) = Some m \<and> m' = upd m \<and> match_checks (upd m)
        \<and> match_references d (upd m) \<and> d' = d\<lparr>matches := update_rows P upd (matches d)\<rparr>)"
  by (auto simp: update_match_def split: option.splits if_splits)

lemma insert_match_Inr [result_simps]:
  "insert_match m d = Inr (m', d') \<longleftrightarrow> m' = m \<and> d' = d\<lparr>matches := matches d @ [m]\<rparr>
     \<and> m_ID m \<notin> m_ID ` set (matches d) \<and> match_checks m \<and> match_references d m \<and> match_org_consistent d m"
  by (auto simp: insert_match_def)

lemma match_key_unique: "match_key uid orgID m \<Longrightarrow> m_ID m = uid"
  by (simp add: match_key_def sql_eq_iff)

end
