(* ===== verification/Event_Store.thy ===== *)
theory Event_Store
  imports Match_Store
begin

text \<open>
  The queries of \<open>db/sqlc/match_events.sql.go\<close> on the append-only table \<open>match_events\<close>, with the
  constraints of the migrations \<open>000011\<close> and \<open>000014\<close>.
\<close>

definition of_match :: "uuid \<Rightarrow> uuid \<Rightarrow> event_row \<Rightarrow> bool" where
  "of_match matchID orgID e \<longleftrightarrow> sql_eq (e_MatchID e) matchID \<and> sql_eq (e_OrganizationID e) orgID"

text \<open>
  \<open>NOT IN (SELECT cancels_event_id ... IS NOT NULL)\<close>: the event is not the target of a
  correction of the same match.
\<close>

definition is_cancelled :: "database \<Rightarrow> uuid \<Rightarrow> event_row \<Rightarrow> bool" where
  "is_cancelled d matchID e \<longleftrightarrow> (\<exists>c \<in> set (match_events d).
     sql_eq (e_MatchID c) matchID \<and> sql_eq (e_CancelsEventID c) (e_ID e))"

definition effective :: "database \<Rightarrow> uuid \<Rightarrow> uuid \<Rightarrow> event_row \<Rightarrow> bool" where
  "effective d matchID orgID e \<longleftrightarrow> of_match matchID orgID e \<and> \<not> is_cancelled d matchID e"

definition CountEffectiveMatchEventsByMatch :: "database \<Rightarrow> uuid \<Rightarrow> uuid \<Rightarrow> int" where
  "CountEffectiveMatchEventsByMatch d matchID orgID =
     int (length (filter (effective d matchID orgID) (match_events d)))"

definition CountMatchEventsByMatch :: "database \<Rightarrow> uuid \<Rightarrow> uuid \<Rightarrow> int" where
  "CountMatchEventsByMatch d matchID orgID = int (length (filter (of_match matchID orgID) (match_events d)))"

definition CountMatchEventsByType :: "database \<Rightarrow> uuid \<Rightarrow> MatchEventType \<Rightarrow> int" where
  "CountMatchEventsByType d matchID et =
     int (length (filter (\<lambda>e. sql_eq (e_MatchID e) matchID \<and> e_EventType e = et) (match_events d)))"

definition GetEffectiveMatchEventsForScore :: "database \<Rightarrow> uuid \<Rightarrow> uuid \<Rightarrow> event_row list" where
  "GetEffectiveMatchEventsForScore d matchID orgID =
     sort_key e_SequenceNumber (filter (effective d matchID orgID) (match_events d))"

definition GetEventCancellation :: "database \<Rightarrow> uuid \<Rightarrow> uuid \<Rightarrow> sql_error + uuid" where
  "GetEventCancellation d matchID cancelsEventID = res_bind
     (select_one (\<lambda>e. sql_eq (e_MatchID e) matchID \<and> sql_eq (e_CancelsEventID e) cancelsEventID)
        (match_events d)) (\<lambda>e. Inr (e_ID e))"

definition GetMatchEventByID :: "database \<Rightarrow> uuid \<Rightarrow> uuid \<Rightarrow> sql_error + event_row" where
  "GetMatchEventByID d uid orgID =
     select_one (\<lambda>e. sql_eq (e_ID e) uid \<and> sql_eq (e_OrganizationID e) orgID) (match_events d)"

definition GetMatchEventByMatchAndID :: "database \<Rightarrow> uuid \<Rightarrow> uuid \<Rightarrow> uuid \<Rightarrow> sql_error + event_row" where
  "GetMatchEventByMatchAndID d uid matchID orgID =
     select_one (\<lambda>e. sql_eq (e_ID e) uid \<and> of_match matchID orgID e) (match_events d)"

record GetMatchEventForCorrectionRow =
  gc_ID :: uuid
  gc_MatchID :: uuid
  gc_EventType :: MatchEventType

definition GetMatchEventForCorrection :: "database \<Rightarrow> uuid \<Rightarrow> sql_error + GetMatchEventForCorrectionRow" where
  "GetMatchEventForCorrection d uid = res_bind
     (select_one (\<lambda>e. sql_eq (e_ID e) uid) (match_events d))
     (\<lambda>e. Inr \<lparr>gc_ID = e_ID e, gc_MatchID = e_MatchID e, gc_EventType = e_EventType e\<rparr>)"

text \<open>\<open>COALESCE(MAX(sequence_number), 0)\<close>\<close>

definition GetMaxSequenceNumber :: "database \<Rightarrow> uuid \<Rightarrow> int" where
  "GetMaxSequenceNumber d matchID =
     (let seqs = map e_SequenceNumber (filter (\<lambda>e. sql_eq (e_MatchID e) matchID) (match_events d)) in
      if seqs = [] then 0 else Max (set seqs))"

definition active_on :: "uuid \<Rightarrow> uuid \<Rightarrow> membership_row \<Rightarrow> bool" where
  "active_on playerID teamID ms \<longleftrightarrow> sql_eq (ms_PlayerID ms) playerID \<and> sql_eq (ms_TeamID ms) teamID
     \<and> ms_Status ms = MembershipStatusActive"

definition IsPlayerOnParticipatingTeam :: "database \<Rightarrow> uuid \<Rightarrow> uuid \<Rightarrow> uuid \<Rightarrow> bool" where
  "IsPlayerOnParticipatingTeam d playerID homeTeamID awayTeamID \<longleftrightarrow>
     (\<exists>ms \<in> set (team_memberships d). active_on playerID homeTeamID ms \<or> active_on playerID awayTeamID ms)"

definition IsPlayerOnTeam :: "database \<Rightarrow> uuid \<Rightarrow> uuid \<Rightarrow> bool" where
  "IsPlayerOnTeam d playerID teamID \<longleftrightarrow> (\<exists>ms \<in> set (team_memberships d). active_on playerID teamID ms)"

definition ListEffectiveMatchEventsByMatch :: "database \<Rightarrow> uuid \<Rightarrow> uuid \<Rightarrow> int \<Rightarrow> int \<Rightarrow> event_row list" where
  "ListEffectiveMatchEventsByMatch d matchID orgID offset limit = page limit offset
     (sort_key e_SequenceNumber (filter (effective d matchID orgID) (match_events d)))"

definition ListMatchEventsByMatch :: "database \<Rightarrow> uuid \<Rightarrow> uuid \<Rightarrow> int \<Rightarrow> int \<Rightarrow> event_row list" where
  "ListMatchEventsByMatch d matchID orgID offset limit = page limit offset
     (sort_key e_SequenceNumber (filter (of_match matchID orgID) (match_events d)))"

section \<open>Insertion\<close>

record CreateMatchEventParams =
  ep_MatchID :: uuid
  ep_OrganizationID :: uuid
  ep_SequenceNumber :: int
  ep_EventType :: MatchEventType
  ep_TeamID :: uuid
  ep_PlayerID :: uuid
  ep_Period :: "int option"
  ep_ClockSeconds :: "int option"
  ep_Payload :: payload
  ep_RecordedBy :: uuid
  ep_RecordedAt :: timestamp
  ep_CancelsEventID :: uuid

definition created_event :: "env \<Rightarrow> CreateMatchEventParams \<Rightarrow> event_row" where
  "created_event ev p = \<lparr>e_ID = Some (env_row_id ev), e_MatchID = ep_MatchID p,
     e_OrganizationID = ep_OrganizationID p, e_SequenceNumber = ep_SequenceNumber p,
     e_EventType = ep_EventType p, e_TeamID = ep_TeamID p, e_PlayerID = ep_PlayerID p,
     e_Period = ep_Period p, e_ClockSeconds = ep_ClockSeconds p, e_Payload = ep_Payload p,
     e_RecordedBy = ep_RecordedBy p, e_RecordedAt = ep_RecordedAt p,
     e_CancelsEventID = ep_CancelsEventID p, e_CreatedAt = Some (env_db_now ev)\<rparr>"

definition event_checks :: "event_row \<Rightarrow> bool" where
  "event_checks e \<longleftrightarrow> e_SequenceNumber e > 0
   \<and> (case e_Period e of None \<Rightarrow> True | Some n \<Rightarrow> n > 0)
   \<and> (case e_ClockSeconds e of None \<Rightarrow> True | Some n \<Rightarrow> n \<ge> 0)
   \<and> (e_EventType e = MatchEventTypeScoreCorrection \<longrightarrow> e_CancelsEventID e \<noteq> None)
   \<and> (e_CancelsEventID e = None \<or> e_CancelsEventID e \<noteq> e_ID e)
   \<and> (\<exists>j. e_Payload e = PDoc j)"

definition event_unique :: "database \<Rightarrow> event_row \<Rightarrow> bool" where
  "event_unique d e \<longleftrightarrow> (\<forall>e' \<in> set (match_events d). e_ID e' \<noteq> e_ID e
     \<and> (e_MatchID e' = e_MatchID e \<longrightarrow> e_SequenceNumber e' \<noteq> e_SequenceNumber e))"

definition event_references :: "database \<Rightarrow> event_row \<Rightarrow> bool" where
  "event_references d e \<longleftrightarrow>
     refers m_ID (matches d) (e_MatchID e) \<and> refers o_ID (organizations d) (e_OrganizationID e)
   \<and> refers tm_ID (teams d) (e_TeamID e) \<and> refers pl_ID (players d) (e_PlayerID e)
   \<and> refers e_ID (match_events d) (e_CancelsEventID e)
   \<and> (case find (\<lambda>m. sql_eq (m_ID m) (e_MatchID e)) (matches d) of
        None \<Rightarrow> e_OrganizationID e = None
      | Some m \<Rightarrow> e_OrganizationID e = m_OrganizationID m)"

definition CreateMatchEvent :: "env \<Rightarrow> CreateMatchEventParams \<Rightarrow> database
    \<Rightarrow> sql_error + (event_row \<times> database)" where
  "CreateMatchEvent ev p d = (let e = created_event ev p in
     if event_unique d e \<and> event_checks e \<and> event_references d e
     then Inr (e, d\<lparr>match_events := match_events d @ [e]\<rparr>)
     else Inl (ConstraintViolation ''match_events''))"

section \<open>Lemmas\<close>

lemma GetMaxSequenceNumber_ge:
  assumes "e \<in> set (match_events d)" "sql_eq (e_MatchID e) matchID"
  shows "e_SequenceNumber e \<le> GetMaxSequenceNumber d matchID"
  using assms unfolding GetMaxSequenceNumber_def Let_def by (auto simp: filter_empty_conv intro!: Max_ge)

lemma GetMaxSequenceNumber_attained:
  "GetMaxSequenceNumber d matchID = 0 \<or>
   (\<exists>e \<in> set (match_events d). sql_eq (e_MatchID e) matchID \<and> e_SequenceNumber e = GetMaxSequenceNumber d matchID)"
proof (cases "filter (\<lambda>e. sql_eq (e_MatchID e) matchID) (match_events d) = []")
  case False
  let ?S = "e_SequenceNumber ` {e \<in> set (match_events d). sql_eq (e_MatchID e) matchID}"
  have "Max ?S \<in> ?S" using False by (intro Max_in) (auto simp: filter_empty_conv)
  with False show ?thesis by (auto simp: GetMaxSequenceNumber_def Let_def)
qed (simp add: GetMaxSequenceNumber_def)

end
