(* ===== verification/Scoring.thy ===== *)
theory Scoring
  imports Db_Rows
begin

text \<open>
  Package \<open>scoring\<close>: the kabaddi rules that turn the effective event log of a match into its
  score, and the checks an event's payload passes before it is written to the log.
\<close>

datatype side = sideNone | sideHome | sideAway

record ScoreResult =
  sr_MatchID :: string
  sr_MatchStatus :: string
  sr_IsWalkover :: bool
  sr_HomeTeamID :: string
  sr_AwayTeamID :: string
  sr_HomePlayerID :: string
  sr_AwayPlayerID :: string
  sr_HomeScore :: int
  sr_AwayScore :: int

section \<open>Attribution of an event (rules.go)\<close>

definition participantSide :: "event_row \<Rightarrow> match_row \<Rightarrow> side" where
  "participantSide evt m =
     (if Valid (m_HomeTeamID m) then
        (let ident = UUIDToString (e_TeamID evt) in
         if ident = [] then sideNone
         else if ident = UUIDToString (m_HomeTeamID m) then sideHome
         else if ident = UUIDToString (m_AwayTeamID m) then sideAway
         else sideNone)
      else
        (let ident = UUIDToString (e_PlayerID evt) in
         if ident = [] then sideNone
         else if ident = UUIDToString (m_HomePlayerID m) then sideHome
         else if ident = UUIDToString (m_AwayPlayerID m) then sideAway
         else sideNone))"

definition sideByID :: "string \<Rightarrow> match_row \<Rightarrow> side" where
  "sideByID ident m =
     (if ident = [] then sideNone
      else if Valid (m_HomeTeamID m) \<and> ident = UUIDToString (m_HomeTeamID m) then sideHome
      else if Valid (m_AwayTeamID m) \<and> ident = UUIDToString (m_AwayTeamID m) then sideAway
      else if Valid (m_HomePlayerID m) \<and> ident = UUIDToString (m_HomePlayerID m) then sideHome
      else if Valid (m_AwayPlayerID m) \<and> ident = UUIDToString (m_AwayPlayerID m) then sideAway
      else sideNone)"

text \<open>The anonymous structs the payload is decoded into.\<close>

definition dec_points :: "(string \<times> json) list \<Rightarrow> int option option" where
  "dec_points ms = decode_field ''points'' json_int None ms"

definition dec_team_id :: "(string \<times> json) list \<Rightarrow> string option option" where
  "dec_team_id ms = decode_field ''team_id'' json_string None ms"

definition dec_all_out :: "(string \<times> json) list \<Rightarrow> (string option \<times> int option) option" where
  "dec_all_out ms =
     (case dec_team_id ms of None \<Rightarrow> None
      | Some t \<Rightarrow> (case decode_field ''bonus_points'' json_int None ms of None \<Rightarrow> None
         | Some b \<Rightarrow> Some (t, b)))"

definition payloadPoints :: "payload \<Rightarrow> int" where
  "payloadPoints p = (if p = PEmpty then 0 else
     case unmarshal_struct dec_points p of
       None \<Rightarrow> 0
     | Some None \<Rightarrow> 0
     | Some (Some n) \<Rightarrow> if n \<le> 0 then 0 else n)"

definition allOutScore :: "payload \<Rightarrow> match_row \<Rightarrow> int \<times> side" where
  "allOutScore p m = (if p = PEmpty then (0, sideNone) else
     case unmarshal_struct dec_all_out p of
       None \<Rightarrow> (0, sideNone)
     | Some (None, _) \<Rightarrow> (0, sideNone)
     | Some (Some t, b) \<Rightarrow>
         if t = [] then (0, sideNone)
         else case b of None \<Rightarrow> (0, sideNone)
              | Some n \<Rightarrow> if n \<le> 0 then (0, sideNone)
                  else case sideByID t m of
                    sideHome \<Rightarrow> (n, sideAway)
                  | sideAway \<Rightarrow> (n, sideHome)
                  | sideNone \<Rightarrow> (0, sideNone))"

section \<open>The engine (engine.go)\<close>

fun event_points :: "MatchEventType \<Rightarrow> payload \<Rightarrow> match_row \<Rightarrow> side \<Rightarrow> int \<times> side" where
  "event_points MatchEventTypeRaidSuccessful p m s = (payloadPoints p, s)"
| "event_points MatchEventTypeBonusPointAwarded p m s = (1, s)"
| "event_points MatchEventTypeTackleSuccessful p m s = (1, s)"
| "event_points MatchEventTypeSuperTackle p m s = (2, s)"
| "event_points MatchEventTypeAllOut p m s = allOutScore p m"
| "event_points MatchEventTypePenaltyAwarded p m s = (payloadPoints p, s)"
| "event_points MatchEventTypeSuperRaid p m s = (0, sideNone)"
| "event_points _ p m s = (0, sideNone)"

definition pointsForEvent :: "event_row \<Rightarrow> match_row \<Rightarrow> int \<times> side" where
  "pointsForEvent evt m = event_points (e_EventType evt) (e_Payload evt) m (participantSide evt m)"

fun add_points :: "int \<times> side \<Rightarrow> ScoreResult \<Rightarrow> ScoreResult" where
  "add_points (pts, sideHome) res = res\<lparr>sr_HomeScore := int64 (sr_HomeScore res + pts)\<rparr>"
| "add_points (pts, sideAway) res = res\<lparr>sr_AwayScore := int64 (sr_AwayScore res + pts)\<rparr>"
| "add_points (pts, sideNone) res = res"

definition score_header :: "match_row \<Rightarrow> ScoreResult" where
  "score_header m =
     (let res = \<lparr>sr_MatchID = UUIDToString (m_ID m), sr_MatchStatus = MatchStatus_str (m_Status m),
        sr_IsWalkover = m_IsWalkover m, sr_HomeTeamID = [], sr_AwayTeamID = [],
        sr_HomePlayerID = [], sr_AwayPlayerID = [], sr_HomeScore = 0, sr_AwayScore = 0\<rparr>
      in if Valid (m_HomeTeamID m)
         then res\<lparr>sr_HomeTeamID := UUIDToString (m_HomeTeamID m),
                  sr_AwayTeamID := UUIDToString (m_AwayTeamID m)\<rparr>
         else res\<lparr>sr_HomePlayerID := UUIDToString (m_HomePlayerID m),
                  sr_AwayPlayerID := UUIDToString (m_AwayPlayerID m)\<rparr>)"

definition Compute :: "match_row \<Rightarrow> event_row list \<Rightarrow> ScoreResult" where
  "Compute m events = fold (\<lambda>evt res. add_points (pointsForEvent evt m) res) events (score_header m)"

section \<open>Write-time validation (validation.go)\<close>

datatype scoring_error =
    ErrPayloadMissingPoints
  | ErrPayloadMissingTeamID
  | ErrPayloadMissingBonusPoints
  | ErrPayloadTeamIDNotParticipant

definition normalizePayload :: "payload \<Rightarrow> payload" where
  "normalizePayload p = (if p = PEmpty then empty_object else p)"

definition validatePoints :: "payload \<Rightarrow> scoring_error + unit" where
  "validatePoints p = (case unmarshal_struct dec_points p of
       None \<Rightarrow> Inl ErrPayloadMissingPoints
     | Some None \<Rightarrow> Inl ErrPayloadMissingPoints
     | Some (Some n) \<Rightarrow> if n \<le> 0 then Inl ErrPayloadMissingPoints else Inr ())"

definition validateAllOut :: "payload \<Rightarrow> scoring_error + unit" where
  "validateAllOut p = (case unmarshal_struct dec_all_out p of
       None \<Rightarrow> Inl ErrPayloadMissingTeamID
     | Some (None, _) \<Rightarrow> Inl ErrPayloadMissingTeamID
     | Some (Some t, b) \<Rightarrow>
         if t = [] then Inl ErrPayloadMissingTeamID
         else case b of None \<Rightarrow> Inl ErrPayloadMissingBonusPoints
              | Some n \<Rightarrow> if n \<le> 0 then Inl ErrPayloadMissingBonusPoints else Inr ())"

fun ValidateScoreEventPayload :: "MatchEventType \<Rightarrow> payload \<Rightarrow> scoring_error + unit" where
  "ValidateScoreEventPayload MatchEventTypeRaidSuccessful p = validatePoints (normalizePayload p)"
| "ValidateScoreEventPayload MatchEventTypePenaltyAwarded p = validatePoints (normalizePayload p)"
| "ValidateScoreEventPayload MatchEventTypeAllOut p = validateAllOut (normalizePayload p)"
| "ValidateScoreEventPayload _ p = Inr ()"

definition ValidateAllOutParticipant :: "payload \<Rightarrow> string \<Rightarrow> string \<Rightarrow> scoring_error + unit" where
  "ValidateAllOutParticipant p homeTeamID awayTeamID =
     (case unmarshal_struct dec_team_id (normalizePayload p) of
        None \<Rightarrow> Inl ErrPayloadMissingTeamID
      | Some None \<Rightarrow> Inl ErrPayloadMissingTeamID
      | Some (Some t) \<Rightarrow>
          if t = [] then Inl ErrPayloadMissingTeamID
          else if homeTeamID = [] \<and> awayTeamID = [] then Inl ErrPayloadTeamIDNotParticipant
          else if t \<noteq> homeTeamID \<and> t \<noteq> awayTeamID then Inl ErrPayloadTeamIDNotParticipant
          else Inr ())"

section \<open>Lemmas\<close>

text \<open>The points one event gives to one side.\<close>

definition points_to :: "side \<Rightarrow> match_row \<Rightarrow> event_row \<Rightarrow> int" where
  "points_to s m evt = (if snd (pointsForEvent evt m) = s then fst (pointsForEvent evt m) else 0)"

lemma payloadPoints_nonneg: "0 \<le> payloadPoints p"
  by (auto simp: payloadPoints_def split: option.splits)

lemma allOutScore_nonneg: "0 \<le> fst (allOutScore p m)"
  by (auto simp: allOutScore_def split: option.splits side.splits prod.splits)

lemma pointsForEvent_nonneg: "0 \<le> fst (pointsForEvent evt m)"
  by (cases "e_EventType evt")
    (simp_all add: pointsForEvent_def payloadPoints_nonneg allOutScore_nonneg)

lemma points_to_nonneg: "0 \<le> points_to s m evt"
  by (simp add: points_to_def pointsForEvent_nonneg)

lemma add_points_home: "sr_HomeScore res = int64 x \<Longrightarrow>
    sr_HomeScore (add_points (pointsForEvent e m) res) = int64 (x + points_to sideHome m e)"
  by (cases "pointsForEvent e m"; cases "snd (pointsForEvent e m)") (simp_all add: points_to_def)

lemma add_points_away: "sr_AwayScore res = int64 x \<Longrightarrow>
    sr_AwayScore (add_points (pointsForEvent e m) res) = int64 (x + points_to sideAway m e)"
  by (cases "pointsForEvent e m"; cases "snd (pointsForEvent e m)") (simp_all add: points_to_def)

lemma fold_home: "sr_HomeScore res = int64 x \<Longrightarrow>
    sr_HomeScore (fold (\<lambda>e. add_points (pointsForEvent e m)) es res)
      = int64 (x + sum_list (map (points_to sideHome m) es))"
proof (induction es arbitrary: res x)
  case (Cons e es)
  from Cons.IH[OF add_points_home[OF Cons.prems]] show ?case by (simp add: add.assoc)
qed simp

lemma fold_away: "sr_AwayScore res = int64 x \<Longrightarrow>
    sr_AwayScore (fold (\<lambda>e. add_points (pointsForEvent e m)) es res)
      = int64 (x + sum_list (map (points_to sideAway m) es))"
proof (induction es arbitrary: res x)
  case (Cons e es)
  from Cons.IH[OF add_points_away[OF Cons.prems]] show ?case by (simp add: add.assoc)
qed simp

lemma score_header_zero [simp]: "sr_HomeScore (score_header m) = 0" "sr_AwayScore (score_header m) = 0"
  by (simp_all add: score_header_def Let_def)

lemma Compute_home: "sr_HomeScore (Compute m es) = int64 (sum_list (map (points_to sideHome m) es))"
  using fold_home[of "score_header m" 0 m es] by (simp add: Compute_def)

lemma Compute_away: "sr_AwayScore (Compute m es) = int64 (sum_list (map (points_to sideAway m) es))"
  using fold_away[of "score_header m" 0 m es] by (simp add: Compute_def)

lemma sum_list_map_mset:
  fixes f :: "'b \<Rightarrow> int"
  assumes "mset es' = mset es"
  shows "sum_list (map f es') = sum_list (map f es)"
  using assms by (metis mset_map sum_mset_sum_list)

text \<open>A payload that passes the write-time validation earns points.\<close>

lemma unmarshal_normalize: "p \<noteq> PEmpty \<Longrightarrow> normalizePayload p = p"
  by (simp add: normalizePayload_def)

lemma validatePoints_positive:
  assumes "validatePoints (normalizePayload p) = Inr ()"
  shows "payloadPoints p > 0"
proof -
  have "p \<noteq> PEmpty"
    using assms by (auto simp: validatePoints_def normalizePayload_def empty_object_def dec_points_def)
  with assms show ?thesis
    by (auto simp: validatePoints_def payloadPoints_def unmarshal_normalize
        split: option.splits if_splits)
qed

lemma unmarshal_struct_cases:
  assumes "unmarshal_struct dec p = Some v"
  obtains ms where "p = PDoc (JObj ms) \<or> p = PDoc JNull \<and> ms = []" "dec ms = Some v"
    "\<And>dec'. unmarshal_struct dec' p = dec' ms"
  using assms by (cases "(dec, p)" rule: unmarshal_struct.cases) auto

lemma team_id_of_all_out:
  assumes "unmarshal_struct dec_all_out p = Some (t, b)"
  shows "unmarshal_struct dec_team_id p = Some t"
  using assms
  by (rule unmarshal_struct_cases) (auto simp: dec_all_out_def split: option.splits)

lemma sideByID_participant:
  assumes "t \<noteq> []" "t = UUIDToString (m_HomeTeamID m) \<or> t = UUIDToString (m_AwayTeamID m)"
  shows "sideByID t m \<noteq> sideNone"
  using assms by (auto simp: sideByID_def)

lemma validateAllOut_positive:
  assumes "validateAllOut (normalizePayload p) = Inr ()"
    and "ValidateAllOutParticipant p (UUIDToString (m_HomeTeamID m)) (UUIDToString (m_AwayTeamID m)) = Inr ()"
  shows "fst (allOutScore p m) > 0 \<and> snd (allOutScore p m) \<noteq> sideNone"
proof -
  have ne: "p \<noteq> PEmpty"
    using assms(1) by (auto simp: validateAllOut_def normalizePayload_def empty_object_def
        dec_all_out_def dec_team_id_def)
  from assms(1) obtain t n where t: "unmarshal_struct dec_all_out p = Some (Some t, Some n)" "t \<noteq> []" "n > 0"
    by (auto simp: validateAllOut_def unmarshal_normalize[OF ne] split: option.splits if_splits)
  from assms(2) team_id_of_all_out[OF t(1)] t(2)
  have "t = UUIDToString (m_HomeTeamID m) \<or> t = UUIDToString (m_AwayTeamID m)"
    by (auto simp: ValidateAllOutParticipant_def unmarshal_normalize[OF ne] split: if_splits)
  from sideByID_participant[OF t(2) this] t ne show ?thesis
    by (auto simp: allOutScore_def split: side.splits)
qed

definition demo_match :: match_row where
  "demo_match = zero_match\<lparr>m_ID := Some 1, m_HomeTeamID := Some 10, m_AwayTeamID := Some 11\<rparr>"

definition demo_raid :: event_row where
  "demo_raid = zero_event\<lparr>e_ID := Some 2, e_TeamID := Some 10,
     e_EventType := MatchEventTypeRaidSuccessful,
     e_Payload := PDoc (JObj [(''points'', JInt 3)])\<rparr>"

lemma raid_points: "pointsForEvent demo_raid demo_match = (3, sideHome)"
  by (simp add: pointsForEvent_def participantSide_def demo_raid_def demo_match_def zero_rows
      payloadPoints_def dec_points_def)

section \<open>Properties\<close>

text \<open>
  C13: the engine implements the rule table: the score of a side is the sum of the points of the
  events given to that side, in the 64-bit arithmetic of Go; it does not depend on the order of
  the events, and as long as the points of the log stay below \<open>2 ^ 63\<close> it is their exact sum,
  never negative.
\<close>

theorem score_is_sum:
  assumes "sum_list (map (\<lambda>e. fst (pointsForEvent e m)) es) < 2 ^ 63" "mset es' = mset es"
  shows "sr_HomeScore (Compute m es') = sum_list (map (points_to sideHome m) es)
    \<and> sr_AwayScore (Compute m es') = sum_list (map (points_to sideAway m) es)
    \<and> 0 \<le> sr_HomeScore (Compute m es') \<and> 0 \<le> sr_AwayScore (Compute m es')"
proof -
  have bound: "0 \<le> sum_list (map (points_to s m) es)
      \<and> sum_list (map (points_to s m) es) \<le> sum_list (map (\<lambda>e. fst (pointsForEvent e m)) es)" for s
    by (auto intro!: sum_list_nonneg sum_list_mono simp: points_to_def pointsForEvent_nonneg)
  then have "int64 (sum_list (map (points_to s m) es)) = sum_list (map (points_to s m) es)" for s
    using assms(1) conjunct1[OF bound, of s] conjunct2[OF bound, of s] by (intro int64_id) linarith+
  moreover have "sum_list (map (points_to s m) es') = sum_list (map (points_to s m) es)" for s
    using assms(2) by (rule sum_list_map_mset)
  ultimately show ?thesis
    using bound by (simp add: Compute_home Compute_away)
qed

text \<open>
  C14: what passes the write-time validation counts: a raid or penalty event whose payload was
  accepted is worth a positive number of points, and an accepted all-out gives a positive bonus
  to one of the two sides.
\<close>

theorem validated_payload_scores:
  assumes "ValidateScoreEventPayload et p = Inr ()"
    and "et = MatchEventTypeAllOut \<Longrightarrow>
      ValidateAllOutParticipant p (UUIDToString (m_HomeTeamID m)) (UUIDToString (m_AwayTeamID m)) = Inr ()"
    and "et \<in> {MatchEventTypeRaidSuccessful, MatchEventTypePenaltyAwarded, MatchEventTypeAllOut}"
  shows "fst (event_points et p m s) > 0
    \<and> (et = MatchEventTypeAllOut \<longrightarrow> snd (event_points et p m s) \<noteq> sideNone)
    \<and> (et \<noteq> MatchEventTypeAllOut \<longrightarrow> snd (event_points et p m s) = s)"
  using assms validatePoints_positive[of p] validateAllOut_positive[of p m] by auto

lemma score_is_sum_witness:
  "sr_HomeScore (Compute demo_match [demo_raid]) = 3 \<and> sr_AwayScore (Compute demo_match [demo_raid]) = 0"
  using score_is_sum[of demo_match "[demo_raid]" "[demo_raid]"]
  by (simp add: raid_points points_to_def)

lemma validated_payload_scores_witness:
  "fst (event_points MatchEventTypeRaidSuccessful (e_Payload demo_raid) demo_match sideHome) > 0"
  using validated_payload_scores[of MatchEventTypeRaidSuccessful "e_Payload demo_raid" demo_match sideHome]
  by (simp add: demo_raid_def zero_rows validatePoints_def normalizePayload_def dec_points_def)

end
