(* ===== verification/Demo_Data.thy ===== *)
theory Demo_Data
  imports Event_Store Scoring
begin

text \<open>
  A small database for the concrete instances of the properties: an organization with three teams
  approved for one ongoing tournament, and the environment a request runs in.  It models no code.
\<close>

definition demo_scan :: "string \<Rightarrow> 128 word option" where
  "demo_scan = map_of [(''t'', 5), (''a'', 10), (''b'', 11), (''c'', 12), (''m'', 100), (''n'', 101), (''u'', 7)]"

definition demo_env :: "128 word \<Rightarrow> int \<Rightarrow> env" where
  "demo_env new now = \<lparr>env_scan = demo_scan, env_parse_time = (\<lambda>s. if s = ''noon'' then Some 1000000 else None),
     env_format_time = (\<lambda>_. ''now''), env_numeric_scan = (\<lambda>_. None), env_numeric_text = (\<lambda>_. None),
     env_now = now, env_db_now = now, env_row_id = new, env_audit_id = new, env_outbox_id = new\<rparr>"

definition demo_org :: org_row where
  "demo_org = \<lparr>o_ID = Some 1, o_Name = ''Club'', o_Slug = ''club'', o_Description = None, o_Type = OrgTypeClub,
     o_Status = OrgStatusActive, o_LogoUrl = None, o_Website = None, o_Email = None, o_Phone = None,
     o_Country = None, o_City = None, o_Settings = empty_object, o_CreatedAt = Some 0, o_UpdatedAt = Some 0\<rparr>"

definition demo_team :: "128 word \<Rightarrow> team_row" where
  "demo_team i = \<lparr>tm_ID = Some i, tm_OrganizationID = Some 1, tm_Name = ''Team'', tm_ShortName = None,
     tm_Slug = ''team'', tm_Description = None, tm_LogoUrl = None, tm_HomeCity = None, tm_HomeVenue = None,
     tm_FoundedYear = None, tm_PrimaryColor = None, tm_SecondaryColor = None, tm_Status = TeamStatusActive,
     tm_Metadata = empty_object, tm_CreatedAt = Some 0, tm_UpdatedAt = Some 0\<rparr>"

definition demo_tournament :: "TournamentStatus \<Rightarrow> tournament_row" where
  "demo_tournament s = \<lparr>t_ID = Some 5, t_OrganizationID = Some 1, t_Name = ''Cup'', t_Slug = ''cup'',
     t_Description = None, t_Sport = ''kabaddi'', t_Format = TournamentFormatKnockout,
     t_ParticipantType = ParticipantTypeTeam, t_Status = s, t_BannerUrl = None, t_PrizePool = None,
     t_Currency = ''INR'', t_MaxParticipants = None, t_MinParticipants = None, t_RegistrationOpensAt = None,
     t_RegistrationClosesAt = None, t_StartsAt = None, t_EndsAt = None, t_Venue = None, t_City = None,
     t_Country = None, t_Rules = None, t_Settings = empty_object, t_CreatedBy = None, t_CreatedAt = Some 0,
     t_UpdatedAt = Some 0, t_Visibility = TournamentVisibilityPublic\<rparr>"

definition demo_registration :: "128 word \<Rightarrow> registration_row" where
  "demo_registration i = \<lparr>r_ID = Some (50 + i), r_TournamentID = Some 5, r_OrganizationID = Some 1,
     r_TeamID = Some i, r_PlayerID = None, r_SeedNumber = None, r_Status = RegistrationStatusApproved,
     r_RegisteredBy = None, r_RegisteredAt = Some 0, r_ApprovedBy = None, r_ApprovedAt = None, r_Notes = None,
     r_Metadata = empty_object, r_CreatedAt = Some 0, r_UpdatedAt = Some 0\<rparr>"

definition demo_db :: "TournamentStatus \<Rightarrow> database" where
  "demo_db s = \<lparr>organizations = [demo_org], teams = map demo_team [10, 11, 12], players = [],
     team_memberships = [], tournaments = [demo_tournament s],
     tournament_registrations = map demo_registration [10, 11, 12], matches = [], match_events = [],
     audit_logs = [], notification_outbox = []\<rparr>"

end
