(* ===== verification/Lifecycle.thy ===== *)
theory Lifecycle
  imports Prelude
begin

text \<open>
  The status tables of the services: from each status the statuses a request may move to.  Every
  service that guards its writes with such a table and a set of terminal statuses interprets the
  locale \<open>lifecycle\<close>.
\<close>

text \<open>\<open>validateStatusTransition\<close>, with the table and the sentinel of its package.\<close>

definition check_transition :: "'e \<Rightarrow> ('s \<Rightarrow> 's list option) \<Rightarrow> 's \<Rightarrow> 's \<Rightarrow> 'e + unit" where
  "check_transition e allowed from_status to_status = (case allowed from_status of
       None \<Rightarrow> Inl e
     | Some targets \<Rightarrow> ensure (to_status \<in> set targets) e)"

locale lifecycle =
  fixes allowed :: "'s \<Rightarrow> 's list option" and terminal :: "'s \<Rightarrow> bool" and stage :: "'s \<Rightarrow> nat"
  assumes terminal_closed: "terminal s \<Longrightarrow> allowed s = None \<or> allowed s = Some []"
    and progress: "allowed s = Some ts \<Longrightarrow> t \<in> set ts \<Longrightarrow> stage s < stage t"
begin

definition moves :: "('s \<times> 's) set" where
  "moves = {(s, t). \<exists>ts. allowed s = Some ts \<and> t \<in> set ts}"

lemma check_transition_Inr: "check_transition e allowed s t = Inr u \<longleftrightarrow> (s, t) \<in> moves"
  by (cases u) (auto simp: check_transition_def moves_def split: option.splits)

lemma no_exit: "terminal s \<Longrightarrow> (s, t) \<notin> moves"
  using terminal_closed[of s] by (auto simp: moves_def)

lemma path_progress: "(s, t) \<in> moves\<^sup>+ \<Longrightarrow> stage s < stage t"
proof (induction rule: trancl_induct)
  case (base t)
  then show ?case using progress by (auto simp: moves_def)
next
  case (step t u)
  then show ?case using progress[of t _ u] by (fastforce simp: moves_def)
qed

lemma acyclic_moves: "acyclic moves"
  using path_progress by (auto simp: acyclic_def)

lemma terminal_stays: "terminal s \<Longrightarrow> (s, t) \<in> moves\<^sup>* \<Longrightarrow> t = s"
  by (erule converse_rtranclE) (auto dest: no_exit)

end

end
