(* ===== verification/Match_Model.thy ===== *)
theory Match_Model
  imports Event_Store Scoring Lifecycle
begin

text \<open>
  Package \<open>matches\<close>: its errors, request and response types, status tables and the pure helper
  functions of \<open>service.go\<close> and \<open>repository.go\<close>.
\<close>

section \<open>Errors (errors.go)\<close>

text \<open>
  The sentinels, then the errors the code passes on: an actor id that is no UUID, a failed
  \<open>json.Marshal\<close>, an error of the query layer.
\<close>

datatype match_error =
    ErrOrganizationNotFound
  | ErrTournamentNotFound
  | ErrMatchNotFound
  | ErrTeamNotFound
  | ErrPlayerNotFound
  | ErrForbidden
  | ErrTournamentNotOngoing
  | ErrMixedParticipantTypes
  | ErrMissingParticipants
  | ErrDuplicateParticipants
  | ErrParticipantCrossOrg
  | ErrParticipantNotRegistered
  | ErrWinnerNotAllowed
  | ErrWinnerNotParticipant
  | ErrWinnerScoreMismatch
  | ErrInvalidStatus
  | ErrInvalidStatusTransition
  | ErrMatchNotUpdatable
  | ErrMatchAlreadyCancelled
  | ErrInvalidWalkoverWinner
  | ErrWalkoverReasonRequired
  | ErrWalkoverNeedsParticipants
  | ErrMatchHasTBDSlot
  | ErrNextMatchLinkIncomplete
  | ErrInvalidNextSlot
  | ErrNextMatchNotFound
  | ErrNextMatchCrossTournament
  | ErrSelfLink
  | ErrDownstreamLocked
  | ErrBracketInconsistent
  | ErrSlotAlreadyFed
  | ErrInvalidTimestamp
  | ErrInvalidTournamentID
  | ErrInvalidActor
  | ErrJSON
  | ErrSql sql_error

section \<open>Requests and responses (dto.go, model.go)\<close>

record MatchCreateRequest =
  cr_TournamentID :: string
  cr_RoundNumber :: "int option"
  cr_RoundName :: "string option"
  cr_MatchNumber :: "int option"
  cr_HomeTeamID :: "string option"
  cr_AwayTeamID :: "string option"
  cr_HomePlayerID :: "string option"
  cr_AwayPlayerID :: "string option"
  cr_Venue :: "string option"
  cr_ScheduledAt :: string
  cr_Notes :: "string option"
  cr_NextMatchID :: "string option"
  cr_NextMatchSlot :: "int option"
  cr_GroupLabel :: "string option"

record MatchUpdateRequest =
  ur_RoundNumber :: "int option"
  ur_RoundName :: "string option"
  ur_MatchNumber :: "int option"
  ur_HomeTeamID :: "string option"
  ur_AwayTeamID :: "string option"
  ur_HomePlayerID :: "string option"
  ur_AwayPlayerID :: "string option"
  ur_Venue :: "string option"
  ur_ScheduledAt :: "string option"
  ur_Status :: "string option"
  ur_WinnerTeamID :: "string option"
  ur_WinnerPlayerID :: "string option"
  ur_Notes :: "string option"
  ur_NextMatchID :: "string option"
  ur_NextMatchSlot :: "int option"
  ur_GroupLabel :: "string option"

record WalkoverRequest =
  wr_Winner :: string
  wr_Reason :: string

record MatchListParams =
  ls_Limit :: int
  ls_Offset :: int
  ls_TournamentFilter :: "string option"
  ls_StatusFilter :: "string option"
  ls_Search :: "string option"

record MatchResponse =
  mr_ID :: string
  mr_TournamentID :: string
  mr_OrganizationID :: string
  mr_RoundNumber :: "int option"
  mr_RoundName :: "string option"
  mr_MatchNumber :: "int option"
  mr_HomeTeamID :: "string option"
  mr_AwayTeamID :: "string option"
  mr_HomePlayerID :: "string option"
  mr_AwayPlayerID :: "string option"
  mr_Venue :: "string option"
  mr_ScheduledAt :: "string option"
  mr_StartedAt :: "string option"
  mr_EndedAt :: "string option"
  mr_Status :: string
  mr_WinnerTeamID :: "string option"
  mr_WinnerPlayerID :: "string option"
  mr_IsWalkover :: bool
  mr_HomeScore :: int
  mr_AwayScore :: int
  mr_Notes :: "string option"
  mr_NextMatchID :: "string option"
  mr_NextMatchSlot :: "int option"
  mr_GroupLabel :: "string option"
  mr_CreatedAt :: string
  mr_UpdatedAt :: string

record MatchListResponse =
  ml_Matches :: "MatchResponse list"
  ml_Total :: int
  ml_Limit :: int
  ml_Offset :: int

section \<open>Formatting\<close>

text \<open>\<open>ts.Time.UTC().Format(time.RFC3339)\<close>; a \<open>NOT NULL\<close> column always has a time.\<close>

definition format_ts :: "env \<Rightarrow> timestamp \<Rightarrow> string" where
  "format_ts ev ts = (case ts of None \<Rightarrow> ''0001-01-01T00:00:00Z'' | Some t \<Rightarrow> env_format_time ev t)"

definition tsStringPtr :: "env \<Rightarrow> timestamp \<Rightarrow> string option" where
  "tsStringPtr ev ts = map_option (env_format_time ev) ts"

definition tsForAudit :: "env \<Rightarrow> timestamp \<Rightarrow> string option" where
  "tsForAudit ev ts = map_option (env_format_time ev) ts"

definition matchToResponse :: "env \<Rightarrow> match_row \<Rightarrow> MatchResponse" where
  "matchToResponse ev m = \<lparr>mr_ID = UUIDToString (m_ID m), mr_TournamentID = UUIDToString (m_TournamentID m),
     mr_OrganizationID = UUIDToString (m_OrganizationID m), mr_RoundNumber = m_RoundNumber m,
     mr_RoundName = m_RoundName m, mr_MatchNumber = m_MatchNumber m, mr_HomeTeamID =
     uuidStringPtr (m_HomeTeamID m), mr_AwayTeamID = uuidStringPtr (m_AwayTeamID m),
     mr_HomePlayerID = uuidStringPtr (m_HomePlayerID m), mr_AwayPlayerID = uuidStringPtr
     (m_AwayPlayerID m), mr_Venue = m_Venue m, mr_ScheduledAt = tsStringPtr ev (m_ScheduledAt
     m), mr_StartedAt = tsStringPtr ev (m_StartedAt m), mr_EndedAt = tsStringPtr ev (m_EndedAt
     m), mr_Status = MatchStatus_str (m_Status m), mr_WinnerTeamID = uuidStringPtr
     (m_WinnerTeamID m), mr_WinnerPlayerID = uuidStringPtr (m_WinnerPlayerID m), mr_IsWalkover
     = m_IsWalkover m, mr_HomeScore = m_HomeScore m, mr_AwayScore = m_AwayScore m, mr_Notes =
     m_Notes m, mr_NextMatchID = uuidStringPtr (m_NextMatchID m), mr_NextMatchSlot =
     m_NextMatchSlot m, mr_GroupLabel = m_GroupLabel m, mr_CreatedAt = format_ts ev
     (m_CreatedAt m), mr_UpdatedAt = format_ts ev (m_UpdatedAt m)\<rparr>"

text \<open>\<open>json.Marshal(matchToResponse(m))\<close>, with the tags of the struct.\<close>

definition response_json :: "MatchResponse \<Rightarrow> json" where
  "response_json r = JObj (
     [(''id'', JStr (mr_ID r))]
     @ [(''tournament_id'', JStr (mr_TournamentID r))]
     @ [(''organization_id'', JStr (mr_OrganizationID r))]
     @ omitempty ''round_number'' JInt (mr_RoundNumber r)
     @ omitempty ''round_name'' JStr (mr_RoundName r)
     @ omitempty ''match_number'' JInt (mr_MatchNumber r)
     @ omitempty ''home_team_id'' JStr (mr_HomeTeamID r)
     @ omitempty ''away_team_id'' JStr (mr_AwayTeamID r)
     @ omitempty ''home_player_id'' JStr (mr_HomePlayerID r)
     @ omitempty ''away_player_id'' JStr (mr_AwayPlayerID r)
     @ omitempty ''venue'' JStr (mr_Venue r)
     @ omitempty ''scheduled_at'' JStr (mr_ScheduledAt r)
     @ omitempty ''started_at'' JStr (mr_StartedAt r)
     @ omitempty ''ended_at'' JStr (mr_EndedAt r)
     @ [(''status'', JStr (mr_Status r))]
     @ omitempty ''winner_team_id'' JStr (mr_WinnerTeamID r)
     @ omitempty ''winner_player_id'' JStr (mr_WinnerPlayerID r)
     @ [(''is_walkover'', JBool (mr_IsWalkover r))]
     @ [(''home_score'', JInt (mr_HomeScore r))]
     @ [(''away_score'', JInt (mr_AwayScore r))]
     @ omitempty ''notes'' JStr (mr_Notes r)
     @ omitempty ''next_match_id'' JStr (mr_NextMatchID r)
     @ omitempty ''next_match_slot'' JInt (mr_NextMatchSlot r)
     @ omitempty ''group_label'' JStr (mr_GroupLabel r)
     @ [(''created_at'', JStr (mr_CreatedAt r))]
     @ [(''updated_at'', JStr (mr_UpdatedAt r))])"

definition matchToAuditJSON :: "env \<Rightarrow> match_row \<Rightarrow> match_error + payload" where
  "matchToAuditJSON ev m = (case raw_message (m_Metadata m) of
       None \<Rightarrow> Inl ErrJSON
     | Some meta \<Rightarrow> Inr (PDoc (JObj (sort_key fst [
         (''id'', JStr (UUIDToString (m_ID m))),
         (''tournament_id'', JStr (UUIDToString (m_TournamentID m))),
         (''organization_id'', JStr (UUIDToString (m_OrganizationID m))),
         (''round_number'', json_opt JInt (m_RoundNumber m)),
         (''round_name'', json_opt JStr (m_RoundName m)),
         (''match_number'', json_opt JInt (m_MatchNumber m)),
         (''home_team_id'', JStr (UUIDToString (m_HomeTeamID m))),
         (''away_team_id'', JStr (UUIDToString (m_AwayTeamID m))),
         (''home_player_id'', JStr (UUIDToString (m_HomePlayerID m))),
         (''away_player_id'', JStr (UUIDToString (m_AwayPlayerID m))),
         (''venue'', json_opt JStr (m_Venue m)),
         (''scheduled_at'', json_opt JStr (tsForAudit ev (m_ScheduledAt m))),
         (''started_at'', json_opt JStr (tsForAudit ev (m_StartedAt m))),
         (''ended_at'', json_opt JStr (tsForAudit ev (m_EndedAt m))),
         (''status'', JStr (MatchStatus_str (m_Status m))),
         (''winner_team_id'', JStr (UUIDToString (m_WinnerTeamID m))),
         (''winner_player_id'', JStr (UUIDToString (m_WinnerPlayerID m))),
         (''is_walkover'', JBool (m_IsWalkover m)),
         (''home_score'', JInt (m_HomeScore m)),
         (''away_score'', JInt (m_AwayScore m)),
         (''notes'', json_opt JStr (m_Notes m)),
         (''next_match_id'', JStr (UUIDToString (m_NextMatchID m))),
         (''next_match_slot'', json_opt JInt (m_NextMatchSlot m)),
         (''group_label'', json_opt JStr (m_GroupLabel m)),
         (''metadata'', meta),
         (''created_at'', JStr (format_ts ev (m_CreatedAt m))),
         (''updated_at'', JStr (format_ts ev (m_UpdatedAt m)))]))))"

section \<open>Status tables\<close>

fun allowedTransitions :: "MatchStatus \<Rightarrow> MatchStatus list option" where
  "allowedTransitions MatchStatusScheduled = Some [MatchStatusLive, MatchStatusCancelled]"
| "allowedTransitions MatchStatusLive =
     Some [MatchStatusCompleted, MatchStatusAbandoned, MatchStatusCancelled]"
| "allowedTransitions MatchStatusCompleted = Some []"
| "allowedTransitions MatchStatusCancelled = Some []"
| "allowedTransitions MatchStatusAbandoned = Some []"
| "allowedTransitions _ = None"

definition terminalStatuses :: "MatchStatus \<Rightarrow> bool" where
  "terminalStatuses s \<longleftrightarrow>
     s \<in> {MatchStatusCompleted, MatchStatusCancelled, MatchStatusAbandoned, MatchStatusWalkover}"

definition tournamentLockStatuses :: "MatchStatus \<Rightarrow> bool" where
  "tournamentLockStatuses s \<longleftrightarrow> s \<in> {MatchStatusLive, MatchStatusCompleted, MatchStatusAbandoned}"

definition validateStatusTransition :: "MatchStatus \<Rightarrow> MatchStatus \<Rightarrow> match_error + unit" where
  "validateStatusTransition = check_transition ErrInvalidStatusTransition allowedTransitions"

definition parse_statuses :: "MatchStatus list" where
  "parse_statuses = [MatchStatusScheduled, MatchStatusLive, MatchStatusCompleted,
     MatchStatusCancelled, MatchStatusAbandoned]"

definition parseMatchStatus :: "string \<Rightarrow> match_error + MatchStatus" where
  "parseMatchStatus s =
     opt_res ErrInvalidStatus
       (find (\<lambda>st. MatchStatus_str st = strings_ToLower (strings_TrimSpace s)) parse_statuses)"

section \<open>Validation helpers\<close>

definition assertOrgOwnership :: "string \<Rightarrow> string \<Rightarrow> match_error + unit" where
  "assertOrgOwnership = assert_owner ErrForbidden"

fun validateParticipantType :: "ParticipantType \<Rightarrow> uuid \<Rightarrow> uuid \<Rightarrow> uuid \<Rightarrow> uuid \<Rightarrow> match_error + unit" where
  "validateParticipantType ParticipantTypeTeam homeTeam awayTeam homePlayer awayPlayer =
     (if Valid homePlayer \<or> Valid awayPlayer then Inl ErrMixedParticipantTypes
      else ensure (Valid homeTeam \<and> Valid awayTeam) ErrMissingParticipants)"
| "validateParticipantType ParticipantTypeIndividual homeTeam awayTeam homePlayer awayPlayer =
     (if Valid homeTeam \<or> Valid awayTeam then Inl ErrMixedParticipantTypes
      else ensure (Valid homePlayer \<and> Valid awayPlayer) ErrMissingParticipants)"

definition bothParticipantsAssigned :: "uuid \<Rightarrow> uuid \<Rightarrow> uuid \<Rightarrow> uuid \<Rightarrow> bool" where
  "bothParticipantsAssigned homeTeam awayTeam homePlayer awayPlayer \<longleftrightarrow>
     (Valid homeTeam \<and> Valid awayTeam) \<or> (Valid homePlayer \<and> Valid awayPlayer)"

definition validateNoDuplicates :: "uuid \<Rightarrow> uuid \<Rightarrow> uuid \<Rightarrow> uuid \<Rightarrow> match_error + unit" where
  "validateNoDuplicates homeTeam awayTeam homePlayer awayPlayer =
     (if Valid homeTeam \<and> Valid awayTeam \<and> uuidEquals homeTeam awayTeam then Inl ErrDuplicateParticipants
      else if Valid homePlayer \<and> Valid awayPlayer \<and> uuidEquals homePlayer awayPlayer
        then Inl ErrDuplicateParticipants
      else Inr ())"

definition parseRequiredTimestamp :: "env \<Rightarrow> string \<Rightarrow> match_error + timestamp" where
  "parseRequiredTimestamp ev s =
     (if s = [] then Inl ErrInvalidTimestamp
      else case env_parse_time ev s of
        None \<Rightarrow> Inl ErrInvalidTimestamp
      | Some t \<Rightarrow> if t = zero_time then Inl ErrInvalidTimestamp else Inr (Some t))"

definition parseOptionalTimestamp :: "env \<Rightarrow> string option \<Rightarrow> match_error + timestamp" where
  "parseOptionalTimestamp ev s =
     (if derefStr s = [] then Inr None
      else case env_parse_time ev (derefStr s) of
        None \<Rightarrow> Inl ErrInvalidTimestamp
      | Some t \<Rightarrow> Inr (Some t))"

definition parse_actor :: "env \<Rightarrow> string \<Rightarrow> match_error + uuid" where
  "parse_actor ev actorID = res_map_err (\<lambda>_. ErrInvalidActor) (ParseUUID (env_scan ev) actorID)"

fun matchStatusToEventType :: "MatchStatus \<Rightarrow> NotificationEventType option" where
  "matchStatusToEventType MatchStatusLive = Some NotificationEventTypeMatchStarted"
| "matchStatusToEventType MatchStatusCompleted = Some NotificationEventTypeMatchCompleted"
| "matchStatusToEventType MatchStatusCancelled = Some NotificationEventTypeMatchCancelled"
| "matchStatusToEventType MatchStatusAbandoned = Some NotificationEventTypeMatchAbandoned"
| "matchStatusToEventType _ = None"

section \<open>The life cycle\<close>

fun match_stage :: "MatchStatus \<Rightarrow> nat" where
  "match_stage MatchStatusScheduled = 0"
| "match_stage MatchStatusLive = 1"
| "match_stage _ = 2"

interpretation match_life: lifecycle allowedTransitions terminalStatuses match_stage
proof
  show "terminalStatuses s \<Longrightarrow> allowedTransitions s = None \<or> allowedTransitions s = Some []" for s
    by (cases s) (simp_all add: terminalStatuses_def)
  show "allowedTransitions s = Some ts \<Longrightarrow> t \<in> set ts \<Longrightarrow> match_stage s < match_stage t" for s t ts
    by (cases s) auto
qed

lemma validateStatusTransition_Inr [result_simps]:
  "validateStatusTransition s t = Inr u \<longleftrightarrow> (s, t) \<in> match_life.moves"
  by (simp add: validateStatusTransition_def match_life.check_transition_Inr)

lemma match_moves: "(s, t) \<in> match_life.moves \<longleftrightarrow>
    s = MatchStatusScheduled \<and> t \<in> {MatchStatusLive, MatchStatusCancelled}
  \<or> s = MatchStatusLive \<and> t \<in> {MatchStatusCompleted, MatchStatusAbandoned, MatchStatusCancelled}"
  by (cases s) (auto simp: match_life.moves_def)

lemma assertOrgOwnership_Inr [result_simps, simp]:
  "assertOrgOwnership a b = Inr u \<longleftrightarrow> a = [] \<or> a = b"
  by (auto simp: assertOrgOwnership_def)

lemma validateParticipantType_Inr:
  "validateParticipantType pt ht at hp ap = Inr u \<longleftrightarrow>
     (case pt of ParticipantTypeTeam \<Rightarrow> hp = None \<and> ap = None \<and> ht \<noteq> None \<and> at \<noteq> None
      | ParticipantTypeIndividual \<Rightarrow> ht = None \<and> at = None \<and> hp \<noteq> None \<and> ap \<noteq> None)"
  by (cases pt) auto

lemma validateNoDuplicates_Inr [result_simps]:
  "validateNoDuplicates ht at hp ap = Inr u \<longleftrightarrow>
     \<not> (ht \<noteq> None \<and> ht = at) \<and> \<not> (hp \<noteq> None \<and> hp = ap)"
  by (cases u) (auto simp: validateNoDuplicates_def uuidEquals_iff)

end
