(* ===== verification/Match_Repo.thy ===== *)
theory Match_Repo
  imports Match_Model
begin

text \<open>
  \<open>internal/matches/repository.go\<close>: the reads and the four write transactions of the matches
  module, winner propagation included.  A transaction is a function into \<open>match_error + (\<dots> \<times>
  database)\<close>; an early return is \<open>Inl\<close> and leaves the caller with the database it had.
\<close>

section \<open>Reads\<close>

definition GetOrgBySlug :: "database \<Rightarrow> string \<Rightarrow> match_error + org_row" where
  "GetOrgBySlug d slug = no_rows_as ErrOrganizationNotFound ErrSql (GetOrganizationBySlug d slug)"

definition match_GetTournamentByID :: "database \<Rightarrow> uuid \<Rightarrow> uuid \<Rightarrow> match_error + tournament_row" where
  "match_GetTournamentByID d uid orgID = no_rows_as ErrTournamentNotFound ErrSql (GetTournamentByID d uid orgID)"

definition match_GetTeamByID :: "database \<Rightarrow> uuid \<Rightarrow> uuid \<Rightarrow> match_error + team_row" where
  "match_GetTeamByID d uid orgID = no_rows_as ErrTeamNotFound ErrSql (GetTeamByID d uid orgID)"

definition match_GetPlayerByID :: "database \<Rightarrow> uuid \<Rightarrow> uuid \<Rightarrow> match_error + player_row" where
  "match_GetPlayerByID d uid orgID = no_rows_as ErrPlayerNotFound ErrSql (GetPlayerByID d uid orgID)"

fun found :: "sql_error + 'a \<Rightarrow> match_error + bool" where
  "found (Inl ErrNoRows) = Inr False"
| "found (Inl e) = Inl (ErrSql e)"
| "found (Inr _) = Inr True"

definition HasApprovedRegistrationByTeam :: "database \<Rightarrow> uuid \<Rightarrow> uuid \<Rightarrow> match_error + bool" where
  "HasApprovedRegistrationByTeam d tournamentID teamID =
     found (GetApprovedRegistrationByTeam d tournamentID teamID)"

definition HasApprovedRegistrationByPlayer :: "database \<Rightarrow> uuid \<Rightarrow> uuid \<Rightarrow> match_error + bool" where
  "HasApprovedRegistrationByPlayer d tournamentID playerID =
     found (GetApprovedRegistrationByPlayer d tournamentID playerID)"

definition GetByID :: "database \<Rightarrow> uuid \<Rightarrow> uuid \<Rightarrow> match_error + match_row" where
  "GetByID d uid orgID = no_rows_as ErrMatchNotFound ErrSql (GetMatchByID d uid orgID)"

definition CountFeedersForSlot :: "database \<Rightarrow> uuid \<Rightarrow> int option \<Rightarrow> uuid \<Rightarrow> uuid \<Rightarrow> int" where
  "CountFeedersForSlot d nextMatchID slot orgID excludeID =
     CountMatchesFeedingSlot d nextMatchID slot orgID excludeID"

definition match_List :: "env \<Rightarrow> database \<Rightarrow> uuid \<Rightarrow> MatchListParams \<Rightarrow> match_row list" where
  "match_List ev d orgID params = ListMatchesPaginated d orgID
     (ParseOptionalUUID (env_scan ev) (derefStr (ls_TournamentFilter params)))
     (ls_StatusFilter params) (ls_Search params) (ls_Offset params) (ls_Limit params)"

definition GetEffectiveEventsForScore :: "database \<Rightarrow> uuid \<Rightarrow> uuid \<Rightarrow> event_row list" where
  "GetEffectiveEventsForScore d matchID orgID = GetEffectiveMatchEventsForScore d matchID orgID"

definition match_Count :: "env \<Rightarrow> database \<Rightarrow> uuid \<Rightarrow> MatchListParams \<Rightarrow> int" where
  "match_Count ev d orgID params = CountMatches d orgID
     (ParseOptionalUUID (env_scan ev) (derefStr (ls_TournamentFilter params)))
     (ls_StatusFilter params) (ls_Search params)"

section \<open>Winner propagation\<close>

definition propagateWinner :: "env \<Rightarrow> match_row \<Rightarrow> database \<Rightarrow> match_error + database" where
  "propagateWinner ev feeder d =
     (case m_NextMatchSlot feeder of None \<Rightarrow> Inr d | Some slot \<Rightarrow>
      if \<not> Valid (m_NextMatchID feeder) then Inr d
      else
        let winnerTeam = m_WinnerTeamID feeder; winnerPlayer = m_WinnerPlayerID feeder in
        if \<not> Valid winnerTeam \<and> \<not> Valid winnerPlayer then Inr d
        else res_bind (no_rows_as ErrNextMatchNotFound ErrSql
               (LockMatchForProgression d (m_NextMatchID feeder) (m_OrganizationID feeder)))
          (\<lambda>succ.
             if uuid_Bytes (lp_TournamentID succ) \<noteq> uuid_Bytes (m_TournamentID feeder)
               then Inl ErrBracketInconsistent
             else if lp_Status succ \<noteq> MatchStatusScheduled then Inl ErrDownstreamLocked
             else
               let params = \<lparr>sp_ID = lp_ID succ, sp_OrganizationID = lp_OrganizationID succ,
                     sp_HomeTeamID = lp_HomeTeamID succ, sp_AwayTeamID = lp_AwayTeamID succ,
                     sp_HomePlayerID = lp_HomePlayerID succ, sp_AwayPlayerID = lp_AwayPlayerID succ\<rparr>
               in res_bind
                    (if slot = 1 then Inr (params\<lparr>sp_HomeTeamID := winnerTeam, sp_HomePlayerID := winnerPlayer\<rparr>)
                     else if slot = 2 then Inr (params\<lparr>sp_AwayTeamID := winnerTeam, sp_AwayPlayerID := winnerPlayer\<rparr>)
                     else Inl ErrInvalidNextSlot)
                    (\<lambda>params. res_bind (res_map_err ErrSql (SetMatchParticipants ev params d))
                       (\<lambda>(n, d'). if n = 0 then Inl ErrDownstreamLocked else Inr d'))))"

section \<open>Transactions\<close>

text \<open>
  The share lock on the tournament row and the check that it is ongoing, made by every transaction
  that creates or advances a match.
\<close>

definition lock_ongoing :: "database \<Rightarrow> uuid \<Rightarrow> uuid \<Rightarrow> match_error + unit" where
  "lock_ongoing d tournamentID orgID = res_bind
     (no_rows_as ErrTournamentNotFound ErrSql (LockTournamentForShare d tournamentID orgID))
     (\<lambda>status. ensure (status = TournamentStatusOngoing) ErrTournamentNotOngoing)"

definition match_audit :: "env \<Rightarrow> uuid \<Rightarrow> AuditAction \<Rightarrow> match_row \<Rightarrow> payload \<Rightarrow> payload \<Rightarrow> database \<Rightarrow> database" where
  "match_audit ev actor action m oldData newData d =
     CreateAuditLog ev (auditParams (m_OrganizationID m) actor action ''matches'' (m_ID m) oldData newData) d"

definition match_outbox :: "env \<Rightarrow> uuid \<Rightarrow> NotificationEventType \<Rightarrow> match_row
    \<Rightarrow> (string \<times> json) list \<Rightarrow> database \<Rightarrow> database" where
  "match_outbox ev actor et m extra d = WriteOutboxEntry ev
     \<lparr>obp_OrganizationID = m_OrganizationID m, obp_EventType = et, obp_ActorID = actor,
      obp_EntityType = ''matches'', obp_EntityID = m_ID m,
      obp_Payload = [(''match_id'', JStr (UUIDToString (m_ID m))),
        (''tournament_id'', JStr (UUIDToString (m_TournamentID m)))] @ extra\<rparr> d"

definition status_change :: "MatchStatus \<Rightarrow> MatchStatus \<Rightarrow> (string \<times> json) list" where
  "status_change old new = [(''previous_status'', JStr (MatchStatus_str old)),
     (''new_status'', JStr (MatchStatus_str new))]"

record createMatchTxParams =
  ct_createParams :: CreateMatchParams
  ct_actorID :: uuid
  ct_tournamentID :: uuid
  ct_organizationID :: uuid

definition CreateWithAudit :: "env \<Rightarrow> createMatchTxParams \<Rightarrow> database \<Rightarrow> match_error + (match_row \<times> database)" where
  "CreateWithAudit ev p d =
     res_bind (lock_ongoing d (ct_tournamentID p) (ct_organizationID p)) (\<lambda>_.
     res_bind (res_map_err ErrSql (CreateMatch ev (ct_createParams p) d)) (\<lambda>(m, d1).
     res_bind (matchToAuditJSON ev m) (\<lambda>newData.
       let d2 = match_audit ev (ct_actorID p) AuditActionCreate m PEmpty newData d1;
           d3 = match_outbox ev (ct_actorID p) NotificationEventTypeMatchCreated m
                  [(''status'', JStr (MatchStatus_str (m_Status m)))] d2
       in Inr (m, d3))))"

record updateMatchTxParams =
  ut_updateParams :: UpdateMatchParams
  ut_actorID :: uuid
  ut_oldData :: payload
  ut_lockTournament :: bool
  ut_tournamentID :: uuid
  ut_organizationID :: uuid
  ut_isCompletion :: bool
  ut_isWalkover :: bool
  ut_previousStatus :: MatchStatus

text \<open>\<open>if a.Valid { x = a } else if b.Valid { x = b }\<close>\<close>

definition first_valid :: "uuid \<Rightarrow> uuid \<Rightarrow> uuid" where
  "first_valid a b = (if Valid a then a else if Valid b then b else None)"

definition validateWinnerVsScore :: "updateMatchTxParams \<Rightarrow> LockMatchForUpdateRow \<Rightarrow> int \<Rightarrow> int
    \<Rightarrow> match_error + unit" where
  "validateWinnerVsScore p locked homeScore awayScore =
     (if ut_isWalkover p then Inr ()
      else
        let winnerUID = first_valid (up_WinnerTeamID (ut_updateParams p)) (up_WinnerPlayerID (ut_updateParams p));
            homeUID = first_valid (lk_HomeTeamID locked) (lk_HomePlayerID locked);
            awayUID = first_valid (lk_AwayTeamID locked) (lk_AwayPlayerID locked)
        in if homeScore > awayScore then
             ensure (Valid winnerUID \<and> uuid_Bytes winnerUID = uuid_Bytes homeUID) ErrWinnerScoreMismatch
           else if awayScore > homeScore then
             ensure (Valid winnerUID \<and> uuid_Bytes winnerUID = uuid_Bytes awayUID) ErrWinnerScoreMismatch
           else ensure (\<not> Valid winnerUID) ErrWinnerScoreMismatch)"

text \<open>The match the score engine sees: the locked row's identity and participants.\<close>

definition match_for_engine :: "LockMatchForUpdateRow \<Rightarrow> match_row" where
  "match_for_engine locked = zero_match\<lparr>m_ID := lk_ID locked, m_HomeTeamID := lk_HomeTeamID locked,
     m_AwayTeamID := lk_AwayTeamID locked, m_HomePlayerID := lk_HomePlayerID locked,
     m_AwayPlayerID := lk_AwayPlayerID locked\<rparr>"

definition snapshot_score :: "updateMatchTxParams \<Rightarrow> database \<Rightarrow> match_error + UpdateMatchParams" where
  "snapshot_score p d =
     (let up = ut_updateParams p in
      res_bind (no_rows_as ErrMatchNotFound ErrSql (LockMatchForUpdate d (up_ID up) (ut_organizationID p)))
        (\<lambda>locked.
           if lk_Status locked \<noteq> MatchStatusLive then Inl ErrMatchNotUpdatable
           else
             let events = GetEffectiveMatchEventsForScore d (up_ID up) (ut_organizationID p);
                 result = Compute (match_for_engine locked) events
             in res_bind (validateWinnerVsScore p locked (sr_HomeScore result) (sr_AwayScore result))
                  (\<lambda>_. Inr (up\<lparr>up_HomeScore := int32 (sr_HomeScore result),
                              up_AwayScore := int32 (sr_AwayScore result)\<rparr>))))"

text \<open>The audit row, and the outbox row of a status that has a notification and was entered now.\<close>

definition update_records :: "env \<Rightarrow> updateMatchTxParams \<Rightarrow> match_row \<Rightarrow> payload \<Rightarrow> database \<Rightarrow> database" where
  "update_records ev p m newData d =
     (let d2 = match_audit ev (ut_actorID p) AuditActionUpdate m (ut_oldData p) newData d in
      case matchStatusToEventType (m_Status m) of
        None \<Rightarrow> d2
      | Some et \<Rightarrow> if m_Status m \<noteq> ut_previousStatus p
          then match_outbox ev (ut_actorID p) et m (status_change (ut_previousStatus p) (m_Status m)) d2
          else d2)"

definition UpdateWithAudit :: "env \<Rightarrow> updateMatchTxParams \<Rightarrow> database \<Rightarrow> match_error + (match_row \<times> database)" where
  "UpdateWithAudit ev p d =
     res_bind (if ut_lockTournament p then lock_ongoing d (ut_tournamentID p) (ut_organizationID p) else Inr ()) (\<lambda>_.
     res_bind (if ut_isCompletion p then snapshot_score p d else Inr (ut_updateParams p)) (\<lambda>up.
     res_bind (no_rows_as ErrMatchNotUpdatable ErrSql (UpdateMatch ev up d)) (\<lambda>(m, d1).
     res_bind (matchToAuditJSON ev m) (\<lambda>newData.
       let d3 = update_records ev p m newData d1 in
     res_bind (if m_Status m = MatchStatusCompleted then propagateWinner ev m d3 else Inr d3)
       (\<lambda>d4. Inr (m, d4))))))"

record cancelMatchTxParams =
  xt_id :: uuid
  xt_orgID :: uuid
  xt_actorID :: uuid
  xt_oldData :: payload
  xt_previousStatus :: MatchStatus

definition CancelWithAudit :: "env \<Rightarrow> cancelMatchTxParams \<Rightarrow> database \<Rightarrow> match_error + database" where
  "CancelWithAudit ev p d =
     res_bind (no_rows_as ErrMatchNotUpdatable ErrSql
        (CancelMatch ev (xt_id p) (xt_orgID p) (xt_previousStatus p) d)) (\<lambda>(cancelled, d1).
       let d2 = CreateAuditLog ev (auditParams (xt_orgID p) (xt_actorID p) AuditActionDelete ''matches''
                  (xt_id p) (xt_oldData p) PEmpty) d1;
           d3 = WriteOutboxEntry ev \<lparr>obp_OrganizationID = xt_orgID p,
                  obp_EventType = NotificationEventTypeMatchCancelled, obp_ActorID = xt_actorID p,
                  obp_EntityType = ''matches'', obp_EntityID = xt_id p,
                  obp_Payload = [(''match_id'', JStr (UUIDToString (m_ID cancelled))),
                    (''tournament_id'', JStr (UUIDToString (m_TournamentID cancelled))),
                    (''previous_status'', JStr (MatchStatus_str (xt_previousStatus p))),
                    (''new_status'', JStr ''cancelled'')]\<rparr> d2
       in Inr d3)"

record walkoverMatchTxParams =
  wt_id :: uuid
  wt_orgID :: uuid
  wt_tournamentID :: uuid
  wt_winnerTeamID :: uuid
  wt_winnerPlayerID :: uuid
  wt_reason :: "string option"
  wt_actorID :: uuid
  wt_oldData :: payload
  wt_previousStatus :: MatchStatus

definition WalkoverWithAudit :: "env \<Rightarrow> walkoverMatchTxParams \<Rightarrow> database \<Rightarrow> match_error + (match_row \<times> database)" where
  "WalkoverWithAudit ev p d =
     res_bind (lock_ongoing d (wt_tournamentID p) (wt_orgID p)) (\<lambda>_.
     res_bind (no_rows_as ErrMatchNotUpdatable ErrSql (SetMatchWalkover ev
        \<lparr>wp_ID = wt_id p, wp_OrganizationID = wt_orgID p, wp_WinnerTeamID = wt_winnerTeamID p,
         wp_WinnerPlayerID = wt_winnerPlayerID p, wp_Notes = wt_reason p,
         wp_Status = wt_previousStatus p\<rparr> d)) (\<lambda>(m, d1).
     res_bind (matchToAuditJSON ev m) (\<lambda>newData.
       let d2 = match_audit ev (wt_actorID p) AuditActionUpdate m (wt_oldData p) newData d1;
           d3 = match_outbox ev (wt_actorID p) NotificationEventTypeMatchCompleted m
                  (status_change (wt_previousStatus p) (m_Status m) @ [(''is_walkover'', JBool True)]) d2
       in res_bind (propagateWinner ev m d3) (\<lambda>d4. Inr (m, d4)))))"

section \<open>Lemmas\<close>

lemma match_audit_frame [simp, frame_simps]:
  "matches (match_audit ev a act m od nd d) = matches d"
  "match_events (match_audit ev a act m od nd d) = match_events d"
  "tournaments (match_audit ev a act m od nd d) = tournaments d"
  "organizations (match_audit ev a act m od nd d) = organizations d"
  "teams (match_audit ev a act m od nd d) = teams d"
  "players (match_audit ev a act m od nd d) = players d"
  by (simp_all add: match_audit_def)

lemma match_outbox_frame [simp, frame_simps]:
  "matches (match_outbox ev a et m x d) = matches d"
  "match_events (match_outbox ev a et m x d) = match_events d"
  "tournaments (match_outbox ev a et m x d) = tournaments d"
  "organizations (match_outbox ev a et m x d) = organizations d"
  "teams (match_outbox ev a et m x d) = teams d"
  "players (match_outbox ev a et m x d) = players d"
  by (simp_all add: match_outbox_def)

lemma update_records_frame [simp, frame_simps]:
  "matches (update_records ev p m nd d) = matches d"
  "match_events (update_records ev p m nd d) = match_events d"
  "tournaments (update_records ev p m nd d) = tournaments d"
  "organizations (update_records ev p m nd d) = organizations d"
  "teams (update_records ev p m nd d) = teams d"
  "players (update_records ev p m nd d) = players d"
  by (simp_all add: update_records_def Let_def split: option.splits)

end
