(* ===== verification/Match_Service.thy ===== *)
theory Match_Service
  imports Match_Repo
begin

text \<open>
  \<open>internal/matches/service.go\<close>: the use cases of the matches module.  A write is two steps, as in
  the code: the guards and the computation of the transaction's parameters, from a read of the
  database, and the transaction of \<open>Match_Repo\<close>, on the database at its commit.  The use case
  itself runs both on the same database; \<open>Match_Machine\<close> interleaves them.  The drain of the outbox
  after the commit belongs to the notifications component and touches none of the tables here.
\<close>

section \<open>Participants and linkage\<close>

fun team_eligible :: "database \<Rightarrow> uuid \<Rightarrow> uuid \<Rightarrow> uuid \<Rightarrow> match_error + unit" where
  "team_eligible d tournamentID orgID teamUID =
     (if \<not> Valid teamUID then Inr ()
      else case match_GetTeamByID d teamUID orgID of
        Inl _ \<Rightarrow> Inl ErrParticipantCrossOrg
      | Inr _ \<Rightarrow> res_bind (HasApprovedRegistrationByTeam d tournamentID teamUID)
          (\<lambda>ok. ensure ok ErrParticipantNotRegistered))"

fun player_eligible :: "database \<Rightarrow> uuid \<Rightarrow> uuid \<Rightarrow> uuid \<Rightarrow> match_error + unit" where
  "player_eligible d tournamentID orgID playerUID =
     (if \<not> Valid playerUID then Inr ()
      else case match_GetPlayerByID d playerUID orgID of
        Inl _ \<Rightarrow> Inl ErrParticipantCrossOrg
      | Inr _ \<Rightarrow> res_bind (HasApprovedRegistrationByPlayer d tournamentID playerUID)
          (\<lambda>ok. ensure ok ErrParticipantNotRegistered))"

definition validateParticipantEligibility ::
  "database \<Rightarrow> uuid \<Rightarrow> uuid \<Rightarrow> uuid \<Rightarrow> uuid \<Rightarrow> uuid \<Rightarrow> uuid \<Rightarrow> match_error + unit" where
  "validateParticipantEligibility d tournamentID orgID homeTeam awayTeam homePlayer awayPlayer =
     res_bind (team_eligible d tournamentID orgID homeTeam) (\<lambda>_.
     res_bind (team_eligible d tournamentID orgID awayTeam) (\<lambda>_.
     res_bind (player_eligible d tournamentID orgID homePlayer) (\<lambda>_.
       player_eligible d tournamentID orgID awayPlayer)))"

definition validateLinkage :: "env \<Rightarrow> database \<Rightarrow> uuid \<Rightarrow> uuid \<Rightarrow> string option \<Rightarrow> int option
    \<Rightarrow> uuid option \<Rightarrow> match_error + (uuid \<times> int option)" where
  "validateLinkage ev d orgID tournamentID nextMatchID nextSlot selfID =
     (let idAbsent = (derefStr nextMatchID = []) in
      case nextSlot of
        None \<Rightarrow> if idAbsent then Inr (None, None) else Inl ErrNextMatchLinkIncomplete
      | Some slot \<Rightarrow>
          if idAbsent then Inl ErrNextMatchLinkIncomplete
          else if slot \<noteq> 1 \<and> slot \<noteq> 2 then Inl ErrInvalidNextSlot
          else res_bind (res_map_err (\<lambda>_. ErrNextMatchNotFound) (ParseUUID (env_scan ev) (derefStr nextMatchID)))
            (\<lambda>nextUID.
               if (case selfID of None \<Rightarrow> False
                   | Some self \<Rightarrow> Valid self \<and> uuid_Bytes nextUID = uuid_Bytes self)
               then Inl ErrSelfLink
               else case GetByID d nextUID orgID of
                 Inl e \<Rightarrow> Inl (if e = ErrMatchNotFound then ErrNextMatchNotFound else e)
               | Inr succ \<Rightarrow>
                   if uuid_Bytes (m_TournamentID succ) \<noteq> uuid_Bytes tournamentID
                   then Inl ErrNextMatchCrossTournament
                   else if CountFeedersForSlot d nextUID nextSlot orgID
                       (case selfID of None \<Rightarrow> None | Some self \<Rightarrow> self) > 0
                   then Inl ErrSlotAlreadyFed
                   else Inr (nextUID, nextSlot)))"

section \<open>Create\<close>

definition create_participants :: "env \<Rightarrow> database \<Rightarrow> tournament_row \<Rightarrow> uuid \<Rightarrow> uuid \<Rightarrow> MatchCreateRequest
    \<Rightarrow> match_error + (uuid \<times> uuid \<times> uuid \<times> uuid)" where
  "create_participants ev d tournament tid orgID req =
     (let uid = (\<lambda>s. ParseOptionalUUID (env_scan ev) (derefStr s));
          ht = uid (cr_HomeTeamID req); at = uid (cr_AwayTeamID req);
          hp = uid (cr_HomePlayerID req); ap = uid (cr_AwayPlayerID req);
          isTBD = (\<not> Valid ht \<and> \<not> Valid at \<and> \<not> Valid hp \<and> \<not> Valid ap)
      in if isTBD then Inr (ht, at, hp, ap)
         else res_bind (validateParticipantType (t_ParticipantType tournament) ht at hp ap) (\<lambda>_.
              res_bind (validateNoDuplicates ht at hp ap) (\<lambda>_.
              res_bind (validateParticipantEligibility d tid orgID ht at hp ap) (\<lambda>_.
                Inr (ht, at, hp, ap)))))"

definition prepare_create :: "env \<Rightarrow> database \<Rightarrow> string \<Rightarrow> MatchCreateRequest \<Rightarrow> string \<Rightarrow> string
    \<Rightarrow> match_error + createMatchTxParams" where
  "prepare_create ev d orgSlug req actorID actorOrgID =
     res_bind (GetOrgBySlug d orgSlug) (\<lambda>org.
     res_bind (assertOrgOwnership actorOrgID (UUIDToString (o_ID org))) (\<lambda>_.
     res_bind (res_map_err (\<lambda>_. ErrInvalidTournamentID) (ParseUUID (env_scan ev) (cr_TournamentID req))) (\<lambda>tid.
     res_bind (match_GetTournamentByID d tid (o_ID org)) (\<lambda>tournament.
     res_bind (ensure (t_Status tournament = TournamentStatusOngoing) ErrTournamentNotOngoing) (\<lambda>_.
     res_bind (parseRequiredTimestamp ev (cr_ScheduledAt req)) (\<lambda>scheduledAt.
     res_bind (create_participants ev d tournament tid (o_ID org) req) (\<lambda>(ht, at, hp, ap).
     res_bind (validateLinkage ev d (o_ID org) tid (cr_NextMatchID req) (cr_NextMatchSlot req) None)
       (\<lambda>(nextMatchUID, nextSlot).
     res_bind (parse_actor ev actorID) (\<lambda>actorUID.
       Inr \<lparr>ct_createParams = \<lparr>cp_TournamentID = tid, cp_OrganizationID = o_ID org,
              cp_RoundNumber = cr_RoundNumber req, cp_RoundName = cr_RoundName req,
              cp_MatchNumber = cr_MatchNumber req, cp_HomeTeamID = ht, cp_AwayTeamID = at,
              cp_HomePlayerID = hp, cp_AwayPlayerID = ap, cp_Venue = cr_Venue req,
              cp_ScheduledAt = scheduledAt, cp_Status = MatchStatusScheduled,
              cp_Notes = cr_Notes req, cp_NextMatchID = nextMatchUID,
              cp_NextMatchSlot = nextSlot, cp_GroupLabel = cr_GroupLabel req\<rparr>,
            ct_actorID = actorUID, ct_tournamentID = tid, ct_organizationID = o_ID org\<rparr>)))))))))"

definition match_Create :: "env \<Rightarrow> string \<Rightarrow> MatchCreateRequest \<Rightarrow> string \<Rightarrow> string \<Rightarrow> database
    \<Rightarrow> match_error + (MatchResponse \<times> database)" where
  "match_Create ev orgSlug req actorID actorOrgID d =
     res_bind (prepare_create ev d orgSlug req actorID actorOrgID) (\<lambda>p.
     res_bind (CreateWithAudit ev p d) (\<lambda>(m, d'). Inr (matchToResponse ev m, d')))"

section \<open>List and lookup\<close>

definition MaxListLimit :: int where "MaxListLimit = 200"
definition DefaultListLimit :: int where "DefaultListLimit = 50"

definition clamp_params :: "MatchListParams \<Rightarrow> MatchListParams" where
  "clamp_params p =
     (let p = (if ls_Limit p \<le> 0 \<or> ls_Limit p > MaxListLimit then p\<lparr>ls_Limit := DefaultListLimit\<rparr> else p)
      in if ls_Offset p < 0 then p\<lparr>ls_Offset := 0\<rparr> else p)"

definition match_ListMatches :: "env \<Rightarrow> string \<Rightarrow> MatchListParams \<Rightarrow> database
    \<Rightarrow> match_error + MatchListResponse" where
  "match_ListMatches ev orgSlug params d =
     res_bind (GetOrgBySlug d orgSlug) (\<lambda>org.
       let params = clamp_params params in
       res_bind (if derefStr (ls_TournamentFilter params) \<noteq> []
           then res_map_err (\<lambda>_. ErrInvalidTournamentID)
                  (ParseUUID (env_scan ev) (derefStr (ls_TournamentFilter params)))
           else Inr None) (\<lambda>_.
         Inr \<lparr>ml_Matches = map (matchToResponse ev) (match_List ev d (o_ID org) params),
              ml_Total = match_Count ev d (o_ID org) params,
              ml_Limit = ls_Limit params, ml_Offset = ls_Offset params\<rparr>))"

text \<open>The match of a URL; an id that is no UUID is not found.\<close>

definition match_of_url :: "env \<Rightarrow> database \<Rightarrow> uuid \<Rightarrow> string \<Rightarrow> match_error + match_row" where
  "match_of_url ev d orgID matchID =
     res_bind (res_map_err (\<lambda>_. ErrMatchNotFound) (ParseUUID (env_scan ev) matchID)) (\<lambda>mid. GetByID d mid orgID)"

definition match_GetByID :: "env \<Rightarrow> string \<Rightarrow> string \<Rightarrow> database \<Rightarrow> match_error + MatchResponse" where
  "match_GetByID ev orgSlug matchID d =
     res_bind (GetOrgBySlug d orgSlug) (\<lambda>org.
     res_bind (match_of_url ev d (o_ID org) matchID) (\<lambda>m. Inr (matchToResponse ev m)))"

definition match_GetScore :: "env \<Rightarrow> string \<Rightarrow> string \<Rightarrow> database \<Rightarrow> match_error + ScoreResult" where
  "match_GetScore ev orgSlug matchID d =
     res_bind (GetOrgBySlug d orgSlug) (\<lambda>org.
     res_bind (match_of_url ev d (o_ID org) matchID) (\<lambda>m.
       Inr (Compute m (GetEffectiveEventsForScore d (m_ID m) (o_ID org)))))"

section \<open>Update\<close>

definition current_params :: "match_row \<Rightarrow> UpdateMatchParams" where
  "current_params m = \<lparr>up_ID = m_ID m, up_OrganizationID = m_OrganizationID m,
     up_RoundNumber = m_RoundNumber m, up_RoundName = m_RoundName m,
     up_MatchNumber = m_MatchNumber m, up_HomeTeamID = m_HomeTeamID m,
     up_AwayTeamID = m_AwayTeamID m, up_HomePlayerID = m_HomePlayerID m,
     up_AwayPlayerID = m_AwayPlayerID m, up_Venue = m_Venue m,
     up_ScheduledAt = m_ScheduledAt m, up_StartedAt = m_StartedAt m,
     up_Column13 = m_EndedAt m, up_Status = m_Status m,
     up_WinnerTeamID = m_WinnerTeamID m, up_WinnerPlayerID = m_WinnerPlayerID m,
     up_Notes = m_Notes m, up_HomeScore = m_HomeScore m, up_AwayScore = m_AwayScore m,
     up_NextMatchID = m_NextMatchID m, up_NextMatchSlot = m_NextMatchSlot m,
     up_GroupLabel = m_GroupLabel m, up_Status_2 = m_Status m\<rparr>"

text \<open>\<open>if req.X != nil { params.X = req.X }\<close>\<close>

definition or_current :: "'a option \<Rightarrow> 'a option \<Rightarrow> 'a option" where
  "or_current x cur = (case x of None \<Rightarrow> cur | Some y \<Rightarrow> Some y)"

definition or_current_uuid :: "env \<Rightarrow> string option \<Rightarrow> uuid \<Rightarrow> uuid" where
  "or_current_uuid ev x cur = (case x of None \<Rightarrow> cur | Some s \<Rightarrow> ParseOptionalUUID (env_scan ev) s)"

definition overlay_fields :: "env \<Rightarrow> MatchUpdateRequest \<Rightarrow> UpdateMatchParams \<Rightarrow> match_error + UpdateMatchParams" where
  "overlay_fields ev req p =
     (let p = p\<lparr>up_RoundNumber := or_current (ur_RoundNumber req) (up_RoundNumber p),
                up_RoundName := or_current (ur_RoundName req) (up_RoundName p),
                up_MatchNumber := or_current (ur_MatchNumber req) (up_MatchNumber p),
                up_Venue := or_current (ur_Venue req) (up_Venue p),
                up_Notes := or_current (ur_Notes req) (up_Notes p)\<rparr>
      in res_bind (if ur_ScheduledAt req = None then Inr (up_ScheduledAt p)
                   else parseOptionalTimestamp ev (ur_ScheduledAt req))
           (\<lambda>ts. Inr (p\<lparr>up_ScheduledAt := ts,
              up_HomeTeamID := or_current_uuid ev (ur_HomeTeamID req) (up_HomeTeamID p),
              up_AwayTeamID := or_current_uuid ev (ur_AwayTeamID req) (up_AwayTeamID p),
              up_HomePlayerID := or_current_uuid ev (ur_HomePlayerID req) (up_HomePlayerID p),
              up_AwayPlayerID := or_current_uuid ev (ur_AwayPlayerID req) (up_AwayPlayerID p)\<rparr>)))"

definition participantsChanged :: "MatchUpdateRequest \<Rightarrow> bool" where
  "participantsChanged req \<longleftrightarrow> ur_HomeTeamID req \<noteq> None \<or> ur_AwayTeamID req \<noteq> None
     \<or> ur_HomePlayerID req \<noteq> None \<or> ur_AwayPlayerID req \<noteq> None"

definition check_participants :: "database \<Rightarrow> uuid \<Rightarrow> match_row \<Rightarrow> UpdateMatchParams \<Rightarrow> match_error + unit" where
  "check_participants d orgID current p =
     res_bind (match_GetTournamentByID d (m_TournamentID current) orgID) (\<lambda>tournament.
     res_bind (validateParticipantType (t_ParticipantType tournament)
        (up_HomeTeamID p) (up_AwayTeamID p) (up_HomePlayerID p) (up_AwayPlayerID p)) (\<lambda>_.
     res_bind (validateNoDuplicates
        (up_HomeTeamID p) (up_AwayTeamID p) (up_HomePlayerID p) (up_AwayPlayerID p)) (\<lambda>_.
       validateParticipantEligibility d (m_TournamentID current) orgID
        (up_HomeTeamID p) (up_AwayTeamID p) (up_HomePlayerID p) (up_AwayPlayerID p))))"

definition overlay_link :: "env \<Rightarrow> database \<Rightarrow> uuid \<Rightarrow> match_row \<Rightarrow> MatchUpdateRequest \<Rightarrow> UpdateMatchParams
    \<Rightarrow> match_error + UpdateMatchParams" where
  "overlay_link ev d orgID current req p =
     res_bind (if ur_NextMatchID req \<noteq> None \<or> ur_NextMatchSlot req \<noteq> None
        then res_bind (validateLinkage ev d orgID (m_TournamentID current)
               (ur_NextMatchID req) (ur_NextMatchSlot req) (Some (m_ID current)))
             (\<lambda>(nextUID, nextSlot). Inr (p\<lparr>up_NextMatchID := nextUID, up_NextMatchSlot := nextSlot\<rparr>))
        else Inr p)
     (\<lambda>p. Inr (p\<lparr>up_GroupLabel := or_current (ur_GroupLabel req) (up_GroupLabel p)\<rparr>))"

definition overlay_status :: "env \<Rightarrow> match_row \<Rightarrow> MatchUpdateRequest \<Rightarrow> UpdateMatchParams
    \<Rightarrow> match_error + (UpdateMatchParams \<times> bool)" where
  "overlay_status ev current req p =
     (case ur_Status req of
        None \<Rightarrow> Inr (p, False)
      | Some s \<Rightarrow>
          res_bind (parseMatchStatus s) (\<lambda>newStatus.
          res_bind (validateStatusTransition (m_Status current) newStatus) (\<lambda>_.
            let p = p\<lparr>up_Status := newStatus\<rparr> in
            if newStatus \<in> {MatchStatusLive, MatchStatusCompleted} \<and>
               \<not> bothParticipantsAssigned (up_HomeTeamID p) (up_AwayTeamID p) (up_HomePlayerID p) (up_AwayPlayerID p)
            then Inl ErrMatchHasTBDSlot
            else
              let p = (if newStatus = MatchStatusLive \<and> \<not> Valid (up_StartedAt p)
                       then p\<lparr>up_StartedAt := Some (env_now ev)\<rparr> else p);
                  p = (if newStatus \<in> {MatchStatusCompleted, MatchStatusAbandoned} \<and> \<not> Valid (up_Column13 p)
                       then p\<lparr>up_Column13 := Some (env_now ev)\<rparr> else p)
              in Inr (p, tournamentLockStatuses newStatus))))"

definition overlay_winner :: "env \<Rightarrow> MatchUpdateRequest \<Rightarrow> UpdateMatchParams \<Rightarrow> match_error + UpdateMatchParams" where
  "overlay_winner ev req p =
     res_bind (ensure (\<not> ((ur_WinnerTeamID req \<noteq> None \<or> ur_WinnerPlayerID req \<noteq> None)
                          \<and> up_Status p \<noteq> MatchStatusCompleted)) ErrWinnerNotAllowed) (\<lambda>_.
       let p = p\<lparr>up_WinnerTeamID := or_current_uuid ev (ur_WinnerTeamID req) (up_WinnerTeamID p),
                 up_WinnerPlayerID := or_current_uuid ev (ur_WinnerPlayerID req) (up_WinnerPlayerID p)\<rparr>
       in res_bind (ensure (\<not> (Valid (up_WinnerTeamID p)
              \<and> \<not> uuidEquals (up_WinnerTeamID p) (up_HomeTeamID p)
              \<and> \<not> uuidEquals (up_WinnerTeamID p) (up_AwayTeamID p))) ErrWinnerNotParticipant) (\<lambda>_.
          res_bind (ensure (\<not> (Valid (up_WinnerPlayerID p)
              \<and> \<not> uuidEquals (up_WinnerPlayerID p) (up_HomePlayerID p)
              \<and> \<not> uuidEquals (up_WinnerPlayerID p) (up_AwayPlayerID p))) ErrWinnerNotParticipant) (\<lambda>_.
            Inr p)))"

definition prepare_update :: "env \<Rightarrow> database \<Rightarrow> string \<Rightarrow> string \<Rightarrow> MatchUpdateRequest \<Rightarrow> string \<Rightarrow> string
    \<Rightarrow> match_error + updateMatchTxParams" where
  "prepare_update ev d orgSlug matchID req actorID actorOrgID =
     res_bind (GetOrgBySlug d orgSlug) (\<lambda>org.
     res_bind (assertOrgOwnership actorOrgID (UUIDToString (o_ID org))) (\<lambda>_.
     res_bind (match_of_url ev d (o_ID org) matchID) (\<lambda>current.
     res_bind (ensure (\<not> terminalStatuses (m_Status current)) ErrMatchNotUpdatable) (\<lambda>_.
     res_bind (parse_actor ev actorID) (\<lambda>actorUID.
     res_bind (overlay_fields ev req (current_params current)) (\<lambda>p.
     res_bind (if participantsChanged req then check_participants d (o_ID org) current p else Inr ()) (\<lambda>_.
     res_bind (overlay_link ev d (o_ID org) current req p) (\<lambda>p.
     res_bind (overlay_status ev current req p) (\<lambda>(p, lockTournament).
     res_bind (overlay_winner ev req p) (\<lambda>p.
       Inr \<lparr>ut_updateParams = p, ut_actorID = actorUID,
            ut_oldData = PDoc (response_json (matchToResponse ev current)),
            ut_lockTournament = lockTournament, ut_tournamentID = m_TournamentID current,
            ut_organizationID = m_OrganizationID current,
            ut_isCompletion = (up_Status p = MatchStatusCompleted),
            ut_isWalkover = m_IsWalkover current,
            ut_previousStatus = m_Status current\<rparr>))))))))))"

definition match_Update :: "env \<Rightarrow> string \<Rightarrow> string \<Rightarrow> MatchUpdateRequest \<Rightarrow> string \<Rightarrow> string \<Rightarrow> database
    \<Rightarrow> match_error + (MatchResponse \<times> database)" where
  "match_Update ev orgSlug matchID req actorID actorOrgID d =
     res_bind (prepare_update ev d orgSlug matchID req actorID actorOrgID) (\<lambda>p.
     res_bind (UpdateWithAudit ev p d) (\<lambda>(m, d'). Inr (matchToResponse ev m, d')))"

section \<open>Delete\<close>

definition prepare_delete :: "env \<Rightarrow> database \<Rightarrow> string \<Rightarrow> string \<Rightarrow> string \<Rightarrow> string
    \<Rightarrow> match_error + cancelMatchTxParams" where
  "prepare_delete ev d orgSlug matchID actorID actorOrgID =
     res_bind (GetOrgBySlug d orgSlug) (\<lambda>org.
     res_bind (assertOrgOwnership actorOrgID (UUIDToString (o_ID org))) (\<lambda>_.
     res_bind (match_of_url ev d (o_ID org) matchID) (\<lambda>current.
     res_bind (ensure (m_Status current \<noteq> MatchStatusCancelled) ErrMatchAlreadyCancelled) (\<lambda>_.
     res_bind (ensure (\<not> terminalStatuses (m_Status current)) ErrMatchNotUpdatable) (\<lambda>_.
     res_bind (parse_actor ev actorID) (\<lambda>actorUID.
       Inr \<lparr>xt_id = m_ID current, xt_orgID = m_OrganizationID current, xt_actorID = actorUID,
            xt_oldData = PDoc (response_json (matchToResponse ev current)),
            xt_previousStatus = m_Status current\<rparr>))))))"

definition match_Delete :: "env \<Rightarrow> string \<Rightarrow> string \<Rightarrow> string \<Rightarrow> string \<Rightarrow> database
    \<Rightarrow> match_error + database" where
  "match_Delete ev orgSlug matchID actorID actorOrgID d =
     res_bind (prepare_delete ev d orgSlug matchID actorID actorOrgID) (\<lambda>p. CancelWithAudit ev p d)"

section \<open>Walkover\<close>

definition walkover_winner :: "bool \<Rightarrow> match_row \<Rightarrow> match_error + (uuid \<times> uuid)" where
  "walkover_winner home current =
     (if Valid (m_HomeTeamID current) \<or> Valid (m_AwayTeamID current) then
        (if \<not> Valid (m_HomeTeamID current) \<or> \<not> Valid (m_AwayTeamID current) then Inl ErrWalkoverNeedsParticipants
         else Inr (if home then m_HomeTeamID current else m_AwayTeamID current, None))
      else if Valid (m_HomePlayerID current) \<or> Valid (m_AwayPlayerID current) then
        (if \<not> Valid (m_HomePlayerID current) \<or> \<not> Valid (m_AwayPlayerID current) then Inl ErrWalkoverNeedsParticipants
         else Inr (None, if home then m_HomePlayerID current else m_AwayPlayerID current))
      else Inl ErrWalkoverNeedsParticipants)"

definition prepare_walkover :: "env \<Rightarrow> database \<Rightarrow> string \<Rightarrow> string \<Rightarrow> WalkoverRequest \<Rightarrow> string \<Rightarrow> string
    \<Rightarrow> match_error + walkoverMatchTxParams" where
  "prepare_walkover ev d orgSlug matchID req actorID actorOrgID =
     res_bind (GetOrgBySlug d orgSlug) (\<lambda>org.
     res_bind (assertOrgOwnership actorOrgID (UUIDToString (o_ID org))) (\<lambda>_.
       let winner = strings_ToLower (strings_TrimSpace (wr_Winner req));
           reason = strings_TrimSpace (wr_Reason req) in
     res_bind (ensure (winner = ''home'' \<or> winner = ''away'') ErrInvalidWalkoverWinner) (\<lambda>_.
     res_bind (ensure (reason \<noteq> []) ErrWalkoverReasonRequired) (\<lambda>_.
     res_bind (match_of_url ev d (o_ID org) matchID) (\<lambda>current.
     res_bind (ensure (\<not> terminalStatuses (m_Status current)) ErrMatchNotUpdatable) (\<lambda>_.
     res_bind (walkover_winner (winner = ''home'') current) (\<lambda>(winnerTeam, winnerPlayer).
     res_bind (parse_actor ev actorID) (\<lambda>actorUID.
       Inr \<lparr>wt_id = m_ID current, wt_orgID = m_OrganizationID current,
            wt_tournamentID = m_TournamentID current, wt_winnerTeamID = winnerTeam,
            wt_winnerPlayerID = winnerPlayer, wt_reason = Some reason, wt_actorID = actorUID,
            wt_oldData = PDoc (response_json (matchToResponse ev current)),
            wt_previousStatus = m_Status current\<rparr>))))))))"

definition match_Walkover :: "env \<Rightarrow> string \<Rightarrow> string \<Rightarrow> WalkoverRequest \<Rightarrow> string \<Rightarrow> string \<Rightarrow> database
    \<Rightarrow> match_error + (MatchResponse \<times> database)" where
  "match_Walkover ev orgSlug matchID req actorID actorOrgID d =
     res_bind (prepare_walkover ev d orgSlug matchID req actorID actorOrgID) (\<lambda>p.
     res_bind (WalkoverWithAudit ev p d) (\<lambda>(m, d'). Inr (matchToResponse ev m, d')))"

end
