(* ===== verification/Match_Events.thy ===== *)
theory Match_Events
  imports Event_Store Scoring
begin

text \<open>
  Package \<open>match_events\<close>: the append-only event log of a match.  \<open>CreateWithAudit\<close> runs under the
  row lock of the match; everything it checks and the sequence number it computes are read in the
  database it commits to.
\<close>

section \<open>Errors, requests, responses\<close>

datatype event_error =
    ErrOrganizationNotFound
  | ErrMatchNotFound
  | ErrEventNotFound
  | ErrForbidden
  | ErrMatchNotLive
  | ErrInvalidEventType
  | ErrInvalidPayload
  | ErrInvalidTimestamp
  | ErrTeamNotParticipant
  | ErrPlayerNotParticipant
  | ErrPlayerNotOnTeam
  | ErrDuplicateLifecycleEvent
  | ErrCancelsEventRequired
  | ErrCancelsEventNotAllowed
  | ErrCancelsEventNotFound
  | ErrCancelsEventCrossMatch
  | ErrEventAlreadyCancelled
  | ErrCannotCancelCorrection
  | ErrInvalidScorePayload scoring_error
  | ErrInvalidActor
  | ErrJSON
  | ErrSql sql_error

record EventCreateRequest =
  er_EventType :: string
  er_TeamID :: "string option"
  er_PlayerID :: "string option"
  er_Period :: "int option"
  er_ClockSeconds :: "int option"
  er_Payload :: payload
  er_RecordedAt :: "string option"
  er_CancelsEventID :: "string option"

record EventResponse =
  es_ID :: string
  es_MatchID :: string
  es_OrganizationID :: string
  es_SequenceNumber :: int
  es_EventType :: string
  es_TeamID :: "string option"
  es_PlayerID :: "string option"
  es_Period :: "int option"
  es_ClockSeconds :: "int option"
  es_Payload :: payload
  es_RecordedBy :: "string option"
  es_RecordedAt :: string
  es_CancelsEventID :: "string option"
  es_CreatedAt :: string

record EventListParams =
  el_Limit :: int
  el_Offset :: int
  el_EffectiveOnly :: bool

record EventListResponse =
  eo_Events :: "EventResponse list"
  eo_Total :: int
  eo_Limit :: int
  eo_Offset :: int
  eo_EffectiveOnly :: bool

section \<open>Repository\<close>

definition event_GetOrgBySlug :: "database \<Rightarrow> string \<Rightarrow> event_error + org_row" where
  "event_GetOrgBySlug d slug = no_rows_as ErrOrganizationNotFound ErrSql (GetOrganizationBySlug d slug)"

definition event_GetMatchByID :: "database \<Rightarrow> uuid \<Rightarrow> uuid \<Rightarrow> event_error + match_row" where
  "event_GetMatchByID d uid orgID = no_rows_as ErrMatchNotFound ErrSql (GetMatchByID d uid orgID)"

definition event_GetByID :: "database \<Rightarrow> uuid \<Rightarrow> uuid \<Rightarrow> uuid \<Rightarrow> event_error + event_row" where
  "event_GetByID d uid matchID orgID =
     no_rows_as ErrEventNotFound ErrSql (GetMatchEventByMatchAndID d uid matchID orgID)"

definition event_List :: "database \<Rightarrow> uuid \<Rightarrow> uuid \<Rightarrow> EventListParams \<Rightarrow> event_row list" where
  "event_List d matchID orgID params =
     (if el_EffectiveOnly params
      then ListEffectiveMatchEventsByMatch d matchID orgID (el_Offset params) (el_Limit params)
      else ListMatchEventsByMatch d matchID orgID (el_Offset params) (el_Limit params))"

definition event_Count :: "database \<Rightarrow> uuid \<Rightarrow> uuid \<Rightarrow> EventListParams \<Rightarrow> int" where
  "event_Count d matchID orgID params =
     (if el_EffectiveOnly params then CountEffectiveMatchEventsByMatch d matchID orgID
      else CountMatchEventsByMatch d matchID orgID)"

record createEventTxParams =
  et_matchID :: uuid
  et_organizationID :: uuid
  et_eventType :: MatchEventType
  et_teamID :: uuid
  et_playerID :: uuid
  et_period :: "int option"
  et_clockSeconds :: "int option"
  et_payload :: payload
  et_recordedBy :: uuid
  et_recordedAt :: timestamp
  et_cancelsEventID :: uuid
  et_actorID :: uuid

definition event_format_ts :: "env \<Rightarrow> timestamp \<Rightarrow> string" where
  "event_format_ts ev ts = (case ts of None \<Rightarrow> ''0001-01-01T00:00:00Z'' | Some t \<Rightarrow> env_format_time ev t)"

definition eventToAuditJSON :: "env \<Rightarrow> event_row \<Rightarrow> event_error + payload" where
  "eventToAuditJSON ev e = (case raw_message (e_Payload e) of
       None \<Rightarrow> Inl ErrJSON
     | Some payload \<Rightarrow> Inr (PDoc (JObj (sort_key fst [
         (''id'', JStr (UUIDToString (e_ID e))),
         (''match_id'', JStr (UUIDToString (e_MatchID e))),
         (''organization_id'', JStr (UUIDToString (e_OrganizationID e))),
         (''sequence_number'', JInt (e_SequenceNumber e)),
         (''event_type'', JStr (MatchEventType_str (e_EventType e))),
         (''team_id'', JStr (UUIDToString (e_TeamID e))),
         (''player_id'', JStr (UUIDToString (e_PlayerID e))),
         (''period'', json_opt JInt (e_Period e)),
         (''clock_seconds'', json_opt JInt (e_ClockSeconds e)),
         (''payload'', payload),
         (''recorded_by'', JStr (UUIDToString (e_RecordedBy e))),
         (''recorded_at'', JStr (event_format_ts ev (e_RecordedAt e))),
         (''cancels_event_id'', JStr (UUIDToString (e_CancelsEventID e))),
         (''created_at'', JStr (event_format_ts ev (e_CreatedAt e)))]))))"

text \<open>Steps 3 to 5 of the transaction: the participants the event names.\<close>

definition check_team :: "createEventTxParams \<Rightarrow> LockMatchForUpdateRow \<Rightarrow> event_error + unit" where
  "check_team p row = (if Valid (et_teamID p)
     then ensure (uuidEquals (et_teamID p) (lk_HomeTeamID row) \<or> uuidEquals (et_teamID p) (lk_AwayTeamID row))
            ErrTeamNotParticipant
     else Inr ())"

definition check_player :: "database \<Rightarrow> createEventTxParams \<Rightarrow> LockMatchForUpdateRow \<Rightarrow> event_error + unit" where
  "check_player d p row = (if Valid (et_playerID p) then
       (if Valid (lk_HomePlayerID row) \<or> Valid (lk_AwayPlayerID row) then
          ensure (uuidEquals (et_playerID p) (lk_HomePlayerID row) \<or> uuidEquals (et_playerID p) (lk_AwayPlayerID row))
            ErrPlayerNotParticipant
        else if Valid (lk_HomeTeamID row) \<or> Valid (lk_AwayTeamID row) then
          ensure (IsPlayerOnParticipatingTeam d (et_playerID p) (lk_HomeTeamID row) (lk_AwayTeamID row))
            ErrPlayerNotParticipant
        else Inr ())
     else Inr ())"

definition check_team_player :: "database \<Rightarrow> createEventTxParams \<Rightarrow> event_error + unit" where
  "check_team_player d p = (if Valid (et_teamID p) \<and> Valid (et_playerID p)
     then ensure (IsPlayerOnTeam d (et_playerID p) (et_teamID p)) ErrPlayerNotOnTeam else Inr ())"

text \<open>Step 6: at most one start and one end.\<close>

definition check_lifecycle :: "database \<Rightarrow> createEventTxParams \<Rightarrow> event_error + unit" where
  "check_lifecycle d p =
     (if et_eventType p \<in> {MatchEventTypeMatchStarted, MatchEventTypeMatchEnded}
      then ensure (\<not> CountMatchEventsByType d (et_matchID p) (et_eventType p) > 0) ErrDuplicateLifecycleEvent
      else Inr ())"

text \<open>Step 7: the target of a correction.\<close>

definition check_correction :: "database \<Rightarrow> createEventTxParams \<Rightarrow> event_error + unit" where
  "check_correction d p =
     (if et_eventType p \<noteq> MatchEventTypeScoreCorrection then Inr ()
      else if \<not> Valid (et_cancelsEventID p) then Inl ErrCancelsEventRequired
      else res_bind (no_rows_as ErrCancelsEventNotFound ErrSql (GetMatchEventForCorrection d (et_cancelsEventID p)))
        (\<lambda>target.
           if \<not> uuidEquals (gc_MatchID target) (et_matchID p) then Inl ErrCancelsEventCrossMatch
           else if gc_EventType target = MatchEventTypeScoreCorrection then Inl ErrCannotCancelCorrection
           else case GetEventCancellation d (et_matchID p) (et_cancelsEventID p) of
             Inr _ \<Rightarrow> Inl ErrEventAlreadyCancelled
           | Inl ErrNoRows \<Rightarrow> Inr ()
           | Inl e \<Rightarrow> Inl (ErrSql e)))"

text \<open>Steps 8 to 10: the sequence number, the row, the audit record.\<close>

definition event_insert :: "env \<Rightarrow> createEventTxParams \<Rightarrow> database \<Rightarrow> event_error + (event_row \<times> database)" where
  "event_insert ev p d =
     (let nextSeq = int64 (GetMaxSequenceNumber d (et_matchID p) + 1) in
     res_bind (res_map_err ErrSql (CreateMatchEvent ev
        \<lparr>ep_MatchID = et_matchID p, ep_OrganizationID = et_organizationID p,
         ep_SequenceNumber = nextSeq, ep_EventType = et_eventType p, ep_TeamID = et_teamID p,
         ep_PlayerID = et_playerID p, ep_Period = et_period p, ep_ClockSeconds = et_clockSeconds p,
         ep_Payload = et_payload p, ep_RecordedBy = et_recordedBy p,
         ep_RecordedAt = et_recordedAt p, ep_CancelsEventID = et_cancelsEventID p\<rparr> d)) (\<lambda>(event, d1).
     res_bind (eventToAuditJSON ev event) (\<lambda>newData.
       let d2 = CreateAuditLog ev (auditParams (e_OrganizationID event) (et_actorID p) AuditActionCreate
                  ''match_events'' (e_ID event) PEmpty newData) d1
       in Inr (event, d2))))"

definition event_CreateWithAudit :: "env \<Rightarrow> createEventTxParams \<Rightarrow> database
    \<Rightarrow> event_error + (event_row \<times> database)" where
  "event_CreateWithAudit ev p d =
     res_bind (no_rows_as ErrMatchNotFound ErrSql (LockMatchForUpdate d (et_matchID p) (et_organizationID p))) (\<lambda>matchRow.
     res_bind (ensure (lk_Status matchRow = MatchStatusLive) ErrMatchNotLive) (\<lambda>_.
     res_bind (check_team p matchRow) (\<lambda>_.
     res_bind (check_player d p matchRow) (\<lambda>_.
     res_bind (check_team_player d p) (\<lambda>_.
     res_bind (check_lifecycle d p) (\<lambda>_.
     res_bind (check_correction d p) (\<lambda>_.
       event_insert ev p d)))))))"

section \<open>Service\<close>

definition event_owner :: "string \<Rightarrow> string \<Rightarrow> event_error + unit" where
  "event_owner = assert_owner ErrForbidden"

definition all_event_types :: "MatchEventType list" where
  "all_event_types = [MatchEventTypeMatchStarted, MatchEventTypeMatchEnded,
     MatchEventTypeHalfStarted, MatchEventTypeHalfEnded, MatchEventTypeTimeoutCalled,
     MatchEventTypeTimeoutEnded, MatchEventTypeRaidAttempt, MatchEventTypeRaidSuccessful,
     MatchEventTypeRaidEmpty, MatchEventTypeBonusPointAwarded, MatchEventTypeTackleSuccessful,
     MatchEventTypeSuperTackle, MatchEventTypeSuperRaid, MatchEventTypeDoOrDieRaid,
     MatchEventTypeAllOut, MatchEventTypePlayerOut, MatchEventTypePlayerRevived,
     MatchEventTypePlayerSubstituted, MatchEventTypePlayerInjured, MatchEventTypePenaltyAwarded,
     MatchEventTypeScoreCorrection]"

definition parseEventType :: "string \<Rightarrow> event_error + MatchEventType" where
  "parseEventType s = opt_res ErrInvalidEventType
     (find (\<lambda>et. MatchEventType_str et = strings_ToLower (strings_TrimSpace s)) all_event_types)"

definition parsePayload :: "payload \<Rightarrow> event_error + payload" where
  "parsePayload raw = (if raw = PEmpty then Inr empty_object
     else if unmarshal_map_ok raw then Inr raw else Inl ErrInvalidPayload)"

definition parseRecordedAt :: "env \<Rightarrow> string option \<Rightarrow> event_error + timestamp" where
  "parseRecordedAt ev s = (if derefStr s = [] then Inr (Some (env_now ev))
     else case env_parse_time ev (derefStr s) of
       None \<Rightarrow> Inl ErrInvalidTimestamp | Some t \<Rightarrow> Inr (Some t))"

definition eventToResponse :: "env \<Rightarrow> event_row \<Rightarrow> EventResponse" where
  "eventToResponse ev e = \<lparr>es_ID = UUIDToString (e_ID e), es_MatchID = UUIDToString (e_MatchID e),
     es_OrganizationID = UUIDToString (e_OrganizationID e), es_SequenceNumber = e_SequenceNumber e,
     es_EventType = MatchEventType_str (e_EventType e), es_TeamID = uuidStringPtr (e_TeamID e),
     es_PlayerID = uuidStringPtr (e_PlayerID e), es_Period = e_Period e,
     es_ClockSeconds = e_ClockSeconds e,
     es_Payload = (if e_Payload e = PEmpty then empty_object else e_Payload e),
     es_RecordedBy = uuidStringPtr (e_RecordedBy e),
     es_RecordedAt = event_format_ts ev (e_RecordedAt e),
     es_CancelsEventID = uuidStringPtr (e_CancelsEventID e),
     es_CreatedAt = event_format_ts ev (e_CreatedAt e)\<rparr>"

definition event_match_of_url :: "env \<Rightarrow> database \<Rightarrow> uuid \<Rightarrow> string \<Rightarrow> event_error + match_row" where
  "event_match_of_url ev d orgID matchID =
     res_bind (res_map_err (\<lambda>_. ErrMatchNotFound) (ParseUUID (env_scan ev) matchID))
       (\<lambda>mid. event_GetMatchByID d mid orgID)"

definition prepare_event :: "env \<Rightarrow> database \<Rightarrow> string \<Rightarrow> string \<Rightarrow> EventCreateRequest \<Rightarrow> string \<Rightarrow> string
    \<Rightarrow> event_error + createEventTxParams" where
  "prepare_event ev d orgSlug matchID req actorID actorOrgID =
     res_bind (event_GetOrgBySlug d orgSlug) (\<lambda>org.
     res_bind (event_owner actorOrgID (UUIDToString (o_ID org))) (\<lambda>_.
     res_bind (event_match_of_url ev d (o_ID org) matchID) (\<lambda>mrow.
     res_bind (parseEventType (er_EventType req)) (\<lambda>eventType.
     res_bind (parsePayload (er_Payload req)) (\<lambda>payload.
     res_bind (res_map_err ErrInvalidScorePayload (ValidateScoreEventPayload eventType payload)) (\<lambda>_.
     res_bind (if eventType = MatchEventTypeAllOut
         then res_map_err ErrInvalidScorePayload (ValidateAllOutParticipant payload
                (UUIDToString (m_HomeTeamID mrow)) (UUIDToString (m_AwayTeamID mrow)))
         else Inr ()) (\<lambda>_.
       let uid = (\<lambda>s. ParseOptionalUUID (env_scan ev) (derefStr s));
           cancelsUID = uid (er_CancelsEventID req) in
     res_bind (ensure (\<not> (eventType = MatchEventTypeScoreCorrection \<and> \<not> Valid cancelsUID)) ErrCancelsEventRequired) (\<lambda>_.
     res_bind (ensure (\<not> (eventType \<noteq> MatchEventTypeScoreCorrection \<and> Valid cancelsUID)) ErrCancelsEventNotAllowed) (\<lambda>_.
     res_bind (parseRecordedAt ev (er_RecordedAt req)) (\<lambda>recordedAt.
     res_bind (res_map_err (\<lambda>_. ErrInvalidActor) (ParseUUID (env_scan ev) actorID)) (\<lambda>actorUID.
       Inr \<lparr>et_matchID = m_ID mrow, et_organizationID = o_ID org, et_eventType = eventType,
            et_teamID = uid (er_TeamID req), et_playerID = uid (er_PlayerID req),
            et_period = er_Period req, et_clockSeconds = er_ClockSeconds req,
            et_payload = payload, et_recordedBy = actorUID, et_recordedAt = recordedAt,
            et_cancelsEventID = cancelsUID, et_actorID = actorUID\<rparr>)))))))))))"

definition event_Create :: "env \<Rightarrow> string \<Rightarrow> string \<Rightarrow> EventCreateRequest \<Rightarrow> string \<Rightarrow> string \<Rightarrow> database
    \<Rightarrow> event_error + (EventResponse \<times> database)" where
  "event_Create ev orgSlug matchID req actorID actorOrgID d =
     res_bind (prepare_event ev d orgSlug matchID req actorID actorOrgID) (\<lambda>p.
     res_bind (event_CreateWithAudit ev p d) (\<lambda>(e, d'). Inr (eventToResponse ev e, d')))"

definition clamp_event_params :: "EventListParams \<Rightarrow> EventListParams" where
  "clamp_event_params p =
     (let p = (if el_Limit p \<le> 0 \<or> el_Limit p > 200 then p\<lparr>el_Limit := 50\<rparr> else p)
      in if el_Offset p < 0 then p\<lparr>el_Offset := 0\<rparr> else p)"

definition event_ListEvents :: "env \<Rightarrow> string \<Rightarrow> string \<Rightarrow> EventListParams \<Rightarrow> database
    \<Rightarrow> event_error + EventListResponse" where
  "event_ListEvents ev orgSlug matchID params d =
     res_bind (event_GetOrgBySlug d orgSlug) (\<lambda>org.
     res_bind (event_match_of_url ev d (o_ID org) matchID) (\<lambda>m.
       let params = clamp_event_params params in
       Inr \<lparr>eo_Events = map (eventToResponse ev) (event_List d (m_ID m) (o_ID org) params),
            eo_Total = event_Count d (m_ID m) (o_ID org) params,
            eo_Limit = el_Limit params, eo_Offset = el_Offset params,
            eo_EffectiveOnly = el_EffectiveOnly params\<rparr>))"

definition event_GetEvent :: "env \<Rightarrow> string \<Rightarrow> string \<Rightarrow> string \<Rightarrow> database \<Rightarrow> event_error + EventResponse" where
  "event_GetEvent ev orgSlug matchID eventID d =
     res_bind (event_GetOrgBySlug d orgSlug) (\<lambda>org.
     res_bind (event_match_of_url ev d (o_ID org) matchID) (\<lambda>m.
     res_bind (res_map_err (\<lambda>_. ErrEventNotFound) (ParseUUID (env_scan ev) eventID)) (\<lambda>eid.
     res_bind (event_GetByID d eid (m_ID m) (o_ID org)) (\<lambda>e. Inr (eventToResponse ev e)))))"

end
