(* ===== verification/Fixturegen_Store.thy ===== *)
theory Fixturegen_Store
  imports Match_Store
begin

text \<open>
  The queries of \<open>db/sqlc/fixturegen.sql.go\<close>, and the list of approved registrations the
  generation service shares with the standings.
\<close>

section \<open>Reads\<close>

definition of_tournament :: "uuid \<Rightarrow> uuid \<Rightarrow> match_row \<Rightarrow> bool" where
  "of_tournament tournamentID orgID m \<longleftrightarrow>
     sql_eq (m_TournamentID m) tournamentID \<and> sql_eq (m_OrganizationID m) orgID"

definition CountMatchesForTournament :: "database \<Rightarrow> uuid \<Rightarrow> uuid \<Rightarrow> int" where
  "CountMatchesForTournament d tournamentID orgID =
     int (length (filter (of_tournament tournamentID orgID) (matches d)))"

definition CountUnfinishedGroupMatches :: "database \<Rightarrow> uuid \<Rightarrow> uuid \<Rightarrow> int" where
  "CountUnfinishedGroupMatches d tournamentID orgID = int (length (filter
     (\<lambda>m. of_tournament tournamentID orgID m \<and> m_GroupLabel m \<noteq> None
        \<and> m_Status m \<notin> {MatchStatusCompleted, MatchStatusWalkover, MatchStatusCancelled}) (matches d)))"

record ListGroupMatchesForStandingsRow =
  lg_GroupLabel :: "string option"
  lg_HomeTeamID :: uuid
  lg_AwayTeamID :: uuid
  lg_HomePlayerID :: uuid
  lg_AwayPlayerID :: uuid
  lg_WinnerTeamID :: uuid
  lg_WinnerPlayerID :: uuid
  lg_IsWalkover :: bool
  lg_HomeScore :: int
  lg_AwayScore :: int

text \<open>The order of a text column is that of the bytes.\<close>

definition ListGroupMatchesForStandings :: "database \<Rightarrow> uuid \<Rightarrow> uuid \<Rightarrow> ListGroupMatchesForStandingsRow list" where
  "ListGroupMatchesForStandings d tournamentID orgID =
     map (\<lambda>m. \<lparr>lg_GroupLabel = m_GroupLabel m, lg_HomeTeamID = m_HomeTeamID m,
            lg_AwayTeamID = m_AwayTeamID m, lg_HomePlayerID = m_HomePlayerID m,
            lg_AwayPlayerID = m_AwayPlayerID m, lg_WinnerTeamID = m_WinnerTeamID m,
            lg_WinnerPlayerID = m_WinnerPlayerID m, lg_IsWalkover = m_IsWalkover m,
            lg_HomeScore = m_HomeScore m, lg_AwayScore = m_AwayScore m\<rparr>)
       (sort_key (\<lambda>m. (derefStr (m_GroupLabel m), - created_desc (m_CreatedAt m)))
         (filter (\<lambda>m. of_tournament tournamentID orgID m \<and> m_GroupLabel m \<noteq> None
            \<and> m_Status m \<in> {MatchStatusCompleted, MatchStatusWalkover}) (matches d)))"

text \<open>The operator \<open>?\<close> of \<open>JSONB\<close>: the string is a top-level key or array element.\<close>

fun jsonb_has_key :: "string \<Rightarrow> payload \<Rightarrow> bool" where
  "jsonb_has_key k (PDoc (JObj ms)) \<longleftrightarrow> k \<in> fst ` set ms"
| "jsonb_has_key k (PDoc (JArr vs)) \<longleftrightarrow> JStr k \<in> set vs"
| "jsonb_has_key k (PDoc (JStr s)) \<longleftrightarrow> s = k"
| "jsonb_has_key k _ \<longleftrightarrow> False"

record ListKnockoutQualifierMatchesRow =
  lq_ID :: uuid
  lq_RoundNumber :: "int option"
  lq_HomeTeamID :: uuid
  lq_AwayTeamID :: uuid
  lq_HomePlayerID :: uuid
  lq_AwayPlayerID :: uuid
  lq_Metadata :: payload

definition knockout_qualifier :: "uuid \<Rightarrow> uuid \<Rightarrow> match_row \<Rightarrow> bool" where
  "knockout_qualifier tournamentID orgID m \<longleftrightarrow> of_tournament tournamentID orgID m
     \<and> m_GroupLabel m = None \<and> jsonb_has_key ''qualifiers'' (m_Metadata m)"

definition qualifier_row :: "match_row \<Rightarrow> ListKnockoutQualifierMatchesRow" where
  "qualifier_row m = \<lparr>lq_ID = m_ID m, lq_RoundNumber = m_RoundNumber m, lq_HomeTeamID = m_HomeTeamID m,
     lq_AwayTeamID = m_AwayTeamID m, lq_HomePlayerID = m_HomePlayerID m,
     lq_AwayPlayerID = m_AwayPlayerID m, lq_Metadata = m_Metadata m\<rparr>"

definition ListKnockoutQualifierMatches :: "database \<Rightarrow> uuid \<Rightarrow> uuid \<Rightarrow> ListKnockoutQualifierMatchesRow list" where
  "ListKnockoutQualifierMatches d tournamentID orgID = map qualifier_row
     (sort_key (\<lambda>m. (nulls_last (m_RoundNumber m), nulls_last (m_MatchNumber m)))
       (filter (knockout_qualifier tournamentID orgID) (matches d)))"

record LockTournamentForGenerationRow =
  lt_ID :: uuid
  lt_Status :: TournamentStatus
  lt_Format :: TournamentFormat
  lt_ParticipantType :: ParticipantType
  lt_Settings :: payload

definition LockTournamentForGeneration :: "database \<Rightarrow> uuid \<Rightarrow> uuid \<Rightarrow> sql_error + LockTournamentForGenerationRow" where
  "LockTournamentForGeneration d uid orgID = res_bind (GetTournamentByID d uid orgID)
     (\<lambda>t. Inr \<lparr>lt_ID = t_ID t, lt_Status = t_Status t, lt_Format = t_Format t,
        lt_ParticipantType = t_ParticipantType t, lt_Settings = t_Settings t\<rparr>)"

record ListApprovedRegistrationsForStandingsRow =
  ar_TeamID :: uuid
  ar_PlayerID :: uuid
  ar_SeedNumber :: "int option"
  ar_RegisteredAt :: timestamp

definition ListApprovedRegistrationsForStandings ::
  "database \<Rightarrow> uuid \<Rightarrow> ListApprovedRegistrationsForStandingsRow list" where
  "ListApprovedRegistrationsForStandings d tournamentID =
     map (\<lambda>r. \<lparr>ar_TeamID = r_TeamID r, ar_PlayerID = r_PlayerID r, ar_SeedNumber = r_SeedNumber r,
            ar_RegisteredAt = r_RegisteredAt r\<rparr>)
       (sort_key (\<lambda>r. ts_Time (r_RegisteredAt r))
         (filter (\<lambda>r. sql_eq (r_TournamentID r) tournamentID \<and> r_Status r = RegistrationStatusApproved)
           (tournament_registrations d)))"

section \<open>Writes\<close>

record InsertGeneratedMatchParams =
  gp_TournamentID :: uuid
  gp_OrganizationID :: uuid
  gp_RoundNumber :: "int option"
  gp_RoundName :: "string option"
  gp_MatchNumber :: "int option"
  gp_HomeTeamID :: uuid
  gp_AwayTeamID :: uuid
  gp_HomePlayerID :: uuid
  gp_AwayPlayerID :: uuid
  gp_GroupLabel :: "string option"
  gp_NextMatchID :: uuid
  gp_NextMatchSlot :: "int option"
  gp_Metadata :: payload

definition generated_match :: "env \<Rightarrow> InsertGeneratedMatchParams \<Rightarrow> match_row" where
  "generated_match ev p = \<lparr>m_ID = Some (env_row_id ev), m_TournamentID = gp_TournamentID p,
     m_OrganizationID = gp_OrganizationID p, m_RoundNumber = gp_RoundNumber p,
     m_RoundName = gp_RoundName p, m_MatchNumber = gp_MatchNumber p,
     m_HomeTeamID = gp_HomeTeamID p, m_AwayTeamID = gp_AwayTeamID p,
     m_HomePlayerID = gp_HomePlayerID p, m_AwayPlayerID = gp_AwayPlayerID p,
     m_Venue = None, m_ScheduledAt = None, m_StartedAt = None, m_EndedAt = None,
     m_Status = MatchStatusScheduled, m_WinnerTeamID = None, m_WinnerPlayerID = None,
     m_IsWalkover = False, m_Notes = None, m_Metadata = gp_Metadata p,
     m_CreatedAt = Some (env_db_now ev), m_UpdatedAt = Some (env_db_now ev),
     m_HomeScore = 0, m_AwayScore = 0, m_NextMatchID = gp_NextMatchID p,
     m_NextMatchSlot = gp_NextMatchSlot p, m_GroupLabel = gp_GroupLabel p\<rparr>"

definition InsertGeneratedMatch :: "env \<Rightarrow> InsertGeneratedMatchParams \<Rightarrow> database
    \<Rightarrow> sql_error + (match_row \<times> database)" where
  "InsertGeneratedMatch ev p d = insert_match (generated_match ev p) d"

definition UpdateTournamentSettings :: "env \<Rightarrow> uuid \<Rightarrow> uuid \<Rightarrow> payload \<Rightarrow> database \<Rightarrow> database" where
  "UpdateTournamentSettings ev uid orgID settings d =
     d\<lparr>tournaments := update_rows
         (\<lambda>t. sql_eq (t_ID t) uid \<and> sql_eq (t_OrganizationID t) orgID)
         (\<lambda>t. t\<lparr>t_Settings := settings, t_UpdatedAt := Some (env_db_now ev)\<rparr>) (tournaments d)\<rparr>"

interpretation settings_row: keyed_update t_ID
    "\<lambda>t. t\<lparr>t_Settings := settings, t_UpdatedAt := Some (env_db_now ev)\<rparr>" for settings ev
  by unfold_locales simp

lemma UpdateTournamentSettings_frame [simp, frame_simps]:
  "organizations (UpdateTournamentSettings ev uid orgID s d) = organizations d"
  "teams (UpdateTournamentSettings ev uid orgID s d) = teams d"
  "players (UpdateTournamentSettings ev uid orgID s d) = players d"
  "team_memberships (UpdateTournamentSettings ev uid orgID s d) = team_memberships d"
  "tournament_registrations (UpdateTournamentSettings ev uid orgID s d) = tournament_registrations d"
  "matches (UpdateTournamentSettings ev uid orgID s d) = matches d"
  "match_events (UpdateTournamentSettings ev uid orgID s d) = match_events d"
  "audit_logs (UpdateTournamentSettings ev uid orgID s d) = audit_logs d"
  "notification_outbox (UpdateTournamentSettings ev uid orgID s d) = notification_outbox d"
  by (simp_all add: UpdateTournamentSettings_def)

end
