(* ===== verification/Fixturegen.thy ===== *)
theory Fixturegen
  imports Generator Standings Fixturegen_Store
begin

text \<open>
  Package \<open>fixturegen\<close>: a plan of the fixture engine becomes rows of \<open>matches\<close>
  (\<open>fixturegen_Generate\<close>), and the knockout slots of a group tournament are filled from the group
  standings (\<open>fixturegen_Resolve\<close>).  Each of the two writes is one transaction under the row lock
  of the tournament, so the guards, the plan and the inserts read the same database.
\<close>

section \<open>Data\<close>

datatype fgen_error =
    ErrOrganizationNotFound
  | ErrTournamentNotFound
  | ErrForbidden
  | ErrNotRegistrationClosed
  | ErrFixturesExist
  | ErrRegistrationsChanged
  | ErrInvalidTournamentID
  | ErrInvalidFormat
  | ErrInvalidSeedStrategy
  | ErrTooFewParticipants
  | ErrInvalidGroupConfig
  | ErrNotGroupKnockout
  | ErrTournamentNotOngoing
  | ErrGroupStageIncomplete
  | ErrNoQualifierMatches
  | ErrQualifierUnavailable
  | ErrEngine FixtureError      \<comment> \<open>passed on as it is\<close>
  | ErrInvalidActor
  | ErrJSON
  | ErrSql sql_error
  | GoPanic                     \<comment> \<open>a nil dereference, or a panic of the engine\<close>

text \<open>
  What the package takes from outside: \<open>math/rand\<close> (a source from a seed and \<open>Intn\<close>), eight bytes
  of \<open>crypto/rand\<close> (or an error), the identifiers of the inserted rows, the iteration orders of
  the maps and the number texts of \<open>strconv\<close>.
\<close>

record 'r engine =
  en_newSource :: "int \<Rightarrow> 'r"
  en_intn :: "nat \<Rightarrow> 'r \<Rightarrow> nat \<times> 'r"
  en_random :: "64 word option"
  en_ids :: "nat \<Rightarrow> 128 word"
  en_iter :: "string list \<Rightarrow> string list"
  en_iterG :: "int list \<Rightarrow> int list"
  en_float :: "json \<Rightarrow> json option"

record GenerateRequest =
  gr_Format :: "string option"
  gr_SeedStrategy :: string
  gr_RandomSeed :: "int option"
  gr_Legs :: "int option"
  gr_Groups :: "int option"
  gr_QualifiersPerGroup :: "int option"
  gr_ExpectedParticipants :: "int option"
  gr_DryRun :: bool

record PreviewSlot =
  ps_Kind :: string
  ps_ParticipantID :: string
  ps_Group :: string
  ps_Rank :: nat

record PreviewMatch =
  pv_RoundNumber :: nat
  pv_RoundName :: string
  pv_MatchNumber :: nat
  pv_GroupLabel :: string
  pv_Home :: PreviewSlot
  pv_Away :: PreviewSlot
  pv_NextMatchNumber :: "nat option"
  pv_NextMatchSlot :: "nat option"

record PreviewBye =
  pb_ParticipantID :: string
  pb_IntoRound :: nat

record GenerateResponse =
  go_DryRun :: bool
  go_Generated :: nat
  go_Format :: string
  go_SeedStrategy :: string
  go_RandomSeed :: "int option"
  go_SeedOrder :: "string list"
  go_Matches :: "PreviewMatch list"
  go_Byes :: "PreviewBye list"
  go_Warnings :: "string list"
  go_GeneratedAt :: "string option"

section \<open>Repository helpers\<close>

definition fg_participantID :: "uuid \<Rightarrow> uuid \<Rightarrow> string" where
  "fg_participantID team player =
     (if Valid team then UUIDToString team else if Valid player then UUIDToString player else [])"

definition slotEmpty :: "uuid \<Rightarrow> uuid \<Rightarrow> bool" where
  "slotEmpty team player \<longleftrightarrow> \<not> Valid team \<and> \<not> Valid player"

definition strptr :: "string \<Rightarrow> string option" where
  "strptr s = (if s = [] then None else Some s)"

definition groupLabelPtr :: "string \<Rightarrow> string option" where
  "groupLabelPtr s = (if s = [] then None else Some s)"

definition int16ptr :: "nat \<Rightarrow> int option" where
  "int16ptr v = Some (int16 (int v))"

text \<open>\<open>UnixNano\<close> of a microsecond time, in 64-bit arithmetic.\<close>

definition toParticipants :: "ListApprovedRegistrationsForStandingsRow list \<Rightarrow> ParticipantType \<Rightarrow> Participant list" where
  "toParticipants rows pt = List.map_filter
     (\<lambda>r. let uid = (if pt = ParticipantTypeIndividual then ar_PlayerID r else ar_TeamID r) in
        if \<not> Valid uid then None
        else Some \<lparr>p_id = UUIDToString uid, p_seedNumber = ar_SeedNumber r,
                   p_registeredAt = int64 (1000 * ts_Time (ar_RegisteredAt r))\<rparr>) rows"

text \<open>The metadata of a match with qualifier slots, \<open>{}\<close> for every other.\<close>

definition qualRef_json :: "SlotRef \<Rightarrow> (string \<times> json) list option" where
  "qualRef_json s = (case s of
       SlotQualifier g rank \<Rightarrow> Some [(''group'', JStr g), (''rank'', JInt (int rank))]
     | _ \<Rightarrow> None)"

definition qualifierMetadata :: "PlannedMatch \<Rightarrow> payload" where
  "qualifierMetadata pm =
     (let home = qualRef_json (pm_home pm); away = qualRef_json (pm_away pm) in
      if home = None \<and> away = None then empty_object
      else PDoc (JObj [(''qualifiers'',
             JObj (omitempty ''home'' JObj home @ omitempty ''away'' JObj away))]))"

definition concrete_uuid :: "env \<Rightarrow> SlotRef \<Rightarrow> uuid option" where
  "concrete_uuid ev s = (case s of
       SlotConcrete pid \<Rightarrow> Some (case ParseUUID (env_scan ev) pid of Inl _ \<Rightarrow> None | Inr u \<Rightarrow> u)
     | _ \<Rightarrow> None)"

definition setSlotColumns :: "env \<Rightarrow> ParticipantType \<Rightarrow> SlotRef \<Rightarrow> SlotRef
    \<Rightarrow> InsertGeneratedMatchParams \<Rightarrow> InsertGeneratedMatchParams" where
  "setSlotColumns ev pt home away p =
     (let p = (case concrete_uuid ev home of None \<Rightarrow> p
         | Some u \<Rightarrow> if pt = ParticipantTypeIndividual then p\<lparr>gp_HomePlayerID := u\<rparr> else p\<lparr>gp_HomeTeamID := u\<rparr>)
      in (case concrete_uuid ev away of None \<Rightarrow> p
         | Some u \<Rightarrow> if pt = ParticipantTypeIndividual then p\<lparr>gp_AwayPlayerID := u\<rparr> else p\<lparr>gp_AwayTeamID := u\<rparr>))"

section \<open>Generation\<close>

record GenerateParams =
  gt_TournamentID :: uuid
  gt_OrgID :: uuid
  gt_ActorID :: uuid
  gt_ExpectedParticipants :: int

text \<open>The row of one planned match; \<open>uuidByIndex\<close> holds the matches inserted so far.\<close>

definition planned_params :: "env \<Rightarrow> GenerateParams \<Rightarrow> ParticipantType \<Rightarrow> (nat \<Rightarrow> uuid) \<Rightarrow> PlannedMatch
    \<Rightarrow> fgen_error + InsertGeneratedMatchParams" where
  "planned_params ev p pt uuidByIndex pm =
     (let params = setSlotColumns ev pt (pm_home pm) (pm_away pm)
            \<lparr>gp_TournamentID = gt_TournamentID p, gp_OrganizationID = gt_OrgID p,
             gp_RoundNumber = int16ptr (pm_roundNumber pm), gp_RoundName = strptr (pm_roundName pm),
             gp_MatchNumber = int16ptr (pm_matchNumber pm), gp_HomeTeamID = None, gp_AwayTeamID = None,
             gp_HomePlayerID = None, gp_AwayPlayerID = None,
             gp_GroupLabel = groupLabelPtr (pm_groupLabel pm), gp_NextMatchID = None,
             gp_NextMatchSlot = None, gp_Metadata = qualifierMetadata pm\<rparr>
      in case pm_nextMatchIndex pm of
           None \<Rightarrow> Inr params
         | Some k \<Rightarrow> (case pm_nextSlot pm of
               None \<Rightarrow> Inl GoPanic
             | Some s \<Rightarrow> Inr (params\<lparr>gp_NextMatchID := uuidByIndex k, gp_NextMatchSlot := int16ptr s\<rparr>)))"

fun insert_matches :: "env \<Rightarrow> (nat \<Rightarrow> 128 word) \<Rightarrow> GenerateParams \<Rightarrow> ParticipantType \<Rightarrow> nat
    \<Rightarrow> PlannedMatch list \<Rightarrow> (nat \<Rightarrow> uuid) \<Rightarrow> database \<Rightarrow> fgen_error + database" where
  "insert_matches ev ids p pt k [] uuidByIndex d = Inr d"
| "insert_matches ev ids p pt k (pm # pms) uuidByIndex d =
     res_bind (planned_params ev p pt uuidByIndex pm) (\<lambda>params.
     res_bind (res_map_err ErrSql (InsertGeneratedMatch (ev\<lparr>env_row_id := ids k\<rparr>) params d)) (\<lambda>(m, d').
       insert_matches ev ids p pt (k + 1) pms (uuidByIndex(pm_index pm := m_ID m)) d'))"

definition insertion_order :: "PlannedMatch list \<Rightarrow> PlannedMatch list" where
  "insertion_order ms = map (\<lambda>i. ms ! i)
     (slice_stable (\<lambda>a b. pm_roundNumber (ms ! a) > pm_roundNumber (ms ! b)) [0..<length ms])"

definition insertPlan :: "env \<Rightarrow> (nat \<Rightarrow> 128 word) \<Rightarrow> GenerateParams \<Rightarrow> ParticipantType \<Rightarrow> Plan \<Rightarrow> database
    \<Rightarrow> fgen_error + database" where
  "insertPlan ev ids p pt plan d =
     insert_matches ev ids p pt 0 (insertion_order (pl_matches plan)) (\<lambda>_. None) d"

text \<open>
  \<open>m["generation"] = generation\<close> over the decoded settings; a \<open>null\<close> document leaves the map nil,
  and the assignment panics.
\<close>

definition mergeSettings :: "(json \<Rightarrow> json option) \<Rightarrow> payload \<Rightarrow> (string \<times> json) list \<Rightarrow> fgen_error + payload" where
  "mergeSettings fl existing generation =
     (let put = (\<lambda>ms. PDoc (JObj (sort_key fst (put_member ''generation'' (JObj (sort_key fst generation)) ms)))) in
      case existing of
        PEmpty \<Rightarrow> Inr (put [])
      | PMalformed \<Rightarrow> Inl ErrJSON
      | PDoc JNull \<Rightarrow> Inl GoPanic
      | PDoc j \<Rightarrow> (case any_json fl j of Some (JObj ms) \<Rightarrow> Inr (put ms) | _ \<Rightarrow> Inl ErrJSON))"

record GenerateResult =
  gs_Plan :: Plan
  gs_GeneratedAt :: int
  gs_Count :: nat

definition generation_participants :: "env \<Rightarrow> GenerateParams \<Rightarrow> database
    \<Rightarrow> fgen_error + (LockTournamentForGenerationRow \<times> Participant list)" where
  "generation_participants ev p d =
     res_bind (no_rows_as ErrTournamentNotFound ErrSql
        (LockTournamentForGeneration d (gt_TournamentID p) (gt_OrgID p))) (\<lambda>row.
     res_bind (ensure (lt_Status row = TournamentStatusRegistrationClosed) ErrNotRegistrationClosed) (\<lambda>_.
     res_bind (ensure (\<not> CountMatchesForTournament d (gt_TournamentID p) (gt_OrgID p) > 0) ErrFixturesExist) (\<lambda>_.
       let ps = toParticipants (ListApprovedRegistrationsForStandings d (gt_TournamentID p)) (lt_ParticipantType row) in
     res_bind (ensure (\<not> length ps < 2) ErrTooFewParticipants) (\<lambda>_.
     res_bind (ensure (\<not> (gt_ExpectedParticipants p > 0 \<and> int (length ps) \<noteq> gt_ExpectedParticipants p))
        ErrRegistrationsChanged) (\<lambda>_.
       Inr (row, ps))))))"

definition repo_Generate :: "'r engine \<Rightarrow> env \<Rightarrow> GenerateParams
    \<Rightarrow> (Participant list \<Rightarrow> TournamentFormat \<Rightarrow> fgen_error + Plan)
    \<Rightarrow> (Plan \<Rightarrow> int \<Rightarrow> (string \<times> json) list) \<Rightarrow> database \<Rightarrow> fgen_error + (GenerateResult \<times> database)" where
  "repo_Generate en ev p buildPlan generationMeta d =
     res_bind (generation_participants ev p d) (\<lambda>(row, ps).
     res_bind (buildPlan ps (lt_Format row)) (\<lambda>plan.
     res_bind (insertPlan ev (en_ids en) p (lt_ParticipantType row) plan d) (\<lambda>d1.
     res_bind (mergeSettings (en_float en) (lt_Settings row) (generationMeta plan (env_now ev))) (\<lambda>merged.
       Inr (\<lparr>gs_Plan = plan, gs_GeneratedAt = env_now ev, gs_Count = length (pl_matches plan)\<rparr>,
            UpdateTournamentSettings ev (gt_TournamentID p) (gt_OrgID p) merged d1)))))"

section \<open>The service\<close>

definition parseFormat :: "string \<Rightarrow> fgen_error + Format" where
  "parseFormat s = (let f = strings_ToLower (strings_TrimSpace s) in
     if f \<in> {FormatRoundRobin, FormatLeague, FormatKnockout, FormatGroupKnockout} then Inr f
     else Inl ErrInvalidFormat)"

definition resolveFormat :: "string option \<Rightarrow> TournamentFormat \<Rightarrow> fgen_error + Format" where
  "resolveFormat override rowFormat =
     (if derefStr override \<noteq> [] then parseFormat (derefStr override)
      else parseFormat (TournamentFormat_str rowFormat))"

definition parseStrategy :: "string \<Rightarrow> fgen_error + SeedStrategy" where
  "parseStrategy s = (let f = strings_ToLower (strings_TrimSpace s) in
     if f \<in> {SeedManual, SeedRandom, SeedRegistration} then Inr f else Inl ErrInvalidSeedStrategy)"

fun mapEngineError :: "FixtureError \<Rightarrow> fgen_error" where
  "mapEngineError FixtureError.ErrTooFewParticipants = ErrTooFewParticipants"
| "mapEngineError ErrUnknownFormat = ErrInvalidFormat"
| "mapEngineError ErrUnknownSeedStrategy = ErrInvalidSeedStrategy"
| "mapEngineError ErrInvalidGroups = ErrInvalidGroupConfig"
| "mapEngineError ErrInvalidQualifiers = ErrInvalidGroupConfig"
| "mapEngineError ErrDuplicateParticipant = ErrEngine ErrDuplicateParticipant"

text \<open>The random seed is masked to 52 bits; without random bytes the clock stands in.\<close>

definition newRandomSeed :: "'r engine \<Rightarrow> env \<Rightarrow> int" where
  "newRandomSeed en ev = take_bit 52
     (case en_random en of Some w \<Rightarrow> uint w | None \<Rightarrow> int64 (1000 * env_now ev))"

definition derefInt :: "int option \<Rightarrow> int" where
  "derefInt p = (case p of None \<Rightarrow> 0 | Some n \<Rightarrow> n)"

definition request_seed :: "'r engine \<Rightarrow> env \<Rightarrow> SeedStrategy \<Rightarrow> GenerateRequest \<Rightarrow> int" where
  "request_seed en ev strategy req =
     (if strategy = SeedRandom
      then (case gr_RandomSeed req of Some s \<Rightarrow> s | None \<Rightarrow> newRandomSeed en ev) else 0)"

definition request_settings :: "GenerateRequest \<Rightarrow> SeedStrategy \<Rightarrow> int \<Rightarrow> Format \<Rightarrow> Settings" where
  "request_settings req strategy seed f =
     \<lparr>s_format = f, s_seedStrategy = strategy, s_randomSeed = seed, s_legs = derefInt (gr_Legs req),
      s_groups = derefInt (gr_Groups req), s_qualifiersPerGroup = derefInt (gr_QualifiersPerGroup req)\<rparr>"

definition build_plan :: "'r engine \<Rightarrow> GenerateRequest \<Rightarrow> SeedStrategy \<Rightarrow> int
    \<Rightarrow> Participant list \<Rightarrow> TournamentFormat \<Rightarrow> fgen_error + Plan" where
  "build_plan en req strategy seed participants rowFormat =
     res_bind (resolveFormat (gr_Format req) rowFormat) (\<lambda>f.
       case Generate (en_newSource en) (en_intn en) participants (request_settings req strategy seed f) of
         None \<Rightarrow> Inl GoPanic
       | Some (Inl e) \<Rightarrow> Inl (mapEngineError e)
       | Some (Inr plan) \<Rightarrow> Inr plan)"

fun toPreviewSlot :: "SlotRef \<Rightarrow> PreviewSlot" where
  "toPreviewSlot (SlotConcrete pid) = \<lparr>ps_Kind = ''participant'', ps_ParticipantID = pid, ps_Group = [], ps_Rank = 0\<rparr>"
| "toPreviewSlot (SlotQualifier g r) = \<lparr>ps_Kind = ''qualifier'', ps_ParticipantID = [], ps_Group = g, ps_Rank = r\<rparr>"
| "toPreviewSlot SlotTBD = \<lparr>ps_Kind = ''tbd'', ps_ParticipantID = [], ps_Group = [], ps_Rank = 0\<rparr>"

definition number_by_index :: "PlannedMatch list \<Rightarrow> nat \<Rightarrow> nat" where
  "number_by_index ms k = (case find (\<lambda>m. pm_index m = k) (rev ms) of None \<Rightarrow> 0 | Some m \<Rightarrow> pm_matchNumber m)"

definition preview_match :: "PlannedMatch list \<Rightarrow> PlannedMatch \<Rightarrow> PreviewMatch" where
  "preview_match ms m = \<lparr>pv_RoundNumber = pm_roundNumber m, pv_RoundName = pm_roundName m,
     pv_MatchNumber = pm_matchNumber m, pv_GroupLabel = pm_groupLabel m,
     pv_Home = toPreviewSlot (pm_home m), pv_Away = toPreviewSlot (pm_away m),
     pv_NextMatchNumber = map_option (number_by_index ms) (pm_nextMatchIndex m),
     pv_NextMatchSlot = (if pm_nextMatchIndex m = None then None else pm_nextSlot m)\<rparr>"

definition buildResponse :: "Plan \<Rightarrow> bool \<Rightarrow> SeedStrategy \<Rightarrow> int \<Rightarrow> string option \<Rightarrow> GenerateResponse" where
  "buildResponse plan dryRun strategy randomSeed generatedAt =
     \<lparr>go_DryRun = dryRun, go_Generated = 0, go_Format = s_format (pl_settings plan),
      go_SeedStrategy = strategy, go_RandomSeed = (if strategy = SeedRandom then Some randomSeed else None),
      go_SeedOrder = pl_seedOrder plan,
      go_Matches = map (preview_match (pl_matches plan)) (pl_matches plan),
      go_Byes = map (\<lambda>b. \<lparr>pb_ParticipantID = bye_participantID b, pb_IntoRound = bye_intoRound b\<rparr>) (pl_byes plan),
      go_Warnings = pl_warnings plan, go_GeneratedAt = generatedAt\<rparr>"

definition generationMeta :: "env \<Rightarrow> string \<Rightarrow> SeedStrategy \<Rightarrow> int \<Rightarrow> GenerateRequest \<Rightarrow> Plan \<Rightarrow> int
    \<Rightarrow> (string \<times> json) list" where
  "generationMeta ev actorID strategy randomSeed req plan at_time =
     (let legs = derefInt (gr_Legs req); groups = derefInt (gr_Groups req);
          qpg = derefInt (gr_QualifiersPerGroup req) in
      [(''generated_by'', JStr actorID), (''format'', JStr (s_format (pl_settings plan))),
       (''seed_strategy'', JStr strategy), (''generated_at'', JStr (env_format_time ev at_time)),
       (''match_count'', JInt (int (length (pl_matches plan)))),
       (''seed_order'', JArr (map JStr (pl_seedOrder plan)))]
      @ (if strategy = SeedRandom then [(''random_seed'', JInt randomSeed)] else [])
      @ (if legs > 0 then [(''legs'', JInt legs)] else [])
      @ (if groups > 0 then [(''groups'', JInt groups)] else [])
      @ (if qpg > 0 then [(''qualifiers_per_group'', JInt qpg)] else []))"

text \<open>What both paths of the service check before they look at the tournament.\<close>

definition generate_request :: "env \<Rightarrow> database \<Rightarrow> string \<Rightarrow> string \<Rightarrow> GenerateRequest \<Rightarrow> string
    \<Rightarrow> fgen_error + (uuid \<times> uuid \<times> SeedStrategy)" where
  "generate_request ev d orgSlug tournamentID req actorOrgID =
     res_bind (no_rows_as ErrOrganizationNotFound ErrSql (GetOrganizationBySlug d orgSlug)) (\<lambda>org.
     res_bind (assert_owner ErrForbidden actorOrgID (UUIDToString (o_ID org))) (\<lambda>_.
     res_bind (res_map_err (\<lambda>_. ErrInvalidTournamentID) (ParseUUID (env_scan ev) tournamentID)) (\<lambda>tid.
     res_bind (parseStrategy (gr_SeedStrategy req)) (\<lambda>strategy. Inr (o_ID org, tid, strategy)))))"

definition preview :: "'r engine \<Rightarrow> env \<Rightarrow> database \<Rightarrow> uuid \<Rightarrow> uuid \<Rightarrow> SeedStrategy \<Rightarrow> GenerateRequest
    \<Rightarrow> fgen_error + GenerateResponse" where
  "preview en ev d orgID tid strategy req =
     res_bind (no_rows_as ErrTournamentNotFound ErrSql (GetTournamentByID d tid orgID)) (\<lambda>t.
       let ps = toParticipants (ListApprovedRegistrationsForStandings d tid) (t_ParticipantType t);
           seed = request_seed en ev strategy req in
     res_bind (ensure (\<not> length ps < 2) ErrTooFewParticipants) (\<lambda>_.
     res_bind (build_plan en req strategy seed ps (t_Format t)) (\<lambda>plan.
       Inr (buildResponse plan True strategy seed None))))"

definition fixturegen_Generate :: "'r engine \<Rightarrow> env \<Rightarrow> string \<Rightarrow> string \<Rightarrow> GenerateRequest \<Rightarrow> string \<Rightarrow> string
    \<Rightarrow> database \<Rightarrow> fgen_error + (GenerateResponse \<times> database)" where
  "fixturegen_Generate en ev orgSlug tournamentID req actorID actorOrgID d =
     res_bind (generate_request ev d orgSlug tournamentID req actorOrgID) (\<lambda>(orgID, tid, strategy).
       if gr_DryRun req
       then res_bind (preview en ev d orgID tid strategy req) (\<lambda>resp. Inr (resp, d))
       else
         let seed = request_seed en ev strategy req in
         res_bind (res_map_err (\<lambda>_. ErrInvalidActor) (ParseUUID (env_scan ev) actorID)) (\<lambda>actorUID.
         res_bind (repo_Generate en ev
             \<lparr>gt_TournamentID = tid, gt_OrgID = orgID, gt_ActorID = actorUID,
              gt_ExpectedParticipants = derefInt (gr_ExpectedParticipants req)\<rparr>
             (build_plan en req strategy seed) (generationMeta ev actorID strategy seed req) d)
           (\<lambda>(res, d'). Inr ((buildResponse (gs_Plan res) False strategy seed
                (Some (env_format_time ev (gs_GeneratedAt res))))\<lparr>go_Generated := gs_Count res\<rparr>, d'))))"

end
