(* ===== verification/Fixturegen_Resolve.thy ===== *)
theory Fixturegen_Resolve
  imports Fixturegen
begin

text \<open>
  \<open>ResolveQualifiers\<close> of package \<open>fixturegen\<close>: the qualifier mapping read back from the metadata
  of the knockout matches, the group tables, and the transaction that fills the empty slots.  Then
  the stored generation record, read back by \<open>GetGenerationInfo\<close>.
\<close>

section \<open>Decoding\<close>

text \<open>
  Struct fields that are no pointers: \<open>null\<close> leaves the value, a member of another type leaves it
  and is the error the decoder reports at the end (\<open>False\<close>).
\<close>

definition set_string :: "json \<Rightarrow> string \<Rightarrow> string \<times> bool" where
  "set_string v old = (case v of JNull \<Rightarrow> (old, True) | JStr s \<Rightarrow> (s, True) | _ \<Rightarrow> (old, False))"

definition set_int :: "json \<Rightarrow> int \<Rightarrow> int \<times> bool" where
  "set_int v old = (if v = JNull then (old, True)
     else case json_int v of Some i \<Rightarrow> (i, True) | None \<Rightarrow> (old, False))"

record qualRef =
  qr_Group :: string
  qr_Rank :: int

definition decode_qualRef :: "(string \<times> json) list \<Rightarrow> qualRef \<Rightarrow> qualRef \<times> bool" where
  "decode_qualRef ms q = fold (\<lambda>(k, v) (q, ok).
     if json_fold k = json_fold ''group'' then
       (let (s, b) = set_string v (qr_Group q) in (q\<lparr>qr_Group := s\<rparr>, ok \<and> b))
     else if json_fold k = json_fold ''rank'' then
       (let (i, b) = set_int v (qr_Rank q) in (q\<lparr>qr_Rank := i\<rparr>, ok \<and> b))
     else (q, ok)) ms (q, True)"

text \<open>A pointer field: \<open>null\<close> resets it, an object is decoded into the struct it points to.\<close>

definition set_ptr :: "'a \<Rightarrow> ((string \<times> json) list \<Rightarrow> 'a \<Rightarrow> 'a \<times> bool) \<Rightarrow> json \<Rightarrow> 'a option \<Rightarrow> 'a option \<times> bool" where
  "set_ptr zero dec v old = (case v of
       JNull \<Rightarrow> (None, True)
     | JObj ms \<Rightarrow> (let (x, ok) = dec ms (case old of None \<Rightarrow> zero | Some x \<Rightarrow> x) in (Some x, ok))
     | _ \<Rightarrow> (case old of None \<Rightarrow> Some zero | Some x \<Rightarrow> Some x, False))"

record qualifierSides =
  qs_Home :: "qualRef option"
  qs_Away :: "qualRef option"

definition zero_qualRef :: qualRef where
  "zero_qualRef = \<lparr>qr_Group = [], qr_Rank = 0\<rparr>"

definition decode_sides :: "(string \<times> json) list \<Rightarrow> qualifierSides \<Rightarrow> qualifierSides \<times> bool" where
  "decode_sides ms q = fold (\<lambda>(k, v) (q, ok).
     if json_fold k = json_fold ''home'' then
       (let (s, b) = set_ptr zero_qualRef decode_qualRef v (qs_Home q) in (q\<lparr>qs_Home := s\<rparr>, ok \<and> b))
     else if json_fold k = json_fold ''away'' then
       (let (s, b) = set_ptr zero_qualRef decode_qualRef v (qs_Away q) in (q\<lparr>qs_Away := s\<rparr>, ok \<and> b))
     else (q, ok)) ms (q, True)"

definition decode_meta :: "(string \<times> json) list \<Rightarrow> qualifierSides option \<Rightarrow> qualifierSides option \<times> bool" where
  "decode_meta ms q = fold (\<lambda>(k, v) (q, ok).
     if json_fold k = json_fold ''qualifiers'' then
       (let (s, b) = set_ptr \<lparr>qs_Home = None, qs_Away = None\<rparr> decode_sides v q in (s, ok \<and> b))
     else (q, ok)) ms (q, True)"

text \<open>\<open>json.Unmarshal(qm.Metadata, &meta)\<close>; \<open>None\<close> for an error or a nil \<open>Qualifiers\<close>.\<close>

definition qualifier_meta :: "payload \<Rightarrow> qualifierSides option" where
  "qualifier_meta p = (case p of
       PDoc (JObj ms) \<Rightarrow> (case decode_meta ms None of (q, ok) \<Rightarrow> if ok then q else None)
     | _ \<Rightarrow> None)"

section \<open>Group standings\<close>

definition completed_of :: "ListGroupMatchesForStandingsRow \<Rightarrow> CompletedMatch" where
  "completed_of gr = \<lparr>cm_HomeParticipantID = fg_participantID (lg_HomeTeamID gr) (lg_HomePlayerID gr),
     cm_AwayParticipantID = fg_participantID (lg_AwayTeamID gr) (lg_AwayPlayerID gr),
     cm_HomeScore = lg_HomeScore gr, cm_AwayScore = lg_AwayScore gr,
     cm_WinnerID = fg_participantID (lg_WinnerTeamID gr) (lg_WinnerPlayerID gr),
     cm_IsWalkover = lg_IsWalkover gr\<rparr>"

definition counted_row :: "ListGroupMatchesForStandingsRow \<Rightarrow> bool" where
  "counted_row gr \<longleftrightarrow> cm_HomeParticipantID (completed_of gr) \<noteq> [] \<and> cm_AwayParticipantID (completed_of gr) \<noteq> []"

definition rows_of_group :: "ListGroupMatchesForStandingsRow list \<Rightarrow> string \<Rightarrow> CompletedMatch list" where
  "rows_of_group rows label =
     map completed_of (filter (\<lambda>gr. counted_row gr \<and> derefStr (lg_GroupLabel gr) = label) rows)"

definition members_of_group :: "CompletedMatch list \<Rightarrow> string list" where
  "members_of_group ms = remdups (concat (map (\<lambda>m. [cm_HomeParticipantID m, cm_AwayParticipantID m]) ms))"

text \<open>\<open>regByID\<close>: the last registration of a participant.\<close>

definition reg_info :: "ListApprovedRegistrationsForStandingsRow list \<Rightarrow> string \<Rightarrow> RegistrationInfo" where
  "reg_info regRows pid =
     (case find (\<lambda>r. fg_participantID (ar_TeamID r) (ar_PlayerID r) = pid) (rev regRows) of
        None \<Rightarrow> \<lparr>ri_ParticipantID = pid, ri_SeedNumber = None, ri_RegisteredAt = zero_time, ri_Disqualified = False\<rparr>
      | Some r \<Rightarrow> \<lparr>ri_ParticipantID = pid, ri_SeedNumber = ar_SeedNumber r,
                   ri_RegisteredAt = ts_Time (ar_RegisteredAt r), ri_Disqualified = False\<rparr>)"

definition computeGroupStandings :: "'r engine \<Rightarrow> ListGroupMatchesForStandingsRow list
    \<Rightarrow> ListApprovedRegistrationsForStandingsRow list \<Rightarrow> string \<Rightarrow> string list option" where
  "computeGroupStandings en groupRows regRows label =
     (let ms = rows_of_group groupRows label in
      if ms = [] then None
      else Some (map st_ParticipantID (Standings_Compute (en_iter en) (en_iterG en) ms
             (map (reg_info regRows) (en_iter en (members_of_group ms))) DefaultSettings)))"

definition resolveQualifier :: "env \<Rightarrow> (string \<Rightarrow> string list option) \<Rightarrow> string \<Rightarrow> int \<Rightarrow> fgen_error + uuid" where
  "resolveQualifier ev ranked label rank =
     (case ranked label of
        None \<Rightarrow> Inl ErrQualifierUnavailable
      | Some ids \<Rightarrow>
          if rank < 1 \<or> rank > int (length ids) then Inl ErrQualifierUnavailable
          else res_map_err (\<lambda>_. ErrQualifierUnavailable) (ParseUUID (env_scan ev) (ids ! nat (rank - 1))))"

section \<open>The transaction\<close>

fun setOneSlot :: "ParticipantType \<Rightarrow> bool \<Rightarrow> uuid \<Rightarrow> SetMatchParticipantsParams \<Rightarrow> SetMatchParticipantsParams" where
  "setOneSlot ParticipantTypeIndividual True uid p = p\<lparr>sp_HomePlayerID := uid\<rparr>"
| "setOneSlot ParticipantTypeTeam True uid p = p\<lparr>sp_HomeTeamID := uid\<rparr>"
| "setOneSlot ParticipantTypeIndividual False uid p = p\<lparr>sp_AwayPlayerID := uid\<rparr>"
| "setOneSlot ParticipantTypeTeam False uid p = p\<lparr>sp_AwayTeamID := uid\<rparr>"

text \<open>One side of one match: filled when it is a qualifier slot and still empty.\<close>

definition fill_side :: "env \<Rightarrow> (string \<Rightarrow> string list option) \<Rightarrow> ParticipantType \<Rightarrow> bool \<Rightarrow> qualRef option \<Rightarrow> bool
    \<Rightarrow> SetMatchParticipantsParams \<times> bool \<Rightarrow> fgen_error + (SetMatchParticipantsParams \<times> bool)" where
  "fill_side ev ranked pt home q is_empty = (\<lambda>(params, changed).
     (case q of
        None \<Rightarrow> Inr (params, changed)
      | Some q \<Rightarrow>
          if \<not> is_empty then Inr (params, changed)
          else res_bind (resolveQualifier ev ranked (qr_Group q) (qr_Rank q))
                 (\<lambda>uid. Inr (setOneSlot pt home uid params, True))))"

definition resolve_params :: "env \<Rightarrow> (string \<Rightarrow> string list option) \<Rightarrow> ParticipantType \<Rightarrow> uuid
    \<Rightarrow> qualifierSides \<Rightarrow> ListKnockoutQualifierMatchesRow \<Rightarrow> fgen_error + (SetMatchParticipantsParams \<times> bool)" where
  "resolve_params ev ranked pt orgID q qm =
     res_bind (fill_side ev ranked pt True (qs_Home q) (slotEmpty (lq_HomeTeamID qm) (lq_HomePlayerID qm))
       (\<lparr>sp_ID = lq_ID qm, sp_OrganizationID = orgID, sp_HomeTeamID = lq_HomeTeamID qm,
         sp_AwayTeamID = lq_AwayTeamID qm, sp_HomePlayerID = lq_HomePlayerID qm,
         sp_AwayPlayerID = lq_AwayPlayerID qm\<rparr>, False))
     (fill_side ev ranked pt False (qs_Away q) (slotEmpty (lq_AwayTeamID qm) (lq_AwayPlayerID qm)))"

fun resolve_matches :: "env \<Rightarrow> (string \<Rightarrow> string list option) \<Rightarrow> ParticipantType \<Rightarrow> uuid
    \<Rightarrow> ListKnockoutQualifierMatchesRow list \<Rightarrow> nat \<Rightarrow> database \<Rightarrow> fgen_error + (nat \<times> database)" where
  "resolve_matches ev ranked pt orgID [] filled d = Inr (filled, d)"
| "resolve_matches ev ranked pt orgID (qm # qms) filled d =
     (case qualifier_meta (lq_Metadata qm) of
        None \<Rightarrow> resolve_matches ev ranked pt orgID qms filled d
      | Some q \<Rightarrow>
          res_bind (resolve_params ev ranked pt orgID q qm) (\<lambda>(params, changed).
            if \<not> changed then resolve_matches ev ranked pt orgID qms filled d
            else res_bind (res_map_err ErrSql (SetMatchParticipants ev params d)) (\<lambda>(n, d').
              resolve_matches ev ranked pt orgID qms
                (if n > 0 then filled + (if qs_Home q \<noteq> None then 1 else 0) + (if qs_Away q \<noteq> None then 1 else 0)
                 else filled) d')))"

definition resolve_guards :: "database \<Rightarrow> uuid \<Rightarrow> uuid \<Rightarrow> fgen_error + LockTournamentForGenerationRow" where
  "resolve_guards d tid orgID =
     res_bind (no_rows_as ErrTournamentNotFound ErrSql (LockTournamentForGeneration d tid orgID)) (\<lambda>row.
     res_bind (ensure (lt_Format row = TournamentFormatGroupKnockout) ErrNotGroupKnockout) (\<lambda>_.
     res_bind (ensure (lt_Status row = TournamentStatusOngoing) ErrTournamentNotOngoing) (\<lambda>_.
     res_bind (ensure (\<not> CountUnfinishedGroupMatches d tid orgID > 0) ErrGroupStageIncomplete) (\<lambda>_.
     res_bind (ensure (ListKnockoutQualifierMatches d tid orgID \<noteq> []) ErrNoQualifierMatches) (\<lambda>_. Inr row)))))"

definition repo_ResolveQualifiers :: "'r engine \<Rightarrow> env \<Rightarrow> uuid \<Rightarrow> uuid \<Rightarrow> database
    \<Rightarrow> fgen_error + (nat \<times> database)" where
  "repo_ResolveQualifiers en ev tid orgID d =
     res_bind (resolve_guards d tid orgID) (\<lambda>row.
       let ranked = computeGroupStandings en (ListGroupMatchesForStandings d tid orgID)
                      (ListApprovedRegistrationsForStandings d tid)
       in resolve_matches ev ranked (lt_ParticipantType row) orgID (ListKnockoutQualifierMatches d tid orgID) 0 d)"

definition fixturegen_Resolve :: "'r engine \<Rightarrow> env \<Rightarrow> string \<Rightarrow> string \<Rightarrow> string \<Rightarrow> database
    \<Rightarrow> fgen_error + (nat \<times> database)" where
  "fixturegen_Resolve en ev orgSlug tournamentID actorOrgID d =
     res_bind (no_rows_as ErrOrganizationNotFound ErrSql (GetOrganizationBySlug d orgSlug)) (\<lambda>org.
     res_bind (assert_owner ErrForbidden actorOrgID (UUIDToString (o_ID org))) (\<lambda>_.
     res_bind (res_map_err (\<lambda>_. ErrInvalidTournamentID) (ParseUUID (env_scan ev) tournamentID)) (\<lambda>tid.
       repo_ResolveQualifiers en ev tid (o_ID org) d)))"

section \<open>The generation record\<close>

record GenerationInfo =
  gi_Generated :: bool
  gi_GeneratedBy :: string
  gi_Format :: string
  gi_SeedStrategy :: string
  gi_RandomSeed :: "int option"
  gi_Legs :: int
  gi_Groups :: int
  gi_QualifiersPerGroup :: int
  gi_GeneratedAt :: string
  gi_MatchCount :: int
  gi_SeedOrder :: "string list"

definition zero_info :: GenerationInfo where
  "zero_info = \<lparr>gi_Generated = False, gi_GeneratedBy = [], gi_Format = [], gi_SeedStrategy = [],
     gi_RandomSeed = None, gi_Legs = 0, gi_Groups = 0, gi_QualifiersPerGroup = 0, gi_GeneratedAt = [],
     gi_MatchCount = 0, gi_SeedOrder = []\<rparr>"

definition set_bool :: "json \<Rightarrow> bool \<Rightarrow> bool \<times> bool" where
  "set_bool v old = (case v of JNull \<Rightarrow> (old, True) | JBool b \<Rightarrow> (b, True) | _ \<Rightarrow> (old, False))"

definition set_int_ptr :: "json \<Rightarrow> int option \<Rightarrow> int option \<times> bool" where
  "set_int_ptr v old = (if v = JNull then (None, True)
     else case json_int v of Some i \<Rightarrow> (Some i, True)
     | None \<Rightarrow> (case old of None \<Rightarrow> Some 0 | Some i \<Rightarrow> Some i, False))"

text \<open>A slice of strings is decoded over the elements it already has.\<close>

definition set_strings :: "json \<Rightarrow> string list \<Rightarrow> string list \<times> bool" where
  "set_strings v old = (case v of
       JNull \<Rightarrow> ([], True)
     | JArr vs \<Rightarrow> (let rs = map (\<lambda>(i, v). set_string v (if i < length old then old ! i else [])) (enumerate 0 vs)
                   in (map fst rs, \<forall>r \<in> set rs. snd r))
     | _ \<Rightarrow> (old, False))"

definition decode_info_member :: "string \<times> json \<Rightarrow> GenerationInfo \<times> bool \<Rightarrow> GenerationInfo \<times> bool" where
  "decode_info_member = (\<lambda>(k, v) (gi, ok).
     let f = json_fold k in
     if f = json_fold ''generated'' then
       (let (x, b) = set_bool v (gi_Generated gi) in (gi\<lparr>gi_Generated := x\<rparr>, ok \<and> b))
     else if f = json_fold ''generated_by'' then
       (let (x, b) = set_string v (gi_GeneratedBy gi) in (gi\<lparr>gi_GeneratedBy := x\<rparr>, ok \<and> b))
     else if f = json_fold ''format'' then
       (let (x, b) = set_string v (gi_Format gi) in (gi\<lparr>gi_Format := x\<rparr>, ok \<and> b))
     else if f = json_fold ''seed_strategy'' then
       (let (x, b) = set_string v (gi_SeedStrategy gi) in (gi\<lparr>gi_SeedStrategy := x\<rparr>, ok \<and> b))
     else if f = json_fold ''random_seed'' then
       (let (x, b) = set_int_ptr v (gi_RandomSeed gi) in (gi\<lparr>gi_RandomSeed := x\<rparr>, ok \<and> b))
     else if f = json_fold ''legs'' then
       (let (x, b) = set_int v (gi_Legs gi) in (gi\<lparr>gi_Legs := x\<rparr>, ok \<and> b))
     else if f = json_fold ''groups'' then
       (let (x, b) = set_int v (gi_Groups gi) in (gi\<lparr>gi_Groups := x\<rparr>, ok \<and> b))
     else if f = json_fold ''qualifiers_per_group'' then
       (let (x, b) = set_int v (gi_QualifiersPerGroup gi) in (gi\<lparr>gi_QualifiersPerGroup := x\<rparr>, ok \<and> b))
     else if f = json_fold ''generated_at'' then
       (let (x, b) = set_string v (gi_GeneratedAt gi) in (gi\<lparr>gi_GeneratedAt := x\<rparr>, ok \<and> b))
     else if f = json_fold ''match_count'' then
       (let (x, b) = set_int v (gi_MatchCount gi) in (gi\<lparr>gi_MatchCount := x\<rparr>, ok \<and> b))
     else if f = json_fold ''seed_order'' then
       (let (x, b) = set_strings v (gi_SeedOrder gi) in (gi\<lparr>gi_SeedOrder := x\<rparr>, ok \<and> b))
     else (gi, ok))"

text \<open>A value that is no object is a type error, except \<open>null\<close>; either way nothing is decoded.\<close>

definition decode_info :: "json \<Rightarrow> GenerationInfo \<times> bool" where
  "decode_info v = (case v of
       JObj ms \<Rightarrow> fold decode_info_member ms (zero_info, True)
     | JNull \<Rightarrow> (zero_info, True)
     | _ \<Rightarrow> (zero_info, False))"

definition GenerationInfoFromSettings :: "payload \<Rightarrow> GenerationInfo" where
  "GenerationInfoFromSettings settings = (case settings of
       PDoc (JObj ms) \<Rightarrow> (case member_of ''generation'' ms of
           None \<Rightarrow> zero_info
         | Some raw \<Rightarrow> (case decode_info raw of (gi, ok) \<Rightarrow> if ok then gi\<lparr>gi_Generated := True\<rparr> else gi))
     | _ \<Rightarrow> zero_info)"

definition GetGenerationInfo :: "env \<Rightarrow> string \<Rightarrow> string \<Rightarrow> database \<Rightarrow> fgen_error + GenerationInfo" where
  "GetGenerationInfo ev orgSlug tournamentID d =
     res_bind (no_rows_as ErrOrganizationNotFound ErrSql (GetOrganizationBySlug d orgSlug)) (\<lambda>org.
     res_bind (res_map_err (\<lambda>_. ErrInvalidTournamentID) (ParseUUID (env_scan ev) tournamentID)) (\<lambda>tid.
     res_bind (no_rows_as ErrTournamentNotFound ErrSql (GetTournamentByID d tid (o_ID org))) (\<lambda>t.
       Inr (GenerationInfoFromSettings (t_Settings t)))))"

end
