(* ===== verification/Match_Rules.thy ===== *)
theory Match_Rules
  imports Match_Service Match_Events Fixturegen_Resolve
begin

text \<open>
  What every writer of the table \<open>matches\<close> keeps: the abstract life of one row (\<open>row_step\<close>) and of
  the table (\<open>evolves\<close>), which each transaction of the matches and fixture generation services
  refines.  \<open>Match_Machine\<close> interleaves the transactions.
\<close>

section \<open>Rows\<close>

text \<open>The winner columns name a participant, and at most one of them is set.\<close>

definition winner_of_row :: "uuid \<Rightarrow> uuid \<Rightarrow> uuid \<Rightarrow> uuid \<Rightarrow> uuid \<Rightarrow> uuid \<Rightarrow> bool" where
  "winner_of_row wt wp ht at hp ap \<longleftrightarrow> (wt = None \<or> wt = ht \<or> wt = at) \<and> (wp = None \<or> wp = hp \<or> wp = ap)"

definition no_result :: "match_row \<Rightarrow> bool" where
  "no_result m \<longleftrightarrow> m_WinnerTeamID m = None \<and> m_WinnerPlayerID m = None
     \<and> m_HomeScore m = 0 \<and> m_AwayScore m = 0 \<and> \<not> m_IsWalkover m"

fun status_ok :: "MatchStatus \<Rightarrow> match_row \<Rightarrow> bool" where
  "status_ok MatchStatusScheduled m \<longleftrightarrow> no_result m"
| "status_ok MatchStatusLive m \<longleftrightarrow> no_result m
     \<and> bothParticipantsAssigned (m_HomeTeamID m) (m_AwayTeamID m) (m_HomePlayerID m) (m_AwayPlayerID m)"
| "status_ok MatchStatusCompleted m \<longleftrightarrow> \<not> m_IsWalkover m
     \<and> bothParticipantsAssigned (m_HomeTeamID m) (m_AwayTeamID m) (m_HomePlayerID m) (m_AwayPlayerID m)
     \<and> winner_of_row (m_WinnerTeamID m) (m_WinnerPlayerID m)
         (m_HomeTeamID m) (m_AwayTeamID m) (m_HomePlayerID m) (m_AwayPlayerID m)"
| "status_ok MatchStatusCancelled m \<longleftrightarrow> no_result m"
| "status_ok MatchStatusAbandoned m \<longleftrightarrow> no_result m"
| "status_ok MatchStatusWalkover m \<longleftrightarrow> m_IsWalkover m \<and> m_HomeScore m = 0 \<and> m_AwayScore m = 0
     \<and> (m_WinnerTeamID m \<noteq> None \<longleftrightarrow> m_WinnerPlayerID m = None)"
| "status_ok MatchStatusPostponed m \<longleftrightarrow> False"

definition match_ok :: "match_row \<Rightarrow> bool" where
  "match_ok m \<longleftrightarrow> m_ID m \<noteq> None \<and> match_checks m \<and> status_ok (m_Status m) m"

text \<open>What the guards of the service leave of the parameters of an \<open>UPDATE\<close>.\<close>

definition update_ok :: "UpdateMatchParams \<Rightarrow> bool" where
  "update_ok p \<longleftrightarrow> \<not> terminalStatuses (up_Status_2 p)
     \<and> (up_Status p = up_Status_2 p \<or> (up_Status_2 p, up_Status p) \<in> match_life.moves)
     \<and> (up_Status p \<in> {MatchStatusLive, MatchStatusCompleted} \<longrightarrow>
          bothParticipantsAssigned (up_HomeTeamID p) (up_AwayTeamID p) (up_HomePlayerID p) (up_AwayPlayerID p))
     \<and> (up_Status p \<noteq> MatchStatusCompleted \<longrightarrow> up_WinnerTeamID p = None \<and> up_WinnerPlayerID p = None
          \<and> up_HomeScore p = 0 \<and> up_AwayScore p = 0)
     \<and> winner_of_row (up_WinnerTeamID p) (up_WinnerPlayerID p)
         (up_HomeTeamID p) (up_AwayTeamID p) (up_HomePlayerID p) (up_AwayPlayerID p)"

text \<open>One statement on one row.\<close>

inductive row_step :: "match_row \<Rightarrow> match_row \<Rightarrow> bool" where
  update: "update_ok p \<Longrightarrow> m_Status m = up_Status_2 p \<Longrightarrow> match_checks (updated_match ev p m)
    \<Longrightarrow> row_step m (updated_match ev p m)"
| cancel: "\<not> terminalStatuses (m_Status m) \<Longrightarrow> match_checks (cancelled_match ev m)
    \<Longrightarrow> row_step m (cancelled_match ev m)"
| walkover: "\<not> terminalStatuses (m_Status m) \<Longrightarrow> wp_WinnerTeamID p \<noteq> None \<longleftrightarrow> wp_WinnerPlayerID p = None
    \<Longrightarrow> match_checks (walkover_match ev p m) \<Longrightarrow> row_step m (walkover_match ev p m)"
| seat: "m_Status m = MatchStatusScheduled \<Longrightarrow> match_checks (seated_match ev p m)
    \<Longrightarrow> row_step m (seated_match ev p m)"

inductive_cases row_stepE: "row_step m m'"

definition fresh_row :: "match_row \<Rightarrow> bool" where
  "fresh_row m \<longleftrightarrow> match_ok m \<and> m_Status m = MatchStatusScheduled"

lemma row_step_ok: "row_step m m' \<Longrightarrow> match_ok m \<Longrightarrow> match_ok m'"
proof (induction rule: row_step.induct)
  case (update p m ev)
  then show ?case
    by (cases "m_Status m"; cases "up_Status p")
      (auto simp: match_ok_def update_ok_def updated_match_def no_result_def match_moves terminalStatuses_def)
next
  case (cancel m ev)
  then show ?case
    by (cases "m_Status m") (auto simp: match_ok_def cancelled_match_def no_result_def terminalStatuses_def)
next
  case (walkover m p ev)
  then show ?case by (auto simp: match_ok_def walkover_match_def)
next
  case (seat m ev p)
  then show ?case by (auto simp: match_ok_def seated_match_def no_result_def)
qed

lemma row_step_live: "row_step m m' \<Longrightarrow> \<not> terminalStatuses (m_Status m)"
  by (erule row_stepE) (auto simp: update_ok_def terminalStatuses_def)

lemma row_step_keys: "row_step m m' \<Longrightarrow> m_ID m' = m_ID m \<and> m_TournamentID m' = m_TournamentID m
    \<and> m_OrganizationID m' = m_OrganizationID m \<and> m_Metadata m' = m_Metadata m \<and> m_CreatedAt m' = m_CreatedAt m"
  by (erule row_stepE)
    (simp_all add: updated_match_def cancelled_match_def walkover_match_def seated_match_def)

text \<open>The moves of a status, the walkover included.\<close>

definition life_moves :: "(MatchStatus \<times> MatchStatus) set" where
  "life_moves = match_life.moves \<union> {MatchStatusScheduled, MatchStatusLive} \<times> {MatchStatusWalkover}"

lemma row_step_status:
  assumes "row_step m m'" "match_ok m"
  shows "m_Status m' = m_Status m \<or> (m_Status m, m_Status m') \<in> life_moves"
  using assms
proof (induction rule: row_step.induct)
  case (cancel m ev)
  then show ?case
    by (cases "m_Status m") (auto simp: life_moves_def match_moves cancelled_match_def terminalStatuses_def match_ok_def)
next
  case (walkover m p ev)
  then show ?case
    by (cases "m_Status m") (auto simp: life_moves_def walkover_match_def terminalStatuses_def match_ok_def)
qed (auto simp: life_moves_def update_ok_def updated_match_def seated_match_def)

lemma row_steps_ok: "row_step\<^sup>*\<^sup>* m m' \<Longrightarrow> match_ok m \<Longrightarrow> match_ok m'"
  by (induction rule: rtranclp_induct) (auto intro: row_step_ok)

lemma row_steps_keys: "row_step\<^sup>*\<^sup>* m m' \<Longrightarrow> m_ID m' = m_ID m \<and> m_TournamentID m' = m_TournamentID m
    \<and> m_OrganizationID m' = m_OrganizationID m \<and> m_Metadata m' = m_Metadata m \<and> m_CreatedAt m' = m_CreatedAt m"
  by (induction rule: rtranclp_induct) (auto dest: row_step_keys)

lemma row_steps_terminal: "row_step\<^sup>*\<^sup>* m m' \<Longrightarrow> terminalStatuses (m_Status m) \<Longrightarrow> m' = m"
  by (erule converse_rtranclpE) (auto dest: row_step_live)

lemma row_steps_status: "row_step\<^sup>*\<^sup>* m m' \<Longrightarrow> match_ok m \<Longrightarrow> (m_Status m, m_Status m') \<in> life_moves\<^sup>*"
proof (induction rule: rtranclp_induct)
  case (step m' m'')
  with row_step_status[OF step.hyps(2)] row_steps_ok[OF step.hyps(1)] show ?case
    by (auto intro: rtrancl.rtrancl_into_rtrancl)
qed simp

section \<open>The table\<close>

text \<open>
  Rows are never deleted, keep their place, and change by row steps only; rows are added in
  status \<open>scheduled\<close>.  A relation on lists first, so that it composes.
\<close>

definition rows_evolve :: "match_row list \<Rightarrow> match_row list \<Rightarrow> bool" where
  "rows_evolve rs rs' \<longleftrightarrow> (distinct (map m_ID rs) \<longrightarrow> distinct (map m_ID rs'))
     \<and> (\<exists>ms news. rs' = ms @ news \<and> list_all2 row_step\<^sup>*\<^sup>* rs ms
          \<and> (\<forall>m \<in> set news. \<exists>m0. fresh_row m0 \<and> row_step\<^sup>*\<^sup>* m0 m))"

abbreviation evolves :: "database \<Rightarrow> database \<Rightarrow> bool" where
  "evolves d d' \<equiv> rows_evolve (matches d) (matches d')"

definition table_ok :: "match_row list \<Rightarrow> bool" where
  "table_ok rs \<longleftrightarrow> distinct (map m_ID rs) \<and> (\<forall>m \<in> set rs. match_ok m)"

lemma rows_evolveI:
  assumes "distinct (map m_ID rs) \<Longrightarrow> distinct (map m_ID rs')" "rs' = ms @ news" "list_all2 row_step\<^sup>*\<^sup>* rs ms"
    and "\<And>m. m \<in> set news \<Longrightarrow> \<exists>m0. fresh_row m0 \<and> row_step\<^sup>*\<^sup>* m0 m"
  shows "rows_evolve rs rs'"
  using assms unfolding rows_evolve_def by blast

lemma list_all2_left: "list_all2 R xs ys \<Longrightarrow> x \<in> set xs \<Longrightarrow> \<exists>y \<in> set ys. R x y"
  by (induction rule: list_all2_induct) auto

lemma list_all2_right: "list_all2 R xs ys \<Longrightarrow> y \<in> set ys \<Longrightarrow> \<exists>x \<in> set xs. R x y"
  by (induction rule: list_all2_induct) auto

lemma rows_evolve_refl [simp, intro]: "rows_evolve rs rs"
  by (rule rows_evolveI[where ms = rs and news = "[]"]) (auto simp: list_all2_refl)

lemma rows_evolve_trans [trans]:
  assumes "rows_evolve rs rs'" "rows_evolve rs' rs''"
  shows "rows_evolve rs rs''"
proof -
  from assms(1) obtain ms news where 1: "rs' = ms @ news" "list_all2 row_step\<^sup>*\<^sup>* rs ms"
      "\<forall>m \<in> set news. \<exists>m0. fresh_row m0 \<and> row_step\<^sup>*\<^sup>* m0 m"
    by (auto simp: rows_evolve_def)
  from assms(2) obtain ms' news' where 2: "rs'' = ms' @ news'" "list_all2 row_step\<^sup>*\<^sup>* (ms @ news) ms'"
      "\<forall>m \<in> set news'. \<exists>m0. fresh_row m0 \<and> row_step\<^sup>*\<^sup>* m0 m"
    by (auto simp: rows_evolve_def 1(1))
  from 2(2) obtain us vs where 3: "ms' = us @ vs" "list_all2 row_step\<^sup>*\<^sup>* ms us" "list_all2 row_step\<^sup>*\<^sup>* news vs"
    by (auto simp: list_all2_append1)
  have a: "list_all2 row_step\<^sup>*\<^sup>* rs us"
    using list_all2_trans[where ?P1.0 = "row_step\<^sup>*\<^sup>*", OF _ 1(2) 3(2)] by (meson rtranclp_trans)
  have "\<exists>m0. fresh_row m0 \<and> row_step\<^sup>*\<^sup>* m0 m" if m: "m \<in> set vs" for m
  proof -
    from m 3(3) obtain n where "n \<in> set news" "row_step\<^sup>*\<^sup>* n m"
      by (auto dest: list_all2_right)
    with 1(3) show ?thesis by (meson rtranclp_trans)
  qed
  with a 2(3) have "\<exists>ms news. rs'' = ms @ news \<and> list_all2 row_step\<^sup>*\<^sup>* rs ms
      \<and> (\<forall>m \<in> set news. \<exists>m0. fresh_row m0 \<and> row_step\<^sup>*\<^sup>* m0 m)"
    by (intro exI[where x = us] exI[where x = "vs @ news'"]) (auto simp: 2(1) 3(1))
  with assms show ?thesis by (auto simp: rows_evolve_def)
qed

lemma rows_evolve_ok:
  assumes "rows_evolve rs rs'" "table_ok rs"
  shows "table_ok rs'"
proof -
  from assms obtain ms news where 1: "rs' = ms @ news" "list_all2 row_step\<^sup>*\<^sup>* rs ms"
      "\<forall>m \<in> set news. \<exists>m0. fresh_row m0 \<and> row_step\<^sup>*\<^sup>* m0 m" and "distinct (map m_ID rs')"
    by (auto simp: rows_evolve_def table_ok_def)
  moreover have "match_ok m" if "m \<in> set ms" for m
    using list_all2_right[OF 1(2) that] assms(2) by (auto simp: table_ok_def intro: row_steps_ok)
  moreover have "match_ok m" if "m \<in> set news" for m
    using 1(3) that by (auto simp: fresh_row_def intro: row_steps_ok)
  ultimately show ?thesis by (auto simp: table_ok_def)
qed

lemma rows_evolve_row:
  assumes "rows_evolve rs rs'" "m \<in> set rs"
  obtains m' where "m' \<in> set rs'" "row_step\<^sup>*\<^sup>* m m'"
proof -
  from assms(1) obtain ms news where "rs' = ms @ news" "list_all2 row_step\<^sup>*\<^sup>* rs ms"
    by (auto simp: rows_evolve_def)
  with assms(2) that show thesis
    by (auto dest!: list_all2_left)
qed

text \<open>The two kinds of statement.\<close>

lemma update_rows_evolve:
  assumes "\<And>m. m \<in> set rs \<Longrightarrow> P m \<Longrightarrow> row_step m (upd m)"
  shows "rows_evolve rs (update_rows P upd rs)"
proof -
  have "map m_ID (update_rows P upd rs) = map m_ID rs"
    using assms by (auto simp: update_rows_def dest: row_step_keys)
  moreover have "list_all2 row_step\<^sup>*\<^sup>* rs (update_rows P upd rs)"
    using assms by (auto simp: update_rows_def list_all2_conv_all_nth)
  ultimately show ?thesis
    by (intro rows_evolveI[where ms = "update_rows P upd rs" and news = "[]"]) simp_all
qed

lemma update_match_evolves:
  assumes "update_match P upd d = Inr (m', d')" "table_ok (matches d)" "\<And>m. P m \<Longrightarrow> m_ID m = k"
    and "\<And>m. P m \<Longrightarrow> match_checks (upd m) \<Longrightarrow> row_step m (upd m)"
  shows "evolves d d'"
proof -
  from assms(1) obtain m where m: "find P (matches d) = Some m" "match_checks (upd m)"
      "matches d' = update_rows P upd (matches d)"
    by (auto simp: update_match_Inr)
  have "row_step r (upd r)" if "r \<in> set (matches d)" "P r" for r
  proof -
    have "find P (matches d) = Some r"
      using assms(2) that by (intro find_key_unique[where key = m_ID]) (auto simp: table_ok_def dest: assms(3))
    with m that assms(4) show ?thesis by simp
  qed
  with m(3) show ?thesis by (simp add: update_rows_evolve)
qed

lemma insert_match_evolves:
  assumes "insert_match m d = Inr (m', d')" "m_ID m \<noteq> None" "m_Status m = MatchStatusScheduled" "no_result m"
  shows "evolves d d'"
proof -
  from assms have "fresh_row m" "m_ID m \<notin> m_ID ` set (matches d)" "matches d' = matches d @ [m]"
    by (auto simp: insert_match_Inr fresh_row_def match_ok_def)
  then show ?thesis
    by (intro rows_evolveI[where ms = "matches d" and news = "[m]"]) (auto simp: list_all2_refl)
qed

end
