(* ===== verification/Match_Refine.thy ===== *)
theory Match_Refine
  imports Match_Rules
begin

text \<open>
  The transactions of \<open>Match_Repo\<close> and of the fixture generation service refine the abstract table
  of \<open>Match_Rules\<close>, given parameters the service can have prepared.
\<close>

section \<open>Prepared parameters\<close>

definition update_tx_ok :: "updateMatchTxParams \<Rightarrow> bool" where
  "update_tx_ok p \<longleftrightarrow> update_ok (ut_updateParams p)
     \<and> (ut_isCompletion p \<longleftrightarrow> up_Status (ut_updateParams p) = MatchStatusCompleted)
     \<and> ut_organizationID p = up_OrganizationID (ut_updateParams p) \<and> \<not> ut_isWalkover p"

definition create_tx_ok :: "createMatchTxParams \<Rightarrow> bool" where
  "create_tx_ok p \<longleftrightarrow> cp_Status (ct_createParams p) = MatchStatusScheduled"

definition cancel_tx_ok :: "cancelMatchTxParams \<Rightarrow> bool" where
  "cancel_tx_ok p \<longleftrightarrow> \<not> terminalStatuses (xt_previousStatus p)"

definition walkover_tx_ok :: "walkoverMatchTxParams \<Rightarrow> bool" where
  "walkover_tx_ok p \<longleftrightarrow> \<not> terminalStatuses (wt_previousStatus p)
     \<and> (wt_winnerTeamID p \<noteq> None \<longleftrightarrow> wt_winnerPlayerID p = None)"

text \<open>The parameters of an update before the status and the winner of the request.\<close>

definition draft_ok :: "UpdateMatchParams \<Rightarrow> bool" where
  "draft_ok p \<longleftrightarrow> up_Status p = up_Status_2 p \<and> \<not> terminalStatuses (up_Status_2 p)
     \<and> (up_Status p = MatchStatusLive \<longrightarrow>
          bothParticipantsAssigned (up_HomeTeamID p) (up_AwayTeamID p) (up_HomePlayerID p) (up_AwayPlayerID p))
     \<and> up_WinnerTeamID p = None \<and> up_WinnerPlayerID p = None \<and> up_HomeScore p = 0 \<and> up_AwayScore p = 0"

lemma GetByID_row: "GetByID d uid orgID = Inr m \<Longrightarrow> m \<in> set (matches d) \<and> match_key uid orgID m"
  by (auto simp: GetByID_def GetMatchByID_def select_one_Inr dest: find_SomeD)

lemma match_of_url_row: "match_of_url ev d orgID mid = Inr m \<Longrightarrow> m \<in> set (matches d) \<and> m_OrganizationID m = orgID"
  by (auto simp: match_of_url_def res_bind_eq_Inr match_key_def sql_eq_iff dest!: GetByID_row)

lemma overlay_fields_keeps:
  assumes "overlay_fields ev req p = Inr p'"
  shows "up_Status p' = up_Status p" "up_Status_2 p' = up_Status_2 p"
    "up_WinnerTeamID p' = up_WinnerTeamID p" "up_WinnerPlayerID p' = up_WinnerPlayerID p"
    "up_HomeScore p' = up_HomeScore p" "up_AwayScore p' = up_AwayScore p"
    "up_ID p' = up_ID p" "up_OrganizationID p' = up_OrganizationID p"
  using assms by (auto simp: overlay_fields_def Let_def res_bind_eq_Inr)

lemma overlay_fields_same_participants:
  assumes "overlay_fields ev req p = Inr p'" "\<not> participantsChanged req"
  shows "up_HomeTeamID p' = up_HomeTeamID p" "up_AwayTeamID p' = up_AwayTeamID p"
    "up_HomePlayerID p' = up_HomePlayerID p" "up_AwayPlayerID p' = up_AwayPlayerID p"
  using assms by (auto simp: overlay_fields_def Let_def res_bind_eq_Inr participantsChanged_def or_current_uuid_def)

lemma validateParticipantType_assigned:
  "validateParticipantType pt ht at hp ap = Inr u \<Longrightarrow> bothParticipantsAssigned ht at hp ap"
  by (cases pt) (auto simp: bothParticipantsAssigned_def split: if_splits)

lemma check_participants_assigned:
  assumes "check_participants d orgID m p = Inr u"
  shows "bothParticipantsAssigned (up_HomeTeamID p) (up_AwayTeamID p) (up_HomePlayerID p) (up_AwayPlayerID p)"
  using assms
  by (auto simp: check_participants_def res_bind_eq_Inr dest: validateParticipantType_assigned)

lemma draft_of_current:
  assumes "match_ok m" "\<not> terminalStatuses (m_Status m)"
    and "overlay_fields ev req (current_params m) = Inr p"
    and "(if participantsChanged req then check_participants d orgID m p else Inr ()) = Inr u"
  shows "draft_ok p"
proof -
  have "status_ok (m_Status m) m" using assms(1) by (simp add: match_ok_def)
  with assms(2) have live: "m_Status m = MatchStatusLive \<Longrightarrow>
      bothParticipantsAssigned (m_HomeTeamID m) (m_AwayTeamID m) (m_HomePlayerID m) (m_AwayPlayerID m)"
    and "no_result m"
    by (cases "m_Status m"; simp add: terminalStatuses_def)+
  moreover have "bothParticipantsAssigned (up_HomeTeamID p) (up_AwayTeamID p) (up_HomePlayerID p) (up_AwayPlayerID p)"
    if "m_Status m = MatchStatusLive"
  proof (cases "participantsChanged req")
    case True
    with assms(4) show ?thesis by (auto dest: check_participants_assigned)
  next
    case False
    with live[OF that] overlay_fields_same_participants[OF assms(3)] show ?thesis
      by (simp add: current_params_def)
  qed
  ultimately show ?thesis
    using assms(2) overlay_fields_keeps[OF assms(3)] by (simp add: draft_ok_def current_params_def no_result_def)
qed

lemma overlay_link_draft:
  "overlay_link ev d orgID m req p = Inr p' \<Longrightarrow> draft_ok p \<Longrightarrow> draft_ok p' \<and> up_Status_2 p' = up_Status_2 p
     \<and> up_ID p' = up_ID p \<and> up_OrganizationID p' = up_OrganizationID p"
  by (auto simp: overlay_link_def res_bind_eq_Inr draft_ok_def split: if_splits)

text \<open>After the status: everything but the winner.\<close>

definition staged_ok :: "UpdateMatchParams \<Rightarrow> bool" where
  "staged_ok p \<longleftrightarrow> update_ok p \<and> up_WinnerTeamID p = None \<and> up_WinnerPlayerID p = None"

lemma winner_of_row_None [simp]: "winner_of_row None None a b c d'"
  by (simp add: winner_of_row_def)

lemma overlay_status_Inr:
  assumes "overlay_status ev m req p = Inr (p', l)"
  shows "ur_Status req = None \<and> p' = p \<or> (m_Status m, up_Status p') \<in> match_life.moves
      \<and> (up_Status p' \<in> {MatchStatusLive, MatchStatusCompleted} \<longrightarrow>
           bothParticipantsAssigned (up_HomeTeamID p) (up_AwayTeamID p) (up_HomePlayerID p) (up_AwayPlayerID p))"
    and "up_Status_2 p' = up_Status_2 p" "up_ID p' = up_ID p" "up_OrganizationID p' = up_OrganizationID p"
    and "up_HomeTeamID p' = up_HomeTeamID p" "up_AwayTeamID p' = up_AwayTeamID p"
    and "up_HomePlayerID p' = up_HomePlayerID p" "up_AwayPlayerID p' = up_AwayPlayerID p"
    and "up_WinnerTeamID p' = up_WinnerTeamID p" "up_WinnerPlayerID p' = up_WinnerPlayerID p"
    and "up_HomeScore p' = up_HomeScore p" "up_AwayScore p' = up_AwayScore p"
proof -
  show "ur_Status req = None \<and> p' = p \<or> (m_Status m, up_Status p') \<in> match_life.moves
      \<and> (up_Status p' \<in> {MatchStatusLive, MatchStatusCompleted} \<longrightarrow>
           bothParticipantsAssigned (up_HomeTeamID p) (up_AwayTeamID p) (up_HomePlayerID p) (up_AwayPlayerID p))"
    using assms
    by (cases "ur_Status req") (auto simp: overlay_status_def res_bind_eq_Inr validateStatusTransition_Inr Let_def
        split: if_splits)
qed (use assms in \<open>auto simp: overlay_status_def res_bind_eq_Inr Let_def split: option.splits if_splits\<close>)

lemma overlay_status_staged:
  assumes "overlay_status ev m req p = Inr (p', l)" "draft_ok p" "up_Status_2 p = m_Status m"
  shows "staged_ok p' \<and> up_ID p' = up_ID p \<and> up_OrganizationID p' = up_OrganizationID p \<and> up_Status_2 p' = up_Status_2 p"
  using overlay_status_Inr[OF assms(1)] assms(2,3)
  by (auto simp: staged_ok_def update_ok_def draft_ok_def terminalStatuses_def)

lemma overlay_winner_Inr:
  assumes "overlay_winner ev req p = Inr p'"
  shows "\<exists>w v. p' = p\<lparr>up_WinnerTeamID := w, up_WinnerPlayerID := v\<rparr>
     \<and> (up_Status p = MatchStatusCompleted \<or> w = up_WinnerTeamID p \<and> v = up_WinnerPlayerID p)
     \<and> winner_of_row w v (up_HomeTeamID p) (up_AwayTeamID p) (up_HomePlayerID p) (up_AwayPlayerID p)"
proof -
  let ?w = "or_current_uuid ev (ur_WinnerTeamID req) (up_WinnerTeamID p)"
  let ?v = "or_current_uuid ev (ur_WinnerPlayerID req) (up_WinnerPlayerID p)"
  have "p' = p\<lparr>up_WinnerTeamID := ?w, up_WinnerPlayerID := ?v\<rparr>"
    "up_Status p = MatchStatusCompleted \<or> ur_WinnerTeamID req = None \<and> ur_WinnerPlayerID req = None"
    "winner_of_row ?w ?v (up_HomeTeamID p) (up_AwayTeamID p) (up_HomePlayerID p) (up_AwayPlayerID p)"
    using assms by (auto simp: overlay_winner_def res_bind_eq_Inr Let_def winner_of_row_def uuidEquals_iff)
  then show ?thesis by (intro exI[of _ ?w] exI[of _ ?v]) (auto simp: or_current_uuid_def)
qed

lemma overlay_winner_ok:
  assumes "overlay_winner ev req p = Inr p'" "staged_ok p"
  shows "update_ok p' \<and> up_ID p' = up_ID p \<and> up_OrganizationID p' = up_OrganizationID p
     \<and> up_Status p' = up_Status p \<and> up_Status_2 p' = up_Status_2 p"
proof -
  from overlay_winner_Inr[OF assms(1)] obtain w v where p': "p' = p\<lparr>up_WinnerTeamID := w, up_WinnerPlayerID := v\<rparr>"
    and w: "up_Status p = MatchStatusCompleted \<or> w = up_WinnerTeamID p \<and> v = up_WinnerPlayerID p"
      "winner_of_row w v (up_HomeTeamID p) (up_AwayTeamID p) (up_HomePlayerID p) (up_AwayPlayerID p)" by blast
  from w(1) show ?thesis using assms(2) w(2) unfolding p' staged_ok_def update_ok_def by (elim disjE) simp_all
qed

section \<open>What the services prepare\<close>

lemma prepare_update_Inr:
  assumes "prepare_update ev d slug mid req actor actorOrg = Inr p"
  shows "\<exists>orgID m p0 p1 p2 l. match_of_url ev d orgID mid = Inr m \<and> \<not> terminalStatuses (m_Status m)
    \<and> overlay_fields ev req (current_params m) = Inr p0
    \<and> (if participantsChanged req then check_participants d orgID m p0 else Inr ()) = Inr ()
    \<and> overlay_link ev d orgID m req p0 = Inr p1 \<and> overlay_status ev m req p1 = Inr (p2, l)
    \<and> overlay_winner ev req p2 = Inr (ut_updateParams p)
    \<and> ut_isCompletion p = (up_Status (ut_updateParams p) = MatchStatusCompleted)
    \<and> ut_organizationID p = m_OrganizationID m \<and> ut_isWalkover p = m_IsWalkover m"
  using assms unfolding prepare_update_def
  by (clarsimp simp: res_bind_eq_Inr split: prod.splits split del: if_split) (intro exI conjI; (assumption | rule refl))

lemma prepare_update_tx:
  assumes "prepare_update ev d slug mid req actor actorOrg = Inr p" "table_ok (matches d)"
  shows "update_tx_ok p"
proof -
  from prepare_update_Inr[OF assms(1)] obtain orgID m p0 p1 p2 l where g:
      "match_of_url ev d orgID mid = Inr m" "\<not> terminalStatuses (m_Status m)"
      "overlay_fields ev req (current_params m) = Inr p0"
      "(if participantsChanged req then check_participants d orgID m p0 else Inr ()) = Inr ()"
      "overlay_link ev d orgID m req p0 = Inr p1" "overlay_status ev m req p1 = Inr (p2, l)"
      "overlay_winner ev req p2 = Inr (ut_updateParams p)"
      "ut_isCompletion p = (up_Status (ut_updateParams p) = MatchStatusCompleted)"
      "ut_organizationID p = m_OrganizationID m" "ut_isWalkover p = m_IsWalkover m"
    by blast
  from g(1) assms(2) have "match_ok m" by (auto simp: table_ok_def dest!: match_of_url_row)
  note draft = draft_of_current[OF this g(2,3,4)]
  have p0: "up_Status_2 p0 = m_Status m" "up_OrganizationID p0 = m_OrganizationID m"
    using overlay_fields_keeps(2,8)[OF g(3)] by (simp_all add: current_params_def)
  with overlay_link_draft[OF g(5) draft]
  have p1: "draft_ok p1" "up_Status_2 p1 = m_Status m" "up_OrganizationID p1 = m_OrganizationID m" by simp_all
  with overlay_status_staged[OF g(6)] have p2: "staged_ok p2" "up_OrganizationID p2 = m_OrganizationID m" by auto
  have "\<not> m_IsWalkover m"
    using \<open>match_ok m\<close> g(2) by (cases "m_Status m") (auto simp: match_ok_def no_result_def terminalStatuses_def)
  with overlay_winner_ok[OF g(7) p2(1)] p2(2) g(8-10) show ?thesis by (simp add: update_tx_ok_def)
qed

lemma prepare_create_tx:
  "prepare_create ev d slug req actor actorOrg = Inr p \<Longrightarrow> create_tx_ok p"
  unfolding prepare_create_def create_tx_ok_def by (auto simp: res_bind_eq_Inr split: prod.splits)

lemma prepare_delete_tx:
  "prepare_delete ev d slug mid actor actorOrg = Inr p \<Longrightarrow> cancel_tx_ok p"
  unfolding prepare_delete_def cancel_tx_ok_def by (auto simp: res_bind_eq_Inr)

lemma walkover_winner_one:
  "walkover_winner home m = Inr (wt, wp) \<Longrightarrow> wt \<noteq> None \<longleftrightarrow> wp = None"
  by (auto simp: walkover_winner_def split: if_splits)

lemma prepare_walkover_tx:
  assumes "prepare_walkover ev d slug mid req actor actorOrg = Inr p"
  shows "walkover_tx_ok p"
proof -
  from assms obtain m home where "\<not> terminalStatuses (m_Status m)" "wt_previousStatus p = m_Status m"
      "walkover_winner home m = Inr (wt_winnerTeamID p, wt_winnerPlayerID p)"
    unfolding prepare_walkover_def by (auto simp: res_bind_eq_Inr Let_def split: prod.splits)
  then show ?thesis by (auto simp: walkover_tx_ok_def dest: walkover_winner_one)
qed

section \<open>Transactions\<close>

lemma update_match_events: "update_match P upd d = Inr (m, d') \<Longrightarrow> match_events d' = match_events d"
  by (auto simp: update_match_Inr)

lemma SetMatchParticipants_evolves:
  assumes "SetMatchParticipants ev p d = Inr (n, d')" "table_ok (matches d)"
  shows "evolves d d' \<and> match_events d' = match_events d"
proof -
  let ?P = "\<lambda>m. match_key (sp_ID p) (sp_OrganizationID p) m \<and> m_Status m = MatchStatusScheduled"
  consider "d' = d" | m where "update_match ?P (seated_match ev p) d = Inr (m, d')"
    using assms(1) by (auto simp: SetMatchParticipants_def Let_def split: sum.splits sql_error.splits)
  then show ?thesis
  proof cases
    case 2
    then have "evolves d d'"
      by (rule update_match_evolves[OF _ assms(2), where k = "sp_ID p"])
        (auto dest: match_key_unique intro: row_step.seat)
    with 2 show ?thesis by (simp add: update_match_events)
  qed simp
qed

lemma propagateWinner_evolves:
  assumes "propagateWinner ev m d = Inr d'" "table_ok (matches d)"
  shows "evolves d d' \<and> match_events d' = match_events d"
  using assms unfolding propagateWinner_def
  by (auto simp: res_bind_eq_Inr Let_def split: option.splits if_splits prod.splits
      dest: SetMatchParticipants_evolves[OF _ assms(2)])

lemma snapshot_score_keeps:
  assumes "snapshot_score p d = Inr up"
  shows "\<exists>h a. up = (ut_updateParams p)\<lparr>up_HomeScore := h, up_AwayScore := a\<rparr>"
  using assms by (auto simp: snapshot_score_def Let_def res_bind_eq_Inr split: if_splits)

lemma UpdateMatch_evolves:
  assumes "UpdateMatch ev up d = Inr (m, d')" "update_ok up" "table_ok (matches d)"
  shows "evolves d d' \<and> match_events d' = match_events d"
proof -
  have "evolves d d'"
    using assms(1) unfolding UpdateMatch_def
    by (rule update_match_evolves[OF _ assms(3), where k = "up_ID up"])
      (auto dest: match_key_unique intro: row_step.update assms(2))
  with assms(1) show ?thesis by (simp add: UpdateMatch_def update_match_events)
qed

lemma UpdateWithAudit_Inr:
  assumes "UpdateWithAudit ev p d = Inr (m, d')"
  shows "\<exists>up d1 d3. (if ut_isCompletion p then snapshot_score p d else Inr (ut_updateParams p)) = Inr up
    \<and> UpdateMatch ev up d = Inr (m, d1) \<and> matches d3 = matches d1 \<and> match_events d3 = match_events d1
    \<and> tournaments d3 = tournaments d1
    \<and> (if m_Status m = MatchStatusCompleted then propagateWinner ev m d3 else Inr d3) = Inr d'"
proof -
  have "\<exists>up d1 nd. (if ut_isCompletion p then snapshot_score p d else Inr (ut_updateParams p)) = Inr up
      \<and> UpdateMatch ev up d = Inr (m, d1)
      \<and> (if m_Status m = MatchStatusCompleted then propagateWinner ev m (update_records ev p m nd d1)
         else Inr (update_records ev p m nd d1)) = Inr d'"
    using assms unfolding UpdateWithAudit_def Let_def
    by (clarsimp simp: res_bind_eq_Inr split: prod.splits split del: if_split) (intro exI conjI; assumption)
  then obtain up d1 nd where "(if ut_isCompletion p then snapshot_score p d else Inr (ut_updateParams p)) = Inr up"
      "UpdateMatch ev up d = Inr (m, d1)"
      "(if m_Status m = MatchStatusCompleted then propagateWinner ev m (update_records ev p m nd d1)
        else Inr (update_records ev p m nd d1)) = Inr d'"
    by blast
  then show ?thesis
    by (intro exI[where x = up] exI[where x = d1] exI[where x = "update_records ev p m nd d1"]) simp
qed

lemma UpdateWithAudit_evolves:
  assumes "UpdateWithAudit ev p d = Inr (m, d')" "update_tx_ok p" "table_ok (matches d)"
  shows "evolves d d' \<and> match_events d' = match_events d"
proof -
  from UpdateWithAudit_Inr[OF assms(1)] obtain up d1 d3 where u:
      "(if ut_isCompletion p then snapshot_score p d else Inr (ut_updateParams p)) = Inr up"
      "UpdateMatch ev up d = Inr (m, d1)" "matches d3 = matches d1" "match_events d3 = match_events d1"
      "(if m_Status m = MatchStatusCompleted then propagateWinner ev m d3 else Inr d3) = Inr d'"
    by blast
  have "update_ok up"
    using u(1) assms(2) by (auto simp: update_tx_ok_def update_ok_def dest!: snapshot_score_keeps split: if_splits)
  with u(2) assms(3) have 1: "evolves d d1" "match_events d1 = match_events d" by (auto dest: UpdateMatch_evolves)
  then have "table_ok (matches d3)" using rows_evolve_ok assms(3) u(3) by metis
  with u(3,4,5) have "rows_evolve (matches d1) (matches d')" "match_events d' = match_events d1"
    by (auto split: if_splits dest: propagateWinner_evolves)
  with 1 show ?thesis by (auto intro: rows_evolve_trans)
qed

lemma CancelWithAudit_evolves:
  assumes "CancelWithAudit ev p d = Inr d'" "cancel_tx_ok p" "table_ok (matches d)"
  shows "evolves d d' \<and> match_events d' = match_events d"
proof -
  from assms(1) obtain m d1 where c: "CancelMatch ev (xt_id p) (xt_orgID p) (xt_previousStatus p) d = Inr (m, d1)"
      "matches d' = matches d1" "match_events d' = match_events d1"
    by (auto simp: CancelWithAudit_def res_bind_eq_Inr Let_def split: prod.splits)
  from c(1) have "evolves d d1"
    unfolding CancelMatch_def
    by (rule update_match_evolves[OF _ assms(3), where k = "xt_id p"])
      (use assms(2) in \<open>auto dest: match_key_unique intro: row_step.cancel simp: cancel_tx_ok_def\<close>)
  with c show ?thesis by (simp add: CancelMatch_def update_match_events)
qed

lemma SetMatchWalkover_evolves:
  assumes "SetMatchWalkover ev p d = Inr (m, d')" "table_ok (matches d)" "\<not> terminalStatuses (wp_Status p)"
    and "wp_WinnerTeamID p \<noteq> None \<longleftrightarrow> wp_WinnerPlayerID p = None"
  shows "evolves d d' \<and> match_events d' = match_events d"
proof -
  have "evolves d d'"
    using assms(1) unfolding SetMatchWalkover_def
    by (rule update_match_evolves[OF _ assms(2), where k = "wp_ID p"])
      (use assms(3,4) in \<open>auto dest: match_key_unique intro: row_step.walkover\<close>)
  with assms(1) show ?thesis by (simp add: SetMatchWalkover_def update_match_events)
qed

lemma WalkoverWithAudit_evolves:
  assumes "WalkoverWithAudit ev p d = Inr (m, d')" "walkover_tx_ok p" "table_ok (matches d)"
  shows "evolves d d' \<and> match_events d' = match_events d"
proof -
  let ?wp = "\<lparr>wp_ID = wt_id p, wp_OrganizationID = wt_orgID p, wp_WinnerTeamID = wt_winnerTeamID p,
    wp_WinnerPlayerID = wt_winnerPlayerID p, wp_Notes = wt_reason p, wp_Status = wt_previousStatus p\<rparr>"
  from assms(1) obtain d1 d3 where w: "propagateWinner ev m d3 = Inr d'" "SetMatchWalkover ev ?wp d = Inr (m, d1)"
      "matches d3 = matches d1" "match_events d3 = match_events d1"
    by (auto simp: WalkoverWithAudit_def res_bind_eq_Inr Let_def split: prod.splits)
  from w(2) assms(2,3) have 1: "evolves d d1 \<and> match_events d1 = match_events d"
    by (intro SetMatchWalkover_evolves) (auto simp: walkover_tx_ok_def)
  then have "table_ok (matches d3)" using rows_evolve_ok assms(3) w(3) by metis
  with w(1,3,4) have "rows_evolve (matches d1) (matches d')" "match_events d' = match_events d1"
    by (auto dest: propagateWinner_evolves)
  with 1 show ?thesis by (auto intro: rows_evolve_trans)
qed

lemma CreateWithAudit_evolves:
  assumes "CreateWithAudit ev p d = Inr (m, d')" "create_tx_ok p"
  shows "evolves d d' \<and> match_events d' = match_events d"
proof -
  from assms(1) obtain d1 where c: "insert_match (created_match ev (ct_createParams p)) d = Inr (m, d1)"
      "matches d' = matches d1" "match_events d' = match_events d1"
    by (auto simp: CreateWithAudit_def CreateMatch_def res_bind_eq_Inr Let_def split: prod.splits)
  from c(1) have "evolves d d1"
    by (rule insert_match_evolves) (use assms(2) in \<open>simp_all add: created_match_def no_result_def create_tx_ok_def\<close>)
  with c show ?thesis by (auto simp: insert_match_Inr)
qed

lemma event_CreateWithAudit_matches:
  "event_CreateWithAudit ev p d = Inr (e, d') \<Longrightarrow> matches d' = matches d"
  by (auto simp: event_CreateWithAudit_def event_insert_def CreateMatchEvent_def res_bind_eq_Inr Let_def
      split: prod.splits if_splits)

section \<open>Fixture generation\<close>

lemma insert_matches_evolves:
  "insert_matches ev ids p pt k pms f d = Inr d' \<Longrightarrow> evolves d d' \<and> match_events d' = match_events d"
proof (induction pms arbitrary: k f d)
  case (Cons pm pms)
  from Cons.prems obtain params m d1 where 1: "planned_params ev p pt f pm = Inr params"
      "insert_match (generated_match (ev\<lparr>env_row_id := ids k\<rparr>) params) d = Inr (m, d1)"
      "insert_matches ev ids p pt (k + 1) pms (f(pm_index pm := m_ID m)) d1 = Inr d'"
    by (auto simp: res_bind_eq_Inr InsertGeneratedMatch_def)
  from 1(2) have "evolves d d1" by (rule insert_match_evolves) (simp_all add: generated_match_def no_result_def)
  moreover have "evolves d1 d' \<and> match_events d' = match_events d1"
    using Cons.IH[OF 1(3)] .
  ultimately show ?case using 1(2) by (auto simp: insert_match_Inr intro: rows_evolve_trans)
qed simp

lemma fixturegen_Generate_evolves:
  assumes "fixturegen_Generate en ev slug tid req actor actorOrg d = Inr (resp, d')"
  shows "evolves d d' \<and> match_events d' = match_events d"
  using assms
  by (auto simp: fixturegen_Generate_def repo_Generate_def insertPlan_def res_bind_eq_Inr Let_def
      split: prod.splits if_splits dest: insert_matches_evolves)

lemma resolve_matches_evolves:
  "resolve_matches ev ranked pt orgID qms n d = Inr (k, d') \<Longrightarrow> table_ok (matches d)
     \<Longrightarrow> evolves d d' \<and> match_events d' = match_events d"
proof (induction qms arbitrary: n d)
  case (Cons qm qms)
  show ?case
  proof (cases "qualifier_meta (lq_Metadata qm)")
    case None
    with Cons show ?thesis by simp
  next
    case (Some q)
    with Cons.prems(1) obtain params changed where r: "resolve_params ev ranked pt orgID q qm = Inr (params, changed)"
      by (auto simp: res_bind_eq_Inr)
    show ?thesis
    proof (cases changed)
      case False
      with Cons Some r show ?thesis by simp
    next
      case True
      with Cons.prems(1) Some r obtain i d1 l where s: "SetMatchParticipants ev params d = Inr (i, d1)"
          "resolve_matches ev ranked pt orgID qms l d1 = Inr (k, d')"
          "l = (if i > 0 then n + (if qs_Home q \<noteq> None then 1 else 0) + (if qs_Away q \<noteq> None then 1 else 0) else n)"
        by (auto simp: res_bind_eq_Inr)
      from SetMatchParticipants_evolves[OF s(1) Cons.prems(2)]
      have e: "evolves d d1" "match_events d1 = match_events d" by auto
      from Cons.IH[OF s(2)] rows_evolve_ok[OF e(1) Cons.prems(2)]
      have "evolves d1 d' \<and> match_events d' = match_events d1" by simp
      with e show ?thesis by (auto intro: rows_evolve_trans)
    qed
  qed
qed simp

lemma fixturegen_Resolve_evolves:
  assumes "fixturegen_Resolve en ev slug tid actorOrg d = Inr (n, d')" "table_ok (matches d)"
  shows "evolves d d' \<and> match_events d' = match_events d"
  using assms(1)
  by (auto simp: fixturegen_Resolve_def repo_ResolveQualifiers_def res_bind_eq_Inr Let_def
      dest: resolve_matches_evolves[OF _ assms(2)])

end
