(* ===== verification/Event_Log.thy ===== *)
theory Event_Log
  imports Match_Events
begin

text \<open>
  The event log of a match as \<open>event_CreateWithAudit\<close> keeps it: an append-only sequence numbered
  from one without gaps, in which a correction names an earlier event of the same match that is no
  correction, every event is corrected at most once, and a match starts and ends at most once.
\<close>

definition event_log :: "database \<Rightarrow> uuid \<Rightarrow> event_row list" where
  "event_log d mid = filter (\<lambda>e. e_MatchID e = mid) (match_events d)"

definition numbered :: "event_row list \<Rightarrow> bool" where
  "numbered es \<longleftrightarrow> map e_SequenceNumber es = [1 .. int (length es)]"

definition corrects :: "event_row list \<Rightarrow> event_row \<Rightarrow> bool" where
  "corrects es c \<longleftrightarrow> (\<exists>t \<in> set es. e_ID t = e_CancelsEventID c \<and> e_MatchID t = e_MatchID c
     \<and> e_EventType t \<noteq> MatchEventTypeScoreCorrection \<and> e_SequenceNumber t < e_SequenceNumber c)"

definition log_ok :: "event_row list \<Rightarrow> bool" where
  "log_ok es \<longleftrightarrow> distinct (map e_ID es)
     \<and> (\<forall>e \<in> set es. e_ID e \<noteq> None \<and> e_MatchID e \<noteq> None
          \<and> (e_CancelsEventID e \<noteq> None \<longleftrightarrow> e_EventType e = MatchEventTypeScoreCorrection)
          \<and> (e_CancelsEventID e \<noteq> None \<longrightarrow> corrects es e))
     \<and> (\<forall>mid. numbered (filter (\<lambda>e. e_MatchID e = mid) es))
     \<and> (\<forall>c \<in> set es. \<forall>c' \<in> set es.
          e_CancelsEventID c \<noteq> None \<and> e_CancelsEventID c = e_CancelsEventID c' \<longrightarrow> c = c')
     \<and> (\<forall>mid. \<forall>et \<in> {MatchEventTypeMatchStarted, MatchEventTypeMatchEnded}.
          length (filter (\<lambda>e. e_MatchID e = mid \<and> e_EventType e = et) es) \<le> 1)"

definition event_tx_ok :: "createEventTxParams \<Rightarrow> bool" where
  "event_tx_ok p \<longleftrightarrow> (et_cancelsEventID p \<noteq> None \<longleftrightarrow> et_eventType p = MatchEventTypeScoreCorrection)"

lemma log_ok_Nil [simp]: "log_ok []"
  by (simp add: log_ok_def numbered_def)

lemma prepare_event_tx:
  "prepare_event ev d slug mid req actor actorOrg = Inr p \<Longrightarrow> event_tx_ok p"
  unfolding prepare_event_def event_tx_ok_def by (auto simp: res_bind_eq_Inr Let_def)

section \<open>Numbering\<close>

lemma numbered_max:
  assumes "numbered (event_log d (Some mid))"
  shows "GetMaxSequenceNumber d (Some mid) = int (length (event_log d (Some mid)))"
proof -
  let ?es = "event_log d (Some mid)"
  have m: "filter (\<lambda>e. sql_eq (e_MatchID e) (Some mid)) (match_events d) = ?es"
    unfolding event_log_def by (rule filter_cong) (auto simp: sql_eq_iff)
  have s: "map e_SequenceNumber ?es = [1 .. int (length ?es)]" using assms by (simp add: numbered_def)
  show ?thesis
  proof (cases "?es = []")
    case True
    then show ?thesis by (simp add: GetMaxSequenceNumber_def m)
  next
    case False
    then have "length ?es \<ge> 1" by (cases ?es) simp_all
    then have "Max (set [1 .. int (length ?es)]) = int (length ?es)"
      by (intro Max_eqI) auto
    with False s show ?thesis by (simp add: GetMaxSequenceNumber_def m)
  qed
qed

text \<open>A positive 64-bit number that the log does not hold yet is the next one.\<close>

lemma next_sequence:
  assumes "numbered es" "n = int64 (int (length es) + 1)" "n > 0" "n \<notin> e_SequenceNumber ` set es"
  shows "n = int (length es) + 1"
proof (cases "int (length es) + 1 < 2 ^ 63")
  case True
  with assms(2) show ?thesis by (simp add: int64_id)
next
  case False
  have "e_SequenceNumber ` set es = {1 .. int (length es)}"
    using assms(1) by (metis numbered_def list.set_map set_upto)
  moreover have "n < 2 ^ 63" using assms(2) int64_range(2) by simp
  ultimately show ?thesis using assms(3,4) False by auto
qed

lemma numbered_snoc: "numbered es \<Longrightarrow> e_SequenceNumber e = int (length es) + 1 \<Longrightarrow> numbered (es @ [e])"
  by (simp add: numbered_def upto_rec2)

section \<open>One event\<close>

lemma event_insert_Inr:
  assumes "event_insert ev p d = Inr (e, d')"
  shows "match_events d' = match_events d @ [e] \<and> matches d' = matches d \<and> event_unique d e \<and> event_checks e
     \<and> e_MatchID e = et_matchID p \<and> e_EventType e = et_eventType p \<and> e_CancelsEventID e = et_cancelsEventID p
     \<and> e_OrganizationID e = et_organizationID p \<and> e_ID e = Some (env_row_id ev)
     \<and> e_SequenceNumber e = int64 (GetMaxSequenceNumber d (et_matchID p) + 1)"
  using assms
  by (auto simp: event_insert_def CreateMatchEvent_def created_event_def res_bind_eq_Inr Let_def
      split: prod.splits if_splits)

lemma event_CreateWithAudit_Inr:
  assumes "event_CreateWithAudit ev p d = Inr (e, d')"
  shows "\<exists>m \<in> set (matches d). match_key (et_matchID p) (et_organizationID p) m \<and> m_Status m = MatchStatusLive"
    and "check_lifecycle d p = Inr ()" "check_correction d p = Inr ()" "event_insert ev p d = Inr (e, d')"
  using assms
  by (auto simp: event_CreateWithAudit_def res_bind_eq_Inr LockMatchForUpdate_def select_one_Inr dest!: find_SomeD)

lemma check_lifecycle_Inr:
  assumes "check_lifecycle d p = Inr ()" "et_matchID p = Some mid"
    and "et_eventType p \<in> {MatchEventTypeMatchStarted, MatchEventTypeMatchEnded}"
  shows "filter (\<lambda>e. e_MatchID e = Some mid \<and> e_EventType e = et_eventType p) (match_events d) = []"
  using assms by (auto simp: check_lifecycle_def CountMatchEventsByType_def filter_empty_conv sql_eq_iff
      split: if_splits)

lemma check_correction_Inr:
  assumes "check_correction d p = Inr ()" "et_eventType p = MatchEventTypeScoreCorrection"
  shows "\<exists>t \<in> set (match_events d). e_ID t = et_cancelsEventID p \<and> e_MatchID t = et_matchID p
      \<and> e_EventType t \<noteq> MatchEventTypeScoreCorrection"
    and "\<forall>c \<in> set (match_events d). e_MatchID c = et_matchID p \<longrightarrow> e_CancelsEventID c \<noteq> et_cancelsEventID p"
proof -
  from assms obtain t where t: "find (\<lambda>e. sql_eq (e_ID e) (et_cancelsEventID p)) (match_events d) = Some t"
      "uuidEquals (e_MatchID t) (et_matchID p)" "e_EventType t \<noteq> MatchEventTypeScoreCorrection"
      "GetEventCancellation d (et_matchID p) (et_cancelsEventID p) = Inl ErrNoRows"
    by (auto simp: check_correction_def res_bind_eq_Inr GetMatchEventForCorrection_def select_one_Inr
        split: if_splits sum.splits sql_error.splits)
  show "\<exists>t \<in> set (match_events d). e_ID t = et_cancelsEventID p \<and> e_MatchID t = et_matchID p
      \<and> e_EventType t \<noteq> MatchEventTypeScoreCorrection"
    using t(1-3) by (auto simp: uuidEquals_iff sql_eq_iff dest!: find_SomeD)
  show "\<forall>c \<in> set (match_events d). e_MatchID c = et_matchID p \<longrightarrow> e_CancelsEventID c \<noteq> et_cancelsEventID p"
    using t by (auto simp: GetEventCancellation_def res_bind_eq_Inl select_one_Inl sql_eq_iff uuidEquals_iff dest!: find_SomeD)
qed

lemma filter_snoc: "filter P (es @ [e]) = (if P e then filter P es @ [e] else filter P es)"
  by simp

lemma numbered_append:
  assumes "\<forall>mid. numbered (filter (\<lambda>e. e_MatchID e = mid) es)"
    and "e_SequenceNumber e = int (length (filter (\<lambda>x. e_MatchID x = e_MatchID e) es)) + 1"
  shows "\<forall>mid. numbered (filter (\<lambda>e. e_MatchID e = mid) (es @ [e]))"
  using assms by (auto intro!: numbered_snoc)

lemma lifecycle_append:
  assumes "\<forall>mid. \<forall>et \<in> T. length (filter (\<lambda>e. e_MatchID e = mid \<and> e_EventType e = et) es) \<le> 1"
    and "e_EventType e \<in> T \<Longrightarrow> filter (\<lambda>x. e_MatchID x = e_MatchID e \<and> e_EventType x = e_EventType e) es = []"
  shows "\<forall>mid. \<forall>et \<in> T. length (filter (\<lambda>x. e_MatchID x = mid \<and> e_EventType x = et) (es @ [e])) \<le> 1"
  using assms by auto

lemma log_ok_snoc:
  assumes "log_ok es" "e_ID e \<notin> e_ID ` set es" "e_ID e \<noteq> None" "e_MatchID e \<noteq> None"
    and "e_CancelsEventID e \<noteq> None \<longleftrightarrow> e_EventType e = MatchEventTypeScoreCorrection"
    and "e_CancelsEventID e \<noteq> None \<Longrightarrow> corrects es e"
    and "e_CancelsEventID e \<noteq> None \<Longrightarrow> \<forall>c \<in> set es. e_CancelsEventID c \<noteq> e_CancelsEventID e"
    and "e_SequenceNumber e = int (length (filter (\<lambda>x. e_MatchID x = e_MatchID e) es)) + 1"
    and "e_EventType e \<in> {MatchEventTypeMatchStarted, MatchEventTypeMatchEnded} \<Longrightarrow>
      filter (\<lambda>x. e_MatchID x = e_MatchID e \<and> e_EventType x = e_EventType e) es = []"
  shows "log_ok (es @ [e])"
proof -
  have mono: "corrects (es @ [e]) c" if "corrects es c" for c
    using that by (auto simp: corrects_def)
  note old = assms(1)[unfolded log_ok_def]
  show ?thesis
    unfolding log_ok_def
  proof (intro conjI)
    show "distinct (map e_ID (es @ [e]))" using old assms(2) by simp
    show "\<forall>x \<in> set (es @ [e]). e_ID x \<noteq> None \<and> e_MatchID x \<noteq> None
        \<and> (e_CancelsEventID x \<noteq> None \<longleftrightarrow> e_EventType x = MatchEventTypeScoreCorrection)
        \<and> (e_CancelsEventID x \<noteq> None \<longrightarrow> corrects (es @ [e]) x)"
      using old assms(3-6) mono by auto
    show "\<forall>mid. numbered (filter (\<lambda>x. e_MatchID x = mid) (es @ [e]))"
      by (rule numbered_append) (use old assms(8) in auto)
    show "\<forall>c \<in> set (es @ [e]). \<forall>c' \<in> set (es @ [e]).
        e_CancelsEventID c \<noteq> None \<and> e_CancelsEventID c = e_CancelsEventID c' \<longrightarrow> c = c'"
    proof -
      have "\<forall>c \<in> set es. \<forall>c' \<in> set es.
          e_CancelsEventID c \<noteq> None \<and> e_CancelsEventID c = e_CancelsEventID c' \<longrightarrow> c = c'"
        using old by blast
      with assms(7) show ?thesis unfolding set_append by (simp del: not_None_eq) metis
    qed
    show "\<forall>mid. \<forall>et \<in> {MatchEventTypeMatchStarted, MatchEventTypeMatchEnded}.
        length (filter (\<lambda>x. e_MatchID x = mid \<and> e_EventType x = et) (es @ [e])) \<le> 1"
      by (rule lifecycle_append) (use old assms(9) in auto)
  qed
qed

lemma log_sequence_of:
  assumes "log_ok es" "t \<in> set es"
  shows "1 \<le> e_SequenceNumber t \<and> e_SequenceNumber t \<le> int (length (filter (\<lambda>x. e_MatchID x = e_MatchID t) es))"
proof -
  let ?ls = "filter (\<lambda>x. e_MatchID x = e_MatchID t) es"
  have "numbered ?ls" using assms(1) by (simp add: log_ok_def)
  then have "e_SequenceNumber ` set ?ls = {1 .. int (length ?ls)}" by (metis numbered_def list.set_map set_upto)
  moreover have "t \<in> set ?ls" using assms(2) by simp
  ultimately show ?thesis by (metis (no_types, lifting) atLeastAtMost_iff imageI)
qed

theorem event_append:
  assumes "event_CreateWithAudit ev p d = Inr (e, d')" "event_tx_ok p" "log_ok (match_events d)"
  shows "match_events d' = match_events d @ [e] \<and> matches d' = matches d \<and> log_ok (match_events d')
    \<and> (\<exists>m \<in> set (matches d). m_ID m = e_MatchID e \<and> m_Status m = MatchStatusLive)"
proof -
  note c = event_CreateWithAudit_Inr[OF assms(1)]
  from c(1) obtain m where m: "m \<in> set (matches d)" "m_ID m = et_matchID p" "m_Status m = MatchStatusLive"
    and "et_matchID p \<noteq> None"
    unfolding match_key_def sql_eq_iff by metis
  then obtain mid where mid: "et_matchID p = Some mid" by blast
  note i = event_insert_Inr[OF c(4)]
  let ?es = "match_events d" let ?ls = "filter (\<lambda>x. e_MatchID x = e_MatchID e) ?es"
  have "numbered ?ls" "?ls = event_log d (Some mid)"
    using assms(3) i mid by (simp_all add: log_ok_def event_log_def)
  moreover have "e_SequenceNumber e > 0" using i by (simp add: event_checks_def)
  moreover have "e_SequenceNumber e \<notin> e_SequenceNumber ` set ?ls" using i by (auto simp: event_unique_def)
  ultimately have s: "e_SequenceNumber e = int (length ?ls) + 1"
    using i mid numbered_max[of d mid] by (intro next_sequence) simp_all
  have seq: "e_SequenceNumber t < e_SequenceNumber e" if "t \<in> set ?es" "e_MatchID t = e_MatchID e" for t
    using log_sequence_of[OF assms(3) that(1)] that(2) s by simp
  have co: "corrects ?es e \<and> (\<forall>c \<in> set ?es. e_CancelsEventID c \<noteq> e_CancelsEventID e)" if "e_CancelsEventID e \<noteq> None"
  proof -
    have t: "et_eventType p = MatchEventTypeScoreCorrection" using that assms(2) i by (simp add: event_tx_ok_def)
    note k = check_correction_Inr[OF c(3) t]
    from k(1) i seq have a: "corrects ?es e" by (auto simp: corrects_def)
    have "e_CancelsEventID x \<noteq> e_CancelsEventID e" if x: "x \<in> set ?es" for x
    proof
      assume eq: "e_CancelsEventID x = e_CancelsEventID e"
      with x assms(3) \<open>e_CancelsEventID e \<noteq> None\<close> have "corrects ?es x" by (auto simp: log_ok_def)
      with a eq assms(3) have "e_MatchID x = e_MatchID e"
        unfolding corrects_def log_ok_def by (metis (no_types, lifting) distinct_map inj_on_def)
      with k(2) x eq i show False by auto
    qed
    with a show ?thesis by blast
  qed
  have "log_ok (?es @ [e])"
    using i m mid co assms(2) s check_lifecycle_Inr[OF c(2) mid]
    by (intro log_ok_snoc[OF assms(3)]) (auto simp: event_unique_def event_tx_ok_def)
  with i m show ?thesis by auto
qed

end
