(* ===== verification/Match_Machine.thy ===== *)
theory Match_Machine
  imports Match_Refine Event_Log
begin

text \<open>
  The matches of a running system.  A request first reads the database and prepares the parameters
  of its transaction; the transaction commits later, on whatever the database is then, or never.
  Between the two any other request may run.  The writers of \<open>matches\<close> are the four transactions of
  the matches service and the two of fixture generation, the writer of \<open>match_events\<close> is the event
  service; every other service is a step that leaves both tables alone.
\<close>

section \<open>Steps\<close>

datatype match_tx =
    TxCreate createMatchTxParams
  | TxUpdate updateMatchTxParams
  | TxCancel cancelMatchTxParams
  | TxWalkover walkoverMatchTxParams
  | TxEvent createEventTxParams

text \<open>The outcome of a commit: the new database, or \<open>None\<close> when the transaction rolls back.\<close>

definition commit_of :: "'e + database \<Rightarrow> database option" where
  "commit_of r = (case r of Inl _ \<Rightarrow> None | Inr d \<Rightarrow> Some d)"

fun run_tx :: "env \<Rightarrow> match_tx \<Rightarrow> database \<Rightarrow> database option" where
  "run_tx ev (TxCreate p) d = commit_of (res_bind (CreateWithAudit ev p d) (\<lambda>(_, d'). Inr d'))"
| "run_tx ev (TxUpdate p) d = commit_of (res_bind (UpdateWithAudit ev p d) (\<lambda>(_, d'). Inr d'))"
| "run_tx ev (TxCancel p) d = commit_of (CancelWithAudit ev p d)"
| "run_tx ev (TxWalkover p) d = commit_of (res_bind (WalkoverWithAudit ev p d) (\<lambda>(_, d'). Inr d'))"
| "run_tx ev (TxEvent p) d = commit_of (res_bind (event_CreateWithAudit ev p d) (\<lambda>(_, d'). Inr d'))"

type_synonym machine = "database \<times> match_tx set"

inductive mstep :: "'r engine \<Rightarrow> machine \<Rightarrow> machine \<Rightarrow> bool" for en :: "'r engine" where
  request_create: "prepare_create ev d slug req actor actorOrg = Inr p
    \<Longrightarrow> mstep en (d, T) (d, insert (TxCreate p) T)"
| request_update: "prepare_update ev d slug mid ureq actor actorOrg = Inr up
    \<Longrightarrow> mstep en (d, T) (d, insert (TxUpdate up) T)"
| request_delete: "prepare_delete ev d slug mid actor actorOrg = Inr xp
    \<Longrightarrow> mstep en (d, T) (d, insert (TxCancel xp) T)"
| request_walkover: "prepare_walkover ev d slug mid wreq actor actorOrg = Inr wp
    \<Longrightarrow> mstep en (d, T) (d, insert (TxWalkover wp) T)"
| request_event: "prepare_event ev d slug mid ereq actor actorOrg = Inr ep
    \<Longrightarrow> mstep en (d, T) (d, insert (TxEvent ep) T)"
| commit: "t \<in> T \<Longrightarrow> run_tx ev t d = Some d' \<Longrightarrow> mstep en (d, T) (d', T - {t})"
| drop_tx: "mstep en (d, T) (d, T - {t})"
| generate: "fixturegen_Generate en ev slug tid greq actor actorOrg d = Inr (resp, d')
    \<Longrightarrow> mstep en (d, T) (d', T)"
| resolve: "fixturegen_Resolve en ev slug tid actorOrg d = Inr (n, d') \<Longrightarrow> mstep en (d, T) (d', T)"
| foreign: "matches d' = matches d \<Longrightarrow> match_events d' = match_events d \<Longrightarrow> mstep en (d, T) (d', T)"

text \<open>The system starts with no match and no request under way.\<close>

definition started :: "machine \<Rightarrow> bool" where
  "started s \<longleftrightarrow> matches (fst s) = [] \<and> match_events (fst s) = [] \<and> snd s = {}"

definition reachable :: "'r engine \<Rightarrow> machine \<Rightarrow> bool" where
  "reachable en s \<longleftrightarrow> (\<exists>s0. started s0 \<and> (mstep en)\<^sup>*\<^sup>* s0 s)"

inductive_cases mstepE: "mstep en (d, T) s"

section \<open>The invariant\<close>

fun tx_ok :: "match_tx \<Rightarrow> bool" where
  "tx_ok (TxCreate p) \<longleftrightarrow> create_tx_ok p"
| "tx_ok (TxUpdate p) \<longleftrightarrow> update_tx_ok p"
| "tx_ok (TxCancel p) \<longleftrightarrow> cancel_tx_ok p"
| "tx_ok (TxWalkover p) \<longleftrightarrow> walkover_tx_ok p"
| "tx_ok (TxEvent p) \<longleftrightarrow> event_tx_ok p"

definition machine_ok :: "machine \<Rightarrow> bool" where
  "machine_ok s \<longleftrightarrow> table_ok (matches (fst s)) \<and> log_ok (match_events (fst s)) \<and> (\<forall>t \<in> snd s. tx_ok t)"

text \<open>What a step does to the two tables.\<close>

definition appends_live :: "database \<Rightarrow> database \<Rightarrow> bool" where
  "appends_live d d' \<longleftrightarrow> match_events d' = match_events d
     \<or> (\<exists>e m. match_events d' = match_events d @ [e] \<and> matches d' = matches d
          \<and> m \<in> set (matches d) \<and> m_ID m = e_MatchID e \<and> m_Status m = MatchStatusLive)"

lemma commit_of_Some [simp]: "commit_of r = Some d \<longleftrightarrow> r = Inr d"
  by (cases r) (simp_all add: commit_of_def)

lemma run_tx_evolves:
  assumes "run_tx ev t d = Some d'" "tx_ok t" "table_ok (matches d)" "log_ok (match_events d)"
  shows "evolves d d' \<and> log_ok (match_events d') \<and> appends_live d d'"
proof (cases t)
  case (TxEvent p)
  with assms obtain e where "event_CreateWithAudit ev p d = Inr (e, d')" "event_tx_ok p"
    by (auto simp: res_bind_eq_Inr)
  from event_append[OF this assms(4)] show ?thesis by (auto simp: appends_live_def)
qed (use assms in \<open>auto simp: res_bind_eq_Inr appends_live_def
       dest: CreateWithAudit_evolves UpdateWithAudit_evolves CancelWithAudit_evolves WalkoverWithAudit_evolves\<close>)

lemma mstep_evolves:
  assumes "mstep en s s'" "machine_ok s"
  shows "evolves (fst s) (fst s') \<and> log_ok (match_events (fst s')) \<and> appends_live (fst s) (fst s')"
  using assms
proof (cases rule: mstep.cases)
  case (commit t T ev d d')
  with assms(2) show ?thesis by (auto simp: machine_ok_def dest: run_tx_evolves)
qed (auto simp: machine_ok_def appends_live_def dest: fixturegen_Generate_evolves fixturegen_Resolve_evolves)

lemma mstep_tx_ok:
  assumes "mstep en s s'" "machine_ok s" "t \<in> snd s'"
  shows "tx_ok t"
  using assms
  by (cases rule: mstep.cases)
    (auto simp: machine_ok_def intro: prepare_create_tx prepare_update_tx prepare_delete_tx prepare_walkover_tx prepare_event_tx)

lemma mstep_ok: "mstep en s s' \<Longrightarrow> machine_ok s \<Longrightarrow> machine_ok s'"
  using mstep_evolves[of en s s'] mstep_tx_ok[of en s s'] rows_evolve_ok
  by (auto simp: machine_ok_def)

lemma started_ok: "started s \<Longrightarrow> machine_ok s"
  by (simp add: started_def machine_ok_def table_ok_def)

lemma msteps_ok: "(mstep en)\<^sup>*\<^sup>* s s' \<Longrightarrow> machine_ok s \<Longrightarrow> machine_ok s'"
  by (induction rule: rtranclp_induct) (auto intro: mstep_ok)

lemma reachable_ok: "reachable en s \<Longrightarrow> machine_ok s"
  by (auto simp: reachable_def intro: msteps_ok started_ok)

lemma msteps_evolve: "(mstep en)\<^sup>*\<^sup>* s s' \<Longrightarrow> machine_ok s \<Longrightarrow> evolves (fst s) (fst s')"
proof (induction rule: rtranclp_induct)
  case (step s' s'')
  with msteps_ok[OF step.hyps(1)] show ?case by (auto dest: mstep_evolves intro: rows_evolve_trans)
qed simp

end
