(* ===== verification/Match_Demo.thy ===== *)
theory Match_Demo
  imports Demo_Data Match_Machine
begin

text \<open>
  A run of the machine on the demo database: a match is created, started, gets a raid worth three
  points and is completed.  The concrete instances of the properties use its states.
\<close>

definition demo_engine :: "unit engine" where
  "demo_engine = \<lparr>en_newSource = (\<lambda>_. ()), en_intn = (\<lambda>n r. (0, r)), en_random = None, en_ids = of_nat,
     en_iter = (\<lambda>xs. xs), en_iterG = (\<lambda>xs. xs), en_float = Some\<rparr>"

abbreviation demo_live_db :: "match_row list \<Rightarrow> event_row list \<Rightarrow> database" where
  "demo_live_db ms es \<equiv> demo_db TournamentStatusOngoing\<lparr>matches := ms, match_events := es\<rparr>"

definition demo_create :: MatchCreateRequest where
  "demo_create = \<lparr>cr_TournamentID = ''t'', cr_RoundNumber = None, cr_RoundName = None, cr_MatchNumber = None,
     cr_HomeTeamID = Some ''a'', cr_AwayTeamID = Some ''b'', cr_HomePlayerID = None, cr_AwayPlayerID = None,
     cr_Venue = None, cr_ScheduledAt = ''noon'', cr_Notes = None, cr_NextMatchID = None,
     cr_NextMatchSlot = None, cr_GroupLabel = None\<rparr>"

definition demo_patch :: "string \<Rightarrow> string option \<Rightarrow> string option \<Rightarrow> string option \<Rightarrow> MatchUpdateRequest" where
  "demo_patch status winner home away = \<lparr>ur_RoundNumber = None, ur_RoundName = None, ur_MatchNumber = None,
     ur_HomeTeamID = home, ur_AwayTeamID = away, ur_HomePlayerID = None, ur_AwayPlayerID = None,
     ur_Venue = None, ur_ScheduledAt = None, ur_Status = Some status, ur_WinnerTeamID = winner,
     ur_WinnerPlayerID = None, ur_Notes = None, ur_NextMatchID = None, ur_NextMatchSlot = None,
     ur_GroupLabel = None\<rparr>"

definition demo_event :: EventCreateRequest where
  "demo_event = \<lparr>er_EventType = ''raid_successful'', er_TeamID = Some ''a'', er_PlayerID = None,
     er_Period = None, er_ClockSeconds = None, er_Payload = PDoc (JObj [(''points'', JInt 3)]),
     er_RecordedAt = None, er_CancelsEventID = None\<rparr>"

section \<open>The rows\<close>

definition demo_scheduled :: match_row where
  "demo_scheduled = zero_match\<lparr>m_ID := Some 100, m_TournamentID := Some 5, m_OrganizationID := Some 1,
     m_HomeTeamID := Some 10, m_AwayTeamID := Some 11, m_ScheduledAt := Some 1000000,
     m_Metadata := empty_object, m_CreatedAt := Some 1, m_UpdatedAt := Some 1\<rparr>"

definition demo_live :: match_row where
  "demo_live = demo_scheduled\<lparr>m_Status := MatchStatusLive, m_StartedAt := Some 2, m_UpdatedAt := Some 2\<rparr>"

definition demo_raid_event :: event_row where
  "demo_raid_event = \<lparr>e_ID = Some 200, e_MatchID = Some 100, e_OrganizationID = Some 1,
     e_SequenceNumber = 1, e_EventType = MatchEventTypeRaidSuccessful, e_TeamID = Some 10, e_PlayerID = None,
     e_Period = None, e_ClockSeconds = None, e_Payload = PDoc (JObj [(''points'', JInt 3)]),
     e_RecordedBy = Some 7, e_RecordedAt = Some 3, e_CancelsEventID = None, e_CreatedAt = Some 3\<rparr>"

definition demo_completed :: match_row where
  "demo_completed = demo_live\<lparr>m_Status := MatchStatusCompleted, m_EndedAt := Some 1002, m_WinnerTeamID := Some 10,
     m_HomeScore := 3, m_UpdatedAt := Some 4\<rparr>"

definition demo_swapped :: match_row where
  "demo_swapped = demo_completed\<lparr>m_HomeTeamID := Some 11, m_AwayTeamID := Some 10\<rparr>"

section \<open>The transactions\<close>

lemmas demo_simps = demo_db_def demo_org_def demo_team_def demo_tournament_def demo_registration_def
  demo_env_def demo_scan_def demo_create_def demo_patch_def demo_event_def
  demo_scheduled_def demo_live_def demo_raid_event_def demo_completed_def demo_swapped_def zero_match_def

lemmas request_simps = GetOrgBySlug_def GetOrganizationBySlug_def select_one_def ParseUUID_def
  match_GetTournamentByID_def GetTournamentByID_def parseRequiredTimestamp_def zero_time_def
  create_participants_def ParseOptionalUUID_def derefStr_def validateNoDuplicates_def
  validateParticipantEligibility_def match_GetTeamByID_def GetTeamByID_def HasApprovedRegistrationByTeam_def
  GetApprovedRegistrationByTeam_def validateLinkage_def parse_actor_def Let_def assertOrgOwnership_def
  assert_owner_def match_of_url_def GetByID_def GetMatchByID_def match_key_def

lemmas write_simps = lock_ongoing_def LockTournamentForShare_def select_one_def insert_match_def
  match_checks_def match_references_def refers_def match_org_consistent_def one_of_known_def
  matchToAuditJSON_def empty_object_def match_key_def update_rows_def

lemmas update_simps = overlay_fields_def overlay_link_def overlay_status_def overlay_winner_def
  current_params_def or_current_def or_current_uuid_def participantsChanged_def terminalStatuses_def
  parseMatchStatus_def parse_statuses_def validateStatusTransition_def check_transition_def
  bothParticipantsAssigned_def tournamentLockStatuses_def check_participants_def

lemma demo_strings [simp]:
  "strings_ToLower (strings_TrimSpace ''live'') = ''live''"
  "strings_ToLower (strings_TrimSpace ''completed'') = ''completed''"
  "strings_ToLower (strings_TrimSpace ''raid_successful'') = ''raid_successful''"
  by (rule lower_word; simp add: lower_char_def plain_char_def)+

definition demo_create_tx :: createMatchTxParams where
  "demo_create_tx = \<lparr>ct_createParams = \<lparr>cp_TournamentID = Some 5, cp_OrganizationID = Some 1,
       cp_RoundNumber = None, cp_RoundName = None, cp_MatchNumber = None, cp_HomeTeamID = Some 10,
       cp_AwayTeamID = Some 11, cp_HomePlayerID = None, cp_AwayPlayerID = None, cp_Venue = None,
       cp_ScheduledAt = Some 1000000, cp_Status = MatchStatusScheduled, cp_Notes = None,
       cp_NextMatchID = None, cp_NextMatchSlot = None, cp_GroupLabel = None\<rparr>,
     ct_actorID = Some 7, ct_tournamentID = Some 5, ct_organizationID = Some 1\<rparr>"

lemma demo_prepare_create:
  "prepare_create (demo_env 100 1) (demo_live_db [] []) ''club'' demo_create ''u'' [] = Inr demo_create_tx"
  by (simp add: prepare_create_def demo_simps request_simps demo_create_tx_def)

lemma demo_run_create: "\<exists>d'. run_tx (demo_env 100 1) (TxCreate demo_create_tx) (demo_live_db [] []) = Some d'
    \<and> matches d' = [demo_scheduled] \<and> match_events d' = []"
  by (simp add: demo_create_tx_def CreateWithAudit_def CreateMatch_def created_match_def write_simps demo_simps)

definition demo_update_tx :: "match_row \<Rightarrow> match_row \<Rightarrow> timestamp \<Rightarrow> payload \<Rightarrow> updateMatchTxParams" where
  "demo_update_tx old new ended od = \<lparr>ut_updateParams = (current_params new)\<lparr>up_Column13 := ended,
       up_HomeScore := 0, up_AwayScore := 0, up_Status_2 := m_Status old\<rparr>,
     ut_actorID = Some 7, ut_oldData = od, ut_lockTournament = True,
     ut_tournamentID = Some 5, ut_organizationID = Some 1,
     ut_isCompletion = (m_Status new = MatchStatusCompleted), ut_isWalkover = False,
     ut_previousStatus = m_Status old\<rparr>"

lemma demo_prepare_live: "\<exists>od. prepare_update (demo_env 0 2) (demo_live_db [demo_scheduled] []) ''club'' ''m''
    (demo_patch ''live'' None None None) ''u'' [] = Inr (demo_update_tx demo_scheduled demo_live None od)"
  by (simp add: prepare_update_def demo_simps request_simps update_simps demo_update_tx_def)

lemma demo_run_live: "\<exists>d'. run_tx (demo_env 0 2) (TxUpdate (demo_update_tx demo_scheduled demo_live None od))
      (demo_live_db [demo_scheduled] []) = Some d' \<and> matches d' = [demo_live] \<and> match_events d' = []"
  by (simp add: demo_update_tx_def UpdateWithAudit_def UpdateMatch_def update_match_def updated_match_def
      current_params_def write_simps demo_simps)

definition demo_event_tx :: createEventTxParams where
  "demo_event_tx = \<lparr>et_matchID = Some 100, et_organizationID = Some 1, et_eventType = MatchEventTypeRaidSuccessful,
     et_teamID = Some 10, et_playerID = None, et_period = None, et_clockSeconds = None,
     et_payload = PDoc (JObj [(''points'', JInt 3)]), et_recordedBy = Some 7, et_recordedAt = Some 3,
     et_cancelsEventID = None, et_actorID = Some 7\<rparr>"

lemma demo_prepare_event: "prepare_event (demo_env 0 3) (demo_live_db [demo_live] []) ''club'' ''m'' demo_event ''u'' []
    = Inr demo_event_tx"
  by (simp add: prepare_event_def demo_simps request_simps event_GetOrgBySlug_def event_owner_def event_match_of_url_def
      event_GetMatchByID_def parseEventType_def all_event_types_def parsePayload_def parseRecordedAt_def
      demo_event_tx_def validatePoints_def normalizePayload_def dec_points_def)

lemma demo_run_event: "\<exists>d'. run_tx (demo_env 200 3) (TxEvent demo_event_tx) (demo_live_db [demo_live] []) = Some d'
    \<and> matches d' = [demo_live] \<and> match_events d' = [demo_raid_event]"
  by (simp add: demo_event_tx_def event_CreateWithAudit_def LockMatchForUpdate_def check_team_def check_player_def
      check_team_player_def check_lifecycle_def check_correction_def event_insert_def GetMaxSequenceNumber_def
      CreateMatchEvent_def created_event_def event_unique_def event_checks_def event_references_def
      eventToAuditJSON_def uuidEquals_def uuid_Bytes_def int64_id Let_def write_simps demo_simps)

lemma demo_prepare_completed: "\<exists>od. prepare_update (demo_env 0 4) (demo_live_db [demo_live] [demo_raid_event])
    ''club'' ''m'' (demo_patch ''completed'' (Some ''a'') None None) ''u'' []
      = Inr (demo_update_tx demo_live demo_completed (Some 4) od)"
  by (simp add: prepare_update_def demo_simps request_simps update_simps demo_update_tx_def uuidEquals_def uuid_Bytes_def)

lemma demo_score: "sr_HomeScore (Compute (match_for_engine \<lparr>lk_ID = Some 100, lk_OrganizationID = Some 1,
      lk_Status = MatchStatusLive, lk_HomeTeamID = Some 10, lk_AwayTeamID = Some 11, lk_HomePlayerID = None,
      lk_AwayPlayerID = None\<rparr>) [demo_raid_event]) = 3
    \<and> sr_AwayScore (Compute (match_for_engine \<lparr>lk_ID = Some 100, lk_OrganizationID = Some 1,
      lk_Status = MatchStatusLive, lk_HomeTeamID = Some 10, lk_AwayTeamID = Some 11, lk_HomePlayerID = None,
      lk_AwayPlayerID = None\<rparr>) [demo_raid_event]) = 0"
  by (simp add: Compute_home Compute_away points_to_def pointsForEvent_def participantSide_def match_for_engine_def
      demo_raid_event_def payloadPoints_def dec_points_def int64_id)

lemma demo_run_completed:
  "\<exists>d'. run_tx (demo_env 0 4) (TxUpdate (demo_update_tx demo_live demo_completed (Some 4) od))
      (demo_live_db [demo_live] [demo_raid_event]) = Some d'
    \<and> matches d' = [demo_completed] \<and> match_events d' = [demo_raid_event]"
  by (simp add: demo_update_tx_def UpdateWithAudit_def UpdateMatch_def update_match_def updated_match_def
      snapshot_score_def LockMatchForUpdate_def GetEffectiveMatchEventsForScore_def effective_def of_match_def
      is_cancelled_def demo_score[unfolded demo_raid_event_def] validateWinnerVsScore_def first_valid_def uuid_Bytes_def
      propagateWinner_def after_start_def int32_id Let_def current_params_def write_simps demo_simps)

text \<open>The completion that also swaps the two teams.\<close>

lemma demo_prepare_swapped: "\<exists>od. prepare_update (demo_env 0 4) (demo_live_db [demo_live] [demo_raid_event])
    ''club'' ''m'' (demo_patch ''completed'' (Some ''a'') (Some ''b'') (Some ''a'')) ''u'' []
      = Inr (demo_update_tx demo_live demo_swapped (Some 4) od)"
  by (simp add: prepare_update_def demo_simps request_simps update_simps demo_update_tx_def uuidEquals_def uuid_Bytes_def)

lemma demo_run_swapped:
  "\<exists>d'. run_tx (demo_env 0 4) (TxUpdate (demo_update_tx demo_live demo_swapped (Some 4) od))
      (demo_live_db [demo_live] [demo_raid_event]) = Some d'
    \<and> matches d' = [demo_swapped] \<and> match_events d' = [demo_raid_event]"
  by (simp add: demo_update_tx_def UpdateWithAudit_def UpdateMatch_def update_match_def updated_match_def
      snapshot_score_def LockMatchForUpdate_def GetEffectiveMatchEventsForScore_def effective_def of_match_def
      is_cancelled_def demo_score[unfolded demo_raid_event_def] validateWinnerVsScore_def first_valid_def uuid_Bytes_def
      propagateWinner_def after_start_def int32_id Let_def current_params_def write_simps demo_simps)

section \<open>Runs\<close>

lemma request_commit:
  assumes "mstep en (d, {}) (d, {t})" "\<exists>d'. run_tx ev t d = Some d' \<and> matches d' = ms \<and> match_events d' = es"
    and "matches d2 = ms" "match_events d2 = es"
  shows "(mstep en)\<^sup>*\<^sup>* (d, {}) (d2, {})"
proof -
  from assms(2) obtain d' where d': "run_tx ev t d = Some d'" "matches d' = ms" "match_events d' = es" by blast
  have "mstep en (d, {t}) (d', {})" using mstep.commit[of t "{t}" ev d d' en] d'(1) by simp
  moreover have "mstep en (d', {}) (d2, {})" by (rule mstep.foreign) (simp_all add: d' assms(3,4))
  ultimately show ?thesis using assms(1) by (meson converse_rtranclp_into_rtranclp rtranclp.rtrancl_refl)
qed

lemma demo_run_to_scheduled: "(mstep en)\<^sup>*\<^sup>* (demo_live_db [] [], {}) (demo_live_db [demo_scheduled] [], {})"
  by (rule request_commit[OF mstep.request_create[OF demo_prepare_create] demo_run_create]) simp_all

lemma demo_run_to_live: "(mstep en)\<^sup>*\<^sup>* (demo_live_db [demo_scheduled] [], {}) (demo_live_db [demo_live] [], {})"
proof -
  from demo_prepare_live obtain od where p: "prepare_update (demo_env 0 2) (demo_live_db [demo_scheduled] []) ''club'' ''m''
    (demo_patch ''live'' None None None) ''u'' [] = Inr (demo_update_tx demo_scheduled demo_live None od)" ..
  show ?thesis by (rule request_commit[OF mstep.request_update[OF p] demo_run_live]) simp_all
qed

lemma demo_run_to_raid: "(mstep en)\<^sup>*\<^sup>* (demo_live_db [demo_live] [], {}) (demo_live_db [demo_live] [demo_raid_event], {})"
  by (rule request_commit[OF mstep.request_event[OF demo_prepare_event] demo_run_event]) simp_all

lemma demo_started: "started (demo_live_db [] [], {})"
  by (simp add: started_def)

lemma demo_reach_raid: "reachable en (demo_live_db [demo_live] [demo_raid_event], {})"
proof -
  have "(mstep en)\<^sup>*\<^sup>* (demo_live_db [] [], {}) (demo_live_db [demo_live] [demo_raid_event], {})"
    by (rule rtranclp_trans[OF demo_run_to_scheduled rtranclp_trans[OF demo_run_to_live demo_run_to_raid]])
  with demo_started show ?thesis unfolding reachable_def by blast
qed

lemma reachable_trans: "reachable en s \<Longrightarrow> (mstep en)\<^sup>*\<^sup>* s s' \<Longrightarrow> reachable en s'"
  unfolding reachable_def by (meson rtranclp_trans)

text \<open>The last request under way, and its commit.\<close>

lemma demo_complete_pending:
  "\<exists>od d'. mstep en (demo_live_db [demo_live] [demo_raid_event], {})
       (demo_live_db [demo_live] [demo_raid_event], {TxUpdate (demo_update_tx demo_live demo_completed (Some 4) od)})
     \<and> run_tx (demo_env 0 4) (TxUpdate (demo_update_tx demo_live demo_completed (Some 4) od))
         (demo_live_db [demo_live] [demo_raid_event]) = Some d'
     \<and> matches d' = [demo_completed] \<and> match_events d' = [demo_raid_event]"
proof -
  from demo_prepare_completed obtain od where p: "prepare_update (demo_env 0 4) (demo_live_db [demo_live] [demo_raid_event])
    ''club'' ''m'' (demo_patch ''completed'' (Some ''a'') None None) ''u'' []
      = Inr (demo_update_tx demo_live demo_completed (Some 4) od)" ..
  from demo_run_completed[of od] mstep.request_update[OF p, of en "{}"] show ?thesis by blast
qed

lemma demo_swapped_reachable:
  "reachable en (demo_live_db [demo_swapped] [demo_raid_event], {})"
proof -
  from demo_prepare_swapped obtain od where p: "prepare_update (demo_env 0 4) (demo_live_db [demo_live] [demo_raid_event])
    ''club'' ''m'' (demo_patch ''completed'' (Some ''a'') (Some ''b'') (Some ''a'')) ''u'' []
      = Inr (demo_update_tx demo_live demo_swapped (Some 4) od)" ..
  have "(mstep en)\<^sup>*\<^sup>* (demo_live_db [demo_live] [demo_raid_event], {}) (demo_live_db [demo_swapped] [demo_raid_event], {})"
    by (rule request_commit[OF mstep.request_update[OF p] demo_run_swapped]) simp_all
  with demo_reach_raid show ?thesis by (rule reachable_trans)
qed

text \<open>A completion and a cancellation of the same live match under way together; the completion commits.\<close>

definition demo_cancel_tx :: "payload \<Rightarrow> cancelMatchTxParams" where
  "demo_cancel_tx od = \<lparr>xt_id = Some 100, xt_orgID = Some 1, xt_actorID = Some 7, xt_oldData = od,
     xt_previousStatus = MatchStatusLive\<rparr>"

lemma demo_prepare_cancel: "\<exists>od. prepare_delete (demo_env 0 4) (demo_live_db [demo_live] [demo_raid_event])
    ''club'' ''m'' ''u'' [] = Inr (demo_cancel_tx od)"
  by (simp add: prepare_delete_def demo_simps request_simps terminalStatuses_def demo_cancel_tx_def)

lemma demo_race:
  "\<exists>od. reachable en (demo_live_db [demo_completed] [demo_raid_event], {TxCancel (demo_cancel_tx od)})"
proof -
  let ?d = "demo_live_db [demo_live] [demo_raid_event]"
  from demo_complete_pending obtain od d' where c: "mstep en (?d, {}) (?d, {TxUpdate (demo_update_tx demo_live demo_completed (Some 4) od)})"
      "run_tx (demo_env 0 4) (TxUpdate (demo_update_tx demo_live demo_completed (Some 4) od)) ?d = Some d'"
      "matches d' = [demo_completed]" "match_events d' = [demo_raid_event]"
    by blast
  let ?t = "TxUpdate (demo_update_tx demo_live demo_completed (Some 4) od)"
  from demo_prepare_cancel obtain od2 where p: "prepare_delete (demo_env 0 4) ?d ''club'' ''m'' ''u'' []
      = Inr (demo_cancel_tx od2)" ..
  let ?x = "TxCancel (demo_cancel_tx od2)"
  note mstep.request_delete[OF p, of en "{?t}"]
  moreover have "mstep en (?d, {?x, ?t}) (d', {?x})"
    using mstep.commit[OF _ c(2), of "{?x, ?t}" en] by (simp add: insert_Diff_if)
  moreover have "mstep en (d', {?x}) (demo_live_db [demo_completed] [demo_raid_event], {?x})"
    by (rule mstep.foreign) (simp_all add: c)
  ultimately have "(mstep en)\<^sup>*\<^sup>* (?d, {}) (demo_live_db [demo_completed] [demo_raid_event], {?x})"
    using c(1) by (meson converse_rtranclp_into_rtranclp rtranclp.rtrancl_refl)
  with demo_reach_raid show ?thesis using reachable_trans by blast
qed

end
