(* ===== verification/Match_Properties.thy ===== *)
theory Match_Properties
  imports Match_Demo
begin

text \<open>
  What holds of the matches and their event logs in every run of \<open>Match_Machine\<close>, whatever the
  interleaving of the requests.
\<close>

section \<open>Frozen rows, frozen logs\<close>

lemma frozen_row:
  assumes "(mstep en)\<^sup>*\<^sup>* s s'" "machine_ok s" "m \<in> set (matches (fst s))" "terminalStatuses (m_Status m)"
  shows "m \<in> set (matches (fst s'))"
proof -
  from rows_evolve_row[OF msteps_evolve[OF assms(1,2)] assms(3)]
  obtain m' where "m' \<in> set (matches (fst s'))" "row_step\<^sup>*\<^sup>* m m'" .
  with row_steps_terminal[OF _ assms(4)] show ?thesis by metis
qed

lemma same_key_same_row:
  "table_ok rs \<Longrightarrow> m \<in> set rs \<Longrightarrow> m' \<in> set rs \<Longrightarrow> m_ID m = m_ID m' \<Longrightarrow> m = m'"
  by (auto simp: table_ok_def distinct_map dest: inj_onD)

lemma frozen_log_step:
  assumes "mstep en s s'" "machine_ok s" "m \<in> set (matches (fst s))" "terminalStatuses (m_Status m)"
  shows "event_log (fst s') (m_ID m) = event_log (fst s) (m_ID m)"
proof -
  have "m_Status m' \<noteq> MatchStatusLive" if "m' \<in> set (matches (fst s))" "m_ID m' = m_ID m" for m'
    using assms(2-4) that same_key_same_row[of "matches (fst s)" m' m]
    by (auto simp: machine_ok_def terminalStatuses_def)
  with mstep_evolves[OF assms(1,2)] show ?thesis
    by (auto simp: appends_live_def event_log_def)
qed

lemma frozen_log:
  assumes "(mstep en)\<^sup>*\<^sup>* s s'" "machine_ok s" "m \<in> set (matches (fst s))" "terminalStatuses (m_Status m)"
  shows "event_log (fst s') (m_ID m) = event_log (fst s) (m_ID m)"
  using assms(1)
proof (induction rule: rtranclp_induct)
  case (step s' s'')
  with frozen_log_step[OF step.hyps(2) msteps_ok[OF step.hyps(1) assms(2)] frozen_row[OF step.hyps(1) assms(2-4)] assms(4)]
  show ?case by simp
qed simp

text \<open>The effective events of a match are a function of its log.\<close>

lemma effective_of_log:
  assumes "event_log d' (Some mid) = event_log d (Some mid)"
  shows "GetEffectiveMatchEventsForScore d' (Some mid) org = GetEffectiveMatchEventsForScore d (Some mid) org"
proof -
  have cancelled: "is_cancelled x (Some mid) e
      \<longleftrightarrow> (\<exists>c \<in> set (event_log x (Some mid)). sql_eq (e_CancelsEventID c) (e_ID e))" for x e
    by (auto simp: is_cancelled_def event_log_def sql_eq_iff)
  have "filter (effective x (Some mid) org) (match_events x)
      = filter (\<lambda>e. sql_eq (e_OrganizationID e) org \<and>
          \<not> (\<exists>c \<in> set (event_log x (Some mid)). sql_eq (e_CancelsEventID c) (e_ID e))) (event_log x (Some mid))" for x
    unfolding event_log_def filter_filter
    by (rule filter_cong[OF refl]) (auto simp: effective_def of_match_def cancelled[unfolded event_log_def] sql_eq_iff)
  with assms show ?thesis by (simp add: GetEffectiveMatchEventsForScore_def)
qed

section \<open>Completion\<close>

text \<open>The score depends on the participants of the match only.\<close>

lemma points_to_participants:
  assumes "m_HomeTeamID m = m_HomeTeamID m'" "m_AwayTeamID m = m_AwayTeamID m'"
    "m_HomePlayerID m = m_HomePlayerID m'" "m_AwayPlayerID m = m_AwayPlayerID m'"
  shows "points_to s m e = points_to s m' e"
proof -
  have side: "participantSide e m = participantSide e m'" "\<And>t. sideByID t m = sideByID t m'"
    unfolding participantSide_def sideByID_def assms by (rule refl)+
  have "allOutScore (e_Payload e) m = allOutScore (e_Payload e) m'"
    unfolding allOutScore_def side(2) ..
  then show ?thesis using side(1)
    by (cases "e_EventType e") (simp_all add: points_to_def pointsForEvent_def)
qed

lemma Compute_participants:
  assumes "m_HomeTeamID m = m_HomeTeamID m'" "m_AwayTeamID m = m_AwayTeamID m'"
    "m_HomePlayerID m = m_HomePlayerID m'" "m_AwayPlayerID m = m_AwayPlayerID m'"
  shows "sr_HomeScore (Compute m es) = sr_HomeScore (Compute m' es)"
    "sr_AwayScore (Compute m es) = sr_AwayScore (Compute m' es)"
  unfolding Compute_home Compute_away points_to_participants[OF assms, abs_def] by (rule refl)+

definition same_participants :: "UpdateMatchParams \<Rightarrow> match_row \<Rightarrow> bool" where
  "same_participants p m \<longleftrightarrow> up_HomeTeamID p = m_HomeTeamID m \<and> up_AwayTeamID p = m_AwayTeamID m
     \<and> up_HomePlayerID p = m_HomePlayerID m \<and> up_AwayPlayerID p = m_AwayPlayerID m"

definition winner_uid :: "match_row \<Rightarrow> uuid" where
  "winner_uid m = first_valid (m_WinnerTeamID m) (m_WinnerPlayerID m)"

definition home_uid :: "match_row \<Rightarrow> uuid" where
  "home_uid m = first_valid (m_HomeTeamID m) (m_HomePlayerID m)"

definition away_uid :: "match_row \<Rightarrow> uuid" where
  "away_uid m = first_valid (m_AwayTeamID m) (m_AwayPlayerID m)"

text \<open>The stored result is the one the score service computes from the log.\<close>

definition result_agrees :: "database \<Rightarrow> match_row \<Rightarrow> bool" where
  "result_agrees d m \<longleftrightarrow>
     (let r = Compute m (GetEffectiveMatchEventsForScore d (m_ID m) (m_OrganizationID m)) in
        m_HomeScore m = int32 (sr_HomeScore r) \<and> m_AwayScore m = int32 (sr_AwayScore r)
      \<and> uuid_Bytes (winner_uid m) = uuid_Bytes
          (if sr_HomeScore r > sr_AwayScore r then home_uid m
           else if sr_AwayScore r > sr_HomeScore r then away_uid m else None)
      \<and> (winner_uid m = None \<longleftrightarrow> sr_HomeScore r = sr_AwayScore r))"

lemma snapshot_score_Inr:
  assumes "snapshot_score p d = Inr up"
  obtains locked where "LockMatchForUpdate d (up_ID (ut_updateParams p)) (ut_organizationID p) = Inr locked"
    "lk_Status locked = MatchStatusLive"
    "up = (ut_updateParams p)\<lparr>up_HomeScore := int32 (sr_HomeScore (Compute (match_for_engine locked)
        (GetEffectiveMatchEventsForScore d (up_ID (ut_updateParams p)) (ut_organizationID p)))),
      up_AwayScore := int32 (sr_AwayScore (Compute (match_for_engine locked)
        (GetEffectiveMatchEventsForScore d (up_ID (ut_updateParams p)) (ut_organizationID p))))\<rparr>"
    "validateWinnerVsScore p locked
        (sr_HomeScore (Compute (match_for_engine locked)
           (GetEffectiveMatchEventsForScore d (up_ID (ut_updateParams p)) (ut_organizationID p))))
        (sr_AwayScore (Compute (match_for_engine locked)
           (GetEffectiveMatchEventsForScore d (up_ID (ut_updateParams p)) (ut_organizationID p)))) = Inr ()"
  using assms by (auto simp: snapshot_score_def Let_def res_bind_eq_Inr split: if_splits)

lemma LockMatchForUpdate_Inr:
  assumes "LockMatchForUpdate d uid org = Inr lk"
  obtains r where "find (match_key uid org) (matches d) = Some r" "lk_HomeTeamID lk = m_HomeTeamID r" "lk_AwayTeamID lk = m_AwayTeamID r"
    "lk_HomePlayerID lk = m_HomePlayerID r" "lk_AwayPlayerID lk = m_AwayPlayerID r" "lk_Status lk = m_Status r"
  using assms by (auto simp: LockMatchForUpdate_def res_bind_eq_Inr select_one_Inr)

lemma validate_winner_Inr:
  assumes "validateWinnerVsScore p lk h a = Inr u" "\<not> ut_isWalkover p"
    and "first_valid (up_WinnerTeamID (ut_updateParams p)) (up_WinnerPlayerID (ut_updateParams p)) = w"
    and "first_valid (lk_HomeTeamID lk) (lk_HomePlayerID lk) = home" "first_valid (lk_AwayTeamID lk) (lk_AwayPlayerID lk) = away"
  shows "uuid_Bytes w = uuid_Bytes (if h > a then home else if a > h then away else None) \<and> (w = None \<longleftrightarrow> h = a)"
  using assms by (auto simp: validateWinnerVsScore_def Let_def uuid_Bytes_def split: if_splits)

lemma UpdateMatch_row:
  assumes "UpdateMatch ev up d = Inr (m, d1)"
  shows "\<exists>r \<in> set (matches d). match_key (up_ID up) (up_OrganizationID up) r \<and> m_Status r = up_Status_2 up
    \<and> m = updated_match ev up r \<and> m \<in> set (matches d1) \<and> match_events d1 = match_events d"
proof -
  let ?P = "\<lambda>r. match_key (up_ID up) (up_OrganizationID up) r \<and> m_Status r = up_Status_2 up"
  from assms obtain r where r: "find ?P (matches d) = Some r" "m = updated_match ev up r"
      "d1 = d\<lparr>matches := update_rows ?P (updated_match ev up) (matches d)\<rparr>"
    unfolding UpdateMatch_def update_match_Inr by blast
  from find_SomeD[OF r(1)] have "r \<in> set (matches d)" "?P r" by auto
  moreover from this have "m \<in> set (matches d1)" unfolding r(2,3) by (auto simp: in_update_rows)
  ultimately show ?thesis using r(2,3) by auto
qed

lemma completion_result:
  assumes "UpdateWithAudit ev p d = Inr (m, d')" "update_tx_ok p" "ut_isCompletion p" "table_ok (matches d)"
    and "r \<in> set (matches d)" "m_ID r = up_ID (ut_updateParams p)" "same_participants (ut_updateParams p) r"
  shows "m \<in> set (matches d') \<and> m_Status m = MatchStatusCompleted \<and> match_events d' = match_events d
    \<and> result_agrees d m"
proof -
  let ?up = "ut_updateParams p"
  from UpdateWithAudit_Inr[OF assms(1)] assms(3) obtain up d1 d3 where u: "snapshot_score p d = Inr up"
      "UpdateMatch ev up d = Inr (m, d1)" "matches d3 = matches d1" "match_events d3 = match_events d1"
      "(if m_Status m = MatchStatusCompleted then propagateWinner ev m d3 else Inr d3) = Inr d'"
    by auto
  let ?es = "GetEffectiveMatchEventsForScore d (up_ID ?up) (ut_organizationID p)"
  from snapshot_score_Inr[OF u(1)] obtain lk where lk:
      "LockMatchForUpdate d (up_ID ?up) (ut_organizationID p) = Inr lk"
      "up = ?up\<lparr>up_HomeScore := int32 (sr_HomeScore (Compute (match_for_engine lk) ?es)),
                up_AwayScore := int32 (sr_AwayScore (Compute (match_for_engine lk) ?es))\<rparr>"
      "validateWinnerVsScore p lk (sr_HomeScore (Compute (match_for_engine lk) ?es))
         (sr_AwayScore (Compute (match_for_engine lk) ?es)) = Inr ()" .
  from LockMatchForUpdate_Inr[OF lk(1)] obtain r1 where r1: "r1 \<in> set (matches d)" "m_ID r1 = up_ID ?up"
      "lk_HomeTeamID lk = m_HomeTeamID r1" "lk_AwayTeamID lk = m_AwayTeamID r1"
      "lk_HomePlayerID lk = m_HomePlayerID r1" "lk_AwayPlayerID lk = m_AwayPlayerID r1"
    by (metis find_SomeD match_key_unique)
  from u(2) obtain r2 where r2: "r2 \<in> set (matches d)" "match_key (up_ID up) (up_OrganizationID up) r2"
      "m = updated_match ev up r2" "m \<in> set (matches d1)" "match_events d1 = match_events d"
    using UpdateMatch_row by blast
  have up: "up_ID up = up_ID ?up" "up_Status up = MatchStatusCompleted" "same_participants up r"
      "update_ok up" "up_OrganizationID up = ut_organizationID p"
    using lk(2) assms(2,3,7) by (auto simp: update_tx_ok_def update_ok_def same_participants_def)
  have eq: "r1 = r" "r2 = r"
    using assms(4-6) r1(1,2) r2(1,2) up(1) by (metis same_key_same_row match_key_unique)+
  have m: "m_ID m = up_ID ?up" "m_OrganizationID m = ut_organizationID p" "m_Status m = MatchStatusCompleted"
      "m_HomeTeamID m = m_HomeTeamID r" "m_AwayTeamID m = m_AwayTeamID r"
      "m_HomePlayerID m = m_HomePlayerID r" "m_AwayPlayerID m = m_AwayPlayerID r"
    using up r2(2) assms(6) eq by (auto simp: r2(3) updated_match_def same_participants_def match_key_def sql_eq_iff)
  note eng = Compute_participants[of "match_for_engine lk" m ?es]
  have "sr_HomeScore (Compute (match_for_engine lk) ?es) = sr_HomeScore (Compute m ?es)"
      "sr_AwayScore (Compute (match_for_engine lk) ?es) = sr_AwayScore (Compute m ?es)"
    by (rule eng; simp add: match_for_engine_def r1 eq m)+
  moreover have "first_valid (lk_HomeTeamID lk) (lk_HomePlayerID lk) = home_uid m"
      "first_valid (lk_AwayTeamID lk) (lk_AwayPlayerID lk) = away_uid m"
      "first_valid (up_WinnerTeamID ?up) (up_WinnerPlayerID ?up) = winner_uid m"
    by (simp_all add: home_uid_def away_uid_def winner_uid_def r1 eq m) (simp add: r2(3) lk(2) updated_match_def)
  moreover have "m_HomeScore m = int32 (sr_HomeScore (Compute (match_for_engine lk) ?es))"
      "m_AwayScore m = int32 (sr_AwayScore (Compute (match_for_engine lk) ?es))"
    by (simp_all add: r2(3) lk(2) updated_match_def)
  moreover have "\<not> ut_isWalkover p" using assms(2) by (simp add: update_tx_ok_def)
  ultimately have "result_agrees d m"
    using validate_winner_Inr[OF lk(3), of "winner_uid m" "home_uid m" "away_uid m"]
    unfolding result_agrees_def Let_def m(1,2) by simp
  moreover have "table_ok (matches d3)" "evolves d3 d' \<and> match_events d' = match_events d3"
  proof -
    show "table_ok (matches d3)" using UpdateMatch_evolves[OF u(2) up(4) assms(4)] rows_evolve_ok assms(4) u(3) by metis
    then show "evolves d3 d' \<and> match_events d' = match_events d3"
      using u(5) m(3) by (auto dest: propagateWinner_evolves)
  qed
  moreover have "m \<in> set (matches d')"
  proof -
    from rows_evolve_row[of "matches d3" "matches d'" m] calculation r2(4) u(3)
    obtain m' where "m' \<in> set (matches d')" "row_step\<^sup>*\<^sup>* m m'" by auto
    with m(3) row_steps_terminal[of m m'] show ?thesis by (auto simp: terminalStatuses_def)
  qed
  ultimately show ?thesis using m(3) r2(5) u(4) by simp
qed

section \<open>Conditional writes\<close>

text \<open>The row a pending transaction writes, and the status its request read.\<close>

fun tx_target :: "match_tx \<Rightarrow> (uuid \<times> MatchStatus) option" where
  "tx_target (TxUpdate p) = Some (up_ID (ut_updateParams p), up_Status_2 (ut_updateParams p))"
| "tx_target (TxCancel p) = Some (xt_id p, xt_previousStatus p)"
| "tx_target (TxWalkover p) = Some (wt_id p, wt_previousStatus p)"
| "tx_target (TxEvent p) = Some (et_matchID p, MatchStatusLive)"
| "tx_target (TxCreate p) = None"

fun tx_org :: "match_tx \<Rightarrow> uuid" where
  "tx_org (TxCreate p) = cp_OrganizationID (ct_createParams p)"
| "tx_org (TxUpdate p) = up_OrganizationID (ut_updateParams p)"
| "tx_org (TxCancel p) = xt_orgID p"
| "tx_org (TxWalkover p) = wt_orgID p"
| "tx_org (TxEvent p) = et_organizationID p"

lemma update_match_other_org:
  assumes "update_match P upd d = Inr (m', d')" "\<And>r. P r \<Longrightarrow> m_OrganizationID r = org" "m \<in> set (matches d)"
    and "m_OrganizationID m \<noteq> org"
  shows "m \<in> set (matches d')"
  using assms by (auto simp: update_match_Inr in_update_rows intro!: bexI[where x = m])

lemma update_match_row_org:
  assumes "update_match P upd d = Inr (m', d')" "\<And>r. P r \<Longrightarrow> m_OrganizationID r = org"
    and "\<And>r. m_OrganizationID (upd r) = m_OrganizationID r"
  shows "m_OrganizationID m' = org"
  using assms by (auto simp: update_match_Inr dest!: find_SomeD)

lemma SetMatchParticipants_other_org:
  assumes "SetMatchParticipants ev p d = Inr (n, d')" "m \<in> set (matches d)" "m_OrganizationID m \<noteq> sp_OrganizationID p"
  shows "m \<in> set (matches d')"
  using assms
  by (auto simp: SetMatchParticipants_def Let_def match_key_def sql_eq_iff split: sum.splits sql_error.splits
      dest: update_match_other_org[where org = "sp_OrganizationID p"])

lemma propagateWinner_other_org:
  assumes "propagateWinner ev f d = Inr d'" "m \<in> set (matches d)" "m_OrganizationID m \<noteq> m_OrganizationID f"
  shows "m \<in> set (matches d')"
proof -
  have "lp_OrganizationID succ = m_OrganizationID f" if "LockMatchForProgression d k (m_OrganizationID f) = Inr succ" for k succ
    using that by (auto simp: LockMatchForProgression_def res_bind_eq_Inr select_one_Inr match_key_def sql_eq_iff dest!: find_SomeD)
  with assms show ?thesis
    unfolding propagateWinner_def
    by (auto simp: res_bind_eq_Inr Let_def split: option.splits if_splits prod.splits dest!: SetMatchParticipants_other_org)
qed

lemma key_org: "match_key uid org r \<Longrightarrow> m_OrganizationID r = org"
  by (auto simp: match_key_def sql_eq_iff)

lemma UpdateWithAudit_statement:
  assumes "UpdateWithAudit ev p d = Inr (m, d')"
  obtains up d1 d3 where "UpdateMatch ev up d = Inr (m, d1)" "matches d3 = matches d1"
    "(if m_Status m = MatchStatusCompleted then propagateWinner ev m d3 else Inr d3) = Inr d'"
    "up_ID up = up_ID (ut_updateParams p)" "up_OrganizationID up = up_OrganizationID (ut_updateParams p)"
    "up_Status_2 up = up_Status_2 (ut_updateParams p)"
proof -
  from UpdateWithAudit_Inr[OF assms] obtain up d1 d3 where
      u: "(if ut_isCompletion p then snapshot_score p d else Inr (ut_updateParams p)) = Inr up"
      "UpdateMatch ev up d = Inr (m, d1)" "matches d3 = matches d1"
      "(if m_Status m = MatchStatusCompleted then propagateWinner ev m d3 else Inr d3) = Inr d'"
    by blast
  then have "\<exists>h a. up = (ut_updateParams p)\<lparr>up_HomeScore := h, up_AwayScore := a\<rparr> \<or> up = ut_updateParams p"
    using snapshot_score_keeps[of p d up] by (cases "ut_isCompletion p") auto
  with that[OF u(2-4)] show thesis by auto
qed

lemma run_tx_other_org:
  assumes "run_tx ev t d = Some d'" "m \<in> set (matches d)" "m_OrganizationID m \<noteq> tx_org t"
  shows "m \<in> set (matches d')"
proof (cases t)
  case (TxCreate p)
  with assms(1) obtain r where "CreateWithAudit ev p d = Inr (r, d')" by (auto simp: res_bind_eq_Inr)
  then obtain d1 where "insert_match (created_match ev (ct_createParams p)) d = Inr (r, d1)" "matches d' = matches d1"
    by (auto simp: CreateWithAudit_def CreateMatch_def res_bind_eq_Inr Let_def split: prod.splits)
  with assms(2) show ?thesis by (auto simp: insert_match_Inr)
next
  case (TxUpdate p)
  with assms(1) obtain r where "UpdateWithAudit ev p d = Inr (r, d')" by (auto simp: res_bind_eq_Inr)
  then obtain up d1 d3 where u: "UpdateMatch ev up d = Inr (r, d1)" "matches d3 = matches d1"
    "(if m_Status r = MatchStatusCompleted then propagateWinner ev r d3 else Inr d3) = Inr d'"
    "up_OrganizationID up = tx_org t"
    by (rule UpdateWithAudit_statement) (auto simp: TxUpdate)
  have "m \<in> set (matches d1)"
    by (rule update_match_other_org[OF u(1)[unfolded UpdateMatch_def] _ assms(2,3)]) (auto simp: u(4) dest: key_org)
  moreover have "m_OrganizationID r = tx_org t"
    by (rule update_match_row_org[OF u(1)[unfolded UpdateMatch_def]])
      (auto simp: u(4) updated_match_def dest: key_org)
  ultimately show ?thesis using u(2,3) assms(3) by (auto split: if_splits dest: propagateWinner_other_org)
next
  case (TxCancel p)
  with assms obtain r d1 where "CancelMatch ev (xt_id p) (xt_orgID p) (xt_previousStatus p) d = Inr (r, d1)"
      "matches d' = matches d1"
    by (auto simp: CancelWithAudit_def res_bind_eq_Inr Let_def split: prod.splits)
  moreover have "m \<in> set (matches d1)"
    by (rule update_match_other_org[OF calculation(1)[unfolded CancelMatch_def] _ assms(2,3)])
      (auto simp: TxCancel dest: key_org)
  ultimately show ?thesis by simp
next
  case (TxWalkover p)
  with assms(1) obtain r d1 d3 where w: "propagateWinner ev r d3 = Inr d'" "matches d3 = matches d1"
      "SetMatchWalkover ev \<lparr>wp_ID = wt_id p, wp_OrganizationID = wt_orgID p, wp_WinnerTeamID = wt_winnerTeamID p,
         wp_WinnerPlayerID = wt_winnerPlayerID p, wp_Notes = wt_reason p, wp_Status = wt_previousStatus p\<rparr> d = Inr (r, d1)"
    by (auto simp: WalkoverWithAudit_def res_bind_eq_Inr Let_def split: prod.splits)
  have "m \<in> set (matches d1)"
    by (rule update_match_other_org[OF w(3)[unfolded SetMatchWalkover_def] _ assms(2,3)])
      (auto simp: TxWalkover dest: key_org)
  moreover have "m_OrganizationID r = tx_org t"
    by (rule update_match_row_org[OF w(3)[unfolded SetMatchWalkover_def]])
      (auto simp: TxWalkover walkover_match_def dest: key_org)
  ultimately show ?thesis using w(1,2) assms(3) by (auto dest: propagateWinner_other_org)
next
  case (TxEvent p)
  with assms show ?thesis by (auto simp: res_bind_eq_Inr dest: event_CreateWithAudit_matches)
qed

lemma update_match_stale:
  assumes "table_ok (matches d)" "m \<in> set (matches d)" "m_ID m = k" "m_Status m \<noteq> st"
    and "\<And>r. P r \<Longrightarrow> m_ID r = k \<and> m_Status r = st"
  shows "update_match P upd d \<noteq> Inr x"
  using assms same_key_same_row by (cases x) (fastforce simp: update_match_Inr dest!: find_SomeD)

lemma run_tx_stale:
  assumes "tx_target t = Some (k, st)" "table_ok (matches d)" "m \<in> set (matches d)" "m_ID m = k" "m_Status m \<noteq> st"
  shows "run_tx ev t d = None"
proof (rule ccontr)
  assume "run_tx ev t d \<noteq> None"
  then obtain d' where run: "run_tx ev t d = Some d'" by blast
  note stale = update_match_stale[OF assms(2-5)]
  show False
  proof (cases t)
    case (TxUpdate p)
    with run obtain r where "UpdateWithAudit ev p d = Inr (r, d')" by (auto simp: res_bind_eq_Inr)
    then obtain up d1 where "UpdateMatch ev up d = Inr (r, d1)" "up_ID up = k" "up_Status_2 up = st"
      by (rule UpdateWithAudit_statement) (use assms(1) TxUpdate in auto)
    moreover from this have "UpdateMatch ev up d \<noteq> Inr (r, d1)"
      unfolding UpdateMatch_def by (intro stale) (auto dest: match_key_unique)
    ultimately show False by blast
  next
    case (TxCancel p)
    with run assms(1) obtain x where "CancelMatch ev k (xt_orgID p) st d = Inr x"
      by (auto simp: CancelWithAudit_def res_bind_eq_Inr)
    moreover have "CancelMatch ev k (xt_orgID p) st d \<noteq> Inr x"
      unfolding CancelMatch_def by (intro stale) (auto dest: match_key_unique)
    ultimately show False by blast
  next
    case (TxWalkover p)
    with run assms(1) obtain x where "SetMatchWalkover ev \<lparr>wp_ID = k, wp_OrganizationID = wt_orgID p,
        wp_WinnerTeamID = wt_winnerTeamID p, wp_WinnerPlayerID = wt_winnerPlayerID p, wp_Notes = wt_reason p,
        wp_Status = st\<rparr> d = Inr x"
      by (auto simp: WalkoverWithAudit_def res_bind_eq_Inr)
    then show False unfolding SetMatchWalkover_def
      by (rule notE[rotated]) (intro stale, auto dest: match_key_unique)
  next
    case (TxEvent p)
    with run obtain e where "event_CreateWithAudit ev p d = Inr (e, d')" by (auto simp: res_bind_eq_Inr)
    from event_CreateWithAudit_Inr(1)[OF this] TxEvent assms same_key_same_row show False
      by (fastforce dest: match_key_unique)
  qed (use assms(1) in simp)
qed

section \<open>Winner propagation\<close>

text \<open>The successor of a decided match, with the winner in the slot the match feeds.\<close>

definition seated_by :: "env \<Rightarrow> match_row \<Rightarrow> match_row \<Rightarrow> match_row" where
  "seated_by ev f succ = (if m_NextMatchSlot f = Some 1
     then succ\<lparr>m_HomeTeamID := m_WinnerTeamID f, m_HomePlayerID := m_WinnerPlayerID f,
               m_UpdatedAt := Some (env_db_now ev)\<rparr>
     else succ\<lparr>m_AwayTeamID := m_WinnerTeamID f, m_AwayPlayerID := m_WinnerPlayerID f,
               m_UpdatedAt := Some (env_db_now ev)\<rparr>)"

definition replace_row :: "match_row \<Rightarrow> match_row list \<Rightarrow> match_row list" where
  "replace_row m rs = map (\<lambda>r. if m_ID r = m_ID m then m else r) rs"

lemma update_match_replace:
  assumes "update_match P upd d = Inr (m, d')" "table_ok (matches d)"
    and "\<And>r. P r \<Longrightarrow> m_ID r = k" "\<And>r. m_ID (upd r) = m_ID r"
  shows "matches d' = replace_row m (matches d)" "\<exists>r \<in> set (matches d). P r \<and> m = upd r"
proof -
  from assms(1) obtain r where r: "find P (matches d) = Some r" "m = upd r" "matches d' = update_rows P upd (matches d)"
    by (auto simp: update_match_Inr)
  from find_SomeD[OF r(1)] have rP: "r \<in> set (matches d)" "P r" by auto
  have "x = r \<longleftrightarrow> m_ID x = m_ID r" "P x \<longleftrightarrow> x = r" if "x \<in> set (matches d)" for x
    using same_key_same_row[OF assms(2) that rP(1)] rP(2) assms(3) by metis+
  then show "matches d' = replace_row m (matches d)"
    by (auto simp: r(2,3) update_rows_def replace_row_def assms(4))
  show "\<exists>r \<in> set (matches d). P r \<and> m = upd r" using rP r(2) by blast
qed

lemma SetMatchParticipants_replace:
  assumes "SetMatchParticipants ev p d = Inr (n, d')" "n \<noteq> 0" "table_ok (matches d)"
  obtains r where "r \<in> set (matches d)" "match_key (sp_ID p) (sp_OrganizationID p) r" "m_Status r = MatchStatusScheduled"
    "matches d' = replace_row (seated_match ev p r) (matches d)"
proof -
  let ?P = "\<lambda>m. match_key (sp_ID p) (sp_OrganizationID p) m \<and> m_Status m = MatchStatusScheduled"
  from assms(1,2) obtain m where m: "update_match ?P (seated_match ev p) d = Inr (m, d')"
    by (auto simp: SetMatchParticipants_def Let_def split: sum.splits sql_error.splits)
  note u = update_match_replace[OF m assms(3), where k = "sp_ID p"]
  have "matches d' = replace_row m (matches d)" "\<exists>r \<in> set (matches d). ?P r \<and> m = seated_match ev p r"
    by (rule u; auto dest: match_key_unique simp: seated_match_def)+
  with that show thesis by blast
qed

lemma LockMatchForProgression_Inr:
  assumes "LockMatchForProgression d uid org = Inr lp"
  obtains r where "r \<in> set (matches d)" "match_key uid org r" "lp_ID lp = m_ID r" "lp_OrganizationID lp = m_OrganizationID r"
    "lp_TournamentID lp = m_TournamentID r" "lp_Status lp = m_Status r" "lp_HomeTeamID lp = m_HomeTeamID r"
    "lp_AwayTeamID lp = m_AwayTeamID r" "lp_HomePlayerID lp = m_HomePlayerID r" "lp_AwayPlayerID lp = m_AwayPlayerID r"
  using assms by (auto simp: LockMatchForProgression_def res_bind_eq_Inr select_one_Inr dest!: find_SomeD)

definition linked :: "match_row \<Rightarrow> bool" where
  "linked f \<longleftrightarrow> m_NextMatchID f \<noteq> None \<and> m_NextMatchSlot f \<noteq> None
     \<and> (m_WinnerTeamID f \<noteq> None \<or> m_WinnerPlayerID f \<noteq> None)"

lemma propagateWinner_params:
  assumes "propagateWinner ev f d = Inr d'" "linked f"
  obtains lp n params where "LockMatchForProgression d (m_NextMatchID f) (m_OrganizationID f) = Inr lp"
    "uuid_Bytes (lp_TournamentID lp) = uuid_Bytes (m_TournamentID f)" "n \<noteq> 0"
    "SetMatchParticipants ev params d = Inr (n, d')" "m_NextMatchSlot f \<in> {Some 1, Some 2}"
    "params = (if m_NextMatchSlot f = Some 1
       then \<lparr>sp_ID = lp_ID lp, sp_OrganizationID = lp_OrganizationID lp,
             sp_HomeTeamID = m_WinnerTeamID f, sp_AwayTeamID = lp_AwayTeamID lp,
             sp_HomePlayerID = m_WinnerPlayerID f, sp_AwayPlayerID = lp_AwayPlayerID lp\<rparr>
       else \<lparr>sp_ID = lp_ID lp, sp_OrganizationID = lp_OrganizationID lp,
             sp_HomeTeamID = lp_HomeTeamID lp, sp_AwayTeamID = m_WinnerTeamID f,
             sp_HomePlayerID = lp_HomePlayerID lp, sp_AwayPlayerID = m_WinnerPlayerID f\<rparr>)"
  using assms unfolding propagateWinner_def linked_def
  by (force simp: res_bind_eq_Inr Let_def split: option.splits if_splits prod.splits)

lemma propagateWinner_seats:
  assumes "propagateWinner ev f d = Inr d'" "linked f" "table_ok (matches d)"
  obtains succ where "succ \<in> set (matches d)" "match_key (m_NextMatchID f) (m_OrganizationID f) succ"
    "m_Status succ = MatchStatusScheduled" "uuid_Bytes (m_TournamentID succ) = uuid_Bytes (m_TournamentID f)"
    "m_NextMatchSlot f \<in> {Some 1, Some 2}" "matches d' = replace_row (seated_by ev f succ) (matches d)"
proof -
  from propagateWinner_params[OF assms(1,2)] obtain lp n params where g:
    "LockMatchForProgression d (m_NextMatchID f) (m_OrganizationID f) = Inr lp"
    "uuid_Bytes (lp_TournamentID lp) = uuid_Bytes (m_TournamentID f)" "n \<noteq> 0"
    "SetMatchParticipants ev params d = Inr (n, d')" "m_NextMatchSlot f \<in> {Some 1, Some 2}"
    "params = (if m_NextMatchSlot f = Some 1
       then \<lparr>sp_ID = lp_ID lp, sp_OrganizationID = lp_OrganizationID lp,
             sp_HomeTeamID = m_WinnerTeamID f, sp_AwayTeamID = lp_AwayTeamID lp,
             sp_HomePlayerID = m_WinnerPlayerID f, sp_AwayPlayerID = lp_AwayPlayerID lp\<rparr>
       else \<lparr>sp_ID = lp_ID lp, sp_OrganizationID = lp_OrganizationID lp,
             sp_HomeTeamID = lp_HomeTeamID lp, sp_AwayTeamID = m_WinnerTeamID f,
             sp_HomePlayerID = lp_HomePlayerID lp, sp_AwayPlayerID = m_WinnerPlayerID f\<rparr>)" .
  from LockMatchForProgression_Inr[OF g(1)] obtain r where r: "r \<in> set (matches d)"
    "match_key (m_NextMatchID f) (m_OrganizationID f) r" "lp_ID lp = m_ID r" "lp_OrganizationID lp = m_OrganizationID r"
    "lp_TournamentID lp = m_TournamentID r" "lp_HomeTeamID lp = m_HomeTeamID r"
    "lp_AwayTeamID lp = m_AwayTeamID r" "lp_HomePlayerID lp = m_HomePlayerID r" "lp_AwayPlayerID lp = m_AwayPlayerID r" .
  from SetMatchParticipants_replace[OF g(4,3) assms(3)] obtain r' where r': "r' \<in> set (matches d)"
    "match_key (sp_ID params) (sp_OrganizationID params) r'" "m_Status r' = MatchStatusScheduled"
    "matches d' = replace_row (seated_match ev params r') (matches d)" .
  have "sp_ID params = m_ID r" using g(6) r(3) by simp
  with r' r(1) assms(3) have eq: "r' = r" by (metis match_key_unique same_key_same_row)
  have "seated_match ev params r = seated_by ev f r"
    using g(5,6) r by (auto simp: seated_match_def seated_by_def)
  with that[OF r(1,2)] r' eq g(2,5) r(5) show thesis by simp
qed

end
