(* ===== verification/Bracket_Demo.thy ===== *)
theory Bracket_Demo
  imports Match_Demo
begin

text \<open>
  A second run of the machine: a final without participants, a semi-final that feeds its first slot,
  and the walkover of the semi-final.
\<close>

definition demo_final_req :: MatchCreateRequest where
  "demo_final_req = demo_create\<lparr>cr_HomeTeamID := None, cr_AwayTeamID := None\<rparr>"

definition demo_semi_req :: MatchCreateRequest where
  "demo_semi_req = demo_create\<lparr>cr_NextMatchID := Some ''n'', cr_NextMatchSlot := Some 1\<rparr>"

definition demo_final :: match_row where
  "demo_final = demo_scheduled\<lparr>m_ID := Some 101, m_HomeTeamID := None, m_AwayTeamID := None\<rparr>"

definition demo_semi :: match_row where
  "demo_semi = demo_scheduled\<lparr>m_NextMatchID := Some 101, m_NextMatchSlot := Some 1\<rparr>"

definition demo_final_tx :: createMatchTxParams where
  "demo_final_tx = demo_create_tx\<lparr>ct_createParams := (ct_createParams demo_create_tx)\<lparr>cp_HomeTeamID := None,
     cp_AwayTeamID := None\<rparr>\<rparr>"

definition demo_semi_tx :: createMatchTxParams where
  "demo_semi_tx = demo_create_tx\<lparr>ct_createParams := (ct_createParams demo_create_tx)\<lparr>cp_NextMatchID := Some 101,
     cp_NextMatchSlot := Some 1\<rparr>\<rparr>"

definition demo_walkover_req :: WalkoverRequest where
  "demo_walkover_req = \<lparr>wr_Winner = ''home'', wr_Reason = ''absent''\<rparr>"

definition demo_walkover_tx :: "payload \<Rightarrow> walkoverMatchTxParams" where
  "demo_walkover_tx od = \<lparr>wt_id = Some 100, wt_orgID = Some 1, wt_tournamentID = Some 5,
     wt_winnerTeamID = Some 10, wt_winnerPlayerID = None, wt_reason = Some ''absent'', wt_actorID = Some 7,
     wt_oldData = od, wt_previousStatus = MatchStatusScheduled\<rparr>"

definition demo_semi_won :: match_row where
  "demo_semi_won = demo_semi\<lparr>m_Status := MatchStatusWalkover, m_IsWalkover := True, m_WinnerTeamID := Some 10,
     m_EndedAt := Some 5, m_Notes := Some ''absent'', m_UpdatedAt := Some 5\<rparr>"

definition demo_final_fed :: match_row where
  "demo_final_fed = demo_final\<lparr>m_HomeTeamID := Some 10, m_UpdatedAt := Some 5\<rparr>"

lemmas semi_simps = demo_final_req_def demo_semi_req_def demo_final_def demo_semi_def demo_final_tx_def
  demo_semi_tx_def demo_create_tx_def demo_walkover_req_def demo_walkover_tx_def demo_semi_won_def demo_final_fed_def

lemma demo_walkover_strings [simp]:
  "strings_ToLower (strings_TrimSpace ''home'') = ''home''" "strings_TrimSpace ''absent'' = ''absent''"
  by (rule lower_word TrimSpace_plain; simp add: lower_char_def plain_char_def)+

lemma demo_prepare_final:
  "prepare_create (demo_env 101 1) (demo_live_db [] []) ''club'' demo_final_req ''u'' [] = Inr demo_final_tx"
  by (simp add: prepare_create_def demo_simps semi_simps request_simps)

lemma demo_run_final: "\<exists>d'. run_tx (demo_env 101 1) (TxCreate demo_final_tx) (demo_live_db [] []) = Some d'
    \<and> matches d' = [demo_final] \<and> match_events d' = []"
  by (simp add: CreateWithAudit_def CreateMatch_def created_match_def write_simps demo_simps semi_simps)

lemma demo_prepare_semi:
  "prepare_create (demo_env 100 1) (demo_live_db [demo_final] []) ''club'' demo_semi_req ''u'' [] = Inr demo_semi_tx"
  by (simp add: prepare_create_def demo_simps semi_simps request_simps CountFeedersForSlot_def
      CountMatchesFeedingSlot_def uuid_Bytes_def)

lemma demo_run_semi: "\<exists>d'. run_tx (demo_env 100 1) (TxCreate demo_semi_tx) (demo_live_db [demo_final] []) = Some d'
    \<and> matches d' = [demo_final, demo_semi] \<and> match_events d' = []"
  by (simp add: CreateWithAudit_def CreateMatch_def created_match_def write_simps demo_simps semi_simps)

lemma demo_prepare_walkover: "\<exists>od. prepare_walkover (demo_env 0 5) (demo_live_db [demo_final, demo_semi] []) ''club'' ''m''
    demo_walkover_req ''u'' [] = Inr (demo_walkover_tx od)"
  by (simp add: prepare_walkover_def demo_simps semi_simps request_simps terminalStatuses_def walkover_winner_def)

lemma demo_run_walkover:
  "\<exists>m d'. WalkoverWithAudit (demo_env 0 5) (demo_walkover_tx od) (demo_live_db [demo_final, demo_semi] []) = Inr (m, d')
     \<and> m = demo_semi_won \<and> matches d' = [demo_final_fed, demo_semi_won]"
  by (simp add: WalkoverWithAudit_def SetMatchWalkover_def update_match_def walkover_match_def propagateWinner_def
      LockMatchForProgression_def SetMatchParticipants_def seated_match_def uuid_Bytes_def after_start_def
      Let_def write_simps demo_simps semi_simps)

lemma demo_walkover_pending:
  "\<exists>od. reachable en (demo_live_db [demo_final, demo_semi] [], {TxWalkover (demo_walkover_tx od)})"
proof -
  have "(mstep en)\<^sup>*\<^sup>* (demo_live_db [] [], {}) (demo_live_db [demo_final] [], {})"
    by (rule request_commit[OF mstep.request_create[OF demo_prepare_final] demo_run_final]) simp_all
  moreover have "(mstep en)\<^sup>*\<^sup>* (demo_live_db [demo_final] [], {}) (demo_live_db [demo_final, demo_semi] [], {})"
    by (rule request_commit[OF mstep.request_create[OF demo_prepare_semi] demo_run_semi]) simp_all
  moreover from demo_prepare_walkover obtain od where p: "prepare_walkover (demo_env 0 5)
      (demo_live_db [demo_final, demo_semi] []) ''club'' ''m'' demo_walkover_req ''u'' [] = Inr (demo_walkover_tx od)" ..
  note mstep.request_walkover[OF p, of en "{}"]
  ultimately have "(mstep en)\<^sup>*\<^sup>* (demo_live_db [] [], {})
      (demo_live_db [demo_final, demo_semi] [], {TxWalkover (demo_walkover_tx od)})"
    by (meson rtranclp_trans rtranclp.rtrancl_into_rtrancl)
  then show ?thesis using demo_started unfolding reachable_def by blast
qed

end
