(* ===== verification/Match_Theorems.thy ===== *)
theory Match_Theorems
  imports Match_Properties Bracket_Demo
begin

text \<open>
  The properties of the matches, their event logs and the bracket links, in every interleaving of
  requests and commits, with a concrete run for each.
\<close>

section \<open>Helpers\<close>

lemma UpdateWithAudit_rows:
  assumes "UpdateWithAudit ev p d = Inr (m, d')" "update_tx_ok p" "table_ok (matches d)"
  obtains d3 where "matches d3 = replace_row m (matches d)" "table_ok (matches d3)"
    "(if m_Status m = MatchStatusCompleted then propagateWinner ev m d3 else Inr d3) = Inr d'"
proof -
  from UpdateWithAudit_Inr[OF assms(1)] obtain up d1 d3 where
      u: "(if ut_isCompletion p then snapshot_score p d else Inr (ut_updateParams p)) = Inr up"
      "UpdateMatch ev up d = Inr (m, d1)" "matches d3 = matches d1"
      "(if m_Status m = MatchStatusCompleted then propagateWinner ev m d3 else Inr d3) = Inr d'"
    by blast
  have "update_ok up"
    using u(1) assms(2) by (auto simp: update_tx_ok_def update_ok_def dest!: snapshot_score_keeps split: if_splits)
  from UpdateMatch_evolves[OF u(2) this assms(3)] have "table_ok (matches d3)" using rows_evolve_ok assms(3) u(3) by metis
  moreover have "matches d1 = replace_row m (matches d)"
    by (rule update_match_replace(1)[OF u(2)[unfolded UpdateMatch_def] assms(3), where k = "up_ID up"])
      (auto dest: match_key_unique simp: updated_match_def)
  ultimately show thesis using that u(3,4) by metis
qed

lemma WalkoverWithAudit_rows:
  assumes "WalkoverWithAudit ev p d = Inr (m, d')" "walkover_tx_ok p" "table_ok (matches d)"
  obtains d3 where "matches d3 = replace_row m (matches d)" "table_ok (matches d3)" "propagateWinner ev m d3 = Inr d'"
    "m_Status m = MatchStatusWalkover"
proof -
  let ?wp = "\<lparr>wp_ID = wt_id p, wp_OrganizationID = wt_orgID p, wp_WinnerTeamID = wt_winnerTeamID p,
    wp_WinnerPlayerID = wt_winnerPlayerID p, wp_Notes = wt_reason p, wp_Status = wt_previousStatus p\<rparr>"
  from assms(1) obtain d1 d3 where w: "propagateWinner ev m d3 = Inr d'" "SetMatchWalkover ev ?wp d = Inr (m, d1)"
      "matches d3 = matches d1"
    by (auto simp: WalkoverWithAudit_def res_bind_eq_Inr Let_def split: prod.splits)
  from w(2) assms(2,3) have "evolves d d1 \<and> match_events d1 = match_events d"
    by (intro SetMatchWalkover_evolves) (auto simp: walkover_tx_ok_def)
  then have "table_ok (matches d3)" using rows_evolve_ok assms(3) w(3) by metis
  moreover note r = update_match_replace[OF w(2)[unfolded SetMatchWalkover_def] assms(3), where k = "wt_id p"]
  have "matches d1 = replace_row m (matches d)" "\<exists>r. m = walkover_match ev ?wp r"
  proof -
    show "matches d1 = replace_row m (matches d)"
      by (rule r(1)) (auto dest: match_key_unique simp: walkover_match_def)
    have "\<exists>r \<in> set (matches d). (match_key (wp_ID ?wp) (wp_OrganizationID ?wp) r \<and> m_Status r = wp_Status ?wp)
        \<and> m = walkover_match ev ?wp r"
      by (rule r(2)) (auto dest: match_key_unique simp: walkover_match_def)
    then show "\<exists>r. m = walkover_match ev ?wp r" by blast
  qed
  moreover from this(2) have "m_Status m = MatchStatusWalkover" by (auto simp: walkover_match_def)
  ultimately show thesis using that w by metis
qed

lemma decided_seats:
  assumes "matches d3 = replace_row m (matches d)" "table_ok (matches d3)" "propagateWinner ev m d3 = Inr d'"
    and "linked m" "m_Status m \<noteq> MatchStatusScheduled"
  shows "\<exists>succ \<in> set (matches d). match_key (m_NextMatchID m) (m_OrganizationID m) succ
    \<and> m_Status succ = MatchStatusScheduled \<and> uuid_Bytes (m_TournamentID succ) = uuid_Bytes (m_TournamentID m)
    \<and> m_NextMatchSlot m \<in> {Some 1, Some 2}
    \<and> matches d' = replace_row (seated_by ev m succ) (replace_row m (matches d))"
proof -
  from propagateWinner_seats[OF assms(3,4,2)] obtain succ where s: "succ \<in> set (matches d3)"
    "match_key (m_NextMatchID m) (m_OrganizationID m) succ" "m_Status succ = MatchStatusScheduled"
    "uuid_Bytes (m_TournamentID succ) = uuid_Bytes (m_TournamentID m)" "m_NextMatchSlot m \<in> {Some 1, Some 2}"
    "matches d' = replace_row (seated_by ev m succ) (matches d3)" .
  have "succ \<in> set (matches d)" using s(1,3) assms(1,5) by (auto simp: replace_row_def split: if_splits)
  with s assms(1) show ?thesis by auto
qed

section \<open>Properties\<close>

text \<open>
  C18: in every reachable state the match table is well formed: identifiers are unique, no match is
  \<open>postponed\<close>, a match has a result (scores, winner, walkover flag) only when it is completed or a
  walkover, a live or completed match has both participants, the winner of a completed match is one
  of them, and a walkover has exactly one winner and no score.
\<close>

theorem match_rows_sound:
  assumes "reachable en s"
  shows "distinct (map m_ID (matches (fst s))) \<and> (\<forall>m \<in> set (matches (fst s)). match_ok m)"
  using reachable_ok[OF assms] by (simp add: machine_ok_def table_ok_def)

lemma match_rows_sound_witness: "match_ok demo_live"
  using match_rows_sound[OF demo_reach_raid[of demo_engine]] by simp

text \<open>
  C19: the transactions of the matches and fixture generation services refine an abstract table whose
  rows are never deleted, keep their identifier, tournament and organization, and whose status moves
  along the documented life cycle only (scheduled, live, completed or abandoned; cancelled from either
  of the first two; walkover from either of them), whatever requests are interleaved.
\<close>

theorem machine_refines_life:
  assumes "reachable en s" "(mstep en)\<^sup>*\<^sup>* s s'" "m \<in> set (matches (fst s))"
  shows "\<exists>m' \<in> set (matches (fst s')). m_ID m' = m_ID m \<and> m_TournamentID m' = m_TournamentID m
    \<and> m_OrganizationID m' = m_OrganizationID m \<and> (m_Status m, m_Status m') \<in> life_moves\<^sup>*"
proof -
  note ok = reachable_ok[OF assms(1)]
  from rows_evolve_row[OF msteps_evolve[OF assms(2) ok] assms(3)]
  obtain m' where m': "m' \<in> set (matches (fst s'))" "row_step\<^sup>*\<^sup>* m m'" .
  have "match_ok m" using ok assms(3) by (simp add: machine_ok_def table_ok_def)
  with m' row_steps_keys[OF m'(2)] row_steps_status[OF m'(2)] show ?thesis by blast
qed

lemma machine_refines_life_witness:
  "\<exists>m' \<in> set (matches (fst (demo_live_db [demo_live] [], {}))).
     m_ID m' = m_ID demo_scheduled \<and> (m_Status demo_scheduled, m_Status m') \<in> life_moves\<^sup>*"
proof -
  have "reachable demo_engine (demo_live_db [demo_scheduled] [], {})"
    using demo_run_to_scheduled demo_started unfolding reachable_def by blast
  from machine_refines_life[OF this demo_run_to_live, of demo_scheduled] show ?thesis by simp
qed

text \<open>
  C20: a decided match is frozen.  Once a match is completed, cancelled, abandoned or a walkover, no
  request of any service changes any column of its row, and no event is added to its log.
\<close>

theorem terminal_match_frozen:
  assumes "reachable en s" "(mstep en)\<^sup>*\<^sup>* s s'" "m \<in> set (matches (fst s))" "terminalStatuses (m_Status m)"
  shows "m \<in> set (matches (fst s')) \<and> event_log (fst s') (m_ID m) = event_log (fst s) (m_ID m)"
  using frozen_row[OF assms(2) reachable_ok[OF assms(1)] assms(3,4)]
    frozen_log[OF assms(2) reachable_ok[OF assms(1)] assms(3,4)] by simp

lemma terminal_match_frozen_witness:
  "demo_completed \<in> set (matches (fst (demo_live_db [demo_completed] [demo_raid_event], {} :: match_tx set)))"
proof -
  from demo_race obtain od where r: "reachable demo_engine (demo_live_db [demo_completed] [demo_raid_event], {TxCancel (demo_cancel_tx od)})"
    by blast
  have "mstep demo_engine (demo_live_db [demo_completed] [demo_raid_event], {TxCancel (demo_cancel_tx od)})
      (demo_live_db [demo_completed] [demo_raid_event], {})"
    using mstep.drop_tx[of demo_engine _ "{TxCancel (demo_cancel_tx od)}" "TxCancel (demo_cancel_tx od)"] by simp
  from terminal_match_frozen[OF r r_into_rtranclp[of "mstep demo_engine", OF this], of demo_completed]
  show ?thesis by (simp add: terminalStatuses_def demo_completed_def)
qed

text \<open>
  C21: the event log of every match is sound in every reachable state and only ever grows: the events
  of a match are numbered 1, 2, 3 and so on in the order they were recorded, corrections and only
  corrections name another event, which is an earlier event of the same match and no correction
  itself, no event is corrected twice, and a match starts and ends at most once.
\<close>

theorem event_log_sound:
  assumes "reachable en s" "(mstep en)\<^sup>*\<^sup>* s s'"
  shows "log_ok (match_events (fst s')) \<and> (\<exists>es. match_events (fst s') = match_events (fst s) @ es)"
  using assms(2)
proof (induction rule: rtranclp_induct)
  case base
  show ?case using reachable_ok[OF assms(1)] by (simp add: machine_ok_def)
next
  case (step s' s'')
  from mstep_evolves[OF step.hyps(2) msteps_ok[OF step.hyps(1) reachable_ok[OF assms(1)]]] step.IH
  show ?case by (auto simp: appends_live_def)
qed

lemma event_log_sound_witness:
  "log_ok [demo_raid_event] \<and> (\<exists>es. match_events (demo_live_db [demo_live] [demo_raid_event]) = [] @ es)"
proof -
  have "reachable demo_engine (demo_live_db [demo_live] [], {})"
    using rtranclp_trans[OF demo_run_to_scheduled demo_run_to_live] demo_started unfolding reachable_def by blast
  from event_log_sound[OF this demo_run_to_raid] show ?thesis by simp
qed

text \<open>
  C22: the result of a completed match stays recomputable.  When a completion commits with the
  participants the match has at that moment, the row stores the score the scoring engine computes from
  the effective events, the winner is the side with more points (none on a tie), and in every later
  state the stored result still agrees with the score service.
\<close>

theorem completed_result_stable:
  assumes "reachable en s" "TxUpdate p \<in> snd s" "ut_isCompletion p" "UpdateWithAudit ev p (fst s) = Inr (m, d')"
    and "r \<in> set (matches (fst s))" "m_ID r = up_ID (ut_updateParams p)" "same_participants (ut_updateParams p) r"
    and "(mstep en)\<^sup>*\<^sup>* (d', snd s - {TxUpdate p}) s'"
  shows "m \<in> set (matches (fst s')) \<and> m_Status m = MatchStatusCompleted \<and> result_agrees (fst s') m"
proof -
  note ok = reachable_ok[OF assms(1)]
  then have t: "update_tx_ok p" "table_ok (matches (fst s))" using assms(2) by (auto simp: machine_ok_def)
  from completion_result[OF assms(4) t(1) assms(3) t(2) assms(5-7)]
  have c: "m \<in> set (matches d')" "m_Status m = MatchStatusCompleted" "match_events d' = match_events (fst s)"
    "result_agrees (fst s) m" by auto
  have "mstep en (fst s, snd s) (d', snd s - {TxUpdate p})"
    by (rule mstep.commit[OF assms(2), where ev = ev]) (simp add: assms(4))
  then have ok': "machine_ok (d', snd s - {TxUpdate p})" using mstep_ok ok by (metis prod.collapse)
  have fin: "terminalStatuses (m_Status m)" using c(2) by (simp add: terminalStatuses_def)
  have m: "m \<in> set (matches (fst s'))" "event_log (fst s') (m_ID m) = event_log (fst s) (m_ID m)"
    using frozen_row[OF assms(8) ok' _ fin] frozen_log[OF assms(8) ok' _ fin] c(1,3) by (auto simp: event_log_def)
  have "match_ok m" using ok' c(1) by (simp add: machine_ok_def table_ok_def)
  then obtain k where "m_ID m = Some k" by (auto simp: match_ok_def)
  with effective_of_log[of "fst s'" k "fst s" "m_OrganizationID m"] m c(2,4) show ?thesis
    by (simp add: result_agrees_def)
qed

text \<open>The commit of the demo run.\<close>

lemma demo_completion:
  "\<exists>od d'. reachable demo_engine (demo_live_db [demo_live] [demo_raid_event],
       {TxUpdate (demo_update_tx demo_live demo_completed (Some 4) od)})
     \<and> UpdateWithAudit (demo_env 0 4) (demo_update_tx demo_live demo_completed (Some 4) od)
         (demo_live_db [demo_live] [demo_raid_event]) = Inr (demo_completed, d')"
proof -
  from demo_complete_pending[of demo_engine] obtain od d' where c:
      "mstep demo_engine (demo_live_db [demo_live] [demo_raid_event], {})
        (demo_live_db [demo_live] [demo_raid_event], {TxUpdate (demo_update_tx demo_live demo_completed (Some 4) od)})"
      "run_tx (demo_env 0 4) (TxUpdate (demo_update_tx demo_live demo_completed (Some 4) od))
         (demo_live_db [demo_live] [demo_raid_event]) = Some d'" "matches d' = [demo_completed]"
    by blast
  let ?p = "demo_update_tx demo_live demo_completed (Some 4) od" and ?d = "demo_live_db [demo_live] [demo_raid_event]"
  have r: "reachable demo_engine (?d, {TxUpdate ?p})"
    using demo_reach_raid c(1) by (rule reachable_trans[OF _ r_into_rtranclp])
  from c(2) obtain m where m: "UpdateWithAudit (demo_env 0 4) ?p ?d = Inr (m, d')" by (auto simp: res_bind_eq_Inr)
  have "update_tx_ok ?p" "table_ok (matches ?d)" using reachable_ok[OF r] by (simp_all add: machine_ok_def)
  from completion_result[OF m this(1) _ this(2), of demo_live] c(3) have "m = demo_completed"
    by (simp add: demo_update_tx_def current_params_def same_participants_def demo_completed_def demo_live_def demo_scheduled_def)
  with r m show ?thesis by blast
qed

lemma completed_result_stable_witness: "\<exists>d'. result_agrees d' demo_completed \<and> demo_completed \<in> set (matches d')"
proof -
  from demo_completion obtain od d' where c:
      "reachable demo_engine (demo_live_db [demo_live] [demo_raid_event],
         {TxUpdate (demo_update_tx demo_live demo_completed (Some 4) od)})"
      "UpdateWithAudit (demo_env 0 4) (demo_update_tx demo_live demo_completed (Some 4) od)
         (demo_live_db [demo_live] [demo_raid_event]) = Inr (demo_completed, d')"
    by blast
  have "demo_completed \<in> set (matches (fst (d', {} :: match_tx set))) \<and> m_Status demo_completed = MatchStatusCompleted
      \<and> result_agrees (fst (d', {} :: match_tx set)) demo_completed"
    by (rule completed_result_stable[OF c(1) _ _ _ _ _ _ _, where r = demo_live and p = "demo_update_tx demo_live demo_completed (Some 4) od"
          and ev = "demo_env 0 4" and d' = d'])
      (simp_all only: fst_conv snd_conv c(2), simp_all add: demo_update_tx_def current_params_def same_participants_def demo_completed_def demo_live_def
        demo_scheduled_def)
  then show ?thesis by auto
qed

text \<open>
  C23: a write based on a stale read is rejected: the commit of an update, cancellation or walkover
  whose request saw another status than the match has now rolls back, and so does an event for a match
  that is not live any more.
\<close>

theorem stale_write_rejected:
  assumes "reachable en s" "t \<in> snd s" "tx_target t = Some (k, seen)"
    and "m \<in> set (matches (fst s))" "m_ID m = k" "m_Status m \<noteq> seen"
  shows "run_tx ev t (fst s) = None"
  using run_tx_stale[OF assms(3) _ assms(4-6)] reachable_ok[OF assms(1)] by (simp add: machine_ok_def)

lemma stale_write_rejected_witness:
  "\<exists>od. run_tx (demo_env 0 4) (TxCancel (demo_cancel_tx od)) (demo_live_db [demo_completed] [demo_raid_event]) = None"
proof -
  from demo_race obtain od where r: "reachable demo_engine (demo_live_db [demo_completed] [demo_raid_event],
      {TxCancel (demo_cancel_tx od)})" by blast
  from stale_write_rejected[OF r, of "TxCancel (demo_cancel_tx od)" "Some 100" MatchStatusLive demo_completed "demo_env 0 4"]
  show ?thesis by (auto simp: demo_cancel_tx_def demo_completed_def demo_live_def demo_scheduled_def)
qed

text \<open>
  C24: a transaction of one organization leaves every match of another organization as it is, the
  propagation of a winner included.
\<close>

theorem tenant_isolation:
  assumes "run_tx ev t d = Some d'" "m \<in> set (matches d)" "m_OrganizationID m \<noteq> tx_org t"
  shows "m \<in> set (matches d')"
  using assms by (rule run_tx_other_org)

lemma tenant_isolation_witness:
  "\<exists>d' :: database. demo_scheduled\<lparr>m_OrganizationID := Some 2, m_ID := Some 300\<rparr> \<in> set (matches d') \<and> length (matches d') = 2"
proof -
  let ?m = "demo_scheduled\<lparr>m_OrganizationID := Some 2, m_ID := Some 300\<rparr>"
  let ?t = "TxCancel (demo_cancel_tx PEmpty)"
  have "\<exists>d'. run_tx (demo_env 0 4) ?t (demo_live_db [?m, demo_live] []) = Some d' \<and> length (matches d') = 2"
    by (simp add: demo_cancel_tx_def CancelWithAudit_def CancelMatch_def update_match_def cancelled_match_def
        Let_def write_simps demo_simps)
  then obtain d' where d': "run_tx (demo_env 0 4) ?t (demo_live_db [?m, demo_live] []) = Some d'" "length (matches d') = 2"
    by blast
  from tenant_isolation[OF d'(1), of ?m] have "?m \<in> set (matches d')" by (simp add: demo_cancel_tx_def)
  with d'(2) show ?thesis by (intro exI[where x = d'] conjI)
qed

text \<open>
  C25: the winner moves on.  When the completion or the walkover of a linked match commits, its
  successor is a scheduled match of the same tournament and organization; exactly two rows change:
  the match itself and the successor, which gets the winner in the slot the match feeds and keeps
  its other slot.
\<close>

theorem decided_match_propagates:
  assumes "reachable en s"
    and "TxUpdate p \<in> snd s \<and> UpdateWithAudit ev p (fst s) = Inr (m, d') \<and> m_Status m = MatchStatusCompleted
      \<or> TxWalkover q \<in> snd s \<and> WalkoverWithAudit ev q (fst s) = Inr (m, d')"
    and "linked m"
  shows "\<exists>succ \<in> set (matches (fst s)). match_key (m_NextMatchID m) (m_OrganizationID m) succ
    \<and> m_Status succ = MatchStatusScheduled \<and> uuid_Bytes (m_TournamentID succ) = uuid_Bytes (m_TournamentID m)
    \<and> m_NextMatchSlot m \<in> {Some 1, Some 2}
    \<and> matches d' = replace_row (seated_by ev m succ) (replace_row m (matches (fst s)))"
proof -
  have ok: "table_ok (matches (fst s))" "\<And>t. t \<in> snd s \<Longrightarrow> tx_ok t"
    using reachable_ok[OF assms(1)] by (auto simp: machine_ok_def)
  from assms(2) show ?thesis
  proof
    assume u: "TxUpdate p \<in> snd s \<and> UpdateWithAudit ev p (fst s) = Inr (m, d') \<and> m_Status m = MatchStatusCompleted"
    then have "update_tx_ok p" "UpdateWithAudit ev p (fst s) = Inr (m, d')" using ok(2)[of "TxUpdate p"] by simp_all
    from UpdateWithAudit_rows[OF this(2,1) ok(1)] obtain d3 where "matches d3 = replace_row m (matches (fst s))"
        "table_ok (matches d3)" "(if m_Status m = MatchStatusCompleted then propagateWinner ev m d3 else Inr d3) = Inr d'" .
    with u decided_seats[OF this(1,2) _ assms(3)] show ?thesis by simp
  next
    assume w: "TxWalkover q \<in> snd s \<and> WalkoverWithAudit ev q (fst s) = Inr (m, d')"
    then have "walkover_tx_ok q" "WalkoverWithAudit ev q (fst s) = Inr (m, d')" using ok(2)[of "TxWalkover q"] by simp_all
    from WalkoverWithAudit_rows[OF this(2,1) ok(1)] obtain d3 where "matches d3 = replace_row m (matches (fst s))"
        "table_ok (matches d3)" "propagateWinner ev m d3 = Inr d'" "m_Status m = MatchStatusWalkover" .
    from decided_seats[OF this(1-3) assms(3)] this(4) show ?thesis by simp
  qed
qed

lemma decided_match_propagates_witness:
  "\<exists>ev. seated_by ev demo_semi_won demo_final = demo_final_fed
     \<and> (\<exists>succ \<in> set [demo_final, demo_semi]. m_Status succ = MatchStatusScheduled
          \<and> [demo_final_fed, demo_semi_won] = replace_row (seated_by ev demo_semi_won succ)
               (replace_row demo_semi_won [demo_final, demo_semi]))"
proof -
  from demo_walkover_pending obtain od where r: "reachable demo_engine (demo_live_db [demo_final, demo_semi] [],
      {TxWalkover (demo_walkover_tx od)})" by blast
  from demo_run_walkover obtain d' where w: "WalkoverWithAudit (demo_env 0 5) (demo_walkover_tx od)
      (demo_live_db [demo_final, demo_semi] []) = Inr (demo_semi_won, d')" "matches d' = [demo_final_fed, demo_semi_won]"
    by blast
  have "linked demo_semi_won" by (simp add: linked_def semi_simps demo_simps)
  from decided_match_propagates[OF r, of undefined "demo_env 0 5" demo_semi_won d' "demo_walkover_tx od", OF _ this] w
  have "\<exists>succ \<in> set [demo_final, demo_semi]. m_Status succ = MatchStatusScheduled
      \<and> [demo_final_fed, demo_semi_won] = replace_row (seated_by (demo_env 0 5) demo_semi_won succ)
           (replace_row demo_semi_won [demo_final, demo_semi])"
    by auto
  moreover have "seated_by (demo_env 0 5) demo_semi_won demo_final = demo_final_fed"
    by (simp add: seated_by_def semi_simps demo_simps)
  ultimately show ?thesis by blast
qed

section \<open>A completion that changes the participants\<close>

text \<open>
  The condition of \<open>completed_result_stable\<close> on the participants is needed.  A completion request may
  name new participants: the score and the winner are then checked against the participants the row had,
  and stored beside the new ones.  In the reachable state below the home side leads 3 to 0 in a completed
  match whose winner is the away side.
\<close>

theorem completion_may_swap_sides:
  "\<exists>s. reachable demo_engine s \<and> (\<exists>m \<in> set (matches (fst s)). m_Status m = MatchStatusCompleted
     \<and> m_HomeScore m > m_AwayScore m \<and> m_WinnerTeamID m \<noteq> None \<and> m_WinnerTeamID m = m_AwayTeamID m
     \<and> m_WinnerTeamID m \<noteq> m_HomeTeamID m)"
  by (rule exI, rule conjI, rule demo_swapped_reachable)
    (simp add: demo_swapped_def demo_completed_def demo_live_def demo_scheduled_def zero_match_def)

end
