(* ===== verification/Tournament_Store.thy ===== *)
theory Tournament_Store
  imports Fixturegen_Store
begin

text \<open>
  The queries of \<open>db/sqlc/tournaments.sql.go\<close> on the table \<open>tournaments\<close>, with the constraints of
  the migration \<open>000008\<close> (the foreign key into \<open>users\<close> apart: that table is not modelled).
\<close>

section \<open>Constraints\<close>

text \<open>\<open>NUMERIC(12, 2)\<close>: two decimals, rounded half away from zero, below \<open>10^10\<close>.\<close>

definition round_cents :: "int \<Rightarrow> int \<Rightarrow> int" where
  "round_cents c e =
     (if e \<ge> -2 then c * 10 ^ nat (e + 2)
      else let k = 10 ^ nat (- 2 - e) in sgn c * ((2 * \<bar>c\<bar> + k) div (2 * k)))"

definition stored_prize :: "numeric \<Rightarrow> numeric" where
  "stored_prize n = (case n of
       Some (NumericDigits c e) \<Rightarrow> Some (NumericDigits (round_cents c e) (-2))
     | _ \<Rightarrow> n)"

definition prize_fits :: "numeric \<Rightarrow> bool" where
  "prize_fits n = (case n of
       None \<Rightarrow> True
     | Some (NumericDigits c e) \<Rightarrow> 0 \<le> round_cents c e \<and> round_cents c e < 10 ^ 12
     | Some NumericNaN \<Rightarrow> True
     | Some _ \<Rightarrow> False)"

definition slug_char :: "char \<Rightarrow> bool" where
  "slug_char c \<longleftrightarrow> (let n = (of_char c :: nat) in (97 \<le> n \<and> n \<le> 122) \<or> (48 \<le> n \<and> n \<le> 57))"

text \<open>\<open>slug ~ '^[a-z0-9][a-z0-9\-]*[a-z0-9]$' AND char_length(slug) BETWEEN 3 AND 100\<close>\<close>

definition slug_ok :: "string \<Rightarrow> bool" where
  "slug_ok s \<longleftrightarrow> 3 \<le> length s \<and> length s \<le> 100 \<and> slug_char (hd s) \<and> slug_char (last s)
     \<and> (\<forall>c \<in> set s. slug_char c \<or> c = CHR ''-'')"

definition upper_char :: "char \<Rightarrow> bool" where
  "upper_char c \<longleftrightarrow> (let n = (of_char c :: nat) in 65 \<le> n \<and> n \<le> 90)"

text \<open>\<open>trim\<close> of SQL removes blanks only.\<close>

definition sql_trim :: "string \<Rightarrow> string" where
  "sql_trim = strings_Trim CHR '' ''"

definition both_known :: "(int \<Rightarrow> int \<Rightarrow> bool) \<Rightarrow> int option \<Rightarrow> int option \<Rightarrow> bool" where
  "both_known P a b = (case (a, b) of (Some x, Some y) \<Rightarrow> P x y | _ \<Rightarrow> True)"

definition tournament_checks :: "tournament_row \<Rightarrow> bool" where
  "tournament_checks t \<longleftrightarrow> slug_ok (t_Slug t)
     \<and> 2 \<le> char_length (sql_trim (t_Name t)) \<and> char_length (t_Name t) \<le> 255
     \<and> 2 \<le> char_length (sql_trim (t_Sport t))
     \<and> length (t_Currency t) = 3 \<and> (\<forall>c \<in> set (t_Currency t). upper_char c)
     \<and> both_known (\<lambda>mn mx. mn > 0 \<and> mx \<ge> mn) (t_MinParticipants t) (t_MaxParticipants t)
     \<and> both_known (<) (t_RegistrationOpensAt t) (t_RegistrationClosesAt t)
     \<and> both_known (\<le>) (t_StartsAt t) (t_EndsAt t)
     \<and> (case t_Country t of None \<Rightarrow> True | Some c \<Rightarrow> length c = 2 \<and> (\<forall>x \<in> set c. upper_char x))"

section \<open>Reads\<close>

definition tournament_key :: "uuid \<Rightarrow> uuid \<Rightarrow> tournament_row \<Rightarrow> bool" where
  "tournament_key uid orgID t \<longleftrightarrow> sql_eq (t_ID t) uid \<and> sql_eq (t_OrganizationID t) orgID"

definition GetTournamentBySlug :: "database \<Rightarrow> string \<Rightarrow> uuid \<Rightarrow> sql_error + tournament_row" where
  "GetTournamentBySlug d slug orgID =
     select_one (\<lambda>t. t_Slug t = slug \<and> sql_eq (t_OrganizationID t) orgID) (tournaments d)"

definition tournament_filter :: "uuid \<Rightarrow> string option \<Rightarrow> string option \<Rightarrow> tournament_row \<Rightarrow> bool" where
  "tournament_filter orgID status query t \<longleftrightarrow> sql_eq (t_OrganizationID t) orgID
     \<and> t_Status t \<noteq> TournamentStatusCancelled
     \<and> (case status of None \<Rightarrow> True | Some s \<Rightarrow> TournamentStatus_str (t_Status t) = s)
     \<and> (case query of None \<Rightarrow> True | Some q \<Rightarrow> ilike_contains (Some (t_Name t)) q)"

definition CountTournamentsByOrganization :: "database \<Rightarrow> uuid \<Rightarrow> string option \<Rightarrow> string option \<Rightarrow> int" where
  "CountTournamentsByOrganization d orgID status query =
     int (length (filter (tournament_filter orgID status query) (tournaments d)))"

definition ListTournamentsPaginated :: "database \<Rightarrow> uuid \<Rightarrow> string option \<Rightarrow> string option \<Rightarrow> int \<Rightarrow> int
    \<Rightarrow> tournament_row list" where
  "ListTournamentsPaginated d orgID status query offset limit = page limit offset
     (sort_key (\<lambda>t. created_desc (t_CreatedAt t))
        (filter (tournament_filter orgID status query) (tournaments d)))"

definition ListTournamentsByOrganization :: "database \<Rightarrow> uuid \<Rightarrow> tournament_row list" where
  "ListTournamentsByOrganization d orgID = sort_key (\<lambda>t. created_desc (t_CreatedAt t))
     (filter (\<lambda>t. sql_eq (t_OrganizationID t) orgID) (tournaments d))"

record CountRegistrationsByStatusRow =
  cs_TournamentID :: uuid
  cs_Status :: RegistrationStatus
  cs_Count :: int

text \<open>\<open>GROUP BY tournament_id, status\<close>: one row for every group that occurs.\<close>

definition CountRegistrationsByStatusForTournaments :: "database \<Rightarrow> uuid list \<Rightarrow> CountRegistrationsByStatusRow list" where
  "CountRegistrationsByStatusForTournaments d ids =
     (let rows = filter (\<lambda>r. r_TournamentID r \<noteq> None \<and> r_TournamentID r \<in> set ids) (tournament_registrations d);
          key = (\<lambda>r. (r_TournamentID r, r_Status r))
      in map (\<lambda>(tid, st). \<lparr>cs_TournamentID = tid, cs_Status = st,
                cs_Count = int (length (filter (\<lambda>r. key r = (tid, st)) rows))\<rparr>) (remdups (map key rows)))"

definition ListPlayerNamesByIDs :: "database \<Rightarrow> uuid list \<Rightarrow> (uuid \<times> string) list" where
  "ListPlayerNamesByIDs d ids = map (\<lambda>p. (pl_ID p, pl_DisplayName p))
     (filter (\<lambda>p. pl_ID p \<noteq> None \<and> pl_ID p \<in> set ids) (players d))"

definition ListTeamNamesByIDs :: "database \<Rightarrow> uuid list \<Rightarrow> (uuid \<times> string) list" where
  "ListTeamNamesByIDs d ids = map (\<lambda>t. (tm_ID t, tm_Name t))
     (filter (\<lambda>t. tm_ID t \<noteq> None \<and> tm_ID t \<in> set ids) (teams d))"

section \<open>Writes\<close>

definition update_tournament :: "(tournament_row \<Rightarrow> bool) \<Rightarrow> (tournament_row \<Rightarrow> tournament_row) \<Rightarrow> database
    \<Rightarrow> sql_error + (tournament_row \<times> database)" where
  "update_tournament P upd d = (case find P (tournaments d) of
       None \<Rightarrow> Inl ErrNoRows
     | Some t \<Rightarrow>
         if tournament_checks (upd t)
         then Inr (upd t, d\<lparr>tournaments := update_rows P upd (tournaments d)\<rparr>)
         else Inl (ConstraintViolation ''tournaments''))"

record CreateTournamentParams =
  tc_OrganizationID :: uuid
  tc_Name :: string
  tc_Slug :: string
  tc_Description :: "string option"
  tc_Sport :: string
  tc_Format :: TournamentFormat
  tc_ParticipantType :: ParticipantType
  tc_BannerUrl :: "string option"
  tc_PrizePool :: numeric
  tc_Currency :: string
  tc_MaxParticipants :: "int option"
  tc_MinParticipants :: "int option"
  tc_RegistrationOpensAt :: timestamp
  tc_RegistrationClosesAt :: timestamp
  tc_StartsAt :: timestamp
  tc_EndsAt :: timestamp
  tc_Venue :: "string option"
  tc_City :: "string option"
  tc_Country :: "string option"
  tc_Rules :: "string option"
  tc_CreatedBy :: uuid

definition created_tournament :: "env \<Rightarrow> CreateTournamentParams \<Rightarrow> tournament_row" where
  "created_tournament ev p = \<lparr>t_ID = Some (env_row_id ev), t_OrganizationID = tc_OrganizationID p, t_Name = tc_Name p,
     t_Slug = tc_Slug p, t_Description = tc_Description p, t_Sport = tc_Sport p, t_Format =
     tc_Format p, t_ParticipantType = tc_ParticipantType p, t_Status = TournamentStatusDraft,
     t_BannerUrl = tc_BannerUrl p, t_PrizePool = stored_prize (tc_PrizePool p), t_Currency =
     tc_Currency p, t_MaxParticipants = tc_MaxParticipants p, t_MinParticipants =
     tc_MinParticipants p, t_RegistrationOpensAt = tc_RegistrationOpensAt p,
     t_RegistrationClosesAt = tc_RegistrationClosesAt p, t_StartsAt = tc_StartsAt p, t_EndsAt =
     tc_EndsAt p, t_Venue = tc_Venue p, t_City = tc_City p, t_Country = tc_Country p, t_Rules =
     tc_Rules p, t_Settings = empty_object, t_CreatedBy = tc_CreatedBy p, t_CreatedAt = Some
     (env_db_now ev), t_UpdatedAt = Some (env_db_now ev), t_Visibility =
     TournamentVisibilityPrivate\<rparr>"

text \<open>
  The checks of a row are evaluated before its unique indexes: \<open>uq_tournaments_org_slug\<close> is
  reported for a row that satisfies them.
\<close>

definition CreateTournament :: "env \<Rightarrow> CreateTournamentParams \<Rightarrow> database
    \<Rightarrow> sql_error + (tournament_row \<times> database)" where
  "CreateTournament ev p d = (let t = created_tournament ev p in
     if \<not> prize_fits (tc_PrizePool p) \<or> \<not> tournament_checks t \<or> t_ID t \<in> t_ID ` set (tournaments d)
     then Inl (ConstraintViolation ''tournaments'')
     else if \<exists>t' \<in> set (tournaments d). t_OrganizationID t' = t_OrganizationID t \<and> t_Slug t' = t_Slug t
     then Inl (ConstraintViolation ''uq_tournaments_org_slug'')
     else if \<not> refers o_ID (organizations d) (t_OrganizationID t)
     then Inl (ConstraintViolation ''fk_tournaments_organization'')
     else Inr (t, d\<lparr>tournaments := tournaments d @ [t]\<rparr>))"

record UpdateTournamentParams =
  tu_ID :: uuid
  tu_OrganizationID :: uuid
  tu_Name :: string
  tu_Description :: "string option"
  tu_Sport :: string
  tu_Format :: TournamentFormat
  tu_ParticipantType :: ParticipantType
  tu_BannerUrl :: "string option"
  tu_PrizePool :: numeric
  tu_Currency :: string
  tu_MaxParticipants :: "int option"
  tu_MinParticipants :: "int option"
  tu_RegistrationOpensAt :: timestamp
  tu_RegistrationClosesAt :: timestamp
  tu_StartsAt :: timestamp
  tu_EndsAt :: timestamp
  tu_Venue :: "string option"
  tu_City :: "string option"
  tu_Country :: "string option"
  tu_Rules :: "string option"
  tu_Status :: TournamentStatus
  tu_Visibility :: TournamentVisibility

definition updated_tournament :: "env \<Rightarrow> UpdateTournamentParams \<Rightarrow> tournament_row \<Rightarrow> tournament_row" where
  "updated_tournament ev p t = t\<lparr>t_Name := tu_Name p, t_Description := tu_Description p, t_Sport := tu_Sport p, t_Format :=
     tu_Format p, t_ParticipantType := tu_ParticipantType p, t_BannerUrl := tu_BannerUrl p,
     t_PrizePool := stored_prize (tu_PrizePool p), t_Currency := tu_Currency p, t_MaxParticipants
     := tu_MaxParticipants p, t_MinParticipants := tu_MinParticipants p, t_RegistrationOpensAt :=
     tu_RegistrationOpensAt p, t_RegistrationClosesAt := tu_RegistrationClosesAt p, t_StartsAt :=
     tu_StartsAt p, t_EndsAt := tu_EndsAt p, t_Venue := tu_Venue p, t_City := tu_City p,
     t_Country := tu_Country p, t_Rules := tu_Rules p,
     t_Status := tu_Status p, t_Visibility := tu_Visibility p, t_UpdatedAt := Some (env_db_now ev)\<rparr>"

definition UpdateTournament :: "env \<Rightarrow> UpdateTournamentParams \<Rightarrow> database
    \<Rightarrow> sql_error + (tournament_row \<times> database)" where
  "UpdateTournament ev p d =
     (if prize_fits (tu_PrizePool p)
      then update_tournament (tournament_key (tu_ID p) (tu_OrganizationID p)) (updated_tournament ev p) d
      else case find (tournament_key (tu_ID p) (tu_OrganizationID p)) (tournaments d) of
        None \<Rightarrow> Inl ErrNoRows | Some _ \<Rightarrow> Inl (ConstraintViolation ''tournaments''))"

definition cancelled_tournament :: "env \<Rightarrow> tournament_row \<Rightarrow> tournament_row" where
  "cancelled_tournament ev t = t\<lparr>t_Status := TournamentStatusCancelled, t_UpdatedAt := Some (env_db_now ev)\<rparr>"

definition CancelTournament :: "env \<Rightarrow> uuid \<Rightarrow> uuid \<Rightarrow> database \<Rightarrow> sql_error + (tournament_row \<times> database)" where
  "CancelTournament ev uid orgID d = update_tournament (tournament_key uid orgID) (cancelled_tournament ev) d"

section \<open>Lemmas\<close>

interpretation tournament_update_row: keyed_update t_ID "updated_tournament ev p" for ev p
  by unfold_locales (simp add: updated_tournament_def)

interpretation tournament_cancel_row: keyed_update t_ID "cancelled_tournament ev" for ev
  by unfold_locales (simp add: cancelled_tournament_def)

lemma update_tournament_Inr [result_simps]:
  "update_tournament P upd d = Inr (t', d') \<longleftrightarrow>
     (\<exists>t. find P (tournaments d) = Some t \<and> t' = upd t \<and> tournament_checks (upd t)
        \<and> d' = d\<lparr>tournaments := update_rows P upd (tournaments d)\<rparr>)"
  by (auto simp: update_tournament_def split: option.splits if_splits)

lemma UpdateTournament_Inr [result_simps]:
  "UpdateTournament ev p d = Inr (t', d') \<longleftrightarrow> prize_fits (tu_PrizePool p)
     \<and> update_tournament (tournament_key (tu_ID p) (tu_OrganizationID p)) (updated_tournament ev p) d = Inr (t', d')"
  by (auto simp: UpdateTournament_def split: option.splits)

lemma CreateTournament_Inr [result_simps]:
  "CreateTournament ev p d = Inr (t', d') \<longleftrightarrow>
     (let t = created_tournament ev p in t' = t \<and> d' = d\<lparr>tournaments := tournaments d @ [t]\<rparr>
        \<and> prize_fits (tc_PrizePool p) \<and> tournament_checks t \<and> t_ID t \<notin> t_ID ` set (tournaments d)
        \<and> (\<forall>t' \<in> set (tournaments d). \<not> (t_OrganizationID t' = t_OrganizationID t \<and> t_Slug t' = t_Slug t))
        \<and> refers o_ID (organizations d) (t_OrganizationID t))"
  by (auto simp: CreateTournament_def Let_def)

end
