(* ===== verification/Tournament_Model.thy ===== *)
theory Tournament_Model
  imports Tournament_Store Standings Lifecycle
begin

text \<open>
  Package \<open>tournaments\<close>: its errors, request and response types, status table and the pure helper
  functions of \<open>service.go\<close>.
\<close>

section \<open>Data\<close>

datatype tournament_error =
    ErrTournamentNotFound
  | ErrOrganizationNotFound
  | ErrForbidden
  | ErrSlugAlreadyTaken
  | ErrSlugGenerationFailed
  | ErrInvalidFormat
  | ErrInvalidParticipantType
  | ErrInvalidStatus
  | ErrInvalidVisibility
  | ErrInvalidCurrency
  | ErrInvalidCountry
  | ErrInvalidPrizePool
  | ErrInvalidDateRange
  | ErrInvalidTimestamp
  | ErrInvalidStatusTransition
  | ErrInvalidActor
  | ErrSql sql_error

record TournamentCreateRequest =
  tq_Name :: string
  tq_Sport :: string
  tq_Format :: string
  tq_ParticipantType :: "string option"
  tq_Description :: "string option"
  tq_BannerURL :: "string option"
  tq_PrizePool :: "string option"
  tq_Currency :: "string option"
  tq_MaxParticipants :: "int option"
  tq_MinParticipants :: "int option"
  tq_RegistrationOpensAt :: "string option"
  tq_RegistrationClosesAt :: "string option"
  tq_StartsAt :: "string option"
  tq_EndsAt :: "string option"
  tq_Venue :: "string option"
  tq_City :: "string option"
  tq_Country :: "string option"
  tq_Rules :: "string option"

record TournamentUpdateRequest =
  tw_Name :: "string option"
  tw_Description :: "string option"
  tw_Sport :: "string option"
  tw_Format :: "string option"
  tw_ParticipantType :: "string option"
  tw_BannerURL :: "string option"
  tw_PrizePool :: "string option"
  tw_Currency :: "string option"
  tw_MaxParticipants :: "int option"
  tw_MinParticipants :: "int option"
  tw_RegistrationOpensAt :: "string option"
  tw_RegistrationClosesAt :: "string option"
  tw_StartsAt :: "string option"
  tw_EndsAt :: "string option"
  tw_Venue :: "string option"
  tw_City :: "string option"
  tw_Country :: "string option"
  tw_Rules :: "string option"
  tw_Status :: "string option"
  tw_Visibility :: "string option"

record TournamentListParams =
  tl_Limit :: int
  tl_Offset :: int
  tl_StatusFilter :: "string option"
  tl_Search :: "string option"

record RegistrationCounts =
  rc_Pending :: int
  rc_Approved :: int
  rc_Rejected :: int
  rc_Withdrawn :: int
  rc_Disqualified :: int
  rc_Active :: int
  rc_Total :: int

record TournamentResponse =
  to_ID :: string
  to_OrganizationID :: string
  to_Name :: string
  to_Slug :: string
  to_Description :: "string option"
  to_Sport :: string
  to_Format :: string
  to_ParticipantType :: string
  to_Status :: string
  to_Visibility :: string
  to_BannerURL :: "string option"
  to_PrizePool :: "string option"
  to_Currency :: string
  to_MaxParticipants :: "int option"
  to_MinParticipants :: "int option"
  to_RegistrationOpensAt :: "string option"
  to_RegistrationClosesAt :: "string option"
  to_StartsAt :: "string option"
  to_EndsAt :: "string option"
  to_Venue :: "string option"
  to_City :: "string option"
  to_Country :: "string option"
  to_Rules :: "string option"
  to_CreatedBy :: "string option"
  to_CreatedAt :: string
  to_UpdatedAt :: string
  to_RegistrationCounts :: "RegistrationCounts option"

record TournamentListResponse =
  tz_Tournaments :: "TournamentResponse list"
  tz_Total :: int
  tz_Limit :: int
  tz_Offset :: int

record StandingsRowResponse =
  sw_Position :: nat
  sw_ParticipantID :: string
  sw_ParticipantName :: string
  sw_Played :: nat
  sw_Wins :: nat
  sw_Losses :: nat
  sw_Draws :: nat
  sw_Points :: int
  sw_ScoreFor :: int
  sw_ScoreAgainst :: int
  sw_ScoreDifference :: int
  sw_Disqualified :: bool

record StandingsResponse =
  sv_TournamentID :: string
  sv_TournamentName :: string
  sv_Format :: string
  sv_Status :: string
  sv_PointSystem :: StandingsSettings
  sv_Standings :: "StandingsRowResponse list"

section \<open>Formatting\<close>

definition timestampToString :: "env \<Rightarrow> timestamp \<Rightarrow> string option" where
  "timestampToString ev ts = map_option (env_format_time ev) ts"

definition numericToString :: "env \<Rightarrow> numeric \<Rightarrow> string option" where
  "numericToString ev n = (case n of None \<Rightarrow> None | Some v \<Rightarrow> env_numeric_text ev v)"

definition tournamentToResponse :: "env \<Rightarrow> tournament_row \<Rightarrow> TournamentResponse" where
  "tournamentToResponse ev t = \<lparr>to_ID = UUIDToString (t_ID t),
     to_OrganizationID = UUIDToString (t_OrganizationID t), to_Name = t_Name t, to_Slug = t_Slug t,
     to_Description = t_Description t, to_Sport = t_Sport t,
     to_Format = TournamentFormat_str (t_Format t),
     to_ParticipantType = ParticipantType_str (t_ParticipantType t),
     to_Status = TournamentStatus_str (t_Status t),
     to_Visibility = TournamentVisibility_str (t_Visibility t), to_BannerURL = t_BannerUrl t,
     to_PrizePool = numericToString ev (t_PrizePool t), to_Currency = t_Currency t,
     to_MaxParticipants = t_MaxParticipants t, to_MinParticipants = t_MinParticipants t,
     to_RegistrationOpensAt = timestampToString ev (t_RegistrationOpensAt t),
     to_RegistrationClosesAt = timestampToString ev (t_RegistrationClosesAt t),
     to_StartsAt = timestampToString ev (t_StartsAt t), to_EndsAt = timestampToString ev (t_EndsAt t),
     to_Venue = t_Venue t, to_City = t_City t, to_Country = t_Country t, to_Rules = t_Rules t,
     to_CreatedBy = uuidStringPtr (t_CreatedBy t),
     to_CreatedAt = env_format_time ev (ts_Time (t_CreatedAt t)),
     to_UpdatedAt = env_format_time ev (ts_Time (t_UpdatedAt t)), to_RegistrationCounts = None\<rparr>"

text \<open>\<open>json.Marshal\<close> of a response whose counts are not attached.\<close>

definition tournament_response_json :: "TournamentResponse \<Rightarrow> json" where
  "tournament_response_json r = JObj (
     [(''id'', JStr (to_ID r))]
     @ [(''organization_id'', JStr (to_OrganizationID r))]
     @ [(''name'', JStr (to_Name r))]
     @ [(''slug'', JStr (to_Slug r))]
     @ omitempty ''description'' JStr (to_Description r)
     @ [(''sport'', JStr (to_Sport r))]
     @ [(''format'', JStr (to_Format r))]
     @ [(''participant_type'', JStr (to_ParticipantType r))]
     @ [(''status'', JStr (to_Status r))]
     @ [(''visibility'', JStr (to_Visibility r))]
     @ omitempty ''banner_url'' JStr (to_BannerURL r)
     @ omitempty ''prize_pool'' JStr (to_PrizePool r)
     @ [(''currency'', JStr (to_Currency r))]
     @ omitempty ''max_participants'' JInt (to_MaxParticipants r)
     @ omitempty ''min_participants'' JInt (to_MinParticipants r)
     @ omitempty ''registration_opens_at'' JStr (to_RegistrationOpensAt r)
     @ omitempty ''registration_closes_at'' JStr (to_RegistrationClosesAt r)
     @ omitempty ''starts_at'' JStr (to_StartsAt r)
     @ omitempty ''ends_at'' JStr (to_EndsAt r)
     @ omitempty ''venue'' JStr (to_Venue r)
     @ omitempty ''city'' JStr (to_City r)
     @ omitempty ''country'' JStr (to_Country r)
     @ omitempty ''rules'' JStr (to_Rules r)
     @ omitempty ''created_by'' JStr (to_CreatedBy r)
     @ [(''created_at'', JStr (to_CreatedAt r))]
     @ [(''updated_at'', JStr (to_UpdatedAt r))])"

definition tournamentToAuditJSON :: "env \<Rightarrow> tournament_row \<Rightarrow> payload" where
  "tournamentToAuditJSON ev t = PDoc (JObj (sort_key fst [
     (''id'', JStr (UUIDToString (t_ID t))),
     (''organization_id'', JStr (UUIDToString (t_OrganizationID t))),
     (''name'', JStr (t_Name t)), (''slug'', JStr (t_Slug t)),
     (''description'', json_opt JStr (t_Description t)), (''sport'', JStr (t_Sport t)),
     (''format'', JStr (TournamentFormat_str (t_Format t))),
     (''participant_type'', JStr (ParticipantType_str (t_ParticipantType t))),
     (''status'', JStr (TournamentStatus_str (t_Status t))),
     (''banner_url'', json_opt JStr (t_BannerUrl t)), (''currency'', JStr (t_Currency t)),
     (''max_participants'', json_opt JInt (t_MaxParticipants t)),
     (''min_participants'', json_opt JInt (t_MinParticipants t)),
     (''venue'', json_opt JStr (t_Venue t)), (''city'', json_opt JStr (t_City t)),
     (''country'', json_opt JStr (t_Country t)),
     (''created_at'', JStr (env_format_time ev (ts_Time (t_CreatedAt t)))),
     (''updated_at'', JStr (env_format_time ev (ts_Time (t_UpdatedAt t))))]))"

section \<open>Status table\<close>

fun tournamentTransitions :: "TournamentStatus \<Rightarrow> TournamentStatus list option" where
  "tournamentTransitions TournamentStatusDraft =
     Some [TournamentStatusRegistrationOpen, TournamentStatusCancelled]"
| "tournamentTransitions TournamentStatusRegistrationOpen =
     Some [TournamentStatusRegistrationClosed, TournamentStatusCancelled]"
| "tournamentTransitions TournamentStatusRegistrationClosed =
     Some [TournamentStatusOngoing, TournamentStatusCancelled]"
| "tournamentTransitions TournamentStatusOngoing =
     Some [TournamentStatusCompleted, TournamentStatusCancelled]"
| "tournamentTransitions TournamentStatusCompleted = Some [TournamentStatusCancelled]"
| "tournamentTransitions TournamentStatusCancelled = Some []"

definition tournament_validateStatusTransition :: "TournamentStatus \<Rightarrow> TournamentStatus \<Rightarrow> tournament_error + unit" where
  "tournament_validateStatusTransition = check_transition ErrInvalidStatusTransition tournamentTransitions"

fun tournament_stage :: "TournamentStatus \<Rightarrow> nat" where
  "tournament_stage TournamentStatusDraft = 0"
| "tournament_stage TournamentStatusRegistrationOpen = 1"
| "tournament_stage TournamentStatusRegistrationClosed = 2"
| "tournament_stage TournamentStatusOngoing = 3"
| "tournament_stage TournamentStatusCompleted = 4"
| "tournament_stage TournamentStatusCancelled = 5"

interpretation tournament_life: lifecycle tournamentTransitions "\<lambda>s. s = TournamentStatusCancelled" tournament_stage
proof
  show "tournamentTransitions s = Some ts \<Longrightarrow> t \<in> set ts \<Longrightarrow> tournament_stage s < tournament_stage t" for s t ts
    by (cases s) auto
qed simp

section \<open>Parsing\<close>

definition parse_enum :: "'e \<Rightarrow> ('a \<Rightarrow> string) \<Rightarrow> 'a list \<Rightarrow> string \<Rightarrow> 'e + 'a" where
  "parse_enum e to_str vals s =
     opt_res e (find (\<lambda>v. to_str v = strings_ToLower (strings_TrimSpace s)) vals)"

definition parseTournamentFormat :: "string \<Rightarrow> tournament_error + TournamentFormat" where
  "parseTournamentFormat = parse_enum ErrInvalidFormat TournamentFormat_str
     [TournamentFormatLeague, TournamentFormatKnockout, TournamentFormatGroupKnockout,
      TournamentFormatRoundRobin, TournamentFormatDoubleElimination]"

definition parseParticipantType :: "string option \<Rightarrow> tournament_error + ParticipantType" where
  "parseParticipantType s =
     (if derefStr s = [] then Inr ParticipantTypeTeam
      else parse_enum ErrInvalidParticipantType ParticipantType_str
             [ParticipantTypeTeam, ParticipantTypeIndividual] (derefStr s))"

definition parseTournamentStatus :: "string \<Rightarrow> tournament_error + TournamentStatus" where
  "parseTournamentStatus = parse_enum ErrInvalidStatus TournamentStatus_str
     [TournamentStatusDraft, TournamentStatusRegistrationOpen, TournamentStatusRegistrationClosed,
      TournamentStatusOngoing, TournamentStatusCompleted, TournamentStatusCancelled]"

definition parseVisibility :: "string \<Rightarrow> tournament_error + TournamentVisibility" where
  "parseVisibility = parse_enum ErrInvalidVisibility TournamentVisibility_str
     [TournamentVisibilityPrivate, TournamentVisibilityUnlisted, TournamentVisibilityPublic]"

definition normalizeCurrency :: "string option \<Rightarrow> tournament_error + string" where
  "normalizeCurrency s =
     (if derefStr s = [] then Inr ''INR''
      else let c = strings_ToUpper (strings_TrimSpace (derefStr s)) in
        if length c = 3 \<and> (\<forall>x \<in> set c. upper_char x) then Inr c else Inl ErrInvalidCurrency)"

definition normalizeCountry :: "string option \<Rightarrow> tournament_error + string option" where
  "normalizeCountry s =
     (if derefStr s = [] then Inr None
      else let code = strings_ToUpper (strings_TrimSpace (derefStr s)) in
        if length code \<noteq> 2 then Inl ErrInvalidCountry else Inr (Some code))"

definition parsePrizePool :: "env \<Rightarrow> string option \<Rightarrow> tournament_error + numeric" where
  "parsePrizePool ev s =
     (if derefStr s = [] then Inr None
      else case env_numeric_scan ev (derefStr s) of
        None \<Rightarrow> Inl ErrInvalidPrizePool | Some n \<Rightarrow> Inr (Some n))"

definition tournament_parseTimestamp :: "env \<Rightarrow> string option \<Rightarrow> tournament_error + timestamp" where
  "tournament_parseTimestamp ev s =
     (if derefStr s = [] then Inr None
      else case env_parse_time ev (derefStr s) of
        None \<Rightarrow> Inl ErrInvalidTimestamp | Some t \<Rightarrow> Inr (Some t))"

definition validateDateRange :: "timestamp \<Rightarrow> timestamp \<Rightarrow> timestamp \<Rightarrow> timestamp \<Rightarrow> tournament_error + unit" where
  "validateDateRange regOpens regCloses startsAt endsAt =
     (if \<not> both_known (<) regOpens regCloses then Inl ErrInvalidDateRange
      else if \<not> both_known (\<le>) regCloses startsAt then Inl ErrInvalidDateRange
      else if \<not> both_known (\<le>) startsAt endsAt then Inl ErrInvalidDateRange
      else Inr ())"

section \<open>Slugs\<close>

text \<open>Every run of characters outside \<open>[a-z0-9]\<close> becomes one hyphen.\<close>

fun dash_runs :: "bool \<Rightarrow> string \<Rightarrow> string" where
  "dash_runs in_run [] = []"
| "dash_runs in_run (c # cs) =
     (if slug_char c then c # dash_runs False cs
      else if in_run then dash_runs True cs
      else CHR ''-'' # dash_runs True cs)"

definition generateTournamentSlug :: "string \<Rightarrow> string" where
  "generateTournamentSlug name =
     (let s = strings_Trim CHR ''-'' (dash_runs False (strings_ToLower (strings_TrimSpace name)));
          s = (if length s > 90 then strings_TrimRight CHR ''-'' (take 90 s) else s);
          s = (if length s < 3 then ''tournament-'' @ s else s)
      in if length s < 3 then ''tournament-x'' else s)"

definition numbered_slug :: "string \<Rightarrow> nat \<Rightarrow> string" where
  "numbered_slug base attempt = (if attempt = 1 then base else base @ ''-'' @ nat_str attempt)"

end
