(* ===== verification/Tournament_Service.thy ===== *)
theory Tournament_Service
  imports Tournament_Model
begin

text \<open>
  \<open>internal/tournaments/repository.go\<close> and \<open>service.go\<close>: the transactions of a tournament row, the
  use cases around them and the standings read.  A write is a preparation, from a read of the
  database, and a transaction, on the database at its commit.  The rankings snapshot and the
  outbox drain after a commit belong to other components.
\<close>

section \<open>Reads\<close>

definition tournament_GetOrgBySlug :: "database \<Rightarrow> string \<Rightarrow> tournament_error + org_row" where
  "tournament_GetOrgBySlug d slug = no_rows_as ErrOrganizationNotFound ErrSql (GetOrganizationBySlug d slug)"

definition tournament_GetByID :: "database \<Rightarrow> uuid \<Rightarrow> uuid \<Rightarrow> tournament_error + tournament_row" where
  "tournament_GetByID d uid orgID = no_rows_as ErrTournamentNotFound ErrSql (GetTournamentByID d uid orgID)"

definition tournament_GetBySlug :: "database \<Rightarrow> string \<Rightarrow> uuid \<Rightarrow> tournament_error + tournament_row" where
  "tournament_GetBySlug d slug orgID = no_rows_as ErrTournamentNotFound ErrSql (GetTournamentBySlug d slug orgID)"

section \<open>Transactions\<close>

record createTournamentTxParams =
  nt_createParams :: CreateTournamentParams
  nt_actorID :: uuid

definition tournament_CreateWithAudit :: "env \<Rightarrow> createTournamentTxParams \<Rightarrow> database
    \<Rightarrow> tournament_error + (tournament_row \<times> database)" where
  "tournament_CreateWithAudit ev p d =
     (case CreateTournament ev (nt_createParams p) d of
        Inl e \<Rightarrow> Inl (if e = ConstraintViolation ''uq_tournaments_org_slug'' then ErrSlugAlreadyTaken else ErrSql e)
      | Inr (t, d1) \<Rightarrow> Inr (t, CreateAuditLog ev (auditParams (t_OrganizationID t) (nt_actorID p)
             AuditActionCreate ''tournaments'' (t_ID t) PEmpty (tournamentToAuditJSON ev t)) d1))"

record updateTournamentTxParams =
  vt_updateParams :: UpdateTournamentParams
  vt_actorID :: uuid
  vt_oldData :: payload
  vt_previousStatus :: TournamentStatus

definition tournament_outbox :: "env \<Rightarrow> uuid \<Rightarrow> uuid \<Rightarrow> uuid \<Rightarrow> TournamentStatus \<Rightarrow> TournamentStatus
    \<Rightarrow> database \<Rightarrow> database" where
  "tournament_outbox ev orgID uid actor old new d = WriteOutboxEntry ev
     \<lparr>obp_OrganizationID = orgID, obp_EventType = NotificationEventTypeTournamentStatusChanged,
      obp_ActorID = actor, obp_EntityType = ''tournaments'', obp_EntityID = uid,
      obp_Payload = [(''tournament_id'', JStr (UUIDToString uid)),
        (''previous_status'', JStr (TournamentStatus_str old)),
        (''new_status'', JStr (TournamentStatus_str new))]\<rparr> d"

definition tournament_UpdateWithAudit :: "env \<Rightarrow> updateTournamentTxParams \<Rightarrow> database
    \<Rightarrow> tournament_error + (tournament_row \<times> database)" where
  "tournament_UpdateWithAudit ev p d =
     res_bind (no_rows_as ErrTournamentNotFound ErrSql (UpdateTournament ev (vt_updateParams p) d)) (\<lambda>(t, d1).
       let d2 = CreateAuditLog ev (auditParams (t_OrganizationID t) (vt_actorID p) AuditActionUpdate
                  ''tournaments'' (t_ID t) (vt_oldData p) (tournamentToAuditJSON ev t)) d1
       in Inr (t, if t_Status t \<noteq> vt_previousStatus p
            then tournament_outbox ev (t_OrganizationID t) (t_ID t) (vt_actorID p) (vt_previousStatus p) (t_Status t) d2
            else d2))"

record cancelTournamentTxParams =
  zt_id :: uuid
  zt_orgID :: uuid
  zt_actorID :: uuid
  zt_oldData :: payload
  zt_previousStatus :: TournamentStatus

definition tournament_CancelWithAudit :: "env \<Rightarrow> cancelTournamentTxParams \<Rightarrow> database
    \<Rightarrow> tournament_error + database" where
  "tournament_CancelWithAudit ev p d =
     res_bind (no_rows_as ErrTournamentNotFound ErrSql (CancelTournament ev (zt_id p) (zt_orgID p) d)) (\<lambda>(_, d1).
       let d2 = CreateAuditLog ev (auditParams (zt_orgID p) (zt_actorID p) AuditActionDelete ''tournaments''
                  (zt_id p) (zt_oldData p) PEmpty) d1
       in Inr (tournament_outbox ev (zt_orgID p) (zt_id p) (zt_actorID p) (zt_previousStatus p)
            TournamentStatusCancelled d2))"

section \<open>Registration counts\<close>

definition count_of :: "CountRegistrationsByStatusRow list \<Rightarrow> string \<Rightarrow> RegistrationStatus \<Rightarrow> int" where
  "count_of rows uid st =
     (case find (\<lambda>r. UUIDToString (cs_TournamentID r) = uid \<and> cs_Status r = st) (rev rows) of
        None \<Rightarrow> 0 | Some r \<Rightarrow> cs_Count r)"

definition counts_for :: "CountRegistrationsByStatusRow list \<Rightarrow> string \<Rightarrow> RegistrationCounts" where
  "counts_for rows uid =
     (let c = count_of rows uid in
      \<lparr>rc_Pending = c RegistrationStatusPending, rc_Approved = c RegistrationStatusApproved,
       rc_Rejected = c RegistrationStatusRejected, rc_Withdrawn = c RegistrationStatusWithdrawn,
       rc_Disqualified = c RegistrationStatusDisqualified,
       rc_Active = int64 (c RegistrationStatusPending + c RegistrationStatusApproved),
       rc_Total = int64 (c RegistrationStatusPending + c RegistrationStatusApproved
         + c RegistrationStatusRejected + c RegistrationStatusWithdrawn + c RegistrationStatusDisqualified)\<rparr>)"

definition parse_ids :: "env \<Rightarrow> string list \<Rightarrow> uuid list" where
  "parse_ids ev ss = List.map_filter
     (\<lambda>s. case ParseUUID (env_scan ev) s of Inl _ \<Rightarrow> None | Inr u \<Rightarrow> Some u) ss"

definition attachRegistrationCounts :: "env \<Rightarrow> database \<Rightarrow> TournamentResponse list \<Rightarrow> TournamentResponse list" where
  "attachRegistrationCounts ev d resps =
     (let rows = CountRegistrationsByStatusForTournaments d (parse_ids ev (map to_ID resps))
      in map (\<lambda>r. r\<lparr>to_RegistrationCounts := Some (counts_for rows (to_ID r))\<rparr>) resps)"

section \<open>Create\<close>

definition prepare_tournament :: "env \<Rightarrow> database \<Rightarrow> string \<Rightarrow> TournamentCreateRequest \<Rightarrow> string \<Rightarrow> string
    \<Rightarrow> tournament_error + (CreateTournamentParams \<times> uuid)" where
  "prepare_tournament ev d orgSlug req actorID actorOrgID =
     res_bind (tournament_GetOrgBySlug d orgSlug) (\<lambda>org.
     res_bind (assert_owner ErrForbidden actorOrgID (UUIDToString (o_ID org))) (\<lambda>_.
     res_bind (res_map_err (\<lambda>_. ErrInvalidActor) (ParseUUID (env_scan ev) actorID)) (\<lambda>actorUID.
     res_bind (parseTournamentFormat (tq_Format req)) (\<lambda>format.
     res_bind (parseParticipantType (tq_ParticipantType req)) (\<lambda>participantType.
     res_bind (normalizeCurrency (tq_Currency req)) (\<lambda>currency.
     res_bind (normalizeCountry (tq_Country req)) (\<lambda>country.
     res_bind (parsePrizePool ev (tq_PrizePool req)) (\<lambda>prizePool.
     res_bind (tournament_parseTimestamp ev (tq_RegistrationOpensAt req)) (\<lambda>regOpensAt.
     res_bind (tournament_parseTimestamp ev (tq_RegistrationClosesAt req)) (\<lambda>regClosesAt.
     res_bind (tournament_parseTimestamp ev (tq_StartsAt req)) (\<lambda>startsAt.
     res_bind (tournament_parseTimestamp ev (tq_EndsAt req)) (\<lambda>endsAt.
     res_bind (validateDateRange regOpensAt regClosesAt startsAt endsAt) (\<lambda>_.
       Inr (\<lparr>tc_OrganizationID = o_ID org, tc_Name = strings_TrimSpace (tq_Name req),
         tc_Slug = generateTournamentSlug (tq_Name req), tc_Description = tq_Description req,
         tc_Sport = strings_ToLower (strings_TrimSpace (tq_Sport req)), tc_Format = format,
         tc_ParticipantType = participantType, tc_BannerUrl = tq_BannerURL req,
         tc_PrizePool = prizePool, tc_Currency = currency, tc_MaxParticipants = tq_MaxParticipants req,
         tc_MinParticipants = tq_MinParticipants req, tc_RegistrationOpensAt = regOpensAt,
         tc_RegistrationClosesAt = regClosesAt, tc_StartsAt = startsAt, tc_EndsAt = endsAt,
         tc_Venue = tq_Venue req, tc_City = tq_City req, tc_Country = country,
         tc_Rules = tq_Rules req, tc_CreatedBy = actorUID\<rparr>, actorUID))))))))))))))"

text \<open>The loop over the numbered slugs: \<open>attempts\<close> are the numbers still to try.\<close>

fun create_attempts :: "env \<Rightarrow> CreateTournamentParams \<Rightarrow> uuid \<Rightarrow> nat list \<Rightarrow> database
    \<Rightarrow> tournament_error + (tournament_row \<times> database)" where
  "create_attempts ev p actor [] d = Inl ErrSlugGenerationFailed"
| "create_attempts ev p actor (n # ns) d =
     (case tournament_CreateWithAudit ev
         \<lparr>nt_createParams = p\<lparr>tc_Slug := numbered_slug (tc_Slug p) n\<rparr>, nt_actorID = actor\<rparr> d of
        Inl e \<Rightarrow> if e = ErrSlugAlreadyTaken then create_attempts ev p actor ns d else Inl e
      | Inr r \<Rightarrow> Inr r)"

definition tournament_Create :: "env \<Rightarrow> string \<Rightarrow> TournamentCreateRequest \<Rightarrow> string \<Rightarrow> string \<Rightarrow> database
    \<Rightarrow> tournament_error + (TournamentResponse \<times> database)" where
  "tournament_Create ev orgSlug req actorID actorOrgID d =
     res_bind (prepare_tournament ev d orgSlug req actorID actorOrgID) (\<lambda>(p, actorUID).
     res_bind (create_attempts ev p actorUID [1..<11] d) (\<lambda>(t, d').
       Inr ((tournamentToResponse ev t)\<lparr>to_RegistrationCounts := Some (counts_for [] [])\<rparr>, d')))"

section \<open>List and lookup\<close>

definition clamp_tournament_params :: "TournamentListParams \<Rightarrow> TournamentListParams" where
  "clamp_tournament_params p =
     (let p = (if tl_Limit p \<le> 0 \<or> tl_Limit p > 200 then p\<lparr>tl_Limit := 50\<rparr> else p)
      in if tl_Offset p < 0 then p\<lparr>tl_Offset := 0\<rparr> else p)"

definition tournament_List :: "env \<Rightarrow> string \<Rightarrow> TournamentListParams \<Rightarrow> database
    \<Rightarrow> tournament_error + TournamentListResponse" where
  "tournament_List ev orgSlug params d =
     res_bind (tournament_GetOrgBySlug d orgSlug) (\<lambda>org.
       let p = clamp_tournament_params params;
           ts = ListTournamentsPaginated d (o_ID org) (tl_StatusFilter p) (tl_Search p) (tl_Offset p) (tl_Limit p)
       in Inr \<lparr>tz_Tournaments = attachRegistrationCounts ev d (map (tournamentToResponse ev) ts),
            tz_Total = CountTournamentsByOrganization d (o_ID org) (tl_StatusFilter p) (tl_Search p),
            tz_Limit = tl_Limit p, tz_Offset = tl_Offset p\<rparr>)"

definition tournament_of_url :: "env \<Rightarrow> database \<Rightarrow> uuid \<Rightarrow> string \<Rightarrow> tournament_error + tournament_row" where
  "tournament_of_url ev d orgID tournamentID =
     res_bind (res_map_err (\<lambda>_. ErrTournamentNotFound) (ParseUUID (env_scan ev) tournamentID))
       (\<lambda>tid. tournament_GetByID d tid orgID)"

definition tournament_Get :: "env \<Rightarrow> string \<Rightarrow> string \<Rightarrow> database \<Rightarrow> tournament_error + TournamentResponse" where
  "tournament_Get ev orgSlug tournamentID d =
     res_bind (tournament_GetOrgBySlug d orgSlug) (\<lambda>org.
     res_bind (tournament_of_url ev d (o_ID org) tournamentID) (\<lambda>t.
       Inr (hd (attachRegistrationCounts ev d [tournamentToResponse ev t]))))"

section \<open>Update\<close>

definition tournament_params :: "tournament_row \<Rightarrow> UpdateTournamentParams" where
  "tournament_params t = \<lparr>tu_ID = t_ID t, tu_OrganizationID = t_OrganizationID t, tu_Name = t_Name t,
     tu_Description = t_Description t, tu_Sport = t_Sport t, tu_Format = t_Format t,
     tu_ParticipantType = t_ParticipantType t, tu_BannerUrl = t_BannerUrl t, tu_PrizePool = t_PrizePool t,
     tu_Currency = t_Currency t, tu_MaxParticipants = t_MaxParticipants t,
     tu_MinParticipants = t_MinParticipants t, tu_RegistrationOpensAt = t_RegistrationOpensAt t,
     tu_RegistrationClosesAt = t_RegistrationClosesAt t, tu_StartsAt = t_StartsAt t,
     tu_EndsAt = t_EndsAt t, tu_Venue = t_Venue t, tu_City = t_City t, tu_Country = t_Country t,
     tu_Rules = t_Rules t, tu_Status = t_Status t, tu_Visibility = t_Visibility t\<rparr>"

text \<open>\<open>if req.X != nil { v, err := f(*req.X); \<dots>; params.X = v }\<close>\<close>

definition overlay :: "'a option \<Rightarrow> ('a \<Rightarrow> 'e + 'b) \<Rightarrow> 'b \<Rightarrow> 'e + 'b" where
  "overlay x f cur = (case x of None \<Rightarrow> Inr cur | Some a \<Rightarrow> f a)"

definition override :: "'a option \<Rightarrow> 'a option \<Rightarrow> 'a option" where
  "override x cur = (if x = None then cur else x)"

definition overlay_descriptive :: "env \<Rightarrow> TournamentUpdateRequest \<Rightarrow> UpdateTournamentParams
    \<Rightarrow> tournament_error + UpdateTournamentParams" where
  "overlay_descriptive ev req p =
     res_bind (overlay (tw_Visibility req) parseVisibility (tu_Visibility p)) (\<lambda>visibility.
     res_bind (overlay (tw_Format req) parseTournamentFormat (tu_Format p)) (\<lambda>format.
     res_bind (overlay (tw_ParticipantType req) (\<lambda>s. parseParticipantType (Some s)) (tu_ParticipantType p)) (\<lambda>pt.
     res_bind (overlay (tw_PrizePool req) (\<lambda>s. parsePrizePool ev (Some s)) (tu_PrizePool p)) (\<lambda>prize.
     res_bind (overlay (tw_Currency req) (\<lambda>s. normalizeCurrency (Some s)) (tu_Currency p)) (\<lambda>currency.
       Inr (p\<lparr>tu_Visibility := visibility,
         tu_Name := (case tw_Name req of None \<Rightarrow> tu_Name p | Some s \<Rightarrow> strings_TrimSpace s),
         tu_Description := override (tw_Description req) (tu_Description p),
         tu_Sport := (case tw_Sport req of None \<Rightarrow> tu_Sport p | Some s \<Rightarrow> strings_ToLower (strings_TrimSpace s)),
         tu_Format := format, tu_ParticipantType := pt,
         tu_BannerUrl := override (tw_BannerURL req) (tu_BannerUrl p), tu_PrizePool := prize,
         tu_Currency := currency,
         tu_MaxParticipants := override (tw_MaxParticipants req) (tu_MaxParticipants p),
         tu_MinParticipants := override (tw_MinParticipants req) (tu_MinParticipants p)\<rparr>))))))"

definition overlay_schedule :: "env \<Rightarrow> TournamentUpdateRequest \<Rightarrow> UpdateTournamentParams
    \<Rightarrow> tournament_error + UpdateTournamentParams" where
  "overlay_schedule ev req p =
     (let ts = (\<lambda>s. tournament_parseTimestamp ev (Some s)) in
     res_bind (overlay (tw_RegistrationOpensAt req) ts (tu_RegistrationOpensAt p)) (\<lambda>regOpens.
     res_bind (overlay (tw_RegistrationClosesAt req) ts (tu_RegistrationClosesAt p)) (\<lambda>regCloses.
     res_bind (overlay (tw_StartsAt req) ts (tu_StartsAt p)) (\<lambda>starts.
     res_bind (overlay (tw_EndsAt req) ts (tu_EndsAt p)) (\<lambda>ends.
     res_bind (overlay (tw_Country req) (\<lambda>s. normalizeCountry (Some s)) (tu_Country p)) (\<lambda>country.
       Inr (p\<lparr>tu_RegistrationOpensAt := regOpens, tu_RegistrationClosesAt := regCloses,
         tu_StartsAt := starts, tu_EndsAt := ends, tu_Venue := override (tw_Venue req) (tu_Venue p),
         tu_City := override (tw_City req) (tu_City p), tu_Country := country,
         tu_Rules := override (tw_Rules req) (tu_Rules p)\<rparr>)))))))"

definition overlay_tournament_status :: "TournamentStatus \<Rightarrow> TournamentUpdateRequest \<Rightarrow> UpdateTournamentParams
    \<Rightarrow> tournament_error + UpdateTournamentParams" where
  "overlay_tournament_status current req p =
     (case tw_Status req of
        None \<Rightarrow> Inr p
      | Some s \<Rightarrow> res_bind (parseTournamentStatus s) (\<lambda>new.
          res_bind (tournament_validateStatusTransition current new) (\<lambda>_. Inr (p\<lparr>tu_Status := new\<rparr>))))"

definition prepare_tournament_update :: "env \<Rightarrow> database \<Rightarrow> string \<Rightarrow> string \<Rightarrow> TournamentUpdateRequest
    \<Rightarrow> string \<Rightarrow> string \<Rightarrow> tournament_error + updateTournamentTxParams" where
  "prepare_tournament_update ev d orgSlug tournamentID req actorID actorOrgID =
     res_bind (tournament_GetOrgBySlug d orgSlug) (\<lambda>org.
     res_bind (assert_owner ErrForbidden actorOrgID (UUIDToString (o_ID org))) (\<lambda>_.
     res_bind (tournament_of_url ev d (o_ID org) tournamentID) (\<lambda>current.
     res_bind (res_map_err (\<lambda>_. ErrInvalidActor) (ParseUUID (env_scan ev) actorID)) (\<lambda>actorUID.
     res_bind (overlay_descriptive ev req (tournament_params current)) (\<lambda>p.
     res_bind (overlay_schedule ev req p) (\<lambda>p.
     res_bind (overlay_tournament_status (t_Status current) req p) (\<lambda>p.
     res_bind (validateDateRange (tu_RegistrationOpensAt p) (tu_RegistrationClosesAt p)
        (tu_StartsAt p) (tu_EndsAt p)) (\<lambda>_.
       Inr \<lparr>vt_updateParams = p, vt_actorID = actorUID,
            vt_oldData = PDoc (tournament_response_json (tournamentToResponse ev current)),
            vt_previousStatus = t_Status current\<rparr>))))))))"

definition tournament_Update :: "env \<Rightarrow> string \<Rightarrow> string \<Rightarrow> TournamentUpdateRequest \<Rightarrow> string \<Rightarrow> string
    \<Rightarrow> database \<Rightarrow> tournament_error + (TournamentResponse \<times> database)" where
  "tournament_Update ev orgSlug tournamentID req actorID actorOrgID d =
     res_bind (prepare_tournament_update ev d orgSlug tournamentID req actorID actorOrgID) (\<lambda>p.
     res_bind (tournament_UpdateWithAudit ev p d) (\<lambda>(t, d').
       Inr (hd (attachRegistrationCounts ev d' [tournamentToResponse ev t]), d')))"

section \<open>Delete\<close>

definition prepare_tournament_delete :: "env \<Rightarrow> database \<Rightarrow> string \<Rightarrow> string \<Rightarrow> string \<Rightarrow> string
    \<Rightarrow> tournament_error + cancelTournamentTxParams" where
  "prepare_tournament_delete ev d orgSlug tournamentID actorID actorOrgID =
     res_bind (tournament_GetOrgBySlug d orgSlug) (\<lambda>org.
     res_bind (assert_owner ErrForbidden actorOrgID (UUIDToString (o_ID org))) (\<lambda>_.
     res_bind (tournament_of_url ev d (o_ID org) tournamentID) (\<lambda>current.
     res_bind (res_map_err (\<lambda>_. ErrInvalidActor) (ParseUUID (env_scan ev) actorID)) (\<lambda>actorUID.
       Inr \<lparr>zt_id = t_ID current, zt_orgID = t_OrganizationID current, zt_actorID = actorUID,
            zt_oldData = PDoc (tournament_response_json (tournamentToResponse ev current)),
            zt_previousStatus = t_Status current\<rparr>))))"

definition tournament_Delete :: "env \<Rightarrow> string \<Rightarrow> string \<Rightarrow> string \<Rightarrow> string \<Rightarrow> database
    \<Rightarrow> tournament_error + database" where
  "tournament_Delete ev orgSlug tournamentID actorID actorOrgID d =
     res_bind (prepare_tournament_delete ev d orgSlug tournamentID actorID actorOrgID)
       (\<lambda>p. tournament_CancelWithAudit ev p d)"

end
