(* ===== verification/Registration_Store.thy ===== *)
theory Registration_Store
  imports Fixturegen_Store
begin

text \<open>
  The queries of \<open>db/sqlc/tournament_registrations.sql.go\<close> on the table
  \<open>tournament_registrations\<close>, with the constraints of the migration \<open>000009\<close> (the foreign keys
  into \<open>users\<close> apart).
\<close>

section \<open>Constraints\<close>

definition registration_checks :: "registration_row \<Rightarrow> bool" where
  "registration_checks r \<longleftrightarrow>
     ((r_TeamID r \<noteq> None \<and> r_PlayerID r = None) \<or> (r_TeamID r = None \<and> r_PlayerID r \<noteq> None))
   \<and> (case r_SeedNumber r of None \<Rightarrow> True | Some n \<Rightarrow> n > 0)
   \<and> (r_ApprovedAt r = None \<longleftrightarrow> r_ApprovedBy r = None)
   \<and> (case (r_ApprovedAt r, r_RegisteredAt r) of (Some a, Some g) \<Rightarrow> a \<ge> g | _ \<Rightarrow> True)"

definition registration_references :: "database \<Rightarrow> registration_row \<Rightarrow> bool" where
  "registration_references d r \<longleftrightarrow>
     refers t_ID (tournaments d) (r_TournamentID r) \<and> refers o_ID (organizations d) (r_OrganizationID r)
   \<and> refers tm_ID (teams d) (r_TeamID r) \<and> refers pl_ID (players d) (r_PlayerID r)"

section \<open>Reads\<close>

definition active_registration :: "uuid \<Rightarrow> registration_row \<Rightarrow> bool" where
  "active_registration tournamentID r \<longleftrightarrow> sql_eq (r_TournamentID r) tournamentID
     \<and> r_Status r \<in> {RegistrationStatusPending, RegistrationStatusApproved}"

definition CountActiveRegistrations :: "database \<Rightarrow> uuid \<Rightarrow> int" where
  "CountActiveRegistrations d tournamentID =
     int (length (filter (active_registration tournamentID) (tournament_registrations d)))"

definition registration_filter :: "uuid \<Rightarrow> string option \<Rightarrow> uuid \<Rightarrow> uuid \<Rightarrow> registration_row \<Rightarrow> bool" where
  "registration_filter tournamentID status team player r \<longleftrightarrow>
     sql_eq (r_TournamentID r) tournamentID
   \<and> (case status of None \<Rightarrow> True | Some s \<Rightarrow> RegistrationStatus_str (r_Status r) = s)
   \<and> (team = None \<or> r_TeamID r = team) \<and> (player = None \<or> r_PlayerID r = player)"

definition CountRegistrationsByTournament :: "database \<Rightarrow> uuid \<Rightarrow> string option \<Rightarrow> uuid \<Rightarrow> uuid \<Rightarrow> int" where
  "CountRegistrationsByTournament d tournamentID status team player =
     int (length (filter (registration_filter tournamentID status team player) (tournament_registrations d)))"

text \<open>The joined names: the row, the team's name, the player's display name.\<close>

definition ListRegistrationsByTournamentPaginated :: "database \<Rightarrow> uuid \<Rightarrow> string option \<Rightarrow> uuid \<Rightarrow> uuid
    \<Rightarrow> int \<Rightarrow> int \<Rightarrow> (registration_row \<times> string option \<times> string option) list" where
  "ListRegistrationsByTournamentPaginated d tournamentID status team player offset limit =
     map (\<lambda>r. (r, map_option tm_Name (find (\<lambda>t. sql_eq (tm_ID t) (r_TeamID r)) (teams d)),
               map_option pl_DisplayName (find (\<lambda>p. sql_eq (pl_ID p) (r_PlayerID r)) (players d))))
       (page limit offset (sort_key (\<lambda>r. ts_Time (r_RegisteredAt r))
         (filter (registration_filter tournamentID status team player) (tournament_registrations d))))"

definition registration_key :: "uuid \<Rightarrow> uuid \<Rightarrow> registration_row \<Rightarrow> bool" where
  "registration_key uid tournamentID r \<longleftrightarrow> sql_eq (r_ID r) uid \<and> sql_eq (r_TournamentID r) tournamentID"

definition GetRegistrationByID :: "database \<Rightarrow> uuid \<Rightarrow> uuid \<Rightarrow> sql_error + registration_row" where
  "GetRegistrationByID d uid tournamentID =
     select_one (registration_key uid tournamentID) (tournament_registrations d)"

definition GetRegistrationByPlayer :: "database \<Rightarrow> uuid \<Rightarrow> uuid \<Rightarrow> sql_error + registration_row" where
  "GetRegistrationByPlayer d tournamentID playerID = select_one
     (\<lambda>r. sql_eq (r_TournamentID r) tournamentID \<and> sql_eq (r_PlayerID r) playerID) (tournament_registrations d)"

definition GetRegistrationByTeam :: "database \<Rightarrow> uuid \<Rightarrow> uuid \<Rightarrow> sql_error + registration_row" where
  "GetRegistrationByTeam d tournamentID teamID = select_one
     (\<lambda>r. sql_eq (r_TournamentID r) tournamentID \<and> sql_eq (r_TeamID r) teamID) (tournament_registrations d)"

record ListStandingsRegistrationsRow =
  sg_TeamID :: uuid
  sg_PlayerID :: uuid
  sg_SeedNumber :: "int option"
  sg_RegisteredAt :: timestamp
  sg_Status :: RegistrationStatus

definition ListStandingsRegistrations :: "database \<Rightarrow> uuid \<Rightarrow> ListStandingsRegistrationsRow list" where
  "ListStandingsRegistrations d tournamentID =
     map (\<lambda>r. \<lparr>sg_TeamID = r_TeamID r, sg_PlayerID = r_PlayerID r, sg_SeedNumber = r_SeedNumber r,
            sg_RegisteredAt = r_RegisteredAt r, sg_Status = r_Status r\<rparr>)
       (sort_key (\<lambda>r. ts_Time (r_RegisteredAt r))
         (filter (\<lambda>r. sql_eq (r_TournamentID r) tournamentID
            \<and> r_Status r \<in> {RegistrationStatusApproved, RegistrationStatusDisqualified})
           (tournament_registrations d)))"

definition LockTournamentForUpdate :: "database \<Rightarrow> uuid \<Rightarrow> sql_error + uuid" where
  "LockTournamentForUpdate d uid =
     res_bind (select_one (\<lambda>t. sql_eq (t_ID t) uid) (tournaments d)) (\<lambda>t. Inr (t_ID t))"

definition HasActiveMembersByTeam :: "database \<Rightarrow> uuid \<Rightarrow> uuid \<Rightarrow> bool" where
  "HasActiveMembersByTeam d teamID orgID \<longleftrightarrow> (\<exists>ms \<in> set (team_memberships d).
     sql_eq (ms_TeamID ms) teamID \<and> sql_eq (ms_OrganizationID ms) orgID
     \<and> ms_Status ms = MembershipStatusActive)"

section \<open>Writes\<close>

record CreateRegistrationParams =
  rp_TournamentID :: uuid
  rp_OrganizationID :: uuid
  rp_TeamID :: uuid
  rp_PlayerID :: uuid
  rp_RegisteredBy :: uuid
  rp_Notes :: "string option"

definition created_registration :: "env \<Rightarrow> CreateRegistrationParams \<Rightarrow> registration_row" where
  "created_registration ev p = \<lparr>r_ID = Some (env_row_id ev), r_TournamentID = rp_TournamentID p,
     r_OrganizationID = rp_OrganizationID p, r_TeamID = rp_TeamID p, r_PlayerID = rp_PlayerID p,
     r_SeedNumber = None, r_Status = RegistrationStatusPending, r_RegisteredBy = rp_RegisteredBy p,
     r_RegisteredAt = Some (env_db_now ev), r_ApprovedBy = None, r_ApprovedAt = None,
     r_Notes = rp_Notes p, r_Metadata = empty_object, r_CreatedAt = Some (env_db_now ev),
     r_UpdatedAt = Some (env_db_now ev)\<rparr>"

definition same_participant :: "registration_row \<Rightarrow> registration_row \<Rightarrow> bool" where
  "same_participant r r' \<longleftrightarrow> sql_eq (r_TournamentID r) (r_TournamentID r')
     \<and> (sql_eq (r_TeamID r) (r_TeamID r') \<or> sql_eq (r_PlayerID r) (r_PlayerID r'))"

text \<open>The two partial unique indexes, after the checks of the row.\<close>

definition CreateRegistration :: "env \<Rightarrow> CreateRegistrationParams \<Rightarrow> database
    \<Rightarrow> sql_error + (registration_row \<times> database)" where
  "CreateRegistration ev p d = (let r = created_registration ev p; rows = tournament_registrations d in
     if \<not> registration_checks r \<or> r_ID r \<in> r_ID ` set rows
     then Inl (ConstraintViolation ''tournament_registrations'')
     else if \<exists>r' \<in> set rows. sql_eq (r_TournamentID r') (r_TournamentID r) \<and> sql_eq (r_TeamID r') (r_TeamID r)
     then Inl (ConstraintViolation ''uq_treg_tournament_team'')
     else if \<exists>r' \<in> set rows. sql_eq (r_TournamentID r') (r_TournamentID r) \<and> sql_eq (r_PlayerID r') (r_PlayerID r)
     then Inl (ConstraintViolation ''uq_treg_tournament_player'')
     else if \<not> registration_references d r
     then Inl (ConstraintViolation ''fk_tournament_registrations'')
     else Inr (r, d\<lparr>tournament_registrations := rows @ [r]\<rparr>))"

definition update_registration :: "(registration_row \<Rightarrow> bool) \<Rightarrow> (registration_row \<Rightarrow> registration_row) \<Rightarrow> database
    \<Rightarrow> sql_error + (registration_row \<times> database)" where
  "update_registration P upd d = (case find P (tournament_registrations d) of
       None \<Rightarrow> Inl ErrNoRows
     | Some r \<Rightarrow>
         if registration_checks (upd r)
         then Inr (upd r, d\<lparr>tournament_registrations := update_rows P upd (tournament_registrations d)\<rparr>)
         else Inl (ConstraintViolation ''tournament_registrations''))"

record UpdateRegistrationParams =
  ru_ID :: uuid
  ru_TournamentID :: uuid
  ru_Status :: RegistrationStatus
  ru_SeedNumber :: "int option"
  ru_Notes :: "string option"
  ru_ApprovedBy :: uuid
  ru_Column7 :: timestamp

definition greatest :: "int \<Rightarrow> timestamp \<Rightarrow> int" where
  "greatest a ts = (case ts of None \<Rightarrow> a | Some b \<Rightarrow> max a b)"

definition updated_registration :: "env \<Rightarrow> UpdateRegistrationParams \<Rightarrow> registration_row \<Rightarrow> registration_row" where
  "updated_registration ev p r = r\<lparr>r_Status := ru_Status p, r_SeedNumber := ru_SeedNumber p,
     r_Notes := ru_Notes p, r_ApprovedBy := ru_ApprovedBy p,
     r_ApprovedAt := map_option (\<lambda>a. greatest a (r_RegisteredAt r)) (ru_Column7 p),
     r_UpdatedAt := Some (env_db_now ev)\<rparr>"

definition UpdateRegistration :: "env \<Rightarrow> UpdateRegistrationParams \<Rightarrow> database
    \<Rightarrow> sql_error + (registration_row \<times> database)" where
  "UpdateRegistration ev p d =
     update_registration (registration_key (ru_ID p) (ru_TournamentID p)) (updated_registration ev p) d"

definition withdrawn_registration :: "env \<Rightarrow> registration_row \<Rightarrow> registration_row" where
  "withdrawn_registration ev r = r\<lparr>r_Status := RegistrationStatusWithdrawn, r_UpdatedAt := Some (env_db_now ev)\<rparr>"

definition WithdrawRegistration :: "env \<Rightarrow> uuid \<Rightarrow> uuid \<Rightarrow> database
    \<Rightarrow> sql_error + (registration_row \<times> database)" where
  "WithdrawRegistration ev uid tournamentID d = update_registration
     (\<lambda>r. registration_key uid tournamentID r
        \<and> r_Status r \<in> {RegistrationStatusPending, RegistrationStatusApproved}) (withdrawn_registration ev) d"

section \<open>Lemmas\<close>

interpretation registration_update_row: keyed_update r_ID "updated_registration ev p" for ev p
  by unfold_locales (simp add: updated_registration_def)

interpretation registration_withdraw_row: keyed_update r_ID "withdrawn_registration ev" for ev
  by unfold_locales (simp add: withdrawn_registration_def)

lemma update_registration_Inr [result_simps]:
  "update_registration P upd d = Inr (r', d') \<longleftrightarrow>
     (\<exists>r. find P (tournament_registrations d) = Some r \<and> r' = upd r \<and> registration_checks (upd r)
        \<and> d' = d\<lparr>tournament_registrations := update_rows P upd (tournament_registrations d)\<rparr>)"
  by (auto simp: update_registration_def split: option.splits if_splits)

lemma CreateRegistration_Inr [result_simps]:
  "CreateRegistration ev p d = Inr (r', d') \<longleftrightarrow>
     (let r = created_registration ev p in r' = r
        \<and> d' = d\<lparr>tournament_registrations := tournament_registrations d @ [r]\<rparr>
        \<and> registration_checks r \<and> r_ID r \<notin> r_ID ` set (tournament_registrations d)
        \<and> (\<forall>r' \<in> set (tournament_registrations d). \<not> same_participant r' r)
        \<and> registration_references d r)"
  by (auto simp: CreateRegistration_def Let_def same_participant_def)

end
