(* ===== verification/Tournament_Standings.thy ===== *)
theory Tournament_Standings
  imports Tournament_Service Registration_Store
begin

text \<open>
  The standings read of package \<open>tournaments\<close>: the point system stored in the settings, the
  matches and registrations the engine is given, and the table with the participants' names.
\<close>

section \<open>The point system\<close>

record standingsSettingsJSON =
  sj_WinPoints :: "int option"
  sj_DrawPoints :: "int option"
  sj_LossPoints :: "int option"
  sj_CloseMargin :: "int option"
  sj_CloseLossPoints :: "int option"

definition decode_settings :: "(string \<times> json) list \<Rightarrow> standingsSettingsJSON option" where
  "decode_settings ms =
     (case (decode_field ''win_points'' json_int None ms, decode_field ''draw_points'' json_int None ms,
            decode_field ''loss_points'' json_int None ms, decode_field ''close_margin'' json_int None ms,
            decode_field ''close_loss_points'' json_int None ms) of
        (Some w, Some dr, Some l, Some cm, Some cl) \<Rightarrow>
          Some \<lparr>sj_WinPoints = w, sj_DrawPoints = dr, sj_LossPoints = l, sj_CloseMargin = cm,
                sj_CloseLossPoints = cl\<rparr>
      | _ \<Rightarrow> None)"

definition or_default :: "'a option \<Rightarrow> 'a \<Rightarrow> 'a" where
  "or_default x dflt = (case x of None \<Rightarrow> dflt | Some y \<Rightarrow> y)"

definition parseStandingsSettings :: "payload \<Rightarrow> StandingsSettings" where
  "parseStandingsSettings raw =
     (case unmarshal_struct decode_settings raw of
        None \<Rightarrow> DefaultSettings
      | Some js \<Rightarrow> \<lparr>ss_WinPoints = or_default (sj_WinPoints js) 3, ss_DrawPoints = or_default (sj_DrawPoints js) 1,
          ss_LossPoints = or_default (sj_LossPoints js) 0, ss_CloseMargin = or_default (sj_CloseMargin js) 0,
          ss_CloseLossPoints = or_default (sj_CloseLossPoints js) 0\<rparr>)"

section \<open>The engine's input\<close>

definition tour_participantID :: "uuid \<Rightarrow> uuid \<Rightarrow> string" where
  "tour_participantID primary fallback =
     (if Valid primary then UUIDToString primary else if Valid fallback then UUIDToString fallback else [])"

definition standings_match :: "CompletedMatchRow \<Rightarrow> CompletedMatch" where
  "standings_match m = \<lparr>cm_HomeParticipantID = tour_participantID (lc_HomeTeamID m) (lc_HomePlayerID m),
     cm_AwayParticipantID = tour_participantID (lc_AwayTeamID m) (lc_AwayPlayerID m),
     cm_HomeScore = lc_HomeScore m, cm_AwayScore = lc_AwayScore m,
     cm_WinnerID = tour_participantID (lc_WinnerTeamID m) (lc_WinnerPlayerID m),
     cm_IsWalkover = lc_IsWalkover m\<rparr>"

definition standings_matches :: "CompletedMatchRow list \<Rightarrow> CompletedMatch list" where
  "standings_matches rows = filter (\<lambda>cm. cm_HomeParticipantID cm \<noteq> [] \<and> cm_AwayParticipantID cm \<noteq> [])
     (map standings_match rows)"

definition standings_reg :: "ListStandingsRegistrationsRow \<Rightarrow> RegistrationInfo" where
  "standings_reg r = \<lparr>ri_ParticipantID = tour_participantID (sg_TeamID r) (sg_PlayerID r),
     ri_SeedNumber = sg_SeedNumber r, ri_RegisteredAt = ts_Time (sg_RegisteredAt r),
     ri_Disqualified = (sg_Status r = RegistrationStatusDisqualified)\<rparr>"

definition standings_regs :: "ListStandingsRegistrationsRow list \<Rightarrow> RegistrationInfo list" where
  "standings_regs rows = filter (\<lambda>r. ri_ParticipantID r \<noteq> []) (map standings_reg rows)"

text \<open>What \<open>GetStandings\<close> and the snapshot at completion compute; \<open>iter\<close> and \<open>iterG\<close> are the
  iteration orders of the engine's maps.\<close>

definition tournament_table :: "(string list \<Rightarrow> string list) \<Rightarrow> (int list \<Rightarrow> int list) \<Rightarrow> database \<Rightarrow> uuid
    \<Rightarrow> uuid \<Rightarrow> payload \<Rightarrow> StandingsRow list" where
  "tournament_table iter iterG d tid orgID settings = Standings_Compute iter iterG
     (standings_matches (ListCompletedMatchesByTournament d tid orgID))
     (standings_regs (ListStandingsRegistrations d tid)) (parseStandingsSettings settings)"

section \<open>The response\<close>

definition resolveParticipantNames :: "env \<Rightarrow> database \<Rightarrow> string list \<Rightarrow> string \<Rightarrow> string" where
  "resolveParticipantNames ev d participantIDs pid =
     (let ids = parse_ids ev participantIDs;
          rows = ListTeamNamesByIDs d ids @ ListPlayerNamesByIDs d ids
      in case find (\<lambda>(u, n). UUIDToString u = pid) (rev rows) of None \<Rightarrow> [] | Some (u, n) \<Rightarrow> n)"

definition row_response :: "(string \<Rightarrow> string) \<Rightarrow> StandingsRow \<Rightarrow> StandingsRowResponse" where
  "row_response names row = \<lparr>sw_Position = st_Position row, sw_ParticipantID = st_ParticipantID row,
     sw_ParticipantName = names (st_ParticipantID row), sw_Played = st_Played row,
     sw_Wins = st_Wins row, sw_Losses = st_Losses row, sw_Draws = st_Draws row,
     sw_Points = st_Points row, sw_ScoreFor = st_ScoreFor row, sw_ScoreAgainst = st_ScoreAgainst row,
     sw_ScoreDifference = st_ScoreDifference row, sw_Disqualified = st_Disqualified row\<rparr>"

definition GetStandings :: "(string list \<Rightarrow> string list) \<Rightarrow> (int list \<Rightarrow> int list) \<Rightarrow> env \<Rightarrow> string \<Rightarrow> string
    \<Rightarrow> database \<Rightarrow> tournament_error + StandingsResponse" where
  "GetStandings iter iterG ev orgSlug tournamentID d =
     res_bind (tournament_GetOrgBySlug d orgSlug) (\<lambda>org.
     res_bind (tournament_of_url ev d (o_ID org) tournamentID) (\<lambda>t.
       let rows = tournament_table iter iterG d (t_ID t) (o_ID org) (t_Settings t);
           names = resolveParticipantNames ev d (map st_ParticipantID rows)
       in Inr \<lparr>sv_TournamentID = UUIDToString (t_ID t), sv_TournamentName = t_Name t,
            sv_Format = TournamentFormat_str (t_Format t), sv_Status = TournamentStatus_str (t_Status t),
            sv_PointSystem = parseStandingsSettings (t_Settings t),
            sv_Standings = map (row_response names) rows\<rparr>))"

end
