(* ===== verification/Registration_Service.thy ===== *)
theory Registration_Service
  imports Registration_Store Lifecycle
begin

text \<open>
  Package \<open>tournament_registrations\<close>: the life cycle of a registration, the capacity check under
  the tournament lock, and the use cases.
\<close>

section \<open>Data\<close>

datatype registration_error =
    ErrRegistrationNotFound
  | ErrTournamentNotFound
  | ErrOrganizationNotFound
  | ErrTeamNotFound
  | ErrPlayerNotFound
  | ErrForbidden
  | ErrRegistrationClosed
  | ErrWindowNotOpen
  | ErrWindowClosed
  | ErrAlreadyRegistered
  | ErrTeamNotActive
  | ErrPlayerNotActive
  | ErrCrossOrgRegistration
  | ErrWrongParticipantType
  | ErrEmptyTeam
  | ErrTournamentFull
  | ErrInvalidStatus
  | ErrInvalidStatusTransition
  | ErrInvalidActor
  | ErrSql sql_error

record RegistrationCreateRequest =
  rq_TeamID :: "string option"
  rq_PlayerID :: "string option"
  rq_Notes :: "string option"

record RegistrationUpdateRequest =
  rw_Status :: "string option"
  rw_SeedNumber :: "int option"
  rw_Notes :: "string option"

record RegistrationListParams =
  rl_Limit :: int
  rl_Offset :: int
  rl_StatusFilter :: "string option"
  rl_TeamFilter :: "string option"
  rl_PlayerFilter :: "string option"

record RegistrationResponse =
  rr_ID :: string
  rr_TournamentID :: string
  rr_OrganizationID :: string
  rr_TeamID :: "string option"
  rr_PlayerID :: "string option"
  rr_TeamName :: "string option"
  rr_PlayerName :: "string option"
  rr_SeedNumber :: "int option"
  rr_Status :: string
  rr_RegisteredBy :: "string option"
  rr_RegisteredAt :: string
  rr_ApprovedBy :: "string option"
  rr_ApprovedAt :: "string option"
  rr_Notes :: "string option"
  rr_CreatedAt :: string
  rr_UpdatedAt :: string

record RegistrationListResponse =
  rz_Registrations :: "RegistrationResponse list"
  rz_Total :: int
  rz_Limit :: int
  rz_Offset :: int

definition registrationToResponse :: "env \<Rightarrow> registration_row \<Rightarrow> RegistrationResponse" where
  "registrationToResponse ev r = \<lparr>rr_ID = UUIDToString (r_ID r),
     rr_TournamentID = UUIDToString (r_TournamentID r),
     rr_OrganizationID = UUIDToString (r_OrganizationID r), rr_TeamID = uuidStringPtr (r_TeamID r),
     rr_PlayerID = uuidStringPtr (r_PlayerID r), rr_TeamName = None, rr_PlayerName = None,
     rr_SeedNumber = r_SeedNumber r, rr_Status = RegistrationStatus_str (r_Status r),
     rr_RegisteredBy = uuidStringPtr (r_RegisteredBy r),
     rr_RegisteredAt = env_format_time ev (ts_Time (r_RegisteredAt r)),
     rr_ApprovedBy = uuidStringPtr (r_ApprovedBy r),
     rr_ApprovedAt = map_option (env_format_time ev) (r_ApprovedAt r), rr_Notes = r_Notes r,
     rr_CreatedAt = env_format_time ev (ts_Time (r_CreatedAt r)),
     rr_UpdatedAt = env_format_time ev (ts_Time (r_UpdatedAt r))\<rparr>"

definition registrationRowToResponse :: "env \<Rightarrow> registration_row \<times> string option \<times> string option
    \<Rightarrow> RegistrationResponse" where
  "registrationRowToResponse ev = (\<lambda>(r, team, player).
     (registrationToResponse ev r)\<lparr>rr_TeamName := team, rr_PlayerName := player\<rparr>)"

definition registration_response_json :: "RegistrationResponse \<Rightarrow> json" where
  "registration_response_json r = JObj (
     [(''id'', JStr (rr_ID r))]
     @ [(''tournament_id'', JStr (rr_TournamentID r))]
     @ [(''organization_id'', JStr (rr_OrganizationID r))]
     @ omitempty ''team_id'' JStr (rr_TeamID r)
     @ omitempty ''player_id'' JStr (rr_PlayerID r)
     @ omitempty ''team_name'' JStr (rr_TeamName r)
     @ omitempty ''player_name'' JStr (rr_PlayerName r)
     @ omitempty ''seed_number'' JInt (rr_SeedNumber r)
     @ [(''status'', JStr (rr_Status r))]
     @ omitempty ''registered_by'' JStr (rr_RegisteredBy r)
     @ [(''registered_at'', JStr (rr_RegisteredAt r))]
     @ omitempty ''approved_by'' JStr (rr_ApprovedBy r)
     @ omitempty ''approved_at'' JStr (rr_ApprovedAt r)
     @ omitempty ''notes'' JStr (rr_Notes r)
     @ [(''created_at'', JStr (rr_CreatedAt r))]
     @ [(''updated_at'', JStr (rr_UpdatedAt r))])"

definition registrationToAuditJSON :: "env \<Rightarrow> registration_row \<Rightarrow> payload" where
  "registrationToAuditJSON ev r = PDoc (JObj (sort_key fst [
     (''id'', JStr (UUIDToString (r_ID r))),
     (''tournament_id'', JStr (UUIDToString (r_TournamentID r))),
     (''organization_id'', JStr (UUIDToString (r_OrganizationID r))),
     (''team_id'', json_opt JStr (uuidStringPtr (r_TeamID r))),
     (''player_id'', json_opt JStr (uuidStringPtr (r_PlayerID r))),
     (''seed_number'', json_opt JInt (r_SeedNumber r)),
     (''status'', JStr (RegistrationStatus_str (r_Status r))),
     (''registered_at'', JStr (env_format_time ev (ts_Time (r_RegisteredAt r)))),
     (''approved_at'', json_opt JStr (map_option (env_format_time ev) (r_ApprovedAt r))),
     (''notes'', json_opt JStr (r_Notes r)),
     (''created_at'', JStr (env_format_time ev (ts_Time (r_CreatedAt r)))),
     (''updated_at'', JStr (env_format_time ev (ts_Time (r_UpdatedAt r))))]))"

section \<open>Status table\<close>

fun registrationTransitions :: "RegistrationStatus \<Rightarrow> RegistrationStatus list option" where
  "registrationTransitions RegistrationStatusPending =
     Some [RegistrationStatusApproved, RegistrationStatusRejected, RegistrationStatusWithdrawn]"
| "registrationTransitions RegistrationStatusApproved =
     Some [RegistrationStatusWithdrawn, RegistrationStatusDisqualified]"
| "registrationTransitions RegistrationStatusRejected = Some []"
| "registrationTransitions RegistrationStatusWithdrawn = Some []"
| "registrationTransitions RegistrationStatusDisqualified = Some []"

definition registration_validateStatusTransition ::
  "RegistrationStatus \<Rightarrow> RegistrationStatus \<Rightarrow> registration_error + unit" where
  "registration_validateStatusTransition = check_transition ErrInvalidStatusTransition registrationTransitions"

definition registration_final :: "RegistrationStatus \<Rightarrow> bool" where
  "registration_final s \<longleftrightarrow>
     s \<in> {RegistrationStatusRejected, RegistrationStatusWithdrawn, RegistrationStatusDisqualified}"

fun registration_stage :: "RegistrationStatus \<Rightarrow> nat" where
  "registration_stage RegistrationStatusPending = 0"
| "registration_stage RegistrationStatusApproved = 1"
| "registration_stage _ = 2"

interpretation registration_life: lifecycle registrationTransitions registration_final registration_stage
proof
  show "registration_final s \<Longrightarrow> registrationTransitions s = None \<or> registrationTransitions s = Some []" for s
    by (cases s) (simp_all add: registration_final_def)
  show "registrationTransitions s = Some ts \<Longrightarrow> t \<in> set ts \<Longrightarrow> registration_stage s < registration_stage t" for s t ts
    by (cases s) auto
qed

definition parseRegistrationStatus :: "string \<Rightarrow> registration_error + RegistrationStatus" where
  "parseRegistrationStatus s = opt_res ErrInvalidStatus
     (find (\<lambda>v. RegistrationStatus_str v = strings_ToLower (strings_TrimSpace s))
       [RegistrationStatusPending, RegistrationStatusApproved, RegistrationStatusRejected,
        RegistrationStatusWithdrawn, RegistrationStatusDisqualified])"

fun registrationStatusToEventType :: "RegistrationStatus \<Rightarrow> NotificationEventType option" where
  "registrationStatusToEventType RegistrationStatusApproved = Some NotificationEventTypeRegistrationApproved"
| "registrationStatusToEventType RegistrationStatusRejected = Some NotificationEventTypeRegistrationRejected"
| "registrationStatusToEventType RegistrationStatusWithdrawn = Some NotificationEventTypeRegistrationWithdrawn"
| "registrationStatusToEventType _ = None"

text \<open>\<open>registration_opens_at <= now() <= registration_closes_at\<close>\<close>

definition validateRegistrationWindow :: "env \<Rightarrow> tournament_row \<Rightarrow> registration_error + unit" where
  "validateRegistrationWindow ev t =
     (if (case t_RegistrationOpensAt t of None \<Rightarrow> False | Some o' \<Rightarrow> env_now ev < o') then Inl ErrWindowNotOpen
      else if (case t_RegistrationClosesAt t of None \<Rightarrow> False | Some c \<Rightarrow> env_now ev > c) then Inl ErrWindowClosed
      else Inr ())"

section \<open>Transactions\<close>

record createRegistrationTxParams =
  qt_createParams :: CreateRegistrationParams
  qt_actorID :: uuid
  qt_maxParticipants :: "int option"

definition check_capacity :: "createRegistrationTxParams \<Rightarrow> database \<Rightarrow> registration_error + unit" where
  "check_capacity p d = (case qt_maxParticipants p of
       None \<Rightarrow> Inr ()
     | Some mx \<Rightarrow> res_bind (no_rows_as ErrTournamentNotFound ErrSql
           (LockTournamentForUpdate d (rp_TournamentID (qt_createParams p)))) (\<lambda>_.
         ensure (\<not> CountActiveRegistrations d (rp_TournamentID (qt_createParams p)) \<ge> mx) ErrTournamentFull))"

definition registration_CreateWithAudit :: "env \<Rightarrow> createRegistrationTxParams \<Rightarrow> database
    \<Rightarrow> registration_error + (registration_row \<times> database)" where
  "registration_CreateWithAudit ev p d =
     res_bind (check_capacity p d) (\<lambda>_.
     res_bind (res_map_err (\<lambda>e. if e = ConstraintViolation ''uq_treg_tournament_team'' then ErrAlreadyRegistered
                               else ErrSql e) (CreateRegistration ev (qt_createParams p) d)) (\<lambda>(r, d1).
       Inr (r, CreateAuditLog ev (auditParams (r_OrganizationID r) (qt_actorID p) AuditActionCreate
            ''tournament_registrations'' (r_ID r) PEmpty (registrationToAuditJSON ev r)) d1)))"

record updateRegistrationTxParams =
  yt_updateParams :: UpdateRegistrationParams
  yt_actorID :: uuid
  yt_orgID :: uuid
  yt_oldData :: payload
  yt_previousStatus :: RegistrationStatus

definition registration_outbox :: "env \<Rightarrow> NotificationEventType \<Rightarrow> uuid \<Rightarrow> uuid \<Rightarrow> uuid \<Rightarrow> registration_row
    \<Rightarrow> RegistrationStatus \<Rightarrow> RegistrationStatus \<Rightarrow> database \<Rightarrow> database" where
  "registration_outbox ev et orgID actor entity r old new d = WriteOutboxEntry ev
     \<lparr>obp_OrganizationID = orgID, obp_EventType = et, obp_ActorID = actor,
      obp_EntityType = ''tournament_registrations'', obp_EntityID = entity,
      obp_Payload = [(''registration_id'', JStr (UUIDToString (r_ID r))),
        (''tournament_id'', JStr (UUIDToString (r_TournamentID r))),
        (''previous_status'', JStr (RegistrationStatus_str old)),
        (''new_status'', JStr (RegistrationStatus_str new))]\<rparr> d"

definition registration_UpdateWithAudit :: "env \<Rightarrow> updateRegistrationTxParams \<Rightarrow> database
    \<Rightarrow> registration_error + (registration_row \<times> database)" where
  "registration_UpdateWithAudit ev p d =
     res_bind (no_rows_as ErrRegistrationNotFound ErrSql (UpdateRegistration ev (yt_updateParams p) d)) (\<lambda>(r, d1).
       let d2 = CreateAuditLog ev (auditParams (yt_orgID p) (yt_actorID p) AuditActionUpdate
                  ''tournament_registrations'' (r_ID r) (yt_oldData p) (registrationToAuditJSON ev r)) d1
       in Inr (r, if r_Status r = yt_previousStatus p then d2
            else case registrationStatusToEventType (r_Status r) of
              None \<Rightarrow> d2
            | Some et \<Rightarrow> registration_outbox ev et (yt_orgID p) (yt_actorID p) (r_ID r) r
                (yt_previousStatus p) (r_Status r) d2))"

record withdrawRegistrationTxParams =
  ht_id :: uuid
  ht_tournamentID :: uuid
  ht_orgID :: uuid
  ht_actorID :: uuid
  ht_oldData :: payload
  ht_previousStatus :: RegistrationStatus

definition registration_WithdrawWithAudit :: "env \<Rightarrow> withdrawRegistrationTxParams \<Rightarrow> database
    \<Rightarrow> registration_error + database" where
  "registration_WithdrawWithAudit ev p d =
     res_bind (no_rows_as ErrRegistrationNotFound ErrSql (WithdrawRegistration ev (ht_id p) (ht_tournamentID p) d))
       (\<lambda>(r, d1).
         let d2 = CreateAuditLog ev (auditParams (ht_orgID p) (ht_actorID p) AuditActionDelete
                    ''tournament_registrations'' (ht_id p) (ht_oldData p) PEmpty) d1
         in Inr (registration_outbox ev NotificationEventTypeRegistrationWithdrawn (ht_orgID p) (ht_actorID p)
              (ht_id p) r (ht_previousStatus p) RegistrationStatusWithdrawn d2))"

section \<open>Register\<close>

definition reg_GetOrgBySlug :: "database \<Rightarrow> string \<Rightarrow> registration_error + org_row" where
  "reg_GetOrgBySlug d slug = no_rows_as ErrOrganizationNotFound ErrSql (GetOrganizationBySlug d slug)"

text \<open>The tournament of the URL; an id that is no UUID is not found.\<close>

definition reg_tournament :: "env \<Rightarrow> database \<Rightarrow> uuid \<Rightarrow> string \<Rightarrow> registration_error + tournament_row" where
  "reg_tournament ev d orgID tournamentID =
     res_bind (res_map_err (\<lambda>_. ErrTournamentNotFound) (ParseUUID (env_scan ev) tournamentID)) (\<lambda>tid.
       no_rows_as ErrTournamentNotFound ErrSql (GetTournamentByID d tid orgID))"

fun not_registered :: "sql_error + registration_row \<Rightarrow> registration_error + unit" where
  "not_registered (Inl ErrNoRows) = Inr ()"
| "not_registered (Inl e) = Inl (ErrSql e)"
| "not_registered (Inr _) = Inl ErrAlreadyRegistered"

definition registerTeam :: "env \<Rightarrow> database \<Rightarrow> uuid \<Rightarrow> uuid \<Rightarrow> int option \<Rightarrow> RegistrationCreateRequest \<Rightarrow> uuid
    \<Rightarrow> registration_error + createRegistrationTxParams" where
  "registerTeam ev d tid orgID maxParticipants req actorUID =
     res_bind (ensure (derefStr (rq_TeamID req) \<noteq> []) ErrWrongParticipantType) (\<lambda>_.
     res_bind (res_map_err (\<lambda>_. ErrTeamNotFound) (ParseUUID (env_scan ev) (derefStr (rq_TeamID req)))) (\<lambda>teamUID.
     res_bind (no_rows_as ErrCrossOrgRegistration ErrSql (GetTeamByID d teamUID orgID)) (\<lambda>team.
     res_bind (ensure (tm_Status team = TeamStatusActive) ErrTeamNotActive) (\<lambda>_.
     res_bind (not_registered (GetRegistrationByTeam d tid teamUID)) (\<lambda>_.
     res_bind (ensure (HasActiveMembersByTeam d teamUID orgID) ErrEmptyTeam) (\<lambda>_.
       Inr \<lparr>qt_createParams = \<lparr>rp_TournamentID = tid, rp_OrganizationID = orgID, rp_TeamID = teamUID,
              rp_PlayerID = None, rp_RegisteredBy = actorUID, rp_Notes = rq_Notes req\<rparr>,
            qt_actorID = actorUID, qt_maxParticipants = maxParticipants\<rparr>))))))"

definition registerPlayer :: "env \<Rightarrow> database \<Rightarrow> uuid \<Rightarrow> uuid \<Rightarrow> int option \<Rightarrow> RegistrationCreateRequest \<Rightarrow> uuid
    \<Rightarrow> registration_error + createRegistrationTxParams" where
  "registerPlayer ev d tid orgID maxParticipants req actorUID =
     res_bind (ensure (derefStr (rq_PlayerID req) \<noteq> []) ErrWrongParticipantType) (\<lambda>_.
     res_bind (res_map_err (\<lambda>_. ErrPlayerNotFound) (ParseUUID (env_scan ev) (derefStr (rq_PlayerID req)))) (\<lambda>playerUID.
     res_bind (no_rows_as ErrCrossOrgRegistration ErrSql (GetPlayerByID d playerUID orgID)) (\<lambda>player.
     res_bind (ensure (pl_Status player = PlayerStatusActive) ErrPlayerNotActive) (\<lambda>_.
     res_bind (not_registered (GetRegistrationByPlayer d tid (Some (uuid_Bytes playerUID)))) (\<lambda>_.
       Inr \<lparr>qt_createParams = \<lparr>rp_TournamentID = tid, rp_OrganizationID = orgID, rp_TeamID = None,
              rp_PlayerID = Some (uuid_Bytes playerUID), rp_RegisteredBy = actorUID, rp_Notes = rq_Notes req\<rparr>,
            qt_actorID = actorUID, qt_maxParticipants = maxParticipants\<rparr>)))))"

definition prepare_register :: "env \<Rightarrow> database \<Rightarrow> string \<Rightarrow> string \<Rightarrow> RegistrationCreateRequest \<Rightarrow> string \<Rightarrow> string
    \<Rightarrow> registration_error + createRegistrationTxParams" where
  "prepare_register ev d orgSlug tournamentID req actorID actorOrgID =
     res_bind (reg_GetOrgBySlug d orgSlug) (\<lambda>org.
     res_bind (assert_owner ErrForbidden actorOrgID (UUIDToString (o_ID org))) (\<lambda>_.
     res_bind (reg_tournament ev d (o_ID org) tournamentID) (\<lambda>t.
     res_bind (ensure (t_Status t = TournamentStatusRegistrationOpen) ErrRegistrationClosed) (\<lambda>_.
     res_bind (validateRegistrationWindow ev t) (\<lambda>_.
     res_bind (res_map_err (\<lambda>_. ErrInvalidActor) (ParseUUID (env_scan ev) actorID)) (\<lambda>actorUID.
       (if t_ParticipantType t = ParticipantTypeIndividual then registerPlayer else registerTeam)
         ev d (t_ID t) (o_ID org) (t_MaxParticipants t) req actorUID))))))"

definition registration_Register :: "env \<Rightarrow> string \<Rightarrow> string \<Rightarrow> RegistrationCreateRequest \<Rightarrow> string \<Rightarrow> string
    \<Rightarrow> database \<Rightarrow> registration_error + (RegistrationResponse \<times> database)" where
  "registration_Register ev orgSlug tournamentID req actorID actorOrgID d =
     res_bind (prepare_register ev d orgSlug tournamentID req actorID actorOrgID) (\<lambda>p.
     res_bind (registration_CreateWithAudit ev p d) (\<lambda>(r, d'). Inr (registrationToResponse ev r, d')))"

section \<open>List and lookup\<close>

definition parse_filter :: "'e \<Rightarrow> env \<Rightarrow> string option \<Rightarrow> 'e + uuid" where
  "parse_filter e ev s = (if derefStr s = [] then Inr None
     else res_map_err (\<lambda>_. e) (ParseUUID (env_scan ev) (derefStr s)))"

definition parseParticipantFilters :: "env \<Rightarrow> RegistrationListParams \<Rightarrow> registration_error + (uuid \<times> uuid)" where
  "parseParticipantFilters ev params =
     res_bind (parse_filter ErrTeamNotFound ev (rl_TeamFilter params)) (\<lambda>team.
     res_bind (parse_filter ErrPlayerNotFound ev (rl_PlayerFilter params)) (\<lambda>player. Inr (team, player)))"

definition clamp_registration_params :: "RegistrationListParams \<Rightarrow> RegistrationListParams" where
  "clamp_registration_params p =
     (let p = (if rl_Limit p \<le> 0 \<or> rl_Limit p > 200 then p\<lparr>rl_Limit := 50\<rparr> else p)
      in if rl_Offset p < 0 then p\<lparr>rl_Offset := 0\<rparr> else p)"

definition registration_List :: "env \<Rightarrow> string \<Rightarrow> string \<Rightarrow> RegistrationListParams \<Rightarrow> database
    \<Rightarrow> registration_error + RegistrationListResponse" where
  "registration_List ev orgSlug tournamentID params d =
     res_bind (reg_GetOrgBySlug d orgSlug) (\<lambda>org.
     res_bind (reg_tournament ev d (o_ID org) tournamentID) (\<lambda>t.
       let p = clamp_registration_params params in
     res_bind (parseParticipantFilters ev p) (\<lambda>(team, player).
       Inr \<lparr>rz_Registrations = map (registrationRowToResponse ev) (ListRegistrationsByTournamentPaginated d
              (t_ID t) (rl_StatusFilter p) team player (rl_Offset p) (rl_Limit p)),
            rz_Total = CountRegistrationsByTournament d (t_ID t) (rl_StatusFilter p) team player,
            rz_Limit = rl_Limit p, rz_Offset = rl_Offset p\<rparr>)))"

definition registration_of_url :: "env \<Rightarrow> database \<Rightarrow> uuid \<Rightarrow> string \<Rightarrow> registration_error + registration_row" where
  "registration_of_url ev d tid registrationID =
     res_bind (res_map_err (\<lambda>_. ErrRegistrationNotFound) (ParseUUID (env_scan ev) registrationID)) (\<lambda>rid.
       no_rows_as ErrRegistrationNotFound ErrSql (GetRegistrationByID d rid tid))"

definition registration_Get :: "env \<Rightarrow> string \<Rightarrow> string \<Rightarrow> string \<Rightarrow> database
    \<Rightarrow> registration_error + RegistrationResponse" where
  "registration_Get ev orgSlug tournamentID registrationID d =
     res_bind (reg_GetOrgBySlug d orgSlug) (\<lambda>org.
     res_bind (reg_tournament ev d (o_ID org) tournamentID) (\<lambda>t.
     res_bind (registration_of_url ev d (t_ID t) registrationID) (\<lambda>r. Inr (registrationToResponse ev r))))"

section \<open>Update and withdraw\<close>

definition registration_params :: "registration_row \<Rightarrow> UpdateRegistrationParams" where
  "registration_params r = \<lparr>ru_ID = r_ID r, ru_TournamentID = r_TournamentID r, ru_Status = r_Status r,
     ru_SeedNumber = r_SeedNumber r, ru_Notes = r_Notes r, ru_ApprovedBy = r_ApprovedBy r,
     ru_Column7 = r_ApprovedAt r\<rparr>"

definition overlay_registration :: "env \<Rightarrow> RegistrationUpdateRequest \<Rightarrow> uuid \<Rightarrow> registration_row
    \<Rightarrow> registration_error + UpdateRegistrationParams" where
  "overlay_registration ev req actorUID current =
     (let p = registration_params current;
          p = p\<lparr>ru_SeedNumber := (if rw_SeedNumber req = None then ru_SeedNumber p else rw_SeedNumber req),
                ru_Notes := (if rw_Notes req = None then ru_Notes p else rw_Notes req)\<rparr>
      in case rw_Status req of
           None \<Rightarrow> Inr p
         | Some s \<Rightarrow> res_bind (parseRegistrationStatus s) (\<lambda>new.
             res_bind (registration_validateStatusTransition (r_Status current) new) (\<lambda>_.
               let p = p\<lparr>ru_Status := new\<rparr> in
               Inr (if new = RegistrationStatusApproved
                    then p\<lparr>ru_ApprovedBy := actorUID, ru_Column7 := Some (env_now ev)\<rparr> else p))))"

text \<open>The guards the two writes share: the registration of the URL, and the actor.\<close>

definition registration_target :: "env \<Rightarrow> database \<Rightarrow> string \<Rightarrow> string \<Rightarrow> string \<Rightarrow> string \<Rightarrow> string
    \<Rightarrow> registration_error + (org_row \<times> tournament_row \<times> registration_row \<times> uuid)" where
  "registration_target ev d orgSlug tournamentID registrationID actorID actorOrgID =
     res_bind (reg_GetOrgBySlug d orgSlug) (\<lambda>org.
     res_bind (assert_owner ErrForbidden actorOrgID (UUIDToString (o_ID org))) (\<lambda>_.
     res_bind (reg_tournament ev d (o_ID org) tournamentID) (\<lambda>t.
     res_bind (registration_of_url ev d (t_ID t) registrationID) (\<lambda>current.
     res_bind (res_map_err (\<lambda>_. ErrInvalidActor) (ParseUUID (env_scan ev) actorID)) (\<lambda>actorUID.
       Inr (org, t, current, actorUID))))))"

definition prepare_registration_update :: "env \<Rightarrow> database \<Rightarrow> string \<Rightarrow> string \<Rightarrow> string
    \<Rightarrow> RegistrationUpdateRequest \<Rightarrow> string \<Rightarrow> string \<Rightarrow> registration_error + updateRegistrationTxParams" where
  "prepare_registration_update ev d orgSlug tournamentID registrationID req actorID actorOrgID =
     res_bind (registration_target ev d orgSlug tournamentID registrationID actorID actorOrgID)
       (\<lambda>(org, t, current, actorUID).
     res_bind (overlay_registration ev req actorUID current) (\<lambda>p.
       Inr \<lparr>yt_updateParams = p, yt_actorID = actorUID, yt_orgID = o_ID org,
            yt_oldData = PDoc (registration_response_json (registrationToResponse ev current)),
            yt_previousStatus = r_Status current\<rparr>))"

definition registration_Update :: "env \<Rightarrow> string \<Rightarrow> string \<Rightarrow> string \<Rightarrow> RegistrationUpdateRequest
    \<Rightarrow> string \<Rightarrow> string \<Rightarrow> database \<Rightarrow> registration_error + (RegistrationResponse \<times> database)" where
  "registration_Update ev orgSlug tournamentID registrationID req actorID actorOrgID d =
     res_bind (prepare_registration_update ev d orgSlug tournamentID registrationID req actorID actorOrgID) (\<lambda>p.
     res_bind (registration_UpdateWithAudit ev p d) (\<lambda>(r, d'). Inr (registrationToResponse ev r, d')))"

definition prepare_withdraw :: "env \<Rightarrow> database \<Rightarrow> string \<Rightarrow> string \<Rightarrow> string \<Rightarrow> string \<Rightarrow> string
    \<Rightarrow> registration_error + withdrawRegistrationTxParams" where
  "prepare_withdraw ev d orgSlug tournamentID registrationID actorID actorOrgID =
     res_bind (registration_target ev d orgSlug tournamentID registrationID actorID actorOrgID)
       (\<lambda>(org, t, current, actorUID).
       Inr \<lparr>ht_id = r_ID current, ht_tournamentID = t_ID t, ht_orgID = o_ID org, ht_actorID = actorUID,
            ht_oldData = PDoc (registration_response_json (registrationToResponse ev current)),
            ht_previousStatus = r_Status current\<rparr>)"

definition registration_Withdraw :: "env \<Rightarrow> string \<Rightarrow> string \<Rightarrow> string \<Rightarrow> string \<Rightarrow> string \<Rightarrow> database
    \<Rightarrow> registration_error + database" where
  "registration_Withdraw ev orgSlug tournamentID registrationID actorID actorOrgID d =
     res_bind (prepare_withdraw ev d orgSlug tournamentID registrationID actorID actorOrgID)
       (\<lambda>p. registration_WithdrawWithAudit ev p d)"

end
