(* ===== verification/Registration_Properties.thy ===== *)
theory Registration_Properties
  imports Registration_Service Demo_Data
begin

text \<open>
  The registrations of a tournament under any sequence of requests, each served as a whole, and what
  two interleaved requests can do.
\<close>

section \<open>Sequences of requests\<close>

inductive reg_step :: "database \<Rightarrow> database \<Rightarrow> bool" where
  register: "registration_Register ev slug tid req actor actorOrg d = Inr (resp, d') \<Longrightarrow> reg_step d d'"
| update: "registration_Update ev slug tid rid ureq actor actorOrg d = Inr (resp, d') \<Longrightarrow> reg_step d d'"
| withdraw: "registration_Withdraw ev slug tid rid actor actorOrg d = Inr d' \<Longrightarrow> reg_step d d'"

definition regs_ok :: "registration_row list \<Rightarrow> bool" where
  "regs_ok rows \<longleftrightarrow> distinct (map r_ID rows)
     \<and> (\<forall>r \<in> set rows. \<forall>r' \<in> set rows. same_participant r r' \<longrightarrow> r_ID r = r_ID r')"

definition within_capacity :: "database \<Rightarrow> bool" where
  "within_capacity d \<longleftrightarrow> (\<forall>t \<in> set (tournaments d). \<forall>mx. t_MaxParticipants t = Some mx
     \<longrightarrow> CountActiveRegistrations d (t_ID t) \<le> mx)"

section \<open>What one request does to the rows\<close>

lemma registration_outbox_frame [simp, frame_simps]:
  "tournament_registrations (registration_outbox ev et org actor e r a b d) = tournament_registrations d"
  "tournaments (registration_outbox ev et org actor e r a b d) = tournaments d"
  by (simp_all add: registration_outbox_def)

lemma CreateWithAudit_rows:
  assumes "registration_CreateWithAudit ev p d = Inr (r, d')"
  shows "tournament_registrations d' = tournament_registrations d @ [r] \<and> tournaments d' = tournaments d
    \<and> r_TournamentID r = rp_TournamentID (qt_createParams p) \<and> r_Status r = RegistrationStatusPending
    \<and> r_ID r \<notin> r_ID ` set (tournament_registrations d) \<and> r_ID r \<noteq> None
    \<and> (\<forall>r' \<in> set (tournament_registrations d). \<not> same_participant r' r)
    \<and> (\<forall>mx. qt_maxParticipants p = Some mx \<longrightarrow>
         CountActiveRegistrations d (rp_TournamentID (qt_createParams p)) < mx)"
  using assms
  by (auto simp: registration_CreateWithAudit_def check_capacity_def res_bind_eq_Inr CreateRegistration_Inr Let_def
      created_registration_def split: option.splits)

lemma prepare_register_capacity:
  assumes "prepare_register ev d slug tid req actor actorOrg = Inr p"
  shows "\<exists>t \<in> set (tournaments d). rp_TournamentID (qt_createParams p) = t_ID t \<and> qt_maxParticipants p = t_MaxParticipants t
    \<and> t_Status t = TournamentStatusRegistrationOpen"
  using assms
  by (auto simp: prepare_register_def res_bind_eq_Inr reg_tournament_def GetTournamentByID_def select_one_Inr
      registerTeam_def registerPlayer_def split: if_splits dest!: find_SomeD)

lemma overlay_registration_status:
  assumes "overlay_registration ev req actor current = Inr p"
  shows "ru_ID p = r_ID current \<and> ru_TournamentID p = r_TournamentID current
    \<and> (ru_Status p = r_Status current \<or> (r_Status current, ru_Status p) \<in> registration_life.moves)"
  using assms
  by (auto simp: overlay_registration_def registration_params_def Let_def res_bind_eq_Inr
      registration_validateStatusTransition_def registration_life.check_transition_Inr split: option.splits if_splits)

lemma registration_UpdateWithAudit_rows:
  assumes "registration_UpdateWithAudit ev p d = Inr (r, d')"
  shows "tournament_registrations d' = update_rows (registration_key (ru_ID (yt_updateParams p)) (ru_TournamentID (yt_updateParams p)))
      (updated_registration ev (yt_updateParams p)) (tournament_registrations d) \<and> tournaments d' = tournaments d"
proof -
  from assms obtain d1 where u: "UpdateRegistration ev (yt_updateParams p) d = Inr (r, d1)"
      "tournament_registrations d' = tournament_registrations d1" "tournaments d' = tournaments d1"
    unfolding registration_UpdateWithAudit_def
    by (clarsimp simp: res_bind_eq_Inr Let_def) (simp split: if_splits option.splits)
  from u(1) show ?thesis unfolding UpdateRegistration_def update_registration_Inr u(2,3) by auto
qed

lemma WithdrawWithAudit_rows:
  assumes "registration_WithdrawWithAudit ev p d = Inr d'"
  shows "tournament_registrations d' = update_rows (\<lambda>r. registration_key (ht_id p) (ht_tournamentID p) r
        \<and> r_Status r \<in> {RegistrationStatusPending, RegistrationStatusApproved})
      (withdrawn_registration ev) (tournament_registrations d) \<and> tournaments d' = tournaments d"
  using assms
  by (auto simp: registration_WithdrawWithAudit_def res_bind_eq_Inr WithdrawRegistration_def update_registration_Inr Let_def)

lemma registration_target_row:
  assumes "registration_target ev d slug tid rid actor actorOrg = Inr (org, t, current, actorUID)"
  shows "current \<in> set (tournament_registrations d)"
  using assms
  by (auto simp: registration_target_def res_bind_eq_Inr registration_of_url_def GetRegistrationByID_def select_one_Inr
      dest!: find_SomeD)

section \<open>Invariants\<close>

lemma filter_update_rows_le:
  "(\<And>r. r \<in> set rows \<Longrightarrow> K r \<Longrightarrow> P (upd r) \<Longrightarrow> P r) \<Longrightarrow>
     length (filter P (update_rows K upd rows)) \<le> length (filter P rows)"
  by (induction rows) (fastforce simp: update_rows_def)+

lemma active_moves:
  "(s, t) \<in> registration_life.moves \<Longrightarrow> t \<in> {RegistrationStatusPending, RegistrationStatusApproved} \<Longrightarrow>
     s \<in> {RegistrationStatusPending, RegistrationStatusApproved}"
  by (cases s) (auto simp: registration_life.moves_def)

lemma regs_ok_update_rows:
  assumes "regs_ok rows" "\<And>r. r_ID (upd r) = r_ID r \<and> r_TournamentID (upd r) = r_TournamentID r
    \<and> r_TeamID (upd r) = r_TeamID r \<and> r_PlayerID (upd r) = r_PlayerID r"
  shows "regs_ok (update_rows K upd rows)"
proof -
  have "map r_ID (update_rows K upd rows) = map r_ID rows" using assms(2) by (simp add: update_rows_def)
  then show ?thesis using assms by (auto simp: regs_ok_def in_update_rows same_participant_def split: if_splits)
qed

lemma regs_ok_append:
  assumes "regs_ok rows" "r_ID r \<notin> r_ID ` set rows" "\<forall>r' \<in> set rows. \<not> same_participant r' r"
  shows "regs_ok (rows @ [r])"
proof -
  have "\<not> same_participant r r'" if "r' \<in> set rows" for r'
    using assms(3) that by (metis same_participant_def sql_eq_iff)
  with assms show ?thesis unfolding regs_ok_def by auto
qed

lemma count_mono:
  assumes "\<And>t. length (filter (active_registration t) (tournament_registrations d'))
      \<le> length (filter (active_registration t) (tournament_registrations d))"
    and "tournaments d' = tournaments d" "within_capacity d"
  shows "within_capacity d'"
  unfolding within_capacity_def
proof (intro ballI allI impI)
  fix t mx assume t: "t \<in> set (tournaments d')" "t_MaxParticipants t = Some mx"
  have "CountActiveRegistrations d' (t_ID t) \<le> CountActiveRegistrations d (t_ID t)"
    using assms(1)[of "t_ID t"] by (simp add: CountActiveRegistrations_def)
  also have "\<dots> \<le> mx" using t assms(2,3) by (simp add: within_capacity_def)
  finally show "CountActiveRegistrations d' (t_ID t) \<le> mx" .
qed

lemma reg_step_invariant:
  assumes "reg_step d d'" "regs_ok (tournament_registrations d)" "within_capacity d" "distinct (map t_ID (tournaments d))"
  shows "regs_ok (tournament_registrations d') \<and> within_capacity d' \<and> tournaments d' = tournaments d"
  using assms(1)
proof (cases rule: reg_step.cases)
  case (register ev slug tid req actor actorOrg resp)
  then obtain p r where p: "prepare_register ev d slug tid req actor actorOrg = Inr p"
      "registration_CreateWithAudit ev p d = Inr (r, d')"
    by (auto simp: registration_Register_def res_bind_eq_Inr)
  note row = CreateWithAudit_rows[OF p(2)]
  from prepare_register_capacity[OF p(1)] obtain t where t: "t \<in> set (tournaments d)"
      "rp_TournamentID (qt_createParams p) = t_ID t" "qt_maxParticipants p = t_MaxParticipants t" by blast
  have "CountActiveRegistrations d' (t_ID t') \<le> mx" if "t' \<in> set (tournaments d)" "t_MaxParticipants t' = Some mx" for t' mx
  proof (cases "t' = t")
    case True
    with row t that show ?thesis
      by (auto simp: CountActiveRegistrations_def active_registration_def)
  next
    case False
    with assms(4) t(1) that(1) have "t_ID t' \<noteq> t_ID t" by (auto simp: distinct_map dest: inj_onD)
    with row t(2) that assms(3) show ?thesis
      by (auto simp: within_capacity_def CountActiveRegistrations_def active_registration_def sql_eq_iff)
  qed
  with row assms(2) show ?thesis by (auto simp: within_capacity_def intro: regs_ok_append)
next
  case (update ev slug tid rid req actor actorOrg resp)
  then obtain org t current actorUID p q r where u:
      "registration_target ev d slug tid rid actor actorOrg = Inr (org, t, current, actorUID)"
      "overlay_registration ev req actorUID current = Inr p" "registration_UpdateWithAudit ev q d = Inr (r, d')"
      "yt_updateParams q = p"
    by (auto simp: registration_Update_def prepare_registration_update_def res_bind_eq_Inr split: prod.splits)
  note o = overlay_registration_status[OF u(2)]
  note rows = registration_UpdateWithAudit_rows[OF u(3), unfolded u(4)]
  have "x = current" if "x \<in> set (tournament_registrations d)" "registration_key (ru_ID p) (ru_TournamentID p) x" for x
    using that registration_target_row[OF u(1)] o assms(2)
    by (auto simp: regs_ok_def distinct_map registration_key_def sql_eq_iff dest: inj_onD)
  moreover have "active_registration tt current" if "active_registration tt (updated_registration ev p current)" for tt
    using that o active_moves[of "r_Status current" "ru_Status p"]
    by (auto simp: active_registration_def updated_registration_def)
  ultimately have "length (filter (active_registration tt) (tournament_registrations d'))
      \<le> length (filter (active_registration tt) (tournament_registrations d))" for tt
    unfolding rows[THEN conjunct1] by (intro filter_update_rows_le) metis
  from count_mono[OF this] rows assms(2,3) show ?thesis
    by (auto intro!: regs_ok_update_rows simp: updated_registration_def)
next
  case (withdraw ev slug tid rid actor actorOrg)
  then obtain p where "registration_WithdrawWithAudit ev p d = Inr d'"
    by (auto simp: registration_Withdraw_def res_bind_eq_Inr)
  note rows = WithdrawWithAudit_rows[OF this]
  have "length (filter (active_registration tt) (tournament_registrations d'))
      \<le> length (filter (active_registration tt) (tournament_registrations d))" for tt
    unfolding rows[THEN conjunct1]
    by (intro filter_update_rows_le) (auto simp: active_registration_def withdrawn_registration_def)
  from count_mono[OF this] rows assms(2,3) show ?thesis
    by (auto intro!: regs_ok_update_rows simp: withdrawn_registration_def)
qed

section \<open>A tournament for one team\<close>

definition demo_member :: "128 word \<Rightarrow> membership_row" where
  "demo_member team = \<lparr>ms_ID = Some (80 + team), ms_TeamID = Some team, ms_PlayerID = Some 30, ms_Role = MembershipRolePlayer,
     ms_JerseyNumber = None, ms_Status = MembershipStatusActive, ms_JoinedAt = Some 0, ms_LeftAt = None,
     ms_Notes = None, ms_CreatedAt = Some 0, ms_UpdatedAt = Some 0, ms_OrganizationID = Some 1\<rparr>"

definition demo_open :: tournament_row where
  "demo_open = (demo_tournament TournamentStatusRegistrationOpen)\<lparr>t_MaxParticipants := Some 1\<rparr>"

definition demo_pending :: "128 word \<Rightarrow> 128 word \<Rightarrow> registration_row" where
  "demo_pending i team = \<lparr>r_ID = Some i, r_TournamentID = Some 5, r_OrganizationID = Some 1, r_TeamID = Some team,
     r_PlayerID = None, r_SeedNumber = None, r_Status = RegistrationStatusPending, r_RegisteredBy = Some 7,
     r_RegisteredAt = Some 9, r_ApprovedBy = None, r_ApprovedAt = None, r_Notes = None, r_Metadata = empty_object,
     r_CreatedAt = Some 9, r_UpdatedAt = Some 9\<rparr>"

definition demo_tables :: "registration_row list \<Rightarrow> database \<Rightarrow> bool" where
  "demo_tables rows d \<longleftrightarrow> organizations d = [demo_org] \<and> teams d = map demo_team [10, 11] \<and> players d = []
     \<and> team_memberships d = map demo_member [10, 11] \<and> tournaments d = [demo_open] \<and> tournament_registrations d = rows"

definition demo_register :: "string \<Rightarrow> RegistrationCreateRequest" where
  "demo_register team = \<lparr>rq_TeamID = Some team, rq_PlayerID = None, rq_Notes = None\<rparr>"

lemmas register_simps = registration_Register_def prepare_register_def reg_GetOrgBySlug_def GetOrganizationBySlug_def
  select_one_def assert_owner_def reg_tournament_def ParseUUID_def GetTournamentByID_def validateRegistrationWindow_def
  registerTeam_def GetTeamByID_def GetRegistrationByTeam_def HasActiveMembersByTeam_def
  registration_CreateWithAudit_def check_capacity_def LockTournamentForUpdate_def CountActiveRegistrations_def
  active_registration_def CreateRegistration_def created_registration_def registration_checks_def
  registration_references_def refers_def same_participant_def Let_def
  demo_open_def demo_tournament_def demo_pending_def demo_register_def demo_member_def demo_team_def demo_org_def
  demo_env_def demo_scan_def

lemma demo_register_first:
  assumes "demo_tables [] d"
  shows "\<exists>resp d'. registration_Register (demo_env 60 9) ''club'' ''t'' (demo_register ''a'') ''u'' [] d = Inr (resp, d')
    \<and> demo_tables [demo_pending 60 10] d'"
  using assms by (simp add: demo_tables_def register_simps)

definition demo_withdrawn :: registration_row where
  "demo_withdrawn = (demo_pending 60 10)\<lparr>r_Status := RegistrationStatusWithdrawn\<rparr>"

definition demo_approved :: registration_row where
  "demo_approved = (demo_pending 60 10)\<lparr>r_Status := RegistrationStatusApproved, r_ApprovedBy := Some 7,
     r_ApprovedAt := Some 9\<rparr>"

definition demo_approve :: RegistrationUpdateRequest where
  "demo_approve = \<lparr>rw_Status = Some ''approved'', rw_SeedNumber = None, rw_Notes = None\<rparr>"

definition demo_reg_scan :: env where
  "demo_reg_scan = (demo_env 61 9)\<lparr>env_scan := map_of [(''t'', 5), (''a'', 10), (''b'', 11), (''r'', 60), (''u'', 7)]\<rparr>"

lemma demo_approved_string [simp]: "strings_ToLower (strings_TrimSpace ''approved'') = ''approved''"
  by (rule lower_word; simp add: lower_char_def plain_char_def)

lemmas withdraw_simps = registration_target_def registration_of_url_def GetRegistrationByID_def registration_key_def
  overlay_registration_def registration_params_def parseRegistrationStatus_def
  registration_validateStatusTransition_def check_transition_def UpdateRegistration_def WithdrawRegistration_def
  update_registration_def updated_registration_def withdrawn_registration_def update_rows_def greatest_def
  demo_withdrawn_def demo_approved_def demo_approve_def demo_reg_scan_def

definition demo_approve_tx :: "payload \<Rightarrow> updateRegistrationTxParams" where
  "demo_approve_tx od = \<lparr>yt_updateParams = \<lparr>ru_ID = Some 60, ru_TournamentID = Some 5,
       ru_Status = RegistrationStatusApproved, ru_SeedNumber = None, ru_Notes = None, ru_ApprovedBy = Some 7,
       ru_Column7 = Some 9\<rparr>,
     yt_actorID = Some 7, yt_orgID = Some 1, yt_oldData = od, yt_previousStatus = RegistrationStatusPending\<rparr>"

lemma demo_prepare_approve:
  assumes "demo_tables [demo_pending 60 10] d"
  shows "\<exists>od. prepare_registration_update demo_reg_scan d ''club'' ''t'' ''r'' demo_approve ''u'' [] = Inr (demo_approve_tx od)"
  using assms by (simp add: demo_tables_def prepare_registration_update_def demo_approve_tx_def withdraw_simps register_simps)

lemma demo_withdraw_first:
  assumes "demo_tables [demo_pending 60 10] d"
  shows "\<exists>d'. registration_Withdraw demo_reg_scan ''club'' ''t'' ''r'' ''u'' [] d = Inr d' \<and> demo_tables [demo_withdrawn] d'"
  using assms by (simp add: demo_tables_def registration_Withdraw_def prepare_withdraw_def registration_WithdrawWithAudit_def
      registration_outbox_def withdraw_simps register_simps)

lemma demo_register_second:
  assumes "demo_tables [demo_withdrawn] d"
  shows "\<exists>resp d'. registration_Register demo_reg_scan ''club'' ''t'' (demo_register ''b'') ''u'' [] d = Inr (resp, d')
    \<and> demo_tables [demo_withdrawn, demo_pending 61 11] d'"
  using assms by (simp add: demo_tables_def withdraw_simps register_simps)

lemma demo_commit_approve:
  assumes "demo_tables [demo_withdrawn, demo_pending 61 11] d"
  shows "\<exists>r d'. registration_UpdateWithAudit demo_reg_scan (demo_approve_tx od) d = Inr (r, d')
    \<and> demo_tables [demo_approved, demo_pending 61 11] d'"
  using assms by (simp add: demo_tables_def registration_UpdateWithAudit_def demo_approve_tx_def registration_outbox_def
      withdraw_simps register_simps)

section \<open>Properties\<close>

text \<open>
  C26: whatever registrations, approvals and withdrawals are served, one after the other, the number of
  pending and approved registrations of a tournament never exceeds its maximum, the participant of a
  registration is registered once per tournament, and identifiers stay unique.
\<close>

theorem registration_capacity:
  assumes "reg_step\<^sup>*\<^sup>* d d'" "distinct (map t_ID (tournaments d))"
    and "regs_ok (tournament_registrations d)" "within_capacity d"
  shows "regs_ok (tournament_registrations d') \<and> within_capacity d' \<and> tournaments d' = tournaments d"
  using assms(1)
proof (induction rule: rtranclp_induct)
  case base
  show ?case using assms by simp
next
  case (step d1 d2)
  with reg_step_invariant[OF step.hyps(2)] assms(2) show ?case by simp
qed

lemma registration_capacity_witness:
  "\<exists>d. demo_tables [demo_pending 60 10] d \<and> within_capacity d \<and> regs_ok (tournament_registrations d)"
proof -
  define d where "d = (demo_db TournamentStatusRegistrationOpen)\<lparr>teams := map demo_team [10, 11],
    team_memberships := map demo_member [10, 11], tournaments := [demo_open], tournament_registrations := []\<rparr>"
  have t: "demo_tables [] d" by (simp add: demo_tables_def d_def demo_db_def)
  from demo_register_first[OF t] obtain resp d' where
      r: "registration_Register (demo_env 60 9) ''club'' ''t'' (demo_register ''a'') ''u'' [] d = Inr (resp, d')"
      "demo_tables [demo_pending 60 10] d'" by blast
  have "within_capacity d" "regs_ok (tournament_registrations d)" "distinct (map t_ID (tournaments d))"
    using t by (simp_all add: demo_tables_def within_capacity_def CountActiveRegistrations_def demo_open_def regs_ok_def)
  with registration_capacity[OF r_into_rtranclp[of reg_step, OF reg_step.register[OF r(1)]]] r(2) show ?thesis by blast
qed

text \<open>
  A new registration is accepted only below the maximum, as a pending one, and not for a participant
  the tournament already has, in whatever state the database is when its transaction commits.
\<close>

lemma register_commit_guarded:
  assumes "registration_CreateWithAudit ev p d = Inr (r, d')" "qt_maxParticipants p = Some mx"
  shows "CountActiveRegistrations d (r_TournamentID r) < mx
    \<and> CountActiveRegistrations d' (r_TournamentID r) \<le> mx
    \<and> tournament_registrations d' = tournament_registrations d @ [r] \<and> r_Status r = RegistrationStatusPending
    \<and> (\<forall>r' \<in> set (tournament_registrations d). \<not> same_participant r' r)"
  using CreateWithAudit_rows[OF assms(1)] assms(2)
  by (auto simp: CountActiveRegistrations_def active_registration_def)

lemma register_commit_guarded_witness:
  "\<exists>d r d'. registration_CreateWithAudit (demo_env 60 9) \<lparr>qt_createParams = \<lparr>rp_TournamentID = Some 5,
       rp_OrganizationID = Some 1, rp_TeamID = Some 10, rp_PlayerID = None, rp_RegisteredBy = Some 7, rp_Notes = None\<rparr>,
     qt_actorID = Some 7, qt_maxParticipants = Some 1\<rparr> d = Inr (r, d') \<and> CountActiveRegistrations d' (r_TournamentID r) \<le> 1"
proof -
  define d where "d = (demo_db TournamentStatusRegistrationOpen)\<lparr>tournaments := [demo_open],
    tournament_registrations := []\<rparr>"
  define p where "p = \<lparr>qt_createParams = \<lparr>rp_TournamentID = Some 5,
       rp_OrganizationID = Some 1, rp_TeamID = Some 10, rp_PlayerID = None, rp_RegisteredBy = Some 7, rp_Notes = None\<rparr>,
     qt_actorID = Some 7, qt_maxParticipants = Some 1\<rparr>"
  have "\<exists>r d'. registration_CreateWithAudit (demo_env 60 9) p d = Inr (r, d')"
    by (simp add: p_def d_def demo_db_def register_simps)
  then obtain r d' where r: "registration_CreateWithAudit (demo_env 60 9) p d = Inr (r, d')" by blast
  from register_commit_guarded[OF r, of 1] r show ?thesis by (auto simp: p_def)
qed

section \<open>Interleaved requests\<close>

text \<open>
  The update of a registration carries no condition on its status: an approval prepared before a
  withdrawal commits after it, brings the withdrawn registration back, and the tournament for one team
  ends with two active registrations.
\<close>

theorem stale_approval_exceeds_capacity:
  "\<exists>d d1 d2 d3 od resp r. demo_tables [demo_pending 60 10] d
     \<and> prepare_registration_update demo_reg_scan d ''club'' ''t'' ''r'' demo_approve ''u'' [] = Inr (demo_approve_tx od)
     \<and> registration_Withdraw demo_reg_scan ''club'' ''t'' ''r'' ''u'' [] d = Inr d1
     \<and> registration_Register demo_reg_scan ''club'' ''t'' (demo_register ''b'') ''u'' [] d1 = Inr (resp, d2)
     \<and> registration_UpdateWithAudit demo_reg_scan (demo_approve_tx od) d2 = Inr (r, d3)
     \<and> within_capacity d2 \<and> \<not> within_capacity d3"
proof -
  define d where "d = (demo_db TournamentStatusRegistrationOpen)\<lparr>teams := map demo_team [10, 11],
    team_memberships := map demo_member [10, 11], tournaments := [demo_open],
    tournament_registrations := [demo_pending 60 10]\<rparr>"
  have t: "demo_tables [demo_pending 60 10] d" by (simp add: demo_tables_def d_def demo_db_def)
  from demo_prepare_approve[OF t] obtain od where
      p: "prepare_registration_update demo_reg_scan d ''club'' ''t'' ''r'' demo_approve ''u'' [] = Inr (demo_approve_tx od)" ..
  from demo_withdraw_first[OF t] obtain d1 where
      w: "registration_Withdraw demo_reg_scan ''club'' ''t'' ''r'' ''u'' [] d = Inr d1" "demo_tables [demo_withdrawn] d1" by blast
  from demo_register_second[OF w(2)] obtain resp d2 where
      g: "registration_Register demo_reg_scan ''club'' ''t'' (demo_register ''b'') ''u'' [] d1 = Inr (resp, d2)"
      "demo_tables [demo_withdrawn, demo_pending 61 11] d2" by blast
  from demo_commit_approve[OF g(2), of od] obtain r d3 where
      c: "registration_UpdateWithAudit demo_reg_scan (demo_approve_tx od) d2 = Inr (r, d3)"
      "demo_tables [demo_approved, demo_pending 61 11] d3" by blast
  have "within_capacity d2" "\<not> within_capacity d3"
    using g(2) c(2) by (simp_all add: demo_tables_def within_capacity_def CountActiveRegistrations_def
        active_registration_def demo_open_def demo_tournament_def demo_withdrawn_def demo_approved_def demo_pending_def)
  with t p w(1) g(1) c(1) show ?thesis by blast
qed

end
