(* ===== verification/Account_Rows.thy ===== *)
theory Account_Rows
  imports Sql_Store
begin

text \<open>
  The rows of the account tables (users, tokens, roles and grants), with the columns of
  \<open>db/sqlc/models.go\<close>, and the tables themselves beside those of \<open>Sql_Store\<close>.
\<close>

datatype Gender =
    GenderMale
  | GenderFemale
  | GenderOther
  | GenderPreferNotToSay

fun Gender_str :: "Gender \<Rightarrow> string" where
  "Gender_str GenderMale = ''male''"
| "Gender_str GenderFemale = ''female''"
| "Gender_str GenderOther = ''other''"
| "Gender_str GenderPreferNotToSay = ''prefer_not_to_say''"

lemma Gender_str_inject [simp]: "Gender_str a = Gender_str b \<longleftrightarrow> a = b"
  by (cases a; cases b) simp_all

datatype RoleScope =
    RoleScopePlatform
  | RoleScopeOrganization
  | RoleScopeTournament

fun RoleScope_str :: "RoleScope \<Rightarrow> string" where
  "RoleScope_str RoleScopePlatform = ''platform''"
| "RoleScope_str RoleScopeOrganization = ''organization''"
| "RoleScope_str RoleScopeTournament = ''tournament''"

lemma RoleScope_str_inject [simp]: "RoleScope_str a = RoleScope_str b \<longleftrightarrow> a = b"
  by (cases a; cases b) simp_all

datatype UserStatus =
    UserStatusActive
  | UserStatusInactive
  | UserStatusSuspended
  | UserStatusPendingVerification

fun UserStatus_str :: "UserStatus \<Rightarrow> string" where
  "UserStatus_str UserStatusActive = ''active''"
| "UserStatus_str UserStatusInactive = ''inactive''"
| "UserStatus_str UserStatusSuspended = ''suspended''"
| "UserStatus_str UserStatusPendingVerification = ''pending_verification''"

lemma UserStatus_str_inject [simp]: "UserStatus_str a = UserStatus_str b \<longleftrightarrow> a = b"
  by (cases a; cases b) simp_all

record user_row =
  us_ID :: uuid
  us_Email :: string
  us_Username :: string
  us_PasswordHash :: string
  us_FirstName :: string
  us_LastName :: string
  us_Phone :: "string option"
  us_AvatarUrl :: "string option"
  us_DateOfBirth :: "int option"
  us_Gender :: "Gender option"
  us_Status :: UserStatus
  us_EmailVerifiedAt :: timestamp
  us_LastLoginAt :: timestamp
  us_LastLoginIp :: "string option"
  us_CreatedAt :: timestamp
  us_UpdatedAt :: timestamp

record refresh_row =
  rf_ID :: uuid
  rf_UserID :: uuid
  rf_TokenHash :: string
  rf_ExpiresAt :: timestamp
  rf_RevokedAt :: timestamp
  rf_IpAddress :: "string option"
  rf_UserAgent :: "string option"
  rf_CreatedAt :: timestamp
  rf_SuccessorID :: uuid

record verification_row =
  vt_ID :: uuid
  vt_UserID :: uuid
  vt_TokenHash :: string
  vt_ExpiresAt :: timestamp
  vt_UsedAt :: timestamp
  vt_CreatedAt :: timestamp

record reset_row =
  pw_ID :: uuid
  pw_UserID :: uuid
  pw_TokenHash :: string
  pw_ExpiresAt :: timestamp
  pw_UsedAt :: timestamp
  pw_CreatedAt :: timestamp

record role_row =
  ro_ID :: uuid
  ro_OrganizationID :: uuid
  ro_Name :: string
  ro_Slug :: string
  ro_Description :: "string option"
  ro_Scope :: RoleScope
  ro_IsSystem :: bool
  ro_CreatedAt :: timestamp
  ro_UpdatedAt :: timestamp

record permission_row =
  pm_ID :: uuid
  pm_Name :: string
  pm_Slug :: string
  pm_Description :: "string option"
  pm_Resource :: string
  pm_Action :: string
  pm_CreatedAt :: timestamp

record role_permission_row =
  rl_RoleID :: uuid
  rl_PermissionID :: uuid

record grant_row =
  uo_ID :: uuid
  uo_UserID :: uuid
  uo_OrganizationID :: uuid
  uo_RoleID :: uuid
  uo_GrantedBy :: uuid
  uo_GrantedAt :: timestamp
  uo_ExpiresAt :: timestamp
  uo_CreatedAt :: timestamp
  uo_UpdatedAt :: timestamp

record account_db =
  tables :: database
  users :: "user_row list"
  refresh_tokens :: "refresh_row list"
  email_verification_tokens :: "verification_row list"
  password_reset_tokens :: "reset_row list"
  roles :: "role_row list"
  permissions :: "permission_row list"
  role_permissions :: "role_permission_row list"
  user_organization_roles :: "grant_row list"

end
