(* ===== verification/Account_Store.thy ===== *)
theory Account_Store
  imports Account_Rows Go_Strings
begin

text \<open>
  The queries of \<open>auth.sql.go\<close>, \<open>email_verification_tokens.sql.go\<close>, \<open>password_reset_tokens.sql.go\<close> and
  \<open>users.sql.go\<close> on the account tables, with the constraints of the migrations \<open>000003\<close>, \<open>000016\<close>,
  \<open>000023\<close> and \<open>000024\<close>.  \<open>NOW()\<close> is \<open>env_db_now\<close>; the row locks make a transaction atomic.
\<close>

definition on_tables :: "(database \<Rightarrow> database) \<Rightarrow> account_db \<Rightarrow> account_db" where
  "on_tables f s = s\<lparr>tables := f (tables s)\<rparr>"

lemma on_tables_frame [simp, frame_simps]:
  "users (on_tables f s) = users s" "refresh_tokens (on_tables f s) = refresh_tokens s"
  "email_verification_tokens (on_tables f s) = email_verification_tokens s"
  "password_reset_tokens (on_tables f s) = password_reset_tokens s" "roles (on_tables f s) = roles s"
  "permissions (on_tables f s) = permissions s" "role_permissions (on_tables f s) = role_permissions s"
  "user_organization_roles (on_tables f s) = user_organization_roles s" "tables (on_tables f s) = f (tables s)"
  by (simp_all add: on_tables_def)

section \<open>Refresh tokens\<close>

record CreateRefreshTokenParams =
  cr_UserID :: uuid
  cr_TokenHash :: string
  cr_ExpiresAt :: timestamp
  cr_IpAddress :: "string option"
  cr_UserAgent :: "string option"

definition created_refresh :: "env \<Rightarrow> CreateRefreshTokenParams \<Rightarrow> refresh_row" where
  "created_refresh ev p = \<lparr>rf_ID = Some (env_row_id ev), rf_UserID = cr_UserID p, rf_TokenHash = cr_TokenHash p,
     rf_ExpiresAt = cr_ExpiresAt p, rf_RevokedAt = None, rf_IpAddress = cr_IpAddress p, rf_UserAgent = cr_UserAgent p,
     rf_CreatedAt = Some (env_db_now ev), rf_SuccessorID = None\<rparr>"

text \<open>\<open>expires_at NOT NULL\<close> and \<open>chk_..._expires\<close>: \<open>expires_at > created_at\<close>.\<close>

definition expires_ok :: "env \<Rightarrow> timestamp \<Rightarrow> bool" where
  "expires_ok ev ts = (case ts of None \<Rightarrow> False | Some t \<Rightarrow> t > env_db_now ev)"

definition user_exists :: "account_db \<Rightarrow> uuid \<Rightarrow> bool" where
  "user_exists s uid \<longleftrightarrow> (\<exists>u \<in> set (users s). sql_eq (us_ID u) uid)"

definition CreateRefreshToken :: "env \<Rightarrow> CreateRefreshTokenParams \<Rightarrow> account_db
    \<Rightarrow> sql_error + (refresh_row \<times> account_db)" where
  "CreateRefreshToken ev p s = (let r = created_refresh ev p; rows = refresh_tokens s in
     if rf_ID r \<in> rf_ID ` set rows then Inl (ConstraintViolation ''pk_refresh_tokens'')
     else if rf_TokenHash r \<in> rf_TokenHash ` set rows then Inl (ConstraintViolation ''uq_refresh_tokens_hash'')
     else if \<not> expires_ok ev (rf_ExpiresAt r) then Inl (ConstraintViolation ''chk_refresh_tokens_expires'')
     else if \<not> user_exists s (rf_UserID r) then Inl (ConstraintViolation ''fk_refresh_tokens_user'')
     else Inr (r, s\<lparr>refresh_tokens := rows @ [r]\<rparr>))"

lemma CreateRefreshToken_Inr [result_simps]:
  "CreateRefreshToken ev p s = Inr (r, s') \<longleftrightarrow> r = created_refresh ev p
     \<and> Some (env_row_id ev) \<notin> rf_ID ` set (refresh_tokens s)
     \<and> cr_TokenHash p \<notin> rf_TokenHash ` set (refresh_tokens s)
     \<and> expires_ok ev (cr_ExpiresAt p) \<and> user_exists s (cr_UserID p)
     \<and> s' = s\<lparr>refresh_tokens := refresh_tokens s @ [r]\<rparr>"
  by (auto simp: CreateRefreshToken_def created_refresh_def Let_def)

definition GetRefreshTokenByHash :: "account_db \<Rightarrow> string \<Rightarrow> sql_error + refresh_row" where
  "GetRefreshTokenByHash s h = select_one (\<lambda>r. rf_TokenHash r = h) (refresh_tokens s)"

definition GetRefreshTokenByHashForUpdate :: "account_db \<Rightarrow> string \<Rightarrow> sql_error + refresh_row" where
  "GetRefreshTokenByHashForUpdate s h = select_one (\<lambda>r. rf_TokenHash r = h) (refresh_tokens s)"

definition RevokeAndLinkSuccessor :: "env \<Rightarrow> uuid \<Rightarrow> uuid \<Rightarrow> account_db \<Rightarrow> nat \<times> account_db" where
  "RevokeAndLinkSuccessor ev uid successor s =
     (let P = (\<lambda>r. sql_eq (rf_ID r) uid \<and> rf_RevokedAt r = None) in
      (length (filter P (refresh_tokens s)),
       s\<lparr>refresh_tokens := update_rows P (\<lambda>r. r\<lparr>rf_RevokedAt := Some (env_db_now ev), rf_SuccessorID := successor\<rparr>)
           (refresh_tokens s)\<rparr>))"

definition revoke_row :: "env \<Rightarrow> refresh_row \<Rightarrow> refresh_row" where
  "revoke_row ev r = r\<lparr>rf_RevokedAt := Some (env_db_now ev)\<rparr>"

definition RevokeRefreshToken :: "env \<Rightarrow> uuid \<Rightarrow> account_db \<Rightarrow> account_db" where
  "RevokeRefreshToken ev uid s = s\<lparr>refresh_tokens :=
     update_rows (\<lambda>r. sql_eq (rf_ID r) uid \<and> rf_RevokedAt r = None) (revoke_row ev) (refresh_tokens s)\<rparr>"

definition RevokeUserRefreshTokens :: "env \<Rightarrow> uuid \<Rightarrow> account_db \<Rightarrow> account_db" where
  "RevokeUserRefreshTokens ev uid s = s\<lparr>refresh_tokens :=
     update_rows (\<lambda>r. sql_eq (rf_UserID r) uid \<and> rf_RevokedAt r = None) (revoke_row ev) (refresh_tokens s)\<rparr>"

text \<open>\<open>expires_at <= $1\<close> with a given instant.\<close>

definition expired_at :: "int \<Rightarrow> timestamp \<Rightarrow> bool" where
  "expired_at cutoff ts = (case ts of None \<Rightarrow> False | Some t \<Rightarrow> t \<le> cutoff)"

definition DeleteExpiredRefreshTokens :: "int \<Rightarrow> account_db \<Rightarrow> account_db" where
  "DeleteExpiredRefreshTokens cutoff s =
     s\<lparr>refresh_tokens := filter (\<lambda>r. \<not> expired_at cutoff (rf_ExpiresAt r)) (refresh_tokens s)\<rparr>"

section \<open>Email verification tokens\<close>

record CreateTokenParams =
  ct_UserID :: uuid
  ct_TokenHash :: string
  ct_ExpiresAt :: timestamp

definition created_verification :: "env \<Rightarrow> 128 word \<Rightarrow> CreateTokenParams \<Rightarrow> verification_row" where
  "created_verification ev i p = \<lparr>vt_ID = Some i, vt_UserID = ct_UserID p, vt_TokenHash = ct_TokenHash p,
     vt_ExpiresAt = ct_ExpiresAt p, vt_UsedAt = None, vt_CreatedAt = Some (env_db_now ev)\<rparr>"

definition CreateEmailVerificationToken :: "env \<Rightarrow> 128 word \<Rightarrow> CreateTokenParams \<Rightarrow> account_db
    \<Rightarrow> sql_error + (verification_row \<times> account_db)" where
  "CreateEmailVerificationToken ev i p s =
     (let r = created_verification ev i p; rows = email_verification_tokens s in
      if vt_ID r \<in> vt_ID ` set rows then Inl (ConstraintViolation ''pk_email_verification_tokens'')
      else if vt_TokenHash r \<in> vt_TokenHash ` set rows then Inl (ConstraintViolation ''uq_email_verification_tokens_hash'')
      else if \<not> expires_ok ev (vt_ExpiresAt r) then Inl (ConstraintViolation ''chk_evt_expires'')
      else if \<not> user_exists s (vt_UserID r) then Inl (ConstraintViolation ''fk_evt_user'')
      else Inr (r, s\<lparr>email_verification_tokens := rows @ [r]\<rparr>))"

definition GetEmailVerificationTokenByHash :: "account_db \<Rightarrow> string \<Rightarrow> sql_error + verification_row" where
  "GetEmailVerificationTokenByHash s h = select_one (\<lambda>r. vt_TokenHash r = h) (email_verification_tokens s)"

definition GetEmailVerificationTokenByHashForUpdate :: "account_db \<Rightarrow> string \<Rightarrow> sql_error + verification_row" where
  "GetEmailVerificationTokenByHashForUpdate s h =
     select_one (\<lambda>r. vt_TokenHash r = h) (email_verification_tokens s)"

definition UseAllUserEmailVerificationTokens :: "env \<Rightarrow> uuid \<Rightarrow> account_db \<Rightarrow> account_db" where
  "UseAllUserEmailVerificationTokens ev uid s = s\<lparr>email_verification_tokens :=
     update_rows (\<lambda>r. sql_eq (vt_UserID r) uid \<and> vt_UsedAt r = None)
       (\<lambda>r. r\<lparr>vt_UsedAt := Some (env_db_now ev)\<rparr>) (email_verification_tokens s)\<rparr>"

definition UseEmailVerificationToken :: "env \<Rightarrow> uuid \<Rightarrow> account_db \<Rightarrow> account_db" where
  "UseEmailVerificationToken ev uid s = s\<lparr>email_verification_tokens :=
     update_rows (\<lambda>r. sql_eq (vt_ID r) uid \<and> vt_UsedAt r = None)
       (\<lambda>r. r\<lparr>vt_UsedAt := Some (env_db_now ev)\<rparr>) (email_verification_tokens s)\<rparr>"

definition DeleteExpiredEmailVerificationTokens :: "int \<Rightarrow> account_db \<Rightarrow> account_db" where
  "DeleteExpiredEmailVerificationTokens cutoff s = s\<lparr>email_verification_tokens :=
     filter (\<lambda>r. \<not> expired_at cutoff (vt_ExpiresAt r)) (email_verification_tokens s)\<rparr>"

section \<open>Password reset tokens\<close>

definition created_reset :: "env \<Rightarrow> CreateTokenParams \<Rightarrow> reset_row" where
  "created_reset ev p = \<lparr>pw_ID = Some (env_row_id ev), pw_UserID = ct_UserID p, pw_TokenHash = ct_TokenHash p,
     pw_ExpiresAt = ct_ExpiresAt p, pw_UsedAt = None, pw_CreatedAt = Some (env_db_now ev)\<rparr>"

definition CreatePasswordResetToken :: "env \<Rightarrow> CreateTokenParams \<Rightarrow> account_db
    \<Rightarrow> sql_error + (reset_row \<times> account_db)" where
  "CreatePasswordResetToken ev p s = (let r = created_reset ev p; rows = password_reset_tokens s in
     if pw_ID r \<in> pw_ID ` set rows then Inl (ConstraintViolation ''pk_password_reset_tokens'')
     else if pw_TokenHash r \<in> pw_TokenHash ` set rows then Inl (ConstraintViolation ''uq_password_reset_tokens_hash'')
     else if \<not> expires_ok ev (pw_ExpiresAt r) then Inl (ConstraintViolation ''chk_password_reset_tokens_expires'')
     else if \<not> user_exists s (pw_UserID r) then Inl (ConstraintViolation ''fk_password_reset_tokens_user'')
     else Inr (r, s\<lparr>password_reset_tokens := rows @ [r]\<rparr>))"

definition GetPasswordResetTokenByHash :: "account_db \<Rightarrow> string \<Rightarrow> sql_error + reset_row" where
  "GetPasswordResetTokenByHash s h = select_one (\<lambda>r. pw_TokenHash r = h) (password_reset_tokens s)"

definition LockUserPasswordResetTokens :: "account_db \<Rightarrow> uuid \<Rightarrow> reset_row list" where
  "LockUserPasswordResetTokens s uid = sort_key (\<lambda>r. uuid_Bytes (pw_ID r))
     (filter (\<lambda>r. sql_eq (pw_UserID r) uid \<and> pw_UsedAt r = None) (password_reset_tokens s))"

definition use_reset :: "env \<Rightarrow> reset_row \<Rightarrow> reset_row" where
  "use_reset ev r = r\<lparr>pw_UsedAt := Some (env_db_now ev)\<rparr>"

definition UsePasswordResetToken :: "env \<Rightarrow> uuid \<Rightarrow> account_db \<Rightarrow> account_db" where
  "UsePasswordResetToken ev uid s = s\<lparr>password_reset_tokens :=
     update_rows (\<lambda>r. sql_eq (pw_ID r) uid \<and> pw_UsedAt r = None) (use_reset ev) (password_reset_tokens s)\<rparr>"

definition UseAllUserPasswordResetTokens :: "env \<Rightarrow> uuid \<Rightarrow> account_db \<Rightarrow> account_db" where
  "UseAllUserPasswordResetTokens ev uid s = s\<lparr>password_reset_tokens :=
     update_rows (\<lambda>r. sql_eq (pw_UserID r) uid \<and> pw_UsedAt r = None) (use_reset ev) (password_reset_tokens s)\<rparr>"

definition DeleteExpiredPasswordResetTokens :: "int \<Rightarrow> account_db \<Rightarrow> account_db" where
  "DeleteExpiredPasswordResetTokens cutoff s = s\<lparr>password_reset_tokens :=
     filter (\<lambda>r. \<not> expired_at cutoff (pw_ExpiresAt r)) (password_reset_tokens s)\<rparr>"

section \<open>Users\<close>

definition sql_space :: "char \<Rightarrow> bool" where
  "sql_space c \<longleftrightarrow> c \<in> {CHR '' '', char_of (9::nat), char_of (10::nat), char_of (11::nat), char_of (12::nat), char_of (13::nat)}"

text \<open>\<open>email ~ '^[^@\s]+@[^@\s]+\.[^@\s]+$'\<close>: one \<open>@\<close>, no blank, and a dot inside what follows it.\<close>

definition email_ok :: "string \<Rightarrow> bool" where
  "email_ok e = (let user = takeWhile (\<lambda>c. c \<noteq> CHR ''@'') e; host = drop (length user + 1) e in
     user \<noteq> [] \<and> length user < length e \<and> list_all (\<lambda>c. \<not> sql_space c) e \<and> CHR ''@'' \<notin> set host
     \<and> CHR ''.'' \<in> set (butlast (drop 1 host)))"

definition word_char :: "char \<Rightarrow> bool" where
  "word_char c \<longleftrightarrow> (let n = (of_char c :: nat) in (97 \<le> n \<and> n \<le> 122) \<or> (65 \<le> n \<and> n \<le> 90) \<or> (48 \<le> n \<and> n \<le> 57)
     \<or> c = CHR ''_'')"

definition user_checks :: "user_row \<Rightarrow> bool" where
  "user_checks u \<longleftrightarrow> email_ok (us_Email u)
     \<and> 3 \<le> length (us_Username u) \<and> length (us_Username u) \<le> 30 \<and> list_all word_char (us_Username u)
     \<and> 1 \<le> char_length (strings_Trim CHR '' '' (us_FirstName u))
     \<and> 1 \<le> char_length (strings_Trim CHR '' '' (us_LastName u))"

record CreateUserParams =
  cu_Email :: string
  cu_Username :: string
  cu_PasswordHash :: string
  cu_FirstName :: string
  cu_LastName :: string

definition created_user :: "env \<Rightarrow> CreateUserParams \<Rightarrow> user_row" where
  "created_user ev p = \<lparr>us_ID = Some (env_row_id ev), us_Email = cu_Email p, us_Username = cu_Username p,
     us_PasswordHash = cu_PasswordHash p, us_FirstName = cu_FirstName p, us_LastName = cu_LastName p,
     us_Phone = None, us_AvatarUrl = None, us_DateOfBirth = None, us_Gender = None,
     us_Status = UserStatusPendingVerification, us_EmailVerifiedAt = None, us_LastLoginAt = None,
     us_LastLoginIp = None, us_CreatedAt = Some (env_db_now ev), us_UpdatedAt = Some (env_db_now ev)\<rparr>"

definition CreateUser :: "env \<Rightarrow> CreateUserParams \<Rightarrow> account_db \<Rightarrow> sql_error + (user_row \<times> account_db)" where
  "CreateUser ev p s = (let u = created_user ev p; rows = users s in
     if \<not> user_checks u \<or> us_ID u \<in> us_ID ` set rows then Inl (ConstraintViolation ''users'')
     else if us_Email u \<in> us_Email ` set rows then Inl (ConstraintViolation ''uq_users_email'')
     else if us_Username u \<in> us_Username ` set rows then Inl (ConstraintViolation ''uq_users_username'')
     else Inr (u, s\<lparr>users := rows @ [u]\<rparr>))"

definition GetUserByEmail :: "account_db \<Rightarrow> string \<Rightarrow> sql_error + user_row" where
  "GetUserByEmail s e = select_one (\<lambda>u. us_Email u = e) (users s)"

definition GetUserByID :: "account_db \<Rightarrow> uuid \<Rightarrow> sql_error + user_row" where
  "GetUserByID s uid = select_one (\<lambda>u. sql_eq (us_ID u) uid) (users s)"

definition GetUserByIDForUpdate :: "account_db \<Rightarrow> uuid \<Rightarrow> sql_error + user_row" where
  "GetUserByIDForUpdate s uid = select_one (\<lambda>u. sql_eq (us_ID u) uid) (users s)"

definition CountUsers :: "account_db \<Rightarrow> int" where
  "CountUsers s = int (length (users s))"

definition ListUsersPaginated :: "account_db \<Rightarrow> int \<Rightarrow> int \<Rightarrow> user_row list" where
  "ListUsersPaginated s offset limit = page limit offset (sort_key (\<lambda>u. - ts_Time (us_CreatedAt u)) (users s))"

definition DeactivateUser :: "env \<Rightarrow> uuid \<Rightarrow> account_db \<Rightarrow> nat \<times> account_db" where
  "DeactivateUser ev uid s = (let P = (\<lambda>u. sql_eq (us_ID u) uid \<and> us_Status u \<noteq> UserStatusInactive) in
     (length (filter P (users s)), s\<lparr>users := update_rows P
        (\<lambda>u. u\<lparr>us_Status := UserStatusInactive, us_UpdatedAt := Some (env_db_now ev)\<rparr>) (users s)\<rparr>))"

definition UpdateUserPasswordHash :: "env \<Rightarrow> string \<Rightarrow> uuid \<Rightarrow> account_db \<Rightarrow> account_db" where
  "UpdateUserPasswordHash ev h uid s = s\<lparr>users := update_rows (\<lambda>u. sql_eq (us_ID u) uid)
     (\<lambda>u. u\<lparr>us_PasswordHash := h, us_UpdatedAt := Some (env_db_now ev)\<rparr>) (users s)\<rparr>"

record UpdateUserProfileParams =
  uf_ID :: uuid
  uf_FirstName :: string
  uf_LastName :: string
  uf_Username :: string
  uf_Phone :: "string option"
  uf_DateOfBirth :: "int option"
  uf_Gender :: "Gender option"

definition updated_profile :: "env \<Rightarrow> UpdateUserProfileParams \<Rightarrow> user_row \<Rightarrow> user_row" where
  "updated_profile ev p u = u\<lparr>us_FirstName := uf_FirstName p, us_LastName := uf_LastName p,
     us_Username := uf_Username p, us_Phone := uf_Phone p, us_DateOfBirth := uf_DateOfBirth p,
     us_Gender := uf_Gender p, us_UpdatedAt := Some (env_db_now ev)\<rparr>"

definition UpdateUserProfile :: "env \<Rightarrow> UpdateUserProfileParams \<Rightarrow> account_db
    \<Rightarrow> sql_error + (user_row \<times> account_db)" where
  "UpdateUserProfile ev p s = (case find (\<lambda>u. sql_eq (us_ID u) (uf_ID p)) (users s) of
       None \<Rightarrow> Inl ErrNoRows
     | Some u \<Rightarrow> let u' = updated_profile ev p u in
         if \<not> user_checks u' then Inl (ConstraintViolation ''users'')
         else if \<exists>x \<in> set (users s). us_ID x \<noteq> us_ID u \<and> us_Username x = us_Username u'
         then Inl (ConstraintViolation ''uq_users_username'')
         else Inr (u', s\<lparr>users := update_rows (\<lambda>u. sql_eq (us_ID u) (uf_ID p)) (updated_profile ev p) (users s)\<rparr>))"

definition VerifyUserEmail :: "env \<Rightarrow> uuid \<Rightarrow> account_db \<Rightarrow> account_db" where
  "VerifyUserEmail ev uid s = s\<lparr>users :=
     update_rows (\<lambda>u. sql_eq (us_ID u) uid \<and> us_Status u = UserStatusPendingVerification)
       (\<lambda>u. u\<lparr>us_EmailVerifiedAt := Some (env_db_now ev), us_Status := UserStatusActive,
              us_UpdatedAt := Some (env_db_now ev)\<rparr>) (users s)\<rparr>"

definition GetPlayerProfileByUserID :: "account_db \<Rightarrow> uuid \<Rightarrow> sql_error + player_row" where
  "GetPlayerProfileByUserID s uid =
     select_one (\<lambda>p. sql_eq (pl_UserID p) uid \<and> pl_ArchivedAt p = None) (players (tables s))"

end
