(* ===== verification/Grant_Store.thy ===== *)
theory Grant_Store
  imports Account_Store
begin

text \<open>
  The queries of \<open>rbac.sql.go\<close> and the platform-administrator queries of \<open>users.sql.go\<close>: joins of the
  grants (\<open>user_organization_roles\<close>) with roles, permissions, users and organizations.  A platform
  grant has no organization; a grant is live until \<open>expires_at\<close>.  Text is ordered bytewise.
\<close>

section \<open>Joins\<close>

definition live_grant :: "int \<Rightarrow> grant_row \<Rightarrow> bool" where
  "live_grant now g = (case uo_ExpiresAt g of None \<Rightarrow> True | Some t \<Rightarrow> t > now)"

definition grant_roles :: "account_db \<Rightarrow> (grant_row \<Rightarrow> bool) \<Rightarrow> (grant_row \<times> role_row) list" where
  "grant_roles s P = concat (map (\<lambda>g. map (Pair g) (filter (\<lambda>r. sql_eq (uo_RoleID g) (ro_ID r)) (roles s)))
     (filter P (user_organization_roles s)))"

lemma in_grant_roles [simp]:
  "(g, r) \<in> set (grant_roles s P) \<longleftrightarrow> g \<in> set (user_organization_roles s) \<and> P g
     \<and> r \<in> set (roles s) \<and> sql_eq (uo_RoleID g) (ro_ID r)"
  by (auto simp: grant_roles_def)

definition user_grant :: "int \<Rightarrow> uuid \<Rightarrow> grant_row \<Rightarrow> bool" where
  "user_grant now uid g \<longleftrightarrow> sql_eq (uo_UserID g) uid \<and> live_grant now g"

text \<open>\<open>organization_id = $2 OR organization_id IS NULL\<close>\<close>

definition applies_to :: "uuid \<Rightarrow> grant_row \<Rightarrow> bool" where
  "applies_to orgID g \<longleftrightarrow> sql_eq (uo_OrganizationID g) orgID \<or> uo_OrganizationID g = None"

section \<open>Reads\<close>

definition GetUserRoles :: "env \<Rightarrow> account_db \<Rightarrow> uuid \<Rightarrow> uuid \<Rightarrow> role_row list" where
  "GetUserRoles ev s uid orgID = sort_key ro_Name (map snd (grant_roles s
     (\<lambda>g. user_grant (env_db_now ev) uid g \<and> applies_to orgID g)))"

definition GetUserRolesByOrganization :: "env \<Rightarrow> account_db \<Rightarrow> uuid \<Rightarrow> uuid \<Rightarrow> role_row list" where
  "GetUserRolesByOrganization ev s uid orgID = sort_key ro_Name (map snd (grant_roles s
     (\<lambda>g. user_grant (env_db_now ev) uid g \<and> sql_eq (uo_OrganizationID g) orgID)))"

definition GetUserPlatformRoles :: "env \<Rightarrow> account_db \<Rightarrow> uuid \<Rightarrow> role_row list" where
  "GetUserPlatformRoles ev s uid = sort_key ro_Name (map snd (grant_roles s
     (\<lambda>g. user_grant (env_db_now ev) uid g \<and> uo_OrganizationID g = None)))"

definition GetUserOrganizations :: "env \<Rightarrow> account_db \<Rightarrow> uuid \<Rightarrow> org_row list" where
  "GetUserOrganizations ev s uid = sort_key o_Name (remdups (concat (map (\<lambda>g.
       filter (\<lambda>org. sql_eq (uo_OrganizationID g) (o_ID org)) (organizations (tables s)))
     (filter (user_grant (env_db_now ev) uid) (user_organization_roles s)))))"

definition grant_permissions :: "env \<Rightarrow> account_db \<Rightarrow> uuid \<Rightarrow> uuid \<Rightarrow> permission_row list" where
  "grant_permissions ev s uid orgID = concat (map (\<lambda>(g, r).
       concat (map (\<lambda>rp. filter (\<lambda>p. sql_eq (rl_PermissionID rp) (pm_ID p)) (permissions s))
         (filter (\<lambda>rp. sql_eq (ro_ID r) (rl_RoleID rp)) (role_permissions s))))
     (grant_roles s (\<lambda>g. user_grant (env_db_now ev) uid g \<and> applies_to orgID g)))"

definition GetUserPermissions :: "env \<Rightarrow> account_db \<Rightarrow> uuid \<Rightarrow> uuid \<Rightarrow> permission_row list" where
  "GetUserPermissions ev s uid orgID = sort_key pm_Slug (remdups (grant_permissions ev s uid orgID))"

definition HasPermission :: "env \<Rightarrow> account_db \<Rightarrow> uuid \<Rightarrow> uuid \<Rightarrow> string \<Rightarrow> bool" where
  "HasPermission ev s uid orgID slug = list_ex (\<lambda>p. pm_Slug p = slug) (grant_permissions ev s uid orgID)"

definition GetRoleBySlug :: "account_db \<Rightarrow> string \<Rightarrow> sql_error + role_row" where
  "GetRoleBySlug s slug = select_one (\<lambda>r. ro_Slug r = slug \<and> ro_OrganizationID r = None) (roles s)"

definition CountActiveOrgOwnersByOrg :: "env \<Rightarrow> account_db \<Rightarrow> uuid \<Rightarrow> int" where
  "CountActiveOrgOwnersByOrg ev s orgID = int (length (remdups (map (\<lambda>(g, r). uo_UserID g)
     (filter (\<lambda>(g, r). ro_Slug r = ''org_owner'')
       (grant_roles s (\<lambda>g. sql_eq (uo_OrganizationID g) orgID \<and> live_grant (env_db_now ev) g))))))"

record GetUserGrantsInOrgRow =
  gg_GrantID :: uuid
  gg_RoleSlug :: string
  gg_RoleName :: string
  gg_GrantedAt :: timestamp
  gg_ExpiresAt :: timestamp
  gg_GrantedBy :: uuid

definition GetUserGrantsInOrg :: "env \<Rightarrow> account_db \<Rightarrow> uuid \<Rightarrow> uuid \<Rightarrow> GetUserGrantsInOrgRow list" where
  "GetUserGrantsInOrg ev s uid orgID = sort_key gg_RoleSlug (map (\<lambda>(g, r).
       \<lparr>gg_GrantID = uo_ID g, gg_RoleSlug = ro_Slug r, gg_RoleName = ro_Name r, gg_GrantedAt = uo_GrantedAt g,
        gg_ExpiresAt = uo_ExpiresAt g, gg_GrantedBy = uo_GrantedBy g\<rparr>)
     (grant_roles s (\<lambda>g. user_grant (env_db_now ev) uid g \<and> sql_eq (uo_OrganizationID g) orgID)))"

record ListOrgMembersWithRolesRow =
  lm_UserID :: uuid
  lm_Email :: string
  lm_Username :: string
  lm_FirstName :: string
  lm_LastName :: string
  lm_UserStatus :: UserStatus
  lm_Grant :: GetUserGrantsInOrgRow

text \<open>\<open>ORDER BY u.email ASC, r.slug ASC\<close>: a stable sort by the slug, then by the address.\<close>

definition ListOrgMembersWithRoles :: "env \<Rightarrow> account_db \<Rightarrow> uuid \<Rightarrow> ListOrgMembersWithRolesRow list" where
  "ListOrgMembersWithRoles ev s orgID = sort_key lm_Email (sort_key (\<lambda>m. gg_RoleSlug (lm_Grant m))
     (concat (map (\<lambda>(g, r). map (\<lambda>u.
         \<lparr>lm_UserID = us_ID u, lm_Email = us_Email u, lm_Username = us_Username u, lm_FirstName = us_FirstName u,
          lm_LastName = us_LastName u, lm_UserStatus = us_Status u,
          lm_Grant = \<lparr>gg_GrantID = uo_ID g, gg_RoleSlug = ro_Slug r, gg_RoleName = ro_Name r,
            gg_GrantedAt = uo_GrantedAt g, gg_ExpiresAt = uo_ExpiresAt g, gg_GrantedBy = uo_GrantedBy g\<rparr>\<rparr>)
         (filter (\<lambda>u. sql_eq (us_ID u) (uo_UserID g)) (users s)))
       (grant_roles s (\<lambda>g. sql_eq (uo_OrganizationID g) orgID \<and> live_grant (env_db_now ev) g)))))"

section \<open>Platform administrators\<close>

definition platform_admin_role :: "role_row \<Rightarrow> bool" where
  "platform_admin_role r \<longleftrightarrow> ro_Slug r = ''platform_admin'' \<and> ro_Scope r = RoleScopePlatform"

definition admin_grants :: "env \<Rightarrow> account_db \<Rightarrow> grant_row list" where
  "admin_grants ev s = map fst (filter (\<lambda>(g, r). platform_admin_role r)
     (grant_roles s (\<lambda>g. uo_OrganizationID g = None \<and> live_grant (env_db_now ev) g)))"

definition IsUserActivePlatformAdmin :: "env \<Rightarrow> account_db \<Rightarrow> uuid \<Rightarrow> bool" where
  "IsUserActivePlatformAdmin ev s uid = list_ex (\<lambda>g. sql_eq (uo_UserID g) uid) (admin_grants ev s)"

definition CountActivePlatformAdmins :: "env \<Rightarrow> account_db \<Rightarrow> int" where
  "CountActivePlatformAdmins ev s = int (length (remdups (map us_ID (filter (\<lambda>u.
       us_Status u = UserStatusActive \<and> list_ex (\<lambda>g. sql_eq (uo_UserID g) (us_ID u)) (admin_grants ev s)) (users s)))))"

definition GetPlatformAdminRoleForUpdate :: "account_db \<Rightarrow> sql_error + uuid" where
  "GetPlatformAdminRoleForUpdate s = res_bind (select_one (\<lambda>r. platform_admin_role r \<and> ro_OrganizationID r = None) (roles s))
     (\<lambda>r. Inr (ro_ID r))"

section \<open>Writes\<close>

record GrantOrgRoleParams =
  gp_UserID :: uuid
  gp_OrganizationID :: uuid
  gp_RoleID :: uuid
  gp_GrantedBy :: uuid
  gp_ExpiresAt :: timestamp

definition created_grant :: "env \<Rightarrow> GrantOrgRoleParams \<Rightarrow> grant_row" where
  "created_grant ev p = \<lparr>uo_ID = Some (env_row_id ev), uo_UserID = gp_UserID p, uo_OrganizationID = gp_OrganizationID p,
     uo_RoleID = gp_RoleID p, uo_GrantedBy = gp_GrantedBy p, uo_GrantedAt = Some (env_db_now ev),
     uo_ExpiresAt = gp_ExpiresAt p, uo_CreatedAt = Some (env_db_now ev), uo_UpdatedAt = Some (env_db_now ev)\<rparr>"

text \<open>The unique keys: one grant per user, organization and role, and one platform grant per user and role.\<close>

definition same_grant :: "grant_row \<Rightarrow> grant_row \<Rightarrow> bool" where
  "same_grant g g' \<longleftrightarrow> sql_eq (uo_UserID g) (uo_UserID g') \<and> sql_eq (uo_RoleID g) (uo_RoleID g')
     \<and> (sql_eq (uo_OrganizationID g) (uo_OrganizationID g') \<or> uo_OrganizationID g = None \<and> uo_OrganizationID g' = None)"

text \<open>\<open>ON CONFLICT DO NOTHING\<close>: after the check of the row and before the foreign keys.\<close>

definition GrantOrgRole :: "env \<Rightarrow> GrantOrgRoleParams \<Rightarrow> account_db \<Rightarrow> sql_error + account_db" where
  "GrantOrgRole ev p s = (let g = created_grant ev p; rows = user_organization_roles s in
     if \<not> (case uo_ExpiresAt g of None \<Rightarrow> True | Some t \<Rightarrow> t > env_db_now ev)
     then Inl (ConstraintViolation ''chk_uor_expires_after_granted'')
     else if \<exists>g' \<in> set rows. same_grant g' g \<or> uo_ID g' = uo_ID g then Inr s
     else if \<not> user_exists s (uo_UserID g) \<or> \<not> (\<exists>r \<in> set (roles s). sql_eq (ro_ID r) (uo_RoleID g))
       \<or> (uo_OrganizationID g \<noteq> None \<and> \<not> (\<exists>org \<in> set (organizations (tables s)). o_ID org = uo_OrganizationID g))
     then Inl (ConstraintViolation ''fk_uor'')
     else Inr (s\<lparr>user_organization_roles := rows @ [g]\<rparr>))"

text \<open>\<open>GrantRoleToUserInOrg\<close> names every column but \<open>expires_at\<close>, which stays \<open>NULL\<close>.\<close>

definition GrantRoleToUserInOrg :: "env \<Rightarrow> uuid \<Rightarrow> uuid \<Rightarrow> uuid \<Rightarrow> uuid \<Rightarrow> account_db \<Rightarrow> sql_error + account_db" where
  "GrantRoleToUserInOrg ev uid orgID roleID grantedBy = GrantOrgRole ev
     \<lparr>gp_UserID = uid, gp_OrganizationID = orgID, gp_RoleID = roleID, gp_GrantedBy = grantedBy, gp_ExpiresAt = None\<rparr>"

record RevokeRoleParams =
  rv_UserID :: uuid
  rv_OrgID :: uuid
  rv_RoleSlug :: string

definition revoked_grant :: "account_db \<Rightarrow> RevokeRoleParams \<Rightarrow> grant_row \<Rightarrow> bool" where
  "revoked_grant s p g \<longleftrightarrow> sql_eq (uo_UserID g) (rv_UserID p) \<and> sql_eq (uo_OrganizationID g) (rv_OrgID p)
     \<and> (\<exists>r \<in> set (roles s). sql_eq (uo_RoleID g) (ro_ID r) \<and> ro_Slug r = rv_RoleSlug p \<and> ro_OrganizationID r = None)"

definition RevokeRoleFromUserInOrg :: "RevokeRoleParams \<Rightarrow> account_db \<Rightarrow> nat \<times> account_db" where
  "RevokeRoleFromUserInOrg p s =
     (length (filter (revoked_grant s p) (user_organization_roles s)),
      s\<lparr>user_organization_roles := filter (\<lambda>g. \<not> revoked_grant s p g) (user_organization_roles s)\<rparr>)"

end
