(* ===== verification/Auth_Model.thy ===== *)
theory Auth_Model
  imports Grant_Store
begin

text \<open>
  Package \<open>auth\<close>: its errors, persona scopes, claims, requests, passwords and tokens
  (\<open>errors.go\<close>, \<open>model.go\<close>, \<open>dto.go\<close>, \<open>passwords.go\<close>, \<open>tokens.go\<close>).  bcrypt, the JWT library, SHA-256
  and the random source are parameters of the request, fields of \<open>account_env\<close>.
\<close>

section \<open>Errors\<close>

record OrgSummary =
  os_ID :: string
  os_Name :: string
  os_Slug :: string

datatype auth_error =
    ErrInvalidCredentials
  | ErrUserSuspended
  | ErrUserInactive
  | ErrUserPendingVerification
  | ErrUserNotFound
  | ErrEmailAlreadyRegistered
  | ErrUsernameAlreadyTaken
  | ErrInvalidToken
  | ErrExpiredToken
  | ErrTokenReuse
  | ErrInvalidAlgorithm
  | ErrVerificationTokenInvalid
  | ErrVerificationTokenExpired
  | ErrVerificationTokenUsed
  | ErrResetTokenInvalid
  | ErrResetTokenExpired
  | ErrResetTokenUsed
  | ErrPasswordTooLong
  | ErrOrganizationNotFound
  | ErrScopeNotEntitled
  | ErrOrganizationRequired "OrgSummary list"
  | ErrAffectedRows nat
  | ErrSql sql_error

section \<open>Errors of the JWT library\<close>

text \<open>A Go error: a sentinel, an error that unwraps to one error, or one that joins several.\<close>

datatype go_error =
    Sentinel string string          \<comment> \<open>identity and message\<close>
  | Wrapped string go_error
  | Joined string "go_error list"

fun Error_text :: "go_error \<Rightarrow> string" where
  "Error_text (Sentinel name msg) = msg"
| "Error_text (Wrapped msg e) = msg"
| "Error_text (Joined msg es) = msg"

fun containsError :: "go_error \<Rightarrow> go_error \<Rightarrow> bool" where
  "containsError target (Wrapped msg e) = (Wrapped msg e = target \<or> containsError target e)"
| "containsError target e = (e = target)"

definition jwt_ErrTokenExpired :: go_error where
  "jwt_ErrTokenExpired = Sentinel ''jwt.ErrTokenExpired'' ''token is expired''"

definition alg_error :: go_error where
  "alg_error = Sentinel ''auth.ErrInvalidAlgorithm'' ''invalid token signing algorithm''"

definition isJWTExpired :: "go_error \<Rightarrow> bool" where
  "isJWTExpired e \<longleftrightarrow> Error_text e = ''token has expired'' \<or> containsError jwt_ErrTokenExpired e"

definition mapJWTError :: "go_error \<Rightarrow> auth_error" where
  "mapJWTError e = (if isJWTExpired e then ErrExpiredToken
     else if e = alg_error then ErrInvalidAlgorithm else ErrInvalidToken)"

section \<open>Scopes and claims\<close>

definition OnboardingRole :: string where "OnboardingRole = ''onboarding''"
definition ScopePlayer :: string where "ScopePlayer = ''player''"
definition ScopeOrganizer :: string where "ScopeOrganizer = ''organizer''"
definition ScopeOnboarding :: string where "ScopeOnboarding = ''onboarding''"
definition ScopePlatform :: string where "ScopePlatform = ''platform''"

lemmas scope_defs = OnboardingRole_def ScopePlayer_def ScopeOrganizer_def ScopeOnboarding_def ScopePlatform_def

definition IsPlatformRoleSlug :: "string \<Rightarrow> bool" where
  "IsPlatformRoleSlug slug \<longleftrightarrow> slug = ''platform_admin''"

record AuthUser =
  au_UserID :: string
  au_OrganizationID :: string
  au_Role :: string
  au_Email :: string
  au_Scope :: string
  au_PlayerProfileID :: string

definition IsPlatformUser :: "AuthUser \<Rightarrow> bool" where
  "IsPlatformUser u \<longleftrightarrow> au_Scope u = ScopePlatform"

record JWTClaims =
  jc_UserID :: string
  jc_OrganizationID :: string
  jc_Role :: string
  jc_Email :: string
  jc_Scope :: string
  jc_PlayerProfileID :: string
  jc_Issuer :: string
  jc_Subject :: string
  jc_ExpiresAt :: int
  jc_IssuedAt :: int
  jc_NotBefore :: int

definition DeriveScope :: "JWTClaims \<Rightarrow> string" where
  "DeriveScope c =
     (if jc_Scope c \<noteq> [] then jc_Scope c
      else if jc_OrganizationID c \<noteq> [] then ScopeOrganizer
      else if jc_Role c = OnboardingRole then ScopeOnboarding
      else if IsPlatformRoleSlug (jc_Role c) then ScopePlatform
      else ScopeOnboarding)"

section \<open>What a request takes from outside\<close>

record account_env =
  ac_env :: env
  ac_token_id :: "128 word"                                  \<comment> \<open>identifier of the verification token of a registration\<close>
  ac_hash_token :: "string \<Rightarrow> string"                        \<comment> \<open>hexadecimal SHA-256\<close>
  ac_raw_token :: string                                     \<comment> \<open>the 32 random bytes of this request\<close>
  ac_bcrypt :: "string \<Rightarrow> string"
  ac_bcrypt_compare :: "string \<Rightarrow> string \<Rightarrow> bool"             \<comment> \<open>hash and password\<close>
  ac_sign :: "string \<Rightarrow> JWTClaims \<Rightarrow> string"                  \<comment> \<open>HS256 with the secret\<close>
  ac_jwt_parse :: "string \<Rightarrow> string \<Rightarrow> go_error + JWTClaims"   \<comment> \<open>secret and token\<close>
  ac_jwt_secret :: string
  ac_parse_date :: "string \<Rightarrow> int option"                   \<comment> \<open>\<open>time.Parse("2006-01-02", _)\<close>, in days\<close>
  ac_format_date :: "int \<Rightarrow> string"
  ac_unicode_word :: "string \<Rightarrow> bool"                       \<comment> \<open>the runes above 127 are letters or digits\<close>
  ac_player_persona :: bool

section \<open>Tokens\<close>

definition minutes :: "int \<Rightarrow> int" where "minutes n = n * 60000000"

definition accessTokenDuration :: int where "accessTokenDuration = minutes 15"
definition refreshTokenDuration :: int where "refreshTokenDuration = minutes (7 * 24 * 60)"
definition verificationTokenDuration :: int where "verificationTokenDuration = minutes (24 * 60)"
definition passwordResetTokenDuration :: int where "passwordResetTokenDuration = minutes 60"

lemmas duration_defs = minutes_def accessTokenDuration_def refreshTokenDuration_def
  verificationTokenDuration_def passwordResetTokenDuration_def

definition jwtIssuer :: string where "jwtIssuer = ''playarena''"

definition now_of :: "account_env \<Rightarrow> int" where "now_of ae = env_now (ac_env ae)"

text \<open>\<open>jwt.NewNumericDate\<close> truncates to seconds.\<close>

definition numericDate :: "int \<Rightarrow> int" where "numericDate t = t div 1000000"

definition GenerateAccessToken :: "account_env \<Rightarrow> string \<Rightarrow> string \<Rightarrow> string \<Rightarrow> string \<Rightarrow> string \<Rightarrow> string \<Rightarrow> string" where
  "GenerateAccessToken ae userID organizationID role email scope playerProfileID =
     ac_sign ae (ac_jwt_secret ae)
       \<lparr>jc_UserID = userID, jc_OrganizationID = organizationID, jc_Role = role, jc_Email = email, jc_Scope = scope,
        jc_PlayerProfileID = playerProfileID, jc_Issuer = jwtIssuer, jc_Subject = userID,
        jc_ExpiresAt = numericDate (now_of ae + accessTokenDuration), jc_IssuedAt = numericDate (now_of ae),
        jc_NotBefore = numericDate (now_of ae)\<rparr>"

definition ParseToken :: "account_env \<Rightarrow> string \<Rightarrow> auth_error + JWTClaims" where
  "ParseToken ae tokenString = res_bind (res_map_err mapJWTError (ac_jwt_parse ae (ac_jwt_secret ae) tokenString))
     (\<lambda>claims. if jc_UserID claims = [] then Inl ErrInvalidToken
        else if jc_Email claims = [] then Inl ErrInvalidToken else Inr claims)"

definition GetRefreshTokenExpiryTime :: "account_env \<Rightarrow> timestamp" where
  "GetRefreshTokenExpiryTime ae = Some (now_of ae + refreshTokenDuration)"

definition GetVerificationTokenExpiryTime :: "account_env \<Rightarrow> timestamp" where
  "GetVerificationTokenExpiryTime ae = Some (now_of ae + verificationTokenDuration)"

definition GetPasswordResetTokenExpiryTime :: "account_env \<Rightarrow> timestamp" where
  "GetPasswordResetTokenExpiryTime ae = Some (now_of ae + passwordResetTokenDuration)"

section \<open>Passwords and names\<close>

definition maxPasswordBytes :: nat where "maxPasswordBytes = 72"

definition HashPassword :: "account_env \<Rightarrow> string \<Rightarrow> auth_error + string" where
  "HashPassword ae password =
     (if length password > maxPasswordBytes then Inl ErrPasswordTooLong else Inr (ac_bcrypt ae password))"

definition VerifyPassword :: "account_env \<Rightarrow> string \<Rightarrow> string \<Rightarrow> bool" where
  "VerifyPassword ae password hash = ac_bcrypt_compare ae hash password"

definition splitFullName :: "string \<Rightarrow> string \<times> string" where
  "splitFullName fullName = (let trimmed = strings_TrimSpace fullName in
     if trimmed = [] then ([], [])
     else let first = takeWhile (\<lambda>c. c \<noteq> CHR '' '') trimmed in
       if length first = length trimmed then (trimmed, trimmed)
       else (first, strings_TrimSpace (drop (length first + 1) trimmed)))"

definition buildFullName :: "string \<Rightarrow> string \<Rightarrow> string" where
  "buildFullName firstName lastName =
     (if firstName = lastName then firstName else strings_TrimSpace (firstName @ '' '' @ lastName))"

section \<open>Requests and responses\<close>

record LoginRequest =
  li_Email :: string
  li_Password :: string
  li_OrganizationID :: string

record LoginResponse =
  lo_AccessToken :: string
  lo_RefreshToken :: string
  lo_ExpiresIn :: int
  lo_TokenType :: string
  lo_Scope :: string

record RefreshRequest =
  fr_RefreshToken :: string
  fr_OrganizationID :: string
  fr_Scope :: string

record RegisterRequest =
  gr_Email :: string
  gr_Username :: string
  gr_FullName :: string
  gr_Password :: string

record RegisterResponse =
  gs_ID :: string
  gs_Email :: string
  gs_Username :: string
  gs_Message :: string
  gs_VerificationToken :: string

record ResetPasswordRequest =
  rs_Token :: string
  rs_Password :: string

record ForgotPasswordResponse =
  fp_Message :: string
  fp_ResetToken :: string

record MeResponse =
  me_ID :: string
  me_Email :: string
  me_Username :: string
  me_FullName :: string
  me_Status :: string

end
