(* ===== verification/Auth_Repo.thy ===== *)
theory Auth_Repo
  imports Auth_Model
begin

text \<open>
  \<open>auth/repository.go\<close>: the transactions on the account tables.  \<open>Inl\<close> is a rolled-back transaction;
  the rotation commits on one of its errors and so returns its database in every case.
\<close>

text \<open>The database after a transaction.\<close>

definition committed :: "'s \<Rightarrow> 'e + ('a \<times> 's) \<Rightarrow> 's" where
  "committed s r = (case r of Inl _ \<Rightarrow> s | Inr (_, s') \<Rightarrow> s')"

lemma committed_simps [simp]: "committed s (Inl e) = s" "committed s (Inr (x, s')) = s'"
  by (simp_all add: committed_def)

fun unique_violation :: "(string \<times> auth_error) list \<Rightarrow> sql_error \<Rightarrow> auth_error" where
  "unique_violation [] e = ErrSql e"
| "unique_violation ((c, err) # m) e = (if e = ConstraintViolation c then err else unique_violation m e)"

section \<open>Users\<close>

record RegisterTxParams =
  rg_UserParams :: CreateUserParams
  rg_TokenHash :: string
  rg_TokenExpiry :: timestamp

definition RegisterTransaction :: "account_env \<Rightarrow> RegisterTxParams \<Rightarrow> account_db
    \<Rightarrow> auth_error + ((user_row \<times> verification_row) \<times> account_db)" where
  "RegisterTransaction ae p s =
     res_bind (res_map_err (unique_violation [(''uq_users_email'', ErrEmailAlreadyRegistered),
                 (''uq_users_username'', ErrUsernameAlreadyTaken)]) (CreateUser (ac_env ae) (rg_UserParams p) s))
       (\<lambda>(user, s). res_bind (res_map_err ErrSql (CreateEmailVerificationToken (ac_env ae) (ac_token_id ae)
                 \<lparr>ct_UserID = us_ID user, ct_TokenHash = rg_TokenHash p, ct_ExpiresAt = rg_TokenExpiry p\<rparr> s))
          (\<lambda>(token, s). Inr ((user, token), s)))"

definition repo_GetUserByEmail :: "account_db \<Rightarrow> string \<Rightarrow> auth_error + user_row" where
  "repo_GetUserByEmail s email = no_rows_as ErrInvalidCredentials ErrSql (GetUserByEmail s email)"

definition repo_GetUserByID :: "account_db \<Rightarrow> uuid \<Rightarrow> auth_error + user_row" where
  "repo_GetUserByID s uid = no_rows_as ErrUserNotFound ErrSql (GetUserByID s uid)"

definition GetPlayerProfileID :: "account_db \<Rightarrow> uuid \<Rightarrow> string option" where
  "GetPlayerProfileID s uid = (case GetPlayerProfileByUserID s uid of
       Inl _ \<Rightarrow> None | Inr p \<Rightarrow> Some (UUIDToString (pl_ID p)))"

definition repo_CreateEmailVerificationToken :: "account_env \<Rightarrow> CreateTokenParams \<Rightarrow> account_db
    \<Rightarrow> auth_error + (unit \<times> account_db)" where
  "repo_CreateEmailVerificationToken ae p s =
     res_bind (res_map_err ErrSql (CreateEmailVerificationToken (ac_env ae) (env_row_id (ac_env ae)) p
       (UseAllUserEmailVerificationTokens (ac_env ae) (ct_UserID p) s))) (\<lambda>(_, s). Inr ((), s))"

section \<open>Refresh tokens\<close>

definition repo_CreateRefreshToken :: "account_env \<Rightarrow> CreateRefreshTokenParams \<Rightarrow> account_db
    \<Rightarrow> auth_error + (refresh_row \<times> account_db)" where
  "repo_CreateRefreshToken ae p s = res_map_err ErrSql (CreateRefreshToken (ac_env ae) p s)"

definition repo_GetRefreshTokenByHash :: "account_db \<Rightarrow> string \<Rightarrow> auth_error + refresh_row" where
  "repo_GetRefreshTokenByHash s h = no_rows_as ErrInvalidToken ErrSql (GetRefreshTokenByHash s h)"

definition LogoutTransaction :: "account_env \<Rightarrow> string \<Rightarrow> account_db \<Rightarrow> auth_error + (unit \<times> account_db)" where
  "LogoutTransaction ae tokenHash s =
     res_bind (no_rows_as ErrInvalidToken ErrSql (GetRefreshTokenByHashForUpdate s tokenHash)) (\<lambda>token.
       if Valid (rf_RevokedAt token) then Inr ((), s)
       else Inr ((), RevokeRefreshToken (ac_env ae) (rf_ID token) s))"

fun status_error :: "UserStatus \<Rightarrow> auth_error option" where
  "status_error UserStatusSuspended = Some ErrUserSuspended"
| "status_error UserStatusInactive = Some ErrUserInactive"
| "status_error UserStatusPendingVerification = Some ErrUserPendingVerification"
| "status_error UserStatusActive = None"

definition assertUserActive :: "user_row \<Rightarrow> auth_error + unit" where
  "assertUserActive u = (case status_error (us_Status u) of None \<Rightarrow> Inr () | Some e \<Rightarrow> Inl e)"

lemma assertUserActive_Inr [result_simps, simp]: "assertUserActive u = Inr x \<longleftrightarrow> us_Status u = UserStatusActive"
  by (cases "us_Status u") (simp_all add: assertUserActive_def)

text \<open>Steps 3b to 8 of the rotation, for a token that is not revoked.\<close>

definition rotate_active :: "account_env \<Rightarrow> refresh_row \<Rightarrow> CreateRefreshTokenParams \<Rightarrow> account_db
    \<Rightarrow> auth_error + (refresh_row \<times> account_db)" where
  "rotate_active ae oldToken newParams s =
     res_bind (no_rows_as ErrInvalidToken ErrSql (GetUserByID s (rf_UserID oldToken))) (\<lambda>user.
     res_bind (assertUserActive user) (\<lambda>_.
       if ts_Time (rf_ExpiresAt oldToken) < now_of ae then Inl ErrExpiredToken
       else res_bind (res_map_err ErrSql (CreateRefreshToken (ac_env ae) newParams s)) (\<lambda>(newToken, s).
         case RevokeAndLinkSuccessor (ac_env ae) (rf_ID oldToken) (rf_ID newToken) s of (n, s) \<Rightarrow>
           if n \<noteq> 1 then Inl (ErrAffectedRows n) else Inr (newToken, s))))"

definition RotateRefreshToken :: "account_env \<Rightarrow> string \<Rightarrow> CreateRefreshTokenParams \<Rightarrow> account_db
    \<Rightarrow> (auth_error + refresh_row) \<times> account_db" where
  "RotateRefreshToken ae oldHash newParams s =
     (case no_rows_as ErrInvalidToken ErrSql (GetRefreshTokenByHashForUpdate s oldHash) of
        Inl e \<Rightarrow> (Inl e, s)
      | Inr oldToken \<Rightarrow>
          if Valid (rf_RevokedAt oldToken) then
            if Valid (rf_SuccessorID oldToken) then (Inl ErrInvalidToken, s)
            else (Inl ErrTokenReuse, RevokeUserRefreshTokens (ac_env ae) (rf_UserID oldToken) s)
          else case rotate_active ae oldToken newParams s of
            Inl e \<Rightarrow> (Inl e, s)
          | Inr (newToken, s') \<Rightarrow> (Inr newToken, s'))"

section \<open>Verification and password reset\<close>

definition VerifyEmailTransaction :: "account_env \<Rightarrow> string \<Rightarrow> account_db \<Rightarrow> auth_error + (unit \<times> account_db)" where
  "VerifyEmailTransaction ae tokenHash s =
     res_bind (no_rows_as ErrVerificationTokenInvalid ErrSql (GetEmailVerificationTokenByHashForUpdate s tokenHash))
       (\<lambda>token.
          if Valid (vt_UsedAt token) then Inl ErrVerificationTokenUsed
          else if ts_Time (vt_ExpiresAt token) < now_of ae then Inl ErrVerificationTokenExpired
          else Inr ((), VerifyUserEmail (ac_env ae) (vt_UserID token)
                 (UseEmailVerificationToken (ac_env ae) (vt_ID token) s)))"

definition account_audit :: "account_env \<Rightarrow> uuid \<Rightarrow> AuditAction \<Rightarrow> string \<Rightarrow> uuid \<Rightarrow> payload \<Rightarrow> payload
    \<Rightarrow> account_db \<Rightarrow> account_db" where
  "account_audit ae user action entity entityID oldData newData =
     on_tables (CreateAuditLog (ac_env ae) (auditParams None user action entity entityID oldData newData))"

lemma account_audit_frame [simp, frame_simps]:
  "users (account_audit ae u a e i od nd s) = users s"
  "refresh_tokens (account_audit ae u a e i od nd s) = refresh_tokens s"
  "email_verification_tokens (account_audit ae u a e i od nd s) = email_verification_tokens s"
  "password_reset_tokens (account_audit ae u a e i od nd s) = password_reset_tokens s"
  "user_organization_roles (account_audit ae u a e i od nd s) = user_organization_roles s"
  "roles (account_audit ae u a e i od nd s) = roles s"
  by (simp_all add: account_audit_def)

definition bool_object :: "(string \<times> bool) list \<Rightarrow> payload" where
  "bool_object kvs = PDoc (JObj (map (\<lambda>(k, b). (k, JBool b)) kvs))"

definition ForgotPasswordTransaction :: "account_env \<Rightarrow> CreateTokenParams \<Rightarrow> account_db
    \<Rightarrow> auth_error + (reset_row \<times> account_db)" where
  "ForgotPasswordTransaction ae p s =
     res_bind (res_map_err ErrSql (CreatePasswordResetToken (ac_env ae) p s)) (\<lambda>(token, s).
       Inr (token, account_audit ae (pw_UserID token) AuditActionCreate ''password_reset_tokens'' (pw_ID token)
              PEmpty (bool_object [(''requested'', True)]) s))"

text \<open>Step 1 runs before the transaction, on the database \<open>s0\<close> of that moment.\<close>

definition reset_preview :: "account_db \<Rightarrow> string \<Rightarrow> auth_error + reset_row" where
  "reset_preview s0 tokenHash = no_rows_as ErrResetTokenInvalid ErrSql (GetPasswordResetTokenByHash s0 tokenHash)"

definition ResetPasswordTransaction :: "account_env \<Rightarrow> reset_row \<Rightarrow> string \<Rightarrow> account_db
    \<Rightarrow> auth_error + (unit \<times> account_db)" where
  "ResetPasswordTransaction ae preview newPasswordHash s =
     (case find (\<lambda>t. pw_ID t = pw_ID preview) (LockUserPasswordResetTokens s (pw_UserID preview)) of
        None \<Rightarrow> Inl ErrResetTokenUsed
      | Some token \<Rightarrow>
          if ts_Time (pw_ExpiresAt token) < now_of ae then Inl ErrResetTokenExpired
          else
            let s = UsePasswordResetToken (ac_env ae) (pw_ID token) s;
                s = UseAllUserPasswordResetTokens (ac_env ae) (pw_UserID token) s;
                s = UpdateUserPasswordHash (ac_env ae) newPasswordHash (pw_UserID token) s;
                s = RevokeUserRefreshTokens (ac_env ae) (pw_UserID token) s
            in Inr ((), account_audit ae (pw_UserID token) AuditActionUpdate ''users'' (pw_UserID token)
                 (bool_object [(''password_changed'', True)])
                 (bool_object [(''password_changed'', True), (''sessions_revoked'', True)]) s))"

end
