(* ===== verification/Auth_Service.thy ===== *)
theory Auth_Service
  imports Auth_Repo
begin

text \<open>
  \<open>auth/service.go\<close> and \<open>cleanup/scheduler.go\<close> (the token tables): login, refresh, logout,
  registration, verification and password reset.  Metrics and the timing equalization of the failure
  paths have no effect on the results and are left out.
\<close>

section \<open>The persona of a request\<close>

record principalContext =
  pc_OrgID :: string
  pc_Role :: string
  pc_Scope :: string
  pc_PlayerProfileID :: string

definition resolveExplicitOrg :: "account_env \<Rightarrow> account_db \<Rightarrow> uuid \<Rightarrow> string \<Rightarrow> auth_error + principalContext" where
  "resolveExplicitOrg ae s uid orgIDStr =
     (case ParseUUID (env_scan (ac_env ae)) orgIDStr of
        Inl _ \<Rightarrow> Inl ErrOrganizationNotFound
      | Inr orgUUID \<Rightarrow>
          case GetUserRolesByOrganization (ac_env ae) s uid orgUUID of
            [] \<Rightarrow> Inl ErrOrganizationNotFound
          | r # _ \<Rightarrow> Inr \<lparr>pc_OrgID = orgIDStr, pc_Role = ro_Slug r, pc_Scope = ScopeOrganizer, pc_PlayerProfileID = []\<rparr>)"

definition platform_context :: "role_row \<Rightarrow> principalContext" where
  "platform_context r = \<lparr>pc_OrgID = [], pc_Role = ro_Slug r, pc_Scope = ScopePlatform, pc_PlayerProfileID = []\<rparr>"

definition player_context :: "string \<Rightarrow> principalContext" where
  "player_context profileID = \<lparr>pc_OrgID = [], pc_Role = [], pc_Scope = ScopePlayer, pc_PlayerProfileID = profileID\<rparr>"

definition onboarding_context :: principalContext where
  "onboarding_context = \<lparr>pc_OrgID = [], pc_Role = OnboardingRole, pc_Scope = ScopeOnboarding, pc_PlayerProfileID = []\<rparr>"

definition orgSummary :: "org_row \<Rightarrow> OrgSummary" where
  "orgSummary org = \<lparr>os_ID = UUIDToString (o_ID org), os_Name = o_Name org, os_Slug = o_Slug org\<rparr>"

definition resolvePrincipal :: "account_env \<Rightarrow> account_db \<Rightarrow> uuid \<Rightarrow> string \<Rightarrow> auth_error + principalContext" where
  "resolvePrincipal ae s uid orgIDHint =
     (if orgIDHint \<noteq> [] then resolveExplicitOrg ae s uid orgIDHint
      else case GetUserPlatformRoles (ac_env ae) s uid of
        r # _ \<Rightarrow> Inr (platform_context r)
      | [] \<Rightarrow>
          case GetUserOrganizations (ac_env ae) s uid of
            [] \<Rightarrow>
              (case (if ac_player_persona ae then GetPlayerProfileID s uid else None) of
                 Some profileID \<Rightarrow> Inr (player_context profileID)
               | None \<Rightarrow> Inr onboarding_context)
          | [org] \<Rightarrow> resolveExplicitOrg ae s uid (UUIDToString (o_ID org))
          | orgs \<Rightarrow> Inl (ErrOrganizationRequired (map orgSummary orgs)))"

definition resolvePrincipalForScope :: "account_env \<Rightarrow> account_db \<Rightarrow> uuid \<Rightarrow> string \<Rightarrow> string
    \<Rightarrow> auth_error + principalContext" where
  "resolvePrincipalForScope ae s uid requestedScope orgIDHint =
     (if requestedScope = ScopeOrganizer then
        if orgIDHint = [] then Inl ErrScopeNotEntitled
        else case resolveExplicitOrg ae s uid orgIDHint of
          Inl e \<Rightarrow> if e = ErrOrganizationNotFound then Inl ErrScopeNotEntitled else Inl e
        | Inr pc \<Rightarrow> Inr pc
      else if requestedScope = ScopePlayer then
        if \<not> ac_player_persona ae then Inl ErrScopeNotEntitled
        else case GetPlayerProfileID s uid of
          None \<Rightarrow> Inl ErrScopeNotEntitled
        | Some profileID \<Rightarrow> Inr (player_context profileID)
      else if requestedScope = ScopePlatform then
        case GetUserPlatformRoles (ac_env ae) s uid of
          [] \<Rightarrow> Inl ErrScopeNotEntitled
        | r # _ \<Rightarrow> Inr (platform_context r)
      else if requestedScope = ScopeOnboarding then
        if GetUserOrganizations (ac_env ae) s uid \<noteq> [] then Inl ErrScopeNotEntitled
        else if GetPlayerProfileID s uid \<noteq> None then Inl ErrScopeNotEntitled
        else Inr onboarding_context
      else Inl ErrScopeNotEntitled)"

section \<open>Sessions\<close>

definition access_token :: "account_env \<Rightarrow> user_row \<Rightarrow> principalContext \<Rightarrow> string" where
  "access_token ae user pc = GenerateAccessToken ae (UUIDToString (us_ID user)) (pc_OrgID pc) (pc_Role pc)
     (us_Email user) (pc_Scope pc) (pc_PlayerProfileID pc)"

definition session_params :: "account_env \<Rightarrow> user_row \<Rightarrow> string option \<Rightarrow> string option \<Rightarrow> CreateRefreshTokenParams" where
  "session_params ae user ip agent = \<lparr>cr_UserID = us_ID user, cr_TokenHash = ac_hash_token ae (ac_raw_token ae),
     cr_ExpiresAt = GetRefreshTokenExpiryTime ae, cr_IpAddress = ip, cr_UserAgent = agent\<rparr>"

definition session_response :: "account_env \<Rightarrow> user_row \<Rightarrow> principalContext \<Rightarrow> LoginResponse" where
  "session_response ae user pc = \<lparr>lo_AccessToken = access_token ae user pc, lo_RefreshToken = ac_raw_token ae,
     lo_ExpiresIn = accessTokenDuration div 1000000, lo_TokenType = ''Bearer'', lo_Scope = pc_Scope pc\<rparr>"

text \<open>
  \<open>login\<close> up to the session's row: the reads and checks, on the database they read.  The row is inserted by a
  statement of its own, on the database of a later moment; nothing is checked again.
\<close>

definition prepare_login :: "account_env \<Rightarrow> account_db \<Rightarrow> LoginRequest \<Rightarrow> auth_error + (user_row \<times> principalContext)" where
  "prepare_login ae s req =
     (case repo_GetUserByEmail s (li_Email req) of
        Inl _ \<Rightarrow> Inl ErrInvalidCredentials
      | Inr user \<Rightarrow>
          if \<not> VerifyPassword ae (li_Password req) (us_PasswordHash user) then Inl ErrInvalidCredentials
          else res_bind (assertUserActive user) (\<lambda>_.
            res_bind (resolvePrincipal ae s (us_ID user) (li_OrganizationID req)) (\<lambda>pc. Inr (user, pc))))"

text \<open>A sign-in that nothing interleaves.\<close>

definition auth_login :: "account_env \<Rightarrow> LoginRequest \<Rightarrow> string option \<Rightarrow> string option \<Rightarrow> account_db
    \<Rightarrow> auth_error + (LoginResponse \<times> account_db)" where
  "auth_login ae req ip agent s =
     res_bind (prepare_login ae s req) (\<lambda>(user, pc).
     res_bind (repo_CreateRefreshToken ae (session_params ae user ip agent) s) (\<lambda>(_, s).
       Inr (session_response ae user pc, s)))"

text \<open>The part of \<open>refresh\<close> before the rotation, on the database it reads.\<close>

definition prepare_refresh :: "account_env \<Rightarrow> account_db \<Rightarrow> RefreshRequest
    \<Rightarrow> auth_error + (user_row \<times> principalContext)" where
  "prepare_refresh ae s req =
     (if fr_RefreshToken req = [] then Inl ErrInvalidToken
      else res_bind (repo_GetRefreshTokenByHash s (ac_hash_token ae (fr_RefreshToken req))) (\<lambda>existingToken.
        res_bind (case repo_GetUserByID s (rf_UserID existingToken) of
             Inl e \<Rightarrow> if e = ErrUserNotFound then Inl ErrInvalidToken else Inl e
           | Inr user \<Rightarrow> Inr user) (\<lambda>user.
        res_bind (assertUserActive user) (\<lambda>_.
        res_bind (if fr_Scope req \<noteq> [] then resolvePrincipalForScope ae s (us_ID user) (fr_Scope req) (fr_OrganizationID req)
             else resolvePrincipal ae s (us_ID user) (fr_OrganizationID req)) (\<lambda>pc. Inr (user, pc))))))"

definition auth_refresh :: "account_env \<Rightarrow> RefreshRequest \<Rightarrow> string option \<Rightarrow> string option \<Rightarrow> account_db
    \<Rightarrow> (auth_error + LoginResponse) \<times> account_db" where
  "auth_refresh ae req ip agent s =
     (case prepare_refresh ae s req of
        Inl e \<Rightarrow> (Inl e, s)
      | Inr (user, pc) \<Rightarrow>
          case RotateRefreshToken ae (ac_hash_token ae (fr_RefreshToken req)) (session_params ae user ip agent) s of
            (Inl e, s') \<Rightarrow> (Inl e, s')
          | (Inr _, s') \<Rightarrow> (Inr (session_response ae user pc), s'))"

definition auth_Logout :: "account_env \<Rightarrow> string \<Rightarrow> account_db \<Rightarrow> auth_error + (unit \<times> account_db)" where
  "auth_Logout ae refreshToken s =
     (if refreshToken = [] then Inl ErrInvalidToken
      else LogoutTransaction ae (ac_hash_token ae refreshToken) s)"

definition auth_Me :: "account_env \<Rightarrow> account_db \<Rightarrow> AuthUser \<Rightarrow> auth_error + MeResponse" where
  "auth_Me ae s actor =
     (case env_scan (ac_env ae) (au_UserID actor) of
        None \<Rightarrow> Inl ErrInvalidToken
      | Some w \<Rightarrow>
          case repo_GetUserByID s (Some w) of
            Inl e \<Rightarrow> if e = ErrUserNotFound then Inl ErrInvalidToken else Inl e
          | Inr user \<Rightarrow> Inr \<lparr>me_ID = UUIDToString (us_ID user), me_Email = us_Email user, me_Username = us_Username user,
              me_FullName = buildFullName (us_FirstName user) (us_LastName user), me_Status = UserStatus_str (us_Status user)\<rparr>)"

section \<open>Accounts\<close>

definition auth_Register :: "account_env \<Rightarrow> RegisterRequest \<Rightarrow> account_db
    \<Rightarrow> auth_error + (RegisterResponse \<times> account_db)" where
  "auth_Register ae req s =
     res_bind (HashPassword ae (gr_Password req)) (\<lambda>hash.
       case splitFullName (gr_FullName req) of (firstName, lastName) \<Rightarrow>
         res_bind (RegisterTransaction ae
             \<lparr>rg_UserParams = \<lparr>cu_Email = strings_ToLower (strings_TrimSpace (gr_Email req)),
                 cu_Username = strings_TrimSpace (gr_Username req), cu_PasswordHash = hash,
                 cu_FirstName = firstName, cu_LastName = lastName\<rparr>,
              rg_TokenHash = ac_hash_token ae (ac_raw_token ae), rg_TokenExpiry = GetVerificationTokenExpiryTime ae\<rparr> s)
           (\<lambda>((user, _), s). Inr (\<lparr>gs_ID = UUIDToString (us_ID user), gs_Email = us_Email user,
              gs_Username = us_Username user,
              gs_Message = ''registration successful, please verify your email address'',
              gs_VerificationToken = ac_raw_token ae\<rparr>, s)))"

definition auth_VerifyEmail :: "account_env \<Rightarrow> string \<Rightarrow> account_db \<Rightarrow> auth_error + (unit \<times> account_db)" where
  "auth_VerifyEmail ae rawToken s =
     (if rawToken = [] then Inl ErrVerificationTokenInvalid
      else VerifyEmailTransaction ae (ac_hash_token ae rawToken) s)"

definition forgot_message :: string where
  "forgot_message = ''if the email is registered, a password reset link has been sent''"

definition auth_ForgotPassword :: "account_env \<Rightarrow> string \<Rightarrow> account_db \<Rightarrow> ForgotPasswordResponse \<times> account_db" where
  "auth_ForgotPassword ae email s =
     (case repo_GetUserByEmail s email of
        Inl _ \<Rightarrow> (\<lparr>fp_Message = forgot_message, fp_ResetToken = []\<rparr>, s)
      | Inr user \<Rightarrow>
          case ForgotPasswordTransaction ae \<lparr>ct_UserID = us_ID user, ct_TokenHash = ac_hash_token ae (ac_raw_token ae),
                 ct_ExpiresAt = GetPasswordResetTokenExpiryTime ae\<rparr> s of
            Inl _ \<Rightarrow> (\<lparr>fp_Message = forgot_message, fp_ResetToken = []\<rparr>, s)
          | Inr (_, s') \<Rightarrow> (\<lparr>fp_Message = forgot_message, fp_ResetToken = ac_raw_token ae\<rparr>, s'))"

definition auth_ResetPassword :: "account_env \<Rightarrow> ResetPasswordRequest \<Rightarrow> account_db
    \<Rightarrow> auth_error + (unit \<times> account_db)" where
  "auth_ResetPassword ae req s =
     res_bind (HashPassword ae (rs_Password req)) (\<lambda>hash.
     res_bind (reset_preview s (ac_hash_token ae (rs_Token req))) (\<lambda>preview.
       ResetPasswordTransaction ae preview hash s))"

text \<open>The raw token to deliver, empty when no mail is to be sent.\<close>

definition auth_ResendVerification :: "account_env \<Rightarrow> string \<Rightarrow> account_db \<Rightarrow> string \<times> account_db" where
  "auth_ResendVerification ae email s =
     (case repo_GetUserByEmail s (strings_ToLower (strings_TrimSpace email)) of
        Inl _ \<Rightarrow> ([], s)
      | Inr user \<Rightarrow>
          if us_Status user \<noteq> UserStatusPendingVerification then ([], s)
          else case repo_CreateEmailVerificationToken ae \<lparr>ct_UserID = us_ID user,
                 ct_TokenHash = ac_hash_token ae (ac_raw_token ae), ct_ExpiresAt = GetVerificationTokenExpiryTime ae\<rparr> s of
            Inl _ \<Rightarrow> ([], s)
          | Inr (_, s') \<Rightarrow> (ac_raw_token ae, s'))"

section \<open>Result labels of the metrics\<close>

fun loginResultLabel :: "auth_error option \<Rightarrow> string" where
  "loginResultLabel None = ''success''"
| "loginResultLabel (Some ErrInvalidCredentials) = ''invalid_credentials''"
| "loginResultLabel (Some ErrUserSuspended) = ''suspended''"
| "loginResultLabel (Some ErrUserInactive) = ''inactive''"
| "loginResultLabel (Some ErrUserPendingVerification) = ''pending_verification''"
| "loginResultLabel (Some _) = ''error''"

fun refreshResultLabel :: "auth_error option \<Rightarrow> string" where
  "refreshResultLabel None = ''success''"
| "refreshResultLabel (Some ErrInvalidToken) = ''invalid''"
| "refreshResultLabel (Some ErrExpiredToken) = ''expired''"
| "refreshResultLabel (Some ErrTokenReuse) = ''replay''"
| "refreshResultLabel (Some ErrUserSuspended) = ''suspended''"
| "refreshResultLabel (Some ErrUserInactive) = ''inactive''"
| "refreshResultLabel (Some ErrUserPendingVerification) = ''pending_verification''"
| "refreshResultLabel (Some _) = ''error''"

section \<open>Cleanup\<close>

text \<open>One pass of the scheduler over the token tables and the audit log; days are counted in UTC.\<close>

definition cleanup_runOnce :: "account_env \<Rightarrow> nat \<Rightarrow> account_db \<Rightarrow> account_db" where
  "cleanup_runOnce ae auditLogRetentionDays s =
     (let cutoff = now_of ae;
          s = DeleteExpiredRefreshTokens cutoff s;
          s = DeleteExpiredEmailVerificationTokens cutoff s;
          s = DeleteExpiredPasswordResetTokens cutoff s
      in on_tables (\<lambda>d. d\<lparr>audit_logs := filter (\<lambda>a. case al_CreatedAt a of None \<Rightarrow> True
           | Some t \<Rightarrow> \<not> t < now_of ae - int auditLogRetentionDays * minutes (24 * 60)) (audit_logs d)\<rparr>) s)"

end
