(* ===== verification/Users_Service.thy ===== *)
theory Users_Service
  imports Auth_Service
begin

text \<open>
  Package \<open>users\<close>: profiles, password change, listing and deactivation
  (\<open>service.go\<close>, \<open>repository.go\<close>, \<open>dto.go\<close>, \<open>errors.go\<close>).
\<close>

datatype users_error =
    UsersErrUserNotFound
  | UsersErrForbidden
  | UsersErrUsernameAlreadyTaken
  | UsersErrUserAlreadyInactive
  | UsersErrLastPlatformAdmin
  | UsersErrInvalidCredentials
  | UsersErrEmailNotUpdatable
  | UsersErrBadRequest string string
  | UsersErrAffectedRows nat
  | UsersErrSql sql_error

record UpdateProfileRequest =
  uq_Email :: "string option"
  uq_FirstName :: "string option"
  uq_LastName :: "string option"
  uq_Username :: "string option"
  uq_Phone :: "string option"
  uq_DateOfBirth :: "string option"
  uq_Gender :: "string option"

record UserResponse =
  ur_ID :: string
  ur_Email :: string
  ur_Username :: string
  ur_FullName :: string
  ur_Phone :: "string option"
  ur_DateOfBirth :: "string option"
  ur_Gender :: "string option"
  ur_Status :: string
  ur_CreatedAt :: string
  ur_UpdatedAt :: string

record UserListResponse =
  ulr_Users :: "UserResponse list"
  ulr_Total :: int
  ulr_Limit :: int
  ulr_Offset :: int

section \<open>Transactions\<close>

definition users_GetByID :: "account_db \<Rightarrow> uuid \<Rightarrow> users_error + user_row" where
  "users_GetByID s uid = no_rows_as UsersErrUserNotFound UsersErrSql (GetUserByID s uid)"

definition opt_member :: "string \<Rightarrow> string option \<Rightarrow> (string \<times> json) list" where
  "opt_member k m = (case m of None \<Rightarrow> [] | Some v \<Rightarrow> [(k, JStr v)])"

text \<open>\<open>json.Marshal(profileSnapshot(u))\<close>: members in field order, the nullable ones omitted when empty.\<close>

definition profileSnapshot :: "account_env \<Rightarrow> user_row \<Rightarrow> payload" where
  "profileSnapshot ae u = PDoc (JObj ([(''first_name'', JStr (us_FirstName u)), (''last_name'', JStr (us_LastName u)),
     (''username'', JStr (us_Username u))] @ opt_member ''phone'' (us_Phone u)
     @ opt_member ''date_of_birth'' (map_option (ac_format_date ae) (us_DateOfBirth u))
     @ opt_member ''gender'' (map_option Gender_str (us_Gender u))))"

definition UpdateProfileTransaction :: "account_env \<Rightarrow> uuid \<Rightarrow> UpdateUserProfileParams \<Rightarrow> account_db
    \<Rightarrow> users_error + (user_row \<times> account_db)" where
  "UpdateProfileTransaction ae actorID p s =
     res_bind (no_rows_as UsersErrUserNotFound UsersErrSql (GetUserByIDForUpdate s (uf_ID p))) (\<lambda>locked.
       if us_Status locked \<noteq> UserStatusActive then Inl UsersErrForbidden
       else res_bind (res_map_err (\<lambda>e. if e = ConstraintViolation ''uq_users_username''
                 then UsersErrUsernameAlreadyTaken else UsersErrSql e) (UpdateUserProfile (ac_env ae) p s))
         (\<lambda>(updated, s).
           let oldData = profileSnapshot ae locked; newData = profileSnapshot ae updated in
           Inr (updated, if oldData = newData then s
                else account_audit ae actorID AuditActionUpdate ''users'' (uf_ID p) oldData newData s)))"

definition ChangePasswordTransaction :: "account_env \<Rightarrow> uuid \<Rightarrow> string \<Rightarrow> account_db
    \<Rightarrow> users_error + (unit \<times> account_db)" where
  "ChangePasswordTransaction ae uid newPasswordHash s =
     res_bind (no_rows_as UsersErrInvalidCredentials UsersErrSql (GetUserByIDForUpdate s uid)) (\<lambda>locked.
       if us_Status locked \<noteq> UserStatusActive then Inl UsersErrInvalidCredentials
       else
         let s = UpdateUserPasswordHash (ac_env ae) newPasswordHash uid s;
             s = RevokeUserRefreshTokens (ac_env ae) uid s
         in Inr ((), account_audit ae uid AuditActionUpdate ''users'' uid
              (bool_object [(''password_changed'', False), (''sessions_revoked'', False)])
              (bool_object [(''password_changed'', True), (''sessions_revoked'', True)]) s))"

definition status_object :: "string \<Rightarrow> payload" where
  "status_object st = PDoc (JObj [(''status'', JStr st)])"

definition DeactivateTransaction :: "account_env \<Rightarrow> uuid \<Rightarrow> uuid \<Rightarrow> account_db
    \<Rightarrow> users_error + (unit \<times> account_db)" where
  "DeactivateTransaction ae actorID targetID s =
     res_bind (res_map_err UsersErrSql (GetPlatformAdminRoleForUpdate s)) (\<lambda>_.
     res_bind (ensure (\<not> (IsUserActivePlatformAdmin (ac_env ae) s targetID
                  \<and> CountActivePlatformAdmins (ac_env ae) s \<le> 1)) UsersErrLastPlatformAdmin) (\<lambda>_.
     res_bind (no_rows_as UsersErrUserNotFound UsersErrSql (GetUserByIDForUpdate s targetID)) (\<lambda>locked.
       if us_Status locked = UserStatusInactive then Inl UsersErrUserAlreadyInactive
       else case DeactivateUser (ac_env ae) targetID s of (n, s) \<Rightarrow>
         if n \<noteq> 1 then Inl (UsersErrAffectedRows n)
         else Inr ((), account_audit ae actorID AuditActionUpdate ''users'' targetID
                (status_object (UserStatus_str (us_Status locked))) (status_object ''inactive'')
                (RevokeUserRefreshTokens (ac_env ae) targetID s)))))"

section \<open>Service\<close>

definition assertSelfOrAdmin :: "string \<Rightarrow> string \<Rightarrow> bool \<Rightarrow> users_error + unit" where
  "assertSelfOrAdmin actorID targetID actorIsAdmin = ensure (actorIsAdmin \<or> actorID = targetID) UsersErrForbidden"

definition assertPlatformAdmin :: "bool \<Rightarrow> users_error + unit" where
  "assertPlatformAdmin actorIsAdmin = ensure actorIsAdmin UsersErrForbidden"

definition userToResponse :: "account_env \<Rightarrow> user_row \<Rightarrow> UserResponse" where
  "userToResponse ae u = \<lparr>ur_ID = UUIDToString (us_ID u), ur_Email = us_Email u, ur_Username = us_Username u,
     ur_FullName = buildFullName (us_FirstName u) (us_LastName u), ur_Phone = us_Phone u,
     ur_DateOfBirth = map_option (ac_format_date ae) (us_DateOfBirth u), ur_Gender = map_option Gender_str (us_Gender u),
     ur_Status = UserStatus_str (us_Status u),
     ur_CreatedAt = env_format_time (ac_env ae) (ts_Time (us_CreatedAt u)),
     ur_UpdatedAt = env_format_time (ac_env ae) (ts_Time (us_UpdatedAt u))\<rparr>"

definition user_GetByID :: "account_env \<Rightarrow> account_db \<Rightarrow> string \<Rightarrow> bool \<Rightarrow> string \<Rightarrow> users_error + UserResponse" where
  "user_GetByID ae s actorID actorIsAdmin targetID =
     (case ParseUUID (env_scan (ac_env ae)) targetID of
        Inl _ \<Rightarrow> Inl UsersErrUserNotFound
      | Inr uid \<Rightarrow> res_bind (assertSelfOrAdmin actorID targetID actorIsAdmin) (\<lambda>_.
          res_bind (users_GetByID s uid) (\<lambda>user. Inr (userToResponse ae user))))"

text \<open>The fields of the request over those of the row, in the order of the checks.\<close>

definition name_field :: "string \<Rightarrow> string option \<Rightarrow> string \<Rightarrow> users_error + string" where
  "name_field field req current = (case req of None \<Rightarrow> Inr current
     | Some raw \<Rightarrow> let v = strings_TrimSpace raw in
         if length v < 1 \<or> length v > 100
         then Inl (UsersErrBadRequest field ''must be between 1 and 100 characters'') else Inr v)"

definition username_field :: "account_env \<Rightarrow> string option \<Rightarrow> string \<Rightarrow> users_error + string" where
  "username_field ae req current = (case req of None \<Rightarrow> Inr current
     | Some raw \<Rightarrow> let v = strings_TrimSpace raw in
         if char_length v < 3 \<or> char_length v > 30
         then Inl (UsersErrBadRequest ''username'' ''must be between 3 and 30 characters'')
         else if list_all (\<lambda>c. word_char c \<or> (of_char c :: nat) \<ge> 128) v
             \<and> (list_ex (\<lambda>c. (of_char c :: nat) \<ge> 128) v \<longrightarrow> ac_unicode_word ae v) then Inr v
         else Inl (UsersErrBadRequest ''username'' ''must contain only letters, numbers, and underscores''))"

definition phone_field :: "string option \<Rightarrow> string option \<Rightarrow> users_error + string option" where
  "phone_field req current = (case req of None \<Rightarrow> Inr current
     | Some v \<Rightarrow> if v = [] then Inr None
         else if length v > 20 then Inl (UsersErrBadRequest ''phone'' ''must be at most 20 characters'')
         else Inr (Some v))"

definition birth_field :: "account_env \<Rightarrow> string option \<Rightarrow> int option \<Rightarrow> users_error + int option" where
  "birth_field ae req current = (case req of None \<Rightarrow> Inr current
     | Some v \<Rightarrow> if v = [] then Inr None
         else case ac_parse_date ae v of
           None \<Rightarrow> Inl (UsersErrBadRequest ''date_of_birth'' ''must be a valid date in YYYY-MM-DD format'')
         | Some t \<Rightarrow> Inr (Some t))"

definition gender_of_str :: "string \<Rightarrow> Gender option" where
  "gender_of_str v = find (\<lambda>g. Gender_str g = v) [GenderMale, GenderFemale, GenderOther, GenderPreferNotToSay]"

definition gender_field :: "string option \<Rightarrow> Gender option \<Rightarrow> users_error + Gender option" where
  "gender_field req current = (case req of None \<Rightarrow> Inr current
     | Some v \<Rightarrow> if v = [] then Inr None
         else case gender_of_str v of
           None \<Rightarrow> Inl (UsersErrBadRequest ''gender'' ''must be one of: male, female, other, prefer_not_to_say'')
         | Some g \<Rightarrow> Inr (Some g))"

definition merge_profile :: "account_env \<Rightarrow> uuid \<Rightarrow> user_row \<Rightarrow> UpdateProfileRequest
    \<Rightarrow> users_error + UpdateUserProfileParams" where
  "merge_profile ae targetUID current req =
     res_bind (name_field ''first_name'' (uq_FirstName req) (us_FirstName current)) (\<lambda>firstName.
     res_bind (name_field ''last_name'' (uq_LastName req) (us_LastName current)) (\<lambda>lastName.
     res_bind (username_field ae (uq_Username req) (us_Username current)) (\<lambda>username.
     res_bind (phone_field (uq_Phone req) (us_Phone current)) (\<lambda>phone.
     res_bind (birth_field ae (uq_DateOfBirth req) (us_DateOfBirth current)) (\<lambda>birth.
     res_bind (gender_field (uq_Gender req) (us_Gender current)) (\<lambda>gender.
       Inr \<lparr>uf_ID = targetUID, uf_FirstName = firstName, uf_LastName = lastName, uf_Username = username,
            uf_Phone = phone, uf_DateOfBirth = birth, uf_Gender = gender\<rparr>))))))"

definition UpdateProfile :: "account_env \<Rightarrow> string \<Rightarrow> bool \<Rightarrow> string \<Rightarrow> UpdateProfileRequest \<Rightarrow> account_db
    \<Rightarrow> users_error + (UserResponse \<times> account_db)" where
  "UpdateProfile ae actorID actorIsAdmin targetID req s =
     (case ParseUUID (env_scan (ac_env ae)) targetID of
        Inl _ \<Rightarrow> Inl UsersErrUserNotFound
      | Inr targetUID \<Rightarrow>
          case ParseUUID (env_scan (ac_env ae)) actorID of
            Inl _ \<Rightarrow> Inl UsersErrForbidden
          | Inr actorUID \<Rightarrow>
              res_bind (assertSelfOrAdmin actorID targetID actorIsAdmin) (\<lambda>_.
              res_bind (ensure (uq_Email req = None) UsersErrEmailNotUpdatable) (\<lambda>_.
              res_bind (users_GetByID s targetUID) (\<lambda>current.
              res_bind (ensure (us_Status current = UserStatusActive) UsersErrForbidden) (\<lambda>_.
              res_bind (merge_profile ae targetUID current req) (\<lambda>params.
              res_bind (UpdateProfileTransaction ae actorUID params s) (\<lambda>(updated, s).
                Inr (userToResponse ae updated, s))))))))"

definition ChangePassword :: "account_env \<Rightarrow> string \<Rightarrow> string \<Rightarrow> string \<Rightarrow> string \<Rightarrow> account_db
    \<Rightarrow> users_error + (unit \<times> account_db)" where
  "ChangePassword ae actorID targetID currentPassword newPassword s =
     (if actorID \<noteq> targetID then Inl UsersErrForbidden
      else case ParseUUID (env_scan (ac_env ae)) targetID of
        Inl _ \<Rightarrow> Inl UsersErrUserNotFound
      | Inr uid \<Rightarrow>
          res_bind (users_GetByID s uid) (\<lambda>current.
            if us_Status current \<noteq> UserStatusActive then Inl UsersErrInvalidCredentials
            else if \<not> ac_bcrypt_compare ae (us_PasswordHash current) currentPassword
            then Inl UsersErrInvalidCredentials
            else ChangePasswordTransaction ae uid (ac_bcrypt ae newPassword) s))"

definition users_limit :: "int \<Rightarrow> int" where
  "users_limit limit = (if limit \<le> 0 \<or> limit > 200 then 50 else limit)"

definition ListUsers :: "account_env \<Rightarrow> account_db \<Rightarrow> bool \<Rightarrow> int \<Rightarrow> int \<Rightarrow> users_error + UserListResponse" where
  "ListUsers ae s actorIsAdmin limit0 offset0 =
     res_bind (assertPlatformAdmin actorIsAdmin) (\<lambda>_.
       let limit = users_limit limit0; offset = (if offset0 < 0 then 0 else offset0) in
       Inr \<lparr>ulr_Users = map (userToResponse ae) (ListUsersPaginated s offset limit), ulr_Total = CountUsers s,
            ulr_Limit = limit, ulr_Offset = offset\<rparr>)"

definition service_DeactivateUser :: "account_env \<Rightarrow> string \<Rightarrow> bool \<Rightarrow> string \<Rightarrow> account_db
    \<Rightarrow> users_error + (unit \<times> account_db)" where
  "service_DeactivateUser ae actorID actorIsAdmin targetID s =
     res_bind (assertPlatformAdmin actorIsAdmin) (\<lambda>_.
       case ParseUUID (env_scan (ac_env ae)) actorID of
         Inl _ \<Rightarrow> Inl UsersErrForbidden
       | Inr actorUID \<Rightarrow>
           case ParseUUID (env_scan (ac_env ae)) targetID of
             Inl _ \<Rightarrow> Inl UsersErrUserNotFound
           | Inr targetUID \<Rightarrow> DeactivateTransaction ae actorUID targetUID s)"

end
