(* ===== verification/Members_Service.thy ===== *)
theory Members_Service
  imports Users_Service
begin

text \<open>
  Package \<open>members\<close>: the role grants of an organization (\<open>service.go\<close>, \<open>repository.go\<close>, \<open>dto.go\<close>,
  \<open>errors.go\<close>).  The last-owner check of \<open>RevokeRole\<close> reads the database before the transaction that
  deletes the grant: \<open>prepare_revoke\<close> and \<open>RevokeRoleWithAudit\<close> are separate.
\<close>

datatype members_error =
    MembersErrOrganizationNotFound
  | MembersErrUserNotFound
  | MembersErrRoleNotFound
  | MembersErrGrantNotFound
  | MembersErrForbidden
  | MembersErrLastOwner
  | MembersErrInvalidExpiresAt
  | MembersErrInvalidActor
  | MembersErrSql sql_error

record RoleGrant =
  rg_GrantID :: string
  rg_RoleSlug :: string
  rg_RoleName :: string
  rg_GrantedAt :: string
  rg_ExpiresAt :: "string option"
  rg_GrantedBy :: "string option"

record MemberResponse =
  mb_UserID :: string
  mb_Email :: string
  mb_Username :: string
  mb_FirstName :: string
  mb_LastName :: string
  mb_UserStatus :: string
  mb_Roles :: "RoleGrant list"

section \<open>Repository\<close>

definition members_GetOrgBySlug :: "account_db \<Rightarrow> string \<Rightarrow> members_error + org_row" where
  "members_GetOrgBySlug s slug =
     no_rows_as MembersErrOrganizationNotFound MembersErrSql (GetOrganizationBySlug (tables s) slug)"

definition members_GetUserByID :: "account_db \<Rightarrow> uuid \<Rightarrow> members_error + user_row" where
  "members_GetUserByID s uid = no_rows_as MembersErrUserNotFound MembersErrSql (GetUserByID s uid)"

definition members_GetRoleBySlug :: "account_db \<Rightarrow> string \<Rightarrow> members_error + role_row" where
  "members_GetRoleBySlug s slug = no_rows_as MembersErrRoleNotFound MembersErrSql (GetRoleBySlug s slug)"

definition permission_audit :: "account_env \<Rightarrow> uuid \<Rightarrow> uuid \<Rightarrow> uuid \<Rightarrow> account_db \<Rightarrow> account_db" where
  "permission_audit ae orgID actorID userID = on_tables (CreateAuditLog (ac_env ae)
     (auditParams orgID actorID AuditActionPermissionChange ''users'' userID PEmpty PEmpty))"

definition GrantRoleWithAudit :: "account_env \<Rightarrow> GrantOrgRoleParams \<Rightarrow> uuid \<Rightarrow> account_db
    \<Rightarrow> members_error + (unit \<times> account_db)" where
  "GrantRoleWithAudit ae p actorID s =
     res_bind (res_map_err MembersErrSql (GrantOrgRole (ac_env ae) p s)) (\<lambda>s.
       Inr ((), permission_audit ae (gp_OrganizationID p) actorID (gp_UserID p) s))"

definition RevokeRoleWithAudit :: "account_env \<Rightarrow> RevokeRoleParams \<Rightarrow> uuid \<Rightarrow> account_db
    \<Rightarrow> members_error + (unit \<times> account_db)" where
  "RevokeRoleWithAudit ae p actorID s =
     (case RevokeRoleFromUserInOrg p s of (n, s) \<Rightarrow>
        if n = 0 then Inl MembersErrGrantNotFound
        else Inr ((), permission_audit ae (rv_OrgID p) actorID (rv_UserID p) s))"

section \<open>Responses\<close>

definition formatTimestamp :: "account_env \<Rightarrow> timestamp \<Rightarrow> string" where
  "formatTimestamp ae ts = (case ts of None \<Rightarrow> [] | Some t \<Rightarrow> env_format_time (ac_env ae) t)"

definition grantFromRow :: "account_env \<Rightarrow> GetUserGrantsInOrgRow \<Rightarrow> RoleGrant" where
  "grantFromRow ae g = \<lparr>rg_GrantID = UUIDToString (gg_GrantID g), rg_RoleSlug = gg_RoleSlug g, rg_RoleName = gg_RoleName g,
     rg_GrantedAt = formatTimestamp ae (gg_GrantedAt g),
     rg_ExpiresAt = map_option (env_format_time (ac_env ae)) (gg_ExpiresAt g),
     rg_GrantedBy = uuidStringPtr (gg_GrantedBy g)\<rparr>"

definition buildMemberResponse :: "account_env \<Rightarrow> user_row \<Rightarrow> GetUserGrantsInOrgRow list \<Rightarrow> MemberResponse" where
  "buildMemberResponse ae user grants = \<lparr>mb_UserID = UUIDToString (us_ID user), mb_Email = us_Email user,
     mb_Username = us_Username user, mb_FirstName = us_FirstName user, mb_LastName = us_LastName user,
     mb_UserStatus = UserStatus_str (us_Status user), mb_Roles = map (grantFromRow ae) grants\<rparr>"

text \<open>
  \<open>aggregateMembers\<close>: the map by user and the order of first appearance, as one list of members in
  that order.
\<close>

definition first_member :: "account_env \<Rightarrow> ListOrgMembersWithRolesRow \<Rightarrow> MemberResponse" where
  "first_member ae row = \<lparr>mb_UserID = UUIDToString (lm_UserID row), mb_Email = lm_Email row,
     mb_Username = lm_Username row, mb_FirstName = lm_FirstName row, mb_LastName = lm_LastName row,
     mb_UserStatus = UserStatus_str (lm_UserStatus row), mb_Roles = [grantFromRow ae (lm_Grant row)]\<rparr>"

definition add_member_row :: "account_env \<Rightarrow> MemberResponse list \<Rightarrow> ListOrgMembersWithRolesRow \<Rightarrow> MemberResponse list" where
  "add_member_row ae acc row = (let uid = UUIDToString (lm_UserID row) in
     if list_ex (\<lambda>m. mb_UserID m = uid) acc
     then map (\<lambda>m. if mb_UserID m = uid then m\<lparr>mb_Roles := mb_Roles m @ [grantFromRow ae (lm_Grant row)]\<rparr> else m) acc
     else acc @ [first_member ae row])"

definition aggregateMembers :: "account_env \<Rightarrow> ListOrgMembersWithRolesRow list \<Rightarrow> MemberResponse list" where
  "aggregateMembers ae rows = foldl (add_member_row ae) [] rows"

section \<open>Service\<close>

definition members_org :: "account_db \<Rightarrow> string \<Rightarrow> string \<Rightarrow> members_error + org_row" where
  "members_org s orgSlug actorOrgID = res_bind (members_GetOrgBySlug s orgSlug) (\<lambda>org.
     res_bind (assert_owner MembersErrForbidden actorOrgID (UUIDToString (o_ID org))) (\<lambda>_. Inr org))"

definition members_user :: "account_env \<Rightarrow> account_db \<Rightarrow> string \<Rightarrow> members_error + user_row" where
  "members_user ae s targetUserID = (case ParseUUID (env_scan (ac_env ae)) targetUserID of
       Inl _ \<Rightarrow> Inl MembersErrUserNotFound | Inr uid \<Rightarrow> members_GetUserByID s uid)"

definition ListMembers :: "account_env \<Rightarrow> account_db \<Rightarrow> string \<Rightarrow> string \<Rightarrow> members_error + MemberResponse list" where
  "ListMembers ae s orgSlug actorOrgID = res_bind (members_org s orgSlug actorOrgID) (\<lambda>org.
     Inr (aggregateMembers ae (ListOrgMembersWithRoles (ac_env ae) s (o_ID org))))"

definition GetMember :: "account_env \<Rightarrow> account_db \<Rightarrow> string \<Rightarrow> string \<Rightarrow> string \<Rightarrow> members_error + MemberResponse" where
  "GetMember ae s orgSlug targetUserID actorOrgID =
     res_bind (members_org s orgSlug actorOrgID) (\<lambda>org.
     res_bind (members_user ae s targetUserID) (\<lambda>user.
       Inr (buildMemberResponse ae user (GetUserGrantsInOrg (ac_env ae) s (us_ID user) (o_ID org)))))"

definition parseExpiresAt :: "account_env \<Rightarrow> string option \<Rightarrow> members_error + timestamp" where
  "parseExpiresAt ae v = (case v of None \<Rightarrow> Inr None
     | Some str \<Rightarrow> if str = [] then Inr None
         else case env_parse_time (ac_env ae) str of
           None \<Rightarrow> Inl MembersErrInvalidExpiresAt
         | Some t \<Rightarrow> if t > now_of ae then Inr (Some t) else Inl MembersErrInvalidExpiresAt)"

definition members_actor :: "account_env \<Rightarrow> string \<Rightarrow> members_error + uuid" where
  "members_actor ae actorID = res_map_err (\<lambda>_. MembersErrInvalidActor) (ParseUUID (env_scan (ac_env ae)) actorID)"

definition GrantRole :: "account_env \<Rightarrow> string \<Rightarrow> string \<Rightarrow> string \<Rightarrow> string option \<Rightarrow> string \<Rightarrow> string \<Rightarrow> account_db
    \<Rightarrow> members_error + (MemberResponse \<times> account_db)" where
  "GrantRole ae orgSlug targetUserID roleSlug expires actorID actorOrgID s =
     res_bind (members_org s orgSlug actorOrgID) (\<lambda>org.
     res_bind (members_user ae s targetUserID) (\<lambda>user.
     res_bind (members_GetRoleBySlug s roleSlug) (\<lambda>role.
     res_bind (members_actor ae actorID) (\<lambda>actorUID.
     res_bind (parseExpiresAt ae expires) (\<lambda>expiresAt.
     res_bind (GrantRoleWithAudit ae \<lparr>gp_UserID = us_ID user, gp_OrganizationID = o_ID org, gp_RoleID = ro_ID role,
           gp_GrantedBy = actorUID, gp_ExpiresAt = expiresAt\<rparr> actorUID s) (\<lambda>(_, s).
       Inr (buildMemberResponse ae user (GetUserGrantsInOrg (ac_env ae) s (us_ID user) (o_ID org)), s)))))))"

definition prepare_revoke :: "account_env \<Rightarrow> account_db \<Rightarrow> string \<Rightarrow> string \<Rightarrow> string \<Rightarrow> string \<Rightarrow> string
    \<Rightarrow> members_error + (RevokeRoleParams \<times> uuid)" where
  "prepare_revoke ae s orgSlug targetUserID roleSlug actorID actorOrgID =
     res_bind (members_org s orgSlug actorOrgID) (\<lambda>org.
     res_bind (members_user ae s targetUserID) (\<lambda>user.
     res_bind (ensure (\<not> (roleSlug = ''org_owner'' \<and> CountActiveOrgOwnersByOrg (ac_env ae) s (o_ID org) \<le> 1))
         MembersErrLastOwner) (\<lambda>_.
     res_bind (members_actor ae actorID) (\<lambda>actorUID.
       Inr (\<lparr>rv_UserID = us_ID user, rv_OrgID = o_ID org, rv_RoleSlug = roleSlug\<rparr>, actorUID)))))"

definition RevokeRole :: "account_env \<Rightarrow> string \<Rightarrow> string \<Rightarrow> string \<Rightarrow> string \<Rightarrow> string \<Rightarrow> account_db
    \<Rightarrow> members_error + (unit \<times> account_db)" where
  "RevokeRole ae orgSlug targetUserID roleSlug actorID actorOrgID s =
     res_bind (prepare_revoke ae s orgSlug targetUserID roleSlug actorID actorOrgID) (\<lambda>(p, actorUID).
       RevokeRoleWithAudit ae p actorUID s)"

end
