(* ===== verification/Organizations_Service.thy ===== *)
theory Organizations_Service
  imports Members_Service Tournament_Model
begin

text \<open>
  Package \<open>organizations\<close> (\<open>service.go\<close>, \<open>repository.go\<close>, \<open>dto.go\<close>, \<open>errors.go\<close>) and the queries of
  \<open>organizations.sql.go\<close>.
\<close>

datatype organization_error =
    OrgErrNotFound
  | OrgErrSlugAlreadyTaken
  | OrgErrSlugGenerationFailed
  | OrgErrInvalidType
  | OrgErrInvalidCountryCode
  | OrgErrForbidden
  | OrgErrInvalidActor
  | OrgErrSql sql_error

section \<open>Queries\<close>

definition organization_checks :: "org_row \<Rightarrow> bool" where
  "organization_checks org \<longleftrightarrow> slug_ok (o_Slug org)
     \<and> 2 \<le> char_length (sql_trim (o_Name org)) \<and> char_length (o_Name org) \<le> 255
     \<and> (case o_Country org of None \<Rightarrow> True | Some c \<Rightarrow> length c = 2 \<and> (\<forall>x \<in> set c. upper_char x))
     \<and> (case o_Email org of None \<Rightarrow> True | Some e \<Rightarrow> email_ok e)"

record OrganizationParams =
  op_ID :: uuid                \<comment> \<open>of the row to update\<close>
  op_Name :: string
  op_Slug :: string            \<comment> \<open>of the row to create\<close>
  op_Description :: "string option"
  op_Type :: OrgType
  op_Website :: "string option"
  op_Email :: "string option"
  op_Phone :: "string option"
  op_Country :: "string option"
  op_City :: "string option"

definition created_organization :: "env \<Rightarrow> OrganizationParams \<Rightarrow> org_row" where
  "created_organization ev p = \<lparr>o_ID = Some (env_row_id ev), o_Name = op_Name p, o_Slug = op_Slug p,
     o_Description = op_Description p, o_Type = op_Type p, o_Status = OrgStatusActive, o_LogoUrl = None,
     o_Website = op_Website p, o_Email = op_Email p, o_Phone = op_Phone p, o_Country = op_Country p, o_City = op_City p,
     o_Settings = empty_object, o_CreatedAt = Some (env_db_now ev), o_UpdatedAt = Some (env_db_now ev)\<rparr>"

definition CreateOrganization :: "env \<Rightarrow> OrganizationParams \<Rightarrow> database \<Rightarrow> sql_error + (org_row \<times> database)" where
  "CreateOrganization ev p d = (let org = created_organization ev p; rows = organizations d in
     if \<not> organization_checks org \<or> o_ID org \<in> o_ID ` set rows then Inl (ConstraintViolation ''organizations'')
     else if o_Slug org \<in> o_Slug ` set rows then Inl (ConstraintViolation ''uq_organizations_slug'')
     else Inr (org, d\<lparr>organizations := rows @ [org]\<rparr>))"

definition GetOrganizationByID :: "database \<Rightarrow> uuid \<Rightarrow> sql_error + org_row" where
  "GetOrganizationByID d uid = select_one (\<lambda>org. sql_eq (o_ID org) uid) (organizations d)"

definition ListOrganizationsPaginated :: "database \<Rightarrow> int \<Rightarrow> int \<Rightarrow> org_row list" where
  "ListOrganizationsPaginated d offset limit =
     page limit offset (sort_key (\<lambda>org. - ts_Time (o_CreatedAt org)) (organizations d))"

definition updated_organization :: "env \<Rightarrow> OrganizationParams \<Rightarrow> org_row \<Rightarrow> org_row" where
  "updated_organization ev p org = org\<lparr>o_Name := op_Name p, o_Description := op_Description p, o_Type := op_Type p,
     o_Website := op_Website p, o_Email := op_Email p, o_Phone := op_Phone p, o_Country := op_Country p,
     o_City := op_City p, o_UpdatedAt := Some (env_db_now ev)\<rparr>"

definition UpdateOrganization :: "env \<Rightarrow> OrganizationParams \<Rightarrow> database \<Rightarrow> sql_error + (org_row \<times> database)" where
  "UpdateOrganization ev p d = (case find (\<lambda>org. sql_eq (o_ID org) (op_ID p)) (organizations d) of
       None \<Rightarrow> Inl ErrNoRows
     | Some org \<Rightarrow> let org' = updated_organization ev p org in
         if organization_checks org'
         then Inr (org', d\<lparr>organizations := update_rows (\<lambda>org. sql_eq (o_ID org) (op_ID p)) (updated_organization ev p)
                (organizations d)\<rparr>)
         else Inl (ConstraintViolation ''organizations''))"

section \<open>Responses\<close>

record OrganizationCreateRequest =
  oq_Name :: string
  oq_Type :: string
  oq_Description :: "string option"
  oq_Website :: "string option"
  oq_Email :: "string option"
  oq_Phone :: "string option"
  oq_Country :: "string option"
  oq_City :: "string option"

record OrganizationUpdateRequest =
  ow_Name :: "string option"
  ow_Type :: "string option"
  ow_Description :: "string option"
  ow_Website :: "string option"
  ow_Email :: "string option"
  ow_Phone :: "string option"
  ow_Country :: "string option"
  ow_City :: "string option"

record OrganizationResponse =
  or_ID :: string
  or_Name :: string
  or_Slug :: string
  or_Type :: string
  or_Status :: string
  or_Description :: "string option"
  or_Website :: "string option"
  or_Email :: "string option"
  or_Phone :: "string option"
  or_Country :: "string option"
  or_City :: "string option"
  or_CreatedAt :: string
  or_UpdatedAt :: string

definition orgToResponse :: "env \<Rightarrow> org_row \<Rightarrow> OrganizationResponse" where
  "orgToResponse ev org = \<lparr>or_ID = UUIDToString (o_ID org), or_Name = o_Name org, or_Slug = o_Slug org,
     or_Type = OrgType_str (o_Type org), or_Status = OrgStatus_str (o_Status org), or_Description = o_Description org,
     or_Website = o_Website org, or_Email = o_Email org, or_Phone = o_Phone org, or_Country = o_Country org,
     or_City = o_City org, or_CreatedAt = env_format_time ev (ts_Time (o_CreatedAt org)),
     or_UpdatedAt = env_format_time ev (ts_Time (o_UpdatedAt org))\<rparr>"

definition org_response_json :: "OrganizationResponse \<Rightarrow> payload" where
  "org_response_json r = PDoc (JObj (
     [(''id'', JStr (or_ID r)), (''name'', JStr (or_Name r)), (''slug'', JStr (or_Slug r)), (''type'', JStr (or_Type r)),
      (''status'', JStr (or_Status r))]
     @ omitempty ''description'' JStr (or_Description r) @ omitempty ''website'' JStr (or_Website r)
     @ omitempty ''email'' JStr (or_Email r) @ omitempty ''phone'' JStr (or_Phone r)
     @ omitempty ''country'' JStr (or_Country r) @ omitempty ''city'' JStr (or_City r)
     @ [(''created_at'', JStr (or_CreatedAt r)), (''updated_at'', JStr (or_UpdatedAt r))]))"

definition orgToAuditJSON :: "env \<Rightarrow> org_row \<Rightarrow> payload" where
  "orgToAuditJSON ev org = PDoc (JObj (sort_key fst [
     (''id'', JStr (UUIDToString (o_ID org))), (''name'', JStr (o_Name org)), (''slug'', JStr (o_Slug org)),
     (''type'', JStr (OrgType_str (o_Type org))), (''status'', JStr (OrgStatus_str (o_Status org))),
     (''description'', json_opt JStr (o_Description org)), (''website'', json_opt JStr (o_Website org)),
     (''email'', json_opt JStr (o_Email org)), (''phone'', json_opt JStr (o_Phone org)),
     (''country'', json_opt JStr (o_Country org)), (''city'', json_opt JStr (o_City org)),
     (''created_at'', JStr (env_format_time ev (ts_Time (o_CreatedAt org)))),
     (''updated_at'', JStr (env_format_time ev (ts_Time (o_UpdatedAt org))))]))"

section \<open>Transactions\<close>

definition orgs_GetBySlug :: "account_db \<Rightarrow> string \<Rightarrow> organization_error + org_row" where
  "orgs_GetBySlug s slug = no_rows_as OrgErrNotFound OrgErrSql (GetOrganizationBySlug (tables s) slug)"

definition lift_tables :: "(sql_error \<Rightarrow> 'e) \<Rightarrow> (database \<Rightarrow> sql_error + ('a \<times> database)) \<Rightarrow> account_db
    \<Rightarrow> 'e + ('a \<times> account_db)" where
  "lift_tables wrap f s = (case f (tables s) of Inl e \<Rightarrow> Inl (wrap e) | Inr (x, d) \<Rightarrow> Inr (x, s\<lparr>tables := d\<rparr>))"

text \<open>The grant has an identifier of its own: that of the token slot of the request.\<close>

definition CreateWithOwnerGrant :: "account_env \<Rightarrow> OrganizationParams \<Rightarrow> uuid \<Rightarrow> account_db
    \<Rightarrow> organization_error + (org_row \<times> account_db)" where
  "CreateWithOwnerGrant ae p creatorID s =
     res_bind (lift_tables (\<lambda>e. if e = ConstraintViolation ''uq_organizations_slug'' then OrgErrSlugAlreadyTaken
                 else OrgErrSql e) (CreateOrganization (ac_env ae) p) s) (\<lambda>(org, s).
     res_bind (res_map_err OrgErrSql (GetRoleBySlug s ''org_owner'')) (\<lambda>role.
     res_bind (res_map_err OrgErrSql (GrantRoleToUserInOrg ((ac_env ae)\<lparr>env_row_id := ac_token_id ae\<rparr>)
                 creatorID (o_ID org) (ro_ID role) creatorID s)) (\<lambda>s.
       Inr (org, on_tables (CreateAuditLog (ac_env ae) (auditParams (o_ID org) creatorID AuditActionCreate
         ''organizations'' (o_ID org) PEmpty (orgToAuditJSON (ac_env ae) org))) s))))"

definition orgs_UpdateWithAudit :: "account_env \<Rightarrow> OrganizationParams \<Rightarrow> uuid \<Rightarrow> payload \<Rightarrow> account_db
    \<Rightarrow> organization_error + (org_row \<times> account_db)" where
  "orgs_UpdateWithAudit ae p actorID oldData s =
     res_bind (lift_tables OrgErrSql (UpdateOrganization (ac_env ae) p) s) (\<lambda>(org, s).
       Inr (org, on_tables (CreateAuditLog (ac_env ae) (auditParams (o_ID org) actorID AuditActionUpdate
         ''organizations'' (o_ID org) oldData (orgToAuditJSON (ac_env ae) org))) s))"

section \<open>Slugs and fields\<close>

definition reservedSlugs :: "string list" where
  "reservedSlugs = [''me'', ''player'', ''players'', ''onboarding'', ''auth'', ''api'', ''login'', ''register'', ''admin'']"

definition generateSlug :: "string \<Rightarrow> string" where
  "generateSlug name =
     (let s = strings_Trim CHR ''-'' (dash_runs False (strings_ToLower (strings_TrimSpace name)));
          s = (if length s > 90 then strings_TrimRight CHR ''-'' (take 90 s) else s);
          s = (if length s < 3 then ''org-'' @ s else s);
          s = (if length s < 3 then ''org-x'' else s)
      in if s \<in> set reservedSlugs then ''org-'' @ s else s)"

definition parseOrgType :: "string \<Rightarrow> organization_error + OrgType" where
  "parseOrgType = parse_enum OrgErrInvalidType OrgType_str
     [OrgTypeClub, OrgTypeFederation, OrgTypeSchool, OrgTypeCorporate, OrgTypeIndependent]"

definition normalizeCountry :: "string option \<Rightarrow> organization_error + string option" where
  "normalizeCountry v = (case v of None \<Rightarrow> Inr None
     | Some str \<Rightarrow> if str = [] then Inr None
         else let code = strings_ToUpper (strings_TrimSpace str) in
           if length code \<noteq> 2 then Inl OrgErrInvalidCountryCode else Inr (Some code))"

section \<open>Service\<close>

definition orgs_actor :: "account_env \<Rightarrow> string \<Rightarrow> organization_error + uuid" where
  "orgs_actor ae actorID = res_map_err (\<lambda>_. OrgErrInvalidActor) (ParseUUID (env_scan (ac_env ae)) actorID)"

fun org_attempts :: "account_env \<Rightarrow> OrganizationParams \<Rightarrow> uuid \<Rightarrow> string \<Rightarrow> nat list \<Rightarrow> account_db
    \<Rightarrow> organization_error + (org_row \<times> account_db)" where
  "org_attempts ae p creatorID baseSlug [] s = Inl OrgErrSlugGenerationFailed"
| "org_attempts ae p creatorID baseSlug (attempt # rest) s =
     (case CreateWithOwnerGrant ae (p\<lparr>op_Slug := numbered_slug baseSlug attempt\<rparr>) creatorID s of
        Inl OrgErrSlugAlreadyTaken \<Rightarrow> org_attempts ae p creatorID baseSlug rest s
      | r \<Rightarrow> r)"

definition org_Create :: "account_env \<Rightarrow> OrganizationCreateRequest \<Rightarrow> string \<Rightarrow> account_db
    \<Rightarrow> organization_error + (OrganizationResponse \<times> account_db)" where
  "org_Create ae req actorID s =
     res_bind (parseOrgType (oq_Type req)) (\<lambda>orgType.
     res_bind (normalizeCountry (oq_Country req)) (\<lambda>country.
     res_bind (orgs_actor ae actorID) (\<lambda>creatorUID.
     res_bind (org_attempts ae \<lparr>op_ID = None, op_Name = strings_TrimSpace (oq_Name req), op_Slug = [],
           op_Description = oq_Description req, op_Type = orgType, op_Website = oq_Website req, op_Email = oq_Email req,
           op_Phone = oq_Phone req, op_Country = country, op_City = oq_City req\<rparr> creatorUID
         (generateSlug (oq_Name req)) [1..<11] s) (\<lambda>(org, s).
       Inr (orgToResponse (ac_env ae) org, s)))))"

definition org_List :: "account_env \<Rightarrow> account_db \<Rightarrow> int \<Rightarrow> int \<Rightarrow> OrganizationResponse list \<times> int \<times> int" where
  "org_List ae s limit0 offset0 =
     (let limit = users_limit limit0; offset = (if offset0 < 0 then 0 else offset0) in
      (map (orgToResponse (ac_env ae)) (ListOrganizationsPaginated (tables s) offset limit), limit, offset))"

definition org_GetBySlug :: "account_env \<Rightarrow> account_db \<Rightarrow> string \<Rightarrow> organization_error + OrganizationResponse" where
  "org_GetBySlug ae s slug = res_bind (orgs_GetBySlug s slug) (\<lambda>org. Inr (orgToResponse (ac_env ae) org))"

definition overlay :: "'a option \<Rightarrow> 'a option \<Rightarrow> 'a option" where
  "overlay req current = (case req of None \<Rightarrow> current | Some v \<Rightarrow> Some v)"

definition overlay_organization :: "org_row \<Rightarrow> OrganizationUpdateRequest \<Rightarrow> organization_error + OrganizationParams" where
  "overlay_organization current req =
     res_bind (case ow_Type req of None \<Rightarrow> Inr (o_Type current) | Some v \<Rightarrow> parseOrgType v) (\<lambda>orgType.
     res_bind (case ow_Country req of None \<Rightarrow> Inr (o_Country current) | Some v \<Rightarrow> normalizeCountry (Some v)) (\<lambda>country.
       Inr \<lparr>op_ID = o_ID current,
         op_Name = (case ow_Name req of None \<Rightarrow> o_Name current | Some v \<Rightarrow> strings_TrimSpace v), op_Slug = [],
         op_Description = overlay (ow_Description req) (o_Description current), op_Type = orgType,
         op_Website = overlay (ow_Website req) (o_Website current), op_Email = overlay (ow_Email req) (o_Email current),
         op_Phone = overlay (ow_Phone req) (o_Phone current), op_Country = country,
         op_City = overlay (ow_City req) (o_City current)\<rparr>))"

definition org_Update :: "account_env \<Rightarrow> string \<Rightarrow> OrganizationUpdateRequest \<Rightarrow> string \<Rightarrow> string \<Rightarrow> account_db
    \<Rightarrow> organization_error + (OrganizationResponse \<times> account_db)" where
  "org_Update ae slug req actorID actorOrgID s =
     res_bind (orgs_GetBySlug s slug) (\<lambda>current.
     res_bind (assert_owner OrgErrForbidden actorOrgID (UUIDToString (o_ID current))) (\<lambda>_.
     res_bind (orgs_actor ae actorID) (\<lambda>actorUID.
     res_bind (overlay_organization current req) (\<lambda>params.
     res_bind (orgs_UpdateWithAudit ae params actorUID
         (org_response_json (orgToResponse (ac_env ae) current)) s) (\<lambda>(org, s).
       Inr (orgToResponse (ac_env ae) org, s))))))"

end
