(* ===== verification/Authorization.thy ===== *)
theory Authorization
  imports Auth_Service
begin

text \<open>
  \<open>auth/authorization.go\<close> and \<open>auth/middleware.go\<close>: permission checks on the grants, and the gates of
  the route trees.  A gate answers with a status code or passes the request on.
\<close>

section \<open>Authorization service\<close>

definition HasRole :: "account_env \<Rightarrow> account_db \<Rightarrow> string \<Rightarrow> string \<Rightarrow> string list \<Rightarrow> bool" where
  "HasRole ae s userID orgID roleSlugs =
     (case ParseUUID (env_scan (ac_env ae)) userID of
        Inl _ \<Rightarrow> False
      | Inr uid \<Rightarrow> list_ex (\<lambda>r. ro_Slug r \<in> set roleSlugs)
          (GetUserRoles (ac_env ae) s uid (ParseOptionalUUID (env_scan (ac_env ae)) orgID)))"

definition authz_HasPermission :: "account_env \<Rightarrow> account_db \<Rightarrow> string \<Rightarrow> string \<Rightarrow> string \<Rightarrow> bool" where
  "authz_HasPermission ae s userID orgID permSlug =
     (case ParseUUID (env_scan (ac_env ae)) userID of
        Inl _ \<Rightarrow> False
      | Inr uid \<Rightarrow> HasPermission (ac_env ae) s uid (ParseOptionalUUID (env_scan (ac_env ae)) orgID) permSlug)"

definition IsZeroOrgUser :: "account_env \<Rightarrow> account_db \<Rightarrow> string \<Rightarrow> bool" where
  "IsZeroOrgUser ae s userID =
     (case ParseUUID (env_scan (ac_env ae)) userID of
        Inl _ \<Rightarrow> False
      | Inr uid \<Rightarrow> GetUserOrganizations (ac_env ae) s uid = [])"

definition GetPermissions :: "account_env \<Rightarrow> account_db \<Rightarrow> string \<Rightarrow> string \<Rightarrow> string list" where
  "GetPermissions ae s userID orgID =
     (case ParseUUID (env_scan (ac_env ae)) userID of
        Inl _ \<Rightarrow> []
      | Inr uid \<Rightarrow> map pm_Slug (GetUserPermissions (ac_env ae) s uid (ParseOptionalUUID (env_scan (ac_env ae)) orgID)))"

section \<open>Middleware\<close>

datatype 'a gate = Reject nat | Pass 'a

fun gate_bind :: "'a gate \<Rightarrow> ('a \<Rightarrow> 'b gate) \<Rightarrow> 'b gate" where
  "gate_bind (Reject n) f = Reject n"
| "gate_bind (Pass a) f = f a"

lemma gate_bind_Pass [simp]: "gate_bind g f = Pass b \<longleftrightarrow> (\<exists>a. g = Pass a \<and> f a = Pass b)"
  by (cases g) auto

definition bearerToken :: "string \<Rightarrow> string option" where
  "bearerToken h =
     (if h = [] then None
      else if take 7 h \<noteq> ''Bearer '' then None
      else if drop 7 h = [] then None else Some (drop 7 h))"

definition principal_of :: "JWTClaims \<Rightarrow> AuthUser" where
  "principal_of claims = \<lparr>au_UserID = jc_UserID claims, au_OrganizationID = jc_OrganizationID claims,
     au_Role = jc_Role claims, au_Email = jc_Email claims, au_Scope = DeriveScope claims,
     au_PlayerProfileID = jc_PlayerProfileID claims\<rparr>"

definition RequireAuth :: "account_env \<Rightarrow> string \<Rightarrow> AuthUser gate" where
  "RequireAuth ae header =
     (case bearerToken header of None \<Rightarrow> Reject 401
      | Some tok \<Rightarrow> (case ParseToken ae tok of Inl _ \<Rightarrow> Reject 401 | Inr claims \<Rightarrow> Pass (principal_of claims)))"

definition RequireOrgScope :: "AuthUser option \<Rightarrow> unit gate" where
  "RequireOrgScope actor =
     (case actor of None \<Rightarrow> Reject 401
      | Some u \<Rightarrow> if au_Scope u \<noteq> ScopeOrganizer \<and> au_Scope u \<noteq> ScopePlatform then Reject 403 else Pass ())"

definition RequireScope :: "string list \<Rightarrow> AuthUser option \<Rightarrow> unit gate" where
  "RequireScope allowed actor =
     (case actor of None \<Rightarrow> Reject 401
      | Some u \<Rightarrow> if au_Scope u \<notin> set allowed then Reject 403 else Pass ())"

definition RequirePlayerScope :: "AuthUser option \<Rightarrow> unit gate" where
  "RequirePlayerScope = RequireScope [ScopePlayer]"

definition RequireRole :: "account_env \<Rightarrow> account_db \<Rightarrow> string list \<Rightarrow> AuthUser option \<Rightarrow> unit gate" where
  "RequireRole ae s roleSlugs actor =
     (case actor of None \<Rightarrow> Reject 401
      | Some u \<Rightarrow> if HasRole ae s (au_UserID u) (au_OrganizationID u) roleSlugs then Pass () else Reject 403)"

definition RequirePermission :: "account_env \<Rightarrow> account_db \<Rightarrow> string \<Rightarrow> AuthUser option \<Rightarrow> unit gate" where
  "RequirePermission ae s permSlug actor =
     (case actor of None \<Rightarrow> Reject 401
      | Some u \<Rightarrow>
          if permSlug = ''organization.create'' \<and> au_OrganizationID u = [] \<and> au_Role u = OnboardingRole
             \<and> IsZeroOrgUser ae s (au_UserID u) then Pass ()
          else if authz_HasPermission ae s (au_UserID u) (au_OrganizationID u) permSlug then Pass () else Reject 403)"

text \<open>A request to an organization's route tree, up to the service: authentication, scope, permission.\<close>

definition org_route :: "account_env \<Rightarrow> account_db \<Rightarrow> string \<Rightarrow> string \<Rightarrow> AuthUser gate" where
  "org_route ae s permSlug header =
     gate_bind (RequireAuth ae header) (\<lambda>u.
     gate_bind (RequireOrgScope (Some u)) (\<lambda>_.
     gate_bind (RequirePermission ae s permSlug (Some u)) (\<lambda>_. Pass u)))"

section \<open>What a permission rests on\<close>

definition permits :: "account_db \<Rightarrow> grant_row \<Rightarrow> string \<Rightarrow> bool" where
  "permits s g slug \<longleftrightarrow> (\<exists>r \<in> set (roles s). \<exists>rp \<in> set (role_permissions s). \<exists>p \<in> set (permissions s).
     sql_eq (uo_RoleID g) (ro_ID r) \<and> sql_eq (ro_ID r) (rl_RoleID rp) \<and> sql_eq (rl_PermissionID rp) (pm_ID p)
     \<and> pm_Slug p = slug)"

definition holds_grant :: "account_env \<Rightarrow> account_db \<Rightarrow> uuid \<Rightarrow> (uuid \<Rightarrow> bool) \<Rightarrow> string \<Rightarrow> bool" where
  "holds_grant ae s uid where_org slug \<longleftrightarrow> (\<exists>g \<in> set (user_organization_roles s).
     user_grant (env_db_now (ac_env ae)) uid g \<and> where_org (uo_OrganizationID g) \<and> permits s g slug)"

lemma in_grant_permissions:
  "p \<in> set (grant_permissions ev s uid orgID) \<longleftrightarrow> (\<exists>g r rp.
     (g, r) \<in> set (grant_roles s (\<lambda>g. user_grant (env_db_now ev) uid g \<and> applies_to orgID g))
     \<and> rp \<in> set (role_permissions s) \<and> sql_eq (ro_ID r) (rl_RoleID rp)
     \<and> p \<in> set (permissions s) \<and> sql_eq (rl_PermissionID rp) (pm_ID p))"
  unfolding grant_permissions_def set_concat set_map by fastforce

lemma HasPermission_iff:
  "HasPermission (ac_env ae) s uid orgID slug
     \<longleftrightarrow> holds_grant ae s uid (\<lambda>org. org = None \<or> org = orgID) slug"
proof -
  have "applies_to orgID g \<longleftrightarrow> uo_OrganizationID g = None \<or> uo_OrganizationID g = orgID" for g
    by (auto simp: applies_to_def sql_eq_iff)
  then show ?thesis
    unfolding HasPermission_def list_ex_iff Bex_def in_grant_permissions in_grant_roles holds_grant_def permits_def
    by blast
qed

lemma GetUserPermissions_iff:
  "slug \<in> pm_Slug ` set (GetUserPermissions ev s uid orgID) \<longleftrightarrow> HasPermission ev s uid orgID slug"
  by (auto simp: GetUserPermissions_def HasPermission_def list_ex_iff)

lemma ParseOptionalUUID_nil [simp]: "ParseOptionalUUID scan [] = None"
  by (simp add: ParseOptionalUUID_def)

lemma authz_HasPermission_iff:
  "authz_HasPermission ae s userID orgID slug \<longleftrightarrow> userID \<noteq> []
     \<and> (\<exists>w. env_scan (ac_env ae) userID = Some w
          \<and> holds_grant ae s (Some w) (\<lambda>org. org = None \<or> org = ParseOptionalUUID (env_scan (ac_env ae)) orgID) slug)"
  by (auto simp: authz_HasPermission_def ParseUUID_def HasPermission_iff split: option.splits if_splits sum.splits)

end
