(* ===== verification/Account_Machine.thy ===== *)
theory Account_Machine
  imports Organizations_Service Authorization
begin

text \<open>
  Any interleaving of the account requests.  A state carries beside the database
  \<^item> the sign-ins in flight: the users, as read, of the requests that passed the checks of \<open>login\<close> and have not
    inserted their session yet.  The checks and the insert are separate statements, and any step may run between;
  \<^item> the hashes of the refresh tokens ever issued: a new token is none of them, as the 32 random bytes behind it do
    not repeat.
  A refresh reads the user of its token before the rotation (\<open>prepare_refresh\<close>); the rotation is a step of its own,
  for the user the presented token belongs to.  Every other step is one transaction or statement, with whatever
  parameters its request computed before.

  A step is atomic.  For a rotation and a deactivation of the same user the row locks see to that: the rotation holds
  the row of the old token, which the revocation of the deactivation needs, and its insert needs a key-share lock on
  the row of the user, which the deactivation holds \<open>FOR UPDATE\<close>.  A bulk revocation that locks no user
  (\<open>RevokeUserRefreshTokens\<close> on reuse, reset and password change) may, under \<open>READ COMMITTED\<close>, miss the successor that a
  rotation running at the same time inserts; that anomaly is outside the model.
\<close>

section \<open>The machine\<close>

type_synonym account_state = "user_row multiset \<times> string set \<times> account_db"

inductive account_step :: "account_state \<Rightarrow> account_state \<Rightarrow> bool" where
  login_check: "prepare_login ae s req = Inr (user, pc) \<Longrightarrow> account_step (P, H, s) (add_mset user P, H, s)"
| login_insert: "user \<in># P \<Longrightarrow> repo_CreateRefreshToken ae (session_params ae user ip agent) s = Inr (t, s')
     \<Longrightarrow> ac_hash_token ae (ac_raw_token ae) \<notin> H
     \<Longrightarrow> account_step (P, H, s) (P - {#user#}, insert (ac_hash_token ae (ac_raw_token ae)) H, s')"
| login_dropped: "account_step (P, H, s) (P - {#user#}, H, s)"
| rotate: "RotateRefreshToken ae h (session_params ae user ip agent) s = (r, s') \<Longrightarrow> ac_hash_token ae (ac_raw_token ae) \<notin> H
     \<Longrightarrow> \<forall>t \<in> set (refresh_tokens s). rf_TokenHash t = h \<longrightarrow> us_ID user = rf_UserID t
     \<Longrightarrow> account_step (P, H, s) (P, insert (ac_hash_token ae (ac_raw_token ae)) H, s')"
| logout: "LogoutTransaction ae h s = Inr ((), s') \<Longrightarrow> account_step (P, H, s) (P, H, s')"
| register: "RegisterTransaction ae rg s = Inr (created, s') \<Longrightarrow> account_step (P, H, s) (P, H, s')"
| verify: "VerifyEmailTransaction ae h s = Inr ((), s') \<Longrightarrow> account_step (P, H, s) (P, H, s')"
| forgot: "ForgotPasswordTransaction ae ct s = Inr (rt, s') \<Longrightarrow> account_step (P, H, s) (P, H, s')"
| resend: "repo_CreateEmailVerificationToken ae ct s = Inr ((), s') \<Longrightarrow> account_step (P, H, s) (P, H, s')"
| reset: "ResetPasswordTransaction ae preview pwhash s = Inr ((), s') \<Longrightarrow> account_step (P, H, s) (P, H, s')"
| profile: "UpdateProfileTransaction ae actor prof s = Inr (u, s') \<Longrightarrow> account_step (P, H, s) (P, H, s')"
| password: "ChangePasswordTransaction ae uid pwhash s = Inr ((), s') \<Longrightarrow> account_step (P, H, s) (P, H, s')"
| deactivate: "DeactivateTransaction ae actor uid s = Inr ((), s') \<Longrightarrow> account_step (P, H, s) (P, H, s')"
| grant: "GrantRoleWithAudit ae gp actor s = Inr ((), s') \<Longrightarrow> account_step (P, H, s) (P, H, s')"
| revoke: "RevokeRoleWithAudit ae rp actor s = Inr ((), s') \<Longrightarrow> account_step (P, H, s) (P, H, s')"
| organization: "CreateWithOwnerGrant ae op creator s = Inr (org, s') \<Longrightarrow> account_step (P, H, s) (P, H, s')"
| expire_sessions: "account_step (P, H, s) (P, H, DeleteExpiredRefreshTokens cutoff s)"
| expire_verifications: "account_step (P, H, s) (P, H, DeleteExpiredEmailVerificationTokens cutoff s)"
| expire_resets: "account_step (P, H, s) (P, H, DeleteExpiredPasswordResetTokens cutoff s)"
| others: "account_step (P, H, s) (P, H, on_tables f s)"

section \<open>What the transactions do to the refresh tokens\<close>

definition token_effect :: "refresh_row list \<Rightarrow> refresh_row list \<Rightarrow> bool" where
  "token_effect rows rows' \<longleftrightarrow> (\<exists>ev Q keep.
     rows' = filter keep (update_rows (\<lambda>r. Q r \<and> rf_RevokedAt r = None) (revoke_row ev) rows))"

lemma token_effectI:
  "rows' = filter keep (update_rows (\<lambda>r. Q r \<and> rf_RevokedAt r = None) (revoke_row ev) rows) \<Longrightarrow> token_effect rows rows'"
  unfolding token_effect_def by blast

lemma token_effect_same [intro!, simp]: "token_effect rows rows"
  by (rule token_effectI[where Q = "\<lambda>_. False" and keep = "\<lambda>_. True"]) (simp add: update_rows_def)

lemma token_effect_revoke [intro!]:
  "token_effect rows (update_rows (\<lambda>r. Q r \<and> rf_RevokedAt r = None) (revoke_row ev) rows)"
  by (rule token_effectI[where keep = "\<lambda>_. True"]) simp

lemma token_effect_delete [intro!]: "token_effect rows (filter keep rows)"
  by (rule token_effectI[where Q = "\<lambda>_. False"]) (simp add: update_rows_def)

lemma store_frames [simp]:
  "refresh_tokens (VerifyUserEmail ev uid s) = refresh_tokens s"
  "refresh_tokens (UseEmailVerificationToken ev uid s) = refresh_tokens s"
  "refresh_tokens (UseAllUserEmailVerificationTokens ev uid s) = refresh_tokens s"
  "refresh_tokens (UsePasswordResetToken ev uid s) = refresh_tokens s"
  "refresh_tokens (UseAllUserPasswordResetTokens ev uid s) = refresh_tokens s"
  "refresh_tokens (UpdateUserPasswordHash ev h uid s) = refresh_tokens s"
  "refresh_tokens (DeleteExpiredEmailVerificationTokens t s) = refresh_tokens s"
  "refresh_tokens (DeleteExpiredPasswordResetTokens t s) = refresh_tokens s"
  "refresh_tokens (snd (DeactivateUser ev uid s)) = refresh_tokens s"
  "refresh_tokens (permission_audit ae orgID actorID userID s) = refresh_tokens s"
  by (simp_all add: VerifyUserEmail_def UseEmailVerificationToken_def UseAllUserEmailVerificationTokens_def
      UsePasswordResetToken_def UseAllUserPasswordResetTokens_def UpdateUserPasswordHash_def
      DeleteExpiredEmailVerificationTokens_def DeleteExpiredPasswordResetTokens_def DeactivateUser_def Let_def
      permission_audit_def)

lemma CreateEmailVerificationToken_frame:
  "CreateEmailVerificationToken ev i p s = Inr (r, s') \<Longrightarrow> refresh_tokens s' = refresh_tokens s \<and> users s' = users s"
  by (auto simp: CreateEmailVerificationToken_def Let_def split: if_splits)

lemma CreateUser_frame:
  "CreateUser ev p s = Inr (u, s') \<Longrightarrow> refresh_tokens s' = refresh_tokens s \<and> users s' = users s @ [u]
     \<and> us_Status u = UserStatusPendingVerification"
  by (auto simp: CreateUser_def Let_def created_user_def split: if_splits)

lemma CreatePasswordResetToken_frame:
  "CreatePasswordResetToken ev p s = Inr (r, s') \<Longrightarrow> refresh_tokens s' = refresh_tokens s \<and> users s' = users s"
  by (auto simp: CreatePasswordResetToken_def Let_def split: if_splits)

lemma GrantOrgRole_frame:
  "GrantOrgRole ev p s = Inr s' \<Longrightarrow> refresh_tokens s' = refresh_tokens s \<and> users s' = users s"
  by (auto simp: GrantOrgRole_def Let_def split: if_splits)

lemma register_effect: "RegisterTransaction ae p s = Inr (r, s') \<Longrightarrow> refresh_tokens s' = refresh_tokens s"
  by (auto simp: RegisterTransaction_def res_bind_eq_Inr dest!: CreateUser_frame CreateEmailVerificationToken_frame)

lemma resend_effect: "repo_CreateEmailVerificationToken ae p s = Inr ((), s') \<Longrightarrow> refresh_tokens s' = refresh_tokens s"
  by (auto simp: repo_CreateEmailVerificationToken_def res_bind_eq_Inr dest!: CreateEmailVerificationToken_frame)

lemma forgot_effect: "ForgotPasswordTransaction ae p s = Inr (r, s') \<Longrightarrow> refresh_tokens s' = refresh_tokens s"
  by (auto simp: ForgotPasswordTransaction_def res_bind_eq_Inr dest!: CreatePasswordResetToken_frame)

lemma reset_effect:
  "ResetPasswordTransaction ae preview h s = Inr ((), s') \<Longrightarrow> token_effect (refresh_tokens s) (refresh_tokens s')"
  by (auto simp: ResetPasswordTransaction_def RevokeUserRefreshTokens_def Let_def split: option.splits if_splits)

lemma password_effect:
  "ChangePasswordTransaction ae uid h s = Inr ((), s') \<Longrightarrow> token_effect (refresh_tokens s) (refresh_tokens s')"
  by (auto simp: ChangePasswordTransaction_def RevokeUserRefreshTokens_def res_bind_eq_Inr Let_def split: if_splits)

lemma deactivate_effect:
  "DeactivateTransaction ae actor uid s = Inr ((), s') \<Longrightarrow> token_effect (refresh_tokens s) (refresh_tokens s')"
  by (auto simp: DeactivateTransaction_def RevokeUserRefreshTokens_def DeactivateUser_def res_bind_eq_Inr Let_def
      split: if_splits)

lemma logout_effect:
  "LogoutTransaction ae h s = Inr ((), s') \<Longrightarrow> token_effect (refresh_tokens s) (refresh_tokens s')"
  by (auto simp: LogoutTransaction_def RevokeRefreshToken_def res_bind_eq_Inr split: if_splits)

lemma verify_effect: "VerifyEmailTransaction ae h s = Inr ((), s') \<Longrightarrow> refresh_tokens s' = refresh_tokens s"
  by (auto simp: VerifyEmailTransaction_def res_bind_eq_Inr split: if_splits)

lemma profile_effect: "UpdateProfileTransaction ae actor p s = Inr (u, s') \<Longrightarrow> refresh_tokens s' = refresh_tokens s"
  by (auto simp: UpdateProfileTransaction_def UpdateUserProfile_def res_bind_eq_Inr Let_def
      split: if_splits option.splits)

lemma grant_effect: "GrantRoleWithAudit ae p actor s = Inr ((), s') \<Longrightarrow> refresh_tokens s' = refresh_tokens s"
  by (auto simp: GrantRoleWithAudit_def res_bind_eq_Inr dest!: GrantOrgRole_frame)

lemma revoke_effect: "RevokeRoleWithAudit ae p actor s = Inr ((), s') \<Longrightarrow> refresh_tokens s' = refresh_tokens s"
  by (auto simp: RevokeRoleWithAudit_def RevokeRoleFromUserInOrg_def split: if_splits)

lemma organization_effect: "CreateWithOwnerGrant ae p creator s = Inr (org, s') \<Longrightarrow> refresh_tokens s' = refresh_tokens s"
  by (auto simp: CreateWithOwnerGrant_def lift_tables_def GrantRoleToUserInOrg_def res_bind_eq_Inr
      dest!: GrantOrgRole_frame split: sum.splits)

lemma expire_effect: "token_effect (refresh_tokens s) (refresh_tokens (DeleteExpiredRefreshTokens cutoff s))"
  by (auto simp: DeleteExpiredRefreshTokens_def)

section \<open>What a rotation does\<close>

definition link_row :: "env \<Rightarrow> uuid \<Rightarrow> refresh_row \<Rightarrow> refresh_row" where
  "link_row ev successor r = r\<lparr>rf_RevokedAt := Some (env_db_now ev), rf_SuccessorID := successor\<rparr>"

definition rotated :: "env \<Rightarrow> uuid \<Rightarrow> CreateRefreshTokenParams \<Rightarrow> refresh_row list \<Rightarrow> refresh_row list" where
  "rotated ev uid p rows = update_rows (\<lambda>r. sql_eq (rf_ID r) uid \<and> rf_RevokedAt r = None)
     (link_row ev (Some (env_row_id ev))) (rows @ [created_refresh ev p])"

lemma rotate_active_Inr:
  "rotate_active ae old p s = Inr (t, s') \<longleftrightarrow>
     (\<exists>user. GetUserByID s (rf_UserID old) = Inr user \<and> us_Status user = UserStatusActive)
     \<and> \<not> ts_Time (rf_ExpiresAt old) < now_of ae \<and> t = created_refresh (ac_env ae) p
     \<and> (\<exists>s1. CreateRefreshToken (ac_env ae) p s = Inr (t, s1))
     \<and> length (filter (\<lambda>r. sql_eq (rf_ID r) (rf_ID old) \<and> rf_RevokedAt r = None)
          (refresh_tokens s @ [created_refresh (ac_env ae) p])) = 1
     \<and> s' = s\<lparr>refresh_tokens := rotated (ac_env ae) (rf_ID old) p (refresh_tokens s)\<rparr>"
  by (auto simp: rotate_active_def res_bind_eq_Inr CreateRefreshToken_Inr RevokeAndLinkSuccessor_def rotated_def
      link_row_def[abs_def] created_refresh_def Let_def split: if_splits)

lemma RotateRefreshToken_Inr:
  "RotateRefreshToken ae h p s = (Inr t, s') \<longleftrightarrow>
     (\<exists>old. GetRefreshTokenByHashForUpdate s h = Inr old \<and> rf_RevokedAt old = None \<and> rotate_active ae old p s = Inr (t, s'))"
  by (auto simp: RotateRefreshToken_def split: sum.splits if_splits)

lemma RotateRefreshToken_Inl:
  "RotateRefreshToken ae h p s = (Inl e, s') \<Longrightarrow> token_effect (refresh_tokens s) (refresh_tokens s')"
  by (auto simp: RotateRefreshToken_def RevokeUserRefreshTokens_def split: sum.splits if_splits)

end
