(* ===== verification/Account_Properties.thy ===== *)
theory Account_Properties
  imports Account_Machine Demo_Data
begin

text \<open>
  Sessions, passwords and grants under every interleaving of the account transactions.
\<close>

section \<open>The invariant of the refresh tokens\<close>

definition token_ok :: "string set \<Rightarrow> refresh_row \<Rightarrow> bool" where
  "token_ok H r \<longleftrightarrow> rf_ID r \<noteq> None \<and> rf_TokenHash r \<in> H \<and> (rf_SuccessorID r \<noteq> None \<longrightarrow> rf_RevokedAt r \<noteq> None)"

definition tokens_ok :: "string set \<Rightarrow> refresh_row list \<Rightarrow> bool" where
  "tokens_ok H rows \<longleftrightarrow> distinct (map rf_ID rows) \<and> distinct (map rf_TokenHash rows) \<and> (\<forall>r \<in> set rows. token_ok H r)"

definition dead :: "string \<Rightarrow> refresh_row list \<Rightarrow> bool" where
  "dead h rows \<longleftrightarrow> (\<forall>r \<in> set rows. rf_TokenHash r = h \<longrightarrow> rf_RevokedAt r \<noteq> None)"

interpretation revoking: keyed_update rf_ID "revoke_row ev" for ev
  by unfold_locales (simp add: revoke_row_def)

interpretation linking: keyed_update rf_ID "link_row ev successor" for ev successor
  by unfold_locales (simp add: link_row_def)

lemma hashes_update_rows [simp]:
  "map rf_TokenHash (update_rows P (revoke_row ev) rows) = map rf_TokenHash rows"
  "map rf_TokenHash (update_rows P (link_row ev u) rows) = map rf_TokenHash rows"
  by (simp_all add: update_rows_def revoke_row_def link_row_def)

lemma distinct_map_filterI: "distinct (map f xs) \<Longrightarrow> distinct (map f (filter P xs))"
  by (simp add: distinct_map inj_on_def)

lemma token_effect_in:
  assumes "token_effect rows rows'" "r \<in> set rows'"
  shows "\<exists>r0 \<in> set rows. rf_ID r = rf_ID r0 \<and> rf_TokenHash r = rf_TokenHash r0 \<and> rf_UserID r = rf_UserID r0
    \<and> rf_SuccessorID r = rf_SuccessorID r0 \<and> (rf_RevokedAt r0 \<noteq> None \<longrightarrow> r = r0)"
proof -
  from assms obtain ev Q r0 where "r0 \<in> set rows" "r = (if Q r0 \<and> rf_RevokedAt r0 = None then revoke_row ev r0 else r0)"
    by (auto simp: token_effect_def in_update_rows)
  then show ?thesis by (intro bexI[of _ r0]) (auto simp: revoke_row_def)
qed

lemma token_effect_keys:
  assumes "token_effect rows rows'" "distinct (map rf_ID rows)" "distinct (map rf_TokenHash rows)"
  shows "distinct (map rf_ID rows') \<and> distinct (map rf_TokenHash rows')"
proof -
  from assms(1) obtain ev Q keep where
      r: "rows' = filter keep (update_rows (\<lambda>r. Q r \<and> rf_RevokedAt r = None) (revoke_row ev) rows)"
    unfolding token_effect_def by blast
  show ?thesis unfolding r using assms(2,3) by (intro conjI distinct_map_filterI) simp_all
qed

lemma token_ok_mono: "token_ok H r \<Longrightarrow> H \<subseteq> H' \<Longrightarrow> token_ok H' r"
  by (auto simp: token_ok_def)

lemma tokens_ok_effect:
  assumes e: "token_effect rows rows'" and ok: "tokens_ok H rows"
  shows "tokens_ok H rows'"
proof -
  have "token_ok H r" if "r \<in> set rows'" for r
    using token_effect_in[OF e that] ok unfolding tokens_ok_def token_ok_def by metis
  with token_effect_keys[OF e] ok show ?thesis by (simp add: tokens_ok_def)
qed

lemma tokens_ok_create:
  assumes "tokens_ok H rows" "Some (env_row_id ev) \<notin> rf_ID ` set rows" "cr_TokenHash p \<notin> H"
  shows "tokens_ok (insert (cr_TokenHash p) H) (rows @ [created_refresh ev p])"
proof -
  have "rf_TokenHash r \<noteq> cr_TokenHash p" if "r \<in> set rows" for r
    using assms(1,3) that by (auto simp: tokens_ok_def token_ok_def)
  with assms show ?thesis
    by (auto simp: tokens_ok_def created_refresh_def token_ok_mono[OF _ subset_insertI]) (simp_all add: token_ok_def)
qed

lemma tokens_ok_rotated:
  assumes "tokens_ok H rows" "Some (env_row_id ev) \<notin> rf_ID ` set rows" "cr_TokenHash p \<notin> H"
  shows "tokens_ok (insert (cr_TokenHash p) H) (rotated ev uid p rows)"
proof -
  have "token_ok H' r \<Longrightarrow> token_ok H' (link_row ev u r)" for H' r u
    by (simp add: token_ok_def link_row_def)
  with tokens_ok_create[OF assms] show ?thesis
    by (auto simp: rotated_def tokens_ok_def in_update_rows simp del: set_append map_append)
qed

lemma prepare_login_user: "prepare_login ae s req = Inr (user, pc) \<Longrightarrow> us_Status user = UserStatusActive \<and> user \<in> set (users s)"
  by (auto simp: prepare_login_def repo_GetUserByEmail_def GetUserByEmail_def res_bind_eq_Inr select_one_Inr
      split: sum.splits if_splits dest!: find_SomeD)

text \<open>The ways a step changes the table; a new token belongs to a user in \<open>U\<close>.\<close>

inductive token_move :: "uuid set \<Rightarrow> string set \<Rightarrow> refresh_row list \<Rightarrow> string set \<Rightarrow> refresh_row list \<Rightarrow> bool"
  for U where
  withdraw: "token_effect rows rows' \<Longrightarrow> token_move U H rows H rows'"
| withdraw_failed: "token_effect rows rows' \<Longrightarrow> token_move U H rows (insert h H) rows'"
| issue: "cr_TokenHash p \<notin> H \<Longrightarrow> Some (env_row_id ev) \<notin> rf_ID ` set rows \<Longrightarrow> cr_UserID p \<in> U
     \<Longrightarrow> token_move U H rows (insert (cr_TokenHash p) H) (rows @ [created_refresh ev p])"
| replace: "cr_TokenHash p \<notin> H \<Longrightarrow> Some (env_row_id ev) \<notin> rf_ID ` set rows \<Longrightarrow> cr_UserID p \<in> U
     \<Longrightarrow> token_move U H rows (insert (cr_TokenHash p) H) (rotated ev uid p rows)"

lemma token_move_same: "rows' = rows \<Longrightarrow> token_move U H rows H rows'"
  by (simp add: token_move.withdraw)

definition active_users :: "account_db \<Rightarrow> uuid set" where
  "active_users s = us_ID ` {u \<in> set (users s). us_Status u = UserStatusActive}"

lemma session_simps: "cr_TokenHash (session_params ae user ip agent) = ac_hash_token ae (ac_raw_token ae)"
  "cr_UserID (session_params ae user ip agent) = us_ID user"
  by (simp_all add: session_params_def)

lemma rotate_active_user:
  assumes "rotate_active ae old p s = Inr (t, s')"
  shows "rf_UserID old \<in> active_users s"
proof -
  from assms obtain user where "GetUserByID s (rf_UserID old) = Inr user" "us_Status user = UserStatusActive"
    unfolding rotate_active_Inr by blast
  then have "user \<in> set (users s)" "us_ID user = rf_UserID old" "us_Status user = UserStatusActive"
    by (auto simp: GetUserByID_def select_one_Inr sql_eq_iff dest!: find_SomeD)
  then show ?thesis unfolding active_users_def by (intro image_eqI[of _ _ user]) auto
qed

text \<open>
  A step moves the tokens and the sign-ins in flight: an insert issues a token for one of the users in flight; any
  other step issues tokens to active users only, and only an active user comes in flight.
\<close>

definition in_flight_move :: "uuid set \<Rightarrow> user_row multiset \<Rightarrow> user_row multiset \<Rightarrow> bool" where
  "in_flight_move U P P' \<longleftrightarrow> P' \<subseteq># P \<or> (\<exists>user. P' = add_mset user P \<and> us_ID user \<in> U)"

lemma in_flight_move_refl [simp]: "in_flight_move U P P"
  by (simp add: in_flight_move_def)

lemma in_flight_move_drop [simp]: "in_flight_move U P (P - {#user#})"
  by (simp add: in_flight_move_def)

lemma rotation_move:
  assumes "RotateRefreshToken ae h (session_params ae user ip agent) s = (r, s')" "ac_hash_token ae (ac_raw_token ae) \<notin> H"
    "\<forall>t \<in> set (refresh_tokens s). rf_TokenHash t = h \<longrightarrow> us_ID user = rf_UserID t"
  shows "token_move (active_users s) H (refresh_tokens s) (insert (ac_hash_token ae (ac_raw_token ae)) H) (refresh_tokens s')"
proof (cases r)
  case (Inl e)
  with RotateRefreshToken_Inl assms(1) show ?thesis by (auto intro: token_move.withdraw_failed)
next
  case (Inr t)
  with assms(1) obtain old where old: "GetRefreshTokenByHashForUpdate s h = Inr old"
      "rotate_active ae old (session_params ae user ip agent) s = Inr (t, s')"
    by (auto simp: RotateRefreshToken_Inr)
  then have "us_ID user \<in> active_users s"
    using assms(3) rotate_active_user[OF old(2)]
    by (auto simp: GetRefreshTokenByHashForUpdate_def select_one_Inr dest!: find_SomeD)
  then show ?thesis
    using old(2) assms(2) token_move.replace[of "session_params ae user ip agent" H "ac_env ae" "refresh_tokens s"
      "active_users s" "rf_ID old"]
    by (simp add: session_simps rotate_active_Inr CreateRefreshToken_Inr)
qed

lemma account_step_cases:
  assumes "account_step (P, H, s) (P', H', s')"
  obtains (insert) user p ev where "user \<in># P" "P' = P - {#user#}" "cr_UserID p = us_ID user" "cr_TokenHash p \<notin> H"
      "Some (env_row_id ev) \<notin> rf_ID ` set (refresh_tokens s)" "H' = insert (cr_TokenHash p) H"
      "refresh_tokens s' = refresh_tokens s @ [created_refresh ev p]"
  | (other) "token_move (active_users s) H (refresh_tokens s) H' (refresh_tokens s')" "in_flight_move (active_users s) P P'"
  using assms
proof (cases rule: account_step.cases)
  case (login_check ae req user pc)
  from prepare_login_user[OF login_check(4)] have "us_ID user \<in> active_users s" by (auto simp: active_users_def)
  then have "in_flight_move (active_users s) P P'" by (auto simp: login_check(1) in_flight_move_def)
  with login_check(2,3) other show thesis by (simp add: token_move_same)
next
  case (login_insert user ae ip agent t)
  then show thesis
    by (intro insert[of user "session_params ae user ip agent" "ac_env ae"])
      (auto simp: session_simps repo_CreateRefreshToken_def CreateRefreshToken_Inr)
next
  case (rotate ae h user ip agent r)
  with rotation_move[OF rotate(3-5)] other show thesis by simp
qed (auto dest: logout_effect register_effect verify_effect forgot_effect resend_effect reset_effect profile_effect
    password_effect deactivate_effect grant_effect revoke_effect organization_effect
    intro: expire_effect token_move.withdraw token_move_same intro!: other)

lemma token_move_mono: "token_move U H rows H' rows' \<Longrightarrow> U \<subseteq> V \<Longrightarrow> token_move V H rows H' rows'"
  by (induction rule: token_move.induct) (auto intro: token_move.intros)

lemma account_step_move:
  assumes "account_step (P, H, s) (P', H', s')"
  shows "token_move UNIV H (refresh_tokens s) H' (refresh_tokens s')"
  using assms
proof (cases rule: account_step_cases)
  case (insert user p ev)
  then show ?thesis by (auto intro: token_move.issue)
qed (auto intro: token_move_mono)

lemma token_move_ok: "token_move U H rows H' rows' \<Longrightarrow> tokens_ok H rows \<Longrightarrow> tokens_ok H' rows'"
proof (induction rule: token_move.induct)
  case (withdraw_failed rows rows' H h)
  then have "tokens_ok H rows'" by (rule tokens_ok_effect)
  then show ?case by (auto simp: tokens_ok_def intro: token_ok_mono)
qed (auto intro: tokens_ok_effect tokens_ok_create tokens_ok_rotated)

lemma token_move_dead:
  "token_move U H rows H' rows' \<Longrightarrow> h \<in> H \<Longrightarrow> dead h rows \<Longrightarrow> h \<in> H' \<and> dead h rows'"
proof (induction rule: token_move.induct)
  case (replace p H ev rows uid)
  then show ?case by (auto simp: dead_def rotated_def in_update_rows created_refresh_def link_row_def split: if_splits)
qed (auto simp: dead_def created_refresh_def dest!: token_effect_in)

definition no_live_token :: "uuid \<Rightarrow> refresh_row list \<Rightarrow> bool" where
  "no_live_token uid rows \<longleftrightarrow> (\<forall>t \<in> set rows. rf_UserID t = uid \<longrightarrow> rf_RevokedAt t \<noteq> None)"

text \<open>The sessions of a user that are not revoked; a user outside \<open>U\<close> gets no more of them.\<close>

definition live_sessions :: "uuid \<Rightarrow> refresh_row list \<Rightarrow> nat" where
  "live_sessions uid rows = length (filter (\<lambda>t. rf_UserID t = uid \<and> rf_RevokedAt t = None) rows)"

lemma live_sessions_none: "live_sessions uid rows = 0 \<longleftrightarrow> no_live_token uid rows"
  by (auto simp: live_sessions_def no_live_token_def filter_empty_conv)

lemma live_sessions_append [simp]: "live_sessions uid (rows @ rows') = live_sessions uid rows + live_sessions uid rows'"
  by (simp add: live_sessions_def)

lemma live_sessions_update:
  assumes "\<And>r. rf_UserID (f r) = rf_UserID r" "\<And>r. rf_RevokedAt (f r) \<noteq> None"
  shows "live_sessions uid (update_rows P f rows) \<le> live_sessions uid rows"
  by (induction rows) (auto simp: live_sessions_def update_rows_def assms simp del: not_None_eq)

lemma live_sessions_filter: "live_sessions uid (filter keep rows) \<le> live_sessions uid rows"
  by (induction rows) (auto simp: live_sessions_def)

lemma live_sessions_effect: "token_effect rows rows' \<Longrightarrow> live_sessions uid rows' \<le> live_sessions uid rows"
  unfolding token_effect_def
  by (clarify, rule order_trans[OF live_sessions_filter live_sessions_update]) (simp_all add: revoke_row_def)

lemma live_sessions_created:
  "live_sessions uid [created_refresh ev p] = (if cr_UserID p = uid then 1 else 0)"
  by (simp add: live_sessions_def created_refresh_def)

lemma token_move_live:
  "token_move U H rows H' rows' \<Longrightarrow> uid \<notin> U \<Longrightarrow> live_sessions uid rows' \<le> live_sessions uid rows"
proof (induction rule: token_move.induct)
  case (replace p H ev rows i)
  have "live_sessions uid (rotated ev i p rows) \<le> live_sessions uid (rows @ [created_refresh ev p])"
    unfolding rotated_def by (rule live_sessions_update) (simp_all add: link_row_def)
  moreover have "cr_UserID p \<noteq> uid" using replace by blast
  ultimately show ?case by (simp add: live_sessions_created)
qed (auto simp: live_sessions_created intro: live_sessions_effect)

lemmas account_step_ok = token_move_ok[OF account_step_move]
lemmas account_step_dead = token_move_dead[OF account_step_move]

lemma account_steps_ok:
  assumes "account_step\<^sup>*\<^sup>* (P, H, s) (P', H', s')" "tokens_ok H (refresh_tokens s)"
  shows "tokens_ok H' (refresh_tokens s')"
  using assms by (induction "(P', H', s')" arbitrary: P' H' s' rule: rtranclp_induct) (auto intro: account_step_ok)

lemma account_steps_dead:
  assumes "account_step\<^sup>*\<^sup>* (P, H, s) (P', H', s')" "h \<in> H" "dead h (refresh_tokens s)"
  shows "h \<in> H' \<and> dead h (refresh_tokens s')"
  using assms by (induction "(P', H', s')" arbitrary: P' H' s' rule: rtranclp_induct) (auto dest: account_step_dead)

section \<open>Families of tokens\<close>

text \<open>From a token to the one that replaced it.\<close>

definition succession :: "refresh_row list \<Rightarrow> (refresh_row \<times> refresh_row) set" where
  "succession rows = {(a, b). a \<in> set rows \<and> b \<in> set rows \<and> sql_eq (rf_SuccessorID a) (rf_ID b)}"

definition token_live :: "refresh_row \<Rightarrow> bool" where
  "token_live r \<longleftrightarrow> rf_RevokedAt r = None"

lemma succession_single_valued: "tokens_ok H rows \<Longrightarrow> single_valued (succession rows)"
  by (auto simp: single_valued_def succession_def tokens_ok_def sql_eq_iff distinct_map dest: inj_onD)

lemma live_ends_family:
  assumes "tokens_ok H rows" "token_live a" "(a, b) \<in> (succession rows)\<^sup>*"
  shows "b = a"
  using assms(3)
proof (cases rule: converse_rtranclE)
  case (step c)
  from step(1) have "a \<in> set rows \<and> rf_SuccessorID a \<noteq> None" by (clarsimp simp: succession_def) (metis sql_eq_def not_None_eq)
  with assms(1,2) show ?thesis by (auto simp: tokens_ok_def token_ok_def token_live_def)
qed simp

lemma family_single_live:
  assumes ok: "tokens_ok H rows" and a: "(root, a) \<in> (succession rows)\<^sup>*" "token_live a"
    and b: "(root, b) \<in> (succession rows)\<^sup>*" "token_live b"
  shows "a = b"
  using single_valued_confluent[OF succession_single_valued[OF ok] a(1) b(1)] live_ends_family[OF ok] a(2) b(2) by blast

section \<open>Dead tokens\<close>

lemma rotate_dead:
  assumes "dead h (refresh_tokens s)"
  shows "\<exists>e \<in> {ErrInvalidToken, ErrTokenReuse}. fst (RotateRefreshToken ae h p s) = Inl e"
proof (cases "find (\<lambda>r. rf_TokenHash r = h) (refresh_tokens s)")
  case None
  then show ?thesis by (simp add: RotateRefreshToken_def GetRefreshTokenByHashForUpdate_def select_one_def opt_res_def)
next
  case (Some r)
  then have "rf_RevokedAt r \<noteq> None" using assms by (auto simp: dead_def dest: find_SomeD)
  with Some show ?thesis
    by (simp add: RotateRefreshToken_def GetRefreshTokenByHashForUpdate_def select_one_def opt_res_def)
qed

lemma dead_row: "tokens_ok H rows \<Longrightarrow> r \<in> set rows \<Longrightarrow> rf_RevokedAt r \<noteq> None \<Longrightarrow> rf_TokenHash r \<in> H \<and> dead (rf_TokenHash r) rows"
  by (auto simp: tokens_ok_def token_ok_def dead_def distinct_map dest: inj_onD)

section \<open>Deactivated users\<close>

text \<open>What a step does to the users: it keeps them, an inactive one stays inactive, and a new one has a new identifier.\<close>

definition users_effect :: "user_row list \<Rightarrow> user_row list \<Rightarrow> bool" where
  "users_effect us us' \<longleftrightarrow> us_ID ` set us \<subseteq> us_ID ` set us' \<and> (\<forall>u' \<in> set us'. us_ID u' \<notin> us_ID ` set us
     \<or> (\<exists>u \<in> set us. us_ID u' = us_ID u \<and> (us_Status u = UserStatusInactive \<longrightarrow> us_Status u' = UserStatusInactive)))"

lemma users_effect_same [intro!, simp]: "users_effect us us"
  by (auto simp: users_effect_def)

lemma users_effect_update:
  assumes "\<And>u. P u \<Longrightarrow> us_ID (f u) = us_ID u \<and> (us_Status u = UserStatusInactive \<longrightarrow> us_Status (f u) = UserStatusInactive)"
  shows "users_effect us (update_rows P f us)"
proof -
  have "map us_ID (update_rows P f us) = map us_ID us" using assms by (simp add: update_rows_def)
  then have "us_ID ` set (update_rows P f us) = us_ID ` set us" by (metis set_map)
  moreover have "\<exists>u \<in> set us. us_ID u' = us_ID u \<and> (us_Status u = UserStatusInactive \<longrightarrow> us_Status u' = UserStatusInactive)"
    if "u' \<in> set (update_rows P f us)" for u'
    using that assms unfolding in_update_rows by (metis (full_types))
  ultimately show ?thesis unfolding users_effect_def by blast
qed

lemma users_effect_add: "us_ID u \<notin> us_ID ` set us \<Longrightarrow> users_effect us (us @ [u])"
  by (auto simp: users_effect_def)

lemma users_frames [simp]:
  "users (RevokeRefreshToken ev uid s) = users s" "users (RevokeUserRefreshTokens ev uid s) = users s"
  "users (UseEmailVerificationToken ev uid s) = users s" "users (UseAllUserEmailVerificationTokens ev uid s) = users s"
  "users (UsePasswordResetToken ev uid s) = users s" "users (UseAllUserPasswordResetTokens ev uid s) = users s"
  "users (DeleteExpiredRefreshTokens t s) = users s" "users (DeleteExpiredEmailVerificationTokens t s) = users s"
  "users (DeleteExpiredPasswordResetTokens t s) = users s" "users (permission_audit ae orgID actorID userID s) = users s"
  by (simp_all add: RevokeRefreshToken_def RevokeUserRefreshTokens_def UseEmailVerificationToken_def
      UseAllUserEmailVerificationTokens_def UsePasswordResetToken_def UseAllUserPasswordResetTokens_def
      DeleteExpiredRefreshTokens_def DeleteExpiredEmailVerificationTokens_def DeleteExpiredPasswordResetTokens_def
      permission_audit_def)

lemma CreateUser_users: "CreateUser ev p s = Inr (u, s') \<Longrightarrow> users_effect (users s) (users s')"
  by (auto simp: CreateUser_def Let_def split: if_splits intro: users_effect_add)

lemma session_users:
  "repo_CreateRefreshToken ae p s = Inr (t, s') \<Longrightarrow> users s' = users s"
  "RotateRefreshToken ae h p s = (r, s') \<Longrightarrow> users s' = users s"
  by (auto simp: repo_CreateRefreshToken_def CreateRefreshToken_Inr RotateRefreshToken_def rotate_active_Inr
      split: sum.splits if_splits)

lemma token_users:
  "LogoutTransaction ae h s = Inr ((), s') \<Longrightarrow> users s' = users s"
  "repo_CreateEmailVerificationToken ae ct s = Inr ((), s') \<Longrightarrow> users s' = users s"
  "ForgotPasswordTransaction ae ct s = Inr (rt, s') \<Longrightarrow> users s' = users s"
  by (auto simp: LogoutTransaction_def repo_CreateEmailVerificationToken_def ForgotPasswordTransaction_def res_bind_eq_Inr
      split: if_splits dest!: CreateEmailVerificationToken_frame CreatePasswordResetToken_frame)

lemma grant_users:
  "GrantRoleWithAudit ae gp actor s = Inr ((), s') \<Longrightarrow> users s' = users s"
  "RevokeRoleWithAudit ae rp actor s = Inr ((), s') \<Longrightarrow> users s' = users s"
  "CreateWithOwnerGrant ae op creator s = Inr (org, s') \<Longrightarrow> users s' = users s"
  by (auto simp: GrantRoleWithAudit_def RevokeRoleWithAudit_def RevokeRoleFromUserInOrg_def CreateWithOwnerGrant_def
      lift_tables_def GrantRoleToUserInOrg_def res_bind_eq_Inr dest!: GrantOrgRole_frame split: if_splits sum.splits)

lemma register_users: "RegisterTransaction ae p s = Inr (r, s') \<Longrightarrow> users_effect (users s) (users s')"
  by (auto simp: RegisterTransaction_def res_bind_eq_Inr dest!: CreateEmailVerificationToken_frame dest: CreateUser_users)

lemma verify_users: "VerifyEmailTransaction ae h s = Inr ((), s') \<Longrightarrow> users_effect (users s) (users s')"
  by (auto simp: VerifyEmailTransaction_def VerifyUserEmail_def res_bind_eq_Inr split: if_splits intro!: users_effect_update)

lemma password_users:
  "ResetPasswordTransaction ae preview h s = Inr ((), s') \<Longrightarrow> users_effect (users s) (users s')"
  "ChangePasswordTransaction ae uid h s = Inr ((), s') \<Longrightarrow> users_effect (users s) (users s')"
  by (auto simp: ResetPasswordTransaction_def ChangePasswordTransaction_def UpdateUserPasswordHash_def res_bind_eq_Inr
      Let_def split: option.splits if_splits intro!: users_effect_update)

lemma profile_users: "UpdateProfileTransaction ae actor p s = Inr (u, s') \<Longrightarrow> users_effect (users s) (users s')"
  by (auto simp: UpdateProfileTransaction_def UpdateUserProfile_def res_bind_eq_Inr updated_profile_def Let_def
      split: if_splits option.splits intro!: users_effect_update)

lemma deactivate_users: "DeactivateTransaction ae actor uid s = Inr ((), s') \<Longrightarrow> users_effect (users s) (users s')"
  by (auto simp: DeactivateTransaction_def DeactivateUser_def res_bind_eq_Inr Let_def
      split: if_splits intro!: users_effect_update)

lemma account_step_users:
  assumes "account_step (P, H, s) (P', H', s')"
  shows "users_effect (users s) (users s')"
  using assms
  by (cases rule: account_step.cases)
    (auto dest: session_users token_users grant_users register_users verify_users password_users profile_users deactivate_users)

text \<open>The user is inactive; the sessions of the user that live, and the sign-ins that may still insert one.\<close>

definition inactive_user :: "128 word \<Rightarrow> account_db \<Rightarrow> bool" where
  "inactive_user uid s \<longleftrightarrow> Some uid \<in> us_ID ` set (users s)
     \<and> (\<forall>u \<in> set (users s). us_ID u = Some uid \<longrightarrow> us_Status u = UserStatusInactive)"

definition in_flight :: "uuid \<Rightarrow> user_row multiset \<Rightarrow> nat" where
  "in_flight uid P = size (filter_mset (\<lambda>u. us_ID u = uid) P)"

lemma in_flight_mono: "P \<subseteq># P' \<Longrightarrow> in_flight uid P \<le> in_flight uid P'"
  unfolding in_flight_def by (intro size_mset_mono multiset_filter_mono)

lemma in_flight_move: "in_flight_move U P P' \<Longrightarrow> uid \<notin> U \<Longrightarrow> in_flight uid P' \<le> in_flight uid P"
  by (auto simp: in_flight_move_def in_flight_mono) (auto simp: in_flight_def)

lemma in_flight_remove: "user \<in># P \<Longrightarrow> in_flight uid P = in_flight uid (P - {#user#}) + (if us_ID user = uid then 1 else 0)"
  by (auto simp: in_flight_def dest!: multi_member_split)

lemma account_step_inactive:
  assumes step: "account_step (P, H, s) (P', H', s')" and i: "inactive_user uid s"
  shows "inactive_user uid s'"
    "live_sessions (Some uid) (refresh_tokens s') + in_flight (Some uid) P'
       \<le> live_sessions (Some uid) (refresh_tokens s) + in_flight (Some uid) P"
proof -
  have "us_Status u = UserStatusInactive" if "u \<in> set (users s')" "us_ID u = Some uid" for u
    using account_step_users[OF step] i that unfolding users_effect_def inactive_user_def by metis
  moreover have "Some uid \<in> us_ID ` set (users s')"
    using account_step_users[OF step] i unfolding users_effect_def inactive_user_def by blast
  ultimately show "inactive_user uid s'" by (simp add: inactive_user_def)
  have out: "Some uid \<notin> active_users s" using i by (auto simp: inactive_user_def active_users_def)
  from step show "live_sessions (Some uid) (refresh_tokens s') + in_flight (Some uid) P'
       \<le> live_sessions (Some uid) (refresh_tokens s) + in_flight (Some uid) P"
  proof (cases rule: account_step_cases)
    case (insert user p ev)
    then show ?thesis using in_flight_remove[OF insert(1), of "Some uid"] by (simp add: live_sessions_created)
  next
    case other
    show ?thesis by (intro add_mono token_move_live[OF other(1) out] in_flight_move[OF other(2) out])
  qed
qed

lemma account_steps_inactive:
  assumes "account_step\<^sup>*\<^sup>* (P, H, s) (P', H', s')" "inactive_user uid s"
  shows "inactive_user uid s' \<and> live_sessions (Some uid) (refresh_tokens s') + in_flight (Some uid) P'
     \<le> live_sessions (Some uid) (refresh_tokens s) + in_flight (Some uid) P"
  using assms by (induction "(P', H', s')" arbitrary: P' H' s' rule: rtranclp_induct)
    (auto dest: account_step_inactive intro: order_trans)

text \<open>What a request of an inactive user meets.\<close>

lemma inactive_sign_in:
  assumes "inactive_user uid s" "GetUserByEmail s (li_Email req) = Inr u" "us_ID u = Some uid"
  shows "\<exists>e. prepare_login ae s req = Inl e"
proof -
  have "u \<in> set (users s)" using assms(2) by (auto simp: GetUserByEmail_def select_one_Inr dest!: find_SomeD)
  with assms(1,3) have "us_Status u = UserStatusInactive" by (simp add: inactive_user_def)
  then show ?thesis using assms(2) by (simp add: prepare_login_def repo_GetUserByEmail_def assertUserActive_def)
qed

lemma inactive_rotation:
  assumes "inactive_user uid s" "tokens_ok H (refresh_tokens s)" "t \<in> set (refresh_tokens s)" "rf_UserID t = Some uid"
  shows "\<exists>e. fst (RotateRefreshToken ae (rf_TokenHash t) p s) = Inl e"
proof -
  have row: "GetRefreshTokenByHashForUpdate s (rf_TokenHash t) = Inr t"
    using find_key_unique[of rf_TokenHash "refresh_tokens s" t] assms(2,3)
    by (simp add: GetRefreshTokenByHashForUpdate_def select_one_def opt_res_def tokens_ok_def)
  have "\<nexists>u. rotate_active ae t p s = Inr u"
    using rotate_active_user[of ae t p s] assms(1,4) by (auto simp: inactive_user_def active_users_def)
  then obtain e where "rotate_active ae t p s = Inl e" by (cases "rotate_active ae t p s") auto
  then show ?thesis by (simp add: RotateRefreshToken_def row)
qed

lemma deactivate_inactive:
  assumes "DeactivateTransaction ae actor (Some uid) s = Inr ((), s')" "distinct (map us_ID (users s))"
  shows "inactive_user uid s'" "live_sessions (Some uid) (refresh_tokens s') = 0"
proof -
  from assms(1) obtain u where "us_ID u = Some uid" "u \<in> set (users s)"
      "users s' = update_rows (\<lambda>u. sql_eq (us_ID u) (Some uid) \<and> us_Status u \<noteq> UserStatusInactive)
        (\<lambda>u. u\<lparr>us_Status := UserStatusInactive, us_UpdatedAt := Some (env_db_now (ac_env ae))\<rparr>) (users s)"
      "refresh_tokens s' = update_rows (\<lambda>r. sql_eq (rf_UserID r) (Some uid) \<and> rf_RevokedAt r = None)
        (revoke_row (ac_env ae)) (refresh_tokens s)"
    by (auto simp: DeactivateTransaction_def DeactivateUser_def RevokeUserRefreshTokens_def GetUserByIDForUpdate_def
        select_one_Inr res_bind_eq_Inr sql_eq_iff Let_def split: if_splits dest!: find_SomeD)
  note e = this
  show "live_sessions (Some uid) (refresh_tokens s') = 0"
    unfolding e(4) live_sessions_none by (auto simp: no_live_token_def in_update_rows revoke_row_def)
  have "us_Status v = UserStatusInactive" if "v \<in> set (users s')" "us_ID v = Some uid" for v
  proof -
    from that(1) obtain r where r: "v = (if sql_eq (us_ID r) (Some uid) \<and> us_Status r \<noteq> UserStatusInactive
        then r\<lparr>us_Status := UserStatusInactive, us_UpdatedAt := Some (env_db_now (ac_env ae))\<rparr> else r)"
      unfolding e(3) in_update_rows by blast
    with that(2) have "us_ID r = Some uid" by (simp split: if_splits)
    with r show ?thesis by simp
  qed
  moreover have "map us_ID (users s') = map us_ID (users s)" unfolding e(3) by (simp add: update_rows_def)
  then have "us_ID ` set (users s') = us_ID ` set (users s)" by (metis set_map)
  with e(1,2) have "Some uid \<in> us_ID ` set (users s')" by force
  ultimately show "inactive_user uid s'" by (simp add: inactive_user_def)
qed

end
