(* ===== verification/Account_Theorems.thy ===== *)
theory Account_Theorems
  imports Account_Properties
begin

text \<open>
  What the account transactions promise: sessions, reuse detection, password reset, deactivation,
  personas, permissions and the last-owner guard.
\<close>

section \<open>Accounts of one user\<close>

definition demo_user :: "128 word \<Rightarrow> UserStatus \<Rightarrow> user_row" where
  "demo_user i st = \<lparr>us_ID = Some i, us_Email = ''a@b.c'', us_Username = ''ann'', us_PasswordHash = ''pw'',
     us_FirstName = ''Ann'', us_LastName = ''Ann'', us_Phone = None, us_AvatarUrl = None, us_DateOfBirth = None,
     us_Gender = None, us_Status = st, us_EmailVerifiedAt = Some 0, us_LastLoginAt = None, us_LastLoginIp = None,
     us_CreatedAt = Some 0, us_UpdatedAt = Some 0\<rparr>"

definition demo_token :: "128 word \<Rightarrow> string \<Rightarrow> timestamp \<Rightarrow> uuid \<Rightarrow> refresh_row" where
  "demo_token i h revoked successor = \<lparr>rf_ID = Some i, rf_UserID = Some 7, rf_TokenHash = h,
     rf_ExpiresAt = Some (9 + refreshTokenDuration), rf_RevokedAt = revoked, rf_IpAddress = None, rf_UserAgent = None,
     rf_CreatedAt = Some 9, rf_SuccessorID = successor\<rparr>"

definition demo_acc :: "128 word \<Rightarrow> string \<Rightarrow> account_env" where
  "demo_acc i raw = \<lparr>ac_env = demo_env i 9, ac_token_id = 99, ac_hash_token = (\<lambda>t. t), ac_raw_token = raw,
     ac_bcrypt = (\<lambda>p. p), ac_bcrypt_compare = (\<lambda>h p. h = p), ac_sign = (\<lambda>k c. jc_UserID c),
     ac_jwt_parse = (\<lambda>k t. Inl alg_error), ac_jwt_secret = ''k'', ac_parse_date = (\<lambda>v. None),
     ac_format_date = (\<lambda>d. []), ac_unicode_word = (\<lambda>v. True), ac_player_persona = True\<rparr>"

definition demo_accounts :: "user_row list \<Rightarrow> refresh_row list \<Rightarrow> account_db" where
  "demo_accounts us ts = \<lparr>tables = demo_db TournamentStatusOngoing, users = us, refresh_tokens = ts,
     email_verification_tokens = [], password_reset_tokens = [], roles = [], permissions = [], role_permissions = [],
     user_organization_roles = []\<rparr>"

lemmas account_demo_simps = demo_user_def demo_token_def demo_acc_def demo_accounts_def demo_env_def

lemma demo_rotate:
  "RotateRefreshToken (demo_acc 2 ''u'') ''t'' (session_params (demo_acc 2 ''u'') (demo_user 7 UserStatusActive) None None)
     (demo_accounts [demo_user 7 UserStatusActive] [demo_token 1 ''t'' None None])
   = (Inr (demo_token 2 ''u'' None None), demo_accounts [demo_user 7 UserStatusActive]
        [demo_token 1 ''t'' (Some 9) (Some 2), demo_token 2 ''u'' None None])"
  by (simp add: RotateRefreshToken_def GetRefreshTokenByHashForUpdate_def select_one_def opt_res_def rotate_active_def
      GetUserByID_def assertUserActive_def CreateRefreshToken_def created_refresh_def session_params_def expires_ok_def
      user_exists_def RevokeAndLinkSuccessor_def update_rows_def GetRefreshTokenExpiryTime_def now_of_def duration_defs ts_Time_def Let_def
      account_demo_simps)

lemma demo_rotate_step:
  "account_step ({#}, {''t''}, demo_accounts [demo_user 7 UserStatusActive] [demo_token 1 ''t'' None None])
     ({#}, {''u'', ''t''}, demo_accounts [demo_user 7 UserStatusActive]
        [demo_token 1 ''t'' (Some 9) (Some 2), demo_token 2 ''u'' None None])"
  using account_step.rotate[OF demo_rotate, of "{''t''}" "{#}"] by (simp add: account_demo_simps)

section \<open>Sessions\<close>

text \<open>
  C28: one live token per session.  Every sign-in starts a family of refresh tokens, each rotation
  replacing one by its successor; whatever the interleaving of sign-ins, rotations, sign-outs, resets,
  deactivations and cleanups, a family never has two tokens that are not revoked.
\<close>

theorem session_single_live:
  assumes "account_step\<^sup>*\<^sup>* (P, H, s) (P', H', s')" "tokens_ok H (refresh_tokens s)"
    and "(root, a) \<in> (succession (refresh_tokens s'))\<^sup>*" "token_live a"
    and "(root, b) \<in> (succession (refresh_tokens s'))\<^sup>*" "token_live b"
  shows "a = b"
  using family_single_live[OF account_steps_ok[OF assms(1,2)] assms(3-6)] .

lemma session_single_live_witness:
  "{b. (demo_token 1 ''t'' (Some 9) (Some 2), b) \<in>
       (succession [demo_token 1 ''t'' (Some 9) (Some 2), demo_token 2 ''u'' None None])\<^sup>* \<and> token_live b}
     = {demo_token 2 ''u'' None None}"
proof -
  let ?rows = "[demo_token 1 ''t'' (Some 9) (Some 2), demo_token 2 ''u'' None None]"
  have ok: "tokens_ok {''t''} [demo_token 1 ''t'' None None]"
    by (simp add: tokens_ok_def token_ok_def demo_token_def)
  have u: "(demo_token 1 ''t'' (Some 9) (Some 2), demo_token 2 ''u'' None None) \<in> (succession ?rows)\<^sup>*"
    by (rule r_into_rtrancl) (simp add: succession_def demo_token_def)
  have live: "token_live (demo_token 2 ''u'' None None)" by (simp add: token_live_def demo_token_def)
  have "demo_token 2 ''u'' None None = b"
    if "(demo_token 1 ''t'' (Some 9) (Some 2), b) \<in> (succession ?rows)\<^sup>*" "token_live b" for b
    using session_single_live[OF r_into_rtranclp[of account_step, OF demo_rotate_step], of _ _ b] ok u live that
    by (simp add: demo_accounts_def)
  with u live show ?thesis by auto
qed

text \<open>
  C29: a refresh token works once.  After it was rotated or revoked, no later state reached by any
  interleaving accepts it: the rotation answers invalid or reused, and the refresh request fails.
\<close>

theorem revoked_token_dead:
  assumes "account_step\<^sup>*\<^sup>* (P, H, s) (P', H', s')" "tokens_ok H (refresh_tokens s)"
    and "r \<in> set (refresh_tokens s)" "rf_RevokedAt r \<noteq> None"
  shows "(\<exists>e \<in> {ErrInvalidToken, ErrTokenReuse}. fst (RotateRefreshToken ae (rf_TokenHash r) p s') = Inl e)
    \<and> (ac_hash_token ae (fr_RefreshToken req) = rf_TokenHash r \<longrightarrow> (\<exists>e. fst (auth_refresh ae req ip agent s') = Inl e))"
proof -
  have "dead (rf_TokenHash r) (refresh_tokens s')"
    using account_steps_dead[OF assms(1)] dead_row[OF assms(2-4)] by blast
  note rotate_dead[OF this]
  moreover have "\<exists>e. fst (auth_refresh ae req ip agent s') = Inl e" if "ac_hash_token ae (fr_RefreshToken req) = rf_TokenHash r"
    using calculation[of ae] unfolding that[symmetric] auth_refresh_def
    by (auto split: sum.splits prod.splits) (metis Inr_Inl_False fst_conv)+
  ultimately show ?thesis by blast
qed

lemma revoked_token_dead_witness:
  "\<exists>e \<in> {ErrInvalidToken, ErrTokenReuse}. fst (RotateRefreshToken (demo_acc 3 ''v'') ''t''
     (session_params (demo_acc 3 ''v'') (demo_user 7 UserStatusActive) None None)
     (demo_accounts [demo_user 7 UserStatusActive] [demo_token 1 ''t'' (Some 9) (Some 2), demo_token 2 ''u'' None None])) = Inl e"
proof -
  have "tokens_ok {''u'', ''t''} [demo_token 1 ''t'' (Some 9) (Some 2), demo_token 2 ''u'' None None]"
    by (simp add: tokens_ok_def token_ok_def demo_token_def)
  then show ?thesis
    using revoked_token_dead[OF rtranclp.rtrancl_refl, where r = "demo_token 1 ''t'' (Some 9) (Some 2)"
      and s = "demo_accounts [demo_user 7 UserStatusActive] [demo_token 1 ''t'' (Some 9) (Some 2), demo_token 2 ''u'' None None]"]
    by (simp add: demo_accounts_def demo_token_def)
qed

text \<open>
  C30: presenting a token that was revoked without a successor (after a sign-out, a password change or a
  reset) is answered as reuse, and the same transaction revokes every session of its owner; the tokens
  of other users are untouched.
\<close>

theorem token_reuse_revokes:
  assumes "tokens_ok H (refresh_tokens s)" "r \<in> set (refresh_tokens s)" "rf_RevokedAt r \<noteq> None"
    and "rf_SuccessorID r = None" "rf_UserID r \<noteq> None"
  shows "\<exists>s'. RotateRefreshToken ae (rf_TokenHash r) p s = (Inl ErrTokenReuse, s')
    \<and> no_live_token (rf_UserID r) (refresh_tokens s')
    \<and> filter (\<lambda>t. rf_UserID t \<noteq> rf_UserID r) (refresh_tokens s') = filter (\<lambda>t. rf_UserID t \<noteq> rf_UserID r) (refresh_tokens s)"
proof -
  have "find (\<lambda>t. rf_TokenHash t = rf_TokenHash r) (refresh_tokens s) = Some r"
    using assms(1,2) by (intro find_key_unique[of rf_TokenHash]) (simp_all add: tokens_ok_def)
  then have "RotateRefreshToken ae (rf_TokenHash r) p s
      = (Inl ErrTokenReuse, RevokeUserRefreshTokens (ac_env ae) (rf_UserID r) s)"
    using assms(3,4) by (simp add: RotateRefreshToken_def GetRefreshTokenByHashForUpdate_def select_one_def opt_res_def)
  moreover have "no_live_token (rf_UserID r) (refresh_tokens (RevokeUserRefreshTokens (ac_env ae) (rf_UserID r) s))"
    using assms(5) by (auto simp: no_live_token_def RevokeUserRefreshTokens_def in_update_rows revoke_row_def sql_eq_iff)
  moreover have "filter (\<lambda>t. rf_UserID t \<noteq> u) (update_rows (\<lambda>t. sql_eq (rf_UserID t) u \<and> rf_RevokedAt t = None) (revoke_row ev) rows)
      = filter (\<lambda>t. rf_UserID t \<noteq> u) rows" for u ev rows
    by (induction rows) (auto simp: update_rows_def sql_eq_iff revoke_row_def)
  ultimately show ?thesis by (simp add: RevokeUserRefreshTokens_def)
qed

lemma token_reuse_revokes_witness:
  "\<exists>s'. RotateRefreshToken (demo_acc 3 ''v'') ''t'' (session_params (demo_acc 3 ''v'') (demo_user 7 UserStatusActive) None None)
      (demo_accounts [demo_user 7 UserStatusActive] [demo_token 1 ''t'' (Some 9) None, demo_token 2 ''u'' None None])
      = (Inl ErrTokenReuse, s') \<and> no_live_token (Some 7) (refresh_tokens s')"
proof -
  have "tokens_ok {''u'', ''t''} [demo_token 1 ''t'' (Some 9) None, demo_token 2 ''u'' None None]"
    by (simp add: tokens_ok_def token_ok_def demo_token_def)
  then show ?thesis
    using token_reuse_revokes[where r = "demo_token 1 ''t'' (Some 9) None" and ae = "demo_acc 3 ''v''"
      and p = "session_params (demo_acc 3 ''v'') (demo_user 7 UserStatusActive) None None"
      and s = "demo_accounts [demo_user 7 UserStatusActive] [demo_token 1 ''t'' (Some 9) None, demo_token 2 ''u'' None None]"]
    by (auto simp: demo_accounts_def demo_token_def)
qed

section \<open>Users\<close>


definition admin_role :: role_row where
  "admin_role = \<lparr>ro_ID = Some 50, ro_OrganizationID = None, ro_Name = ''Admin'', ro_Slug = ''platform_admin'',
     ro_Description = None, ro_Scope = RoleScopePlatform, ro_IsSystem = True, ro_CreatedAt = Some 0, ro_UpdatedAt = Some 0\<rparr>"

definition owner_role :: role_row where
  "owner_role = admin_role\<lparr>ro_ID := Some 51, ro_Name := ''Owner'', ro_Slug := ''org_owner''\<rparr>"

definition demo_grant :: "128 word \<Rightarrow> 128 word \<Rightarrow> uuid \<Rightarrow> uuid \<Rightarrow> grant_row" where
  "demo_grant i user org role = \<lparr>uo_ID = Some i, uo_UserID = Some user, uo_OrganizationID = org, uo_RoleID = role,
     uo_GrantedBy = None, uo_GrantedAt = Some 0, uo_ExpiresAt = None, uo_CreatedAt = Some 0, uo_UpdatedAt = Some 0\<rparr>"

lemmas grant_demo_simps = account_demo_simps admin_role_def owner_role_def demo_grant_def DeactivateTransaction_def
  GetPlatformAdminRoleForUpdate_def select_one_def opt_res_def IsUserActivePlatformAdmin_def admin_grants_def
  grant_roles_def platform_admin_role_def live_grant_def CountActivePlatformAdmins_def GetUserByIDForUpdate_def
  DeactivateUser_def Let_def update_rows_def

lemma demo_deactivate:
  "\<exists>s1. DeactivateTransaction (demo_acc 1 ''t'') None (Some 7)
     ((demo_accounts [demo_user 7 UserStatusActive] [])\<lparr>roles := [admin_role]\<rparr>) = Inr ((), s1)"
  by (simp add: grant_demo_simps)

text \<open>The state after the deactivation of a user whose sign-in is in flight, and the insert of that sign-in.\<close>

lemma demo_late_insert:
  assumes "DeactivateTransaction (demo_acc 1 ''t'') None (Some 7)
     ((demo_accounts [demo_user 7 UserStatusActive] [])\<lparr>roles := [admin_role]\<rparr>) = Inr ((), s1)"
  shows "\<exists>s2. account_step ({#demo_user 7 UserStatusActive#}, {}, s1) ({#}, {''u''}, s2)
     \<and> refresh_tokens s2 = [demo_token 2 ''u'' None None]"
proof -
  have s1: "refresh_tokens s1 = []" "user_exists s1 (Some 7)"
    using assms by (auto simp: grant_demo_simps RevokeUserRefreshTokens_def user_exists_def)
  have "\<exists>t. repo_CreateRefreshToken (demo_acc 2 ''u'') (session_params (demo_acc 2 ''u'') (demo_user 7 UserStatusActive) None None) s1
      = Inr (t, s1\<lparr>refresh_tokens := [demo_token 2 ''u'' None None]\<rparr>)"
    using s1 by (simp add: repo_CreateRefreshToken_def CreateRefreshToken_def created_refresh_def session_params_def expires_ok_def
        GetRefreshTokenExpiryTime_def now_of_def duration_defs ts_Time_def Let_def account_demo_simps)
  then obtain t where "repo_CreateRefreshToken (demo_acc 2 ''u'') (session_params (demo_acc 2 ''u'') (demo_user 7 UserStatusActive) None None) s1
      = Inr (t, s1\<lparr>refresh_tokens := [demo_token 2 ''u'' None None]\<rparr>)" by blast
  then show ?thesis
    using account_step.login_insert[of "demo_user 7 UserStatusActive" "{#demo_user 7 UserStatusActive#}" "demo_acc 2 ''u''" None None
      s1 t "s1\<lparr>refresh_tokens := [demo_token 2 ''u'' None None]\<rparr>" "{}"]
    by (intro exI[of _ "s1\<lparr>refresh_tokens := [demo_token 2 ''u'' None None]\<rparr>"]) (simp add: demo_acc_def)
qed

text \<open>The race of a sign-in and a deactivation: an inactive user with a session that is not revoked.\<close>

lemma sign_in_outlives_deactivation:
  "\<exists>pc s1 s2.
     prepare_login (demo_acc 2 ''u'') ((demo_accounts [demo_user 7 UserStatusActive] [])\<lparr>roles := [admin_role]\<rparr>)
       \<lparr>li_Email = ''a@b.c'', li_Password = ''pw'', li_OrganizationID = []\<rparr> = Inr (demo_user 7 UserStatusActive, pc)
   \<and> DeactivateTransaction (demo_acc 1 ''t'') None (Some 7)
       ((demo_accounts [demo_user 7 UserStatusActive] [])\<lparr>roles := [admin_role]\<rparr>) = Inr ((), s1)
   \<and> account_step ({#demo_user 7 UserStatusActive#}, {}, s1) ({#}, {''u''}, s2) \<and> inactive_user 7 s2
   \<and> live_sessions (Some 7) (refresh_tokens s2) = 1"
proof -
  let ?s = "(demo_accounts [demo_user 7 UserStatusActive] [])\<lparr>roles := [admin_role]\<rparr>"
  obtain s1 where s1: "DeactivateTransaction (demo_acc 1 ''t'') None (Some 7) ?s = Inr ((), s1)"
    using demo_deactivate by blast
  obtain s2 where s2: "account_step ({#demo_user 7 UserStatusActive#}, {}, s1) ({#}, {''u''}, s2)"
      "refresh_tokens s2 = [demo_token 2 ''u'' None None]"
    using demo_late_insert[OF s1] by blast
  have "distinct (map us_ID (users ?s))" by (simp add: demo_accounts_def)
  from deactivate_inactive(1)[OF s1 this] have "inactive_user 7 s2" by (rule account_step_inactive(1)[OF s2(1)])
  moreover have "live_sessions (Some 7) (refresh_tokens s2) = 1" by (simp add: s2(2) live_sessions_def demo_token_def)
  moreover have "\<exists>pc. prepare_login (demo_acc 2 ''u'') ?s \<lparr>li_Email = ''a@b.c'', li_Password = ''pw'', li_OrganizationID = []\<rparr>
      = Inr (demo_user 7 UserStatusActive, pc)"
    by (simp add: prepare_login_def repo_GetUserByEmail_def GetUserByEmail_def select_one_def VerifyPassword_def resolvePrincipal_def
        GetUserPlatformRoles_def grant_roles_def GetUserOrganizations_def GetPlayerProfileID_def GetPlayerProfileByUserID_def
        assertUserActive_def demo_db_def account_demo_simps)
  ultimately show ?thesis using s1 s2(1) by blast
qed


lemma filter_updated_none: "(\<And>r. \<not> P (f r)) \<Longrightarrow> filter P (update_rows P f rows) = []"
  by (induction rows) (auto simp: update_rows_def)

text \<open>
  C32: a password reset happens once.  It needs an unused, unexpired token of the user; it sets the hash
  of that user and of nobody else, revokes every session of the user, and uses up every outstanding reset
  token, so that any other reset prepared for the user, before or after, is refused as used.
\<close>

theorem password_reset_once:
  assumes "ResetPasswordTransaction ae preview h s = Inr ((), s')"
  shows "(\<exists>t \<in> set (password_reset_tokens s). pw_ID t = pw_ID preview \<and> pw_UserID t = pw_UserID preview
      \<and> pw_UsedAt t = None \<and> ts_Time (pw_ExpiresAt t) \<ge> now_of ae)
    \<and> (\<forall>u \<in> set (users s'). us_ID u = pw_UserID preview \<longrightarrow> us_PasswordHash u = h)
    \<and> filter (\<lambda>u. us_ID u \<noteq> pw_UserID preview) (users s') = filter (\<lambda>u. us_ID u \<noteq> pw_UserID preview) (users s)
    \<and> no_live_token (pw_UserID preview) (refresh_tokens s')
    \<and> (\<forall>ae' other h'. pw_UserID other = pw_UserID preview \<longrightarrow> ResetPasswordTransaction ae' other h' s' = Inl ErrResetTokenUsed)"
proof -
  let ?uid = "pw_UserID preview" and ?ev = "ac_env ae"
  from assms obtain t where t: "find (\<lambda>t. pw_ID t = pw_ID preview) (LockUserPasswordResetTokens s ?uid) = Some t"
      "\<not> ts_Time (pw_ExpiresAt t) < now_of ae"
      "users s' = users (UpdateUserPasswordHash ?ev h (pw_UserID t) s)"
      "refresh_tokens s' = refresh_tokens (RevokeUserRefreshTokens ?ev (pw_UserID t) s)"
      "password_reset_tokens s' = password_reset_tokens (UseAllUserPasswordResetTokens ?ev (pw_UserID t)
         (UsePasswordResetToken ?ev (pw_ID t) s))"
    by (auto simp: ResetPasswordTransaction_def Let_def UpdateUserPasswordHash_def RevokeUserRefreshTokens_def
        UsePasswordResetToken_def UseAllUserPasswordResetTokens_def split: option.splits if_splits)
  from find_SomeD[OF t(1)] have row: "t \<in> set (password_reset_tokens s)" "pw_ID t = pw_ID preview"
      "pw_UserID t = ?uid" "?uid \<noteq> None" "pw_UsedAt t = None"
    by (clarsimp simp: LockUserPasswordResetTokens_def, (metis not_None_eq sql_eq_def)?)+
  have others: "filter (\<lambda>u. us_ID u \<noteq> i) (update_rows (\<lambda>u. sql_eq (us_ID u) i) f us) = filter (\<lambda>u. us_ID u \<noteq> i) us"
    if "\<And>u. us_ID (f u) = us_ID u" for i f us
    by (induction us) (auto simp: update_rows_def sql_eq_iff that)
  have "filter (\<lambda>u. us_ID u \<noteq> ?uid) (users s') = filter (\<lambda>u. us_ID u \<noteq> ?uid) (users s)"
    unfolding t(3) row(3) by (simp add: UpdateUserPasswordHash_def others)
  moreover have "us_PasswordHash u = h" if "u \<in> set (users s')" "us_ID u = ?uid" for u
  proof -
    from that(1) obtain r where r: "u = (if sql_eq (us_ID r) ?uid
        then r\<lparr>us_PasswordHash := h, us_UpdatedAt := Some (env_db_now ?ev)\<rparr> else r)"
      unfolding t(3) row(3) by (auto simp: UpdateUserPasswordHash_def in_update_rows)
    with that(2) have "us_ID r = ?uid" by (simp split: if_splits)
    with r row(4) show ?thesis by (simp add: sql_eq_iff)
  qed
  moreover have "no_live_token ?uid (refresh_tokens s')"
    using row(4) unfolding t(4) row(3) by (auto simp: no_live_token_def RevokeUserRefreshTokens_def in_update_rows revoke_row_def sql_eq_iff)
  moreover have "LockUserPasswordResetTokens s' ?uid = []"
    unfolding LockUserPasswordResetTokens_def t(5) row(3) UseAllUserPasswordResetTokens_def
    by (simp add: filter_updated_none use_reset_def)
  then have "ResetPasswordTransaction ae' other h' s' = Inl ErrResetTokenUsed" if "pw_UserID other = ?uid" for ae' other h'
    using that by (simp add: ResetPasswordTransaction_def)
  ultimately show ?thesis using row t(2) by (metis not_less)
qed

definition demo_reset :: reset_row where
  "demo_reset = \<lparr>pw_ID = Some 3, pw_UserID = Some 7, pw_TokenHash = ''r'', pw_ExpiresAt = Some 90, pw_UsedAt = None,
     pw_CreatedAt = Some 0\<rparr>"

lemma password_reset_once_witness:
  "\<exists>s'. ResetPasswordTransaction (demo_acc 1 ''t'') demo_reset ''new''
       ((demo_accounts [demo_user 7 UserStatusActive] [demo_token 1 ''t'' None None])\<lparr>password_reset_tokens := [demo_reset]\<rparr>)
       = Inr ((), s')
     \<and> no_live_token (Some 7) (refresh_tokens s')
     \<and> ResetPasswordTransaction (demo_acc 1 ''t'') demo_reset ''other'' s' = Inl ErrResetTokenUsed"
proof -
  have "\<exists>s'. ResetPasswordTransaction (demo_acc 1 ''t'') demo_reset ''new''
       ((demo_accounts [demo_user 7 UserStatusActive] [demo_token 1 ''t'' None None])\<lparr>password_reset_tokens := [demo_reset]\<rparr>)
       = Inr ((), s')"
    by (simp add: ResetPasswordTransaction_def LockUserPasswordResetTokens_def demo_reset_def account_demo_simps now_of_def
        ts_Time_def Let_def)
  then obtain s' where s': "ResetPasswordTransaction (demo_acc 1 ''t'') demo_reset ''new''
       ((demo_accounts [demo_user 7 UserStatusActive] [demo_token 1 ''t'' None None])\<lparr>password_reset_tokens := [demo_reset]\<rparr>)
       = Inr ((), s')" by blast
  with password_reset_once[OF s'] show ?thesis by (auto simp: demo_reset_def)
qed

end
