(* ===== verification/Account_Access.thy ===== *)
theory Account_Access
  imports Account_Theorems
begin

text \<open>
  Who may do what: the persona of a token, the permission behind an organization's route, the last
  owner of an organization, and the races the checks outside the transactions leave open.
\<close>

section \<open>Personas\<close>

definition grants_role :: "account_env \<Rightarrow> account_db \<Rightarrow> uuid \<Rightarrow> uuid \<Rightarrow> string \<Rightarrow> bool" where
  "grants_role ae s uid orgID slug \<longleftrightarrow> (\<exists>g \<in> set (user_organization_roles s). \<exists>r \<in> set (roles s).
     user_grant (env_db_now (ac_env ae)) uid g \<and> uo_OrganizationID g = orgID \<and> sql_eq (uo_RoleID g) (ro_ID r) \<and> ro_Slug r = slug)"

definition entitled :: "account_env \<Rightarrow> account_db \<Rightarrow> uuid \<Rightarrow> principalContext \<Rightarrow> bool" where
  "entitled ae s uid pc \<longleftrightarrow>
     pc_Scope pc = ScopeOrganizer \<and> pc_PlayerProfileID pc = []
       \<and> (\<exists>w. env_scan (ac_env ae) (pc_OrgID pc) = Some w \<and> grants_role ae s uid (Some w) (pc_Role pc))
   \<or> pc_Scope pc = ScopePlatform \<and> pc_OrgID pc = [] \<and> pc_PlayerProfileID pc = [] \<and> grants_role ae s uid None (pc_Role pc)
   \<or> pc_Scope pc = ScopePlayer \<and> pc_OrgID pc = [] \<and> pc_Role pc = [] \<and> ac_player_persona ae
       \<and> GetPlayerProfileID s uid = Some (pc_PlayerProfileID pc)
   \<or> pc = onboarding_context \<and> GetUserOrganizations (ac_env ae) s uid = []"

lemma role_of_grants:
  "GetUserRolesByOrganization (ac_env ae) s uid orgID = r # rs \<Longrightarrow> grants_role ae s uid orgID (ro_Slug r)"
  "GetUserPlatformRoles (ac_env ae) s uid = r # rs \<Longrightarrow> grants_role ae s uid None (ro_Slug r)"
proof -
  have first: "\<exists>g \<in> set (user_organization_roles s). P g \<and> r \<in> set (roles s) \<and> sql_eq (uo_RoleID g) (ro_ID r)"
    if "sort_key ro_Name (map snd (grant_roles s P)) = r # rs" for P
  proof -
    from that have "r \<in> set (sort_key ro_Name (map snd (grant_roles s P)))" by simp
    then show ?thesis by auto
  qed
  show "grants_role ae s uid orgID (ro_Slug r)" if "GetUserRolesByOrganization (ac_env ae) s uid orgID = r # rs"
    using first[OF that[unfolded GetUserRolesByOrganization_def]] by (auto simp: grants_role_def sql_eq_iff)
  show "grants_role ae s uid None (ro_Slug r)" if "GetUserPlatformRoles (ac_env ae) s uid = r # rs"
    using first[OF that[unfolded GetUserPlatformRoles_def]] by (auto simp: grants_role_def)
qed

lemma resolveExplicitOrg_entitled:
  assumes "resolveExplicitOrg ae s uid str = Inr pc"
  shows "entitled ae s uid pc \<and> pc_Scope pc = ScopeOrganizer \<and> pc_OrgID pc = str"
proof -
  from assms obtain w r rs where w: "env_scan (ac_env ae) str = Some w"
      "GetUserRolesByOrganization (ac_env ae) s uid (Some w) = r # rs"
      "pc = \<lparr>pc_OrgID = str, pc_Role = ro_Slug r, pc_Scope = ScopeOrganizer, pc_PlayerProfileID = []\<rparr>"
    by (auto simp: resolveExplicitOrg_def ParseUUID_def split: list.splits if_splits option.splits)
  then show ?thesis using role_of_grants(1)[OF w(2)] by (simp add: entitled_def)
qed

lemma platform_entitled:
  "GetUserPlatformRoles (ac_env ae) s uid = r # rs \<Longrightarrow> entitled ae s uid (platform_context r)"
  using role_of_grants(2) by (simp add: entitled_def platform_context_def)

lemma player_entitled:
  "ac_player_persona ae \<Longrightarrow> GetPlayerProfileID s uid = Some p \<Longrightarrow> entitled ae s uid (player_context p)"
  by (simp add: entitled_def player_context_def)

lemma onboarding_entitled: "GetUserOrganizations (ac_env ae) s uid = [] \<Longrightarrow> entitled ae s uid onboarding_context"
  by (simp add: entitled_def)

lemmas context_simps = platform_context_def player_context_def onboarding_context_def

lemma resolvePrincipal_entitled:
  assumes "resolvePrincipal ae s uid hint = Inr pc"
  shows "entitled ae s uid pc \<and> (hint \<noteq> [] \<longrightarrow> pc_OrgID pc = hint)"
proof (cases "hint = []")
  case False
  with assms resolveExplicitOrg_entitled show ?thesis by (simp add: resolvePrincipal_def)
next
  case True
  show ?thesis
  proof (cases "GetUserPlatformRoles (ac_env ae) s uid")
    case Nil
    with assms True show ?thesis
      using resolveExplicitOrg_entitled[of ae s uid _ pc] player_entitled[of ae s uid] onboarding_entitled[of ae s uid]
      by (auto simp: resolvePrincipal_def split: list.splits option.splits if_splits)
  next
    case (Cons r rs)
    with assms True platform_entitled[OF Cons] show ?thesis by (simp add: resolvePrincipal_def)
  qed
qed

lemma resolveForScope_entitled:
  assumes "resolvePrincipalForScope ae s uid scope hint = Inr pc"
  shows "entitled ae s uid pc \<and> pc_Scope pc = scope \<and> (scope = ScopeOrganizer \<longrightarrow> pc_OrgID pc = hint)"
  using assms resolveExplicitOrg_entitled[of ae s uid hint pc] platform_entitled[of ae s uid]
    player_entitled[of ae s uid] onboarding_entitled[of ae s uid]
  by (auto simp: resolvePrincipalForScope_def context_simps
      split: if_splits sum.splits option.splits list.splits)

lemma renamed_error_Inr: "(case x of Inl e \<Rightarrow> if e = e1 then Inl e2 else Inl e | Inr u \<Rightarrow> Inr u) = Inr v \<longleftrightarrow> x = Inr v"
  by (cases x) auto

text \<open>
  C33: a refreshed session is entitled.  When a refresh succeeds, the token presented was on file for an
  active user, the new access token names that user, and its persona is one the database entitles the
  user to at that moment (a live grant of the named role in the named organization, a live platform
  grant, the player's own profile, or onboarding for a user without organizations), the one requested
  when one was.
\<close>

theorem refresh_entitled:
  assumes "auth_refresh ae req ip agent s = (Inr resp, s')"
  shows "\<exists>t \<in> set (refresh_tokens s). \<exists>user \<in> set (users s). \<exists>pc.
     rf_TokenHash t = ac_hash_token ae (fr_RefreshToken req) \<and> rf_UserID t = us_ID user
   \<and> us_Status user = UserStatusActive \<and> entitled ae s (us_ID user) pc \<and> resp = session_response ae user pc
   \<and> (fr_Scope req \<noteq> [] \<longrightarrow> pc_Scope pc = fr_Scope req)
   \<and> (fr_Scope req \<in> {[], ScopeOrganizer} \<and> fr_OrganizationID req \<noteq> [] \<longrightarrow> pc_OrgID pc = fr_OrganizationID req)"
proof -
  from assms obtain user pc where p: "prepare_refresh ae s req = Inr (user, pc)" "resp = session_response ae user pc"
    by (auto simp: auth_refresh_def split: sum.splits prod.splits)
  then obtain t where t: "repo_GetRefreshTokenByHash s (ac_hash_token ae (fr_RefreshToken req)) = Inr t"
      "repo_GetUserByID s (rf_UserID t) = Inr user" "assertUserActive user = Inr ()"
      "(if fr_Scope req \<noteq> [] then resolvePrincipalForScope ae s (us_ID user) (fr_Scope req) (fr_OrganizationID req)
        else resolvePrincipal ae s (us_ID user) (fr_OrganizationID req)) = Inr pc"
    by (auto simp: prepare_refresh_def res_bind_eq_Inr renamed_error_Inr split: if_splits)
  have "t \<in> set (refresh_tokens s)" "rf_TokenHash t = ac_hash_token ae (fr_RefreshToken req)"
    using t(1) by (auto simp: repo_GetRefreshTokenByHash_def GetRefreshTokenByHash_def select_one_Inr dest!: find_SomeD)
  moreover have "user \<in> set (users s)" "rf_UserID t = us_ID user"
    using t(2) by (auto simp: repo_GetUserByID_def GetUserByID_def select_one_Inr sql_eq_iff dest!: find_SomeD)
  moreover have "us_Status user = UserStatusActive"
    using t(3) by simp
  moreover have "entitled ae s (us_ID user) pc"
      "fr_Scope req \<noteq> [] \<longrightarrow> pc_Scope pc = fr_Scope req"
      "fr_Scope req \<in> {[], ScopeOrganizer} \<and> fr_OrganizationID req \<noteq> [] \<longrightarrow> pc_OrgID pc = fr_OrganizationID req"
    using t(4) resolveForScope_entitled[of ae s "us_ID user" "fr_Scope req" "fr_OrganizationID req" pc]
      resolvePrincipal_entitled[of ae s "us_ID user" "fr_OrganizationID req" pc]
    by (auto split: if_splits)
  ultimately show ?thesis using p(2) by blast
qed

section \<open>Two owners\<close>

definition demo_owners :: account_db where
  "demo_owners = (demo_accounts [demo_user 7 UserStatusActive, (demo_user 8 UserStatusActive)\<lparr>us_Email := ''b@b.c'', us_Username := ''bob''\<rparr>] [])
     \<lparr>roles := [owner_role], user_organization_roles := [demo_grant 70 7 (Some 1) (Some 51), demo_grant 71 8 (Some 1) (Some 51)]\<rparr>"

definition demo_scan_acc :: account_env where
  "demo_scan_acc = (demo_acc 90 ''v'')\<lparr>ac_env := (demo_env 90 9)\<lparr>env_scan := map_of [(''x'', 7), (''y'', 8), (''o'', 1)]\<rparr>\<rparr>"

lemmas owner_demo_simps = demo_owners_def demo_scan_acc_def account_demo_simps owner_role_def admin_role_def demo_grant_def
  prepare_revoke_def members_org_def members_GetOrgBySlug_def GetOrganizationBySlug_def select_one_def opt_res_def
  assert_owner_def members_user_def members_GetUserByID_def GetUserByID_def ParseUUID_def members_actor_def
  CountActiveOrgOwnersByOrg_def grant_roles_def live_grant_def RevokeRoleWithAudit_def
  RevokeRoleFromUserInOrg_def revoked_grant_def permission_audit_def demo_db_def demo_org_def

lemma refresh_entitled_witness:
  "\<exists>resp s'. auth_refresh demo_scan_acc \<lparr>fr_RefreshToken = ''t'', fr_OrganizationID = ''o'', fr_Scope = ScopeOrganizer\<rparr> None None
       (demo_owners\<lparr>refresh_tokens := [demo_token 1 ''t'' None None]\<rparr>) = (Inr resp, s')
     \<and> (\<exists>pc. entitled demo_scan_acc (demo_owners\<lparr>refresh_tokens := [demo_token 1 ''t'' None None]\<rparr>) (Some 7) pc \<and> pc_OrgID pc = ''o'')"
proof -
  have "\<exists>resp s'. auth_refresh demo_scan_acc \<lparr>fr_RefreshToken = ''t'', fr_OrganizationID = ''o'', fr_Scope = ScopeOrganizer\<rparr> None None
       (demo_owners\<lparr>refresh_tokens := [demo_token 1 ''t'' None None]\<rparr>) = (Inr resp, s')"
    by (simp add: auth_refresh_def prepare_refresh_def repo_GetRefreshTokenByHash_def GetRefreshTokenByHash_def
        repo_GetUserByID_def resolvePrincipalForScope_def resolveExplicitOrg_def GetUserRolesByOrganization_def
        user_grant_def scope_defs owner_demo_simps RotateRefreshToken_def GetRefreshTokenByHashForUpdate_def
        rotate_active_def assertUserActive_def CreateRefreshToken_def created_refresh_def session_params_def
        expires_ok_def user_exists_def RevokeAndLinkSuccessor_def update_rows_def GetRefreshTokenExpiryTime_def now_of_def
        duration_defs ts_Time_def Let_def)
  then obtain resp and s' :: account_db where r: "auth_refresh demo_scan_acc
       \<lparr>fr_RefreshToken = ''t'', fr_OrganizationID = ''o'', fr_Scope = ScopeOrganizer\<rparr> None None
       (demo_owners\<lparr>refresh_tokens := [demo_token 1 ''t'' None None]\<rparr>) = (Inr resp, s')" by blast
  from refresh_entitled[OF r] have "\<exists>pc. entitled demo_scan_acc
       (demo_owners\<lparr>refresh_tokens := [demo_token 1 ''t'' None None]\<rparr>) (Some 7) pc \<and> pc_OrgID pc = ''o''"
    by (auto simp: demo_token_def)
  with r show ?thesis by blast
qed

section \<open>Permissions\<close>

text \<open>
  C34: an organization's route rests on a grant.  A request that passes authentication, the organizer
  scope and the permission of a route, and then the ownership check of the organization in its URL,
  carries a parsed token of a user who holds, unexpired, a role with that permission: granted in that
  organization or on the platform.  (\<open>organization.create\<close> alone is also open to onboarding users.)
\<close>

theorem org_route_authorized:
  assumes "org_route ae s perm header = Pass u" "perm \<noteq> ''organization.create''"
    and "assert_owner e (au_OrganizationID u) (UUIDToString orgID) = Inr ()"
    and "env_scan (ac_env ae) (UUIDToString orgID) = orgID"
  shows "\<exists>tok claims w. bearerToken header = Some tok \<and> ParseToken ae tok = Inr claims \<and> u = principal_of claims
    \<and> au_Scope u \<in> {ScopeOrganizer, ScopePlatform} \<and> env_scan (ac_env ae) (au_UserID u) = Some w
    \<and> holds_grant ae s (Some w) (\<lambda>org. org = None \<or> org = orgID) perm"
proof -
  from assms(1) obtain tok claims where c: "bearerToken header = Some tok" "ParseToken ae tok = Inr claims"
      "u = principal_of claims" "RequireOrgScope (Some u) = Pass ()" "RequirePermission ae s perm (Some u) = Pass ()"
    by (auto simp: org_route_def RequireAuth_def split: option.splits sum.splits)
  from c(4) have scope: "au_Scope u \<in> {ScopeOrganizer, ScopePlatform}" by (auto simp: RequireOrgScope_def split: if_splits)
  from c(5) assms(2) have "authz_HasPermission ae s (au_UserID u) (au_OrganizationID u) perm"
    by (simp add: RequirePermission_def split: if_splits)
  then obtain w where w: "env_scan (ac_env ae) (au_UserID u) = Some w"
      "holds_grant ae s (Some w) (\<lambda>org. org = None \<or> org = ParseOptionalUUID (env_scan (ac_env ae)) (au_OrganizationID u)) perm"
    unfolding authz_HasPermission_iff by blast
  have "ParseOptionalUUID (env_scan (ac_env ae)) (au_OrganizationID u) \<in> {None, orgID}"
    using assms(3,4) by (auto simp: ParseOptionalUUID_def)
  with w(2) have "holds_grant ae s (Some w) (\<lambda>org. org = None \<or> org = orgID) perm"
    by (auto simp: holds_grant_def)
  with c(1-3) scope w(1) show ?thesis by blast
qed

definition demo_claims :: JWTClaims where
  "demo_claims = \<lparr>jc_UserID = ''x'', jc_OrganizationID = UUIDToString (Some 1), jc_Role = ''org_owner'', jc_Email = ''a@b.c'',
     jc_Scope = ScopeOrganizer, jc_PlayerProfileID = [], jc_Issuer = ''i'', jc_Subject = ''x'', jc_ExpiresAt = 9,
     jc_IssuedAt = 0, jc_NotBefore = 0\<rparr>"

definition demo_signed :: account_env where
  "demo_signed = (demo_acc 90 ''v'')\<lparr>ac_jwt_parse := (\<lambda>k t. if t = ''j'' then Inr demo_claims else Inl alg_error),
     ac_env := (demo_env 90 9)\<lparr>env_scan := (\<lambda>v. if v = ''x'' then Some 7 else if length v = 36 then Some 1 else None)\<rparr>\<rparr>"

definition demo_permitted :: account_db where
  "demo_permitted = demo_owners\<lparr>role_permissions := [\<lparr>rl_RoleID = Some 51, rl_PermissionID = Some 60\<rparr>],
     permissions := [\<lparr>pm_ID = Some 60, pm_Name = ''Edit'', pm_Slug = ''team.update'', pm_Description = None,
       pm_Resource = ''team'', pm_Action = ''update'', pm_CreatedAt = Some 0\<rparr>]\<rparr>"

lemma demo_org_scanned: "UUIDToString (Some 1) \<noteq> ''x''" "env_scan (ac_env demo_signed) (UUIDToString (Some 1)) = Some 1"
proof -
  have l: "length (UUIDToString (Some 1)) = 36" by (rule length_UUIDToString)
  then show n: "UUIDToString (Some 1) \<noteq> ''x''" by force
  show "env_scan (ac_env demo_signed) (UUIDToString (Some 1)) = Some 1" using l n by (simp add: demo_signed_def)
qed

lemma demo_route: "org_route demo_signed demo_permitted ''team.update'' ''Bearer j'' = Pass (principal_of demo_claims)"
proof -
  have o: "ParseOptionalUUID (env_scan (ac_env demo_signed)) (UUIDToString (Some 1)) = Some 1"
    by (simp add: ParseOptionalUUID_def demo_org_scanned)
  have "bearerToken ''Bearer j'' = Some ''j''" by (simp add: bearerToken_def)
  moreover have "ParseToken demo_signed ''j'' = Inr demo_claims" by (simp add: ParseToken_def demo_signed_def demo_claims_def)
  moreover have "authz_HasPermission demo_signed demo_permitted ''x'' (UUIDToString (Some 1)) ''team.update''"
    unfolding authz_HasPermission_iff o
    by (simp add: holds_grant_def permits_def user_grant_def demo_signed_def demo_permitted_def owner_demo_simps)
  ultimately show ?thesis
    by (simp add: org_route_def RequireAuth_def RequireOrgScope_def RequirePermission_def principal_of_def DeriveScope_def
        demo_claims_def scope_defs)
qed

lemma org_route_authorized_witness:
  "\<exists>w. env_scan (ac_env demo_signed) (au_UserID (principal_of demo_claims)) = Some w
     \<and> holds_grant demo_signed demo_permitted (Some w) (\<lambda>org. org = None \<or> org = Some 1) ''team.update''"
  using org_route_authorized[OF demo_route, where orgID = "Some 1"]
  by (auto simp: principal_of_def demo_claims_def demo_org_scanned)

section \<open>Owners\<close>

definition owner_users :: "account_env \<Rightarrow> account_db \<Rightarrow> uuid \<Rightarrow> uuid list" where
  "owner_users ae s orgID = remdups (map (\<lambda>(g, r). uo_UserID g) (filter (\<lambda>(g, r). ro_Slug r = ''org_owner'')
     (grant_roles s (\<lambda>g. sql_eq (uo_OrganizationID g) orgID \<and> live_grant (env_db_now (ac_env ae)) g))))"

lemma CountActiveOrgOwners_alt: "CountActiveOrgOwnersByOrg (ac_env ae) s orgID = int (length (owner_users ae s orgID))"
  by (simp add: CountActiveOrgOwnersByOrg_def owner_users_def)

lemma in_owner_users:
  "u \<in> set (owner_users ae s orgID) \<longleftrightarrow> (\<exists>g r. g \<in> set (user_organization_roles s) \<and> r \<in> set (roles s)
     \<and> sql_eq (uo_OrganizationID g) orgID \<and> live_grant (env_db_now (ac_env ae)) g
     \<and> sql_eq (uo_RoleID g) (ro_ID r) \<and> ro_Slug r = ''org_owner'' \<and> uo_UserID g = u)"
  unfolding owner_users_def set_remdups set_map set_filter by (auto simp: image_iff Bex_def split: prod.splits)

lemma revoked_keeps_others:
  assumes "RevokeRoleWithAudit ae p actor s = Inr ((), s')" "u \<in> set (owner_users ae s orgID)" "u \<noteq> rv_UserID p"
  shows "u \<in> set (owner_users ae s' orgID)"
proof -
  have s': "user_organization_roles s' = filter (\<lambda>g. \<not> revoked_grant s p g) (user_organization_roles s)" "roles s' = roles s"
    using assms(1) by (auto simp: RevokeRoleWithAudit_def RevokeRoleFromUserInOrg_def permission_audit_def split: if_splits)
  have "\<not> revoked_grant s p g" if "uo_UserID g = u" for g using assms(3) that by (auto simp: revoked_grant_def sql_eq_iff)
  then show ?thesis using assms(2) unfolding in_owner_users s' by auto
qed

lemma RevokeRole_Inr:
  "RevokeRole ae slug target role actorID actorOrgID s = Inr ((), s') \<longleftrightarrow> (\<exists>org user actor.
     members_org s slug actorOrgID = Inr org \<and> members_user ae s target = Inr user
     \<and> \<not> (role = ''org_owner'' \<and> length (owner_users ae s (o_ID org)) \<le> 1) \<and> members_actor ae actorID = Inr actor
     \<and> RevokeRoleWithAudit ae \<lparr>rv_UserID = us_ID user, rv_OrgID = o_ID org, rv_RoleSlug = role\<rparr> actor s = Inr ((), s'))"
  by (simp add: RevokeRole_def prepare_revoke_def res_bind_eq_Inr CountActiveOrgOwners_alt) blast

text \<open>
  C35: serially, an organization keeps an owner.  A revocation of \<open>org_owner\<close> that is checked and
  committed with nothing in between leaves the organization a user with an unexpired owner grant.
\<close>

theorem last_owner_kept:
  assumes "RevokeRole ae slug target ''org_owner'' actorID actorOrgID s = Inr ((), s')"
  shows "\<exists>org u. GetOrganizationBySlug (tables s) slug = Inr org \<and> u \<in> set (owner_users ae s' (o_ID org))"
proof -
  from assms obtain org actor and user :: user_row where o: "members_org s slug actorOrgID = Inr org"
      "\<not> length (owner_users ae s (o_ID org)) \<le> 1" "RevokeRoleWithAudit ae \<lparr>rv_UserID = us_ID user, rv_OrgID = o_ID org,
        rv_RoleSlug = ''org_owner''\<rparr> actor s = Inr ((), s')"
    unfolding RevokeRole_Inr by blast
  have d: "distinct (owner_users ae s (o_ID org))" by (simp add: owner_users_def)
  have "\<exists>u \<in> set (owner_users ae s (o_ID org)). u \<noteq> us_ID user"
  proof (rule ccontr)
    assume "\<not> ?thesis"
    then have "set (owner_users ae s (o_ID org)) \<subseteq> {us_ID user}" by auto
    then have "length (owner_users ae s (o_ID org)) \<le> 1"
      using card_mono[of "{us_ID user}" "set (owner_users ae s (o_ID org))"] distinct_card[OF d] by simp
    with o(2) show False by simp
  qed
  with revoked_keeps_others[OF o(3)] have "\<exists>u. u \<in> set (owner_users ae s' (o_ID org))" by auto
  moreover have "GetOrganizationBySlug (tables s) slug = Inr org"
    using o(1) by (auto simp: members_org_def members_GetOrgBySlug_def res_bind_eq_Inr)
  ultimately show ?thesis by blast
qed

lemma last_owner_kept_witness:
  "\<exists>s'. RevokeRole demo_scan_acc ''club'' ''x'' ''org_owner'' ''x'' [] demo_owners = Inr ((), s')
     \<and> owner_users demo_scan_acc s' (Some 1) \<noteq> []"
proof -
  have "\<exists>s'. RevokeRole demo_scan_acc ''club'' ''x'' ''org_owner'' ''x'' [] demo_owners = Inr ((), s')"
    by (simp add: RevokeRole_def owner_demo_simps)
  then obtain s' :: account_db where r: "RevokeRole demo_scan_acc ''club'' ''x'' ''org_owner'' ''x'' [] demo_owners = Inr ((), s')"
    by blast
  from last_owner_kept[OF r] have "owner_users demo_scan_acc s' (Some 1) \<noteq> []"
    by (auto simp: owner_demo_simps)
  with r show ?thesis by blast
qed

section \<open>Checks outside the transaction\<close>

lemma find_update_rows:
  "(\<And>r. Q (f r) \<longleftrightarrow> Q r) \<Longrightarrow> find Q (update_rows P f rows) = map_option (\<lambda>r. if P r then f r else r) (find Q rows)"
  by (induction rows) (auto simp: update_rows_def)

lemma find_append_Some: "find Q xs = Some x \<Longrightarrow> find Q (xs @ ys) = Some x"
  by (induction xs) (auto split: if_splits)

text \<open>
  A sign-out that arrives after the rotation of its token does nothing: it reports success, changes
  no row, and the successor stays live.
\<close>

theorem logout_after_rotation:
  assumes "RotateRefreshToken ae h p s = (Inr t, s')"
  shows "LogoutTransaction ae' h s' = Inr ((), s') \<and> t \<in> set (refresh_tokens s') \<and> token_live t \<and> rf_UserID t = cr_UserID p"
proof -
  from assms obtain old where old: "find (\<lambda>r. rf_TokenHash r = h) (refresh_tokens s) = Some old"
      and ra: "rotate_active ae old p s = Inr (t, s')"
    by (auto simp: RotateRefreshToken_Inr GetRefreshTokenByHashForUpdate_def select_one_Inr)
  let ?P = "\<lambda>r. sql_eq (rf_ID r) (rf_ID old) \<and> rf_RevokedAt r = None"
  from ra have r: "t = created_refresh (ac_env ae) p" "refresh_tokens s' = rotated (ac_env ae) (rf_ID old) p (refresh_tokens s)"
      "Some (env_row_id (ac_env ae)) \<notin> rf_ID ` set (refresh_tokens s)"
      "filter ?P (refresh_tokens s @ [created_refresh (ac_env ae) p]) \<noteq> []" "rf_RevokedAt old = None"
    using assms old
    by (auto simp: rotate_active_Inr CreateRefreshToken_Inr RotateRefreshToken_Inr GetRefreshTokenByHashForUpdate_def select_one_Inr)
  have new: "t \<in> set (refresh_tokens s')"
    using r(3) find_SomeD[OF old] unfolding r(1,2) rotated_def in_update_rows
    by (intro bexI[of _ "created_refresh (ac_env ae) p"]) (auto simp: created_refresh_def sql_eq_iff)
  from r(4) obtain x :: refresh_row where "sql_eq (rf_ID x) (rf_ID old)" unfolding filter_empty_conv by blast
  then have "rf_ID old \<noteq> None" by (metis sql_eq_def)
  then have "find (\<lambda>r. rf_TokenHash r = h) (refresh_tokens s') = Some (link_row (ac_env ae) (Some (env_row_id (ac_env ae))) old)"
    unfolding r(2) rotated_def by (subst find_update_rows) (simp_all add: link_row_def find_append_Some[OF old] sql_eq_iff r(5))
  then have "LogoutTransaction ae' h s' = Inr ((), s')"
    by (simp add: LogoutTransaction_def GetRefreshTokenByHashForUpdate_def select_one_def link_row_def)
  with new show ?thesis by (simp add: r(1) token_live_def created_refresh_def)
qed

lemma logout_after_rotation_witness:
  "LogoutTransaction (demo_acc 3 ''v'') ''t'' (demo_accounts [demo_user 7 UserStatusActive]
       [demo_token 1 ''t'' (Some 9) (Some 2), demo_token 2 ''u'' None None])
     = Inr ((), demo_accounts [demo_user 7 UserStatusActive]
       [demo_token 1 ''t'' (Some 9) (Some 2), demo_token 2 ''u'' None None])"
  using logout_after_rotation[OF demo_rotate, of "demo_acc 3 ''v''"] by simp

text \<open>
  Two owners who step down at once leave no owner.  Both checks run before either transaction, both
  see two owners, both revocations commit, and the organization has none.
\<close>

theorem concurrent_revocations_leave_no_owner:
  "\<exists>p1 a1 p2 a2 s1 s2.
     prepare_revoke demo_scan_acc demo_owners ''club'' ''x'' ''org_owner'' ''x'' [] = Inr (p1, a1)
   \<and> prepare_revoke demo_scan_acc demo_owners ''club'' ''y'' ''org_owner'' ''y'' [] = Inr (p2, a2)
   \<and> RevokeRoleWithAudit demo_scan_acc p1 a1 demo_owners = Inr ((), s1)
   \<and> RevokeRoleWithAudit demo_scan_acc p2 a2 s1 = Inr ((), s2)
   \<and> owner_users demo_scan_acc demo_owners (Some 1) = [Some 7, Some 8]
   \<and> owner_users demo_scan_acc s2 (Some 1) = []"
  by (simp add: owner_demo_simps owner_users_def)

text \<open>
  Granting a role the user holds already is answered with success and changes no grant, whatever the
  requested expiry and even when the grant on file has expired: the user stays without the role.
\<close>

theorem regrant_changes_nothing:
  assumes "g \<in> set (user_organization_roles s)" "same_grant g (created_grant (ac_env ae) p)"
    and "\<not> (\<exists>t. gp_ExpiresAt p = Some t \<and> t \<le> env_db_now (ac_env ae))"
  shows "\<exists>s'. GrantRoleWithAudit ae p actor s = Inr ((), s') \<and> user_organization_roles s' = user_organization_roles s"
proof -
  have "GrantOrgRole (ac_env ae) p s = Inr s"
    using assms by (auto simp: GrantOrgRole_def created_grant_def Let_def split: option.splits)
  then show ?thesis by (simp add: GrantRoleWithAudit_def permission_audit_def)
qed

lemma regrant_changes_nothing_witness:
  "\<exists>s'. GrantRoleWithAudit (demo_acc 90 ''v'') \<lparr>gp_UserID = Some 7, gp_OrganizationID = Some 1, gp_RoleID = Some 51,
       gp_GrantedBy = None, gp_ExpiresAt = None\<rparr> None
     (demo_owners\<lparr>user_organization_roles := [(demo_grant 70 7 (Some 1) (Some 51))\<lparr>uo_ExpiresAt := Some 3\<rparr>]\<rparr>) = Inr ((), s')
   \<and> user_organization_roles s' = [(demo_grant 70 7 (Some 1) (Some 51))\<lparr>uo_ExpiresAt := Some 3\<rparr>]"
  using regrant_changes_nothing[where g = "(demo_grant 70 7 (Some 1) (Some 51))\<lparr>uo_ExpiresAt := Some 3\<rparr>"
    and s = "demo_owners\<lparr>user_organization_roles := [(demo_grant 70 7 (Some 1) (Some 51))\<lparr>uo_ExpiresAt := Some 3\<rparr>]\<rparr>"
    and ae = "demo_acc 90 ''v''" and actor = None
    and p = "\<lparr>gp_UserID = Some 7, gp_OrganizationID = Some 1, gp_RoleID = Some 51, gp_GrantedBy = None, gp_ExpiresAt = None\<rparr>"]
  by (simp add: same_grant_def created_grant_def demo_grant_def)

text \<open>A suspended administrator is refused as the last one though another is active.\<close>

lemma suspended_admin_counts_as_last:
  "DeactivateTransaction (demo_acc 90 ''v'') None (Some 7)
     ((demo_accounts [demo_user 7 UserStatusSuspended, (demo_user 8 UserStatusActive)\<lparr>us_Email := ''b@b.c'', us_Username := ''bob''\<rparr>] [])
       \<lparr>roles := [admin_role], user_organization_roles := [demo_grant 70 7 None (Some 50), demo_grant 71 8 None (Some 50)]\<rparr>)
   = Inl UsersErrLastPlatformAdmin"
  by (simp add: grant_demo_simps)

end
