(* ===== verification/Notify_Store.thy ===== *)
theory Notify_Store
  imports Grant_Store Auth_Model "HOL-Library.Option_ord"
begin

text \<open>
  The notification and webhook tables and the queries of \<open>notifications.sql.go\<close> and \<open>webhooks.sql.go\<close>.
  \<open>FOR UPDATE SKIP LOCKED\<close> is a predicate \<open>locked\<close> of the rows other transactions hold.  Ties of an
  \<open>ORDER BY\<close> keep the order of the table.
\<close>

section \<open>Rows\<close>

datatype NotificationChannel =
    NotificationChannelInApp
  | NotificationChannelEmail
  | NotificationChannelWebhook

fun NotificationChannel_str :: "NotificationChannel \<Rightarrow> string" where
  "NotificationChannel_str NotificationChannelInApp = ''in_app''"
| "NotificationChannel_str NotificationChannelEmail = ''email''"
| "NotificationChannel_str NotificationChannelWebhook = ''webhook''"

lemma NotificationChannel_str_inject [simp]: "NotificationChannel_str a = NotificationChannel_str b \<longleftrightarrow> a = b"
  by (cases a; cases b) simp_all

text \<open>The delivery columns \<open>notifications\<close> and \<open>webhook_deliveries\<close> share.\<close>

record delivery_cols =
  dc_ID :: uuid
  dc_AttemptCount :: int
  dc_LastAttemptedAt :: timestamp
  dc_LeaseExpiresAt :: timestamp
  dc_SentAt :: timestamp
  dc_FailedPermanently :: bool
  dc_CreatedAt :: timestamp

record notification_row = delivery_cols +
  nt_OrganizationID :: uuid
  nt_UserID :: uuid
  nt_OutboxID :: uuid
  nt_Channel :: NotificationChannel
  nt_EventType :: NotificationEventType
  nt_EntityType :: string
  nt_EntityID :: uuid
  nt_Payload :: payload
  nt_ReadAt :: timestamp
  nt_DeletedAt :: timestamp

record webhook_delivery_row = delivery_cols +
  wd_OrganizationID :: uuid
  wd_EndpointID :: uuid
  wd_OutboxID :: uuid
  wd_EventType :: NotificationEventType
  wd_EntityType :: string
  wd_EntityID :: uuid
  wd_Payload :: payload

record preference_row =
  np_ID :: uuid
  np_OrganizationID :: uuid
  np_UserID :: uuid
  np_EventType :: NotificationEventType
  np_Channel :: NotificationChannel
  np_Enabled :: bool
  np_CreatedAt :: timestamp
  np_UpdatedAt :: timestamp

record webhook_endpoint_row =
  we_ID :: uuid
  we_OrganizationID :: uuid
  we_Url :: string
  we_SecretCiphertext :: string
  we_Description :: "string option"
  we_Active :: bool
  we_CreatedBy :: uuid
  we_CreatedAt :: timestamp
  we_UpdatedAt :: timestamp

record notify_db =
  accounts :: account_db
  notifications :: "notification_row list"
  notification_preferences :: "preference_row list"
  webhook_endpoints :: "webhook_endpoint_row list"
  webhook_deliveries :: "webhook_delivery_row list"

abbreviation outbox :: "notify_db \<Rightarrow> outbox_row list" where
  "outbox s \<equiv> notification_outbox (tables (accounts s))"

definition on_outbox :: "(outbox_row list \<Rightarrow> outbox_row list) \<Rightarrow> notify_db \<Rightarrow> notify_db" where
  "on_outbox f s = s\<lparr>accounts := on_tables (\<lambda>d. d\<lparr>notification_outbox := f (notification_outbox d)\<rparr>) (accounts s)\<rparr>"

section \<open>The delivery queue\<close>

definition claimable :: "int \<Rightarrow> int \<Rightarrow> 'a delivery_cols_scheme \<Rightarrow> bool" where
  "claimable now maxAttempts q \<longleftrightarrow> dc_SentAt q = None \<and> \<not> dc_FailedPermanently q \<and> dc_AttemptCount q < maxAttempts
     \<and> (case dc_LeaseExpiresAt q of None \<Rightarrow> True | Some t \<Rightarrow> t < now)"

definition claim_row :: "int \<Rightarrow> 'a delivery_cols_scheme \<Rightarrow> 'a delivery_cols_scheme" where
  "claim_row now n = n\<lparr>dc_LastAttemptedAt := Some now, dc_LeaseExpiresAt := Some (now + minutes 5),
     dc_AttemptCount := dc_AttemptCount n + 1\<rparr>"

definition claim_ids :: "int \<Rightarrow> int \<Rightarrow> nat \<Rightarrow> (uuid \<Rightarrow> bool) \<Rightarrow> ('a delivery_cols_scheme \<Rightarrow> bool)
    \<Rightarrow> 'a delivery_cols_scheme list \<Rightarrow> uuid list" where
  "claim_ids now maxAttempts batch locked eligible rows = map dc_ID (take batch
     (sort_key dc_LastAttemptedAt (sort_key dc_CreatedAt
       (filter (\<lambda>q. eligible q \<and> claimable now maxAttempts q \<and> \<not> locked (dc_ID q)) rows))))"

text \<open>The claimed rows, as returned, and the table after the claim.\<close>

definition claim_rows :: "int \<Rightarrow> int \<Rightarrow> nat \<Rightarrow> (uuid \<Rightarrow> bool) \<Rightarrow> ('a delivery_cols_scheme \<Rightarrow> bool)
    \<Rightarrow> 'a delivery_cols_scheme list \<Rightarrow> 'a delivery_cols_scheme list \<times> 'a delivery_cols_scheme list" where
  "claim_rows now maxAttempts batch locked eligible rows =
     (let ids = claim_ids now maxAttempts batch locked eligible rows in
      (map (claim_row now) (filter (\<lambda>r. dc_ID r \<in> set ids) rows),
       update_rows (\<lambda>r. dc_ID r \<in> set ids) (claim_row now) rows))"

definition record_success :: "int \<Rightarrow> uuid \<Rightarrow> 'a delivery_cols_scheme list \<Rightarrow> 'a delivery_cols_scheme list" where
  "record_success now uid = update_rows (\<lambda>r. sql_eq (dc_ID r) uid \<and> dc_SentAt r = None) (\<lambda>r. r\<lparr>dc_SentAt := Some now\<rparr>)"

definition record_failure :: "uuid \<Rightarrow> bool \<Rightarrow> timestamp \<Rightarrow> 'a delivery_cols_scheme list \<Rightarrow> 'a delivery_cols_scheme list" where
  "record_failure uid failedPermanently nextAttemptAt = update_rows (\<lambda>r. sql_eq (dc_ID r) uid)
     (\<lambda>r. r\<lparr>dc_FailedPermanently := failedPermanently, dc_LeaseExpiresAt := nextAttemptAt\<rparr>)"

section \<open>Queries of the workers\<close>

definition ClaimEmailNotificationsForDelivery :: "env \<Rightarrow> int \<Rightarrow> nat \<Rightarrow> (uuid \<Rightarrow> bool) \<Rightarrow> notify_db
    \<Rightarrow> notification_row list \<times> notify_db" where
  "ClaimEmailNotificationsForDelivery ev maxAttempts batchSize locked s =
     (case claim_rows (env_db_now ev) maxAttempts batchSize locked (\<lambda>q. nt_Channel q = NotificationChannelEmail) (notifications s) of
        (claimed, rows) \<Rightarrow> (claimed, s\<lparr>notifications := rows\<rparr>))"

definition RecordEmailDeliverySuccess :: "env \<Rightarrow> uuid \<Rightarrow> notify_db \<Rightarrow> notify_db" where
  "RecordEmailDeliverySuccess ev uid s = s\<lparr>notifications := record_success (env_db_now ev) uid (notifications s)\<rparr>"

definition RecordEmailDeliveryFailure :: "uuid \<Rightarrow> bool \<Rightarrow> timestamp \<Rightarrow> notify_db \<Rightarrow> notify_db" where
  "RecordEmailDeliveryFailure uid perm nextAt s = s\<lparr>notifications := record_failure uid perm nextAt (notifications s)\<rparr>"

definition ClaimWebhookDeliveriesForDelivery :: "env \<Rightarrow> int \<Rightarrow> nat \<Rightarrow> (uuid \<Rightarrow> bool) \<Rightarrow> notify_db
    \<Rightarrow> webhook_delivery_row list \<times> notify_db" where
  "ClaimWebhookDeliveriesForDelivery ev maxAttempts batchSize locked s =
     (case claim_rows (env_db_now ev) maxAttempts batchSize locked (\<lambda>_. True) (webhook_deliveries s) of
        (claimed, rows) \<Rightarrow> (claimed, s\<lparr>webhook_deliveries := rows\<rparr>))"

definition RecordWebhookDeliverySuccess :: "env \<Rightarrow> uuid \<Rightarrow> notify_db \<Rightarrow> notify_db" where
  "RecordWebhookDeliverySuccess ev uid s = s\<lparr>webhook_deliveries := record_success (env_db_now ev) uid (webhook_deliveries s)\<rparr>"

definition RecordWebhookDeliveryFailure :: "uuid \<Rightarrow> bool \<Rightarrow> timestamp \<Rightarrow> notify_db \<Rightarrow> notify_db" where
  "RecordWebhookDeliveryFailure uid perm nextAt s = s\<lparr>webhook_deliveries := record_failure uid perm nextAt (webhook_deliveries s)\<rparr>"

definition GetWebhookEndpointForDelivery :: "notify_db \<Rightarrow> uuid \<Rightarrow> sql_error + webhook_endpoint_row" where
  "GetWebhookEndpointForDelivery s deliveryID = opt_res ErrNoRows (find (\<lambda>e.
     list_ex (\<lambda>d. sql_eq (dc_ID d) deliveryID \<and> sql_eq (wd_EndpointID d) (we_ID e)) (webhook_deliveries s)) (webhook_endpoints s))"

section \<open>Queries of the drain\<close>

definition DrainOutboxEntries :: "(uuid \<Rightarrow> bool) \<Rightarrow> notify_db \<Rightarrow> uuid \<Rightarrow> outbox_row list" where
  "DrainOutboxEntries locked s orgID = take 100 (sort_key ob_CreatedAt
     (filter (\<lambda>e. sql_eq (ob_OrganizationID e) orgID \<and> ob_ProcessedAt e = None \<and> \<not> locked (ob_ID e)) (outbox s)))"

definition GetOrgMembersForNotification :: "env \<Rightarrow> notify_db \<Rightarrow> uuid \<Rightarrow> uuid list" where
  "GetOrgMembersForNotification ev s orgID = remdups (map uo_UserID
     (filter (\<lambda>g. sql_eq (uo_OrganizationID g) orgID \<and> live_grant (env_db_now ev) g) (user_organization_roles (accounts s))))"

definition GetNotificationPreferencesForEvent :: "notify_db \<Rightarrow> uuid \<Rightarrow> NotificationEventType \<Rightarrow> NotificationChannel
    \<Rightarrow> (uuid \<times> bool) list" where
  "GetNotificationPreferencesForEvent s orgID et ch = map (\<lambda>p. (np_UserID p, np_Enabled p))
     (filter (\<lambda>p. sql_eq (np_OrganizationID p) orgID \<and> np_EventType p = et \<and> np_Channel p = ch) (notification_preferences s))"

definition GetActiveWebhookEndpointsForOrg :: "notify_db \<Rightarrow> uuid \<Rightarrow> webhook_endpoint_row list" where
  "GetActiveWebhookEndpointsForOrg s orgID =
     filter (\<lambda>e. sql_eq (we_OrganizationID e) orgID \<and> we_Active e) (webhook_endpoints s)"

record CreateNotificationParams =
  nn_OrganizationID :: uuid
  nn_UserID :: uuid
  nn_OutboxID :: uuid
  nn_Channel :: NotificationChannel
  nn_EventType :: NotificationEventType
  nn_EntityType :: string
  nn_EntityID :: uuid
  nn_Payload :: payload
  nn_SentAt :: timestamp

definition created_notification :: "env \<Rightarrow> CreateNotificationParams \<Rightarrow> notification_row" where
  "created_notification ev p = \<lparr>dc_ID = Some (env_row_id ev), dc_AttemptCount = 0, dc_LastAttemptedAt = None,
     dc_LeaseExpiresAt = None, dc_SentAt = nn_SentAt p, dc_FailedPermanently = False, dc_CreatedAt = Some (env_db_now ev),
     nt_OrganizationID = nn_OrganizationID p, nt_UserID = nn_UserID p, nt_OutboxID = nn_OutboxID p, nt_Channel = nn_Channel p,
     nt_EventType = nn_EventType p, nt_EntityType = nn_EntityType p, nt_EntityID = nn_EntityID p, nt_Payload = nn_Payload p,
     nt_ReadAt = None, nt_DeletedAt = None\<rparr>"

text \<open>
  \<open>ON CONFLICT DO NOTHING\<close> returns no row.  The outbox row and the organization exist, the drain having
  locked the one that refers to the other.
\<close>

definition CreateNotification :: "env \<Rightarrow> CreateNotificationParams \<Rightarrow> notify_db \<Rightarrow> sql_error + (notification_row \<times> notify_db)" where
  "CreateNotification ev p s = (let n = created_notification ev p; rows = notifications s in
     if strings_Trim (CHR '' '') (nn_EntityType p) = [] then Inl (ConstraintViolation ''chk_notif_entity_type'')
     else if \<exists>r \<in> set rows. sql_eq (nt_OutboxID r) (nn_OutboxID p) \<and> sql_eq (nt_UserID r) (nn_UserID p) \<and> nt_Channel r = nn_Channel p
     then Inl ErrNoRows
     else if \<exists>r \<in> set rows. dc_ID r = dc_ID n then Inl (ConstraintViolation ''pk_notifications'')
     else if \<not> user_exists (accounts s) (nn_UserID p) then Inl (ConstraintViolation ''fk_notif_user'')
     else Inr (n, s\<lparr>notifications := rows @ [n]\<rparr>))"

record CreateWebhookDeliveryParams =
  cd_OrganizationID :: uuid
  cd_EndpointID :: uuid
  cd_OutboxID :: uuid
  cd_EventType :: NotificationEventType
  cd_EntityType :: string
  cd_EntityID :: uuid
  cd_Payload :: payload

definition created_delivery :: "env \<Rightarrow> CreateWebhookDeliveryParams \<Rightarrow> webhook_delivery_row" where
  "created_delivery ev p = \<lparr>dc_ID = Some (env_row_id ev), dc_AttemptCount = 0, dc_LastAttemptedAt = None,
     dc_LeaseExpiresAt = None, dc_SentAt = None, dc_FailedPermanently = False, dc_CreatedAt = Some (env_db_now ev),
     wd_OrganizationID = cd_OrganizationID p, wd_EndpointID = cd_EndpointID p, wd_OutboxID = cd_OutboxID p,
     wd_EventType = cd_EventType p, wd_EntityType = cd_EntityType p, wd_EntityID = cd_EntityID p, wd_Payload = cd_Payload p\<rparr>"

definition CreateWebhookDelivery :: "env \<Rightarrow> CreateWebhookDeliveryParams \<Rightarrow> notify_db
    \<Rightarrow> sql_error + (webhook_delivery_row \<times> notify_db)" where
  "CreateWebhookDelivery ev p s = (let d = created_delivery ev p; rows = webhook_deliveries s in
     if \<exists>r \<in> set rows. sql_eq (wd_OutboxID r) (cd_OutboxID p) \<and> sql_eq (wd_EndpointID r) (cd_EndpointID p) then Inl ErrNoRows
     else if \<exists>r \<in> set rows. dc_ID r = dc_ID d then Inl (ConstraintViolation ''webhook_deliveries_pkey'')
     else Inr (d, s\<lparr>webhook_deliveries := rows @ [d]\<rparr>))"

definition MarkOutboxEntryProcessed :: "env \<Rightarrow> uuid \<Rightarrow> notify_db \<Rightarrow> notify_db" where
  "MarkOutboxEntryProcessed ev uid = on_outbox (update_rows (\<lambda>e. sql_eq (ob_ID e) uid)
     (\<lambda>e. e\<lparr>ob_ProcessedAt := Some (env_db_now ev)\<rparr>))"

end
