(* ===== verification/Notify_Service.thy ===== *)
theory Notify_Service
  imports Notify_Store
begin

text \<open>
  Package \<open>notifications\<close>: the drain of the outbox into notifications and webhook deliveries
  (\<open>repository.go\<close>), the inbox and the preferences (\<open>service.go\<close>), and the retention of processed
  entries (\<open>cleanup/scheduler.go\<close>).  A drain inserts many rows: the \<open>k\<close>-th of them has identifier \<open>ids k\<close>.
\<close>

datatype notify_error =
    NotifyErrOrganizationNotFound
  | NotifyErrNotificationNotFound
  | NotifyErrPreferenceNotFound
  | NotifyErrInvalidEventType
  | NotifyErrInvalidChannel
  | NotifyErrForbidden
  | NotifyErrSql sql_error

section \<open>The drain\<close>

text \<open>\<open>prefCache\<close>: the preferences of an event type on a channel, by user.\<close>

type_synonym pref_cache = "NotificationEventType \<times> NotificationChannel \<Rightarrow> (uuid \<Rightarrow> bool option) option"

definition drainChannels :: "NotificationChannel list" where
  "drainChannels = [NotificationChannelInApp, NotificationChannelEmail]"

definition load_preferences :: "notify_db \<Rightarrow> uuid \<Rightarrow> NotificationEventType \<times> NotificationChannel \<Rightarrow> pref_cache \<Rightarrow> pref_cache" where
  "load_preferences s orgID key cache = (if cache key \<noteq> None then cache
     else cache(key \<mapsto> fold (\<lambda>(u, enabled) m. m(u \<mapsto> enabled))
       (GetNotificationPreferencesForEvent s orgID (fst key) (snd key)) Map.empty))"

definition prefCache :: "notify_db \<Rightarrow> uuid \<Rightarrow> outbox_row list \<Rightarrow> pref_cache" where
  "prefCache s orgID entries = fold (load_preferences s orgID)
     (List.product (map ob_EventType entries) drainChannels) Map.empty"

definition shouldNotify :: "pref_cache \<Rightarrow> NotificationEventType \<Rightarrow> NotificationChannel \<Rightarrow> uuid \<Rightarrow> bool" where
  "shouldNotify cache et ch member = (case cache (et, ch) of None \<Rightarrow> True
     | Some userPrefs \<Rightarrow> (case userPrefs member of None \<Rightarrow> True | Some enabled \<Rightarrow> enabled))"

definition notification_params :: "env \<Rightarrow> outbox_row \<Rightarrow> uuid \<Rightarrow> NotificationChannel \<Rightarrow> CreateNotificationParams" where
  "notification_params ev entry member ch = \<lparr>nn_OrganizationID = ob_OrganizationID entry, nn_UserID = member,
     nn_OutboxID = ob_ID entry, nn_Channel = ch, nn_EventType = ob_EventType entry, nn_EntityType = ob_EntityType entry,
     nn_EntityID = ob_EntityID entry, nn_Payload = ob_Payload entry,
     nn_SentAt = (if ch = NotificationChannelInApp then Some (env_now ev) else None)\<rparr>"

definition delivery_params :: "outbox_row \<Rightarrow> uuid \<Rightarrow> CreateWebhookDeliveryParams" where
  "delivery_params entry endpointID = \<lparr>cd_OrganizationID = ob_OrganizationID entry, cd_EndpointID = endpointID,
     cd_OutboxID = ob_ID entry, cd_EventType = ob_EventType entry, cd_EntityType = ob_EntityType entry,
     cd_EntityID = ob_EntityID entry, cd_Payload = ob_Payload entry\<rparr>"

text \<open>The state of the loops: the database, the number of rows inserted, and \<open>created\<close>.\<close>

type_synonym drain_state = "notify_db \<times> nat \<times> notification_row list"

fun each :: "('a \<Rightarrow> 's \<Rightarrow> 'e + 's) \<Rightarrow> 'a list \<Rightarrow> 's \<Rightarrow> 'e + 's" where
  "each f [] s = Inr s"
| "each f (x # xs) s = res_bind (f x s) (each f xs)"

definition drain_channel :: "env \<Rightarrow> (nat \<Rightarrow> 128 word) \<Rightarrow> pref_cache \<Rightarrow> outbox_row \<Rightarrow> uuid \<Rightarrow> NotificationChannel \<Rightarrow> drain_state
    \<Rightarrow> notify_error + drain_state" where
  "drain_channel ev ids cache entry member ch = (\<lambda>(s, k, created).
     if \<not> shouldNotify cache (ob_EventType entry) ch member then Inr (s, k, created)
     else case CreateNotification (ev\<lparr>env_row_id := ids k\<rparr>) (notification_params ev entry member ch) s of
       Inr (n, s') \<Rightarrow> Inr (s', Suc k, if ch = NotificationChannelInApp then created @ [n] else created)
     | Inl ErrNoRows \<Rightarrow> Inr (s, k, created)
     | Inl e \<Rightarrow> Inl (NotifyErrSql e))"

definition drain_member :: "env \<Rightarrow> (nat \<Rightarrow> 128 word) \<Rightarrow> pref_cache \<Rightarrow> outbox_row \<Rightarrow> uuid \<Rightarrow> drain_state
    \<Rightarrow> notify_error + drain_state" where
  "drain_member ev ids cache entry member st =
     (if Valid (ob_ActorID entry) \<and> ob_ActorID entry = member then Inr st
      else each (drain_channel ev ids cache entry member) drainChannels st)"

definition drain_endpoint :: "env \<Rightarrow> (nat \<Rightarrow> 128 word) \<Rightarrow> outbox_row \<Rightarrow> webhook_endpoint_row \<Rightarrow> drain_state
    \<Rightarrow> notify_error + drain_state" where
  "drain_endpoint ev ids entry ep = (\<lambda>(s, k, created).
     case CreateWebhookDelivery (ev\<lparr>env_row_id := ids k\<rparr>) (delivery_params entry (we_ID ep)) s of
       Inr (_, s') \<Rightarrow> Inr (s', Suc k, created)
     | Inl ErrNoRows \<Rightarrow> Inr (s, k, created)
     | Inl e \<Rightarrow> Inl (NotifyErrSql e))"

definition drain_entry :: "env \<Rightarrow> (nat \<Rightarrow> 128 word) \<Rightarrow> uuid \<Rightarrow> pref_cache \<Rightarrow> uuid list \<Rightarrow> outbox_row \<Rightarrow> drain_state
    \<Rightarrow> notify_error + drain_state" where
  "drain_entry ev ids orgID cache members entry st =
     res_bind (each (drain_member ev ids cache entry) members st) (\<lambda>st.
     res_bind (each (drain_endpoint ev ids entry) (GetActiveWebhookEndpointsForOrg (fst st) orgID) st) (\<lambda>(s, k, created).
       Inr (MarkOutboxEntryProcessed ev (ob_ID entry) s, k, created)))"

definition DrainOutbox :: "env \<Rightarrow> (nat \<Rightarrow> 128 word) \<Rightarrow> (uuid \<Rightarrow> bool) \<Rightarrow> uuid \<Rightarrow> notify_db
    \<Rightarrow> notify_error + (notification_row list \<times> notify_db)" where
  "DrainOutbox ev ids locked orgID s =
     (let entries = DrainOutboxEntries locked s orgID in
      if entries = [] then Inr ([], s)
      else res_bind (each (drain_entry ev ids orgID (prefCache s orgID entries) (GetOrgMembersForNotification ev s orgID))
             entries (s, 0, [])) (\<lambda>(s, _, created). Inr (created, s)))"

section \<open>The inbox\<close>

definition own_notification :: "uuid \<Rightarrow> uuid \<Rightarrow> notification_row \<Rightarrow> bool" where
  "own_notification orgID userID n \<longleftrightarrow> sql_eq (nt_OrganizationID n) orgID \<and> sql_eq (nt_UserID n) userID \<and> nt_DeletedAt n = None"

definition GetNotificationByID :: "notify_db \<Rightarrow> uuid \<Rightarrow> uuid \<Rightarrow> uuid \<Rightarrow> sql_error + notification_row" where
  "GetNotificationByID s uid orgID userID =
     select_one (\<lambda>n. sql_eq (dc_ID n) uid \<and> own_notification orgID userID n) (notifications s)"

definition inbox :: "notify_db \<Rightarrow> uuid \<Rightarrow> uuid \<Rightarrow> notification_row list" where
  "inbox s orgID userID = filter (\<lambda>n. own_notification orgID userID n \<and> nt_Channel n = NotificationChannelInApp) (notifications s)"

definition ListNotificationsByUser :: "notify_db \<Rightarrow> uuid \<Rightarrow> uuid \<Rightarrow> int \<Rightarrow> int \<Rightarrow> notification_row list" where
  "ListNotificationsByUser s orgID userID pageOffset pageLimit =
     page pageLimit pageOffset (sort_key (\<lambda>n. - ts_Time (dc_CreatedAt n)) (inbox s orgID userID))"

definition CountNotificationsByUser :: "notify_db \<Rightarrow> uuid \<Rightarrow> uuid \<Rightarrow> int" where
  "CountNotificationsByUser s orgID userID = int (length (inbox s orgID userID))"

definition MarkNotificationRead :: "env \<Rightarrow> uuid \<Rightarrow> uuid \<Rightarrow> uuid \<Rightarrow> notify_db \<Rightarrow> sql_error + (notification_row \<times> notify_db)" where
  "MarkNotificationRead ev uid orgID userID s =
     (let P = (\<lambda>n. sql_eq (dc_ID n) uid \<and> own_notification orgID userID n \<and> nt_ReadAt n = None);
          f = (\<lambda>n. n\<lparr>nt_ReadAt := Some (env_db_now ev)\<rparr>)
      in res_bind (select_one P (notifications s)) (\<lambda>n. Inr (f n, s\<lparr>notifications := update_rows P f (notifications s)\<rparr>)))"

definition MarkAllNotificationsRead :: "env \<Rightarrow> uuid \<Rightarrow> uuid \<Rightarrow> notify_db \<Rightarrow> notify_db" where
  "MarkAllNotificationsRead ev orgID userID s = s\<lparr>notifications := update_rows
     (\<lambda>n. own_notification orgID userID n \<and> nt_ReadAt n = None) (\<lambda>n. n\<lparr>nt_ReadAt := Some (env_db_now ev)\<rparr>) (notifications s)\<rparr>"

definition SoftDeleteNotification :: "env \<Rightarrow> uuid \<Rightarrow> uuid \<Rightarrow> uuid \<Rightarrow> notify_db \<Rightarrow> nat \<times> notify_db" where
  "SoftDeleteNotification ev uid orgID userID s = (let P = (\<lambda>n. sql_eq (dc_ID n) uid \<and> own_notification orgID userID n) in
     (length (filter P (notifications s)),
      s\<lparr>notifications := update_rows P (\<lambda>n. n\<lparr>nt_DeletedAt := Some (env_db_now ev)\<rparr>) (notifications s)\<rparr>))"

record NotificationResponse =
  nr_ID :: string
  nr_OrganizationID :: string
  nr_UserID :: string
  nr_OutboxID :: string
  nr_Channel :: string
  nr_EventType :: string
  nr_EntityType :: string
  nr_EntityID :: string
  nr_Payload :: payload
  nr_ReadAt :: "string option"
  nr_SentAt :: "string option"
  nr_CreatedAt :: string

definition notificationToResponse :: "env \<Rightarrow> notification_row \<Rightarrow> NotificationResponse" where
  "notificationToResponse ev n = \<lparr>nr_ID = UUIDToString (dc_ID n), nr_OrganizationID = UUIDToString (nt_OrganizationID n),
     nr_UserID = UUIDToString (nt_UserID n), nr_OutboxID = UUIDToString (nt_OutboxID n),
     nr_Channel = NotificationChannel_str (nt_Channel n), nr_EventType = NotificationEventType_str (nt_EventType n),
     nr_EntityType = nt_EntityType n, nr_EntityID = UUIDToString (nt_EntityID n),
     nr_Payload = (if nt_Payload n = PEmpty then empty_object else nt_Payload n),
     nr_ReadAt = map_option (env_format_time ev) (nt_ReadAt n), nr_SentAt = map_option (env_format_time ev) (dc_SentAt n),
     nr_CreatedAt = env_format_time ev (ts_Time (dc_CreatedAt n))\<rparr>"

record NotificationListResponse =
  nl_Notifications :: "NotificationResponse list"
  nl_Total :: int
  nl_Limit :: int
  nl_Offset :: int

definition DefaultListLimit :: int where "DefaultListLimit = 50"
definition MaxListLimit :: int where "MaxListLimit = 200"

definition notify_GetOrgBySlug :: "notify_db \<Rightarrow> string \<Rightarrow> notify_error + org_row" where
  "notify_GetOrgBySlug s slug = no_rows_as NotifyErrOrganizationNotFound NotifyErrSql (GetOrganizationBySlug (tables (accounts s)) slug)"

definition notify_user :: "env \<Rightarrow> string \<Rightarrow> notify_error + uuid" where
  "notify_user ev userID = res_map_err (\<lambda>_. NotifyErrForbidden) (ParseUUID (env_scan ev) userID)"

definition notify_target :: "env \<Rightarrow> notify_db \<Rightarrow> string \<Rightarrow> string \<Rightarrow> string \<Rightarrow> notify_error + (org_row \<times> uuid \<times> uuid)" where
  "notify_target ev s orgSlug notifID userID =
     res_bind (notify_GetOrgBySlug s orgSlug) (\<lambda>org.
     res_bind (res_map_err (\<lambda>_. NotifyErrNotificationNotFound) (ParseUUID (env_scan ev) notifID)) (\<lambda>nid.
     res_bind (notify_user ev userID) (\<lambda>uid. Inr (org, nid, uid))))"

definition notify_List :: "env \<Rightarrow> notify_db \<Rightarrow> string \<Rightarrow> string \<Rightarrow> int \<Rightarrow> int \<Rightarrow> notify_error + NotificationListResponse" where
  "notify_List ev s orgSlug userID limit offset =
     res_bind (notify_GetOrgBySlug s orgSlug) (\<lambda>org.
     res_bind (notify_user ev userID) (\<lambda>uid.
     (let limit = (if limit \<le> 0 \<or> limit > MaxListLimit then DefaultListLimit else limit);
          offset = (if offset < 0 then 0 else offset)
      in Inr \<lparr>nl_Notifications = map (notificationToResponse ev) (ListNotificationsByUser s (o_ID org) uid offset limit),
              nl_Total = CountNotificationsByUser s (o_ID org) uid, nl_Limit = limit, nl_Offset = offset\<rparr>)))"

definition notify_GetByID :: "env \<Rightarrow> notify_db \<Rightarrow> string \<Rightarrow> string \<Rightarrow> string \<Rightarrow> notify_error + NotificationResponse" where
  "notify_GetByID ev s orgSlug notifID userID =
     res_bind (notify_target ev s orgSlug notifID userID) (\<lambda>(org, nid, uid).
     res_bind (no_rows_as NotifyErrNotificationNotFound NotifyErrSql (GetNotificationByID s nid (o_ID org) uid)) (\<lambda>n.
       Inr (notificationToResponse ev n)))"

definition notify_MarkRead :: "env \<Rightarrow> string \<Rightarrow> string \<Rightarrow> string \<Rightarrow> notify_db \<Rightarrow> notify_error + (NotificationResponse \<times> notify_db)" where
  "notify_MarkRead ev orgSlug notifID userID s =
     res_bind (notify_target ev s orgSlug notifID userID) (\<lambda>(org, nid, uid).
     res_bind (no_rows_as NotifyErrNotificationNotFound NotifyErrSql (MarkNotificationRead ev nid (o_ID org) uid s)) (\<lambda>(n, s').
       Inr (notificationToResponse ev n, s')))"

definition notify_MarkAllRead :: "env \<Rightarrow> string \<Rightarrow> string \<Rightarrow> notify_db \<Rightarrow> notify_error + notify_db" where
  "notify_MarkAllRead ev orgSlug userID s =
     res_bind (notify_GetOrgBySlug s orgSlug) (\<lambda>org.
     res_bind (notify_user ev userID) (\<lambda>uid. Inr (MarkAllNotificationsRead ev (o_ID org) uid s)))"

definition notify_Delete :: "env \<Rightarrow> string \<Rightarrow> string \<Rightarrow> string \<Rightarrow> notify_db \<Rightarrow> notify_error + notify_db" where
  "notify_Delete ev orgSlug notifID userID s =
     res_bind (notify_target ev s orgSlug notifID userID) (\<lambda>(org, nid, uid).
       case SoftDeleteNotification ev nid (o_ID org) uid s of (n, s') \<Rightarrow>
         if n = 0 then Inl NotifyErrNotificationNotFound else Inr s')"

section \<open>Preferences\<close>

definition event_types :: "NotificationEventType list" where
  "event_types = [NotificationEventTypeMatchCreated, NotificationEventTypeMatchStarted, NotificationEventTypeMatchCompleted,
     NotificationEventTypeMatchCancelled, NotificationEventTypeMatchAbandoned, NotificationEventTypeTournamentStatusChanged,
     NotificationEventTypeRegistrationApproved, NotificationEventTypeRegistrationRejected,
     NotificationEventTypeRegistrationWithdrawn]"

definition channels :: "NotificationChannel list" where
  "channels = [NotificationChannelInApp, NotificationChannelEmail, NotificationChannelWebhook]"

definition parseEventType :: "string \<Rightarrow> notify_error + NotificationEventType" where
  "parseEventType str = opt_res NotifyErrInvalidEventType
     (find (\<lambda>et. NotificationEventType_str et = strings_ToLower (strings_TrimSpace str)) event_types)"

definition parseChannel :: "string \<Rightarrow> notify_error + NotificationChannel" where
  "parseChannel str = opt_res NotifyErrInvalidChannel
     (find (\<lambda>ch. NotificationChannel_str ch = strings_ToLower (strings_TrimSpace str)) channels)"

definition own_preference :: "uuid \<Rightarrow> uuid \<Rightarrow> NotificationEventType \<Rightarrow> NotificationChannel \<Rightarrow> preference_row \<Rightarrow> bool" where
  "own_preference orgID userID et ch p \<longleftrightarrow> sql_eq (np_OrganizationID p) orgID \<and> sql_eq (np_UserID p) userID
     \<and> np_EventType p = et \<and> np_Channel p = ch"

definition GetUserPreference :: "notify_db \<Rightarrow> uuid \<Rightarrow> uuid \<Rightarrow> NotificationEventType \<Rightarrow> NotificationChannel
    \<Rightarrow> sql_error + preference_row" where
  "GetUserPreference s orgID userID et ch = select_one (own_preference orgID userID et ch) (notification_preferences s)"

text \<open>\<open>ORDER BY event_type, channel\<close> follows the declaration of the enums.\<close>

definition position :: "'a list \<Rightarrow> 'a \<Rightarrow> nat" where
  "position xs x = length (takeWhile (\<lambda>y. y \<noteq> x) xs)"

definition GetUserPreferences :: "notify_db \<Rightarrow> uuid \<Rightarrow> uuid \<Rightarrow> preference_row list" where
  "GetUserPreferences s orgID userID = sort_key (\<lambda>p. position event_types (np_EventType p))
     (sort_key (\<lambda>p. position channels (np_Channel p))
       (filter (\<lambda>p. sql_eq (np_OrganizationID p) orgID \<and> sql_eq (np_UserID p) userID) (notification_preferences s)))"

definition UpsertNotificationPreference :: "env \<Rightarrow> uuid \<Rightarrow> uuid \<Rightarrow> NotificationEventType \<Rightarrow> NotificationChannel \<Rightarrow> bool \<Rightarrow> notify_db
    \<Rightarrow> sql_error + (preference_row \<times> notify_db)" where
  "UpsertNotificationPreference ev orgID userID et ch enabled s =
     (let P = own_preference orgID userID et ch; rows = notification_preferences s;
          f = (\<lambda>p. p\<lparr>np_Enabled := enabled, np_UpdatedAt := Some (env_db_now ev)\<rparr>) in
      case find P rows of
        Some p \<Rightarrow> Inr (f p, s\<lparr>notification_preferences := update_rows P f rows\<rparr>)
      | None \<Rightarrow>
          if Some (env_row_id ev) \<in> np_ID ` set rows then Inl (ConstraintViolation ''pk_notification_preferences'')
          else if \<not> user_exists (accounts s) userID then Inl (ConstraintViolation ''fk_notif_pref_user'')
          else let p = \<lparr>np_ID = Some (env_row_id ev), np_OrganizationID = orgID, np_UserID = userID, np_EventType = et,
                  np_Channel = ch, np_Enabled = enabled, np_CreatedAt = Some (env_db_now ev), np_UpdatedAt = Some (env_db_now ev)\<rparr>
               in Inr (p, s\<lparr>notification_preferences := rows @ [p]\<rparr>))"

definition prefToAuditJSON :: "env \<Rightarrow> preference_row \<Rightarrow> payload" where
  "prefToAuditJSON ev p = marshalPayload [(''id'', JStr (UUIDToString (np_ID p))),
     (''organization_id'', JStr (UUIDToString (np_OrganizationID p))), (''user_id'', JStr (UUIDToString (np_UserID p))),
     (''event_type'', JStr (NotificationEventType_str (np_EventType p))), (''channel'', JStr (NotificationChannel_str (np_Channel p))),
     (''enabled'', JBool (np_Enabled p)), (''updated_at'', JStr (env_format_time ev (ts_Time (np_UpdatedAt p))))]"

definition UpsertPreference :: "env \<Rightarrow> uuid \<Rightarrow> uuid \<Rightarrow> NotificationEventType \<Rightarrow> NotificationChannel \<Rightarrow> bool \<Rightarrow> uuid \<Rightarrow> notify_db
    \<Rightarrow> notify_error + (preference_row \<times> notify_db)" where
  "UpsertPreference ev orgID userID et ch enabled actorID s =
     (let (oldData, isCreate) = (case GetUserPreference s orgID userID et ch of
            Inr old \<Rightarrow> (prefToAuditJSON ev old, False) | Inl _ \<Rightarrow> (PEmpty, True)) in
      res_bind (res_map_err NotifyErrSql (UpsertNotificationPreference ev orgID userID et ch enabled s)) (\<lambda>(pref, s').
        Inr (pref, s'\<lparr>accounts := on_tables (CreateAuditLog ev (auditParams orgID actorID
           (if isCreate then AuditActionCreate else AuditActionUpdate) ''notification_preferences'' (np_ID pref)
           oldData (prefToAuditJSON ev pref))) (accounts s')\<rparr>)))"

record PreferenceResponse =
  pr_ID :: string
  pr_OrganizationID :: string
  pr_UserID :: string
  pr_EventType :: string
  pr_Channel :: string
  pr_Enabled :: bool
  pr_UpdatedAt :: string

definition preferenceToResponse :: "env \<Rightarrow> preference_row \<Rightarrow> PreferenceResponse" where
  "preferenceToResponse ev p = \<lparr>pr_ID = UUIDToString (np_ID p), pr_OrganizationID = UUIDToString (np_OrganizationID p),
     pr_UserID = UUIDToString (np_UserID p), pr_EventType = NotificationEventType_str (np_EventType p),
     pr_Channel = NotificationChannel_str (np_Channel p), pr_Enabled = np_Enabled p,
     pr_UpdatedAt = env_format_time ev (ts_Time (np_UpdatedAt p))\<rparr>"

definition notify_GetPreferences :: "env \<Rightarrow> notify_db \<Rightarrow> string \<Rightarrow> string \<Rightarrow> notify_error + PreferenceResponse list" where
  "notify_GetPreferences ev s orgSlug userID =
     res_bind (notify_GetOrgBySlug s orgSlug) (\<lambda>org.
     res_bind (notify_user ev userID) (\<lambda>uid. Inr (map (preferenceToResponse ev) (GetUserPreferences s (o_ID org) uid))))"

definition notify_UpdatePreference :: "env \<Rightarrow> string \<Rightarrow> string \<Rightarrow> string \<Rightarrow> string \<Rightarrow> string \<Rightarrow> bool \<Rightarrow> notify_db
    \<Rightarrow> notify_error + (PreferenceResponse \<times> notify_db)" where
  "notify_UpdatePreference ev orgSlug eventTypeStr userID actorID channelStr enabled s =
     res_bind (notify_GetOrgBySlug s orgSlug) (\<lambda>org.
     res_bind (notify_user ev userID) (\<lambda>uid.
     res_bind (notify_user ev actorID) (\<lambda>actorUID.
     res_bind (parseEventType eventTypeStr) (\<lambda>et.
     res_bind (parseChannel channelStr) (\<lambda>ch.
     res_bind (UpsertPreference ev (o_ID org) uid et ch enabled actorUID s) (\<lambda>(pref, s').
       Inr (preferenceToResponse ev pref, s')))))))"

section \<open>Retention\<close>

text \<open>
  Deleting an outbox row cascades to its notifications and webhook deliveries.  Days are counted in UTC.
\<close>

definition DeleteOldProcessedOutboxEntries :: "int \<Rightarrow> notify_db \<Rightarrow> notify_db" where
  "DeleteOldProcessedOutboxEntries olderThan s =
     (let old = (\<lambda>e. case ob_ProcessedAt e of None \<Rightarrow> False | Some t \<Rightarrow> t < olderThan);
          gone = ob_ID ` set (filter old (outbox s))
      in (on_outbox (filter (\<lambda>e. \<not> old e)) s)
           \<lparr>notifications := filter (\<lambda>n. nt_OutboxID n \<notin> gone) (notifications s),
            webhook_deliveries := filter (\<lambda>d. wd_OutboxID d \<notin> gone) (webhook_deliveries s)\<rparr>)"

definition DeleteOldWebhookDeliveries :: "int \<Rightarrow> notify_db \<Rightarrow> notify_db" where
  "DeleteOldWebhookDeliveries olderThan s = s\<lparr>webhook_deliveries :=
     filter (\<lambda>d. \<not> (case dc_SentAt d of None \<Rightarrow> False | Some t \<Rightarrow> t < olderThan)) (webhook_deliveries s)\<rparr>"

definition outboxRetentionDays :: int where "outboxRetentionDays = 90"
definition webhookDeliveryRetentionDays :: int where "webhookDeliveryRetentionDays = 30"

definition cleanup_notifications :: "env \<Rightarrow> notify_db \<Rightarrow> notify_db" where
  "cleanup_notifications ev s =
     DeleteOldWebhookDeliveries (env_now ev - minutes (webhookDeliveryRetentionDays * 24 * 60))
       (DeleteOldProcessedOutboxEntries (env_now ev - minutes (outboxRetentionDays * 24 * 60)) s)"

end
