(* ===== verification/Webhook_Guard.thy ===== *)
theory Webhook_Guard
  imports Go_Strings
begin

text \<open>
  \<open>webhooks/ssrf.go\<close>: the address filter of webhook deliveries.  An address (\<open>net.IP\<close>) is its list of
  4 or 16 bytes.  The parsers \<open>url.Parse\<close> and \<open>net.ParseIP\<close>, the resolver and the dialer are parameters.
\<close>

type_synonym ip = "8 word list"

section \<open>Networks\<close>

text \<open>\<open>net.IPNet\<close>, \<open>net.ParseCIDR\<close>, \<open>IP.To4\<close> and \<open>IPNet.Contains\<close> of the standard library.\<close>

record IPNet =
  net_IP :: ip
  net_Mask :: ip

definition CIDRMask :: "nat \<Rightarrow> nat \<Rightarrow> ip" where
  "CIDRMask ones n = map (\<lambda>i. if 8 * i + 8 \<le> ones then 255 else if ones \<le> 8 * i then 0
     else push_bit (8 - (ones - 8 * i)) (mask (ones - 8 * i))) [0..<n]"

definition cidr :: "ip \<Rightarrow> nat \<Rightarrow> IPNet" where
  "cidr addr ones = (let m = CIDRMask ones (length addr) in
     \<lparr>net_IP = map2 (\<lambda>a b. and a b) addr m, net_Mask = m\<rparr>)"

definition v4_prefix :: ip where
  "v4_prefix = replicate 10 0 @ [255, 255]"

definition To4 :: "ip \<Rightarrow> ip option" where
  "To4 addr = (if length addr = 4 then Some addr
     else if length addr = 16 \<and> take 12 addr = v4_prefix then Some (drop 12 addr) else None)"

definition Contains :: "IPNet \<Rightarrow> ip \<Rightarrow> bool" where
  "Contains n addr = (let a = (case To4 addr of Some x \<Rightarrow> x | None \<Rightarrow> addr) in
     length a = length (net_IP n)
     \<and> list_all (\<lambda>(p, m, x). and p m = and x m) (zip (net_IP n) (zip (net_Mask n) a)))"

definition blockedCIDRs :: "IPNet list" where
  "blockedCIDRs =
     [cidr [127, 0, 0, 0] 8,
      cidr [10, 0, 0, 0] 8, cidr [172, 16, 0, 0] 12, cidr [192, 168, 0, 0] 16,
      cidr [169, 254, 0, 0] 16,
      cidr [100, 64, 0, 0] 10,
      cidr [0, 0, 0, 0] 8,
      cidr (replicate 15 0 @ [1]) 128,
      cidr (0xfc # replicate 15 0) 7,
      cidr ([0xfe, 0x80] @ replicate 14 0) 10]"

definition isPublicIP :: "ip \<Rightarrow> bool" where
  "isPublicIP addr = (\<not> list_ex (\<lambda>n. Contains n addr) blockedCIDRs)"

section \<open>Registration\<close>

datatype webhook_error =
    WebhookErrOrganizationNotFound
  | WebhookErrWebhookNotFound
  | WebhookErrForbidden
  | WebhookErrInvalidURL
  | WebhookErrSSRFBlocked
  | WebhookErrURLRequired

text \<open>What \<open>url.Parse\<close> yields: the scheme and \<open>Hostname()\<close>.\<close>

definition has_suffix :: "string \<Rightarrow> string \<Rightarrow> bool" where
  "has_suffix suffix str \<longleftrightarrow> length suffix \<le> length str \<and> drop (length str - length suffix) str = suffix"

definition ValidateURL :: "(string \<Rightarrow> (string \<times> string) option) \<Rightarrow> (string \<Rightarrow> ip option) \<Rightarrow> string
    \<Rightarrow> webhook_error + unit" where
  "ValidateURL url_parse parse_ip rawURL =
     (if rawURL = [] then Inl WebhookErrURLRequired
      else case url_parse rawURL of
        None \<Rightarrow> Inl WebhookErrInvalidURL
      | Some (scheme, host) \<Rightarrow>
          if strings_ToLower scheme \<noteq> ''https'' then Inl WebhookErrInvalidURL
          else if host = [] then Inl WebhookErrInvalidURL
          else if strings_ToLower host = ''localhost'' \<or> has_suffix ''.localhost'' (strings_ToLower host)
          then Inl WebhookErrSSRFBlocked
          else case parse_ip host of
            Some addr \<Rightarrow> ensure (isPublicIP addr) WebhookErrSSRFBlocked
          | None \<Rightarrow> Inr ())"

section \<open>Delivery\<close>

datatype dial_error = InvalidAddress | LookupFailed | NoAddresses | PrivateAddress ip

text \<open>
  The \<open>DialContext\<close> of \<open>SSRFSafeTransport\<close> up to the dial: the address it connects to.  Every
  connection of a delivery, those of redirects included, is opened by it.
\<close>

definition dial_address :: "(string \<Rightarrow> (string \<times> string) option) \<Rightarrow> (string \<Rightarrow> ip list option) \<Rightarrow> string
    \<Rightarrow> dial_error + (ip \<times> string)" where
  "dial_address split_host_port lookup addr =
     (case split_host_port addr of
        None \<Rightarrow> Inl InvalidAddress
      | Some (host, port) \<Rightarrow>
          case lookup host of
            None \<Rightarrow> Inl LookupFailed
          | Some [] \<Rightarrow> Inl NoAddresses
          | Some (first # rest) \<Rightarrow>
              case find (\<lambda>a. \<not> isPublicIP a) (first # rest) of
                Some a \<Rightarrow> Inl (PrivateAddress a)
              | None \<Rightarrow> Inr (first, port))"

section \<open>The filter in numbers\<close>

text \<open>The address a blocked range denotes, spelt out on the bytes.\<close>

definition blocked_v4 :: "8 word \<Rightarrow> 8 word \<Rightarrow> bool" where
  "blocked_v4 a b \<longleftrightarrow> a = 0 \<or> a = 10 \<or> a = 127 \<or> a = 100 \<and> 64 \<le> b \<and> b \<le> 127 \<or> a = 169 \<and> b = 254
     \<or> a = 172 \<and> 16 \<le> b \<and> b \<le> 31 \<or> a = 192 \<and> b = 168"

definition blocked_v6 :: "ip \<Rightarrow> bool" where
  "blocked_v6 addr \<longleftrightarrow> addr = replicate 15 0 @ [1] \<or> addr ! 0 = 0xfc \<or> addr ! 0 = 0xfd
     \<or> addr ! 0 = 0xfe \<and> 0x80 \<le> addr ! 1 \<and> addr ! 1 \<le> 0xbf"

lemma bytes_exhaust: "(b :: 8 word) \<in> set (map word_of_nat [0..<256])"
proof -
  have "unat b < 256" using unsigned_less[of b] by simp
  then show ?thesis by (auto intro!: image_eqI[of _ _ "unat b"])
qed

lemma byte_masks_table:
  "list_all (\<lambda>b :: 8 word. (and b 240 = 16 \<longleftrightarrow> 16 \<le> b \<and> b \<le> 31) \<and> (and b 192 = 64 \<longleftrightarrow> 64 \<le> b \<and> b \<le> 127)
     \<and> (and b 254 = 252 \<longleftrightarrow> b = 252 \<or> b = 253) \<and> (and b 192 = 128 \<longleftrightarrow> 128 \<le> b \<and> b \<le> 191)) (map word_of_nat [0..<256])"
  by code_simp

lemma byte_masks:
  "and b 240 = (16 :: 8 word) \<longleftrightarrow> 16 \<le> b \<and> b \<le> 31"
  "and b 192 = (64 :: 8 word) \<longleftrightarrow> 64 \<le> b \<and> b \<le> 127"
  "and b 254 = (252 :: 8 word) \<longleftrightarrow> b = 252 \<or> b = 253"
  "and b 192 = (128 :: 8 word) \<longleftrightarrow> 128 \<le> b \<and> b \<le> 191"
  using byte_masks_table bytes_exhaust[of b] unfolding list_all_iff by blast+

lemma blocked_table:
  "blockedCIDRs =
     [\<lparr>net_IP = [127, 0, 0, 0], net_Mask = [255, 0, 0, 0]\<rparr>,
      \<lparr>net_IP = [10, 0, 0, 0], net_Mask = [255, 0, 0, 0]\<rparr>,
      \<lparr>net_IP = [172, 16, 0, 0], net_Mask = [255, 240, 0, 0]\<rparr>,
      \<lparr>net_IP = [192, 168, 0, 0], net_Mask = [255, 255, 0, 0]\<rparr>,
      \<lparr>net_IP = [169, 254, 0, 0], net_Mask = [255, 255, 0, 0]\<rparr>,
      \<lparr>net_IP = [100, 64, 0, 0], net_Mask = [255, 192, 0, 0]\<rparr>,
      \<lparr>net_IP = [0, 0, 0, 0], net_Mask = [255, 0, 0, 0]\<rparr>,
      \<lparr>net_IP = replicate 15 0 @ [1], net_Mask = replicate 16 255\<rparr>,
      \<lparr>net_IP = 252 # replicate 15 0, net_Mask = 254 # replicate 15 0\<rparr>,
      \<lparr>net_IP = [254, 128] @ replicate 14 0, net_Mask = [255, 192] @ replicate 14 0\<rparr>]"
  by code_simp

lemma and_255 [simp]: "and x 255 = (x :: 8 word)"
proof -
  have "(255 :: 8 word) = - 1" by simp
  then show ?thesis by (metis and.right_neutral)
qed

lemma Contains_v4:
  "Contains \<lparr>net_IP = [p, q, r, s], net_Mask = [k, l, m, n]\<rparr> [a, b, c, d] \<longleftrightarrow>
     and p k = and a k \<and> and q l = and b l \<and> and r m = and c m \<and> and s n = and d n"
  by (auto simp: Contains_def To4_def)

lemma Contains_v4_short: "length (net_IP n) \<noteq> 4 \<Longrightarrow> \<not> Contains n [a, b, c, d]"
  by (simp add: Contains_def To4_def)

lemma isPublicIP_v4: "isPublicIP [a, b, c, d] \<longleftrightarrow> \<not> blocked_v4 a b"
  unfolding isPublicIP_def blocked_table
  by (simp add: Contains_v4 Contains_v4_short byte_masks blocked_v4_def eq_commute[of _ a] eq_commute[of _ b])
    (auto simp: byte_masks)

lemma isPublicIP_mapped: "isPublicIP (v4_prefix @ [a, b, c, d]) \<longleftrightarrow> isPublicIP [a, b, c, d]"
proof -
  have "To4 (v4_prefix @ [a, b, c, d]) = Some [a, b, c, d]" by (simp add: To4_def v4_prefix_def)
  then have "Contains n (v4_prefix @ [a, b, c, d]) = Contains n [a, b, c, d]" for n
    by (simp add: Contains_def To4_def)
  then show ?thesis by (simp add: isPublicIP_def)
qed

lemma length_two: "length xs = Suc (Suc n) \<Longrightarrow> \<exists>a b c. xs = a # b # c \<and> length c = n"
  by (auto simp: length_Suc_conv)

lemma and_zeros: "length c = n \<Longrightarrow> list_all (\<lambda>(p, m, x). and p m = and x m) (zip (replicate n p) (zip (replicate n 0) c))"
  for c :: ip
  by (induction n arbitrary: c) (auto simp: length_Suc_conv)

lemma and_ones: "length p = length c \<Longrightarrow>
  list_all (\<lambda>(p, m, x). and p m = and x m) (zip p (zip (replicate (length c) 255) c)) \<longleftrightarrow> c = p"
  for c :: ip
  by (induction p c rule: list_induct2) auto

lemma isPublicIP_v6:
  assumes "length addr = 16" "take 12 addr \<noteq> v4_prefix"
  shows "isPublicIP addr \<longleftrightarrow> \<not> blocked_v6 addr"
proof -
  from length_two[of addr 14] assms(1) obtain a b c where addr: "addr = a # b # c" "length c = 14" by auto
  have "To4 addr = None" using assms by (simp add: To4_def)
  then have c: "Contains n addr \<longleftrightarrow> 16 = length (net_IP n)
      \<and> list_all (\<lambda>(p, m, x). and p m = and x m) (zip (net_IP n) (zip (net_Mask n) addr))" for n
    using assms(1) by (simp add: Contains_def)
  have v4: "\<not> Contains \<lparr>net_IP = [p, q, r, s], net_Mask = m\<rparr> addr" for p q r s m by (simp add: c)
  have z: "replicate 15 0 = (0 :: 8 word) # replicate 14 0" by (simp flip: replicate_Suc)
  have loop: "Contains \<lparr>net_IP = replicate 15 0 @ [1], net_Mask = replicate 16 255\<rparr> addr \<longleftrightarrow> addr = replicate 15 0 @ [1]"
    using and_ones[of "replicate 15 0 @ [1]" addr] assms(1) unfolding c by simp
  have ula: "Contains \<lparr>net_IP = 252 # replicate 15 0, net_Mask = 254 # replicate 15 0\<rparr> addr \<longleftrightarrow> and a 254 = 252"
    unfolding c using addr by (auto simp: z and_zeros)
  have link: "Contains \<lparr>net_IP = [254, 128] @ replicate 14 0, net_Mask = [255, 192] @ replicate 14 0\<rparr> addr
      \<longleftrightarrow> a = 254 \<and> and b 192 = 128"
    unfolding c using addr by (auto simp: and_zeros)
  have "isPublicIP addr \<longleftrightarrow> \<not> (addr = replicate 15 0 @ [1] \<or> and a 254 = 252 \<or> a = 254 \<and> and b 192 = 128)"
    unfolding isPublicIP_def blocked_table by (simp only: list_ex_Cons_iff list_ex_Nil_iff v4 loop ula link simp_thms)
  then show ?thesis unfolding blocked_v6_def byte_masks by (simp add: addr(1))
qed

text \<open>
  The address filter, in numbers.  An IPv4 address, plain or mapped into IPv6, passes exactly when
  it is outside 0/8, 10/8, 127/8, 100.64/10, 169.254/16, 172.16/12 and 192.168/16; any other IPv6
  address passes exactly when it is outside ::1, fc00::/7 and fe80::/10.
\<close>

theorem address_filter_exact:
  "(isPublicIP [a, b, c, d] \<longleftrightarrow> \<not> blocked_v4 a b)
   \<and> (isPublicIP (v4_prefix @ [a, b, c, d]) \<longleftrightarrow> \<not> blocked_v4 a b)
   \<and> (length addr = 16 \<and> take 12 addr \<noteq> v4_prefix \<longrightarrow> (isPublicIP addr \<longleftrightarrow> \<not> blocked_v6 addr))"
  using isPublicIP_v4 isPublicIP_mapped isPublicIP_v6 by blast

lemma address_filter_exact_witness:
  "\<not> isPublicIP [169, 254, 169, 254] \<and> isPublicIP [8, 8, 8, 8] \<and> \<not> isPublicIP ([0xfd] @ replicate 15 0)"
proof -
  have r: "(0xfd :: 8 word) # replicate 15 0 = [0xfd, 0, 0, 0, 0, 0, 0, 0, 0, 0, 0, 0, 0, 0, 0, 0]" by code_simp
  have "take 12 ([0xfd] @ replicate 15 0) \<noteq> v4_prefix" by (simp add: r v4_prefix_def)
  then show ?thesis
    using address_filter_exact[of 169 254 169 254 "[0xfd] @ replicate 15 0"] address_filter_exact[of 8 8 8 8]
    by (simp add: blocked_v4_def blocked_v6_def)
qed

text \<open>
  C36: a delivery connects to a public address only.  Whatever the resolver answers, at registration or
  later, the address dialled is the first one resolved and passes the filter, with every other one.
\<close>

theorem dial_only_public:
  assumes "dial_address split_host_port lookup addr = Inr (target, port)"
  shows "\<exists>host ips. split_host_port addr = Some (host, port) \<and> lookup host = Some ips \<and> ips \<noteq> [] \<and> hd ips = target
    \<and> (\<forall>a \<in> set ips. isPublicIP a)
    \<and> (\<forall>a b c d. target \<in> {[a, b, c, d], v4_prefix @ [a, b, c, d]} \<longrightarrow> \<not> blocked_v4 a b)"
proof -
  from assms obtain host rest where h: "split_host_port addr = Some (host, port)" "lookup host = Some (target # rest)"
      "find (\<lambda>a. \<not> isPublicIP a) (target # rest) = None"
    by (auto simp: dial_address_def split: option.splits list.splits prod.splits)
  from h(3) have "\<forall>a \<in> set (target # rest). isPublicIP a" unfolding find_None_iff by blast
  with h(1,2) isPublicIP_v4 isPublicIP_mapped show ?thesis by fastforce
qed

lemma dial_only_public_witness:
  "\<exists>ips. hd ips = [8, 8, 8, 8] \<and> list_all isPublicIP ips"
proof -
  have "dial_address (\<lambda>a. Some (a, ''443'')) (\<lambda>_. Some [[8, 8, 8, 8]]) ''h'' = Inr ([8, 8, 8, 8], ''443'')"
    by (simp add: dial_address_def isPublicIP_v4 blocked_v4_def)
  from dial_only_public[OF this] show ?thesis unfolding list_all_iff by blast
qed

lemma ValidateURL_unspecified:
  assumes "isPublicIP a"
  shows "ValidateURL (\<lambda>u. Some (''https'', ''::'')) (\<lambda>h. if h = ''::'' then Some a else None) u
     = (if u = [] then Inl WebhookErrURLRequired else Inr ())"
proof -
  have "strings_ToLower ''https'' = ''https''" "strings_ToLower ''::'' = ''::''"
    by (rule ToLower_lower, simp add: lower_char_def plain_char_def)+
  then show ?thesis using assms by (simp add: ValidateURL_def has_suffix_def)
qed

text \<open>
  The unspecified IPv6 address passes the filter, as a literal at registration too; the dialer of Go
  connects it to the local system.
\<close>

lemma unspecified_v6_passes:
  "isPublicIP (replicate 16 0)"
  "ValidateURL (\<lambda>u. Some (''https'', ''::'')) (\<lambda>h. if h = ''::'' then Some (replicate 16 0) else None) u
     = (if u = [] then Inl WebhookErrURLRequired else Inr ())"
proof -
  show p: "isPublicIP (replicate 16 0)" by code_simp
  show "ValidateURL (\<lambda>u. Some (''https'', ''::'')) (\<lambda>h. if h = ''::'' then Some (replicate 16 0) else None) u
     = (if u = [] then Inl WebhookErrURLRequired else Inr ())"
    using p by (rule ValidateURL_unspecified)
qed

end
