(* ===== verification/Webhook_Service.thy ===== *)
theory Webhook_Service
  imports Notify_Service Webhook_Guard
begin

text \<open>
  Package \<open>webhooks\<close> (\<open>service.go\<close>, \<open>repository.go\<close>, \<open>crypto.go\<close>): the endpoints of an organization and
  their encrypted secrets.  AES-GCM (\<open>Seal\<close>, \<open>Open\<close>) and the random source are parameters; byte strings
  are \<open>string\<close>s.
\<close>

section \<open>Secrets\<close>

record gcm =
  gcm_Seal :: "string \<Rightarrow> string \<Rightarrow> string \<Rightarrow> string"            \<comment> \<open>key, nonce, plaintext\<close>
  gcm_Open :: "string \<Rightarrow> string \<Rightarrow> string \<Rightarrow> string option"     \<comment> \<open>key, nonce, ciphertext\<close>

datatype crypto_error = KeyLength | CiphertextTooShort | OpenFailed

definition NonceSize :: nat where "NonceSize = 12"

definition EncryptSecret :: "gcm \<Rightarrow> string \<Rightarrow> string \<Rightarrow> string \<Rightarrow> crypto_error + string" where
  "EncryptSecret g nonce key rawSecret =
     (if length key \<noteq> 32 then Inl KeyLength else Inr (nonce @ gcm_Seal g key nonce rawSecret))"

definition DecryptSecret :: "gcm \<Rightarrow> string \<Rightarrow> string \<Rightarrow> crypto_error + string" where
  "DecryptSecret g key ciphertext =
     (if length key \<noteq> 32 then Inl KeyLength
      else if length ciphertext < NonceSize then Inl CiphertextTooShort
      else opt_res OpenFailed (gcm_Open g key (take NonceSize ciphertext) (drop NonceSize ciphertext)))"

section \<open>Queries\<close>

record CreateWebhookEndpointParams =
  ep_OrganizationID :: uuid
  ep_Url :: string
  ep_SecretCiphertext :: string
  ep_Description :: "string option"
  ep_Active :: bool
  ep_CreatedBy :: uuid

definition CreateWebhookEndpoint :: "env \<Rightarrow> CreateWebhookEndpointParams \<Rightarrow> notify_db
    \<Rightarrow> sql_error + (webhook_endpoint_row \<times> notify_db)" where
  "CreateWebhookEndpoint ev p s = (let e = \<lparr>we_ID = Some (env_row_id ev), we_OrganizationID = ep_OrganizationID p,
       we_Url = ep_Url p, we_SecretCiphertext = ep_SecretCiphertext p, we_Description = ep_Description p,
       we_Active = ep_Active p, we_CreatedBy = ep_CreatedBy p, we_CreatedAt = Some (env_db_now ev),
       we_UpdatedAt = Some (env_db_now ev)\<rparr>; rows = webhook_endpoints s in
     if we_ID e \<in> we_ID ` set rows then Inl (ConstraintViolation ''webhook_endpoints_pkey'')
     else if \<not> user_exists (accounts s) (ep_CreatedBy p)
       \<or> \<not> (\<exists>org \<in> set (organizations (tables (accounts s))). sql_eq (o_ID org) (ep_OrganizationID p))
     then Inl (ConstraintViolation ''webhook_endpoints_fkey'')
     else Inr (e, s\<lparr>webhook_endpoints := rows @ [e]\<rparr>))"

definition endpoint_key :: "uuid \<Rightarrow> uuid \<Rightarrow> webhook_endpoint_row \<Rightarrow> bool" where
  "endpoint_key uid orgID e \<longleftrightarrow> sql_eq (we_ID e) uid \<and> sql_eq (we_OrganizationID e) orgID"

definition GetWebhookEndpointByID :: "notify_db \<Rightarrow> uuid \<Rightarrow> uuid \<Rightarrow> sql_error + webhook_endpoint_row" where
  "GetWebhookEndpointByID s uid orgID = select_one (endpoint_key uid orgID) (webhook_endpoints s)"

definition ListWebhookEndpoints :: "notify_db \<Rightarrow> uuid \<Rightarrow> webhook_endpoint_row list" where
  "ListWebhookEndpoints s orgID = sort_key (\<lambda>e. - ts_Time (we_CreatedAt e))
     (filter (\<lambda>e. sql_eq (we_OrganizationID e) orgID) (webhook_endpoints s))"

definition UpdateWebhookEndpointActive :: "env \<Rightarrow> uuid \<Rightarrow> uuid \<Rightarrow> bool \<Rightarrow> notify_db
    \<Rightarrow> sql_error + (webhook_endpoint_row \<times> notify_db)" where
  "UpdateWebhookEndpointActive ev uid orgID active s =
     (let f = (\<lambda>e. e\<lparr>we_Active := active, we_UpdatedAt := Some (env_db_now ev)\<rparr>) in
      res_bind (select_one (endpoint_key uid orgID) (webhook_endpoints s)) (\<lambda>e.
        Inr (f e, s\<lparr>webhook_endpoints := update_rows (endpoint_key uid orgID) f (webhook_endpoints s)\<rparr>)))"

text \<open>The deliveries of a deleted endpoint go with it.\<close>

definition DeleteWebhookEndpoint :: "uuid \<Rightarrow> uuid \<Rightarrow> notify_db \<Rightarrow> nat \<times> notify_db" where
  "DeleteWebhookEndpoint uid orgID s = (let gone = filter (endpoint_key uid orgID) (webhook_endpoints s) in
     (length gone,
      s\<lparr>webhook_endpoints := filter (\<lambda>e. \<not> endpoint_key uid orgID e) (webhook_endpoints s),
        webhook_deliveries := filter (\<lambda>d. wd_EndpointID d \<notin> we_ID ` set gone) (webhook_deliveries s)\<rparr>))"

section \<open>Service\<close>

datatype webhooks_error =
    WhGuard webhook_error
  | WhCrypto crypto_error
  | WhUUID pgutil_error
  | WhSql sql_error

record WebhookResponse =
  wr_ID :: string
  wr_OrganizationID :: string
  wr_URL :: string
  wr_Description :: "string option"
  wr_Active :: bool
  wr_CreatedAt :: string
  wr_UpdatedAt :: string

definition toResponse :: "env \<Rightarrow> webhook_endpoint_row \<Rightarrow> WebhookResponse" where
  "toResponse ev ep = \<lparr>wr_ID = UUIDToString (we_ID ep), wr_OrganizationID = UUIDToString (we_OrganizationID ep),
     wr_URL = we_Url ep, wr_Description = we_Description ep, wr_Active = we_Active ep,
     wr_CreatedAt = env_format_time ev (ts_Time (we_CreatedAt ep)), wr_UpdatedAt = env_format_time ev (ts_Time (we_UpdatedAt ep))\<rparr>"

text \<open>What the service takes from outside: parsers, the cipher, its key, and the random bytes of a request.\<close>

record webhook_env =
  wh_env :: env
  wh_url_parse :: "string \<Rightarrow> (string \<times> string) option"
  wh_parse_ip :: "string \<Rightarrow> ip option"
  wh_gcm :: gcm
  wh_key :: string
  wh_nonce :: string
  wh_raw_secret :: string

definition webhook_Create :: "webhook_env \<Rightarrow> uuid \<Rightarrow> string \<Rightarrow> string \<Rightarrow> string option \<Rightarrow> notify_db
    \<Rightarrow> webhooks_error + ((WebhookResponse \<times> string) \<times> notify_db)" where
  "webhook_Create w orgID actorID url description s =
     res_bind (res_map_err WhGuard (ValidateURL (wh_url_parse w) (wh_parse_ip w) url)) (\<lambda>_.
     res_bind (res_map_err WhCrypto (EncryptSecret (wh_gcm w) (wh_nonce w) (wh_key w) (wh_raw_secret w))) (\<lambda>ciphertext.
     res_bind (res_map_err WhUUID (ParseUUID (env_scan (wh_env w)) actorID)) (\<lambda>creatorUID.
     res_bind (res_map_err WhSql (CreateWebhookEndpoint (wh_env w) \<lparr>ep_OrganizationID = orgID, ep_Url = url,
         ep_SecretCiphertext = ciphertext, ep_Description = description, ep_Active = True, ep_CreatedBy = creatorUID\<rparr> s)) (\<lambda>(ep, s').
       Inr ((toResponse (wh_env w) ep, wh_raw_secret w), s')))))"

definition webhook_id :: "env \<Rightarrow> string \<Rightarrow> webhooks_error + uuid" where
  "webhook_id ev webhookID = res_map_err (\<lambda>_. WhGuard WebhookErrWebhookNotFound) (ParseUUID (env_scan ev) webhookID)"

definition webhook_GetByID :: "env \<Rightarrow> notify_db \<Rightarrow> uuid \<Rightarrow> string \<Rightarrow> webhooks_error + WebhookResponse" where
  "webhook_GetByID ev s orgID webhookID =
     res_bind (webhook_id ev webhookID) (\<lambda>uid.
     res_bind (no_rows_as (WhGuard WebhookErrWebhookNotFound) WhSql (GetWebhookEndpointByID s uid orgID)) (\<lambda>ep.
       Inr (toResponse ev ep)))"

definition webhook_List :: "env \<Rightarrow> notify_db \<Rightarrow> uuid \<Rightarrow> WebhookResponse list \<times> int" where
  "webhook_List ev s orgID = (let eps = ListWebhookEndpoints s orgID in (map (toResponse ev) eps, int (length eps)))"

definition webhook_UpdateActive :: "env \<Rightarrow> uuid \<Rightarrow> string \<Rightarrow> bool \<Rightarrow> notify_db
    \<Rightarrow> webhooks_error + (WebhookResponse \<times> notify_db)" where
  "webhook_UpdateActive ev orgID webhookID active s =
     res_bind (webhook_id ev webhookID) (\<lambda>uid.
     res_bind (no_rows_as (WhGuard WebhookErrWebhookNotFound) WhSql (UpdateWebhookEndpointActive ev uid orgID active s)) (\<lambda>(ep, s').
       Inr (toResponse ev ep, s')))"

definition webhook_Delete :: "env \<Rightarrow> uuid \<Rightarrow> string \<Rightarrow> notify_db \<Rightarrow> webhooks_error + notify_db" where
  "webhook_Delete ev orgID webhookID s =
     res_bind (webhook_id ev webhookID) (\<lambda>uid.
       case DeleteWebhookEndpoint uid orgID s of (n, s') \<Rightarrow>
         if n = 0 then Inl (WhGuard WebhookErrWebhookNotFound) else Inr s')"

section \<open>Round trip of a secret\<close>

text \<open>
  A stored secret comes back.  The ciphertext of a secret is the 12-byte nonce and the sealed text;
  decryption under the same key cuts it there and returns the secret, provided the cipher opens what it
  sealed; a key of another length, or a text shorter than a nonce, is refused by either side.
\<close>

lemma secret_roundtrip:
  assumes "\<And>k n p. length k = 32 \<Longrightarrow> length n = NonceSize \<Longrightarrow> gcm_Open g k n (gcm_Seal g k n p) = Some p"
    and "length nonce = NonceSize"
  shows "(length key = 32 \<longrightarrow> (\<exists>c. EncryptSecret g nonce key raw = Inr c \<and> NonceSize \<le> length c \<and> DecryptSecret g key c = Inr raw))
    \<and> (length key \<noteq> 32 \<longrightarrow> EncryptSecret g nonce key raw = Inl KeyLength \<and> DecryptSecret g key c' = Inl KeyLength)
    \<and> (length key = 32 \<and> length c' < NonceSize \<longrightarrow> DecryptSecret g key c' = Inl CiphertextTooShort)"
  using assms by (simp_all add: EncryptSecret_def DecryptSecret_def)

definition demo_gcm :: gcm where
  "demo_gcm = \<lparr>gcm_Seal = (\<lambda>k n p. CHR ''s'' # p), gcm_Open = (\<lambda>k n c. case c of [] \<Rightarrow> None | _ # p \<Rightarrow> Some p)\<rparr>"

lemma secret_roundtrip_witness:
  "\<exists>c. EncryptSecret demo_gcm (replicate 12 CHR ''n'') (replicate 32 CHR ''k'') ''secret'' = Inr c
     \<and> DecryptSecret demo_gcm (replicate 32 CHR ''k'') c = Inr ''secret''"
proof -
  have "gcm_Open demo_gcm k n (gcm_Seal demo_gcm k n p) = Some p" for k n p by (simp add: demo_gcm_def)
  from secret_roundtrip[where g = demo_gcm and nonce = "replicate 12 CHR ''n''" and key = "replicate 32 CHR ''k''"
      and raw = "''secret''", OF this] show ?thesis by (auto simp: NonceSize_def)
qed

end
