(* ===== verification/Delivery_Workers.thy ===== *)
theory Delivery_Workers
  imports Webhook_Service Organizations_Service
begin

text \<open>
  \<open>webhookworker/worker.go\<close> and \<open>notifworker/worker.go\<close>: one pass of each worker claims a batch and
  delivers its rows one by one.  The mail sender, the HTTP client, HMAC-SHA256 and the JSON encoder are
  parameters; all rows of a pass see the same time.  A claim and the record of its outcome are separate
  statements: between them a worker may crash.
\<close>

definition worker_maxAttempts :: int where "worker_maxAttempts = 3"
definition worker_batchSize :: nat where "worker_batchSize = 10"

definition retryDelay :: "int \<Rightarrow> int" where
  "retryDelay attemptCount = (if attemptCount = 1 then minutes 1 else if attemptCount = 2 then minutes 5 else minutes 15)"

text \<open>The parameters of the \<open>UPDATE\<close> a failed attempt issues: permanence and the next attempt.\<close>

definition failure_record :: "int \<Rightarrow> 'a delivery_cols_scheme \<Rightarrow> bool \<times> timestamp" where
  "failure_record now d = (let perm = dc_AttemptCount d \<ge> worker_maxAttempts in
     (perm, if perm then None else Some (now + retryDelay (dc_AttemptCount d))))"

section \<open>The webhook worker\<close>

record webhook_request =
  wq_URL :: string
  wq_Body :: string
  wq_Signature :: string
  wq_Timestamp :: string
  wq_EventID :: string

record worker_env =
  wk_env :: env
  wk_gcm :: gcm
  wk_key :: string
  wk_marshal :: "payload \<Rightarrow> string option"                  \<comment> \<open>\<open>json.Marshal\<close>\<close>
  wk_unix :: "int \<Rightarrow> string"                                \<comment> \<open>seconds of a time, in decimal\<close>
  wk_hmac :: "string \<Rightarrow> string \<Rightarrow> string"                    \<comment> \<open>hexadecimal HMAC-SHA256 of a key and a message\<close>
  wk_valid_url :: "string \<Rightarrow> bool"                          \<comment> \<open>\<open>http.NewRequest\<close> accepts it\<close>
  wk_post :: "webhook_request \<Rightarrow> nat option"                \<comment> \<open>the status of the response\<close>
  wk_send :: "string \<Rightarrow> string \<Rightarrow> string \<Rightarrow> string \<Rightarrow> bool"   \<comment> \<open>mail: address, name, label, link\<close>
  wk_base_url :: string

definition webhook_envelope :: "env \<Rightarrow> webhook_delivery_row \<Rightarrow> payload" where
  "webhook_envelope ev d = PDoc (JObj [(''version'', JStr ''1''), (''event_id'', JStr (UUIDToString (dc_ID d))),
     (''event_type'', JStr (NotificationEventType_str (wd_EventType d))),
     (''organization_id'', JStr (UUIDToString (wd_OrganizationID d))), (''entity_type'', JStr (wd_EntityType d)),
     (''entity_id'', JStr (UUIDToString (wd_EntityID d))), (''timestamp'', JStr (env_format_time ev (env_now ev))),
     (''payload'', (case wd_Payload d of PDoc j \<Rightarrow> j | _ \<Rightarrow> JNull))])"

definition signed_request :: "worker_env \<Rightarrow> webhook_endpoint_row \<Rightarrow> string \<Rightarrow> webhook_delivery_row \<Rightarrow> string \<Rightarrow> webhook_request" where
  "signed_request w ep rawSecret d body =
     (let tsUnix = wk_unix w (env_now (wk_env w)); did = UUIDToString (dc_ID d); nl = [CHR 0x0A] in
      \<lparr>wq_URL = we_Url ep, wq_Body = body, wq_Signature = wk_hmac w rawSecret (tsUnix @ nl @ did @ nl @ body),
       wq_Timestamp = tsUnix, wq_EventID = did\<rparr>)"

datatype outcome = Delivered | Retry | PermanentFailure

definition response_outcome :: "nat \<Rightarrow> outcome" where
  "response_outcome status = (if status \<ge> 400 \<and> status < 500 \<and> status \<noteq> 429 then PermanentFailure
     else if status \<ge> 200 \<and> status < 300 then Delivered else Retry)"

definition webhook_attempt :: "worker_env \<Rightarrow> notify_db \<Rightarrow> webhook_delivery_row \<Rightarrow> outcome" where
  "webhook_attempt w s d =
     (case GetWebhookEndpointForDelivery s (dc_ID d) of
        Inl _ \<Rightarrow> Retry
      | Inr ep \<Rightarrow>
          case DecryptSecret (wk_gcm w) (wk_key w) (we_SecretCiphertext ep) of
            Inl _ \<Rightarrow> Retry
          | Inr rawSecret \<Rightarrow>
              case wk_marshal w (webhook_envelope (wk_env w) d) of
                None \<Rightarrow> Retry
              | Some body \<Rightarrow>
                  if \<not> wk_valid_url w (we_Url ep) then Retry
                  else case wk_post w (signed_request w ep rawSecret d body) of
                    None \<Rightarrow> Retry
                  | Some status \<Rightarrow> response_outcome status)"

definition webhook_record :: "worker_env \<Rightarrow> webhook_delivery_row \<Rightarrow> outcome \<Rightarrow> notify_db \<Rightarrow> notify_db" where
  "webhook_record w d res s = (case res of
       Delivered \<Rightarrow> RecordWebhookDeliverySuccess (wk_env w) (dc_ID d) s
     | PermanentFailure \<Rightarrow> RecordWebhookDeliveryFailure (dc_ID d) True None s
     | Retry \<Rightarrow> (case failure_record (env_now (wk_env w)) d of (perm, nextAt) \<Rightarrow> RecordWebhookDeliveryFailure (dc_ID d) perm nextAt s))"

definition webhook_deliver :: "worker_env \<Rightarrow> webhook_delivery_row \<Rightarrow> notify_db \<Rightarrow> notify_db" where
  "webhook_deliver w d s = webhook_record w d (webhook_attempt w s d) s"

definition webhook_runOnce :: "worker_env \<Rightarrow> (uuid \<Rightarrow> bool) \<Rightarrow> notify_db \<Rightarrow> notify_db" where
  "webhook_runOnce w locked s =
     (case ClaimWebhookDeliveriesForDelivery (wk_env w) worker_maxAttempts worker_batchSize locked s of
        (rows, s') \<Rightarrow> fold (webhook_deliver w) rows s')"

section \<open>The mail worker\<close>

fun eventLabel :: "NotificationEventType \<Rightarrow> string" where
  "eventLabel NotificationEventTypeMatchCreated = ''Match Created''"
| "eventLabel NotificationEventTypeMatchStarted = ''Match Started''"
| "eventLabel NotificationEventTypeMatchCompleted = ''Match Completed''"
| "eventLabel NotificationEventTypeMatchCancelled = ''Match Cancelled''"
| "eventLabel NotificationEventTypeMatchAbandoned = ''Match Abandoned''"
| "eventLabel NotificationEventTypeTournamentStatusChanged = ''Tournament Status Changed''"
| "eventLabel NotificationEventTypeRegistrationApproved = ''Registration Approved''"
| "eventLabel NotificationEventTypeRegistrationRejected = ''Registration Rejected''"
| "eventLabel NotificationEventTypeRegistrationWithdrawn = ''Registration Withdrawn''"

definition email_attempt :: "worker_env \<Rightarrow> notify_db \<Rightarrow> notification_row \<Rightarrow> outcome" where
  "email_attempt w s n =
     (case GetUserByID (accounts s) (nt_UserID n) of
        Inl _ \<Rightarrow> Retry
      | Inr user \<Rightarrow>
          case GetOrganizationByID (tables (accounts s)) (nt_OrganizationID n) of
            Inl _ \<Rightarrow> Retry
          | Inr org \<Rightarrow>
              if wk_send w (us_Email user) (strings_TrimSpace (us_FirstName user @ '' '' @ us_LastName user))
                   (eventLabel (nt_EventType n)) (wk_base_url w @ ''/organizations/'' @ o_Slug org @ ''/notifications'')
              then Delivered else Retry)"

definition email_record :: "worker_env \<Rightarrow> notification_row \<Rightarrow> outcome \<Rightarrow> notify_db \<Rightarrow> notify_db" where
  "email_record w n res s = (if res = Delivered then RecordEmailDeliverySuccess (wk_env w) (dc_ID n) s
     else case failure_record (env_now (wk_env w)) n of (perm, nextAt) \<Rightarrow> RecordEmailDeliveryFailure (dc_ID n) perm nextAt s)"

definition email_deliver :: "worker_env \<Rightarrow> notification_row \<Rightarrow> notify_db \<Rightarrow> notify_db" where
  "email_deliver w n s = email_record w n (email_attempt w s n) s"

definition email_runOnce :: "worker_env \<Rightarrow> (uuid \<Rightarrow> bool) \<Rightarrow> notify_db \<Rightarrow> notify_db" where
  "email_runOnce w locked s =
     (case ClaimEmailNotificationsForDelivery (wk_env w) worker_maxAttempts worker_batchSize locked s of
        (rows, s') \<Rightarrow> fold (email_deliver w) rows s')"

text \<open>\<open>CountDeadLetters\<close> of the two repositories.\<close>

definition CountWebhookDeadLetters :: "notify_db \<Rightarrow> int" where
  "CountWebhookDeadLetters s = int (length (filter dc_FailedPermanently (webhook_deliveries s)))"

definition CountEmailDeadLetters :: "notify_db \<Rightarrow> int" where
  "CountEmailDeadLetters s = int (length (filter (\<lambda>n. nt_Channel n = NotificationChannelEmail \<and> dc_FailedPermanently n) (notifications s)))"

end
