(* ===== verification/Delivery_Properties.thy ===== *)
theory Delivery_Properties
  imports Delivery_Workers Account_Theorems
begin

text \<open>
  The delivery queue: what one pass of a worker does to the rows of its table, and why every delivery
  is settled after finitely many passes.  The lemmas hold for any table with the delivery columns; the
  two workers are instances.
\<close>

section \<open>One attempt\<close>

definition settled :: "'a delivery_cols_scheme \<Rightarrow> bool" where
  "settled d \<longleftrightarrow> dc_SentAt d \<noteq> None \<or> dc_FailedPermanently d"

text \<open>A row after its outcome was recorded, from the row as claimed.\<close>

definition recorded :: "int \<Rightarrow> int \<Rightarrow> outcome \<Rightarrow> 'a delivery_cols_scheme \<Rightarrow> 'a delivery_cols_scheme" where
  "recorded dbnow now res d = (case res of
     Delivered \<Rightarrow> (if dc_SentAt d = None then d\<lparr>dc_SentAt := Some dbnow\<rparr> else d)
   | PermanentFailure \<Rightarrow> d\<lparr>dc_FailedPermanently := True, dc_LeaseExpiresAt := None\<rparr>
   | Retry \<Rightarrow> (case failure_record now d of (perm, nextAt) \<Rightarrow> d\<lparr>dc_FailedPermanently := perm, dc_LeaseExpiresAt := nextAt\<rparr>))"

definition record_outcome :: "int \<Rightarrow> int \<Rightarrow> 'a delivery_cols_scheme \<Rightarrow> outcome \<Rightarrow> 'a delivery_cols_scheme list \<Rightarrow> 'a delivery_cols_scheme list" where
  "record_outcome dbnow now d res rows = (case res of
     Delivered \<Rightarrow> record_success dbnow (dc_ID d) rows
   | PermanentFailure \<Rightarrow> record_failure (dc_ID d) True None rows
   | Retry \<Rightarrow> (case failure_record now d of (perm, nextAt) \<Rightarrow> record_failure (dc_ID d) perm nextAt rows))"

lemma recorded_ID [simp]: "dc_ID (recorded dbnow now res d) = dc_ID d"
  by (simp add: recorded_def split: outcome.split prod.split)

lemma claim_row_simps [simp]:
  "dc_ID (claim_row now d) = dc_ID d" "dc_SentAt (claim_row now d) = dc_SentAt d"
  "dc_FailedPermanently (claim_row now d) = dc_FailedPermanently d"
  "dc_AttemptCount (claim_row now d) = dc_AttemptCount d + 1"
  by (simp_all add: claim_row_def)

lemma map_ID_record_outcome [simp]: "map dc_ID (record_outcome dbnow now d res rows) = map dc_ID rows"
  by (simp add: record_outcome_def record_success_def record_failure_def update_rows_def split: outcome.split prod.split)

text \<open>With distinct keys, recording the outcome of a claimed row touches that row only.\<close>

lemma record_outcome_row:
  assumes "distinct (map dc_ID rows)" "d \<in> set rows" "dc_ID d \<noteq> None"
  shows "record_outcome dbnow now d res rows = map (\<lambda>r. if dc_ID r = dc_ID d then recorded dbnow now res r else r) rows"
proof -
  have same: "r = d" if "r \<in> set rows" "dc_ID r = dc_ID d" for r
    using assms(1,2) that unfolding distinct_map by (metis inj_onD)
  have key: "sql_eq (dc_ID r) (dc_ID d) \<longleftrightarrow> dc_ID r = dc_ID d" for r :: "'a delivery_cols_scheme"
    using assms(3) by (metis sql_eq_def)
  show ?thesis
  proof (cases res)
    case Retry
    obtain perm nextAt where f: "failure_record now d = (perm, nextAt)" by (cases "failure_record now d")
    have "recorded dbnow now res r = r\<lparr>dc_FailedPermanently := perm, dc_LeaseExpiresAt := nextAt\<rparr>"
      if "r \<in> set rows" "dc_ID r = dc_ID d" for r
      using same[OF that] Retry f by (simp add: recorded_def)
    then show ?thesis using Retry f by (simp add: record_outcome_def record_failure_def update_rows_def key)
  qed (simp_all add: record_outcome_def record_failure_def record_success_def update_rows_def recorded_def key)
qed

lemma dom_outcomes: "dom (map_of (map (\<lambda>(d, res). (dc_ID d, res)) ps)) = dc_ID ` fst ` set ps"
  by (simp add: dom_map_of_conv_image_fst image_image split_def)

lemma record_all:
  assumes "distinct (map dc_ID rows)" "\<And>d. d \<in> fst ` set ps \<Longrightarrow> d \<in> set rows" "\<And>r. r \<in> set rows \<Longrightarrow> dc_ID r \<noteq> None"
    and "distinct (map (dc_ID \<circ> fst) ps)"
  shows "fold (\<lambda>(d, res). record_outcome dbnow now d res) ps rows
    = map (\<lambda>r. case map_of (map (\<lambda>(d, res). (dc_ID d, res)) ps) (dc_ID r) of None \<Rightarrow> r | Some res \<Rightarrow> recorded dbnow now res r) rows"
  using assms
proof (induction ps arbitrary: rows)
  case (Cons p ps)
  obtain d res where p: "p = (d, res)" by (cases p)
  let ?g = "\<lambda>r. if dc_ID r = dc_ID d then recorded dbnow now res r else r"
  have step: "record_outcome dbnow now d res rows = map ?g rows"
    using Cons.prems p by (intro record_outcome_row) auto
  have d: "dc_ID d \<notin> dc_ID ` fst ` set ps" using Cons.prems(4) p by force
  have "x \<in> set (map ?g rows)" if "x \<in> fst ` set ps" for x
  proof -
    have "x \<in> set rows" using that Cons.prems(2)[of x] by auto
    moreover have "dc_ID x \<noteq> dc_ID d" using that d by (metis imageI)
    ultimately show ?thesis by force
  qed
  note mem = this
  have IDs: "map dc_ID (map ?g rows) = map dc_ID rows" by simp
  have "fold (\<lambda>(d, res). record_outcome dbnow now d res) ps (map ?g rows)
      = map (\<lambda>r. case map_of (map (\<lambda>(d, res). (dc_ID d, res)) ps) (dc_ID r) of None \<Rightarrow> r | Some res \<Rightarrow> recorded dbnow now res r)
          (map ?g rows)"
  proof (rule Cons.IH)
    show "distinct (map dc_ID (map ?g rows))" unfolding IDs by (rule Cons.prems(1))
    show "dc_ID r \<noteq> None" if "r \<in> set (map ?g rows)" for r
    proof -
      have "dc_ID r \<in> set (map dc_ID rs)" if "r \<in> set rs" for rs using that by simp
      from this[OF that] show ?thesis unfolding IDs using Cons.prems(3) by auto
    qed
    show "distinct (map (dc_ID \<circ> fst) ps)" using Cons.prems(4) by (simp add: comp_def)
  qed (rule mem)
  moreover have "map_of (map (\<lambda>(d, res). (dc_ID d, res)) ps) (dc_ID d) = None"
    using d by (force simp: map_of_eq_None_iff)
  ultimately show ?case by (simp add: p step cong: if_cong)
qed simp

section \<open>One pass\<close>

text \<open>A pass over a table: the claim, then the outcomes of the claimed rows, whatever they are.\<close>

definition pass_rows :: "int \<Rightarrow> int \<Rightarrow> (uuid \<Rightarrow> bool) \<Rightarrow> ('a delivery_cols_scheme \<Rightarrow> bool) \<Rightarrow> outcome list
    \<Rightarrow> 'a delivery_cols_scheme list \<Rightarrow> 'a delivery_cols_scheme list" where
  "pass_rows dbnow now locked eligible outs rows =
     (case claim_rows dbnow worker_maxAttempts worker_batchSize locked eligible rows of
        (claimed, rows') \<Rightarrow> fold (\<lambda>(d, res). record_outcome dbnow now d res) (zip claimed outs) rows')"

definition keyed :: "'a delivery_cols_scheme list \<Rightarrow> bool" where
  "keyed rows \<longleftrightarrow> distinct (map dc_ID rows) \<and> (\<forall>r \<in> set rows. dc_ID r \<noteq> None)"

definition claimed_ids :: "int \<Rightarrow> (uuid \<Rightarrow> bool) \<Rightarrow> ('a delivery_cols_scheme \<Rightarrow> bool) \<Rightarrow> 'a delivery_cols_scheme list \<Rightarrow> uuid set" where
  "claimed_ids dbnow locked eligible rows = set (claim_ids dbnow worker_maxAttempts worker_batchSize locked eligible rows)"

lemma claimed_idsD:
  assumes "i \<in> claimed_ids dbnow locked eligible rows"
  shows "\<exists>r \<in> set rows. dc_ID r = i \<and> eligible r \<and> claimable dbnow worker_maxAttempts r \<and> \<not> locked i"
  using assms by (auto simp: claimed_ids_def claim_ids_def dest!: in_set_takeD)

lemma claimed_some:
  assumes "r \<in> set rows" "eligible r" "claimable dbnow worker_maxAttempts r" "\<not> locked (dc_ID r)"
  shows "claimed_ids dbnow locked eligible rows \<noteq> {}"
proof -
  let ?xs = "sort_key dc_LastAttemptedAt (sort_key dc_CreatedAt
       (filter (\<lambda>q. eligible q \<and> claimable dbnow worker_maxAttempts q \<and> \<not> locked (dc_ID q)) rows))"
  have "r \<in> set ?xs" using assms by simp
  then have "take worker_batchSize ?xs \<noteq> []" by (cases ?xs) (auto simp: worker_batchSize_def)
  then show ?thesis by (simp add: claimed_ids_def claim_ids_def)
qed

lemma pass_rows_map:
  assumes "keyed rows" "length outs = length (fst (claim_rows dbnow worker_maxAttempts worker_batchSize locked eligible rows))"
  shows "\<exists>f. pass_rows dbnow now locked eligible outs rows = map (\<lambda>r. if dc_ID r \<in> claimed_ids dbnow locked eligible rows
     then recorded dbnow now (f r) (claim_row dbnow r) else r) rows"
proof -
  let ?ids = "claimed_ids dbnow locked eligible rows"
  let ?claimed = "map (claim_row dbnow) (filter (\<lambda>r. dc_ID r \<in> ?ids) rows)"
  let ?rows = "map (\<lambda>r. if dc_ID r \<in> ?ids then claim_row dbnow r else r) rows"
  have c: "claim_rows dbnow worker_maxAttempts worker_batchSize locked eligible rows = (?claimed, ?rows)"
    by (simp add: claim_rows_def claimed_ids_def update_rows_def Let_def)
  have len: "length outs = length ?claimed" using assms(2) c by simp
  have IDs: "map dc_ID ?rows = map dc_ID rows" by simp
  have z: "map fst (zip ?claimed outs) = ?claimed" using len by (metis map_fst_zip)
  have zs: "fst ` set (zip ?claimed outs) = set ?claimed" by (metis z set_map)
  have d: "distinct (map dc_ID ?claimed)" using assms(1) by (simp add: keyed_def comp_def distinct_map_filter)
  define m where "m = map_of (map (\<lambda>(d, res). (dc_ID d, res)) (zip ?claimed outs))"
  have "pass_rows dbnow now locked eligible outs rows
      = map (\<lambda>r. case m (dc_ID r) of None \<Rightarrow> r | Some res \<Rightarrow> recorded dbnow now res r) ?rows"
    unfolding pass_rows_def c prod.case m_def
  proof (rule record_all)
    show "distinct (map dc_ID ?rows)" using assms(1) unfolding IDs by (simp add: keyed_def)
    show "d \<in> set ?rows" if "d \<in> fst ` set (zip ?claimed outs)" for d using that unfolding zs by auto
    show "dc_ID r \<noteq> None" if "r \<in> set ?rows" for r using that assms(1) by (auto simp: keyed_def)
    show "distinct (map (dc_ID \<circ> fst) (zip ?claimed outs))" using d z by (metis map_map)
  qed
  also have "\<dots> = map (\<lambda>r. if dc_ID r \<in> ?ids then recorded dbnow now (the (m (dc_ID r))) (claim_row dbnow r) else r) rows"
  proof -
    have dom: "i \<in> dom m \<longleftrightarrow> i \<in> ?ids \<and> i \<in> dc_ID ` set rows" for i
      unfolding m_def dom_outcomes zs by (auto simp: image_iff)
    have none: "m i = None" if "i \<notin> ?ids" for i using that dom by (metis domIff)
    have some: "\<exists>res. m (dc_ID r) = Some res" if "r \<in> set rows" "dc_ID r \<in> ?ids" for r
      using that dom by (metis domD imageI)
    show ?thesis unfolding map_map comp_def
    proof (intro map_cong refl)
      fix r assume "r \<in> set rows"
      then show "(case m (dc_ID (if dc_ID r \<in> ?ids then claim_row dbnow r else r)) of None \<Rightarrow> (if dc_ID r \<in> ?ids then claim_row dbnow r else r)
          | Some res \<Rightarrow> recorded dbnow now res (if dc_ID r \<in> ?ids then claim_row dbnow r else r))
        = (if dc_ID r \<in> ?ids then recorded dbnow now (the (m (dc_ID r))) (claim_row dbnow r) else r)"
        using none[of "dc_ID r"] some[of r] by (cases "dc_ID r \<in> ?ids") auto
    qed
  qed
  finally show ?thesis by (intro exI[of _ "\<lambda>r. the (m (dc_ID r))"])
qed

section \<open>Progress\<close>

text \<open>Attempts left; a row that is not settled has some left, and its lease ends by \<open>t\<close>.\<close>

definition budget :: "'a delivery_cols_scheme \<Rightarrow> nat" where
  "budget d = (if settled d then 0 else nat (worker_maxAttempts - dc_AttemptCount d))"

definition pending_by :: "int \<Rightarrow> 'a delivery_cols_scheme \<Rightarrow> bool" where
  "pending_by t d \<longleftrightarrow> settled d \<or> (0 \<le> dc_AttemptCount d \<and> dc_AttemptCount d < worker_maxAttempts
     \<and> (\<forall>l. dc_LeaseExpiresAt d = Some l \<longrightarrow> l \<le> t))"

lemma claimable_not_settled: "claimable t n d \<Longrightarrow> \<not> settled d"
  by (simp add: claimable_def settled_def)

lemma claimable_pending: "pending_by t d \<Longrightarrow> \<not> settled d \<Longrightarrow> t < dbnow \<Longrightarrow> claimable dbnow worker_maxAttempts d"
  by (auto simp: pending_by_def settled_def claimable_def split: option.split)

lemma recorded_budget:
  assumes "claimable dbnow worker_maxAttempts d"
  shows "budget (recorded dbnow now res (claim_row dbnow d)) < budget d"
  using assms
  by (cases res) (auto simp: recorded_def failure_record_def Let_def budget_def settled_def claimable_def worker_maxAttempts_def
      split: if_splits)

lemma recorded_pending:
  assumes "pending_by t d" "claimable dbnow worker_maxAttempts d"
  shows "pending_by (max dbnow now + minutes 5) (recorded dbnow now res (claim_row dbnow d))"
  using assms
  by (cases res) (auto simp: recorded_def failure_record_def Let_def pending_by_def settled_def claimable_def worker_maxAttempts_def
      retryDelay_def minutes_def split: if_splits)

lemma pending_by_mono: "pending_by t d \<Longrightarrow> t \<le> t' \<Longrightarrow> pending_by t' d"
  by (auto simp: pending_by_def)

definition backlog :: "'a delivery_cols_scheme list \<Rightarrow> nat" where
  "backlog rows = sum_list (map budget rows)"

lemma backlog_zero:
  assumes "backlog rows = 0" "d \<in> set rows" "pending_by t d"
  shows "settled d"
proof -
  from assms(1,2) have "budget d = 0" by (auto simp: backlog_def)
  with assms(3) show ?thesis by (auto simp: budget_def pending_by_def split: if_splits)
qed

lemma sum_list_less:
  "\<forall>x \<in> set xs. f x \<le> g x \<Longrightarrow> x \<in> set xs \<Longrightarrow> f x < g x \<Longrightarrow> sum_list (map f xs) < sum_list (map g xs)"
  for f g :: "'a \<Rightarrow> nat"
  by (induction xs) (auto intro: add_less_le_mono add_le_less_mono sum_list_mono)

definition stable_eligible :: "('a delivery_cols_scheme \<Rightarrow> bool) \<Rightarrow> bool" where
  "stable_eligible E \<longleftrightarrow> (\<forall>dbnow now res d. E (recorded dbnow now res (claim_row dbnow d)) = E d)"

lemma pass_progress:
  fixes now dbnow :: int and rows :: "'a delivery_cols_scheme list"
  assumes k: "keyed rows" and E: "stable_eligible E"
    and len: "length outs = length (fst (claim_rows dbnow worker_maxAttempts worker_batchSize (\<lambda>_. False) E rows))"
    and pend: "\<forall>d \<in> set (filter E rows). pending_by t d" and t: "t < dbnow"
  defines "rows' \<equiv> pass_rows dbnow now (\<lambda>_. False) E outs rows"
  shows "keyed rows' \<and> (\<forall>d \<in> set (filter E rows'). pending_by (max dbnow now + minutes 5) d)
    \<and> backlog (filter E rows') \<le> backlog (filter E rows) - 1"
proof -
  let ?C = "claimed_ids dbnow (\<lambda>_. False) E rows"
  from pass_rows_map[OF k len] obtain f where
      rows': "rows' = map (\<lambda>r. if dc_ID r \<in> ?C then recorded dbnow now (f r) (claim_row dbnow r) else r) rows"
    unfolding rows'_def by blast
  define g where "g = (\<lambda>r. if dc_ID r \<in> ?C then recorded dbnow now (f r) (claim_row dbnow r) else r)"
  have g: "rows' = map g rows" unfolding rows' g_def ..
  have claimed: "E r \<and> claimable dbnow worker_maxAttempts r" if "r \<in> set rows" "dc_ID r \<in> ?C" for r
  proof -
    from claimed_idsD[OF that(2)] obtain r0 where r0: "r0 \<in> set rows" "dc_ID r0 = dc_ID r" "E r0" "claimable dbnow worker_maxAttempts r0"
      by blast
    then have "r0 = r" using k that(1) unfolding keyed_def distinct_map by (metis inj_onD)
    with r0 show ?thesis by simp
  qed
  have "map dc_ID rows' = map dc_ID rows" by (simp add: g g_def)
  then have keyed': "keyed rows'" using k unfolding keyed_def by (metis (no_types, lifting) in_set_conv_nth length_map nth_map)
  have Eg: "E (g r) = E r" for r using E by (simp add: g_def stable_eligible_def)
  then have filt: "filter E rows' = map g (filter E rows)" by (simp add: g filter_map comp_def)
  have later: "t \<le> max dbnow now + minutes 5" using t by (simp add: minutes_def)
  have "pending_by (max dbnow now + minutes 5) (g r)" if "r \<in> set (filter E rows)" for r
    using pend that claimed[of r] recorded_pending[of t r dbnow now] pending_by_mono[OF _ later] by (auto simp: g_def)
  then have pend': "\<forall>d \<in> set (filter E rows'). pending_by (max dbnow now + minutes 5) d" unfolding filt by auto
  have le: "budget (g r) \<le> budget r" if "r \<in> set rows" for r
    using recorded_budget[of dbnow r now] claimed[OF that] by (auto simp: g_def less_imp_le)
  have "backlog (filter E rows') \<le> backlog (filter E rows) - 1"
  proof (cases "\<exists>r \<in> set (filter E rows). \<not> settled r")
    case True
    then obtain r where r: "r \<in> set rows" "E r" "\<not> settled r" by auto
    then have "claimable dbnow worker_maxAttempts r" using pend t claimable_pending[of t r dbnow] by auto
    then have "?C \<noteq> {}" using r by (intro claimed_some[of r]) simp_all
    then obtain i where "i \<in> ?C" by blast
    from claimed_idsD[OF this] obtain r0 where r0: "r0 \<in> set rows" "dc_ID r0 \<in> ?C" "E r0" "claimable dbnow worker_maxAttempts r0"
      using \<open>i \<in> ?C\<close> by auto
    then have "budget (g r0) < budget r0" using recorded_budget by (simp add: g_def)
    then have "sum_list (map (\<lambda>r. budget (g r)) (filter E rows)) < sum_list (map budget (filter E rows))"
      using r0 le by (intro sum_list_less[of _ _ _ r0]) auto
    then show ?thesis by (simp add: backlog_def filt comp_def)
  next
    case False
    then have "budget (g r) = 0" if "r \<in> set (filter E rows)" for r
      using that le[of r] by (force simp: budget_def)
    then have z: "sum_list (map (\<lambda>r. budget (g r)) (filter E rows)) = 0" by simp
    show ?thesis by (simp only: backlog_def filt map_map comp_def z le0)
  qed
  with keyed' pend' show ?thesis by blast
qed

section \<open>The two workers\<close>

text \<open>Recording an outcome leaves what an attempt reads, so the outcomes of a pass are a list fixed by the claim.\<close>

lemma webhook_fold:
  "\<exists>outs. length outs = length claimed \<and> webhook_deliveries (fold (webhook_deliver w) claimed s)
     = fold (\<lambda>(d, res). record_outcome (env_db_now (wk_env w)) (env_now (wk_env w)) d res) (zip claimed outs) (webhook_deliveries s)"
proof (induction claimed arbitrary: s)
  case (Cons d ds)
  let ?res = "webhook_attempt w s d"
  have r: "webhook_deliveries (webhook_deliver w d s)
      = record_outcome (env_db_now (wk_env w)) (env_now (wk_env w)) d ?res (webhook_deliveries s)"
    by (simp add: webhook_deliver_def webhook_record_def record_outcome_def RecordWebhookDeliverySuccess_def
        RecordWebhookDeliveryFailure_def split: outcome.split prod.split)
  from Cons.IH[of "webhook_deliver w d s"] obtain outs where "length outs = length ds"
      "webhook_deliveries (fold (webhook_deliver w) ds (webhook_deliver w d s))
       = fold (\<lambda>(d, res). record_outcome (env_db_now (wk_env w)) (env_now (wk_env w)) d res) (zip ds outs)
           (webhook_deliveries (webhook_deliver w d s))" by blast
  then show ?case by (intro exI[of _ "?res # outs"]) (simp add: r)
qed simp

lemma email_fold:
  "\<exists>outs. length outs = length claimed \<and> notifications (fold (email_deliver w) claimed s)
     = fold (\<lambda>(d, res). record_outcome (env_db_now (wk_env w)) (env_now (wk_env w)) d res) (zip claimed outs) (notifications s)"
proof (induction claimed arbitrary: s)
  case (Cons d ds)
  let ?res = "email_attempt w s d"
  have "?res \<noteq> PermanentFailure" by (simp add: email_attempt_def split: sum.split)
  then have r: "notifications (email_deliver w d s)
      = record_outcome (env_db_now (wk_env w)) (env_now (wk_env w)) d ?res (notifications s)"
    by (cases ?res) (simp_all add: email_deliver_def email_record_def record_outcome_def RecordEmailDeliverySuccess_def
        RecordEmailDeliveryFailure_def split: prod.split)
  from Cons.IH[of "email_deliver w d s"] obtain outs where "length outs = length ds"
      "notifications (fold (email_deliver w) ds (email_deliver w d s))
       = fold (\<lambda>(d, res). record_outcome (env_db_now (wk_env w)) (env_now (wk_env w)) d res) (zip ds outs)
           (notifications (email_deliver w d s))" by blast
  then show ?case by (intro exI[of _ "?res # outs"]) (simp add: r)
qed simp

lemma webhook_pass:
  "\<exists>outs. length outs = length (fst (claim_rows (env_db_now (wk_env w)) worker_maxAttempts worker_batchSize locked (\<lambda>_. True) (webhook_deliveries s)))
     \<and> webhook_deliveries (webhook_runOnce w locked s)
       = pass_rows (env_db_now (wk_env w)) (env_now (wk_env w)) locked (\<lambda>_. True) outs (webhook_deliveries s)"
proof (cases "claim_rows (env_db_now (wk_env w)) worker_maxAttempts worker_batchSize locked (\<lambda>_. True) (webhook_deliveries s)")
  case (Pair claimed rows)
  with webhook_fold[of claimed w "s\<lparr>webhook_deliveries := rows\<rparr>"] show ?thesis
    by (simp add: webhook_runOnce_def ClaimWebhookDeliveriesForDelivery_def pass_rows_def)
qed

abbreviation is_email :: "notification_row \<Rightarrow> bool" where
  "is_email n \<equiv> nt_Channel n = NotificationChannelEmail"

lemma email_pass:
  "\<exists>outs. length outs = length (fst (claim_rows (env_db_now (wk_env w)) worker_maxAttempts worker_batchSize locked is_email (notifications s)))
     \<and> notifications (email_runOnce w locked s)
       = pass_rows (env_db_now (wk_env w)) (env_now (wk_env w)) locked is_email outs (notifications s)"
proof (cases "claim_rows (env_db_now (wk_env w)) worker_maxAttempts worker_batchSize locked is_email (notifications s)")
  case (Pair claimed rows)
  with email_fold[of claimed w "s\<lparr>notifications := rows\<rparr>"] show ?thesis
    by (simp add: email_runOnce_def ClaimEmailNotificationsForDelivery_def pass_rows_def)
qed

lemma stable_all: "stable_eligible (\<lambda>_. True)"
  by (simp add: stable_eligible_def)

lemma stable_email: "stable_eligible is_email"
  by (simp add: stable_eligible_def recorded_def claim_row_def split: outcome.split prod.split)

text \<open>Passes one after the other, each later than the leases the one before it may have set.\<close>

fun spaced :: "int \<Rightarrow> worker_env list \<Rightarrow> bool" where
  "spaced t [] \<longleftrightarrow> True"
| "spaced t (w # ws) \<longleftrightarrow> t < env_db_now (wk_env w)
     \<and> spaced (max (env_db_now (wk_env w)) (env_now (wk_env w)) + minutes 5) ws"

fun passes :: "(worker_env \<Rightarrow> (uuid \<Rightarrow> bool) \<Rightarrow> notify_db \<Rightarrow> notify_db) \<Rightarrow> worker_env list \<Rightarrow> notify_db \<Rightarrow> notify_db" where
  "passes run [] s = s"
| "passes run (w # ws) s = passes run ws (run w (\<lambda>_. False) s)"

text \<open>What a worker promises of its table: a run is one pass over the eligible rows.\<close>

locale delivery_worker =
  fixes table :: "notify_db \<Rightarrow> 'a delivery_cols_scheme list"
    and run :: "worker_env \<Rightarrow> (uuid \<Rightarrow> bool) \<Rightarrow> notify_db \<Rightarrow> notify_db"
    and eligible :: "'a delivery_cols_scheme \<Rightarrow> bool"
  assumes pass: "\<exists>outs. length outs = length (fst (claim_rows (env_db_now (wk_env w)) worker_maxAttempts worker_batchSize locked
        eligible (table s)))
      \<and> table (run w locked s) = pass_rows (env_db_now (wk_env w)) (env_now (wk_env w)) locked eligible outs (table s)"
    and stable: "stable_eligible eligible"
begin

lemma run_progress:
  assumes "keyed (table s)" "\<forall>d \<in> set (filter eligible (table s)). pending_by t d" "t < env_db_now (wk_env w)"
  shows "keyed (table (run w (\<lambda>_. False) s))
    \<and> (\<forall>d \<in> set (filter eligible (table (run w (\<lambda>_. False) s))).
         pending_by (max (env_db_now (wk_env w)) (env_now (wk_env w)) + minutes 5) d)
    \<and> backlog (filter eligible (table (run w (\<lambda>_. False) s))) \<le> backlog (filter eligible (table s)) - 1"
proof -
  from pass[of w "\<lambda>_. False" s] obtain outs where
      len: "length outs = length (fst (claim_rows (env_db_now (wk_env w)) worker_maxAttempts worker_batchSize (\<lambda>_. False)
        eligible (table s)))"
      and p: "table (run w (\<lambda>_. False) s)
        = pass_rows (env_db_now (wk_env w)) (env_now (wk_env w)) (\<lambda>_. False) eligible outs (table s)" by blast
  show ?thesis unfolding p by (rule pass_progress[OF assms(1) stable len assms(2,3)])
qed

lemma passes_settle:
  assumes "keyed (table s)" "\<forall>d \<in> set (filter eligible (table s)). pending_by t d" "spaced t ws"
    and "backlog (filter eligible (table s)) \<le> length ws"
  shows "\<forall>d \<in> set (filter eligible (table (passes run ws s))). settled d"
  using assms
proof (induction ws arbitrary: s t)
  case Nil
  then have "backlog (filter eligible (table s)) = 0" by simp
  with Nil(2) show ?case by (auto intro: backlog_zero[of "filter eligible (table s)"])
next
  case (Cons w ws)
  let ?s = "run w (\<lambda>_. False) s"
  have p: "keyed (table ?s)" "\<forall>d \<in> set (filter eligible (table ?s)).
        pending_by (max (env_db_now (wk_env w)) (env_now (wk_env w)) + minutes 5) d"
      "backlog (filter eligible (table ?s)) \<le> backlog (filter eligible (table s)) - 1"
    using run_progress[OF Cons.prems(1,2), of w] Cons.prems(3) by simp_all
  have "backlog (filter eligible (table ?s)) \<le> length ws" using p(3) Cons.prems(4) by simp
  then show ?case using Cons.IH[OF p(1,2)] Cons.prems(3) by simp
qed

end

interpretation webhook_worker: delivery_worker webhook_deliveries webhook_runOnce "\<lambda>_. True"
  by unfold_locales (rule webhook_pass, rule stable_all)

interpretation email_worker: delivery_worker notifications email_runOnce is_email
  by unfold_locales (rule email_pass, rule stable_email)

text \<open>
  C39: every delivery is settled.  Whatever the endpoints answer and whether or not the mails go out, a
  worker that runs alone, with nothing new arriving and its passes further apart than the longest lease,
  has sent or dead-lettered every delivery of its table after as many passes as attempts were left in
  total, at most three for each delivery.
\<close>

theorem deliveries_settle:
  assumes "keyed (webhook_deliveries s)" "\<forall>d \<in> set (webhook_deliveries s). pending_by t d"
    and "keyed (notifications s)" "\<forall>n \<in> set (filter is_email (notifications s)). pending_by t n" "spaced t ws"
  shows "(backlog (webhook_deliveries s) \<le> length ws \<longrightarrow>
      (\<forall>d \<in> set (webhook_deliveries (passes webhook_runOnce ws s)). settled d))
    \<and> (backlog (filter is_email (notifications s)) \<le> length ws \<longrightarrow>
      (\<forall>n \<in> set (filter is_email (notifications (passes email_runOnce ws s))). settled n))
    \<and> backlog (webhook_deliveries s) \<le> 3 * length (webhook_deliveries s)"
proof -
  have "budget d \<le> 3" if "pending_by t d" for d :: webhook_delivery_row
    using that by (auto simp: budget_def pending_by_def worker_maxAttempts_def)
  then have "backlog rows \<le> 3 * length rows" if "\<forall>d \<in> set rows. pending_by t d" for rows :: "webhook_delivery_row list"
    using that by (induction rows) (force simp: backlog_def)+
  then show ?thesis using webhook_worker.passes_settle[of s t ws] email_worker.passes_settle[of s t ws] assms by simp
qed

definition demo_delivery :: webhook_delivery_row where
  "demo_delivery = \<lparr>dc_ID = Some 400, dc_AttemptCount = 0, dc_LastAttemptedAt = None, dc_LeaseExpiresAt = None, dc_SentAt = None,
     dc_FailedPermanently = False, dc_CreatedAt = Some 1, wd_OrganizationID = Some 1, wd_EndpointID = Some 300, wd_OutboxID = Some 200,
     wd_EventType = NotificationEventTypeMatchStarted, wd_EntityType = ''match'', wd_EntityID = Some 30, wd_Payload = empty_object\<rparr>"

definition demo_mail :: notification_row where
  "demo_mail = \<lparr>dc_ID = Some 401, dc_AttemptCount = 2, dc_LastAttemptedAt = Some 1, dc_LeaseExpiresAt = Some 2, dc_SentAt = None,
     dc_FailedPermanently = False, dc_CreatedAt = Some 1, nt_OrganizationID = Some 1, nt_UserID = Some 8, nt_OutboxID = Some 200,
     nt_Channel = NotificationChannelEmail, nt_EventType = NotificationEventTypeMatchStarted, nt_EntityType = ''match'',
     nt_EntityID = Some 30, nt_Payload = empty_object, nt_ReadAt = None, nt_DeletedAt = None\<rparr>"

definition demo_endpoint :: webhook_endpoint_row where
  "demo_endpoint = \<lparr>we_ID = Some 300, we_OrganizationID = Some 1, we_Url = ''https://a.b'', we_SecretCiphertext = ''s'',
     we_Description = None, we_Active = True, we_CreatedBy = Some 7, we_CreatedAt = Some 1, we_UpdatedAt = Some 1\<rparr>"

definition demo_notify :: "outbox_row list \<Rightarrow> notification_row list \<Rightarrow> webhook_delivery_row list \<Rightarrow> notify_db" where
  "demo_notify es ns ds = \<lparr>accounts = (demo_accounts [demo_user 7 UserStatusActive, demo_user 8 UserStatusActive] [])
       \<lparr>user_organization_roles := [demo_grant 70 7 (Some 1) (Some 51), demo_grant 71 8 (Some 1) (Some 51)],
        tables := (demo_db TournamentStatusOngoing)\<lparr>notification_outbox := es\<rparr>\<rparr>,
     notifications = ns, notification_preferences = [], webhook_endpoints = [demo_endpoint], webhook_deliveries = ds\<rparr>"

definition demo_worker :: "int \<Rightarrow> worker_env" where
  "demo_worker t = \<lparr>wk_env = (demo_env 90 t)\<lparr>env_db_now := t\<rparr>, wk_gcm = demo_gcm, wk_key = replicate 32 CHR ''k'',
     wk_marshal = (\<lambda>p. Some ''{}''), wk_unix = (\<lambda>t. ''0''), wk_hmac = (\<lambda>k m. k), wk_valid_url = (\<lambda>u. True),
     wk_post = (\<lambda>q. Some 503), wk_send = (\<lambda>a n l u. False), wk_base_url = ''b''\<rparr>"

lemma deliveries_settle_witness:
  "list_all settled (webhook_deliveries (passes webhook_runOnce (map demo_worker [10, 1000000000, 2000000000])
       (demo_notify [] [demo_mail] [demo_delivery])))
   \<and> list_all settled (filter is_email (notifications (passes email_runOnce (map demo_worker [10, 1000000000, 2000000000])
       (demo_notify [] [demo_mail] [demo_delivery]))))"
  unfolding list_all_iff
  using deliveries_settle[where s = "demo_notify [] [demo_mail] [demo_delivery]" and t = 5
      and ws = "map demo_worker [10, 1000000000, 2000000000]"]
  by (simp add: demo_notify_def demo_mail_def demo_delivery_def demo_worker_def demo_env_def keyed_def pending_by_def settled_def
      backlog_def budget_def worker_maxAttempts_def minutes_def)

text \<open>
  A delivery whose third attempt was claimed and never recorded is neither sent nor dead-lettered, and no
  pass of any worker takes it again.
\<close>

lemma crashed_last_attempt_stuck:
  assumes "dc_AttemptCount d \<ge> worker_maxAttempts" "\<not> settled d"
  shows "\<not> claimable now worker_maxAttempts d \<and> \<not> dc_FailedPermanently d \<and> dc_SentAt d = None"
  using assms by (simp add: claimable_def settled_def)

text \<open>A late failure of the first attempt takes back a dead letter, which then stays unclaimable.\<close>

lemma stale_failure_revives_dead_letter:
  assumes "dc_AttemptCount d = 1" "dc_AttemptCount r = 3" "dc_FailedPermanently r"
  shows "\<not> dc_FailedPermanently (case failure_record now d of (perm, nextAt) \<Rightarrow>
     r\<lparr>dc_FailedPermanently := perm, dc_LeaseExpiresAt := nextAt\<rparr>)"
  using assms by (simp add: failure_record_def worker_maxAttempts_def)

end
