(* ===== verification/Drain_Properties.thy ===== *)
theory Drain_Properties
  imports Delivery_Properties
begin

text \<open>
  The fan-out of the outbox: what one drain adds to the tables, and that no entry is fanned out twice in
  any interleaving of drains, domain transactions, workers, requests and cleanups.
\<close>

section \<open>Growth of the tables\<close>

definition nkey :: "notification_row \<Rightarrow> uuid \<times> uuid \<times> NotificationChannel" where
  "nkey n = (nt_OutboxID n, nt_UserID n, nt_Channel n)"

definition dkey :: "webhook_delivery_row \<Rightarrow> uuid \<times> uuid" where
  "dkey d = (wd_OutboxID d, wd_EndpointID d)"

definition is_inapp :: "notification_row \<Rightarrow> bool" where
  "is_inapp n \<longleftrightarrow> nt_Channel n = NotificationChannelInApp"

definition mark :: "env \<Rightarrow> uuid set \<Rightarrow> outbox_row list \<Rightarrow> outbox_row list" where
  "mark ev M = update_rows (\<lambda>e. ob_ID e \<in> M) (\<lambda>e. e\<lparr>ob_ProcessedAt := Some (env_db_now ev)\<rparr>)"

definition fresh_rows :: "'a delivery_cols_scheme list \<Rightarrow> bool" where
  "fresh_rows rows \<longleftrightarrow> (\<forall>r \<in> set rows. dc_AttemptCount r = 0)"

lemma fresh_rows_simps [simp]: "fresh_rows []" "fresh_rows (xs @ ys) \<longleftrightarrow> fresh_rows xs \<and> fresh_rows ys"
    "fresh_rows (x # xs) \<longleftrightarrow> dc_AttemptCount x = 0 \<and> fresh_rows xs"
  by (auto simp: fresh_rows_def)

text \<open>From \<open>s\<close> to \<open>s'\<close> the rows with keys \<open>N\<close> and \<open>D\<close> were added where missing, and the entries \<open>M\<close> marked.\<close>

definition grows :: "env \<Rightarrow> notify_db \<Rightarrow> notification_row list \<Rightarrow> notify_db \<Rightarrow> notification_row list
    \<Rightarrow> (uuid \<times> uuid \<times> NotificationChannel) set \<Rightarrow> (uuid \<times> uuid) set \<Rightarrow> uuid set \<Rightarrow> bool" where
  "grows ev s c s' c' N D M \<longleftrightarrow>
     (\<exists>new. notifications s' = notifications s @ new \<and> c' = c @ filter is_inapp new \<and> fresh_rows new)
   \<and> (\<exists>new. webhook_deliveries s' = webhook_deliveries s @ new \<and> fresh_rows new)
   \<and> nkey ` set (notifications s') = nkey ` set (notifications s) \<union> N
   \<and> dkey ` set (webhook_deliveries s') = dkey ` set (webhook_deliveries s) \<union> D
   \<and> (distinct (map nkey (notifications s)) \<longrightarrow> distinct (map nkey (notifications s')))
   \<and> (distinct (map dkey (webhook_deliveries s)) \<longrightarrow> distinct (map dkey (webhook_deliveries s')))
   \<and> (keyed (notifications s) \<longrightarrow> keyed (notifications s'))
   \<and> (keyed (webhook_deliveries s) \<longrightarrow> keyed (webhook_deliveries s'))
   \<and> outbox s' = mark ev M (outbox s) \<and> notification_preferences s' = notification_preferences s
   \<and> webhook_endpoints s' = webhook_endpoints s
   \<and> user_organization_roles (accounts s') = user_organization_roles (accounts s)
   \<and> organizations (tables (accounts s')) = organizations (tables (accounts s))"

lemma mark_empty [simp]: "mark ev {} es = es"
  by (simp add: mark_def update_rows_def)

lemma mark_mark [simp]: "mark ev M2 (mark ev M1 es) = mark ev (M1 \<union> M2) es"
  by (auto simp: mark_def update_rows_def)

lemma grows_refl: "grows ev s c s c {} {} {}"
  by (simp add: grows_def)

lemma grows_trans:
  assumes "grows ev s c s1 c1 N D M" "grows ev s1 c1 s2 c2 N2 D2 M2"
  shows "grows ev s c s2 c2 (N \<union> N2) (D \<union> D2) (M \<union> M2)"
proof -
  from assms obtain new new1 del del1 where
      "notifications s1 = notifications s @ new" "c1 = c @ filter is_inapp new"
      "notifications s2 = notifications s1 @ new1" "c2 = c1 @ filter is_inapp new1"
      "webhook_deliveries s1 = webhook_deliveries s @ del" "webhook_deliveries s2 = webhook_deliveries s1 @ del1"
      "fresh_rows new" "fresh_rows new1" "fresh_rows del" "fresh_rows del1"
    unfolding grows_def by (elim conjE exE) (rule that)
  then have new: "\<exists>new. notifications s2 = notifications s @ new \<and> c2 = c @ filter is_inapp new \<and> fresh_rows new"
      "\<exists>new. webhook_deliveries s2 = webhook_deliveries s @ new \<and> fresh_rows new" by simp_all
  note a = assms(1)[unfolded grows_def] and b = assms(2)[unfolded grows_def]
  have sets: "nkey ` set (notifications s2) = nkey ` set (notifications s) \<union> (N \<union> N2)"
      "dkey ` set (webhook_deliveries s2) = dkey ` set (webhook_deliveries s) \<union> (D \<union> D2)"
    using a b by (metis (no_types) Un_assoc)+
  have outb: "outbox s2 = mark ev (M \<union> M2) (outbox s)" using a b by (metis (no_types) mark_mark)
  have same: "notification_preferences s2 = notification_preferences s" "webhook_endpoints s2 = webhook_endpoints s"
      "user_organization_roles (accounts s2) = user_organization_roles (accounts s)"
      "organizations (tables (accounts s2)) = organizations (tables (accounts s))"
    using a b by (metis (no_types))+
  have keep: "distinct (map nkey (notifications s)) \<longrightarrow> distinct (map nkey (notifications s2))"
      "distinct (map dkey (webhook_deliveries s)) \<longrightarrow> distinct (map dkey (webhook_deliveries s2))"
      "keyed (notifications s) \<longrightarrow> keyed (notifications s2)" "keyed (webhook_deliveries s) \<longrightarrow> keyed (webhook_deliveries s2)"
    using a b by blast+
  show ?thesis unfolding grows_def by (intro conjI new sets outb same keep)
qed

lemma each_grows:
  assumes "each f xs (s, k, c) = Inr (s', k', c')"
    and "\<And>x s k c s' k' c'. x \<in> set xs \<Longrightarrow> webhook_endpoints s = eps \<Longrightarrow> f x (s, k, c) = Inr (s', k', c')
       \<Longrightarrow> grows ev s c s' c' (N x) (D x) (M x)"
    and "webhook_endpoints s = eps"
  shows "grows ev s c s' c' (\<Union>x\<in>set xs. N x) (\<Union>x\<in>set xs. D x) (\<Union>x\<in>set xs. M x)"
  using assms
proof (induction xs arbitrary: s k c)
  case Nil
  then show ?case by (simp add: grows_refl)
next
  case (Cons x xs)
  from Cons.prems(1) obtain s1 k1 c1 where 1: "f x (s, k, c) = Inr (s1, k1, c1)" "each f xs (s1, k1, c1) = Inr (s', k', c')"
    by (auto simp: res_bind_eq_Inr)
  have g: "grows ev s c s1 c1 (N x) (D x) (M x)" using Cons.prems(2)[OF _ Cons.prems(3) 1(1)] by simp
  then have "webhook_endpoints s1 = eps" using Cons.prems(3) by (simp add: grows_def)
  with Cons.IH[OF 1(2)] Cons.prems(2) have
    "grows ev s1 c1 s' c' (\<Union>x\<in>set xs. N x) (\<Union>x\<in>set xs. D x) (\<Union>x\<in>set xs. M x)" by simp
  from grows_trans[OF g this] show ?case by simp
qed

section \<open>The steps of a drain\<close>

lemma sql_eq_known: "b \<noteq> None \<Longrightarrow> sql_eq a b \<longleftrightarrow> a = b"
  by (metis sql_eq_def)

lemma CreateNotification_Inr:
  "CreateNotification ev p s = Inr (n, s') \<Longrightarrow> n = created_notification ev p \<and> s' = s\<lparr>notifications := notifications s @ [n]\<rparr>
     \<and> (\<forall>r \<in> set (notifications s). dc_ID r \<noteq> dc_ID n)
     \<and> \<not> (\<exists>r \<in> set (notifications s). sql_eq (nt_OutboxID r) (nn_OutboxID p) \<and> sql_eq (nt_UserID r) (nn_UserID p) \<and> nt_Channel r = nn_Channel p)"
  by (auto simp: CreateNotification_def Let_def split: if_splits)

lemma CreateNotification_conflict:
  "CreateNotification ev p s = Inl ErrNoRows \<Longrightarrow>
     (\<exists>r \<in> set (notifications s). sql_eq (nt_OutboxID r) (nn_OutboxID p) \<and> sql_eq (nt_UserID r) (nn_UserID p) \<and> nt_Channel r = nn_Channel p)"
  by (auto simp: CreateNotification_def Let_def split: if_splits)

lemma drain_channel_grows:
  assumes "drain_channel ev ids cache entry member ch (s, k, c) = Inr (s', k', c')" "ob_ID entry \<noteq> None" "member \<noteq> None"
  shows "grows ev s c s' c' (if shouldNotify cache (ob_EventType entry) ch member then {(ob_ID entry, member, ch)} else {}) {} {}"
proof (cases "shouldNotify cache (ob_EventType entry) ch member")
  case False
  with assms(1) show ?thesis by (simp add: drain_channel_def grows_refl)
next
  case True
  let ?p = "notification_params ev entry member ch" and ?ev = "ev\<lparr>env_row_id := ids k\<rparr>"
  have key: "(\<exists>r \<in> set (notifications s). sql_eq (nt_OutboxID r) (nn_OutboxID ?p) \<and> sql_eq (nt_UserID r) (nn_UserID ?p)
      \<and> nt_Channel r = nn_Channel ?p) \<longleftrightarrow> (ob_ID entry, member, ch) \<in> nkey ` set (notifications s)"
    using assms(2,3) by (simp add: notification_params_def nkey_def sql_eq_known image_iff) metis
  show ?thesis
  proof (cases "CreateNotification ?ev ?p s")
    case (Inl e)
    with assms(1) True have "e = ErrNoRows" "s' = s" "c' = c" by (auto simp: drain_channel_def split: sql_error.splits)
    with CreateNotification_conflict[of ?ev ?p s] Inl key True show ?thesis
      using grows_refl[of ev s c] by (simp add: grows_def insert_absorb)
  next
    case (Inr r)
    then obtain n s1 where r: "CreateNotification ?ev ?p s = Inr (n, s1)" by (cases r) simp
    from CreateNotification_Inr[OF this] key have n: "n = created_notification ?ev ?p" "s1 = s\<lparr>notifications := notifications s @ [n]\<rparr>"
        "\<forall>r \<in> set (notifications s). dc_ID r \<noteq> dc_ID n" "(ob_ID entry, member, ch) \<notin> nkey ` set (notifications s)" by auto
    have k: "nkey n = (ob_ID entry, member, ch)" "dc_ID n \<noteq> None" "dc_AttemptCount n = 0" "is_inapp n \<longleftrightarrow> ch = NotificationChannelInApp"
      by (simp_all add: n(1) created_notification_def notification_params_def nkey_def is_inapp_def)
    from assms(1) True r have "s' = s1" "c' = (if ch = NotificationChannelInApp then c @ [n] else c)"
      by (auto simp: drain_channel_def)
    with n(2-4) k True show ?thesis by (auto simp: grows_def keyed_def)
  qed
qed

lemma CreateWebhookDelivery_Inr:
  "CreateWebhookDelivery ev p s = Inr (d, s') \<Longrightarrow> d = created_delivery ev p \<and> s' = s\<lparr>webhook_deliveries := webhook_deliveries s @ [d]\<rparr>
     \<and> (\<forall>r \<in> set (webhook_deliveries s). dc_ID r \<noteq> dc_ID d)
     \<and> \<not> (\<exists>r \<in> set (webhook_deliveries s). sql_eq (wd_OutboxID r) (cd_OutboxID p) \<and> sql_eq (wd_EndpointID r) (cd_EndpointID p))"
  by (auto simp: CreateWebhookDelivery_def Let_def split: if_splits)

lemma CreateWebhookDelivery_conflict:
  "CreateWebhookDelivery ev p s = Inl ErrNoRows \<Longrightarrow>
     (\<exists>r \<in> set (webhook_deliveries s). sql_eq (wd_OutboxID r) (cd_OutboxID p) \<and> sql_eq (wd_EndpointID r) (cd_EndpointID p))"
  by (auto simp: CreateWebhookDelivery_def Let_def split: if_splits)

lemma drain_endpoint_grows:
  assumes "drain_endpoint ev ids entry ep (s, k, c) = Inr (s', k', c')" "ob_ID entry \<noteq> None" "we_ID ep \<noteq> None"
  shows "grows ev s c s' c' {} {(ob_ID entry, we_ID ep)} {}"
proof -
  let ?p = "delivery_params entry (we_ID ep)" and ?ev = "ev\<lparr>env_row_id := ids k\<rparr>"
  have key: "(\<exists>r \<in> set (webhook_deliveries s). sql_eq (wd_OutboxID r) (cd_OutboxID ?p) \<and> sql_eq (wd_EndpointID r) (cd_EndpointID ?p))
      \<longleftrightarrow> (ob_ID entry, we_ID ep) \<in> dkey ` set (webhook_deliveries s)"
    using assms(2,3) by (simp add: delivery_params_def dkey_def sql_eq_known image_iff) metis
  show ?thesis
  proof (cases "CreateWebhookDelivery ?ev ?p s")
    case (Inl e)
    with assms(1) have "e = ErrNoRows" "s' = s" "c' = c" by (auto simp: drain_endpoint_def split: sql_error.splits)
    with CreateWebhookDelivery_conflict[of ?ev ?p s] Inl key show ?thesis
      using grows_refl[of ev s c] by (simp add: grows_def insert_absorb)
  next
    case (Inr r)
    then obtain d s1 where r: "CreateWebhookDelivery ?ev ?p s = Inr (d, s1)" by (cases r) simp
    from CreateWebhookDelivery_Inr[OF this] key have n: "d = created_delivery ?ev ?p"
        "s1 = s\<lparr>webhook_deliveries := webhook_deliveries s @ [d]\<rparr>" "\<forall>r \<in> set (webhook_deliveries s). dc_ID r \<noteq> dc_ID d"
        "(ob_ID entry, we_ID ep) \<notin> dkey ` set (webhook_deliveries s)" by auto
    have k: "dkey d = (ob_ID entry, we_ID ep)" "dc_ID d \<noteq> None" "dc_AttemptCount d = 0"
      by (simp_all add: n(1) created_delivery_def delivery_params_def dkey_def)
    from assms(1) r have "s' = s1" "c' = c" by (auto simp: drain_endpoint_def)
    with n(2-4) k show ?thesis by (auto simp: grows_def keyed_def)
  qed
qed

definition member_keys :: "pref_cache \<Rightarrow> outbox_row \<Rightarrow> uuid \<Rightarrow> (uuid \<times> uuid \<times> NotificationChannel) set" where
  "member_keys cache entry member = {(ob_ID entry, member, ch) | ch. ob_ActorID entry \<noteq> member \<and> ch \<in> set drainChannels
     \<and> shouldNotify cache (ob_EventType entry) ch member}"

lemma drain_member_grows:
  assumes "drain_member ev ids cache entry member (s, k, c) = Inr (s', k', c')" "ob_ID entry \<noteq> None" "member \<noteq> None"
  shows "grows ev s c s' c' (member_keys cache entry member) {} {}"
proof (cases "ob_ActorID entry = member")
  case True
  with assms have "s' = s" "c' = c" by (auto simp: drain_member_def)
  with True show ?thesis by (simp add: grows_refl member_keys_def)
next
  case False
  with assms(1) have e: "each (drain_channel ev ids cache entry member) drainChannels (s, k, c) = Inr (s', k', c')"
    by (simp add: drain_member_def)
  have "grows ev s c s' c' (\<Union>ch \<in> set drainChannels. if shouldNotify cache (ob_EventType entry) ch member
      then {(ob_ID entry, member, ch)} else {}) (\<Union>ch \<in> set drainChannels. {}) (\<Union>ch \<in> set drainChannels. {})"
    by (rule each_grows[OF e _ refl], rule drain_channel_grows[OF _ assms(2,3)])
  moreover have "(\<Union>ch \<in> set drainChannels. if shouldNotify cache (ob_EventType entry) ch member
      then {(ob_ID entry, member, ch)} else {}) = member_keys cache entry member"
    using False by (auto simp: member_keys_def)
  ultimately show ?thesis by simp
qed

lemma MarkOutbox_grows:
  "i \<noteq> None \<Longrightarrow> grows ev s c (MarkOutboxEntryProcessed ev i s) c {} {} {i}"
  by (auto simp: grows_def MarkOutboxEntryProcessed_def on_outbox_def on_tables_def mark_def sql_eq_known)

definition entry_dkeys :: "notify_db \<Rightarrow> uuid \<Rightarrow> outbox_row \<Rightarrow> (uuid \<times> uuid) set" where
  "entry_dkeys s orgID entry = (\<lambda>ep. (ob_ID entry, we_ID ep)) ` set (GetActiveWebhookEndpointsForOrg s orgID)"

lemma drain_entry_grows:
  assumes "drain_entry ev ids orgID cache members entry (s, k, c) = Inr (s', k', c')" "ob_ID entry \<noteq> None"
    and "\<forall>m \<in> set members. m \<noteq> None" "\<forall>ep \<in> set (webhook_endpoints s). we_ID ep \<noteq> None"
  shows "grows ev s c s' c' (\<Union>m \<in> set members. member_keys cache entry m) (entry_dkeys s orgID entry) {ob_ID entry}"
proof -
  from assms(1) obtain s1 k1 c1 s2 k2 where
      1: "each (drain_member ev ids cache entry) members (s, k, c) = Inr (s1, k1, c1)"
      and 2: "each (drain_endpoint ev ids entry) (GetActiveWebhookEndpointsForOrg s1 orgID) (s1, k1, c1) = Inr (s2, k2, c')"
      and 3: "s' = MarkOutboxEntryProcessed ev (ob_ID entry) s2"
    by (auto simp: drain_entry_def res_bind_eq_Inr)
  have "grows ev s c s1 c1 (\<Union>m \<in> set members. member_keys cache entry m) (\<Union>m \<in> set members. {}) (\<Union>m \<in> set members. {})"
    using assms(3) by (intro each_grows[OF 1 _ refl] drain_member_grows[OF _ assms(2)]) auto
  then have g1: "grows ev s c s1 c1 (\<Union>m \<in> set members. member_keys cache entry m) {} {}" by simp
  then have eps: "webhook_endpoints s1 = webhook_endpoints s" by (simp add: grows_def)
  have "grows ev s1 c1 s2 c' (\<Union>ep \<in> set (GetActiveWebhookEndpointsForOrg s1 orgID). {})
      (\<Union>ep \<in> set (GetActiveWebhookEndpointsForOrg s1 orgID). {(ob_ID entry, we_ID ep)})
      (\<Union>ep \<in> set (GetActiveWebhookEndpointsForOrg s1 orgID). {})"
    using assms(4) eps
    by (intro each_grows[OF 2 _ refl] drain_endpoint_grows[OF _ assms(2)]) (auto simp: GetActiveWebhookEndpointsForOrg_def)
  moreover have "(\<Union>ep \<in> set (GetActiveWebhookEndpointsForOrg s1 orgID). {(ob_ID entry, we_ID ep)}) = entry_dkeys s orgID entry"
    by (auto simp: entry_dkeys_def GetActiveWebhookEndpointsForOrg_def eps)
  ultimately have g2: "grows ev s1 c1 s2 c' {} (entry_dkeys s orgID entry) {}" by simp
  show ?thesis
    using grows_trans[OF grows_trans[OF g1 g2] MarkOutbox_grows[OF assms(2)]] by (simp add: 3)
qed

section \<open>Preferences\<close>

definition preference_key :: "preference_row \<Rightarrow> uuid \<times> uuid \<times> NotificationEventType \<times> NotificationChannel" where
  "preference_key p = (np_OrganizationID p, np_UserID p, np_EventType p, np_Channel p)"

text \<open>Opt-out: without a preference of the user the channel is on.\<close>

definition opted_in :: "notify_db \<Rightarrow> uuid \<Rightarrow> NotificationEventType \<Rightarrow> NotificationChannel \<Rightarrow> uuid \<Rightarrow> bool" where
  "opted_in s orgID et ch u \<longleftrightarrow> (\<forall>p \<in> set (notification_preferences s). own_preference orgID u et ch p \<longrightarrow> np_Enabled p)"

lemma fold_map_upd: "fold (\<lambda>(u, e) m. m(u \<mapsto> e)) xs m = m ++ map_of (rev xs)"
  by (induction xs arbitrary: m) (auto simp: map_add_def split: option.splits)

lemma map_of_rev_distinct: "distinct (map fst xs) \<Longrightarrow> map_of (rev xs) = map_of xs"
  by (simp add: map_of_inject_set flip: rev_map)

lemma map_of_setting:
  assumes "inj_on f (set ps)"
  shows "(case map_of (map (\<lambda>p. (f p, g p)) ps) u of None \<Rightarrow> True | Some b \<Rightarrow> b) \<longleftrightarrow> (\<forall>p \<in> set ps. f p = u \<longrightarrow> g p)"
  using assms
proof (induction ps)
  case (Cons p ps)
  show ?case
  proof (cases "f p = u")
    case True
    then have "f q \<noteq> u \<or> q = p" if "q \<in> set ps" for q using Cons.prems that True by (metis inj_onD list.set_intros)
    with True show ?thesis by auto
  next
    case False
    with Cons show ?thesis by simp
  qed
qed simp

lemma load_all:
  "fold (load_preferences s orgID) keys cache key = (if cache key \<noteq> None then cache key
     else if key \<in> set keys then Some (map_of (rev (GetNotificationPreferencesForEvent s orgID (fst key) (snd key)))) else None)"
  by (induction keys arbitrary: cache) (auto simp: load_preferences_def fold_map_upd)

lemma shouldNotify_opted_in:
  assumes "distinct (map preference_key (notification_preferences s))" "e \<in> set entries" "ch \<in> set drainChannels" "u \<noteq> None"
  shows "shouldNotify (prefCache s orgID entries) (ob_EventType e) ch u \<longleftrightarrow> opted_in s orgID (ob_EventType e) ch u"
proof -
  let ?ps = "filter (\<lambda>p. sql_eq (np_OrganizationID p) orgID \<and> np_EventType p = ob_EventType e \<and> np_Channel p = ch) (notification_preferences s)"
  let ?rows = "map (\<lambda>p. (np_UserID p, np_Enabled p)) ?ps"
  have "prefCache s orgID entries (ob_EventType e, ch) = Some (map_of (rev ?rows))"
    using assms(2,3) by (simp add: prefCache_def load_all GetNotificationPreferencesForEvent_def)
  moreover have inj: "inj_on np_UserID (set ?ps)"
    using assms(1) by (auto simp: inj_on_def distinct_map preference_key_def sql_eq_iff)
  have "distinct (map fst ?rows)"
    using assms(1) inj by (simp add: comp_def distinct_map)
  then have "map_of (rev ?rows) = map_of ?rows"
    by (rule map_of_rev_distinct)
  moreover have "(case map_of ?rows u of None \<Rightarrow> True | Some en \<Rightarrow> en) \<longleftrightarrow> opted_in s orgID (ob_EventType e) ch u"
  proof -
    have "(\<forall>p \<in> set ?ps. np_UserID p = u \<longrightarrow> np_Enabled p) \<longleftrightarrow> opted_in s orgID (ob_EventType e) ch u"
      using assms(4) by (auto simp: opted_in_def own_preference_def sql_eq_known)
    then show ?thesis unfolding map_of_setting[OF inj] .
  qed
  ultimately show ?thesis by (simp add: shouldNotify_def)
qed

section \<open>A drain\<close>

text \<open>Rows of an entry exist only once it is processed; keys are unique; schema keys are not \<open>NULL\<close>.\<close>

definition processed_ids :: "notify_db \<Rightarrow> uuid set" where
  "processed_ids s = ob_ID ` {e \<in> set (outbox s). ob_ProcessedAt e \<noteq> None}"

definition fan_ok :: "notify_db \<Rightarrow> bool" where
  "fan_ok s \<longleftrightarrow> distinct (map ob_ID (outbox s)) \<and> (\<forall>e \<in> set (outbox s). ob_ID e \<noteq> None)
   \<and> distinct (map nkey (notifications s)) \<and> keyed (notifications s) \<and> nt_OutboxID ` set (notifications s) \<subseteq> processed_ids s
   \<and> distinct (map dkey (webhook_deliveries s)) \<and> keyed (webhook_deliveries s) \<and> wd_OutboxID ` set (webhook_deliveries s) \<subseteq> processed_ids s"

definition schema_ok :: "notify_db \<Rightarrow> bool" where
  "schema_ok s \<longleftrightarrow> distinct (map preference_key (notification_preferences s)) \<and> (\<forall>ep \<in> set (webhook_endpoints s). we_ID ep \<noteq> None)
   \<and> (\<forall>g \<in> set (user_organization_roles (accounts s)). uo_UserID g \<noteq> None)
   \<and> (\<forall>org \<in> set (organizations (tables (accounts s))). o_ID org \<noteq> None)"

definition fan_nkeys :: "env \<Rightarrow> notify_db \<Rightarrow> uuid \<Rightarrow> outbox_row list \<Rightarrow> (uuid \<times> uuid \<times> NotificationChannel) set" where
  "fan_nkeys ev s orgID entries = {(ob_ID e, u, ch) | e u ch. e \<in> set entries \<and> u \<in> set (GetOrgMembersForNotification ev s orgID)
     \<and> u \<noteq> ob_ActorID e \<and> ch \<in> {NotificationChannelInApp, NotificationChannelEmail} \<and> opted_in s orgID (ob_EventType e) ch u}"

definition fan_dkeys :: "notify_db \<Rightarrow> uuid \<Rightarrow> outbox_row list \<Rightarrow> (uuid \<times> uuid) set" where
  "fan_dkeys s orgID entries = {(ob_ID e, we_ID ep) | e ep. e \<in> set entries \<and> ep \<in> set (webhook_endpoints s)
     \<and> sql_eq (we_OrganizationID ep) orgID \<and> we_Active ep}"

lemma members_some: "schema_ok s \<Longrightarrow> u \<in> set (GetOrgMembersForNotification ev s orgID) \<Longrightarrow> u \<noteq> None"
  by (auto simp: schema_ok_def GetOrgMembersForNotification_def)

lemma drained_entry: "e \<in> set (DrainOutboxEntries locked s orgID) \<Longrightarrow> e \<in> set (outbox s) \<and> ob_ProcessedAt e = None \<and> sql_eq (ob_OrganizationID e) orgID"
  by (auto simp: DrainOutboxEntries_def dest: in_set_takeD)

lemma mark_processed:
  assumes "outbox s' = mark ev M (outbox s)" "M \<subseteq> ob_ID ` set (outbox s)"
  shows "processed_ids s' = processed_ids s \<union> M"
proof -
  have "processed_ids s' = ob_ID ` {e \<in> set (outbox s). ob_ID e \<in> M \<or> ob_ProcessedAt e \<noteq> None}" (is "_ = ?R")
  proof (rule set_eqI)
    fix i
    have "i \<in> processed_ids s' \<longleftrightarrow> (\<exists>e \<in> set (outbox s). \<exists>r. r = (if ob_ID e \<in> M then e\<lparr>ob_ProcessedAt := Some (env_db_now ev)\<rparr> else e)
        \<and> ob_ID r = i \<and> ob_ProcessedAt r \<noteq> None)"
      unfolding processed_ids_def assms(1) mark_def in_update_rows image_iff by blast
    also have "\<dots> \<longleftrightarrow> i \<in> ?R" unfolding image_iff by (rule iffI; elim bexE exE conjE) (auto split: if_splits)
    finally show "i \<in> processed_ids s' \<longleftrightarrow> i \<in> ?R" .
  qed
  then show ?thesis using assms(2) by (auto simp: processed_ids_def)
qed

lemma mark_IDs [simp]: "map ob_ID (mark ev M es) = map ob_ID es"
  by (simp add: mark_def update_rows_def)

lemma DrainOutbox_grows:
  assumes "DrainOutbox ev ids locked orgID s = Inr (created, s')" "fan_ok s" "schema_ok s"
  shows "grows ev s [] s' created (fan_nkeys ev s orgID (DrainOutboxEntries locked s orgID))
     (fan_dkeys s orgID (DrainOutboxEntries locked s orgID)) (ob_ID ` set (DrainOutboxEntries locked s orgID))"
proof (cases "DrainOutboxEntries locked s orgID = []")
  case True
  with assms(1) have "s' = s" "created = []" by (auto simp: DrainOutbox_def)
  with True show ?thesis using grows_refl[of ev s "[]"] by (simp add: fan_nkeys_def fan_dkeys_def)
next
  case False
  let ?es = "DrainOutboxEntries locked s orgID" and ?ms = "GetOrgMembersForNotification ev s orgID"
  let ?cache = "prefCache s orgID ?es"
  from assms(1) False obtain k where e: "each (drain_entry ev ids orgID ?cache ?ms) ?es (s, 0, []) = Inr (s', k, created)"
    by (auto simp: DrainOutbox_def Let_def res_bind_eq_Inr)
  have "grows ev s [] s' created (\<Union>e \<in> set ?es. \<Union>m \<in> set ?ms. member_keys ?cache e m) (\<Union>e \<in> set ?es. entry_dkeys s orgID e)
      (\<Union>e \<in> set ?es. {ob_ID e})"
  proof (rule each_grows[OF e _ refl])
    fix x s1 k1 c1 s2 k2 c2
    assume x: "x \<in> set ?es" "webhook_endpoints s1 = webhook_endpoints s" "drain_entry ev ids orgID ?cache ?ms x (s1, k1, c1) = Inr (s2, k2, c2)"
    then have "ob_ID x \<noteq> None" using drained_entry[OF x(1)] assms(2) by (auto simp: fan_ok_def)
    moreover have "\<forall>m \<in> set ?ms. m \<noteq> None" "\<forall>ep \<in> set (webhook_endpoints s1). we_ID ep \<noteq> None"
      using members_some[OF assms(3)] assms(3) x(2) by (auto simp: schema_ok_def)
    moreover have "entry_dkeys s1 orgID x = entry_dkeys s orgID x" by (simp add: entry_dkeys_def GetActiveWebhookEndpointsForOrg_def x(2))
    ultimately show "grows ev s1 c1 s2 c2 (\<Union>m \<in> set ?ms. member_keys ?cache x m) (entry_dkeys s orgID x) {ob_ID x}"
      using drain_entry_grows[OF x(3)] by metis
  qed
  moreover have "(\<Union>e \<in> set ?es. \<Union>m \<in> set ?ms. member_keys ?cache e m) = fan_nkeys ev s orgID ?es"
  proof -
    have "member_keys ?cache e m = {(ob_ID e, m, ch) | ch. m \<noteq> ob_ActorID e \<and> ch \<in> {NotificationChannelInApp, NotificationChannelEmail}
        \<and> opted_in s orgID (ob_EventType e) ch m}" if "e \<in> set ?es" "m \<in> set ?ms" for e m
      using that assms(3) members_some[OF assms(3) that(2)] shouldNotify_opted_in[of s e ?es _ m orgID]
      by (auto simp: member_keys_def schema_ok_def drainChannels_def)
    then show ?thesis unfolding fan_nkeys_def by fastforce
  qed
  moreover have "(\<Union>e \<in> set ?es. entry_dkeys s orgID e) = fan_dkeys s orgID ?es"
    by (auto simp: entry_dkeys_def fan_dkeys_def GetActiveWebhookEndpointsForOrg_def)
  moreover have "(\<Union>e \<in> set ?es. {ob_ID e}) = ob_ID ` set ?es" by auto
  ultimately show ?thesis by simp
qed

lemma drained_unprocessed:
  assumes "fan_ok s" "e \<in> set (DrainOutboxEntries locked s orgID)"
  shows "ob_ID e \<notin> processed_ids s"
proof
  assume "ob_ID e \<in> processed_ids s"
  then obtain e' where e': "e' \<in> set (outbox s)" "ob_ID e' = ob_ID e" "ob_ProcessedAt e' \<noteq> None" by (auto simp: processed_ids_def)
  moreover have "distinct (map ob_ID (outbox s))" using assms by (simp add: fan_ok_def)
  ultimately have "e' = e" using drained_entry[OF assms(2)] unfolding distinct_map by (metis inj_onD)
  with e'(3) drained_entry[OF assms(2)] show False by simp
qed

lemma fan_keys_new:
  assumes "fan_ok s"
  shows "fan_nkeys ev s orgID (DrainOutboxEntries locked s orgID) \<inter> nkey ` set (notifications s) = {}"
    and "fan_dkeys s orgID (DrainOutboxEntries locked s orgID) \<inter> dkey ` set (webhook_deliveries s) = {}"
proof -
  note un = drained_unprocessed[OF assms]
  have n: "nt_OutboxID n \<in> processed_ids s" if "n \<in> set (notifications s)" for n using assms that by (auto simp: fan_ok_def)
  have d: "wd_OutboxID d \<in> processed_ids s" if "d \<in> set (webhook_deliveries s)" for d using assms that by (auto simp: fan_ok_def)
  show "fan_nkeys ev s orgID (DrainOutboxEntries locked s orgID) \<inter> nkey ` set (notifications s) = {}"
    using un n by (fastforce simp: fan_nkeys_def nkey_def)
  show "fan_dkeys s orgID (DrainOutboxEntries locked s orgID) \<inter> dkey ` set (webhook_deliveries s) = {}"
    using un d by (fastforce simp: fan_dkeys_def dkey_def)
qed

lemma drain_fan_ok:
  assumes "DrainOutbox ev ids locked orgID s = Inr (created, s')" "fan_ok s" "schema_ok s"
  shows "fan_ok s'"
proof -
  let ?es = "DrainOutboxEntries locked s orgID"
  note g = DrainOutbox_grows[OF assms, unfolded grows_def]
  have o: "outbox s' = mark ev (ob_ID ` set ?es) (outbox s)" using g by blast
  have sub: "ob_ID ` set ?es \<subseteq> ob_ID ` set (outbox s)" using drained_entry by fastforce
  note p = mark_processed[OF o sub]
  have keys: "nkey ` set (notifications s') = nkey ` set (notifications s) \<union> fan_nkeys ev s orgID ?es"
      "dkey ` set (webhook_deliveries s') = dkey ` set (webhook_deliveries s) \<union> fan_dkeys s orgID ?es" using g by blast+
  have dist: "distinct (map nkey (notifications s'))" "distinct (map dkey (webhook_deliveries s'))"
      "keyed (notifications s')" "keyed (webhook_deliveries s')" using g assms(2) by (simp_all add: fan_ok_def)
  have fan: "fst x \<in> ob_ID ` set ?es" if "x \<in> fan_nkeys ev s orgID ?es" for x using that by (auto simp: fan_nkeys_def)
  have fan': "fst x \<in> ob_ID ` set ?es" if "x \<in> fan_dkeys s orgID ?es" for x using that by (auto simp: fan_dkeys_def)
  have old: "nt_OutboxID ` set (notifications s) \<subseteq> processed_ids s" "wd_OutboxID ` set (webhook_deliveries s) \<subseteq> processed_ids s"
    using assms(2) by (simp_all add: fan_ok_def)
  have "nt_OutboxID n \<in> processed_ids s'" if n: "n \<in> set (notifications s')" for n
  proof -
    have "nkey n \<in> nkey ` set (notifications s) \<union> fan_nkeys ev s orgID ?es" using keys(1) n by blast
    moreover have "fst (nkey n) = nt_OutboxID n" by (simp add: nkey_def)
    ultimately show ?thesis using fan[of "nkey n"] old(1) unfolding p by (auto simp: nkey_def)
  qed
  moreover have "wd_OutboxID d \<in> processed_ids s'" if d: "d \<in> set (webhook_deliveries s')" for d
  proof -
    have "dkey d \<in> dkey ` set (webhook_deliveries s) \<union> fan_dkeys s orgID ?es" using keys(2) d by blast
    moreover have "fst (dkey d) = wd_OutboxID d" by (simp add: dkey_def)
    ultimately show ?thesis using fan'[of "dkey d"] old(2) unfolding p by (auto simp: dkey_def)
  qed
  moreover have ids: "map ob_ID (outbox s') = map ob_ID (outbox s)" using o by simp
  moreover have "\<forall>e \<in> set (outbox s'). ob_ID e \<noteq> None"
  proof -
    have "ob_ID ` set (outbox s') = ob_ID ` set (outbox s)" using ids by (metis set_map)
    moreover have "None \<notin> ob_ID ` set (outbox s)" using assms(2) by (auto simp: fan_ok_def)
    ultimately show ?thesis by (metis image_eqI)
  qed
  moreover have "distinct (map ob_ID (outbox s))" using assms(2) by (simp add: fan_ok_def)
  ultimately show ?thesis unfolding fan_ok_def using dist by (simp add: image_subset_iff)
qed

text \<open>
  C37: one drain fans out exactly.  It takes up to a hundred pending entries of the organization in order
  of age and adds, for each, one in-app and one mail notification for every current member other than
  the actor who has not opted out of that event on that channel, and one delivery for every active
  endpoint; nothing of it was there before, every entry taken is marked processed and no other, and the
  rows handed to the live hub are the in-app ones added.
\<close>

theorem drain_fan_out_exact:
  assumes "DrainOutbox ev ids locked orgID s = Inr (created, s')" "fan_ok s" "schema_ok s"
  shows "(\<exists>new. notifications s' = notifications s @ new \<and> created = filter is_inapp new)
    \<and> nkey ` set (notifications s') = nkey ` set (notifications s) \<union> fan_nkeys ev s orgID (DrainOutboxEntries locked s orgID)
    \<and> fan_nkeys ev s orgID (DrainOutboxEntries locked s orgID) \<inter> nkey ` set (notifications s) = {}
    \<and> dkey ` set (webhook_deliveries s') = dkey ` set (webhook_deliveries s) \<union> fan_dkeys s orgID (DrainOutboxEntries locked s orgID)
    \<and> fan_dkeys s orgID (DrainOutboxEntries locked s orgID) \<inter> dkey ` set (webhook_deliveries s) = {}
    \<and> outbox s' = mark ev (ob_ID ` set (DrainOutboxEntries locked s orgID)) (outbox s)
    \<and> distinct (map nkey (notifications s')) \<and> distinct (map dkey (webhook_deliveries s'))"
proof -
  note g = DrainOutbox_grows[OF assms, unfolded grows_def]
  have "distinct (map nkey (notifications s'))" "distinct (map dkey (webhook_deliveries s'))"
    using drain_fan_ok[OF assms] by (simp_all add: fan_ok_def)
  moreover have "\<exists>new. notifications s' = notifications s @ new \<and> created = filter is_inapp new" using g by auto
  ultimately show ?thesis using g fan_keys_new[OF assms(2)] by (elim conjE) (intro conjI; assumption)
qed

definition demo_entry :: outbox_row where
  "demo_entry = \<lparr>ob_ID = Some 200, ob_OrganizationID = Some 1, ob_EventType = NotificationEventTypeMatchStarted, ob_ActorID = Some 7,
     ob_EntityType = ''match'', ob_EntityID = Some 30, ob_Payload = empty_object, ob_ProcessedAt = None, ob_CreatedAt = Some 1\<rparr>"

lemmas notify_demo_simps = demo_notify_def demo_entry_def demo_endpoint_def demo_accounts_def demo_db_def demo_org_def
  demo_grant_def demo_env_def demo_user_def

lemmas drain_simps = DrainOutbox_def DrainOutboxEntries_def GetOrgMembersForNotification_def live_grant_def
  drain_entry_def drain_member_def drainChannels_def drain_channel_def shouldNotify_def prefCache_def load_preferences_def
  GetNotificationPreferencesForEvent_def CreateNotification_def created_notification_def notification_params_def
  user_exists_def GetActiveWebhookEndpointsForOrg_def drain_endpoint_def CreateWebhookDelivery_def created_delivery_def
  delivery_params_def

text \<open>The organization's two owners, one of whom caused the event, and its endpoint.\<close>

lemma demo_drain:
  "\<exists>created s'. DrainOutbox (demo_env 90 9) (\<lambda>k. 500 + of_nat k) (\<lambda>_. False) (Some 1) (demo_notify [demo_entry] [] []) = Inr (created, s')
     \<and> length created = 1 \<and> length (notifications s') = 2 \<and> length (webhook_deliveries s') = 1"
  by (simp add: drain_simps notify_demo_simps Let_def strings_Trim_def strings_TrimRight_def MarkOutboxEntryProcessed_def on_outbox_def on_tables_def)

lemma demo_fan_ok: "fan_ok (demo_notify [demo_entry] [] [])" "schema_ok (demo_notify [demo_entry] [] [])"
  by (simp_all add: fan_ok_def schema_ok_def keyed_def notify_demo_simps)

lemma drain_fan_out_exact_witness:
  "\<exists>created s'. DrainOutbox (demo_env 90 9) (\<lambda>k. 500 + of_nat k) (\<lambda>_. False) (Some 1) (demo_notify [demo_entry] [] []) = Inr (created, s')
     \<and> nkey ` set (notifications s') = fan_nkeys (demo_env 90 9) (demo_notify [demo_entry] [] []) (Some 1)
         (DrainOutboxEntries (\<lambda>_. False) (demo_notify [demo_entry] [] []) (Some 1))"
proof -
  obtain created and s' :: notify_db where
      d: "DrainOutbox (demo_env 90 9) (\<lambda>k. 500 + of_nat k) (\<lambda>_. False) (Some 1) (demo_notify [demo_entry] [] []) = Inr (created, s')"
    using demo_drain by blast
  have "notifications (demo_notify [demo_entry] [] []) = []" by (simp add: demo_notify_def)
  with drain_fan_out_exact[OF d demo_fan_ok] have "nkey ` set (notifications s')
      = fan_nkeys (demo_env 90 9) (demo_notify [demo_entry] [] []) (Some 1)
         (DrainOutboxEntries (\<lambda>_. False) (demo_notify [demo_entry] [] []) (Some 1))" by simp
  with d show ?thesis by blast
qed

end
