(* ===== verification/Notify_Machine.thy ===== *)
theory Notify_Machine
  imports Drain_Properties
begin

text \<open>
  All that touches the notification tables, as one step relation: transactions of the other components,
  drains, claims and records of the two workers in any order, requests, and the retention job.
\<close>

section \<open>Steps\<close>

text \<open>
  A transaction of another component may change the accounts and the tables as it likes within the
  schema, but to the outbox it only appends unprocessed entries under fresh identifiers.  A record may
  come arbitrarily late, of any row ever claimed, with any outcome, or never.
\<close>

definition emits :: "notify_db \<Rightarrow> account_db \<Rightarrow> bool" where
  "emits s a \<longleftrightarrow> schema_ok (s\<lparr>accounts := a\<rparr>) \<and> distinct (map ob_ID (outbox (s\<lparr>accounts := a\<rparr>)))
     \<and> (\<exists>new. outbox (s\<lparr>accounts := a\<rparr>) = outbox s @ new \<and> (\<forall>e \<in> set new. ob_ProcessedAt e = None \<and> ob_ID e \<noteq> None))"

inductive notify_step :: "notify_db \<Rightarrow> notify_db \<Rightarrow> bool" where
  domain: "emits s a \<Longrightarrow> notify_step s (s\<lparr>accounts := a\<rparr>)"
| drain: "DrainOutbox ev ids locked orgID s = Inr (created, s') \<Longrightarrow> notify_step s s'"
| claim_webhooks: "ClaimWebhookDeliveriesForDelivery ev worker_maxAttempts worker_batchSize locked s = (claimed, s') \<Longrightarrow> notify_step s s'"
| record_webhook: "notify_step s (webhook_record w d res s)"
| claim_mails: "ClaimEmailNotificationsForDelivery ev worker_maxAttempts worker_batchSize locked s = (mails, s') \<Longrightarrow> notify_step s s'"
| record_mail: "notify_step s (email_record w n res s)"
| mark_read: "notify_MarkRead ev orgSlug notifID userID s = Inr (resp, s') \<Longrightarrow> notify_step s s'"
| mark_all_read: "notify_MarkAllRead ev orgSlug userID s = Inr s' \<Longrightarrow> notify_step s s'"
| delete: "notify_Delete ev orgSlug notifID userID s = Inr s' \<Longrightarrow> notify_step s s'"
| preference: "notify_UpdatePreference ev orgSlug eventType userID actorID channel enabled s = Inr (pref, s') \<Longrightarrow> notify_step s s'"
| create_endpoint: "webhook_Create wv org actorID url description s = Inr (made, s') \<Longrightarrow> notify_step s s'"
| toggle_endpoint: "webhook_UpdateActive ev org webhookID active s = Inr (resp, s') \<Longrightarrow> notify_step s s'"
| delete_endpoint: "webhook_Delete ev org webhookID s = Inr s' \<Longrightarrow> notify_step s s'"
| retention: "notify_step s (cleanup_notifications ev s)"

section \<open>The invariant\<close>

definition attempts_ok :: "'a delivery_cols_scheme list \<Rightarrow> bool" where
  "attempts_ok rows \<longleftrightarrow> (\<forall>r \<in> set rows. 0 \<le> dc_AttemptCount r \<and> dc_AttemptCount r \<le> worker_maxAttempts)"

definition notify_inv :: "notify_db \<Rightarrow> bool" where
  "notify_inv s \<longleftrightarrow> fan_ok s \<and> schema_ok s \<and> attempts_ok (notifications s) \<and> attempts_ok (webhook_deliveries s)"

text \<open>No rows of the entries processed before are added, and a processed entry stays so while it exists.\<close>

definition no_refan :: "notify_db \<Rightarrow> notify_db \<Rightarrow> bool" where
  "no_refan s s' \<longleftrightarrow> (\<forall>i \<in> processed_ids s.
      (\<forall>k \<in> nkey ` set (notifications s'). fst k = i \<longrightarrow> k \<in> nkey ` set (notifications s))
    \<and> (\<forall>k \<in> dkey ` set (webhook_deliveries s'). fst k = i \<longrightarrow> k \<in> dkey ` set (webhook_deliveries s))
    \<and> (i \<in> processed_ids s' \<or> i \<notin> ob_ID ` set (outbox s')))"

text \<open>A step that keeps the keys of both tables, or drops rows, and leaves the outbox.\<close>

definition rows_kept :: "('a delivery_cols_scheme \<Rightarrow> 'k) \<Rightarrow> 'a delivery_cols_scheme list \<Rightarrow> 'a delivery_cols_scheme list \<Rightarrow> bool" where
  "rows_kept k rows rows' \<longleftrightarrow> (\<exists>P f. rows' = map f (filter P rows) \<and> (\<forall>r \<in> set rows. k (f r) = k r \<and> dc_ID (f r) = dc_ID r)
     \<and> (\<forall>r \<in> set rows. 0 \<le> dc_AttemptCount r \<and> dc_AttemptCount r \<le> worker_maxAttempts
          \<longrightarrow> 0 \<le> dc_AttemptCount (f r) \<and> dc_AttemptCount (f r) \<le> worker_maxAttempts))"

lemma rows_kept_refl: "rows_kept k rows rows"
  unfolding rows_kept_def by (intro exI[of _ "\<lambda>_. True"] exI[of _ "\<lambda>r. r"]) simp

lemma rows_kept_filter: "rows_kept k rows (filter P rows)"
  unfolding rows_kept_def by (intro exI[of _ P] exI[of _ "\<lambda>r. r"]) simp

lemma rows_kept_update:
  assumes "\<And>r. r \<in> set rows \<Longrightarrow> P r \<Longrightarrow> k (f r) = k r \<and> dc_ID (f r) = dc_ID r"
    and "\<And>r. r \<in> set rows \<Longrightarrow> P r \<Longrightarrow> 0 \<le> dc_AttemptCount r \<Longrightarrow> dc_AttemptCount r \<le> worker_maxAttempts
       \<Longrightarrow> 0 \<le> dc_AttemptCount (f r) \<and> dc_AttemptCount (f r) \<le> worker_maxAttempts"
  shows "rows_kept k rows (update_rows P f rows)"
  unfolding rows_kept_def update_rows_def using assms
  by (intro exI[of _ "\<lambda>_. True"] exI[of _ "\<lambda>r. if P r then f r else r"]) simp

lemma rows_kept_trans:
  assumes "rows_kept k a b" "rows_kept k b c" shows "rows_kept k a c"
proof -
  from assms(1) obtain P f where 1: "b = map f (filter P a)" "\<forall>r \<in> set a. k (f r) = k r \<and> dc_ID (f r) = dc_ID r"
      "\<forall>r \<in> set a. 0 \<le> dc_AttemptCount r \<and> dc_AttemptCount r \<le> worker_maxAttempts
          \<longrightarrow> 0 \<le> dc_AttemptCount (f r) \<and> dc_AttemptCount (f r) \<le> worker_maxAttempts" unfolding rows_kept_def by blast
  from assms(2) obtain Q g where 2: "c = map g (filter Q b)" "\<forall>r \<in> set b. k (g r) = k r \<and> dc_ID (g r) = dc_ID r"
      "\<forall>r \<in> set b. 0 \<le> dc_AttemptCount r \<and> dc_AttemptCount r \<le> worker_maxAttempts
          \<longrightarrow> 0 \<le> dc_AttemptCount (g r) \<and> dc_AttemptCount (g r) \<le> worker_maxAttempts" unfolding rows_kept_def by blast
  let ?g = "\<lambda>r. if P r then g (f r) else r"
  have "c = map ?g (filter (\<lambda>r. P r \<and> Q (f r)) a)"
    unfolding 2(1) 1(1) by (induction a) auto
  moreover have "f r \<in> set b" if "r \<in> set a" "P r" for r using that 1(1) by simp
  ultimately show ?thesis unfolding rows_kept_def using 1(2,3) 2(2,3)
    by (intro exI[of _ "\<lambda>r. P r \<and> Q (f r)"] exI[of _ ?g]) simp
qed

lemma rows_kept_keys:
  assumes "rows_kept k rows rows'"
  shows "k ` set rows' \<subseteq> k ` set rows" "distinct (map k rows) \<Longrightarrow> distinct (map k rows')"
    "keyed rows \<Longrightarrow> keyed rows'" "attempts_ok rows \<Longrightarrow> attempts_ok rows'"
proof -
  from assms obtain P f where f: "rows' = map f (filter P rows)" "\<And>r. r \<in> set rows \<Longrightarrow> k (f r) = k r \<and> dc_ID (f r) = dc_ID r"
      "\<forall>r \<in> set rows. 0 \<le> dc_AttemptCount r \<and> dc_AttemptCount r \<le> worker_maxAttempts
          \<longrightarrow> 0 \<le> dc_AttemptCount (f r) \<and> dc_AttemptCount (f r) \<le> worker_maxAttempts" unfolding rows_kept_def by blast
  have k: "map k rows' = map k (filter P rows)" "map dc_ID rows' = map dc_ID (filter P rows)" using f(1,2) by simp_all
  show "k ` set rows' \<subseteq> k ` set rows" using f(1,2) by auto
  show "distinct (map k rows) \<Longrightarrow> distinct (map k rows')" unfolding k by (simp add: distinct_map_filter)
  show "keyed rows \<Longrightarrow> keyed rows'"
    unfolding keyed_def k using f(1,2) by (auto simp: distinct_map_filter)
  show "attempts_ok rows \<Longrightarrow> attempts_ok rows'" using f(1,3) by (auto simp: attempts_ok_def)
qed

section \<open>The steps keep it\<close>

text \<open>The steps that only rewrite or delete delivery rows.\<close>

definition kept_step :: "notify_db \<Rightarrow> notify_db \<Rightarrow> bool" where
  "kept_step s s' \<longleftrightarrow> rows_kept nkey (notifications s) (notifications s') \<and> rows_kept dkey (webhook_deliveries s) (webhook_deliveries s')
     \<and> outbox s' = outbox s \<and> (schema_ok s \<longrightarrow> schema_ok s')"

lemma keys_of_fst: "nt_OutboxID ` set ns = fst ` nkey ` set ns" "wd_OutboxID ` set ds = fst ` dkey ` set ds"
  by (simp_all add: image_image nkey_def dkey_def)

lemma kept_step_ok:
  assumes "kept_step s s'" "notify_inv s"
  shows "notify_inv s' \<and> no_refan s s'"
proof -
  have n: "rows_kept nkey (notifications s) (notifications s')" and d: "rows_kept dkey (webhook_deliveries s) (webhook_deliveries s')"
    and o': "outbox s' = outbox s" and sch: "schema_ok s'"
    using assms by (auto simp: kept_step_def notify_inv_def)
  have p: "processed_ids s' = processed_ids s" by (simp add: processed_ids_def o')
  have "nt_OutboxID ` set (notifications s') \<subseteq> nt_OutboxID ` set (notifications s)"
    unfolding keys_of_fst by (rule image_mono[OF rows_kept_keys(1)[OF n]])
  moreover have "wd_OutboxID ` set (webhook_deliveries s') \<subseteq> wd_OutboxID ` set (webhook_deliveries s)"
    unfolding keys_of_fst by (rule image_mono[OF rows_kept_keys(1)[OF d]])
  moreover have f: "distinct (map ob_ID (outbox s))" "\<forall>e \<in> set (outbox s). ob_ID e \<noteq> None"
      "distinct (map nkey (notifications s))" "keyed (notifications s)" "nt_OutboxID ` set (notifications s) \<subseteq> processed_ids s"
      "distinct (map dkey (webhook_deliveries s))" "keyed (webhook_deliveries s)" "wd_OutboxID ` set (webhook_deliveries s) \<subseteq> processed_ids s"
    using assms(2) by (simp_all add: notify_inv_def fan_ok_def)
  ultimately have "fan_ok s'"
    unfolding fan_ok_def o' p
    by (intro conjI rows_kept_keys(2)[OF n] rows_kept_keys(2)[OF d] rows_kept_keys(3)[OF n] rows_kept_keys(3)[OF d] f)
      (rule subset_trans, assumption, rule f)+
  then show ?thesis
    using assms(2) sch rows_kept_keys(4)[OF n] rows_kept_keys(4)[OF d] rows_kept_keys(1)[OF n] rows_kept_keys(1)[OF d]
    unfolding notify_inv_def no_refan_def p by blast
qed

lemma nkey_cols: "nkey n = (nt_OutboxID n, nt_UserID n, nt_Channel n)" "dkey d = (wd_OutboxID d, wd_EndpointID d)"
  by (simp_all add: nkey_def dkey_def)

lemma claim_kept:
  fixes rows :: "'a delivery_cols_scheme list"
  assumes "claim_rows now worker_maxAttempts b locked E rows = (claimed, rows')" "distinct (map dc_ID rows)"
    and "\<And>r. k (claim_row now r) = k r"
  shows "rows_kept k rows rows'"
proof -
  let ?I = "set (claim_ids now worker_maxAttempts b locked E rows)"
  have r': "rows' = update_rows (\<lambda>r. dc_ID r \<in> ?I) (claim_row now) rows" using assms(1) by (simp add: claim_rows_def Let_def)
  have "dc_AttemptCount r < worker_maxAttempts" if "r \<in> set rows" "dc_ID r \<in> ?I" for r
  proof -
    from that(2) obtain r0 where "r0 \<in> set rows" "dc_ID r0 = dc_ID r" "claimable now worker_maxAttempts r0"
      by (auto simp: claim_ids_def dest!: in_set_takeD)
    with that(1) assms(2) show ?thesis unfolding distinct_map by (metis claimable_def inj_onD)
  qed
  then show ?thesis unfolding r' using assms(3) by (intro rows_kept_update) (simp_all add: claim_row_def, force)
qed

lemma record_kept:
  assumes "\<And>r a b. k (r\<lparr>dc_SentAt := a\<rparr>) = k r" "\<And>r a b. k (r\<lparr>dc_FailedPermanently := a, dc_LeaseExpiresAt := b\<rparr>) = k r"
  shows "rows_kept k rows (record_success now i rows)" "rows_kept k rows (record_failure i p t rows)"
  unfolding record_success_def record_failure_def using assms by (simp_all add: rows_kept_update)

lemma kept_notifications:
  "rows_kept nkey (notifications s) ns \<Longrightarrow> kept_step s (s\<lparr>notifications := ns\<rparr>)"
  by (simp add: kept_step_def rows_kept_refl schema_ok_def)

lemma kept_deliveries:
  "rows_kept dkey (webhook_deliveries s) ds \<Longrightarrow> kept_step s (s\<lparr>webhook_deliveries := ds\<rparr>)"
  by (simp add: kept_step_def rows_kept_refl schema_ok_def)

lemma keyed_distinct: "notify_inv s \<Longrightarrow> distinct (map dc_ID (notifications s)) \<and> distinct (map dc_ID (webhook_deliveries s))"
  by (simp add: notify_inv_def fan_ok_def keyed_def)

lemma claim_webhooks_kept:
  assumes "ClaimWebhookDeliveriesForDelivery ev worker_maxAttempts worker_batchSize locked s = (claimed, s')" "notify_inv s"
  shows "kept_step s s'"
proof (cases "claim_rows (env_db_now ev) worker_maxAttempts worker_batchSize locked (\<lambda>_. True) (webhook_deliveries s)")
  case (Pair c rows)
  then have "s' = s\<lparr>webhook_deliveries := rows\<rparr>" using assms(1) by (simp add: ClaimWebhookDeliveriesForDelivery_def)
  moreover have "rows_kept dkey (webhook_deliveries s) rows"
    by (rule claim_kept[OF Pair]) (use keyed_distinct[OF assms(2)] in \<open>simp_all add: nkey_cols claim_row_def\<close>)
  ultimately show ?thesis by (simp add: kept_deliveries)
qed

lemma claim_mails_kept:
  assumes "ClaimEmailNotificationsForDelivery ev worker_maxAttempts worker_batchSize locked s = (claimed, s')" "notify_inv s"
  shows "kept_step s s'"
proof (cases "claim_rows (env_db_now ev) worker_maxAttempts worker_batchSize locked is_email (notifications s)")
  case (Pair c rows)
  then have "s' = s\<lparr>notifications := rows\<rparr>" using assms(1) by (simp add: ClaimEmailNotificationsForDelivery_def)
  moreover have "rows_kept nkey (notifications s) rows"
    by (rule claim_kept[OF Pair]) (use keyed_distinct[OF assms(2)] in \<open>simp_all add: nkey_cols claim_row_def\<close>)
  ultimately show ?thesis by (simp add: kept_notifications)
qed

lemma record_webhook_kept: "kept_step s (webhook_record w d res s)"
  by (simp add: webhook_record_def RecordWebhookDeliverySuccess_def RecordWebhookDeliveryFailure_def kept_deliveries
      record_kept nkey_cols split: outcome.split prod.split)

lemma record_mail_kept: "kept_step s (email_record w n res s)"
  by (simp add: email_record_def RecordEmailDeliverySuccess_def RecordEmailDeliveryFailure_def kept_notifications
      record_kept nkey_cols split: prod.split)

lemma inbox_kept:
  "notify_MarkRead ev orgSlug notifID userID s = Inr (resp, s') \<Longrightarrow> kept_step s s'"
  "notify_MarkAllRead ev orgSlug userID s = Inr s' \<Longrightarrow> kept_step s s'"
  "notify_Delete ev orgSlug notifID userID s = Inr s' \<Longrightarrow> kept_step s s'"
  by (auto simp: notify_MarkRead_def notify_MarkAllRead_def notify_Delete_def MarkNotificationRead_def MarkAllNotificationsRead_def
      SoftDeleteNotification_def res_bind_eq_Inr Let_def nkey_cols intro!: kept_notifications rows_kept_update split: if_splits prod.splits)

lemma endpoint_kept:
  "webhook_Create wv org actorID url description s = Inr (made, s') \<Longrightarrow> kept_step s s'"
  "webhook_UpdateActive ev org webhookID active s = Inr (resp, s') \<Longrightarrow> kept_step s s'"
  "webhook_Delete ev org webhookID s = Inr s' \<Longrightarrow> kept_step s s'"
  by (auto simp: webhook_Create_def webhook_UpdateActive_def webhook_Delete_def CreateWebhookEndpoint_def UpdateWebhookEndpointActive_def
      DeleteWebhookEndpoint_def res_bind_eq_Inr Let_def kept_step_def rows_kept_refl rows_kept_filter schema_ok_def in_update_rows
      split: if_splits prod.splits)

lemma UpsertPreference_Inr:
  "UpsertPreference ev orgID uid et ch enabled aid s = Inr (p, s') \<Longrightarrow> \<exists>s1. UpsertNotificationPreference ev orgID uid et ch enabled s = Inr (p, s1)
     \<and> (\<exists>q. s' = s1\<lparr>accounts := on_tables (CreateAuditLog ev q) (accounts s1)\<rparr>)"
  by (cases "GetUserPreference s orgID uid et ch") (auto simp: UpsertPreference_def res_bind_eq_Inr)

lemma preference_kept:
  assumes "notify_UpdatePreference ev orgSlug eventType userID actorID channel enabled s = Inr (pref, s')" "schema_ok s"
  shows "kept_step s s'"
proof -
  from assms(1) obtain org uid aid et ch p where
      org: "GetOrganizationBySlug (tables (accounts s)) orgSlug = Inr org" and
      "UpsertPreference ev (o_ID org) uid et ch enabled aid s = Inr (p, s')"
    by (auto simp: notify_UpdatePreference_def notify_GetOrgBySlug_def res_bind_eq_Inr)
  from UpsertPreference_Inr[OF this(2)] obtain s1 :: notify_db where
      u: "UpsertNotificationPreference ev (o_ID org) uid et ch enabled s = Inr (p, s1)" and
      s': "\<exists>q. s' = s1\<lparr>accounts := on_tables (CreateAuditLog ev q) (accounts s1)\<rparr>" by blast
  have o1: "o_ID org \<noteq> None" using org assms(2)
    by (auto simp: GetOrganizationBySlug_def select_one_Inr find_Some_iff schema_ok_def)
  have *: "distinct (map preference_key (notification_preferences s1)) \<and> s1 = s\<lparr>notification_preferences := notification_preferences s1\<rparr>"
  proof (cases "find (own_preference (o_ID org) uid et ch) (notification_preferences s)")
    case None
    with u have s1: "preference_key p = (o_ID org, uid, et, ch) \<and> s1 = s\<lparr>notification_preferences := notification_preferences s @ [p]\<rparr>"
      and "user_exists (accounts s) uid"
      by (auto simp: UpsertNotificationPreference_def Let_def preference_key_def split: if_splits)
    then have "uid \<noteq> None" by (metis sql_eq_def user_exists_def)
    then have "(o_ID org, uid, et, ch) \<notin> preference_key ` set (notification_preferences s)"
      using None o1 by (auto simp: find_None_iff own_preference_def preference_key_def sql_eq_known)
    with s1 assms(2) show ?thesis by (auto simp: schema_ok_def)
  next
    case (Some q)
    with u have "s1 = s\<lparr>notification_preferences := update_rows (own_preference (o_ID org) uid et ch)
        (\<lambda>p. p\<lparr>np_Enabled := enabled, np_UpdatedAt := Some (env_db_now ev)\<rparr>) (notification_preferences s)\<rparr>"
      by (auto simp: UpsertNotificationPreference_def Let_def)
    moreover have "map preference_key (update_rows P (\<lambda>p. p\<lparr>np_Enabled := enabled, np_UpdatedAt := t\<rparr>) ps) = map preference_key ps" for P t ps
      by (simp add: update_rows_def preference_key_def)
    ultimately show ?thesis using assms(2) by (simp add: schema_ok_def)
  qed
  then obtain ps where s1: "s1 = s\<lparr>notification_preferences := ps\<rparr>" "distinct (map preference_key ps)" by metis
  from s' obtain q where "s' = s\<lparr>notification_preferences := ps, accounts := on_tables (CreateAuditLog ev q) (accounts s)\<rparr>"
    unfolding s1(1) by auto
  then show ?thesis using s1(2) by (simp add: kept_step_def rows_kept_refl schema_ok_def on_tables_def CreateAuditLog_def)
qed

lemma drain_ok:
  assumes "DrainOutbox ev ids locked orgID s = Inr (created, s')" "notify_inv s"
  shows "notify_inv s' \<and> no_refan s s'"
proof -
  have f: "fan_ok s" "schema_ok s" using assms(2) by (simp_all add: notify_inv_def)
  let ?es = "DrainOutboxEntries locked s orgID"
  note g = DrainOutbox_grows[OF assms(1) f, unfolded grows_def]
  have un: "ob_ID e \<notin> processed_ids s" if "e \<in> set ?es" for e by (rule drained_unprocessed[OF f(1) that])
  have n: "\<forall>k \<in> nkey ` set (notifications s'). fst k \<in> processed_ids s \<longrightarrow> k \<in> nkey ` set (notifications s)"
    using g un by (auto simp: fan_nkeys_def)
  have d: "\<forall>k \<in> dkey ` set (webhook_deliveries s'). fst k \<in> processed_ids s \<longrightarrow> k \<in> dkey ` set (webhook_deliveries s)"
    using g un by (auto simp: fan_dkeys_def)
  have "processed_ids s \<subseteq> processed_ids s'"
  proof -
    have "ob_ID ` set ?es \<subseteq> ob_ID ` set (outbox s)" using drained_entry by fastforce
    then show ?thesis using mark_processed[of s' ev "ob_ID ` set ?es" s] g by blast
  qed
  moreover obtain new where "notifications s' = notifications s @ new" "fresh_rows new" using g by blast
  moreover obtain del where "webhook_deliveries s' = webhook_deliveries s @ del" "fresh_rows del" using g by blast
  moreover have "schema_ok s'" using g f(2) by (simp add: schema_ok_def)
  ultimately show ?thesis
    using drain_fan_ok[OF assms(1) f] n d assms(2) by (auto simp: notify_inv_def no_refan_def attempts_ok_def fresh_rows_def worker_maxAttempts_def)
qed

lemma domain_ok:
  assumes "emits s a" "notify_inv s"
  shows "notify_inv (s\<lparr>accounts := a\<rparr>) \<and> no_refan s (s\<lparr>accounts := a\<rparr>)"
proof -
  let ?s = "s\<lparr>accounts := a\<rparr>"
  from assms(1) obtain new where new: "outbox ?s = outbox s @ new" "\<forall>e \<in> set new. ob_ProcessedAt e = None \<and> ob_ID e \<noteq> None"
    unfolding emits_def by blast
  have p: "processed_ids ?s = processed_ids s"
    using new(2) unfolding processed_ids_def new(1) by (intro arg_cong[of _ _ "image ob_ID"]) auto
  have "distinct (map ob_ID (outbox ?s))" "schema_ok ?s" using assms(1) by (simp_all add: emits_def)
  moreover have "\<forall>e \<in> set (outbox ?s). ob_ID e \<noteq> None" using assms(2) new by (auto simp: notify_inv_def fan_ok_def)
  ultimately show ?thesis using assms(2) by (simp add: notify_inv_def fan_ok_def p no_refan_def)
qed

lemma retention_ok:
  assumes "notify_inv s"
  shows "notify_inv (DeleteOldProcessedOutboxEntries t s) \<and> no_refan s (DeleteOldProcessedOutboxEntries t s)"
proof -
  let ?s = "DeleteOldProcessedOutboxEntries t s"
  define old :: "outbox_row \<Rightarrow> bool" where "old = (\<lambda>e. case ob_ProcessedAt e of None \<Rightarrow> False | Some u \<Rightarrow> u < t)"
  let ?gone = "ob_ID ` set (filter old (outbox s))"
  have o': "outbox ?s = filter (\<lambda>e. \<not> old e) (outbox s)"
    and n: "notifications ?s = filter (\<lambda>n. nt_OutboxID n \<notin> ?gone) (notifications s)"
    and d: "webhook_deliveries ?s = filter (\<lambda>d. wd_OutboxID d \<notin> ?gone) (webhook_deliveries s)"
    by (simp_all add: DeleteOldProcessedOutboxEntries_def Let_def old_def on_outbox_def on_tables_def)
  have sch: "schema_ok ?s" using assms
    by (simp add: notify_inv_def schema_ok_def DeleteOldProcessedOutboxEntries_def Let_def on_outbox_def on_tables_def)
  have f: "distinct (map ob_ID (outbox s))" "\<forall>e \<in> set (outbox s). ob_ID e \<noteq> None" "distinct (map nkey (notifications s))"
      "distinct (map dkey (webhook_deliveries s))" "keyed (notifications s)" "keyed (webhook_deliveries s)"
      "nt_OutboxID ` set (notifications s) \<subseteq> processed_ids s" "wd_OutboxID ` set (webhook_deliveries s) \<subseteq> processed_ids s"
    using assms by (simp_all add: notify_inv_def fan_ok_def)
  have p: "i \<in> processed_ids ?s" if "i \<in> processed_ids s" "i \<notin> ?gone" for i
    using that unfolding processed_ids_def o' by auto
  have rest: "i \<notin> ob_ID ` set (outbox ?s)" if "i \<in> ?gone" for i
  proof
    assume "i \<in> ob_ID ` set (outbox ?s)"
    then obtain e where "e \<in> set (outbox s)" "\<not> old e" "i = ob_ID e" unfolding o' by auto
    moreover from that obtain e' where "e' \<in> set (outbox s)" "old e'" "i = ob_ID e'" by auto
    ultimately show False using f(1) unfolding distinct_map by (metis inj_onD)
  qed
  note kn = rows_kept_keys[OF rows_kept_filter[of nkey "notifications s" "\<lambda>n. nt_OutboxID n \<notin> ?gone"]]
  note kd = rows_kept_keys[OF rows_kept_filter[of dkey "webhook_deliveries s" "\<lambda>d. wd_OutboxID d \<notin> ?gone"]]
  have "nt_OutboxID ` set (notifications ?s) \<subseteq> processed_ids ?s" "wd_OutboxID ` set (webhook_deliveries ?s) \<subseteq> processed_ids ?s"
    using f(7,8) p unfolding n d by auto
  moreover have "distinct (map ob_ID (outbox ?s))" "\<forall>e \<in> set (outbox ?s). ob_ID e \<noteq> None"
    unfolding o' using f(1,2) by (simp_all add: distinct_map_filter)
  ultimately have "fan_ok ?s"
    unfolding fan_ok_def n d using kn(2,3) kd(2,3) f(3-6) by (intro conjI) assumption+
  moreover have "attempts_ok (notifications ?s)" "attempts_ok (webhook_deliveries ?s)"
    using assms kn(4) kd(4) unfolding notify_inv_def n d by blast+
  moreover have "no_refan s ?s" unfolding no_refan_def n d using kn(1) kd(1) p rest by blast
  ultimately show ?thesis using sch by (simp add: notify_inv_def)
qed

lemma old_deliveries_kept: "kept_step s (DeleteOldWebhookDeliveries t s)"
  unfolding DeleteOldWebhookDeliveries_def by (rule kept_deliveries, rule rows_kept_filter)

lemma no_refan_fewer:
  assumes "no_refan s s1" "dkey ` set (webhook_deliveries s2) \<subseteq> dkey ` set (webhook_deliveries s1)"
    "notifications s2 = notifications s1" "outbox s2 = outbox s1"
  shows "no_refan s s2"
proof -
  have "processed_ids s2 = processed_ids s1" by (simp add: processed_ids_def assms(4))
  then show ?thesis using assms(1,2) unfolding no_refan_def assms(3,4) by auto
qed

lemma cleanup_ok:
  assumes "notify_inv s"
  shows "notify_inv (cleanup_notifications ev s) \<and> no_refan s (cleanup_notifications ev s)"
proof -
  define t u where "t = env_now ev - minutes (outboxRetentionDays * 24 * 60)"
    and "u = env_now ev - minutes (webhookDeliveryRetentionDays * 24 * 60)"
  let ?s1 = "DeleteOldProcessedOutboxEntries t s"
  let ?s = "DeleteOldWebhookDeliveries u ?s1"
  have c: "cleanup_notifications ev s = ?s" by (simp only: cleanup_notifications_def t_def u_def)
  note 1 = retention_ok[OF assms, of t]
  note k = old_deliveries_kept[of ?s1 u]
  have same: "notifications ?s = notifications ?s1" "outbox ?s = outbox ?s1" by (simp_all add: DeleteOldWebhookDeliveries_def)
  have sub: "dkey ` set (webhook_deliveries ?s) \<subseteq> dkey ` set (webhook_deliveries ?s1)"
    using k rows_kept_keys(1)[of dkey "webhook_deliveries ?s1" "webhook_deliveries ?s"] by (simp add: kept_step_def)
  have "no_refan s ?s" using conjunct2[OF 1] sub same by (rule no_refan_fewer)
  moreover have "notify_inv ?s" using kept_step_ok[OF k conjunct1[OF 1]] by (rule conjunct1)
  ultimately show ?thesis unfolding c by (intro conjI)
qed

lemma notify_step_ok: "notify_step s s' \<Longrightarrow> notify_inv s \<Longrightarrow> notify_inv s' \<and> no_refan s s'"
proof (induction rule: notify_step.induct)
  case (preference ev orgSlug eventType userID actorID channel enabled s pref s')
  then have "schema_ok s" by (simp add: notify_inv_def)
  from preference_kept[OF preference(1) this] preference(2) show ?case by (rule kept_step_ok)
qed (erule (1) domain_ok drain_ok | rule cleanup_ok, assumption
    | rule kept_step_ok[OF claim_webhooks_kept], assumption+ | rule kept_step_ok[OF claim_mails_kept], assumption+
    | rule kept_step_ok[OF record_webhook_kept], assumption | rule kept_step_ok[OF record_mail_kept], assumption
    | erule kept_step_ok[OF inbox_kept(1)] kept_step_ok[OF inbox_kept(2)] kept_step_ok[OF inbox_kept(3)]
        kept_step_ok[OF endpoint_kept(1)] kept_step_ok[OF endpoint_kept(2)] kept_step_ok[OF endpoint_kept(3)], assumption)+

text \<open>
  C38: an entry is fanned out once, whatever interleaves.  In every state that drains, domain
  transactions, claims and late or repeated records of the workers, requests and the retention job can
  reach, there is at most one notification for an entry, user and channel and one delivery for an entry
  and endpoint, all of processed entries, and nothing was attempted more than three times; no further
  step adds rows for a processed entry or makes it pending again while it is kept.
\<close>

theorem fan_out_once:
  assumes "notify_step\<^sup>*\<^sup>* s0 s" "notify_inv s0"
  shows "distinct (map nkey (notifications s)) \<and> distinct (map dkey (webhook_deliveries s))
    \<and> nt_OutboxID ` set (notifications s) \<subseteq> processed_ids s \<and> wd_OutboxID ` set (webhook_deliveries s) \<subseteq> processed_ids s
    \<and> attempts_ok (notifications s) \<and> attempts_ok (webhook_deliveries s)
    \<and> (\<forall>s'. notify_step s s' \<longrightarrow> no_refan s s')"
proof -
  from assms have "notify_inv s" by (induction rule: rtranclp_induct) (auto dest: notify_step_ok)
  then show ?thesis using notify_step_ok[of s] by (auto simp: notify_inv_def fan_ok_def)
qed

lemma fan_out_once_witness:
  "\<exists>s. notify_step\<^sup>*\<^sup>* (demo_notify [demo_entry] [] []) s \<and> length (notifications s) = 2 \<and> length (webhook_deliveries s) = 1
     \<and> distinct (map nkey (notifications s)) \<and> attempts_ok (webhook_deliveries s)"
proof -
  obtain created and s :: notify_db where
      d: "DrainOutbox (demo_env 90 9) (\<lambda>k. 500 + of_nat k) (\<lambda>_. False) (Some 1) (demo_notify [demo_entry] [] []) = Inr (created, s)"
        "length (notifications s) = 2" "length (webhook_deliveries s) = 1"
    using demo_drain by blast
  from notify_step.drain[OF d(1)] have r: "notify_step\<^sup>*\<^sup>* (demo_notify [demo_entry] [] []) s" by blast
  have "notify_inv (demo_notify [demo_entry] [] [])"
    using demo_fan_ok by (simp add: notify_inv_def attempts_ok_def demo_notify_def)
  note f = fan_out_once[OF r this]
  have "distinct (map nkey (notifications s))" using f by (elim conjE) assumption
  moreover have "attempts_ok (webhook_deliveries s)" using f by (elim conjE) assumption
  ultimately show ?thesis using r d(2,3) by (intro exI[of _ s] conjI) assumption+
qed

end
