(* ===== verification/Team_Store.thy ===== *)
theory Team_Store
  imports Tournament_Store
begin

text \<open>
  The queries of \<open>db/sqlc/teams.sql.go\<close> and \<open>team_memberships.sql.go\<close> with the constraints of the
  migrations \<open>000006\<close>, \<open>000007\<close> and \<open>000014\<close>, the trigger that compares organizations included.
\<close>

section \<open>Constraints\<close>

definition hex_digit :: "char \<Rightarrow> bool" where
  "hex_digit c \<longleftrightarrow> (let n = (of_char c :: nat) in
     (48 \<le> n \<and> n \<le> 57) \<or> (65 \<le> n \<and> n \<le> 70) \<or> (97 \<le> n \<and> n \<le> 102))"

text \<open>\<open>'^#[0-9A-Fa-f]{6}$'\<close>\<close>

definition hex_color :: "string \<Rightarrow> bool" where
  "hex_color s \<longleftrightarrow> length s = 7 \<and> hd s = CHR ''#'' \<and> list_all hex_digit (tl s)"

definition opt_all :: "('a \<Rightarrow> bool) \<Rightarrow> 'a option \<Rightarrow> bool" where
  "opt_all P x = (case x of None \<Rightarrow> True | Some a \<Rightarrow> P a)"

definition team_checks :: "team_row \<Rightarrow> bool" where
  "team_checks t \<longleftrightarrow> slug_ok (tm_Slug t)
     \<and> 1 \<le> char_length (sql_trim (tm_Name t)) \<and> char_length (tm_Name t) \<le> 255
     \<and> opt_all (\<lambda>s. 2 \<le> char_length (sql_trim s) \<and> char_length (sql_trim s) \<le> 10) (tm_ShortName t)
     \<and> opt_all (\<lambda>y. 1800 \<le> y \<and> y \<le> 2100) (tm_FoundedYear t)
     \<and> opt_all hex_color (tm_PrimaryColor t) \<and> opt_all hex_color (tm_SecondaryColor t)"

section \<open>Teams\<close>

definition team_key :: "uuid \<Rightarrow> uuid \<Rightarrow> team_row \<Rightarrow> bool" where
  "team_key uid orgID t \<longleftrightarrow> sql_eq (tm_ID t) uid \<and> sql_eq (tm_OrganizationID t) orgID"

definition GetTeamBySlug :: "database \<Rightarrow> string \<Rightarrow> uuid \<Rightarrow> sql_error + team_row" where
  "GetTeamBySlug d slug orgID = select_one (\<lambda>t. tm_Slug t = slug \<and> sql_eq (tm_OrganizationID t) orgID) (teams d)"

definition team_filter :: "uuid \<Rightarrow> string option \<Rightarrow> string option \<Rightarrow> team_row \<Rightarrow> bool" where
  "team_filter orgID status query t \<longleftrightarrow> sql_eq (tm_OrganizationID t) orgID \<and> tm_Status t \<noteq> TeamStatusDisbanded
     \<and> opt_all (\<lambda>s. TeamStatus_str (tm_Status t) = s) status \<and> opt_all (ilike_contains (Some (tm_Name t))) query"

definition CountTeamsByOrganization :: "database \<Rightarrow> uuid \<Rightarrow> string option \<Rightarrow> string option \<Rightarrow> int" where
  "CountTeamsByOrganization d orgID status query = int (length (filter (team_filter orgID status query) (teams d)))"

definition ListTeamsPaginated :: "database \<Rightarrow> uuid \<Rightarrow> string option \<Rightarrow> string option \<Rightarrow> int \<Rightarrow> int \<Rightarrow> team_row list" where
  "ListTeamsPaginated d orgID status query offset limit =
     page limit offset (sort_key tm_Name (filter (team_filter orgID status query) (teams d)))"

definition ListTeamsByOrganization :: "database \<Rightarrow> uuid \<Rightarrow> team_row list" where
  "ListTeamsByOrganization d orgID = sort_key tm_Name (filter (\<lambda>t. sql_eq (tm_OrganizationID t) orgID) (teams d))"

record CreateTeamParams =
  ct_OrganizationID :: uuid
  ct_Name :: string
  ct_ShortName :: "string option"
  ct_Slug :: string
  ct_Description :: "string option"
  ct_LogoUrl :: "string option"
  ct_HomeCity :: "string option"
  ct_HomeVenue :: "string option"
  ct_FoundedYear :: "int option"
  ct_PrimaryColor :: "string option"
  ct_SecondaryColor :: "string option"

definition created_team :: "env \<Rightarrow> CreateTeamParams \<Rightarrow> team_row" where
  "created_team ev p = \<lparr>tm_ID = Some (env_row_id ev), tm_OrganizationID = ct_OrganizationID p, tm_Name = ct_Name p,
     tm_ShortName = ct_ShortName p, tm_Slug = ct_Slug p, tm_Description = ct_Description p, tm_LogoUrl = ct_LogoUrl p,
     tm_HomeCity = ct_HomeCity p, tm_HomeVenue = ct_HomeVenue p, tm_FoundedYear = ct_FoundedYear p,
     tm_PrimaryColor = ct_PrimaryColor p, tm_SecondaryColor = ct_SecondaryColor p, tm_Status = TeamStatusActive,
     tm_Metadata = empty_object, tm_CreatedAt = Some (env_db_now ev), tm_UpdatedAt = Some (env_db_now ev)\<rparr>"

definition CreateTeam :: "env \<Rightarrow> CreateTeamParams \<Rightarrow> database \<Rightarrow> sql_error + (team_row \<times> database)" where
  "CreateTeam ev p d = (let t = created_team ev p in
     if tm_OrganizationID t = None \<or> \<not> team_checks t \<or> tm_ID t \<in> tm_ID ` set (teams d) then Inl (ConstraintViolation ''teams'')
     else if \<exists>t' \<in> set (teams d). tm_OrganizationID t' = tm_OrganizationID t \<and> tm_Slug t' = tm_Slug t
     then Inl (ConstraintViolation ''uq_teams_org_slug'')
     else if \<not> refers o_ID (organizations d) (tm_OrganizationID t) then Inl (ConstraintViolation ''fk_teams_organization'')
     else Inr (t, d\<lparr>teams := teams d @ [t]\<rparr>))"

definition update_team :: "(team_row \<Rightarrow> bool) \<Rightarrow> (team_row \<Rightarrow> team_row) \<Rightarrow> database \<Rightarrow> sql_error + (team_row \<times> database)" where
  "update_team P upd d = (case find P (teams d) of
       None \<Rightarrow> Inl ErrNoRows
     | Some t \<Rightarrow> if team_checks (upd t) then Inr (upd t, d\<lparr>teams := update_rows P upd (teams d)\<rparr>)
         else Inl (ConstraintViolation ''teams''))"

record UpdateTeamParams =
  ut_ID :: uuid
  ut_OrganizationID :: uuid
  ut_Name :: string
  ut_ShortName :: "string option"
  ut_Description :: "string option"
  ut_LogoUrl :: "string option"
  ut_HomeCity :: "string option"
  ut_HomeVenue :: "string option"
  ut_FoundedYear :: "int option"
  ut_PrimaryColor :: "string option"
  ut_SecondaryColor :: "string option"
  ut_Status :: TeamStatus

definition updated_team :: "env \<Rightarrow> UpdateTeamParams \<Rightarrow> team_row \<Rightarrow> team_row" where
  "updated_team ev p t = t\<lparr>tm_Name := ut_Name p, tm_ShortName := ut_ShortName p, tm_Description := ut_Description p,
     tm_LogoUrl := ut_LogoUrl p, tm_HomeCity := ut_HomeCity p, tm_HomeVenue := ut_HomeVenue p,
     tm_FoundedYear := ut_FoundedYear p, tm_PrimaryColor := ut_PrimaryColor p, tm_SecondaryColor := ut_SecondaryColor p,
     tm_Status := ut_Status p, tm_UpdatedAt := Some (env_db_now ev)\<rparr>"

definition UpdateTeam :: "env \<Rightarrow> UpdateTeamParams \<Rightarrow> database \<Rightarrow> sql_error + (team_row \<times> database)" where
  "UpdateTeam ev p = update_team (team_key (ut_ID p) (ut_OrganizationID p)) (updated_team ev p)"

definition DisbandTeam :: "env \<Rightarrow> uuid \<Rightarrow> uuid \<Rightarrow> database \<Rightarrow> sql_error + (team_row \<times> database)" where
  "DisbandTeam ev uid orgID = update_team (team_key uid orgID)
     (\<lambda>t. t\<lparr>tm_Status := TeamStatusDisbanded, tm_UpdatedAt := Some (env_db_now ev)\<rparr>)"

section \<open>Memberships\<close>

text \<open>\<open>trg_team_memberships_org_consistency\<close>, before an insert or update.\<close>

definition membership_org_ok :: "database \<Rightarrow> membership_row \<Rightarrow> bool" where
  "membership_org_ok d m \<longleftrightarrow>
     (\<exists>t \<in> set (teams d). sql_eq (tm_ID t) (ms_TeamID m) \<and> sql_eq (tm_OrganizationID t) (ms_OrganizationID m))
   \<and> (\<exists>p \<in> set (players d). sql_eq (pl_ID p) (ms_PlayerID m) \<and> sql_eq (pl_OrganizationID p) (ms_OrganizationID m))"

definition membership_checks :: "membership_row \<Rightarrow> bool" where
  "membership_checks m \<longleftrightarrow> both_known (\<ge>) (ms_LeftAt m) (ms_JoinedAt m)
     \<and> (ms_Status m = MembershipStatusTransferred \<or> ms_Status m = MembershipStatusReleased \<longrightarrow> ms_LeftAt m \<noteq> None)"

record CreateMembershipParams =
  cm_TeamID :: uuid
  cm_PlayerID :: uuid
  cm_OrganizationID :: uuid
  cm_Role :: MembershipRole
  cm_JerseyNumber :: "string option"
  cm_Notes :: "string option"

definition created_membership :: "env \<Rightarrow> CreateMembershipParams \<Rightarrow> membership_row" where
  "created_membership ev p = \<lparr>ms_ID = Some (env_row_id ev), ms_TeamID = cm_TeamID p, ms_PlayerID = cm_PlayerID p,
     ms_Role = cm_Role p, ms_JerseyNumber = cm_JerseyNumber p, ms_Status = MembershipStatusActive,
     ms_JoinedAt = Some (env_db_now ev), ms_LeftAt = None, ms_Notes = cm_Notes p, ms_CreatedAt = Some (env_db_now ev),
     ms_UpdatedAt = Some (env_db_now ev), ms_OrganizationID = cm_OrganizationID p\<rparr>"

definition CreateMembership :: "env \<Rightarrow> CreateMembershipParams \<Rightarrow> database \<Rightarrow> sql_error + (membership_row \<times> database)" where
  "CreateMembership ev p d = (let m = created_membership ev p in
     if \<not> membership_org_ok d m then Inl (ConstraintViolation ''trg_team_memberships_org_consistency'')
     else if ms_ID m \<in> ms_ID ` set (team_memberships d) then Inl (ConstraintViolation ''pk_team_memberships'')
     else if \<not> refers o_ID (organizations d) (ms_OrganizationID m) then Inl (ConstraintViolation ''fk_team_memberships_organization'')
     else Inr (m, d\<lparr>team_memberships := team_memberships d @ [m]\<rparr>))"

definition GetActiveMembershipByPlayer :: "database \<Rightarrow> uuid \<Rightarrow> uuid \<Rightarrow> sql_error + membership_row" where
  "GetActiveMembershipByPlayer d playerID orgID = select_one (\<lambda>m. sql_eq (ms_PlayerID m) playerID
     \<and> sql_eq (ms_OrganizationID m) orgID \<and> ms_Status m = MembershipStatusActive) (team_memberships d)"

definition GetActiveMembershipByTeamAndPlayer :: "database \<Rightarrow> uuid \<Rightarrow> uuid \<Rightarrow> uuid \<Rightarrow> sql_error + membership_row" where
  "GetActiveMembershipByTeamAndPlayer d teamID playerID orgID = select_one (\<lambda>m. sql_eq (ms_TeamID m) teamID
     \<and> sql_eq (ms_PlayerID m) playerID \<and> sql_eq (ms_OrganizationID m) orgID \<and> ms_Status m = MembershipStatusActive) (team_memberships d)"

definition GetMembershipByID :: "database \<Rightarrow> uuid \<Rightarrow> uuid \<Rightarrow> sql_error + membership_row" where
  "GetMembershipByID d uid orgID =
     select_one (\<lambda>m. sql_eq (ms_ID m) uid \<and> sql_eq (ms_OrganizationID m) orgID) (team_memberships d)"

definition active_member :: "uuid \<Rightarrow> uuid \<Rightarrow> membership_row \<Rightarrow> bool" where
  "active_member teamID orgID m \<longleftrightarrow> sql_eq (ms_TeamID m) teamID \<and> sql_eq (ms_OrganizationID m) orgID
     \<and> ms_Status m = MembershipStatusActive"

definition ListActiveMembersByTeam :: "database \<Rightarrow> uuid \<Rightarrow> uuid \<Rightarrow> membership_row list" where
  "ListActiveMembersByTeam d teamID orgID =
     sort_key (\<lambda>m. ts_Time (ms_JoinedAt m)) (filter (active_member teamID orgID) (team_memberships d))"

text \<open>The join of \<open>ListActiveMembersWithNames\<close>: each membership with its player's name.\<close>

definition ListActiveMembersWithNames :: "database \<Rightarrow> uuid \<Rightarrow> uuid \<Rightarrow> (membership_row \<times> string) list" where
  "ListActiveMembersWithNames d teamID orgID = sort_key snd (concat (map (\<lambda>m.
     map (\<lambda>p. (m, pl_DisplayName p)) (filter (\<lambda>p. sql_eq (pl_ID p) (ms_PlayerID m)) (players d)))
     (filter (active_member teamID orgID) (team_memberships d))))"

definition released :: "env \<Rightarrow> membership_row \<Rightarrow> membership_row" where
  "released ev m = m\<lparr>ms_Status := MembershipStatusReleased, ms_LeftAt := Some (env_db_now ev), ms_UpdatedAt := Some (env_db_now ev)\<rparr>"

definition RemoveMembership :: "env \<Rightarrow> uuid \<Rightarrow> uuid \<Rightarrow> uuid \<Rightarrow> database \<Rightarrow> sql_error + (membership_row \<times> database)" where
  "RemoveMembership ev uid teamID orgID d = (let P = (\<lambda>m. sql_eq (ms_ID m) uid \<and> active_member teamID orgID m) in
     case find P (team_memberships d) of
       None \<Rightarrow> Inl ErrNoRows
     | Some m \<Rightarrow>
         if \<not> membership_org_ok d m then Inl (ConstraintViolation ''trg_team_memberships_org_consistency'')
         else if membership_checks (released ev m)
         then Inr (released ev m, d\<lparr>team_memberships := update_rows P (released ev) (team_memberships d)\<rparr>)
         else Inl (ConstraintViolation ''team_memberships''))"

end
