(* ===== verification/Team_Service.thy ===== *)
theory Team_Service
  imports Team_Store Tournament_Service
begin

text \<open>
  Package \<open>teams\<close>: the teams of an organization and their rosters (\<open>service.go\<close>, \<open>repository.go\<close>,
  \<open>dto.go\<close>).  A write is a preparation on a read of the database and a transaction at its commit.
\<close>

section \<open>Data\<close>

datatype team_error =
    TeamErrTeamNotFound
  | TeamErrOrganizationNotFound
  | TeamErrPlayerNotFound
  | TeamErrMembershipNotFound
  | TeamErrForbidden
  | TeamErrSlugAlreadyTaken
  | TeamErrSlugGenerationFailed
  | TeamErrInvalidStatus
  | TeamErrInvalidColor
  | TeamErrInvalidShortName
  | TeamErrMembershipAlreadyActive
  | TeamErrPlayerAlreadyAssigned
  | TeamErrCrossOrgMembership
  | TeamErrInvalidMembershipRole
  | TeamErrInvalidActor
  | TeamErrSql sql_error

record TeamCreateRequest =
  kq_Name :: string
  kq_ShortName :: "string option"
  kq_Description :: "string option"
  kq_LogoURL :: "string option"
  kq_HomeCity :: "string option"
  kq_HomeVenue :: "string option"
  kq_FoundedYear :: "int option"
  kq_PrimaryColor :: "string option"
  kq_SecondaryColor :: "string option"

record TeamUpdateRequest =
  ku_Name :: "string option"
  ku_ShortName :: "string option"
  ku_Description :: "string option"
  ku_LogoURL :: "string option"
  ku_HomeCity :: "string option"
  ku_HomeVenue :: "string option"
  ku_FoundedYear :: "int option"
  ku_PrimaryColor :: "string option"
  ku_SecondaryColor :: "string option"
  ku_Status :: "string option"

record TeamListParams =
  kl_Limit :: int
  kl_Offset :: int
  kl_StatusFilter :: "string option"
  kl_Search :: "string option"

record TeamResponse =
  kr_ID :: string
  kr_OrganizationID :: string
  kr_Name :: string
  kr_ShortName :: "string option"
  kr_Slug :: string
  kr_Description :: "string option"
  kr_LogoURL :: "string option"
  kr_HomeCity :: "string option"
  kr_HomeVenue :: "string option"
  kr_FoundedYear :: "int option"
  kr_PrimaryColor :: "string option"
  kr_SecondaryColor :: "string option"
  kr_Status :: string
  kr_CreatedAt :: string
  kr_UpdatedAt :: string

record TeamListResponse =
  kz_Teams :: "TeamResponse list"
  kz_Total :: int
  kz_Limit :: int
  kz_Offset :: int

record AddMemberRequest =
  am_PlayerID :: string
  am_Role :: "string option"
  am_JerseyNumber :: "string option"
  am_Notes :: "string option"

record MembershipResponse =
  mr_ID :: string
  mr_TeamID :: string
  mr_PlayerID :: string
  mr_OrganizationID :: string
  mr_Role :: string
  mr_JerseyNumber :: "string option"
  mr_Status :: string
  mr_JoinedAt :: string
  mr_LeftAt :: "string option"
  mr_Notes :: "string option"
  mr_CreatedAt :: string
  mr_UpdatedAt :: string
  mr_PlayerDisplayName :: string

definition teamToResponse :: "env \<Rightarrow> team_row \<Rightarrow> TeamResponse" where
  "teamToResponse ev t = \<lparr>kr_ID = UUIDToString (tm_ID t), kr_OrganizationID = UUIDToString (tm_OrganizationID t),
     kr_Name = tm_Name t, kr_ShortName = tm_ShortName t, kr_Slug = tm_Slug t, kr_Description = tm_Description t,
     kr_LogoURL = tm_LogoUrl t, kr_HomeCity = tm_HomeCity t, kr_HomeVenue = tm_HomeVenue t,
     kr_FoundedYear = tm_FoundedYear t, kr_PrimaryColor = tm_PrimaryColor t, kr_SecondaryColor = tm_SecondaryColor t,
     kr_Status = TeamStatus_str (tm_Status t), kr_CreatedAt = env_format_time ev (ts_Time (tm_CreatedAt t)),
     kr_UpdatedAt = env_format_time ev (ts_Time (tm_UpdatedAt t))\<rparr>"

definition membershipToResponse :: "env \<Rightarrow> membership_row \<Rightarrow> MembershipResponse" where
  "membershipToResponse ev m = \<lparr>mr_ID = UUIDToString (ms_ID m), mr_TeamID = UUIDToString (ms_TeamID m),
     mr_PlayerID = UUIDToString (ms_PlayerID m), mr_OrganizationID = UUIDToString (ms_OrganizationID m),
     mr_Role = MembershipRole_str (ms_Role m), mr_JerseyNumber = ms_JerseyNumber m,
     mr_Status = MembershipStatus_str (ms_Status m), mr_JoinedAt = env_format_time ev (ts_Time (ms_JoinedAt m)),
     mr_LeftAt = map_option (env_format_time ev) (ms_LeftAt m), mr_Notes = ms_Notes m,
     mr_CreatedAt = env_format_time ev (ts_Time (ms_CreatedAt m)),
     mr_UpdatedAt = env_format_time ev (ts_Time (ms_UpdatedAt m)), mr_PlayerDisplayName = []\<rparr>"

definition memberWithNameToResponse :: "env \<Rightarrow> membership_row \<times> string \<Rightarrow> MembershipResponse" where
  "memberWithNameToResponse ev mn = (membershipToResponse ev (fst mn))\<lparr>mr_PlayerDisplayName := snd mn\<rparr>"

text \<open>\<open>json.Marshal\<close> of the responses.\<close>

definition team_response_json :: "TeamResponse \<Rightarrow> json" where
  "team_response_json r = JObj ([(''id'', JStr (kr_ID r)), (''organization_id'', JStr (kr_OrganizationID r)), (''name'', JStr (kr_Name r))]
     @ omitempty ''short_name'' JStr (kr_ShortName r) @ [(''slug'', JStr (kr_Slug r))]
     @ omitempty ''description'' JStr (kr_Description r) @ omitempty ''logo_url'' JStr (kr_LogoURL r)
     @ omitempty ''home_city'' JStr (kr_HomeCity r) @ omitempty ''home_venue'' JStr (kr_HomeVenue r)
     @ omitempty ''founded_year'' JInt (kr_FoundedYear r) @ omitempty ''primary_color'' JStr (kr_PrimaryColor r)
     @ omitempty ''secondary_color'' JStr (kr_SecondaryColor r)
     @ [(''status'', JStr (kr_Status r)), (''created_at'', JStr (kr_CreatedAt r)), (''updated_at'', JStr (kr_UpdatedAt r))])"

definition membership_response_json :: "MembershipResponse \<Rightarrow> json" where
  "membership_response_json r = JObj ([(''id'', JStr (mr_ID r)), (''team_id'', JStr (mr_TeamID r)),
       (''player_id'', JStr (mr_PlayerID r)), (''organization_id'', JStr (mr_OrganizationID r)), (''role'', JStr (mr_Role r))]
     @ omitempty ''jersey_number'' JStr (mr_JerseyNumber r)
     @ [(''status'', JStr (mr_Status r)), (''joined_at'', JStr (mr_JoinedAt r))]
     @ omitempty ''left_at'' JStr (mr_LeftAt r) @ omitempty ''notes'' JStr (mr_Notes r)
     @ [(''created_at'', JStr (mr_CreatedAt r)), (''updated_at'', JStr (mr_UpdatedAt r)),
        (''player_display_name'', JStr (mr_PlayerDisplayName r))])"

definition teamToAuditJSON :: "env \<Rightarrow> team_row \<Rightarrow> payload" where
  "teamToAuditJSON ev t = marshalPayload [(''id'', JStr (UUIDToString (tm_ID t))),
     (''organization_id'', JStr (UUIDToString (tm_OrganizationID t))), (''name'', JStr (tm_Name t)),
     (''short_name'', json_opt JStr (tm_ShortName t)), (''slug'', JStr (tm_Slug t)),
     (''description'', json_opt JStr (tm_Description t)), (''logo_url'', json_opt JStr (tm_LogoUrl t)),
     (''home_city'', json_opt JStr (tm_HomeCity t)), (''home_venue'', json_opt JStr (tm_HomeVenue t)),
     (''founded_year'', json_opt JInt (tm_FoundedYear t)), (''primary_color'', json_opt JStr (tm_PrimaryColor t)),
     (''secondary_color'', json_opt JStr (tm_SecondaryColor t)), (''status'', JStr (TeamStatus_str (tm_Status t))),
     (''created_at'', JStr (env_format_time ev (ts_Time (tm_CreatedAt t)))),
     (''updated_at'', JStr (env_format_time ev (ts_Time (tm_UpdatedAt t))))]"

definition membershipToAuditJSON :: "env \<Rightarrow> membership_row \<Rightarrow> payload" where
  "membershipToAuditJSON ev m = marshalPayload [(''id'', JStr (UUIDToString (ms_ID m))),
     (''team_id'', JStr (UUIDToString (ms_TeamID m))), (''player_id'', JStr (UUIDToString (ms_PlayerID m))),
     (''organization_id'', JStr (UUIDToString (ms_OrganizationID m))), (''role'', JStr (MembershipRole_str (ms_Role m))),
     (''jersey_number'', json_opt JStr (ms_JerseyNumber m)), (''status'', JStr (MembershipStatus_str (ms_Status m))),
     (''joined_at'', JStr (env_format_time ev (ts_Time (ms_JoinedAt m)))),
     (''left_at'', json_opt JStr (map_option (env_format_time ev) (ms_LeftAt m))), (''notes'', json_opt JStr (ms_Notes m)),
     (''created_at'', JStr (env_format_time ev (ts_Time (ms_CreatedAt m)))),
     (''updated_at'', JStr (env_format_time ev (ts_Time (ms_UpdatedAt m))))]"

section \<open>Helpers\<close>

definition generateTeamSlug :: "string \<Rightarrow> string" where
  "generateTeamSlug name =
     (let s = strings_Trim CHR ''-'' (dash_runs False (strings_ToLower (strings_TrimSpace name)));
          s = (if length s > 90 then strings_TrimRight CHR ''-'' (take 90 s) else s);
          s = (if length s < 3 then ''team-'' @ s else s)
      in if length s < 3 then ''team-x'' else s)"

definition validateShortName :: "string option \<Rightarrow> team_error + unit" where
  "validateShortName s = (if derefStr s = [] then Inr ()
     else let n = char_length (strings_TrimSpace (derefStr s)) in ensure (\<not> (n < 2 \<or> n > 10)) TeamErrInvalidShortName)"

definition validateColor :: "string option \<Rightarrow> team_error + unit" where
  "validateColor s = (if derefStr s = [] then Inr () else ensure (hex_color (derefStr s)) TeamErrInvalidColor)"

definition validateTeamFields :: "string option \<Rightarrow> string option \<Rightarrow> string option \<Rightarrow> team_error + unit" where
  "validateTeamFields shortName primaryColor secondaryColor =
     res_bind (validateShortName shortName) (\<lambda>_. res_bind (validateColor primaryColor) (\<lambda>_. validateColor secondaryColor))"

definition parseTeamStatus :: "string \<Rightarrow> team_error + TeamStatus" where
  "parseTeamStatus = parse_enum TeamErrInvalidStatus TeamStatus_str [TeamStatusActive, TeamStatusInactive, TeamStatusDisbanded]"

definition parseMembershipRole :: "string option \<Rightarrow> team_error + MembershipRole" where
  "parseMembershipRole s = (if derefStr s = [] then Inr MembershipRolePlayer
     else parse_enum TeamErrInvalidMembershipRole MembershipRole_str
       [MembershipRolePlayer, MembershipRoleCaptain, MembershipRoleViceCaptain, MembershipRoleCoach, MembershipRoleManager,
        MembershipRoleSupportStaff] (derefStr s))"

definition team_GetOrgBySlug :: "database \<Rightarrow> string \<Rightarrow> team_error + org_row" where
  "team_GetOrgBySlug d slug = no_rows_as TeamErrOrganizationNotFound TeamErrSql (GetOrganizationBySlug d slug)"

definition team_actor :: "env \<Rightarrow> string \<Rightarrow> team_error + uuid" where
  "team_actor ev actorID = res_map_err (\<lambda>_. TeamErrInvalidActor) (ParseUUID (env_scan ev) actorID)"

definition team_of_url :: "env \<Rightarrow> database \<Rightarrow> uuid \<Rightarrow> string \<Rightarrow> team_error + team_row" where
  "team_of_url ev d orgID teamID =
     res_bind (res_map_err (\<lambda>_. TeamErrTeamNotFound) (ParseUUID (env_scan ev) teamID)) (\<lambda>tid.
       no_rows_as TeamErrTeamNotFound TeamErrSql (GetTeamByID d tid orgID))"

text \<open>The organization of the URL, checked against the one of the actor.\<close>

definition team_owner :: "database \<Rightarrow> string \<Rightarrow> string \<Rightarrow> team_error + org_row" where
  "team_owner d orgSlug actorOrgID = res_bind (team_GetOrgBySlug d orgSlug) (\<lambda>org.
     res_bind (assert_owner TeamErrForbidden actorOrgID (UUIDToString (o_ID org))) (\<lambda>_. Inr org))"

section \<open>Transactions\<close>

record createTeamTxParams =
  ktc_createParams :: CreateTeamParams
  ktc_actorID :: uuid

definition team_CreateWithAudit :: "env \<Rightarrow> createTeamTxParams \<Rightarrow> database \<Rightarrow> team_error + (team_row \<times> database)" where
  "team_CreateWithAudit ev p d = (case CreateTeam ev (ktc_createParams p) d of
       Inl e \<Rightarrow> Inl (if e = ConstraintViolation ''uq_teams_org_slug'' then TeamErrSlugAlreadyTaken else TeamErrSql e)
     | Inr (t, d1) \<Rightarrow> Inr (t, CreateAuditLog ev (auditParams (tm_OrganizationID t) (ktc_actorID p) AuditActionCreate
           ''teams'' (tm_ID t) PEmpty (teamToAuditJSON ev t)) d1))"

record updateTeamTxParams =
  ktu_updateParams :: UpdateTeamParams
  ktu_actorID :: uuid
  ktu_oldData :: payload

definition team_UpdateWithAudit :: "env \<Rightarrow> updateTeamTxParams \<Rightarrow> database \<Rightarrow> team_error + (team_row \<times> database)" where
  "team_UpdateWithAudit ev p d =
     res_bind (no_rows_as TeamErrTeamNotFound TeamErrSql (UpdateTeam ev (ktu_updateParams p) d)) (\<lambda>(t, d1).
       Inr (t, CreateAuditLog ev (auditParams (tm_OrganizationID t) (ktu_actorID p) AuditActionUpdate ''teams'' (tm_ID t)
           (ktu_oldData p) (teamToAuditJSON ev t)) d1))"

record disbandTeamTxParams =
  ktd_id :: uuid
  ktd_orgID :: uuid
  ktd_actorID :: uuid
  ktd_oldData :: payload

definition team_DisbandWithAudit :: "env \<Rightarrow> disbandTeamTxParams \<Rightarrow> database \<Rightarrow> team_error + database" where
  "team_DisbandWithAudit ev p d =
     res_bind (no_rows_as TeamErrTeamNotFound TeamErrSql (DisbandTeam ev (ktd_id p) (ktd_orgID p) d)) (\<lambda>(_, d1).
       Inr (CreateAuditLog ev (auditParams (ktd_orgID p) (ktd_actorID p) AuditActionDelete ''teams'' (ktd_id p)
           (ktd_oldData p) PEmpty) d1))"

record addMemberTxParams =
  kta_createParams :: CreateMembershipParams
  kta_actorID :: uuid

definition AddMemberWithAudit :: "env \<Rightarrow> addMemberTxParams \<Rightarrow> database \<Rightarrow> team_error + (membership_row \<times> database)" where
  "AddMemberWithAudit ev p d =
     res_bind (res_map_err TeamErrSql (CreateMembership ev (kta_createParams p) d)) (\<lambda>(m, d1).
       Inr (m, CreateAuditLog ev (auditParams (ms_OrganizationID m) (kta_actorID p) AuditActionCreate ''team_memberships''
           (ms_ID m) PEmpty (membershipToAuditJSON ev m)) d1))"

record removeMemberTxParams =
  ktr_id :: uuid
  ktr_teamID :: uuid
  ktr_orgID :: uuid
  ktr_actorID :: uuid
  ktr_oldData :: payload

definition RemoveMemberWithAudit :: "env \<Rightarrow> removeMemberTxParams \<Rightarrow> database \<Rightarrow> team_error + database" where
  "RemoveMemberWithAudit ev p d =
     res_bind (no_rows_as TeamErrMembershipNotFound TeamErrSql (RemoveMembership ev (ktr_id p) (ktr_teamID p) (ktr_orgID p) d)) (\<lambda>(_, d1).
       Inr (CreateAuditLog ev (auditParams (ktr_orgID p) (ktr_actorID p) AuditActionDelete ''team_memberships'' (ktr_id p)
           (ktr_oldData p) PEmpty) d1))"

section \<open>Teams\<close>

definition prepare_team :: "env \<Rightarrow> database \<Rightarrow> string \<Rightarrow> TeamCreateRequest \<Rightarrow> string \<Rightarrow> string
    \<Rightarrow> team_error + (CreateTeamParams \<times> uuid)" where
  "prepare_team ev d orgSlug req actorID actorOrgID =
     res_bind (team_owner d orgSlug actorOrgID) (\<lambda>org.
     res_bind (team_actor ev actorID) (\<lambda>actorUID.
     res_bind (validateTeamFields (kq_ShortName req) (kq_PrimaryColor req) (kq_SecondaryColor req)) (\<lambda>_.
       Inr (\<lparr>ct_OrganizationID = o_ID org, ct_Name = strings_TrimSpace (kq_Name req), ct_ShortName = kq_ShortName req,
         ct_Slug = generateTeamSlug (kq_Name req), ct_Description = kq_Description req, ct_LogoUrl = kq_LogoURL req,
         ct_HomeCity = kq_HomeCity req, ct_HomeVenue = kq_HomeVenue req, ct_FoundedYear = kq_FoundedYear req,
         ct_PrimaryColor = kq_PrimaryColor req, ct_SecondaryColor = kq_SecondaryColor req\<rparr>, actorUID))))"

fun team_attempts :: "env \<Rightarrow> CreateTeamParams \<Rightarrow> uuid \<Rightarrow> nat list \<Rightarrow> database \<Rightarrow> team_error + (team_row \<times> database)" where
  "team_attempts ev p actor [] d = Inl TeamErrSlugGenerationFailed"
| "team_attempts ev p actor (n # ns) d =
     (case team_CreateWithAudit ev \<lparr>ktc_createParams = p\<lparr>ct_Slug := numbered_slug (ct_Slug p) n\<rparr>, ktc_actorID = actor\<rparr> d of
        Inl e \<Rightarrow> if e = TeamErrSlugAlreadyTaken then team_attempts ev p actor ns d else Inl e
      | Inr r \<Rightarrow> Inr r)"

definition team_Create :: "env \<Rightarrow> string \<Rightarrow> TeamCreateRequest \<Rightarrow> string \<Rightarrow> string \<Rightarrow> database
    \<Rightarrow> team_error + (TeamResponse \<times> database)" where
  "team_Create ev orgSlug req actorID actorOrgID d =
     res_bind (prepare_team ev d orgSlug req actorID actorOrgID) (\<lambda>(p, actorUID).
     res_bind (team_attempts ev p actorUID [1..<11] d) (\<lambda>(t, d'). Inr (teamToResponse ev t, d')))"

definition team_List :: "env \<Rightarrow> string \<Rightarrow> TeamListParams \<Rightarrow> database \<Rightarrow> team_error + TeamListResponse" where
  "team_List ev orgSlug p d = res_bind (team_GetOrgBySlug d orgSlug) (\<lambda>org.
     let limit = (if kl_Limit p \<le> 0 \<or> kl_Limit p > 200 then 50 else kl_Limit p);
         offset = (if kl_Offset p < 0 then 0 else kl_Offset p) in
     Inr \<lparr>kz_Teams = map (teamToResponse ev) (ListTeamsPaginated d (o_ID org) (kl_StatusFilter p) (kl_Search p) offset limit),
          kz_Total = CountTeamsByOrganization d (o_ID org) (kl_StatusFilter p) (kl_Search p), kz_Limit = limit, kz_Offset = offset\<rparr>)"

definition team_Get :: "env \<Rightarrow> string \<Rightarrow> string \<Rightarrow> database \<Rightarrow> team_error + TeamResponse" where
  "team_Get ev orgSlug teamID d = res_bind (team_GetOrgBySlug d orgSlug) (\<lambda>org.
     res_bind (team_of_url ev d (o_ID org) teamID) (\<lambda>t. Inr (teamToResponse ev t)))"

definition team_params :: "team_row \<Rightarrow> UpdateTeamParams" where
  "team_params t = \<lparr>ut_ID = tm_ID t, ut_OrganizationID = tm_OrganizationID t, ut_Name = tm_Name t,
     ut_ShortName = tm_ShortName t, ut_Description = tm_Description t, ut_LogoUrl = tm_LogoUrl t,
     ut_HomeCity = tm_HomeCity t, ut_HomeVenue = tm_HomeVenue t, ut_FoundedYear = tm_FoundedYear t,
     ut_PrimaryColor = tm_PrimaryColor t, ut_SecondaryColor = tm_SecondaryColor t, ut_Status = tm_Status t\<rparr>"

text \<open>\<open>if req.X != nil { if err := check(req.X); err != nil { return err }; params.X = req.X }\<close>\<close>

definition overlay_checked :: "('a option \<Rightarrow> 'e + unit) \<Rightarrow> 'a option \<Rightarrow> 'a option \<Rightarrow> 'e + 'a option" where
  "overlay_checked check x cur = (case x of None \<Rightarrow> Inr cur | Some _ \<Rightarrow> res_bind (check x) (\<lambda>_. Inr x))"

definition overlay_team :: "TeamUpdateRequest \<Rightarrow> UpdateTeamParams \<Rightarrow> team_error + UpdateTeamParams" where
  "overlay_team req p =
     res_bind (overlay_checked validateShortName (ku_ShortName req) (ut_ShortName p)) (\<lambda>shortName.
     res_bind (overlay_checked validateColor (ku_PrimaryColor req) (ut_PrimaryColor p)) (\<lambda>primary.
     res_bind (overlay_checked validateColor (ku_SecondaryColor req) (ut_SecondaryColor p)) (\<lambda>secondary.
     res_bind (overlay (ku_Status req) parseTeamStatus (ut_Status p)) (\<lambda>status.
       Inr (p\<lparr>ut_Name := (case ku_Name req of None \<Rightarrow> ut_Name p | Some s \<Rightarrow> strings_TrimSpace s), ut_ShortName := shortName,
         ut_Description := override (ku_Description req) (ut_Description p),
         ut_LogoUrl := override (ku_LogoURL req) (ut_LogoUrl p), ut_HomeCity := override (ku_HomeCity req) (ut_HomeCity p),
         ut_HomeVenue := override (ku_HomeVenue req) (ut_HomeVenue p),
         ut_FoundedYear := override (ku_FoundedYear req) (ut_FoundedYear p), ut_PrimaryColor := primary,
         ut_SecondaryColor := secondary, ut_Status := status\<rparr>)))))"

definition prepare_team_update :: "env \<Rightarrow> database \<Rightarrow> string \<Rightarrow> string \<Rightarrow> TeamUpdateRequest \<Rightarrow> string \<Rightarrow> string
    \<Rightarrow> team_error + updateTeamTxParams" where
  "prepare_team_update ev d orgSlug teamID req actorID actorOrgID =
     res_bind (team_owner d orgSlug actorOrgID) (\<lambda>org.
     res_bind (team_of_url ev d (o_ID org) teamID) (\<lambda>current.
     res_bind (team_actor ev actorID) (\<lambda>actorUID.
     res_bind (overlay_team req (team_params current)) (\<lambda>p.
       Inr \<lparr>ktu_updateParams = p, ktu_actorID = actorUID,
            ktu_oldData = PDoc (team_response_json (teamToResponse ev current))\<rparr>))))"

definition team_Update :: "env \<Rightarrow> string \<Rightarrow> string \<Rightarrow> TeamUpdateRequest \<Rightarrow> string \<Rightarrow> string \<Rightarrow> database
    \<Rightarrow> team_error + (TeamResponse \<times> database)" where
  "team_Update ev orgSlug teamID req actorID actorOrgID d =
     res_bind (prepare_team_update ev d orgSlug teamID req actorID actorOrgID) (\<lambda>p.
     res_bind (team_UpdateWithAudit ev p d) (\<lambda>(t, d'). Inr (teamToResponse ev t, d')))"

definition prepare_team_delete :: "env \<Rightarrow> database \<Rightarrow> string \<Rightarrow> string \<Rightarrow> string \<Rightarrow> string \<Rightarrow> team_error + disbandTeamTxParams" where
  "prepare_team_delete ev d orgSlug teamID actorID actorOrgID =
     res_bind (team_owner d orgSlug actorOrgID) (\<lambda>org.
     res_bind (team_of_url ev d (o_ID org) teamID) (\<lambda>current.
     res_bind (team_actor ev actorID) (\<lambda>actorUID.
       Inr \<lparr>ktd_id = tm_ID current, ktd_orgID = tm_OrganizationID current, ktd_actorID = actorUID,
            ktd_oldData = PDoc (team_response_json (teamToResponse ev current))\<rparr>)))"

definition team_Delete :: "env \<Rightarrow> string \<Rightarrow> string \<Rightarrow> string \<Rightarrow> string \<Rightarrow> database \<Rightarrow> team_error + database" where
  "team_Delete ev orgSlug teamID actorID actorOrgID d =
     res_bind (prepare_team_delete ev d orgSlug teamID actorID actorOrgID) (\<lambda>p. team_DisbandWithAudit ev p d)"

section \<open>Rosters\<close>

definition team_GetPlayerByID :: "database \<Rightarrow> uuid \<Rightarrow> uuid \<Rightarrow> team_error + string" where
  "team_GetPlayerByID d uid orgID =
     res_bind (no_rows_as TeamErrPlayerNotFound TeamErrSql (GetPlayerByID d uid orgID)) (\<lambda>p. Inr (pl_DisplayName p))"

definition prepare_member :: "env \<Rightarrow> database \<Rightarrow> string \<Rightarrow> string \<Rightarrow> AddMemberRequest \<Rightarrow> string \<Rightarrow> string
    \<Rightarrow> team_error + (addMemberTxParams \<times> string)" where
  "prepare_member ev d orgSlug teamID req actorID actorOrgID =
     res_bind (team_owner d orgSlug actorOrgID) (\<lambda>org.
     res_bind (res_map_err (\<lambda>_. TeamErrTeamNotFound) (ParseUUID (env_scan ev) teamID)) (\<lambda>tid.
     res_bind (team_of_url ev d (o_ID org) teamID) (\<lambda>_.
     res_bind (res_map_err (\<lambda>_. TeamErrPlayerNotFound) (ParseUUID (env_scan ev) (am_PlayerID req))) (\<lambda>pid.
     res_bind (res_map_err (\<lambda>e. if e = TeamErrPlayerNotFound then TeamErrCrossOrgMembership else e)
         (team_GetPlayerByID d pid (o_ID org))) (\<lambda>name.
     res_bind (ensure (\<not> is_ok (GetActiveMembershipByPlayer d pid (o_ID org))) TeamErrPlayerAlreadyAssigned) (\<lambda>_.
     res_bind (team_actor ev actorID) (\<lambda>actorUID.
     res_bind (parseMembershipRole (am_Role req)) (\<lambda>role.
       Inr (\<lparr>kta_createParams = \<lparr>cm_TeamID = tid, cm_PlayerID = pid, cm_OrganizationID = o_ID org, cm_Role = role,
              cm_JerseyNumber = am_JerseyNumber req, cm_Notes = am_Notes req\<rparr>, kta_actorID = actorUID\<rparr>, name)))))))))"

definition AddMember :: "env \<Rightarrow> string \<Rightarrow> string \<Rightarrow> AddMemberRequest \<Rightarrow> string \<Rightarrow> string \<Rightarrow> database
    \<Rightarrow> team_error + (MembershipResponse \<times> database)" where
  "AddMember ev orgSlug teamID req actorID actorOrgID d =
     res_bind (prepare_member ev d orgSlug teamID req actorID actorOrgID) (\<lambda>(p, name).
     res_bind (AddMemberWithAudit ev p d) (\<lambda>(m, d').
       Inr ((membershipToResponse ev m)\<lparr>mr_PlayerDisplayName := name\<rparr>, d')))"

definition ListMembers :: "env \<Rightarrow> string \<Rightarrow> string \<Rightarrow> database \<Rightarrow> team_error + MembershipResponse list" where
  "ListMembers ev orgSlug teamID d = res_bind (team_GetOrgBySlug d orgSlug) (\<lambda>org.
     res_bind (res_map_err (\<lambda>_. TeamErrTeamNotFound) (ParseUUID (env_scan ev) teamID)) (\<lambda>tid.
     res_bind (team_of_url ev d (o_ID org) teamID) (\<lambda>_.
       Inr (map (memberWithNameToResponse ev) (ListActiveMembersWithNames d tid (o_ID org))))))"

definition prepare_removal :: "env \<Rightarrow> database \<Rightarrow> string \<Rightarrow> string \<Rightarrow> string \<Rightarrow> string \<Rightarrow> string
    \<Rightarrow> team_error + removeMemberTxParams" where
  "prepare_removal ev d orgSlug teamID membershipID actorID actorOrgID =
     res_bind (team_owner d orgSlug actorOrgID) (\<lambda>org.
     res_bind (res_map_err (\<lambda>_. TeamErrTeamNotFound) (ParseUUID (env_scan ev) teamID)) (\<lambda>tid.
     res_bind (team_of_url ev d (o_ID org) teamID) (\<lambda>_.
     res_bind (res_map_err (\<lambda>_. TeamErrMembershipNotFound) (ParseUUID (env_scan ev) membershipID)) (\<lambda>mid.
     res_bind (no_rows_as TeamErrMembershipNotFound TeamErrSql (GetMembershipByID d mid (o_ID org))) (\<lambda>current.
     res_bind (ensure (UUIDToString (ms_TeamID current) = UUIDToString tid) TeamErrMembershipNotFound) (\<lambda>_.
     res_bind (team_actor ev actorID) (\<lambda>actorUID.
       Inr \<lparr>ktr_id = ms_ID current, ktr_teamID = tid, ktr_orgID = o_ID org, ktr_actorID = actorUID,
            ktr_oldData = PDoc (membership_response_json (membershipToResponse ev current))\<rparr>)))))))"

definition RemoveMember :: "env \<Rightarrow> string \<Rightarrow> string \<Rightarrow> string \<Rightarrow> string \<Rightarrow> string \<Rightarrow> database \<Rightarrow> team_error + database" where
  "RemoveMember ev orgSlug teamID membershipID actorID actorOrgID d =
     res_bind (prepare_removal ev d orgSlug teamID membershipID actorID actorOrgID) (\<lambda>p. RemoveMemberWithAudit ev p d)"

end
