(* ===== verification/Player_Store.thy ===== *)
theory Player_Store
  imports Team_Store Auth_Model
begin

text \<open>
  The queries of \<open>db/sqlc/players.sql.go\<close> with the constraints of the migrations \<open>000005\<close> and \<open>000028\<close>
  (the foreign key into \<open>users\<close> apart).  Dates are days since 1970; the current date of the database is
  taken in UTC.
\<close>

definition day_of :: "int \<Rightarrow> int" where
  "day_of t = t div minutes (24 * 60)"

definition player_checks :: "int \<Rightarrow> player_row \<Rightarrow> bool" where
  "player_checks now p \<longleftrightarrow> 1 \<le> char_length (sql_trim (pl_DisplayName p))
     \<and> opt_all (\<lambda>h. 50 < h \<and> h < 300) (pl_HeightCm p) \<and> opt_all (\<lambda>w. 20 < w \<and> w < 300) (pl_WeightKg p)
     \<and> opt_all (\<lambda>h. h \<in> {''left'', ''right'', ''ambidextrous''}) (pl_DominantHand p)
     \<and> opt_all (\<lambda>c. length c = 2 \<and> list_all upper_char c) (pl_Nationality p)
     \<and> opt_all (\<lambda>t. t < day_of now) (pl_DateOfBirth p)
     \<and> pl_Visibility p \<in> {''public'', ''unlisted'', ''private''}"

section \<open>Reads\<close>

definition player_key :: "uuid \<Rightarrow> uuid \<Rightarrow> player_row \<Rightarrow> bool" where
  "player_key uid orgID p \<longleftrightarrow> sql_eq (pl_ID p) uid \<and> sql_eq (pl_OrganizationID p) orgID"

definition player_filter :: "uuid \<Rightarrow> string option \<Rightarrow> string option \<Rightarrow> player_row \<Rightarrow> bool" where
  "player_filter orgID status query p \<longleftrightarrow> sql_eq (pl_OrganizationID p) orgID \<and> pl_ArchivedAt p = None
     \<and> (status \<noteq> None \<or> pl_Status p \<noteq> PlayerStatusInactive)
     \<and> opt_all (\<lambda>s. PlayerStatus_str (pl_Status p) = s) status \<and> opt_all (ilike_contains (Some (pl_DisplayName p))) query"

definition CountPlayersByOrganization :: "database \<Rightarrow> uuid \<Rightarrow> string option \<Rightarrow> string option \<Rightarrow> int" where
  "CountPlayersByOrganization d orgID status query = int (length (filter (player_filter orgID status query) (players d)))"

definition ListPlayersPaginated :: "database \<Rightarrow> uuid \<Rightarrow> string option \<Rightarrow> string option \<Rightarrow> int \<Rightarrow> int \<Rightarrow> player_row list" where
  "ListPlayersPaginated d orgID status query offset limit =
     page limit offset (sort_key pl_DisplayName (filter (player_filter orgID status query) (players d)))"

definition ListPlayersByOrganization :: "database \<Rightarrow> uuid \<Rightarrow> player_row list" where
  "ListPlayersByOrganization d orgID = sort_key pl_DisplayName
     (filter (\<lambda>p. sql_eq (pl_OrganizationID p) orgID \<and> pl_ArchivedAt p = None) (players d))"

definition own_profile :: "uuid \<Rightarrow> player_row \<Rightarrow> bool" where
  "own_profile userID p \<longleftrightarrow> sql_eq (pl_UserID p) userID \<and> pl_ArchivedAt p = None"

definition GetPlayerProfileByID :: "database \<Rightarrow> uuid \<Rightarrow> sql_error + player_row" where
  "GetPlayerProfileByID d uid = select_one (\<lambda>p. sql_eq (pl_ID p) uid \<and> pl_ArchivedAt p = None) (players d)"

section \<open>Writes\<close>

text \<open>The checks, the primary key, the partial unique index on the user, the organization.\<close>

definition insert_player :: "int \<Rightarrow> player_row \<Rightarrow> database \<Rightarrow> sql_error + (player_row \<times> database)" where
  "insert_player now p d =
     (if \<not> player_checks now p \<or> pl_ID p \<in> pl_ID ` set (players d) then Inl (ConstraintViolation ''players'')
      else if \<exists>q \<in> set (players d). own_profile (pl_UserID p) q then Inl (ConstraintViolation ''uq_players_user_id'')
      else if \<not> refers o_ID (organizations d) (pl_OrganizationID p) then Inl (ConstraintViolation ''fk_players_organization'')
      else Inr (p, d\<lparr>players := players d @ [p]\<rparr>))"

definition update_player :: "int \<Rightarrow> (player_row \<Rightarrow> bool) \<Rightarrow> (player_row \<Rightarrow> player_row) \<Rightarrow> database
    \<Rightarrow> sql_error + (player_row \<times> database)" where
  "update_player now P upd d = (case find P (players d) of
       None \<Rightarrow> Inl ErrNoRows
     | Some p \<Rightarrow> if player_checks now (upd p) then Inr (upd p, d\<lparr>players := update_rows P upd (players d)\<rparr>)
         else Inl (ConstraintViolation ''players''))"

record CreatePlayerParams =
  cp_OrganizationID :: uuid
  cp_UserID :: uuid
  cp_DisplayName :: string
  cp_JerseyNumber :: "string option"
  cp_Position :: "string option"
  cp_HeightCm :: "int option"
  cp_WeightKg :: "int option"
  cp_DominantHand :: "string option"
  cp_Nationality :: "string option"
  cp_DateOfBirth :: "int option"
  cp_Bio :: "string option"

definition created_player :: "env \<Rightarrow> CreatePlayerParams \<Rightarrow> player_row" where
  "created_player ev p = \<lparr>pl_ID = Some (env_row_id ev), pl_OrganizationID = cp_OrganizationID p, pl_UserID = cp_UserID p,
     pl_DisplayName = cp_DisplayName p, pl_JerseyNumber = cp_JerseyNumber p, pl_Position = cp_Position p,
     pl_HeightCm = cp_HeightCm p, pl_WeightKg = cp_WeightKg p, pl_DominantHand = cp_DominantHand p,
     pl_Nationality = cp_Nationality p, pl_DateOfBirth = cp_DateOfBirth p, pl_Status = PlayerStatusActive,
     pl_Bio = cp_Bio p, pl_Metadata = empty_object, pl_CreatedAt = Some (env_db_now ev),
     pl_UpdatedAt = Some (env_db_now ev), pl_Visibility = ''private'', pl_ArchivedAt = None\<rparr>"

definition CreatePlayer :: "env \<Rightarrow> CreatePlayerParams \<Rightarrow> database \<Rightarrow> sql_error + (player_row \<times> database)" where
  "CreatePlayer ev p = insert_player (env_db_now ev) (created_player ev p)"

text \<open>A global profile: no organization, and the visibility the owner chose.\<close>

definition CreateGlobalPlayerProfile :: "env \<Rightarrow> CreatePlayerParams \<Rightarrow> string \<Rightarrow> database
    \<Rightarrow> sql_error + (player_row \<times> database)" where
  "CreateGlobalPlayerProfile ev p visibility = insert_player (env_db_now ev)
     ((created_player ev p)\<lparr>pl_OrganizationID := None, pl_Visibility := visibility\<rparr>)"

record UpdatePlayerParams =
  yp_ID :: uuid
  yp_OrganizationID :: uuid
  yp_DisplayName :: string
  yp_JerseyNumber :: "string option"
  yp_Position :: "string option"
  yp_HeightCm :: "int option"
  yp_WeightKg :: "int option"
  yp_DominantHand :: "string option"
  yp_Nationality :: "string option"
  yp_DateOfBirth :: "int option"
  yp_Bio :: "string option"
  yp_Status :: PlayerStatus

definition identity_fields :: "env \<Rightarrow> UpdatePlayerParams \<Rightarrow> player_row \<Rightarrow> player_row" where
  "identity_fields ev p r = r\<lparr>pl_DisplayName := yp_DisplayName p, pl_JerseyNumber := yp_JerseyNumber p,
     pl_Position := yp_Position p, pl_HeightCm := yp_HeightCm p, pl_WeightKg := yp_WeightKg p,
     pl_DominantHand := yp_DominantHand p, pl_Nationality := yp_Nationality p, pl_DateOfBirth := yp_DateOfBirth p,
     pl_Bio := yp_Bio p, pl_UpdatedAt := Some (env_db_now ev)\<rparr>"

definition UpdatePlayer :: "env \<Rightarrow> UpdatePlayerParams \<Rightarrow> database \<Rightarrow> sql_error + (player_row \<times> database)" where
  "UpdatePlayer ev p = update_player (env_db_now ev) (player_key (yp_ID p) (yp_OrganizationID p))
     (\<lambda>r. (identity_fields ev p r)\<lparr>pl_Status := yp_Status p\<rparr>)"

definition UpdateOwnPlayerProfile :: "env \<Rightarrow> UpdatePlayerParams \<Rightarrow> uuid \<Rightarrow> string \<Rightarrow> database
    \<Rightarrow> sql_error + (player_row \<times> database)" where
  "UpdateOwnPlayerProfile ev p userID visibility = update_player (env_db_now ev)
     (\<lambda>r. sql_eq (pl_ID r) (yp_ID p) \<and> own_profile userID r) (\<lambda>r. (identity_fields ev p r)\<lparr>pl_Visibility := visibility\<rparr>)"

definition SoftDeletePlayer :: "env \<Rightarrow> uuid \<Rightarrow> uuid \<Rightarrow> database \<Rightarrow> sql_error + (player_row \<times> database)" where
  "SoftDeletePlayer ev uid orgID = update_player (env_db_now ev) (player_key uid orgID)
     (\<lambda>r. r\<lparr>pl_Status := PlayerStatusInactive, pl_UpdatedAt := Some (env_db_now ev)\<rparr>)"

end
