(* ===== verification/Player_Service.thy ===== *)
theory Player_Service
  imports Player_Store Tournament_Service
begin

text \<open>
  Package \<open>players\<close>: the players of an organization (\<open>service.go\<close>) and the profile a user owns
  (\<open>selfprofile.go\<close>), over \<open>repository.go\<close>.  The media table is not modelled: the URL of an avatar is an
  argument.  \<open>time.Parse\<close> and \<open>Format\<close> of a date are those of the account environment.
\<close>

section \<open>Data\<close>

datatype player_error =
    PlayerErrPlayerNotFound
  | PlayerErrOrganizationNotFound
  | PlayerErrForbidden
  | PlayerErrProfileExists
  | PlayerErrInvalidVisibility
  | PlayerErrInvalidStatus
  | PlayerErrInvalidDominantHand
  | PlayerErrInvalidNationality
  | PlayerErrInvalidDateOfBirth
  | PlayerErrInvalidActor
  | PlayerErrUUID pgutil_error
  | PlayerErrSql sql_error

record PlayerCreateRequest =
  pq_DisplayName :: string
  pq_JerseyNumber :: "string option"
  pq_Position :: "string option"
  pq_HeightCm :: "int option"
  pq_WeightKg :: "int option"
  pq_DominantHand :: "string option"
  pq_Nationality :: "string option"
  pq_DateOfBirth :: "string option"
  pq_Bio :: "string option"
  pq_UserID :: "string option"
  pq_Visibility :: "string option"    \<comment> \<open>of \<open>CreateProfileRequest\<close>, which has no user\<close>

record PlayerUpdateRequest =
  pu_DisplayName :: "string option"
  pu_JerseyNumber :: "string option"
  pu_Position :: "string option"
  pu_HeightCm :: "int option"
  pu_WeightKg :: "int option"
  pu_DominantHand :: "string option"
  pu_Nationality :: "string option"
  pu_DateOfBirth :: "string option"
  pu_Bio :: "string option"
  pu_Status :: "string option"        \<comment> \<open>absent from \<open>UpdateProfileRequest\<close>\<close>
  pu_Visibility :: "string option"    \<comment> \<open>absent from \<open>UpdateRequest\<close>\<close>

record PlayerListParams =
  pz_Limit :: int
  pz_Offset :: int
  pz_StatusFilter :: "string option"
  pz_Search :: "string option"

record PlayerResponse =
  py_ID :: string
  py_OrganizationID :: string
  py_UserID :: "string option"
  py_DisplayName :: string
  py_JerseyNumber :: "string option"
  py_Position :: "string option"
  py_HeightCm :: "int option"
  py_WeightKg :: "int option"
  py_DominantHand :: "string option"
  py_Nationality :: "string option"
  py_DateOfBirth :: "string option"
  py_Status :: string
  py_Bio :: "string option"
  py_Visibility :: string
  py_AvatarURL :: "string option"
  py_CreatedAt :: string
  py_UpdatedAt :: string

record PlayerListResponse =
  pw_Players :: "PlayerResponse list"
  pw_Total :: int
  pw_Limit :: int
  pw_Offset :: int

definition playerToResponse :: "account_env \<Rightarrow> player_row \<Rightarrow> PlayerResponse" where
  "playerToResponse ae p = \<lparr>py_ID = UUIDToString (pl_ID p), py_OrganizationID = UUIDToString (pl_OrganizationID p),
     py_UserID = uuidStringPtr (pl_UserID p), py_DisplayName = pl_DisplayName p, py_JerseyNumber = pl_JerseyNumber p,
     py_Position = pl_Position p, py_HeightCm = pl_HeightCm p, py_WeightKg = pl_WeightKg p,
     py_DominantHand = pl_DominantHand p, py_Nationality = pl_Nationality p,
     py_DateOfBirth = map_option (ac_format_date ae) (pl_DateOfBirth p), py_Status = PlayerStatus_str (pl_Status p),
     py_Bio = pl_Bio p, py_Visibility = pl_Visibility p, py_AvatarURL = None,
     py_CreatedAt = env_format_time (ac_env ae) (ts_Time (pl_CreatedAt p)),
     py_UpdatedAt = env_format_time (ac_env ae) (ts_Time (pl_UpdatedAt p))\<rparr>"

definition player_response_json :: "PlayerResponse \<Rightarrow> json" where
  "player_response_json r = JObj ([(''id'', JStr (py_ID r)), (''organization_id'', JStr (py_OrganizationID r))]
     @ omitempty ''user_id'' JStr (py_UserID r) @ [(''display_name'', JStr (py_DisplayName r))]
     @ omitempty ''jersey_number'' JStr (py_JerseyNumber r) @ omitempty ''position'' JStr (py_Position r)
     @ omitempty ''height_cm'' JInt (py_HeightCm r) @ omitempty ''weight_kg'' JInt (py_WeightKg r)
     @ omitempty ''dominant_hand'' JStr (py_DominantHand r) @ omitempty ''nationality'' JStr (py_Nationality r)
     @ omitempty ''date_of_birth'' JStr (py_DateOfBirth r) @ [(''status'', JStr (py_Status r))]
     @ omitempty ''bio'' JStr (py_Bio r) @ [(''visibility'', JStr (py_Visibility r))]
     @ omitempty ''avatar_url'' JStr (py_AvatarURL r)
     @ [(''created_at'', JStr (py_CreatedAt r)), (''updated_at'', JStr (py_UpdatedAt r))])"

definition playerToAuditJSON :: "account_env \<Rightarrow> player_row \<Rightarrow> payload" where
  "playerToAuditJSON ae p = marshalPayload [(''id'', JStr (UUIDToString (pl_ID p))),
     (''organization_id'', JStr (UUIDToString (pl_OrganizationID p))), (''user_id'', json_opt JStr (uuidStringPtr (pl_UserID p))),
     (''display_name'', JStr (pl_DisplayName p)), (''jersey_number'', json_opt JStr (pl_JerseyNumber p)),
     (''position'', json_opt JStr (pl_Position p)), (''height_cm'', json_opt JInt (pl_HeightCm p)),
     (''weight_kg'', json_opt JInt (pl_WeightKg p)), (''dominant_hand'', json_opt JStr (pl_DominantHand p)),
     (''nationality'', json_opt JStr (pl_Nationality p)),
     (''date_of_birth'', json_opt JStr (map_option (ac_format_date ae) (pl_DateOfBirth p))),
     (''status'', JStr (PlayerStatus_str (pl_Status p))), (''bio'', json_opt JStr (pl_Bio p)),
     (''created_at'', JStr (env_format_time (ac_env ae) (ts_Time (pl_CreatedAt p)))),
     (''updated_at'', JStr (env_format_time (ac_env ae) (ts_Time (pl_UpdatedAt p))))]"

section \<open>Helpers\<close>

definition validateDominantHand :: "string option \<Rightarrow> player_error + unit" where
  "validateDominantHand s = (if derefStr s = [] then Inr ()
     else ensure (strings_ToLower (derefStr s) \<in> {''left'', ''right'', ''ambidextrous''}) PlayerErrInvalidDominantHand)"

definition normalizeNationality :: "string option \<Rightarrow> player_error + string option" where
  "normalizeNationality s = (if derefStr s = [] then Inr None
     else let code = strings_ToUpper (strings_TrimSpace (derefStr s)) in
       if length code \<noteq> 2 then Inl PlayerErrInvalidNationality else Inr (Some code))"

definition parseDateOfBirth :: "account_env \<Rightarrow> string option \<Rightarrow> player_error + int option" where
  "parseDateOfBirth ae s = (if derefStr s = [] then Inr None
     else case ac_parse_date ae (derefStr s) of
       None \<Rightarrow> Inl PlayerErrInvalidDateOfBirth
     | Some t \<Rightarrow> if t * minutes (24 * 60) < now_of ae then Inr (Some t) else Inl PlayerErrInvalidDateOfBirth)"

definition parseOptionalUserID :: "account_env \<Rightarrow> string option \<Rightarrow> player_error + uuid" where
  "parseOptionalUserID ae s = (if derefStr s = [] then Inr None
     else res_map_err PlayerErrUUID (ParseUUID (env_scan (ac_env ae)) (derefStr s)))"

definition parsePlayerStatus :: "string \<Rightarrow> player_error + PlayerStatus" where
  "parsePlayerStatus = parse_enum PlayerErrInvalidStatus PlayerStatus_str
     [PlayerStatusActive, PlayerStatusInactive, PlayerStatusInjured, PlayerStatusSuspended, PlayerStatusRetired]"

definition normalizeVisibility :: "string option \<Rightarrow> string \<Rightarrow> player_error + string" where
  "normalizeVisibility v fallback = (if derefStr v = [] then Inr fallback
     else parse_enum PlayerErrInvalidVisibility (\<lambda>s. s) [''public'', ''unlisted'', ''private''] (derefStr v))"

definition player_GetOrgBySlug :: "database \<Rightarrow> string \<Rightarrow> player_error + org_row" where
  "player_GetOrgBySlug d slug = no_rows_as PlayerErrOrganizationNotFound PlayerErrSql (GetOrganizationBySlug d slug)"

definition player_actor :: "account_env \<Rightarrow> string \<Rightarrow> player_error + uuid" where
  "player_actor ae actorID = res_map_err (\<lambda>_. PlayerErrInvalidActor) (ParseUUID (env_scan (ac_env ae)) actorID)"

definition player_owner :: "database \<Rightarrow> string \<Rightarrow> string \<Rightarrow> player_error + org_row" where
  "player_owner d orgSlug actorOrgID = res_bind (player_GetOrgBySlug d orgSlug) (\<lambda>org.
     res_bind (assert_owner PlayerErrForbidden actorOrgID (UUIDToString (o_ID org))) (\<lambda>_. Inr org))"

definition player_of_url :: "account_env \<Rightarrow> database \<Rightarrow> uuid \<Rightarrow> string \<Rightarrow> player_error + player_row" where
  "player_of_url ae d orgID playerID =
     res_bind (res_map_err (\<lambda>_. PlayerErrPlayerNotFound) (ParseUUID (env_scan (ac_env ae)) playerID)) (\<lambda>pid.
       no_rows_as PlayerErrPlayerNotFound PlayerErrSql (GetPlayerByID d pid orgID))"

section \<open>Transactions\<close>

record createPlayerTxParams =
  ptc_createParams :: CreatePlayerParams
  ptc_actorID :: uuid

definition player_CreateWithAudit :: "account_env \<Rightarrow> createPlayerTxParams \<Rightarrow> database \<Rightarrow> player_error + (player_row \<times> database)" where
  "player_CreateWithAudit ae p d =
     res_bind (res_map_err PlayerErrSql (CreatePlayer (ac_env ae) (ptc_createParams p) d)) (\<lambda>(r, d1).
       Inr (r, CreateAuditLog (ac_env ae) (auditParams (pl_OrganizationID r) (ptc_actorID p) AuditActionCreate ''players''
           (pl_ID r) PEmpty (playerToAuditJSON ae r)) d1))"

record updatePlayerTxParams =
  ptu_updateParams :: UpdatePlayerParams
  ptu_actorID :: uuid
  ptu_oldData :: payload

definition player_UpdateWithAudit :: "account_env \<Rightarrow> updatePlayerTxParams \<Rightarrow> database \<Rightarrow> player_error + (player_row \<times> database)" where
  "player_UpdateWithAudit ae p d =
     res_bind (no_rows_as PlayerErrPlayerNotFound PlayerErrSql (UpdatePlayer (ac_env ae) (ptu_updateParams p) d)) (\<lambda>(r, d1).
       Inr (r, CreateAuditLog (ac_env ae) (auditParams (pl_OrganizationID r) (ptu_actorID p) AuditActionUpdate ''players''
           (pl_ID r) (ptu_oldData p) (playerToAuditJSON ae r)) d1))"

record softDeletePlayerTxParams =
  ptd_id :: uuid
  ptd_orgID :: uuid
  ptd_actorID :: uuid
  ptd_oldData :: payload

definition SoftDeleteWithAudit :: "account_env \<Rightarrow> softDeletePlayerTxParams \<Rightarrow> database \<Rightarrow> player_error + database" where
  "SoftDeleteWithAudit ae p d =
     res_bind (no_rows_as PlayerErrPlayerNotFound PlayerErrSql (SoftDeletePlayer (ac_env ae) (ptd_id p) (ptd_orgID p) d)) (\<lambda>(_, d1).
       Inr (CreateAuditLog (ac_env ae) (auditParams (ptd_orgID p) (ptd_actorID p) AuditActionDelete ''players'' (ptd_id p)
           (ptd_oldData p) PEmpty) d1))"

definition CreateGlobalProfile :: "account_env \<Rightarrow> CreatePlayerParams \<Rightarrow> string \<Rightarrow> database \<Rightarrow> player_error + (player_row \<times> database)" where
  "CreateGlobalProfile ae p visibility d = res_map_err (\<lambda>e. if e = ConstraintViolation ''uq_players_user_id''
     then PlayerErrProfileExists else PlayerErrSql e) (CreateGlobalPlayerProfile (ac_env ae) p visibility d)"

definition UpdateOwnProfile :: "account_env \<Rightarrow> UpdatePlayerParams \<Rightarrow> uuid \<Rightarrow> string \<Rightarrow> database \<Rightarrow> player_error + (player_row \<times> database)" where
  "UpdateOwnProfile ae p userID visibility d =
     no_rows_as PlayerErrPlayerNotFound PlayerErrSql (UpdateOwnPlayerProfile (ac_env ae) p userID visibility d)"

section \<open>Players of an organization\<close>

definition prepare_player :: "account_env \<Rightarrow> database \<Rightarrow> string \<Rightarrow> PlayerCreateRequest \<Rightarrow> string \<Rightarrow> string
    \<Rightarrow> player_error + createPlayerTxParams" where
  "prepare_player ae d orgSlug req actorID actorOrgID =
     res_bind (player_owner d orgSlug actorOrgID) (\<lambda>org.
     res_bind (player_actor ae actorID) (\<lambda>actorUID.
     res_bind (validateDominantHand (pq_DominantHand req)) (\<lambda>_.
     res_bind (normalizeNationality (pq_Nationality req)) (\<lambda>nationality.
     res_bind (parseDateOfBirth ae (pq_DateOfBirth req)) (\<lambda>dob.
     res_bind (parseOptionalUserID ae (pq_UserID req)) (\<lambda>userUID.
       Inr \<lparr>ptc_createParams = \<lparr>cp_OrganizationID = o_ID org, cp_UserID = userUID,
              cp_DisplayName = strings_TrimSpace (pq_DisplayName req), cp_JerseyNumber = pq_JerseyNumber req,
              cp_Position = pq_Position req, cp_HeightCm = pq_HeightCm req, cp_WeightKg = pq_WeightKg req,
              cp_DominantHand = pq_DominantHand req, cp_Nationality = nationality, cp_DateOfBirth = dob,
              cp_Bio = pq_Bio req\<rparr>, ptc_actorID = actorUID\<rparr>))))))"

definition player_Create :: "account_env \<Rightarrow> string \<Rightarrow> PlayerCreateRequest \<Rightarrow> string \<Rightarrow> string \<Rightarrow> database
    \<Rightarrow> player_error + (PlayerResponse \<times> database)" where
  "player_Create ae orgSlug req actorID actorOrgID d =
     res_bind (prepare_player ae d orgSlug req actorID actorOrgID) (\<lambda>p.
     res_bind (player_CreateWithAudit ae p d) (\<lambda>(r, d'). Inr (playerToResponse ae r, d')))"

definition player_List :: "account_env \<Rightarrow> string \<Rightarrow> PlayerListParams \<Rightarrow> database \<Rightarrow> player_error + PlayerListResponse" where
  "player_List ae orgSlug p d = res_bind (player_GetOrgBySlug d orgSlug) (\<lambda>org.
     let limit = (if pz_Limit p \<le> 0 \<or> pz_Limit p > 200 then 50 else pz_Limit p);
         offset = (if pz_Offset p < 0 then 0 else pz_Offset p) in
     Inr \<lparr>pw_Players = map (playerToResponse ae) (ListPlayersPaginated d (o_ID org) (pz_StatusFilter p) (pz_Search p) offset limit),
          pw_Total = CountPlayersByOrganization d (o_ID org) (pz_StatusFilter p) (pz_Search p), pw_Limit = limit, pw_Offset = offset\<rparr>)"

definition player_Get :: "account_env \<Rightarrow> (uuid \<Rightarrow> uuid \<Rightarrow> string option) \<Rightarrow> string \<Rightarrow> string \<Rightarrow> database \<Rightarrow> player_error + PlayerResponse" where
  "player_Get ae avatar orgSlug playerID d = res_bind (player_GetOrgBySlug d orgSlug) (\<lambda>org.
     res_bind (player_of_url ae d (o_ID org) playerID) (\<lambda>r.
       Inr ((playerToResponse ae r)\<lparr>py_AvatarURL := avatar (pl_ID r) (o_ID org)\<rparr>)))"

definition player_params :: "player_row \<Rightarrow> UpdatePlayerParams" where
  "player_params r = \<lparr>yp_ID = pl_ID r, yp_OrganizationID = pl_OrganizationID r, yp_DisplayName = pl_DisplayName r,
     yp_JerseyNumber = pl_JerseyNumber r, yp_Position = pl_Position r, yp_HeightCm = pl_HeightCm r,
     yp_WeightKg = pl_WeightKg r, yp_DominantHand = pl_DominantHand r, yp_Nationality = pl_Nationality r,
     yp_DateOfBirth = pl_DateOfBirth r, yp_Bio = pl_Bio r, yp_Status = pl_Status r\<rparr>"

text \<open>The identity fields, which both updates overlay alike.\<close>

definition overlay_identity :: "account_env \<Rightarrow> PlayerUpdateRequest \<Rightarrow> UpdatePlayerParams \<Rightarrow> player_error + UpdatePlayerParams" where
  "overlay_identity ae req p =
     res_bind (case pu_DominantHand req of None \<Rightarrow> Inr (yp_DominantHand p)
       | Some _ \<Rightarrow> res_bind (validateDominantHand (pu_DominantHand req)) (\<lambda>_. Inr (pu_DominantHand req))) (\<lambda>hand.
     res_bind (overlay (pu_Nationality req) (\<lambda>s. normalizeNationality (Some s)) (yp_Nationality p)) (\<lambda>nationality.
     res_bind (overlay (pu_DateOfBirth req) (\<lambda>s. parseDateOfBirth ae (Some s)) (yp_DateOfBirth p)) (\<lambda>dob.
       Inr (p\<lparr>yp_DisplayName := (case pu_DisplayName req of None \<Rightarrow> yp_DisplayName p | Some s \<Rightarrow> strings_TrimSpace s),
         yp_JerseyNumber := override (pu_JerseyNumber req) (yp_JerseyNumber p),
         yp_Position := override (pu_Position req) (yp_Position p), yp_HeightCm := override (pu_HeightCm req) (yp_HeightCm p),
         yp_WeightKg := override (pu_WeightKg req) (yp_WeightKg p), yp_DominantHand := hand,
         yp_Nationality := nationality, yp_DateOfBirth := dob, yp_Bio := override (pu_Bio req) (yp_Bio p)\<rparr>))))"

definition prepare_player_update :: "account_env \<Rightarrow> database \<Rightarrow> string \<Rightarrow> string \<Rightarrow> PlayerUpdateRequest \<Rightarrow> string \<Rightarrow> string
    \<Rightarrow> player_error + updatePlayerTxParams" where
  "prepare_player_update ae d orgSlug playerID req actorID actorOrgID =
     res_bind (player_owner d orgSlug actorOrgID) (\<lambda>org.
     res_bind (player_of_url ae d (o_ID org) playerID) (\<lambda>current.
     res_bind (player_actor ae actorID) (\<lambda>actorUID.
     res_bind (overlay_identity ae req (player_params current)) (\<lambda>p.
     res_bind (overlay (pu_Status req) parsePlayerStatus (yp_Status p)) (\<lambda>status.
       Inr \<lparr>ptu_updateParams = p\<lparr>yp_Status := status\<rparr>, ptu_actorID = actorUID,
            ptu_oldData = PDoc (player_response_json (playerToResponse ae current))\<rparr>)))))"

definition player_Update :: "account_env \<Rightarrow> string \<Rightarrow> string \<Rightarrow> PlayerUpdateRequest \<Rightarrow> string \<Rightarrow> string \<Rightarrow> database
    \<Rightarrow> player_error + (PlayerResponse \<times> database)" where
  "player_Update ae orgSlug playerID req actorID actorOrgID d =
     res_bind (prepare_player_update ae d orgSlug playerID req actorID actorOrgID) (\<lambda>p.
     res_bind (player_UpdateWithAudit ae p d) (\<lambda>(r, d'). Inr (playerToResponse ae r, d')))"

definition prepare_player_delete :: "account_env \<Rightarrow> database \<Rightarrow> string \<Rightarrow> string \<Rightarrow> string \<Rightarrow> string
    \<Rightarrow> player_error + softDeletePlayerTxParams" where
  "prepare_player_delete ae d orgSlug playerID actorID actorOrgID =
     res_bind (player_owner d orgSlug actorOrgID) (\<lambda>org.
     res_bind (player_of_url ae d (o_ID org) playerID) (\<lambda>current.
     res_bind (player_actor ae actorID) (\<lambda>actorUID.
       Inr \<lparr>ptd_id = pl_ID current, ptd_orgID = pl_OrganizationID current, ptd_actorID = actorUID,
            ptd_oldData = PDoc (player_response_json (playerToResponse ae current))\<rparr>)))"

definition player_Delete :: "account_env \<Rightarrow> string \<Rightarrow> string \<Rightarrow> string \<Rightarrow> string \<Rightarrow> database \<Rightarrow> player_error + database" where
  "player_Delete ae orgSlug playerID actorID actorOrgID d =
     res_bind (prepare_player_delete ae d orgSlug playerID actorID actorOrgID) (\<lambda>p. SoftDeleteWithAudit ae p d)"

section \<open>The profile of a user\<close>

definition GetProfileByUserID :: "database \<Rightarrow> uuid \<Rightarrow> player_error + player_row" where
  "GetProfileByUserID d userID = no_rows_as PlayerErrPlayerNotFound PlayerErrSql (select_one (own_profile userID) (players d))"

definition CreateOwn :: "account_env \<Rightarrow> string \<Rightarrow> PlayerCreateRequest \<Rightarrow> database \<Rightarrow> player_error + (PlayerResponse \<times> database)" where
  "CreateOwn ae actorID req d =
     res_bind (player_actor ae actorID) (\<lambda>actorUID.
     res_bind (ensure (\<not> is_ok (GetProfileByUserID d actorUID)) PlayerErrProfileExists) (\<lambda>_.
     res_bind (validateDominantHand (pq_DominantHand req)) (\<lambda>_.
     res_bind (normalizeNationality (pq_Nationality req)) (\<lambda>nationality.
     res_bind (parseDateOfBirth ae (pq_DateOfBirth req)) (\<lambda>dob.
     res_bind (normalizeVisibility (pq_Visibility req) ''private'') (\<lambda>visibility.
     res_bind (CreateGlobalProfile ae \<lparr>cp_OrganizationID = None, cp_UserID = actorUID,
         cp_DisplayName = strings_TrimSpace (pq_DisplayName req), cp_JerseyNumber = pq_JerseyNumber req,
         cp_Position = pq_Position req, cp_HeightCm = pq_HeightCm req, cp_WeightKg = pq_WeightKg req,
         cp_DominantHand = pq_DominantHand req, cp_Nationality = nationality, cp_DateOfBirth = dob,
         cp_Bio = pq_Bio req\<rparr> visibility d) (\<lambda>(r, d'). Inr (playerToResponse ae r, d'))))))))"

definition GetOwn :: "account_env \<Rightarrow> string \<Rightarrow> database \<Rightarrow> player_error + PlayerResponse" where
  "GetOwn ae actorID d = res_bind (player_actor ae actorID) (\<lambda>actorUID.
     res_bind (GetProfileByUserID d actorUID) (\<lambda>r. Inr (playerToResponse ae r)))"

definition prepare_own_update :: "account_env \<Rightarrow> database \<Rightarrow> string \<Rightarrow> PlayerUpdateRequest
    \<Rightarrow> player_error + (UpdatePlayerParams \<times> uuid \<times> string)" where
  "prepare_own_update ae d actorID req =
     res_bind (player_actor ae actorID) (\<lambda>actorUID.
     res_bind (GetProfileByUserID d actorUID) (\<lambda>current.
     res_bind (overlay_identity ae req (player_params current)) (\<lambda>p.
     res_bind (overlay (pu_Visibility req) (\<lambda>v. normalizeVisibility (Some v) (pl_Visibility current)) (pl_Visibility current)) (\<lambda>visibility.
       Inr (p, actorUID, visibility)))))"

definition UpdateOwn :: "account_env \<Rightarrow> string \<Rightarrow> PlayerUpdateRequest \<Rightarrow> database \<Rightarrow> player_error + (PlayerResponse \<times> database)" where
  "UpdateOwn ae actorID req d = res_bind (prepare_own_update ae d actorID req) (\<lambda>(p, userID, visibility).
     res_bind (UpdateOwnProfile ae p userID visibility d) (\<lambda>(r, d'). Inr (playerToResponse ae r, d')))"

definition GetByIDGlobal :: "account_env \<Rightarrow> string \<Rightarrow> string \<Rightarrow> bool \<Rightarrow> database \<Rightarrow> player_error + PlayerResponse" where
  "GetByIDGlobal ae uid actorID isPlatform d =
     res_bind (res_map_err (\<lambda>_. PlayerErrPlayerNotFound) (ParseUUID (env_scan (ac_env ae)) uid)) (\<lambda>pid.
     res_bind (no_rows_as PlayerErrPlayerNotFound PlayerErrSql (GetPlayerProfileByID d pid)) (\<lambda>r.
       if (Valid (pl_UserID r) \<and> UUIDToString (pl_UserID r) = actorID) \<or> isPlatform then Inr (playerToResponse ae r)
       else if pl_Visibility r = ''public'' \<or> pl_Visibility r = ''unlisted'' then Inr (playerToResponse ae r)
       else Inl PlayerErrPlayerNotFound))"

end
