(* ===== verification/Roster_Properties.thy ===== *)
theory Roster_Properties
  imports Team_Service Player_Service Demo_Data
begin

text \<open>
  Teams, players and rosters under any interleaving of their transactions: the constraints of the three
  tables as a type of the database, and the rule of one active membership for a player.
\<close>

section \<open>Steps\<close>

text \<open>
  The transactions with whatever parameters a preparation may have computed from an older state.  Other
  components do not write the three tables.
\<close>

inductive roster_step :: "database \<Rightarrow> database \<Rightarrow> bool" where
  create_team: "team_CreateWithAudit ev p d = Inr (t, d') \<Longrightarrow> roster_step d d'"
| update_team: "team_UpdateWithAudit ev q d = Inr (t, d') \<Longrightarrow> roster_step d d'"
| disband_team: "team_DisbandWithAudit ev z d = Inr d' \<Longrightarrow> roster_step d d'"
| add_member: "AddMemberWithAudit ev a d = Inr (m, d') \<Longrightarrow> roster_step d d'"
| remove_member: "RemoveMemberWithAudit ev r d = Inr d' \<Longrightarrow> roster_step d d'"
| create_player: "player_CreateWithAudit ae c d = Inr (pl, d') \<Longrightarrow> roster_step d d'"
| update_player: "player_UpdateWithAudit ae u d = Inr (pl, d') \<Longrightarrow> roster_step d d'"
| delete_player: "SoftDeleteWithAudit ae x d = Inr d' \<Longrightarrow> roster_step d d'"
| create_profile: "CreateGlobalProfile ae g v d = Inr (pl, d') \<Longrightarrow> roster_step d d'"
| update_profile: "UpdateOwnProfile ae o' w v d = Inr (pl, d') \<Longrightarrow> roster_step d d'"
| others: "teams d' = teams d \<Longrightarrow> players d' = players d \<Longrightarrow> team_memberships d' = team_memberships d \<Longrightarrow> roster_step d d'"

section \<open>The type of the tables\<close>

definition teams_ok :: "team_row list \<Rightarrow> bool" where
  "teams_ok ts \<longleftrightarrow> distinct (map tm_ID ts) \<and> distinct (map (\<lambda>t. (tm_OrganizationID t, tm_Slug t)) ts)
     \<and> (\<forall>t \<in> set ts. tm_ID t \<noteq> None \<and> tm_OrganizationID t \<noteq> None \<and> team_checks t)"

definition canonical :: "player_row \<Rightarrow> bool" where
  "canonical p \<longleftrightarrow> pl_UserID p \<noteq> None \<and> pl_ArchivedAt p = None"

text \<open>A player satisfied the checks when it was last written; a user has one profile.\<close>

definition players_ok :: "player_row list \<Rightarrow> bool" where
  "players_ok ps \<longleftrightarrow> distinct (map pl_ID ps) \<and> distinct (map pl_UserID (filter canonical ps))
     \<and> (\<forall>p \<in> set ps. pl_ID p \<noteq> None \<and> (\<exists>now. player_checks now p))"

definition roster_ok :: "database \<Rightarrow> bool" where
  "roster_ok d \<longleftrightarrow> teams_ok (teams d) \<and> players_ok (players d) \<and> distinct (map ms_ID (team_memberships d))
     \<and> (\<forall>m \<in> set (team_memberships d). ms_ID m \<noteq> None \<and> membership_org_ok d m \<and> membership_checks m)"

lemma map_update_rows: "(\<And>r. k (f r) = k r) \<Longrightarrow> map k (update_rows P f rows) = map k rows"
  by (simp add: update_rows_def)

lemma map_filter_update_rows:
  "(\<And>r. k (f r) = k r) \<Longrightarrow> (\<And>r. Q (f r) = Q r) \<Longrightarrow> map k (filter Q (update_rows P f rows)) = map k (filter Q rows)"
  by (induction rows) (simp_all add: update_rows_def)

lemma find_unique_row:
  assumes "find P rows = Some t" "distinct (map k rows)" "\<And>r. P r \<Longrightarrow> k r = i" "r \<in> set rows" "P r"
  shows "r = t"
proof -
  have "t \<in> set rows" "P t" using assms(1) by (auto dest: find_SomeD)
  with assms(2-5) show ?thesis unfolding distinct_map by (metis inj_onD)
qed

lemma sql_eq_same: "sql_eq a b \<Longrightarrow> a = b"
  by (metis sql_eq_def)

section \<open>Transactions on teams\<close>

lemma CreateTeam_Inr:
  assumes "CreateTeam ev p d = Inr (t, d')"
  shows "d' = d\<lparr>teams := teams d @ [t]\<rparr>" "tm_OrganizationID t \<noteq> None" "team_checks t" "tm_ID t \<notin> tm_ID ` set (teams d)"
    "tm_ID t \<noteq> None" "t' \<in> set (teams d) \<Longrightarrow> (tm_OrganizationID t', tm_Slug t') \<noteq> (tm_OrganizationID t, tm_Slug t)"
  using assms by (auto simp: CreateTeam_def Let_def created_team_def split: if_splits)

lemma CreateTeam_ok:
  assumes new: "CreateTeam ev p d = Inr (t, d')" and ok: "teams_ok (teams d)"
  shows "teams_ok (teams d')"
proof -
  note t = CreateTeam_Inr[OF new]
  have "(tm_OrganizationID t, tm_Slug t) \<notin> (\<lambda>t. (tm_OrganizationID t, tm_Slug t)) ` set (teams d)"
    using t(6) by (metis (no_types, lifting) imageE)
  with t(2-5) ok show ?thesis unfolding t(1) teams_ok_def by simp
qed

definition same_team :: "team_row \<Rightarrow> team_row \<Rightarrow> bool" where
  "same_team t t' \<longleftrightarrow> tm_ID t' = tm_ID t \<and> tm_OrganizationID t' = tm_OrganizationID t \<and> tm_Slug t' = tm_Slug t"

lemma update_team_Inr:
  assumes "update_team P f d = Inr (t, d')"
  shows "\<exists>t0. find P (teams d) = Some t0 \<and> team_checks (f t0) \<and> d' = d\<lparr>teams := update_rows P f (teams d)\<rparr>"
  using assms by (auto simp: update_team_def split: option.splits if_splits)

lemma update_team_ok:
  assumes upd: "update_team (team_key uid orgID) f d = Inr (t, d')" and ok: "teams_ok (teams d)"
    and same: "\<And>r. same_team r (f r)"
  shows "teams_ok (teams d')"
proof -
  let ?P = "team_key uid orgID"
  from update_team_Inr[OF upd] obtain t0 where t0: "find ?P (teams d) = Some t0" "team_checks (f t0)"
      and d': "d' = d\<lparr>teams := update_rows ?P f (teams d)\<rparr>" by blast
  have k: "tm_ID (f r) = tm_ID r" "tm_OrganizationID (f r) = tm_OrganizationID r" "tm_Slug (f r) = tm_Slug r" for r
    using same[of r] by (simp_all add: same_team_def)
  have ids: "distinct (map tm_ID (teams d))" using ok by (simp add: teams_ok_def)
  have key: "tm_ID r = uid" if "?P r" for r using that by (simp add: team_key_def sql_eq_iff)
  have one: "r = t0" if "r \<in> set (teams d)" "?P r" for r
    using find_unique_row[where k = tm_ID, OF t0(1) ids key that] .
  have "tm_ID r \<noteq> None \<and> tm_OrganizationID r \<noteq> None \<and> team_checks r" if "r \<in> set (update_rows ?P f (teams d))" for r
    using that one t0(2) ok by (auto simp: in_update_rows teams_ok_def k)
  then show ?thesis using ok by (simp add: d' teams_ok_def map_update_rows k)
qed

section \<open>Transactions on players\<close>

lemma insert_player_Inr:
  assumes "insert_player now p d = Inr (r, d')"
  shows "r = p" "d' = d\<lparr>players := players d @ [p]\<rparr>" "player_checks now p" "pl_ID p \<notin> pl_ID ` set (players d)"
    "q \<in> set (players d) \<Longrightarrow> \<not> own_profile (pl_UserID p) q"
  using assms by (auto simp: insert_player_def split: if_splits)

lemma insert_player_ok:
  assumes new: "insert_player now p d = Inr (r, d')" and ok: "players_ok (players d)" and "pl_ID p \<noteq> None"
  shows "players_ok (players d')"
proof -
  note p = insert_player_Inr[OF new]
  have "pl_UserID p \<notin> pl_UserID ` set (filter canonical (players d))" if "canonical p"
  proof
    assume "pl_UserID p \<in> pl_UserID ` set (filter canonical (players d))"
    then obtain q where "q \<in> set (players d)" "canonical q" "pl_UserID q = pl_UserID p" by auto
    then show False using p(5)[of q] by (auto simp: own_profile_def canonical_def sql_eq_iff)
  qed
  with p(3,4) ok assms(3) show ?thesis unfolding p(2) players_ok_def by auto
qed

definition same_player :: "player_row \<Rightarrow> player_row \<Rightarrow> bool" where
  "same_player p p' \<longleftrightarrow> pl_ID p' = pl_ID p \<and> pl_OrganizationID p' = pl_OrganizationID p
     \<and> pl_UserID p' = pl_UserID p \<and> pl_ArchivedAt p' = pl_ArchivedAt p"

lemma update_player_Inr:
  assumes "update_player now P f d = Inr (r, d')"
  shows "\<exists>p0. find P (players d) = Some p0 \<and> player_checks now (f p0) \<and> d' = d\<lparr>players := update_rows P f (players d)\<rparr>"
  using assms by (auto simp: update_player_def split: option.splits if_splits)

lemma update_player_ok:
  assumes upd: "update_player now P f d = Inr (r, d')" and ok: "players_ok (players d)"
    and key: "\<And>p. P p \<Longrightarrow> pl_ID p = uid" and same: "\<And>p. same_player p (f p)"
  shows "players_ok (players d')"
proof -
  from update_player_Inr[OF upd] obtain p0 where p0: "find P (players d) = Some p0" "player_checks now (f p0)"
      and d': "d' = d\<lparr>players := update_rows P f (players d)\<rparr>" by blast
  have k: "pl_ID (f p) = pl_ID p" "pl_UserID (f p) = pl_UserID p" "canonical (f p) = canonical p" for p
    using same[of p] by (simp_all add: same_player_def canonical_def)
  have ids: "distinct (map pl_ID (players d))" using ok by (simp add: players_ok_def)
  have one: "p = p0" if "p \<in> set (players d)" "P p" for p
    using find_unique_row[where k = pl_ID, OF p0(1) ids key that] .
  have "pl_ID p \<noteq> None \<and> (\<exists>now. player_checks now p)" if "p \<in> set (update_rows P f (players d))" for p
  proof -
    from that obtain r0 where r0: "r0 \<in> set (players d)" "p = (if P r0 then f r0 else r0)"
      unfolding in_update_rows by blast
    then show ?thesis using ok one[OF r0(1)] p0(2) by (cases "P r0") (auto simp: players_ok_def k)
  qed
  then show ?thesis using ok by (simp add: d' players_ok_def map_update_rows map_filter_update_rows k)
qed

section \<open>Rosters\<close>

text \<open>Rows stay, and keep what the memberships refer to.\<close>

definition refs_kept :: "database \<Rightarrow> database \<Rightarrow> bool" where
  "refs_kept d d' \<longleftrightarrow> (\<forall>t \<in> set (teams d). \<exists>t' \<in> set (teams d'). same_team t t')
     \<and> (\<forall>p \<in> set (players d). \<exists>p' \<in> set (players d'). same_player p p')"

lemma membership_org_kept: "membership_org_ok d m \<Longrightarrow> refs_kept d d' \<Longrightarrow> membership_org_ok d' m"
  unfolding membership_org_ok_def refs_kept_def same_team_def same_player_def by metis

lemma update_rows_kept: "(\<And>r. R r r) \<Longrightarrow> (\<And>r. R r (f r)) \<Longrightarrow> \<forall>r \<in> set rows. \<exists>r' \<in> set (update_rows P f rows). R r r'"
  by (intro ballI bexI[of _ "if P r then f r else r" for r]) (auto simp: in_update_rows)

lemma same_refl [simp]: "same_team t t" "same_player p p"
  by (simp_all add: same_team_def same_player_def)

lemma members_kept:
  assumes "roster_ok d" "refs_kept d d'" "team_memberships d' = team_memberships d" "teams_ok (teams d')" "players_ok (players d')"
  shows "roster_ok d'"
  using assms membership_org_kept[OF _ assms(2)] by (simp add: roster_ok_def)

lemma CreateMembership_Inr:
  assumes "CreateMembership ev p d = Inr (m, d')"
  shows "m = created_membership ev p" "d' = d\<lparr>team_memberships := team_memberships d @ [m]\<rparr>" "membership_org_ok d m"
    "ms_ID m \<notin> ms_ID ` set (team_memberships d)"
  using assms by (auto simp: CreateMembership_def Let_def split: if_splits)

lemma membership_org_ok_update [simp]: "membership_org_ok (d\<lparr>team_memberships := ms\<rparr>) m = membership_org_ok d m"
  by (simp add: membership_org_ok_def)

lemma CreateMembership_ok:
  assumes new: "CreateMembership ev p d = Inr (m, d')" and ok: "roster_ok d"
  shows "roster_ok d'"
proof -
  note m = CreateMembership_Inr[OF new]
  have "ms_ID m \<noteq> None" "membership_checks m"
    by (simp_all add: m(1) created_membership_def membership_checks_def both_known_def)
  with m(3,4) ok show ?thesis unfolding m(2) roster_ok_def by simp
qed

lemma RemoveMembership_Inr:
  assumes "RemoveMembership ev uid teamID orgID d = Inr (m', d')"
  obtains m where "find (\<lambda>m. sql_eq (ms_ID m) uid \<and> active_member teamID orgID m) (team_memberships d) = Some m"
    "membership_checks (released ev m)"
    "d' = d\<lparr>team_memberships := update_rows (\<lambda>m. sql_eq (ms_ID m) uid \<and> active_member teamID orgID m) (released ev) (team_memberships d)\<rparr>"
  using assms by (auto simp: RemoveMembership_def Let_def split: option.splits if_splits)

lemma released_org [simp]: "membership_org_ok d (released ev m) = membership_org_ok d m" "ms_ID (released ev m) = ms_ID m"
  by (simp_all add: membership_org_ok_def released_def)

lemma RemoveMembership_ok:
  assumes rem: "RemoveMembership ev uid teamID orgID d = Inr (m', d')" and ok: "roster_ok d"
  shows "roster_ok d'"
proof -
  let ?P = "\<lambda>m. sql_eq (ms_ID m) uid \<and> active_member teamID orgID m"
  from RemoveMembership_Inr[OF rem] obtain m where m: "find ?P (team_memberships d) = Some m" "membership_checks (released ev m)"
      and d': "d' = d\<lparr>team_memberships := update_rows ?P (released ev) (team_memberships d)\<rparr>" .
  have ids: "distinct (map ms_ID (team_memberships d))" using ok by (simp add: roster_ok_def)
  have key: "ms_ID r = uid" if "?P r" for r using that by (simp add: sql_eq_iff)
  have one: "r = m" if "r \<in> set (team_memberships d)" "?P r" for r
    using find_unique_row[where k = ms_ID, OF m(1) ids key that] .
  have "ms_ID r \<noteq> None \<and> membership_org_ok d r \<and> membership_checks r"
    if r: "r \<in> set (update_rows ?P (released ev) (team_memberships d))" for r
  proof -
    from r obtain r0 where r0: "r0 \<in> set (team_memberships d)" "r = (if ?P r0 then released ev r0 else r0)"
      unfolding in_update_rows by blast
    then show ?thesis using ok one[OF r0(1)] m(2) by (cases "?P r0") (simp_all add: roster_ok_def)
  qed
  then show ?thesis using ok by (simp add: d' roster_ok_def map_update_rows)
qed

section \<open>Every interleaving\<close>

lemma roster_frame:
  assumes "roster_ok d" "teams d' = teams d" "players d' = players d" "team_memberships d' = team_memberships d"
  shows "roster_ok d'"
  using assms by (simp add: roster_ok_def membership_org_ok_def)

lemma audited [simp]: "roster_ok (CreateAuditLog ev q d) = roster_ok d"
  by (simp add: roster_ok_def membership_org_ok_def)

lemma refs_keptI:
  assumes "set (teams d) \<subseteq> set (teams d') \<or> (\<forall>t \<in> set (teams d). \<exists>t' \<in> set (teams d'). same_team t t')"
    "set (players d) \<subseteq> set (players d') \<or> (\<forall>p \<in> set (players d). \<exists>p' \<in> set (players d'). same_player p p')"
  shows "refs_kept d d'"
proof -
  have kept: "\<exists>x' \<in> B. R x x'" if "A \<subseteq> B \<or> (\<forall>x \<in> A. \<exists>x' \<in> B. R x x')" "x \<in> A" "R x x"
    for A B R and x :: 'x
    using that by blast
  show ?thesis unfolding refs_kept_def
    by (intro conjI ballI; rule kept[OF assms(1)] kept[OF assms(2)]; simp)
qed

lemma teams_step:
  assumes "roster_ok d" "d' = d\<lparr>teams := ts\<rparr>" "teams_ok ts"
    "set (teams d) \<subseteq> set ts \<or> (\<forall>t \<in> set (teams d). \<exists>t' \<in> set ts. same_team t t')"
  shows "roster_ok d'"
proof (rule members_kept[OF assms(1)])
  show "refs_kept d d'" by (rule refs_keptI) (use assms(4) in \<open>simp_all add: assms(2)\<close>)
  show "players_ok (players d')" using assms(1) by (simp add: assms(2) roster_ok_def)
qed (simp_all add: assms(2,3))

lemma players_step:
  assumes "roster_ok d" "d' = d\<lparr>players := ps\<rparr>" "players_ok ps"
    "set (players d) \<subseteq> set ps \<or> (\<forall>p \<in> set (players d). \<exists>p' \<in> set ps. same_player p p')"
  shows "roster_ok d'"
proof (rule members_kept[OF assms(1)])
  show "refs_kept d d'" by (rule refs_keptI) (use assms(4) in \<open>simp_all add: assms(2)\<close>)
  show "teams_ok (teams d')" using assms(1) by (simp add: assms(2) roster_ok_def)
qed (simp_all add: assms(2,3))

lemma roster_okD: "roster_ok d \<Longrightarrow> teams_ok (teams d)" "roster_ok d \<Longrightarrow> players_ok (players d)"
  by (simp_all add: roster_ok_def)

lemma CreateTeam_roster:
  assumes "CreateTeam ev p d = Inr (t, d')" "roster_ok d"
  shows "roster_ok d'"
  using teams_step[OF assms(2) CreateTeam_Inr(1)[OF assms(1)]] CreateTeam_ok[OF assms(1) roster_okD(1)[OF assms(2)]]
  by (simp add: CreateTeam_Inr(1)[OF assms(1)] subset_insertI)

lemma update_team_roster:
  assumes "update_team (team_key uid orgID) f d = Inr (t, d')" "roster_ok d" "\<And>r. same_team r (f r)"
  shows "roster_ok d'"
proof -
  from update_team_Inr[OF assms(1)] have d': "d' = d\<lparr>teams := update_rows (team_key uid orgID) f (teams d)\<rparr>" by blast
  show ?thesis
    using teams_step[OF assms(2) d'] update_team_ok[OF assms(1) roster_okD(1)[OF assms(2)] assms(3)]
      update_rows_kept[of same_team f "teams d" "team_key uid orgID", OF same_refl(1) assms(3)]
    by (simp add: d')
qed

lemma insert_player_roster:
  assumes "insert_player now p d = Inr (r, d')" "roster_ok d" "pl_ID p \<noteq> None"
  shows "roster_ok d'"
  using players_step[OF assms(2) insert_player_Inr(2)[OF assms(1)]]
    insert_player_ok[OF assms(1) roster_okD(2)[OF assms(2)] assms(3)]
  by (simp add: insert_player_Inr(2)[OF assms(1)] subset_insertI)

lemma update_player_roster:
  assumes "update_player now P f d = Inr (r, d')" "roster_ok d" "\<And>p. P p \<Longrightarrow> pl_ID p = uid" "\<And>p. same_player p (f p)"
  shows "roster_ok d'"
proof -
  from update_player_Inr[OF assms(1)] have d': "d' = d\<lparr>players := update_rows P f (players d)\<rparr>" by blast
  show ?thesis
    using players_step[OF assms(2) d'] update_player_ok[OF assms(1) roster_okD(2)[OF assms(2)] assms(3,4)]
      update_rows_kept[of same_player f "players d" P, OF same_refl(2) assms(4)]
    by (simp add: d')
qed

lemma updated_same [simp]:
  "same_team r (updated_team ev p r)" "same_team r (r\<lparr>tm_Status := st, tm_UpdatedAt := at\<rparr>)"
  "same_player q ((identity_fields ev u q)\<lparr>pl_Status := ps\<rparr>)" "same_player q ((identity_fields ev u q)\<lparr>pl_Visibility := v\<rparr>)"
  "same_player q (q\<lparr>pl_Status := ps, pl_UpdatedAt := at\<rparr>)"
  by (simp_all add: same_team_def same_player_def updated_team_def identity_fields_def)

lemma store_roster:
  "UpdateTeam ev q d = Inr (t, d') \<Longrightarrow> roster_ok d \<Longrightarrow> roster_ok d'"
  "DisbandTeam ev i g d = Inr (t, d') \<Longrightarrow> roster_ok d \<Longrightarrow> roster_ok d'"
  "CreatePlayer ev c d = Inr (pl, d') \<Longrightarrow> roster_ok d \<Longrightarrow> roster_ok d'"
  "CreateGlobalPlayerProfile ev c v d = Inr (pl, d') \<Longrightarrow> roster_ok d \<Longrightarrow> roster_ok d'"
  "UpdatePlayer ev u d = Inr (pl, d') \<Longrightarrow> roster_ok d \<Longrightarrow> roster_ok d'"
  "UpdateOwnPlayerProfile ev u w v d = Inr (pl, d') \<Longrightarrow> roster_ok d \<Longrightarrow> roster_ok d'"
  "SoftDeletePlayer ev i g d = Inr (pl, d') \<Longrightarrow> roster_ok d \<Longrightarrow> roster_ok d'"
  unfolding UpdateTeam_def DisbandTeam_def CreatePlayer_def CreateGlobalPlayerProfile_def UpdatePlayer_def
    UpdateOwnPlayerProfile_def SoftDeletePlayer_def
  by (erule (1) update_team_roster insert_player_roster update_player_roster;
      simp add: created_player_def player_key_def sql_eq_iff)+

lemma transaction_roster:
  "team_CreateWithAudit ev p d = Inr (t, d') \<Longrightarrow> roster_ok d \<Longrightarrow> roster_ok d'"
  "team_UpdateWithAudit ev q d = Inr (t, d') \<Longrightarrow> roster_ok d \<Longrightarrow> roster_ok d'"
  "team_DisbandWithAudit ev z d = Inr d' \<Longrightarrow> roster_ok d \<Longrightarrow> roster_ok d'"
  "AddMemberWithAudit ev a d = Inr (m, d') \<Longrightarrow> roster_ok d \<Longrightarrow> roster_ok d'"
  "RemoveMemberWithAudit ev r d = Inr d' \<Longrightarrow> roster_ok d \<Longrightarrow> roster_ok d'"
  "player_CreateWithAudit ae c d = Inr (pl, d') \<Longrightarrow> roster_ok d \<Longrightarrow> roster_ok d'"
  "player_UpdateWithAudit ae u d = Inr (pl, d') \<Longrightarrow> roster_ok d \<Longrightarrow> roster_ok d'"
  "SoftDeleteWithAudit ae x d = Inr d' \<Longrightarrow> roster_ok d \<Longrightarrow> roster_ok d'"
  "CreateGlobalProfile ae g v d = Inr (pl, d') \<Longrightarrow> roster_ok d \<Longrightarrow> roster_ok d'"
  "UpdateOwnProfile ae k w v d = Inr (pl, d') \<Longrightarrow> roster_ok d \<Longrightarrow> roster_ok d'"
  by (auto simp: team_CreateWithAudit_def team_UpdateWithAudit_def team_DisbandWithAudit_def AddMemberWithAudit_def
      RemoveMemberWithAudit_def player_CreateWithAudit_def player_UpdateWithAudit_def SoftDeleteWithAudit_def
      CreateGlobalProfile_def UpdateOwnProfile_def result_simps split: sum.splits
      dest: CreateTeam_roster store_roster CreateMembership_ok RemoveMembership_ok)

lemma roster_step_ok: "roster_step d d' \<Longrightarrow> roster_ok d \<Longrightarrow> roster_ok d'"
proof (induction rule: roster_step.induct)
  case (others d' d)
  then show ?case by (blast intro: roster_frame)
qed (erule (1) transaction_roster)+

lemma roster_steps_ok: "roster_step\<^sup>*\<^sup>* d d' \<Longrightarrow> roster_ok d \<Longrightarrow> roster_ok d'"
  by (induction rule: rtranclp_induct) (auto intro: roster_step_ok)

section \<open>One active membership\<close>

definition one_active :: "database \<Rightarrow> bool" where
  "one_active d \<longleftrightarrow> distinct (map (\<lambda>m. (ms_PlayerID m, ms_OrganizationID m))
     (filter (\<lambda>m. ms_Status m = MembershipStatusActive) (team_memberships d)))"

lemma select_one_none: "\<not> is_ok (select_one P rows) \<Longrightarrow> r \<in> set rows \<Longrightarrow> \<not> P r"
  by (cases "find P rows") (auto simp: select_one_def find_None_iff)

text \<open>The check of the preparation is enough when nothing runs before the commit.\<close>

lemma AddMember_one_active:
  assumes add: "AddMember ev orgSlug teamID req actorID actorOrgID d = Inr (resp, d')" and one: "one_active d"
  shows "one_active d'"
proof -
  from add obtain p name m where p: "prepare_member ev d orgSlug teamID req actorID actorOrgID = Inr (p, name)"
      and m: "AddMemberWithAudit ev p d = Inr (m, d')"
    by (auto simp: AddMember_def result_simps)
  let ?c = "kta_createParams p"
  from p have free: "\<not> is_ok (GetActiveMembershipByPlayer d (cm_PlayerID ?c) (cm_OrganizationID ?c))"
    by (auto simp: prepare_member_def result_simps)
  from m obtain d1 where new: "CreateMembership ev ?c d = Inr (m, d1)" and d': "team_memberships d' = team_memberships d1"
    by (auto simp: AddMemberWithAudit_def result_simps)
  note row = CreateMembership_Inr[OF new]
  have known: "ms_PlayerID m \<noteq> None" "ms_OrganizationID m \<noteq> None"
    using row(3) unfolding membership_org_ok_def sql_eq_iff by metis+
  have fresh: "(ms_PlayerID r, ms_OrganizationID r) \<noteq> (ms_PlayerID m, ms_OrganizationID m)"
    if "r \<in> set (team_memberships d)" "ms_Status r = MembershipStatusActive" for r
    using select_one_none[OF free[unfolded GetActiveMembershipByPlayer_def] that(1)] that(2) known
    by (auto simp: row(1) created_membership_def sql_eq_iff)
  have "(ms_PlayerID m, ms_OrganizationID m) \<notin> (\<lambda>m. (ms_PlayerID m, ms_OrganizationID m)) `
      set (filter (\<lambda>m. ms_Status m = MembershipStatusActive) (team_memberships d))"
  proof (rule notI, elim imageE)
    fix r
    assume "(ms_PlayerID m, ms_OrganizationID m) = (ms_PlayerID r, ms_OrganizationID r)"
      "r \<in> set (filter (\<lambda>m. ms_Status m = MembershipStatusActive) (team_memberships d))"
    then show False using fresh[of r] by simp
  qed
  then show ?thesis using one by (simp add: one_active_def d' row(2))
qed

text \<open>
  C27: Teams, players and rosters keep their type in every interleaving of the transactions of packages
  \<open>teams\<close> and \<open>players\<close>, whatever stale parameters a transaction runs with: identifiers are unique, a slug names
  one team of an organization, every team satisfies the checks of the schema, a user owns at most one profile
  that is not archived, and every membership, past ones included, joins a team and a player of its own
  organization, with a leaving date no earlier than the joining date.  A service call that runs in one go also
  keeps the rule that a player has at most one active membership in an organization.
\<close>

theorem roster_sound:
  assumes "roster_step\<^sup>*\<^sup>* d0 d" "roster_ok d0"
  shows "roster_ok d \<and>
    (one_active d \<and> AddMember ev orgSlug teamID req actorID actorOrgID d = Inr (resp, d') \<longrightarrow> roster_ok d' \<and> one_active d')"
proof (intro conjI impI; (elim conjE)?)
  show ok: "roster_ok d" using assms by (rule roster_steps_ok)
  assume add: "AddMember ev orgSlug teamID req actorID actorOrgID d = Inr (resp, d')"
  then show "roster_ok d'" using ok by (auto simp: AddMember_def result_simps dest: transaction_roster(4))
  assume "one_active d"
  with add show "one_active d'" by (rule AddMember_one_active)
qed

section \<open>A player and two teams\<close>

definition demo_player :: player_row where
  "demo_player = \<lparr>pl_ID = Some 30, pl_OrganizationID = Some 1, pl_UserID = Some 7, pl_DisplayName = ''Raider'',
     pl_JerseyNumber = None, pl_Position = None, pl_HeightCm = Some 180, pl_WeightKg = None, pl_DominantHand = Some ''left'',
     pl_Nationality = Some ''IN'', pl_DateOfBirth = None, pl_Status = PlayerStatusActive, pl_Bio = None,
     pl_Metadata = empty_object, pl_CreatedAt = Some 0, pl_UpdatedAt = Some 0, pl_Visibility = ''private'',
     pl_ArchivedAt = None\<rparr>"

definition demo_roster :: database where
  "demo_roster = (demo_db TournamentStatusOngoing)\<lparr>players := [demo_player],
     teams := [demo_team 10, (demo_team 11)\<lparr>tm_Slug := ''team-2''\<rparr>]\<rparr>"

definition demo_roster_env :: "128 word \<Rightarrow> env" where
  "demo_roster_env new = (demo_env new 9)\<lparr>env_scan := map_of [(''a'', 10), (''b'', 11), (''p'', 30), (''u'', 7)]\<rparr>"

definition demo_add :: AddMemberRequest where
  "demo_add = \<lparr>am_PlayerID = ''p'', am_Role = None, am_JerseyNumber = None, am_Notes = None\<rparr>"

definition demo_added :: "128 word \<Rightarrow> addMemberTxParams" where
  "demo_added team = \<lparr>kta_createParams = \<lparr>cm_TeamID = Some team, cm_PlayerID = Some 30, cm_OrganizationID = Some 1,
     cm_Role = MembershipRolePlayer, cm_JerseyNumber = None, cm_Notes = None\<rparr>, kta_actorID = Some 7\<rparr>"

lemma demo_team_checks: "team_checks (demo_team 10)" "team_checks ((demo_team 11)\<lparr>tm_Slug := ''team-2''\<rparr>)"
  by code_simp+

lemma demo_player_checks: "player_checks 0 demo_player"
  by code_simp

lemma demo_roster_ok: "roster_ok demo_roster"
  using demo_team_checks demo_player_checks
  by (auto simp: roster_ok_def teams_ok_def players_ok_def demo_roster_def demo_db_def demo_team_def demo_player_def canonical_def)

lemmas add_simps = prepare_member_def team_owner_def team_GetOrgBySlug_def GetOrganizationBySlug_def select_one_def
  assert_owner_def team_of_url_def ParseUUID_def GetTeamByID_def team_GetPlayerByID_def GetPlayerByID_def
  GetActiveMembershipByPlayer_def team_actor_def parseMembershipRole_def

lemma demo_prepare:
  "prepare_member (demo_roster_env i) demo_roster ''club'' ''a'' demo_add ''u'' [] = Inr (demo_added 10, ''Raider'')"
  "prepare_member (demo_roster_env i) demo_roster ''club'' ''b'' demo_add ''u'' [] = Inr (demo_added 11, ''Raider'')"
  by (simp_all add: add_simps demo_roster_def demo_db_def demo_org_def demo_team_def demo_player_def demo_roster_env_def
      demo_env_def demo_add_def demo_added_def)

lemmas add_commit_simps = AddMemberWithAudit_def CreateMembership_def created_membership_def membership_org_ok_def
  refers_def Let_def demo_added_def demo_roster_def demo_db_def demo_org_def demo_team_def demo_player_def
  demo_roster_env_def demo_env_def

lemma demo_commit:
  "\<exists>m d1. AddMemberWithAudit (demo_roster_env 90) (demo_added 10) demo_roster = Inr (m, d1) \<and> one_active d1
     \<and> (\<exists>n d2. AddMemberWithAudit (demo_roster_env 91) (demo_added 11) d1 = Inr (n, d2) \<and> \<not> one_active d2)"
  by (simp add: add_commit_simps one_active_def)

lemma roster_sound_witness:
  "\<exists>resp d'. AddMember (demo_roster_env 90) ''club'' ''a'' demo_add ''u'' [] demo_roster = Inr (resp, d')
     \<and> roster_ok d' \<and> one_active d'"
proof -
  from demo_commit obtain m d1 where "AddMemberWithAudit (demo_roster_env 90) (demo_added 10) demo_roster = Inr (m, d1)"
    by blast
  then obtain resp where add: "AddMember (demo_roster_env 90) ''club'' ''a'' demo_add ''u'' [] demo_roster = Inr (resp, d1)"
    by (simp add: AddMember_def demo_prepare)
  have "one_active demo_roster" by (simp add: one_active_def demo_roster_def demo_db_def)
  with add roster_sound[OF rtranclp.rtrancl_refl demo_roster_ok, of "demo_roster_env 90" "''club''" "''a''" demo_add "''u''" "[]" resp d1]
  show ?thesis by blast
qed

text \<open>
  The check is made before the transaction and no index backs it: two additions of one player that both
  prepare before either commits leave the player on two rosters.
\<close>

lemma concurrent_additions_race:
  "\<exists>p q name m n d1 d2.
     prepare_member (demo_roster_env 90) demo_roster ''club'' ''a'' demo_add ''u'' [] = Inr (p, name)
   \<and> prepare_member (demo_roster_env 91) demo_roster ''club'' ''b'' demo_add ''u'' [] = Inr (q, name)
   \<and> AddMemberWithAudit (demo_roster_env 90) p demo_roster = Inr (m, d1)
   \<and> AddMemberWithAudit (demo_roster_env 91) q d1 = Inr (n, d2) \<and> one_active d1 \<and> \<not> one_active d2"
  using demo_commit by (simp add: demo_prepare) blast

end
