(* ===== verification/Slug_Properties.thy ===== *)
theory Slug_Properties
  imports Team_Service Organizations_Service
begin

text \<open>
  The slugs of tournaments, teams and organizations (\<open>generateTournamentSlug\<close>, \<open>generateTeamSlug\<close>,
  \<open>generateSlug\<close>) against the check of the schema.
\<close>

section \<open>The form of a slug\<close>

abbreviation one_slug_char :: "char \<Rightarrow> char \<Rightarrow> bool" where
  "one_slug_char a b \<equiv> slug_char a \<or> slug_char b"

definition slug_form :: "string \<Rightarrow> bool" where
  "slug_form t \<longleftrightarrow> t \<noteq> [] \<and> slug_char (hd t) \<and> slug_char (last t)
     \<and> (\<forall>c \<in> set t. slug_char c \<or> c = CHR ''-'') \<and> successively one_slug_char t"

lemma slug_form_ok: "slug_form t \<Longrightarrow> 3 \<le> length t \<Longrightarrow> length t \<le> 100 \<Longrightarrow> slug_ok t"
  by (simp add: slug_form_def slug_ok_def)

lemma hyphen_no_slug_char [simp]: "\<not> slug_char CHR ''-''"
  by (simp add: slug_char_def)

lemma slug_form_join: "slug_form s \<Longrightarrow> slug_form t \<Longrightarrow> slug_form (s @ CHR ''-'' # t)"
  by (auto simp: slug_form_def successively_append_iff successively_Cons)

lemma dash_runs_chars: "c \<in> set (dash_runs b s) \<Longrightarrow> slug_char c \<or> c = CHR ''-''"
  by (induction b s rule: dash_runs.induct) (auto split: if_splits)

lemma dash_runs_apart:
  "successively one_slug_char (dash_runs b s) \<and> (b \<longrightarrow> dash_runs b s = [] \<or> slug_char (hd (dash_runs b s)))"
  by (induction b s rule: dash_runs.induct) (auto simp: successively_Cons)

lemma dash_runs_same_aux:
  "\<forall>c \<in> set t. slug_char c \<or> c = CHR ''-'' \<Longrightarrow> successively one_slug_char t \<Longrightarrow> (b \<longrightarrow> t = [] \<or> slug_char (hd t))
     \<Longrightarrow> dash_runs b t = t"
proof (induction b t rule: dash_runs.induct)
  case (2 b c cs)
  then show ?case by (cases "slug_char c"; cases cs) auto
qed simp

lemma dash_runs_same:
  "\<forall>c \<in> set t. slug_char c \<or> c = CHR ''-'' \<Longrightarrow> successively one_slug_char t \<Longrightarrow> dash_runs False t = t"
  by (rule dash_runs_same_aux) simp_all

lemma dash_runs_slug_char: "(\<exists>c \<in> set (dash_runs b s). slug_char c) \<longleftrightarrow> (\<exists>c \<in> set s. slug_char c)"
  by (induction b s rule: dash_runs.induct) auto

section \<open>Trimming\<close>

lemma strings_Trim_split: "\<exists>a z. s = a @ strings_Trim c s @ z"
  using strings_TrimRight_prefix[of "dropWhile (\<lambda>x. x = c) s" c] takeWhile_dropWhile_id[of "\<lambda>x. x = c" s]
  unfolding strings_Trim_def by metis

lemma strings_Trim_ends:
  assumes "strings_Trim c s \<noteq> []"
  shows "hd (strings_Trim c s) \<noteq> c" "last (strings_Trim c s) \<noteq> c"
proof -
  have "dropWhile (\<lambda>x. x = c) s \<noteq> []" using assms by (metis strings_Trim_def strings_TrimRight_snoc(1))
  then have "hd (dropWhile (\<lambda>x. x = c) s) \<noteq> c" by (rule hd_dropWhile)
  with assms show "hd (strings_Trim c s) \<noteq> c" by (simp add: strings_Trim_def strings_TrimRight_hd)
  from assms show "last (strings_Trim c s) \<noteq> c" by (simp add: strings_Trim_def strings_TrimRight_last)
qed

lemma strings_Trim_empty: "strings_Trim c s = [] \<longleftrightarrow> set s \<subseteq> {c}"
proof -
  have "set (dropWhile (\<lambda>x. x = c) s) \<subseteq> {c} \<longleftrightarrow> set s \<subseteq> {c}" by (induction s) auto
  then show ?thesis by (simp add: strings_Trim_def strings_TrimRight_empty)
qed

lemma strings_TrimRight_same: "t = [] \<or> last t \<noteq> c \<Longrightarrow> strings_TrimRight c t = t"
  by (cases t rule: rev_cases) auto

lemma strings_Trim_same: "t \<noteq> [] \<Longrightarrow> hd t \<noteq> c \<Longrightarrow> last t \<noteq> c \<Longrightarrow> strings_Trim c t = t"
  by (cases t) (simp_all add: strings_Trim_def strings_TrimRight_same)

text \<open>A segment of such a text between two characters that are not hyphens.\<close>

lemma slug_form_segment:
  assumes "\<forall>c \<in> set s. slug_char c \<or> c = CHR ''-''" "successively one_slug_char s" "s = a @ t @ z"
    "t \<noteq> []" "hd t \<noteq> CHR ''-''" "last t \<noteq> CHR ''-''"
  shows "slug_form t"
  using assms by (auto simp: slug_form_def successively_append_iff)

section \<open>The common part of the generators\<close>

definition slug_base :: "string \<Rightarrow> string" where
  "slug_base name = (let s = strings_Trim CHR ''-'' (dash_runs False (strings_ToLower (strings_TrimSpace name)))
     in if length s > 90 then strings_TrimRight CHR ''-'' (take 90 s) else s)"

abbreviation names_something :: "string \<Rightarrow> bool" where
  "names_something name \<equiv> \<exists>c \<in> set (strings_ToLower (strings_TrimSpace name)). slug_char c"

lemma slug_trimmed_form:
  "strings_Trim CHR ''-'' (dash_runs False s) = [] \<longleftrightarrow> \<not> (\<exists>c \<in> set s. slug_char c)"
  "\<exists>c \<in> set s. slug_char c \<Longrightarrow> slug_form (strings_Trim CHR ''-'' (dash_runs False s))"
proof -
  let ?t = "dash_runs False s"
  show empty: "strings_Trim CHR ''-'' ?t = [] \<longleftrightarrow> \<not> (\<exists>c \<in> set s. slug_char c)"
    using dash_runs_chars[of _ False s] dash_runs_slug_char[of False s] unfolding strings_Trim_empty
    by (auto simp: subset_iff)
  assume "\<exists>c \<in> set s. slug_char c"
  with empty have ne: "strings_Trim CHR ''-'' ?t \<noteq> []" by blast
  obtain a z where split: "?t = a @ strings_Trim CHR ''-'' ?t @ z" using strings_Trim_split by blast
  have chars: "\<forall>c \<in> set ?t. slug_char c \<or> c = CHR ''-''" using dash_runs_chars by blast
  show "slug_form (strings_Trim CHR ''-'' ?t)"
    using slug_form_segment[OF chars _ split ne strings_Trim_ends[OF ne]] dash_runs_apart by blast
qed

lemma slug_cut_form:
  assumes "slug_form s"
  shows "slug_form (strings_TrimRight CHR ''-'' (take 90 s))"
proof -
  let ?t = "strings_TrimRight CHR ''-'' (take 90 s)"
  have first: "take 90 s \<noteq> []" "hd (take 90 s) = hd s" "hd s \<noteq> CHR ''-''" using assms by (auto simp: slug_form_def)
  then have "hd s \<in> set (take 90 s)" by (metis hd_in_set)
  then have ne: "?t \<noteq> []" using first(3) by (auto simp: strings_TrimRight_empty)
  obtain z where "take 90 s = ?t @ z" using strings_TrimRight_prefix by blast
  then have split: "s = [] @ ?t @ (z @ drop 90 s)" by (metis append.assoc append_Nil append_take_drop_id)
  have hd: "hd ?t \<noteq> CHR ''-''" using strings_TrimRight_hd[OF ne] first by simp
  show ?thesis
    by (rule slug_form_segment[OF _ _ split ne hd strings_TrimRight_last[OF ne]]) (use assms in \<open>simp_all add: slug_form_def\<close>)
qed

lemma slug_base_form:
  "slug_base name = [] \<longleftrightarrow> \<not> names_something name"
  "names_something name \<Longrightarrow> slug_form (slug_base name)"
  "length (slug_base name) \<le> 90"
proof -
  let ?s = "strings_Trim CHR ''-'' (dash_runs False (strings_ToLower (strings_TrimSpace name)))"
  show form: "slug_form (slug_base name)" if "names_something name"
    using slug_trimmed_form(2)[OF that] by (simp add: slug_base_def Let_def slug_cut_form)
  have "?s = []" if "\<not> names_something name" using slug_trimmed_form(1) that by blast
  then show "slug_base name = [] \<longleftrightarrow> \<not> names_something name"
    using form by (auto simp: slug_base_def slug_form_def)
  show "length (slug_base name) \<le> 90"
    using length_strings_TrimRight[of "CHR ''-''" "take 90 ?s"] by (simp add: slug_base_def Let_def)
qed

text \<open>A text that has the form already is its own slug.\<close>

lemma slug_char_lower: "slug_char c \<Longrightarrow> lower_char c"
  by (auto simp: slug_char_def lower_char_def plain_char_def Let_def)

lemma slug_base_same:
  assumes "slug_form t" "length t \<le> 90"
  shows "slug_base t = t"
proof -
  have "lower_char CHR ''-''" by code_simp
  moreover have "\<forall>c \<in> set t. slug_char c \<or> c = CHR ''-''" using assms(1) by (simp add: slug_form_def)
  ultimately have "\<forall>c \<in> set t. lower_char c" using slug_char_lower by metis
  then have "strings_ToLower (strings_TrimSpace t) = t" using assms(1) by (intro lower_word) (simp_all add: slug_form_def)
  moreover have "dash_runs False t = t" using assms(1) by (intro dash_runs_same) (simp_all add: slug_form_def)
  moreover have "strings_Trim CHR ''-'' t = t" using assms(1) by (intro strings_Trim_same) (auto simp: slug_form_def)
  ultimately show ?thesis using assms(2) by (simp add: slug_base_def)
qed

section \<open>Prefixes and numbers\<close>

definition slug_prefixed :: "string \<Rightarrow> string \<Rightarrow> string" where
  "slug_prefixed p s = (if length s < 3 then p @ CHR ''-'' # s else s)"

lemma generators:
  "generateTournamentSlug name = slug_prefixed ''tournament'' (slug_base name)"
  "generateTeamSlug name = slug_prefixed ''team'' (slug_base name)"
  "generateSlug name = (let s = slug_prefixed ''org'' (slug_base name) in if s \<in> set reservedSlugs then ''org-'' @ s else s)"
  by (simp_all add: generateTournamentSlug_def generateTeamSlug_def generateSlug_def slug_prefixed_def slug_base_def Let_def)

text \<open>A base that is not empty gives a slug of the form with room for a number.\<close>

definition slug_final :: "string \<Rightarrow> bool" where
  "slug_final s \<longleftrightarrow> slug_form s \<and> 3 \<le> length s \<and> length s \<le> 90"

lemma slug_prefixed_final:
  assumes "slug_form p" "length p \<le> 20" "slug_form s" "length s \<le> 90"
  shows "slug_final (slug_prefixed p s)"
proof -
  have "1 \<le> length p" "1 \<le> length s" using assms by (auto simp: slug_form_def Suc_le_eq)
  then show ?thesis using assms slug_form_join[of p s] by (auto simp: slug_final_def slug_prefixed_def)
qed

lemma slug_prefixed_empty: "\<not> slug_ok (slug_prefixed p [])"
  by (simp add: slug_prefixed_def slug_ok_def)

lemma slug_final_same: "slug_final s \<Longrightarrow> slug_prefixed p (slug_base s) = s"
  by (simp add: slug_final_def slug_base_same slug_prefixed_def)

lemma numbers_form: "list_all (\<lambda>n. slug_form (nat_str n) \<and> length (nat_str n) \<le> 2) [1..<11]"
  by code_simp

lemma slug_final_numbered:
  assumes "slug_final s"
  shows "list_all (\<lambda>n. slug_ok (numbered_slug s n)) [1..<11]"
proof -
  have "slug_ok (numbered_slug s n)" if "n \<in> set [1..<11]" for n
  proof -
    have n: "slug_form (nat_str n)" "length (nat_str n) \<le> 2"
      using numbers_form that unfolding list_all_iff by blast+
    then have "slug_ok (s @ CHR ''-'' # nat_str n)"
      using assms slug_form_join by (intro slug_form_ok) (auto simp: slug_final_def)
    then show ?thesis using assms by (simp add: numbered_slug_def slug_final_def slug_form_ok)
  qed
  then show ?thesis by (simp add: list_all_iff)
qed

lemma prefix_forms: "slug_form ''tournament''" "slug_form ''team''" "slug_form ''org''" "list_all slug_final (map ((@) ''org-'') reservedSlugs)"
  by code_simp+

lemma reserved_twice: "list_all (\<lambda>s. ''org-'' @ s \<notin> set reservedSlugs) reservedSlugs"
  by code_simp

text \<open>What the three generators share.\<close>

definition slug_generator :: "(string \<Rightarrow> string) \<Rightarrow> bool" where
  "slug_generator gen \<longleftrightarrow> (\<forall>name. (names_something name \<longrightarrow> slug_final (gen name)) \<and> (\<not> names_something name \<longrightarrow> \<not> slug_ok (gen name))
     \<and> (names_something name \<longrightarrow> gen (gen name) = gen name))"

lemma prefixed_generator:
  assumes "slug_form p" "length p \<le> 20"
  shows "slug_generator (\<lambda>name. slug_prefixed p (slug_base name))"
  unfolding slug_generator_def
proof (intro allI conjI impI)
  fix name
  show "\<not> slug_ok (slug_prefixed p (slug_base name))" if "\<not> names_something name"
  proof -
    have "slug_base name = []" using that slug_base_form(1) by blast
    then show ?thesis by (simp add: slug_prefixed_empty)
  qed
  assume "names_something name"
  then show "slug_final (slug_prefixed p (slug_base name))"
    by (intro slug_prefixed_final assms slug_base_form)
  then show "slug_prefixed p (slug_base (slug_prefixed p (slug_base name))) = slug_prefixed p (slug_base name)"
    by (rule slug_final_same)
qed

lemma org_generator: "slug_generator generateSlug"
  unfolding slug_generator_def
proof (intro allI conjI impI)
  fix name
  let ?s = "slug_prefixed ''org'' (slug_base name)"
  show "\<not> slug_ok (generateSlug name)" if "\<not> names_something name"
  proof -
    have "slug_base name = []" using that slug_base_form(1) by blast
    then show ?thesis by (simp add: generators(3) slug_prefixed_def reservedSlugs_def slug_ok_def)
  qed
  assume "names_something name"
  then have final: "slug_final ?s" using prefix_forms(3) slug_base_form by (intro slug_prefixed_final) simp_all
  then show org: "slug_final (generateSlug name)"
    using prefix_forms(4) by (simp add: generators(3) Let_def list_all_iff)
  have "generateSlug name \<notin> set reservedSlugs"
    using reserved_twice by (simp add: generators(3) Let_def list_all_iff)
  then show "generateSlug (generateSlug name) = generateSlug name"
    using slug_final_same[OF org] by (simp only: generators(3)[of "generateSlug name"] Let_def if_False)
qed

lemma slug_generators: "gen \<in> {generateTournamentSlug, generateTeamSlug, generateSlug} \<Longrightarrow> slug_generator gen"
  using prefixed_generator[OF prefix_forms(1)] prefixed_generator[OF prefix_forms(2)] org_generator
  by (auto simp: generators(1,2)[abs_def])

text \<open>
  C40: The slug generated from the name of a tournament, a team or an organization satisfies the schema's check
  exactly when the trimmed, lower-cased name holds a letter or digit of ASCII; then the slug is its own slug,
  and so do all ten candidates a creation tries, \<open>slug\<close> and \<open>slug-2\<close> to \<open>slug-10\<close>, fit the check and its bound
  of 100 characters.
\<close>

theorem slug_roundtrip:
  assumes "gen \<in> {generateTournamentSlug, generateTeamSlug, generateSlug}"
  shows "(slug_ok (gen name) \<longleftrightarrow> (\<exists>c \<in> set (strings_ToLower (strings_TrimSpace name)). slug_char c)) \<and>
    (slug_ok (gen name) \<longrightarrow> gen (gen name) = gen name \<and> list_all (\<lambda>n. slug_ok (numbered_slug (gen name) n)) [1..<11])"
proof (cases "names_something name")
  case True
  with slug_generators[OF assms] have gen: "slug_final (gen name)" "gen (gen name) = gen name"
    by (simp_all add: slug_generator_def)
  then have "slug_ok (gen name)" by (simp add: slug_final_def slug_form_ok)
  then show ?thesis using True gen(2) slug_final_numbered[OF gen(1)] by blast
next
  case False
  with slug_generators[OF assms] have "\<not> slug_ok (gen name)" by (simp add: slug_generator_def)
  with False show ?thesis by blast
qed

lemma slug_roundtrip_witness:
  "slug_ok ''cup-1'' \<and> generateTournamentSlug ''cup_1!'' = ''cup-1'' \<and> generateTournamentSlug ''cup-1'' = ''cup-1''"
proof -
  have "strings_ToLower (strings_TrimSpace ''cup_1!'') = ''cup_1!''"
    by (rule lower_word; simp add: lower_char_def plain_char_def)
  then have slug: "generateTournamentSlug ''cup_1!'' = ''cup-1''"
    by (simp add: generateTournamentSlug_def slug_char_def strings_Trim_def strings_TrimRight_def)
  have ok: "slug_ok ''cup-1''" by (simp add: slug_ok_def slug_char_def)
  show ?thesis using slug_roundtrip[of generateTournamentSlug "''cup_1!''"] unfolding slug by (simp add: ok)
qed

end
