(* ===== verification/Spec2Isabelle.thy ===== *)
theory Spec2Isabelle
  imports Generator Standings Match_Theorems Tournament_Standings
    Registration_Properties Account_Access Notify_Machine
    Roster_Properties Slug_Properties
begin

text \<open>
  PlayArena backend: a verification library of the Go services under \<open>backend/internal\<close> and of the
  queries of \<open>backend/db/sqlc\<close> they use.

  \<^bold>\<open>The program.\<close> PlayArena runs kabaddi tournaments.  Organizations own teams, players and
  tournaments; participants register; a pure engine plans the fixtures; matches are played, their events
  are logged and scored; the standings rank the participants; winners move along the bracket.  Accounts,
  role grants and refresh tokens decide who may do what.  Most writes leave an audit row and many
  an outbox entry in the same transaction; workers turn those entries into notifications and webhook
  deliveries.

  \<^bold>\<open>The theories.\<close>
  \<^item> Shared: \<open>Prelude\<close> (error results as sums, \<open>res_bind\<close>, lists), \<open>Go_Strings\<close>, \<open>Go_Sort\<close> (stable sorting,
    the locale \<open>strict_weak_order\<close>), \<open>Uuid\<close> (\<open>platform/pgutil\<close>), \<open>Json_Payload\<close>, \<open>Db_Rows\<close> (the rows of
    \<open>models.go\<close>), \<open>Sql_Store\<close> (the tables, selection, update, audit and outbox; the locale \<open>keyed_update\<close>
    for a row-wise update that keeps the key), \<open>Lifecycle\<close> (the locale \<open>lifecycle\<close> for status tables, with the
    matches, tournaments and registrations as instances).
  \<^item> Fixture engine, package \<open>fixtures\<close>: \<open>Fixture_Types\<close>, \<open>Seeding\<close>, \<open>Circle\<close>, \<open>Euler\<close>, \<open>Balance\<close>,
    \<open>Round_Robin\<close>, \<open>Seed_Slots\<close>, \<open>Bracket\<close>, \<open>Group_Knockout\<close>, \<open>Generator\<close>.
  \<^item> Rules engines: \<open>Scoring\<close> (package \<open>scoring\<close>) and \<open>Standings\<close> (package \<open>standings\<close>).
  \<^item> Matches, packages \<open>matches\<close>, \<open>match_events\<close>, \<open>fixturegen\<close>: \<open>Match_Store\<close>, \<open>Event_Store\<close>,
    \<open>Fixturegen_Store\<close>, \<open>Match_Model\<close>, \<open>Match_Repo\<close>, \<open>Match_Service\<close>, \<open>Match_Events\<close>, \<open>Fixturegen\<close>,
    \<open>Fixturegen_Resolve\<close>; about them \<open>Match_Rules\<close>, \<open>Match_Refine\<close>, \<open>Event_Log\<close>, \<open>Match_Machine\<close>,
    \<open>Match_Properties\<close>, \<open>Match_Theorems\<close>.
  \<^item> Tournaments and registrations: \<open>Tournament_Store\<close>, \<open>Tournament_Model\<close>, \<open>Tournament_Service\<close>,
    \<open>Tournament_Standings\<close>, \<open>Registration_Store\<close>, \<open>Registration_Service\<close>, \<open>Registration_Properties\<close>.
  \<^item> Teams and players: \<open>Team_Store\<close>, \<open>Team_Service\<close>, \<open>Player_Store\<close>, \<open>Player_Service\<close>,
    \<open>Roster_Properties\<close>; the slugs of all three kinds of names in \<open>Slug_Properties\<close>.
  \<^item> Accounts, packages \<open>auth\<close>, \<open>users\<close>, \<open>members\<close>, \<open>organizations\<close>: \<open>Account_Rows\<close>, \<open>Account_Store\<close>,
    \<open>Grant_Store\<close>, \<open>Auth_Model\<close>, \<open>Auth_Repo\<close>, \<open>Auth_Service\<close>, \<open>Authorization\<close>, \<open>Users_Service\<close>,
    \<open>Members_Service\<close>, \<open>Organizations_Service\<close>; about them \<open>Account_Machine\<close>, \<open>Account_Properties\<close>,
    \<open>Account_Theorems\<close>, \<open>Account_Access\<close>.
  \<^item> Notifications, packages \<open>notifications\<close>, \<open>notifworker\<close>, \<open>webhooks\<close>, \<open>webhookworker\<close>, \<open>cleanup\<close>:
    \<open>Notify_Store\<close>, \<open>Notify_Service\<close>, \<open>Webhook_Guard\<close>, \<open>Webhook_Service\<close>, \<open>Delivery_Workers\<close>; about them
    \<open>Delivery_Properties\<close> (the locale \<open>delivery_worker\<close>, with both workers as instances),
    \<open>Drain_Properties\<close>, \<open>Notify_Machine\<close>.
  \<^item> \<open>Demo_Data\<close>, \<open>Match_Demo\<close> and \<open>Bracket_Demo\<close> hold concrete states for the instances of the properties.
\<close>

text \<open>
  \<^bold>\<open>How the code is modelled.\<close> A table is a list of rows in insertion order, a row a record with the
  columns of \<open>models.go\<close>, a nullable column an option, a UUID a 128-bit word or none.  A query is a function
  of the database; where the schema has a check, key, trigger or foreign key that the query can violate,
  violating it is an error value.  A service operation keeps the order of the code's guards and early returns;
  each sentinel error is a constructor of the package's error type.  Integers are unbounded where the code
  cannot leave its width and cut to it where it converts (the 16-bit match numbers, the 32-bit snapshot of a score).

  \<^bold>\<open>Transactions and interleaving.\<close> A transaction is one atomic function of the database, rolled back by
  an error.  An operation that reads before its transaction is split: a preparation on one database, and the
  commit on whatever the database has become.  The step relations \<open>mstep\<close>, \<open>account_step\<close>, \<open>notify_step\<close>
  and \<open>roster_step\<close> run commits in any order, with parameters prepared at any earlier time, or with any
  parameters at all; a property over their closure holds in every interleaving.  \<open>reg_step\<close> serves
  each registration request as a whole, and the race two interleaved ones have is stated beside it.
  The outbox drain, the claims and the records of the workers are separate steps.

  \<^bold>\<open>What is shown.\<close> Fixtures: \<open>Generate\<close> accepts exactly the documented inputs and its plans are
  complete round-robins whose home and away counts differ by at most one, or proper brackets with byes to the top seeds.
  Scores are exact sums, standings are deterministic, conserve points and rank everyone once.  Matches: the
  transactions refine the life cycle of a row; decided matches and their logs are frozen; logs are gap-free
  and corrected at most once; a stored result can be recomputed; winners reach exactly the linked slot; an
  organization never touches another's matches.  Registrations served one by one respect capacity.  Accounts: one live token per
  family, dead tokens stay dead, reuse revokes all sessions, reset tokens work once, deactivation locks out,
  tokens and routes match live grants, a revocation in one go leaves an owner.  Rosters: the type of the tables, one active
  membership per player where a request runs in one go.  Notifications: fan-out is exact and happens at most once, deliveries settle within a bounded
  number of passes, connections go to public addresses only.  Slugs fit the schema exactly when the name holds
  a letter or digit.  Where a guard is weaker than its comment says, a lemma exhibits the race.

  \<^bold>\<open>Loops and bounds.\<close> All definitions are total.  The loops of the engine recurse on lists or with a
  \<open>termination\<close> proof; the walk of \<open>orientBalanced\<close> (\<open>Balance.hloop\<close>) is shown to visit every edge; a delivery
  has at most three attempts, and is settled within a number of passes that its attempts bound.

  \<^bold>\<open>Parameters.\<close> Time parsing and formatting, \<open>UUID.Scan\<close>, \<open>Numeric.Scan\<close>, \<open>strconv\<close> floats, the clock and
  the identifiers the database draws (\<open>env\<close>); bcrypt, SHA-256, JWT and random bytes (\<open>account_env\<close>); AES-GCM,
  HMAC, \<open>url.Parse\<close>, DNS, HTTP and mail; \<open>math/rand\<close>.  A request reads the clock once.  Case folding covers
  ASCII and the code points that fold into it; text is ordered bytewise; rows equal in an \<open>ORDER BY\<close> keep
  insertion order.

  \<^bold>\<open>Not modelled.\<close> HTTP handlers, routes and validation tags; logging, metrics, configuration and pool;
  the rankings, news, media, public read API, realtime hub and mail templates; the cascade of an organization's
  deletion; foreign keys of the core tables into \<open>users\<close>; the normal form of \<open>jsonb\<close>; the deadline of a drain
  and lost connections; the equalization of response times; the web frontend.
\<close>

end
